(* ===== verification/Prelude.thy ===== *)
theory Prelude
  imports Main "HOL-Library.Char_ord" "HOL-Library.List_Lexorder" "HOL-Library.Multiset"
begin

section \<open>Shared vocabulary of the development\<close>

text \<open>
  What every component of the model uses: Go's byte strings and
  \<^verbatim>\<open>strings.TrimSpace\<close>, Go maps as association lists whose list order
  stands for the unspecified iteration order of \<^verbatim>\<open>range\<close>, results
  of fallible functions as sums (\<open>Inl\<close> the error), the validation loops
  that recur in every contract, and \<^verbatim>\<open>sort.Slice\<close> as an insertion
  sort over a comparison function, with its contract as a locale.
\<close>

named_theorems res_simps \<open>unfolding of the result combinators\<close>

subsection \<open>Byte strings\<close>

text \<open>
  A Go string is a sequence of bytes, as Isabelle's \<open>string\<close> is a list of
  8-bit characters; \<open>length\<close> is Go's \<^verbatim>\<open>len\<close>. Comparison with
  \<open><\<close> is byte-wise lexicographic (Char\_ord, List\_Lexorder), as in Go.
\<close>

definition is_lower :: "char \<Rightarrow> bool" where
  "is_lower c \<longleftrightarrow> 97 \<le> (of_char c :: nat) \<and> (of_char c :: nat) \<le> 122"

definition is_upper :: "char \<Rightarrow> bool" where
  "is_upper c \<longleftrightarrow> 65 \<le> (of_char c :: nat) \<and> (of_char c :: nat) \<le> 90"

definition is_digit :: "char \<Rightarrow> bool" where
  "is_digit c \<longleftrightarrow> 48 \<le> (of_char c :: nat) \<and> (of_char c :: nat) \<le> 57"

definition is_alpha :: "char \<Rightarrow> bool" where
  "is_alpha c \<longleftrightarrow> is_lower c \<or> is_upper c"

definition is_hex :: "char \<Rightarrow> bool" where
  "is_hex c \<longleftrightarrow> is_digit c \<or> (97 \<le> (of_char c :: nat) \<and> (of_char c :: nat) \<le> 102)
     \<or> (65 \<le> (of_char c :: nat) \<and> (of_char c :: nat) \<le> 70)"

text \<open>
  The UTF-8 encodings of the characters with Unicode's White\_Space property,
  which are what \<^verbatim>\<open>strings.TrimSpace\<close> cuts: tab to carriage return,
  space, U+0085, U+00A0, U+1680, U+2000 to U+200A, U+2028, U+2029, U+202F,
  U+205F and U+3000.
\<close>

definition space_strings :: "string list" where
  "space_strings =
    [[CHR 0x20], [CHR 0x09], [CHR 0x0A], [CHR 0x0B], [CHR 0x0C], [CHR 0x0D],
    [CHR 0xC2, CHR 0x85], [CHR 0xC2, CHR 0xA0], [CHR 0xE1, CHR 0x9A, CHR 0x80],
    [CHR 0xE2, CHR 0x80, CHR 0x80], [CHR 0xE2, CHR 0x80, CHR 0x81],
    [CHR 0xE2, CHR 0x80, CHR 0x82], [CHR 0xE2, CHR 0x80, CHR 0x83],
    [CHR 0xE2, CHR 0x80, CHR 0x84], [CHR 0xE2, CHR 0x80, CHR 0x85],
    [CHR 0xE2, CHR 0x80, CHR 0x86], [CHR 0xE2, CHR 0x80, CHR 0x87],
    [CHR 0xE2, CHR 0x80, CHR 0x88], [CHR 0xE2, CHR 0x80, CHR 0x89],
    [CHR 0xE2, CHR 0x80, CHR 0x8A], [CHR 0xE2, CHR 0x80, CHR 0xA8],
    [CHR 0xE2, CHR 0x80, CHR 0xA9], [CHR 0xE2, CHR 0x80, CHR 0xAF],
    [CHR 0xE2, CHR 0x81, CHR 0x9F], [CHR 0xE3, CHR 0x80, CHR 0x80]]"

function trim_front :: "string list \<Rightarrow> string \<Rightarrow> string" where
  "trim_front ps [] = []"
| "trim_front ps (c # cs) =
     (case List.find (\<lambda>p. p \<noteq> [] \<and> take (length p) (c # cs) = p) ps of
        None \<Rightarrow> c # cs
      | Some p \<Rightarrow> trim_front ps (drop (length p) (c # cs)))"
  by pat_completeness auto
termination
proof (relation "measure (\<lambda>(ps, s). length s)", simp)
  fix ps :: "string list" and cs p :: string and c
  assume "List.find (\<lambda>p. p \<noteq> [] \<and> take (length p) (c # cs) = p) ps = Some p"
  then have "p \<noteq> []" by (auto simp: find_Some_iff)
  then show "((ps, drop (length p) (c # cs)), ps, c # cs) \<in> measure (\<lambda>(ps, s). length s)"
    by (cases p) (auto simp: le_imp_less_Suc)
qed

definition trim_space :: "string \<Rightarrow> string" where
  "trim_space s = rev (trim_front (map rev space_strings) (rev (trim_front space_strings s)))"

abbreviation blank :: "string \<Rightarrow> bool" where
  "blank s \<equiv> trim_space s = []"

lemma trim_space_Nil [simp]: "trim_space [] = []"
  by (simp add: trim_space_def)

text \<open>A string none of whose ends is white space is left alone.\<close>

lemma trim_front_id:
  "(\<forall>p \<in> set ps. p = [] \<or> take (length p) s \<noteq> p) \<Longrightarrow> trim_front ps s = s"
  by (cases s) (auto simp: find_None_iff find_Some_iff split: option.splits)

subsection \<open>Go maps\<close>

text \<open>
  A Go map is an association list with distinct keys. \<^verbatim>\<open>range\<close> visits
  the entries in the order of the list, which no theorem fixes: a statement about
  all lists covers every iteration order the Go runtime may choose. A lookup is
  \<open>map_of\<close>, the comma-ok form its \<open>option\<close>.
\<close>

type_synonym ('k, 'v) gomap = "('k \<times> 'v) list"

definition wf_map :: "('k, 'v) gomap \<Rightarrow> bool" where
  "wf_map m \<longleftrightarrow> distinct (map fst m)"

abbreviation mkeys :: "('k, 'v) gomap \<Rightarrow> 'k list" where
  "mkeys m \<equiv> map fst m"

lemma wf_map_lookup: "wf_map m \<Longrightarrow> (k, v) \<in> set m \<longleftrightarrow> map_of m k = Some v"
  by (auto simp: wf_map_def)

lemma map_of_perm:
  assumes "wf_map m" and "wf_map m'" and "set m = set m'"
  shows "map_of m = map_of m'"
  using assms by (intro map_of_eqI) (auto simp: wf_map_def image_iff)

subsection \<open>Results\<close>

text \<open>
  A Go function that returns a value and an \<^verbatim>\<open>error\<close> is a sum:
  \<open>Inl e\<close> for an error, \<open>Inr v\<close> for a value. An error that the code wraps
  with \<^verbatim>\<open>fmt.Errorf("...: %w", err)\<close> is a constructor around the
  inner error.
\<close>

definition bind_res :: "'e + 'a \<Rightarrow> ('a \<Rightarrow> 'e + 'b) \<Rightarrow> 'e + 'b" where
  "bind_res r f = (case r of Inl e \<Rightarrow> Inl e | Inr a \<Rightarrow> f a)"

definition wrap_err :: "('d \<Rightarrow> 'e) \<Rightarrow> 'd + 'a \<Rightarrow> 'e + 'a" where
  "wrap_err w r = (case r of Inl e \<Rightarrow> Inl (w e) | Inr a \<Rightarrow> Inr a)"

lemma bind_res_simps [simp]:
  "bind_res (Inl e) f = Inl e" "bind_res (Inr a) f = f a"
  by (simp_all add: bind_res_def)

lemma bind_res_Inr_iff [simp]: "bind_res r f = Inr b \<longleftrightarrow> (\<exists>a. r = Inr a \<and> f a = Inr b)"
  by (cases r) auto

lemma wrap_err_Inr_iff [simp]: "wrap_err w r = Inr a \<longleftrightarrow> r = Inr a"
  by (cases r) (auto simp: wrap_err_def)

lemma wrap_err_simps [simp]: "wrap_err w (Inl e) = Inl (w e)" "wrap_err w (Inr a) = Inr a"
  by (simp_all add: wrap_err_def)

text \<open>
  The two shapes of a guard, \<^verbatim>\<open>if bad { return err }\<close> and
  \<^verbatim>\<open>if err := f(); err != nil { return err }\<close>: a validator that is a
  chain of them accepts when every guard passes.
\<close>

lemma guard_Inr_iff [res_simps]: "(if b then Inl e else r) = Inr x \<longleftrightarrow> \<not> b \<and> r = Inr x"
  by simp

lemma check_Inr_iff [res_simps]:
  "(case r of Inl e \<Rightarrow> Inl (w e) | Inr a \<Rightarrow> k a) = Inr x \<longleftrightarrow> (\<exists>a. r = Inr a \<and> k a = Inr x)"
  by (cases r) auto

lemma ex_unit_res [res_simps]: "(\<exists>u. (r :: 'e + unit) = Inr u) \<longleftrightarrow> r = Inr ()"
  by simp

text \<open>
  \<^verbatim>\<open>for _, x := range xs { if err := f(x); err != nil { return err } }\<close>
\<close>

fun each_ok :: "('a \<Rightarrow> 'e + unit) \<Rightarrow> 'a list \<Rightarrow> 'e + unit" where
  "each_ok f [] = Inr ()"
| "each_ok f (x # xs) = (case f x of Inl e \<Rightarrow> Inl e | Inr _ \<Rightarrow> each_ok f xs)"

lemma each_ok_iff [simp]: "each_ok f xs = Inr () \<longleftrightarrow> (\<forall>x \<in> set xs. f x = Inr ())"
  by (induction xs) (auto split: sum.splits)

lemma unit_res_iff: "(r :: 'e + unit) = Inr u \<longleftrightarrow> r = Inr ()"
  by simp

text \<open>
  The duplicate-rejecting loop of the contracts: a check on the element, then a
  lookup in a \<^verbatim>\<open>seen\<close> map, then the element is recorded.
\<close>

fun each_unique :: "('a \<Rightarrow> 'e option) \<Rightarrow> ('a \<Rightarrow> 'k) \<Rightarrow> ('a \<Rightarrow> 'e) \<Rightarrow> 'k list \<Rightarrow> 'a list \<Rightarrow> 'e + unit"
where
  "each_unique chk key dup seen [] = Inr ()"
| "each_unique chk key dup seen (x # xs) =
     (case chk x of
        Some e \<Rightarrow> Inl e
      | None \<Rightarrow>
          if key x \<in> set seen then Inl (dup x)
          else each_unique chk key dup (key x # seen) xs)"

lemma each_unique_seen:
  "each_unique chk key dup seen xs = Inr () \<longleftrightarrow>
     (\<forall>x \<in> set xs. chk x = None) \<and> distinct (map key xs) \<and> set (map key xs) \<inter> set seen = {}"
  by (induction xs arbitrary: seen) (auto split: option.splits)

lemma each_unique_iff [simp]:
  "each_unique chk key dup [] xs = Inr () \<longleftrightarrow>
     (\<forall>x \<in> set xs. chk x = None) \<and> distinct (map key xs)"
  by (simp add: each_unique_seen)

subsection \<open>Sorting with a comparison function\<close>

text \<open>
  \<^verbatim>\<open>sort.SliceStable(xs, less)\<close>: insertion, which keeps elements neither
  of which is less than the other in their order. \<^verbatim>\<open>sort.Slice\<close> gives no
  such guarantee; where the source uses it, the keys are distinct or equal keys
  are equal elements, and the two agree.
\<close>

fun insert_by :: "('a \<Rightarrow> 'a \<Rightarrow> bool) \<Rightarrow> 'a \<Rightarrow> 'a list \<Rightarrow> 'a list" where
  "insert_by lt x [] = [x]"
| "insert_by lt x (y # ys) = (if lt y x then y # insert_by lt x ys else x # y # ys)"

fun sort_by :: "('a \<Rightarrow> 'a \<Rightarrow> bool) \<Rightarrow> 'a list \<Rightarrow> 'a list" where
  "sort_by lt [] = []"
| "sort_by lt (x # xs) = insert_by lt x (sort_by lt xs)"

lemma mset_insert_by [simp]: "mset (insert_by lt x xs) = add_mset x (mset xs)"
  by (induction xs) auto

lemma mset_sort_by [simp]: "mset (sort_by lt xs) = mset xs"
  by (induction xs) auto

lemma set_sort_by [simp]: "set (sort_by lt xs) = set xs"
  by (metis mset_sort_by set_mset_mset)

lemma length_sort_by [simp]: "length (sort_by lt xs) = length xs"
  by (metis mset_sort_by size_mset)

lemma sort_by_Nil_iff [simp]: "sort_by lt xs = [] \<longleftrightarrow> xs = []"
  by (metis length_0_conv length_sort_by)

lemma distinct_sort_by [simp]: "distinct (map f (sort_by lt xs)) \<longleftrightarrow> distinct (map f xs)"
proof -
  have "mset (map f (sort_by lt xs)) = mset (map f xs)"
    by simp
  then show ?thesis
    by (metis mset_eq_imp_distinct_iff)
qed

text \<open>
  What \<^verbatim>\<open>sort\<close> documents of a \<^verbatim>\<open>less\<close> function: a strict weak
  ordering. Every comparison the source sorts with is an instance.
\<close>

locale go_less =
  fixes lt :: "'a \<Rightarrow> 'a \<Rightarrow> bool"
  assumes less_irrefl: "\<not> lt x x"
    and less_trans: "lt x y \<Longrightarrow> lt y z \<Longrightarrow> lt x z"
    and less_weak: "lt x z \<Longrightarrow> lt x y \<or> lt y z"
begin

lemma less_asym: "lt x y \<Longrightarrow> \<not> lt y x"
  using less_irrefl less_trans by blast

lemma nless_trans: "\<not> lt y x \<Longrightarrow> \<not> lt z y \<Longrightarrow> \<not> lt z x"
  using less_weak by blast

lemma sorted_insert_by:
  "sorted_wrt (\<lambda>x y. \<not> lt y x) xs \<Longrightarrow> sorted_wrt (\<lambda>x y. \<not> lt y x) (insert_by lt a xs)"
proof (induction xs)
  case Nil
  then show ?case by simp
next
  case (Cons y ys)
  have set_ins: "set (insert_by lt a ys) = insert a (set ys)"
    by (metis mset_insert_by set_mset_add_mset_insert set_mset_mset)
  show ?case
  proof (cases "lt y a")
    case True
    with Cons show ?thesis by (auto simp: set_ins dest: less_asym)
  next
    case False
    with Cons.prems show ?thesis using nless_trans by auto
  qed
qed

lemma sorted_sort_by: "sorted_wrt (\<lambda>x y. \<not> lt y x) (sort_by lt xs)"
  by (induction xs) (auto simp: sorted_insert_by)

lemma sort_by_hd_least: "sort_by lt xs = x # ys \<Longrightarrow> y \<in> set xs \<Longrightarrow> \<not> lt y x"
proof -
  assume eq: "sort_by lt xs = x # ys" and y: "y \<in> set xs"
  from eq have "set xs = insert x (set ys)" by (metis list.simps(15) set_sort_by)
  moreover have "\<forall>z \<in> set ys. \<not> lt z x"
    using sorted_sort_by [of xs] eq by auto
  ultimately show ?thesis using y less_irrefl by auto
qed

lemma insert_by_sorted: "\<forall>y \<in> set xs. \<not> lt y x \<Longrightarrow> insert_by lt x xs = x # xs"
  by (cases xs) auto

lemma sort_by_id: "sorted_wrt (\<lambda>x y. \<not> lt y x) xs \<Longrightarrow> sort_by lt xs = xs"
  by (induction xs) (auto simp: insert_by_sorted)

end

text \<open>A comparison of two different keys in any order: then the sorted list is unique.\<close>

locale go_total_less = go_less +
  assumes less_total: "x \<noteq> y \<Longrightarrow> lt x y \<or> lt y x"
begin

lemma sorted_unique:
  "sorted_wrt (\<lambda>x y. \<not> lt y x) xs \<Longrightarrow> sorted_wrt (\<lambda>x y. \<not> lt y x) ys \<Longrightarrow>
   mset xs = mset ys \<Longrightarrow> xs = ys"
proof (induction xs arbitrary: ys)
  case Nil
  then show ?case by simp
next
  case (Cons x xs)
  then obtain y ys' where ys: "ys = y # ys'" by (cases ys) auto
  have "x \<in> set ys" "y \<in> set (x # xs)"
    using Cons.prems(3) ys by (metis list.set_intros(1) set_mset_mset)+
  then have "x = y"
    using Cons.prems(1,2) ys less_total [of x y] less_irrefl by auto
  then show ?case using Cons ys by auto
qed

lemma sort_by_cong: "mset xs = mset ys \<Longrightarrow> sort_by lt xs = sort_by lt ys"
  by (rule sorted_unique) (simp_all add: sorted_sort_by)

end

interpretation string_less: go_total_less "(<) :: string \<Rightarrow> string \<Rightarrow> bool"
  by unfold_locales auto

text \<open>\<^verbatim>\<open>sort.Strings\<close>.\<close>

abbreviation sort_strings :: "string list \<Rightarrow> string list" where
  "sort_strings \<equiv> sort_by (<)"

lemma sorted_sort_strings [simp]: "sorted (sort_strings xs)"
  using string_less.sorted_sort_by [of xs] by (simp add: not_less)

lemma sort_strings_unique:
  "set xs = set ys \<Longrightarrow> distinct xs \<Longrightarrow> distinct ys \<Longrightarrow> sort_strings xs = sort_strings ys"
  by (rule string_less.sort_by_cong) (simp add: set_eq_iff_mset_eq_distinct)

lemma distinct_sort_strings [simp]: "distinct (sort_strings xs) \<longleftrightarrow> distinct xs"
  using distinct_sort_by [of id "(<)" xs] by (simp only: list.map_id)

lemma sort_strings_sorted: "sorted xs \<Longrightarrow> sort_strings xs = xs"
  by (rule string_less.sort_by_id) (simp add: not_less)

end
