(* ===== verification/Routing_Contract.thy ===== *)
theory Routing_Contract
  imports Prelude
begin

section \<open>The routing contract (internal/routing/contract.go)\<close>

text \<open>
  The vocabulary of model routing: catalogs of model capabilities, requirements,
  budget grants, decisions and usage receipts, and the validators that every
  reader and writer of these values calls. The string-typed enumerations of the
  Go code stay strings, because a decoded value may hold any string and the
  validators are what reject it.
\<close>

subsection \<open>Constants and types\<close>

abbreviation "CapabilityCatalogV1Version \<equiv> ''fishyume.capability-catalog/v1''"
abbreviation "RoutingRequirementV1Version \<equiv> ''fishyume.routing-requirement/v1''"
abbreviation "RoutingDecisionV1Version \<equiv> ''fishyume.routing-decision/v1''"
abbreviation "RoutingUsageV1Version \<equiv> ''fishyume.routing-usage/v1''"
abbreviation "PromptProfileV1Version \<equiv> ''fishyume.prompt-profile/v1''"
abbreviation "RoutingPolicyV1Version \<equiv> ''fishyume.routing-policy/v1''"
abbreviation "MaxCatalogModels \<equiv> (256 :: nat)"
abbreviation "MaxCandidates \<equiv> (32 :: nat)"
abbreviation "MaxFallbacks \<equiv> (8 :: nat)"
abbreviation "MaxReasonCodes \<equiv> (32 :: nat)"
abbreviation "MaxPromptComponents \<equiv> (32 :: nat)"
abbreviation "MaxRoutingBudgetBytes \<equiv> (16777216 :: int)"
abbreviation "MaxCostUnits \<equiv> (1000000 :: int)"

datatype ErrorCode =
    CodeInvalidContract | CodeUnsupportedVersion | CodeDuplicateIdentity
  | CodeInvalidTarget | CodeInvalidCapability | CodeInvalidBudget
  | CodeInvalidFallback | CodeInvalidPromptProfile | CodeCatalogHashMismatch

datatype ContractError =
  ContractError (ce_code: ErrorCode) (ce_message: string) (ce_subject: string)

type_synonym Capability = string

abbreviation "CapabilityRepoRead \<equiv> ''repo_read''"
abbreviation "CapabilityRepoEdit \<equiv> ''repo_edit''"
abbreviation "CapabilityToolUse \<equiv> ''tool_use''"
abbreviation "CapabilityStructuredOutput \<equiv> ''structured_output''"
abbreviation "CapabilityStreaming \<equiv> ''streaming''"
abbreviation "CapabilityNeedsInput \<equiv> ''needs_input''"

definition StableCapabilities :: "Capability list" where
  "StableCapabilities = [CapabilityRepoRead, CapabilityRepoEdit, CapabilityToolUse,
     CapabilityStructuredOutput, CapabilityStreaming, CapabilityNeedsInput]"

abbreviation "ComplexitySimple \<equiv> ''simple''"
abbreviation "ComplexityStandard \<equiv> ''standard''"
abbreviation "ComplexityComplex \<equiv> ''complex''"
abbreviation "QualityEconomy \<equiv> ''economy''"
abbreviation "QualityBalanced \<equiv> ''balanced''"
abbreviation "QualityPremium \<equiv> ''premium''"
abbreviation "CostLow \<equiv> ''low''"
abbreviation "CostMedium \<equiv> ''medium''"
abbreviation "CostHigh \<equiv> ''high''"
abbreviation "LatencyFast \<equiv> ''fast''"
abbreviation "LatencyBalanced \<equiv> ''balanced''"
abbreviation "LatencySlow \<equiv> ''slow''"

record Target =
  tgt_driver :: string
  tgt_provider :: string
  tgt_model :: string

record ModelCapabilityV1 =
  mc_id :: string
  mc_target :: Target
  mc_capabilities :: "Capability list"
  mc_context_limit :: int
  mc_max_output :: int
  mc_quality :: string
  mc_cost :: string
  mc_latency :: string
  mc_supports_cancellation :: bool

record CapabilityCatalogV1 =
  cat_schema_version :: string
  cat_policy_version :: string
  cat_models :: "ModelCapabilityV1 list"

record RoutingRequirementV1 =
  rr_schema_version :: string
  rr_capabilities :: "Capability list"
  rr_complexity :: string
  rr_quality :: string
  rr_latency :: string
  rr_max_cost :: int
  rr_max_context :: int
  rr_max_output :: int
  rr_candidates :: "string list"
  rr_prompt_profile :: string
  rr_allow_fallback :: bool

record BudgetGrantV1 =
  bg_max_cost :: int
  bg_context :: int
  bg_output :: int

abbreviation "FallbackNone \<equiv> ''none''"
abbreviation "FallbackEligible \<equiv> ''eligible''"

record FallbackPolicyV1 =
  fp_mode :: string
  fp_max_attempts :: int
  fp_require_no_side_effect :: bool
  fp_require_approval :: bool

record PromptComponentV1 =
  pc_id :: string
  pc_required :: bool

record PromptProfileV1 =
  pp_schema_version :: string
  pp_id :: string
  pp_version :: string
  pp_components :: "PromptComponentV1 list"
  pp_description :: string

record RoutingDecisionV1 =
  rd_schema_version :: string
  rd_catalog_hash :: string
  rd_requirement :: RoutingRequirementV1
  rd_selected :: Target
  rd_reason_codes :: "string list"
  rd_budget :: BudgetGrantV1
  rd_fallback :: "Target list"
  rd_fallback_policy :: FallbackPolicyV1
  rd_prompt_profile :: string

record RoutingUsageV1 =
  ru_schema_version :: string
  ru_target :: Target
  ru_route_index :: int
  ru_cost :: int
  ru_cumulative :: int

subsection \<open>Predicates on identities and classes\<close>

text \<open>
  \<^verbatim>\<open>identityPattern = ^[a-z][a-z0-9._:/-]{0,127}$\<close> and
  \<^verbatim>\<open>reasonPattern = ^[a-z][a-z0-9._-]{0,63}$\<close>.
\<close>

definition identity_char :: "char \<Rightarrow> bool" where
  "identity_char c \<longleftrightarrow> is_lower c \<or> is_digit c \<or> c \<in> set ''._:/-''"

definition reason_char :: "char \<Rightarrow> bool" where
  "reason_char c \<longleftrightarrow> is_lower c \<or> is_digit c \<or> c \<in> set ''._-''"

definition validIdentity :: "string \<Rightarrow> bool" where
  "validIdentity value = (case value of
      [] \<Rightarrow> False
    | c # cs \<Rightarrow> is_lower c \<and> length cs \<le> 127 \<and> list_all identity_char cs)"

definition reasonPattern :: "string \<Rightarrow> bool" where
  "reasonPattern value = (case value of
      [] \<Rightarrow> False
    | c # cs \<Rightarrow> is_lower c \<and> length cs \<le> 63 \<and> list_all reason_char cs)"

definition validTarget :: "Target \<Rightarrow> bool" where
  "validTarget t \<longleftrightarrow> validIdentity (tgt_driver t) \<and> validIdentity (tgt_provider t)
     \<and> validIdentity (tgt_model t)"

text \<open>\<^verbatim>\<open>hex.DecodeString\<close> accepts exactly an even number of hex digits.\<close>

definition validHash :: "string \<Rightarrow> bool" where
  "validHash value \<longleftrightarrow> length value = 64 \<and> list_all is_hex value"

definition validComplexity :: "string \<Rightarrow> bool" where
  "validComplexity v \<longleftrightarrow> v = ComplexitySimple \<or> v = ComplexityStandard \<or> v = ComplexityComplex"

definition validQuality :: "string \<Rightarrow> bool" where
  "validQuality v \<longleftrightarrow> v = QualityEconomy \<or> v = QualityBalanced \<or> v = QualityPremium"

definition validCost :: "string \<Rightarrow> bool" where
  "validCost v \<longleftrightarrow> v = CostLow \<or> v = CostMedium \<or> v = CostHigh"

definition validLatency :: "string \<Rightarrow> bool" where
  "validLatency v \<longleftrightarrow> v = LatencyFast \<or> v = LatencyBalanced \<or> v = LatencySlow"

definition containsCapability :: "Capability \<Rightarrow> bool" where
  "containsCapability value \<longleftrightarrow> (\<exists>known \<in> set StableCapabilities. value = known)"

subsection \<open>Validators\<close>

text \<open>
  \<open>validateCapabilities\<close> carries the loop's \<^verbatim>\<open>seen\<close> map and its
  \<^verbatim>\<open>last\<close> value.
\<close>

fun validateCapabilities_loop ::
  "Capability list \<Rightarrow> Capability \<Rightarrow> Capability list \<Rightarrow> ContractError + unit" where
  "validateCapabilities_loop seen prev [] = Inr ()"
| "validateCapabilities_loop seen prev (v # vs) =
     (if \<not> containsCapability v \<or> v \<in> set seen
      then Inl (ContractError CodeInvalidCapability ''capability is unsupported or duplicated'' v)
      else if prev \<noteq> '''' \<and> v \<le> prev
      then Inl (ContractError CodeInvalidCapability ''capabilities are not in canonical order'' v)
      else validateCapabilities_loop (v # seen) v vs)"

definition validateCapabilities :: "Capability list \<Rightarrow> ContractError + unit" where
  "validateCapabilities values = validateCapabilities_loop [] '''' values"

definition ValidateModelCapability :: "ModelCapabilityV1 \<Rightarrow> ContractError + unit" where
  "ValidateModelCapability model =
     (if \<not> validIdentity (mc_id model) \<or> \<not> validTarget (mc_target model)
      then Inl (ContractError CodeInvalidTarget ''model identity or target is invalid'' (mc_id model))
      else if mc_context_limit model < 1 \<or> mc_context_limit model > MaxRoutingBudgetBytes
           \<or> mc_max_output model < 1 \<or> mc_max_output model > mc_context_limit model
      then Inl (ContractError CodeInvalidBudget ''model context/output limits are invalid'' (mc_id model))
      else if \<not> validQuality (mc_quality model) \<or> \<not> validCost (mc_cost model)
           \<or> \<not> validLatency (mc_latency model)
      then Inl (ContractError CodeInvalidCapability ''model quality, cost, or latency class is invalid'' (mc_id model))
      else if length (mc_capabilities model) = 0
      then Inl (ContractError CodeInvalidCapability ''model must declare at least one capability'' (mc_id model))
      else validateCapabilities (mc_capabilities model))"

fun ValidateCatalog_loop ::
  "string list \<Rightarrow> string \<Rightarrow> ModelCapabilityV1 list \<Rightarrow> ContractError + unit" where
  "ValidateCatalog_loop seen lastID [] = Inr ()"
| "ValidateCatalog_loop seen lastID (model # models) =
     (case ValidateModelCapability model of
        Inl e \<Rightarrow> Inl e
      | Inr _ \<Rightarrow>
          if mc_id model \<in> set seen
          then Inl (ContractError CodeDuplicateIdentity ''catalog model ID is duplicated'' (mc_id model))
          else if lastID \<noteq> '''' \<and> mc_id model \<le> lastID
          then Inl (ContractError CodeInvalidContract ''catalog models are not in canonical ID order'' (mc_id model))
          else ValidateCatalog_loop (mc_id model # seen) (mc_id model) models)"

definition ValidateCatalog :: "CapabilityCatalogV1 \<Rightarrow> ContractError + unit" where
  "ValidateCatalog catalog =
     (if cat_schema_version catalog \<noteq> CapabilityCatalogV1Version
         \<or> cat_policy_version catalog \<noteq> RoutingPolicyV1Version
      then Inl (ContractError CodeUnsupportedVersion ''unsupported capability catalog or policy version'' '''')
      else if length (cat_models catalog) = 0 \<or> length (cat_models catalog) > MaxCatalogModels
      then Inl (ContractError CodeInvalidContract ''catalog model count is outside its bound'' '''')
      else ValidateCatalog_loop [] '''' (cat_models catalog))"

definition ValidateTarget :: "Target \<Rightarrow> ContractError + unit" where
  "ValidateTarget target =
     (if \<not> validTarget target
      then Inl (ContractError CodeInvalidTarget ''routing target is invalid'' (tgt_model target))
      else Inr ())"

definition ValidateRequirement :: "RoutingRequirementV1 \<Rightarrow> ContractError + unit" where
  "ValidateRequirement requirement =
     (if rr_schema_version requirement \<noteq> RoutingRequirementV1Version
      then Inl (ContractError CodeUnsupportedVersion ''unsupported routing requirement version'' '''')
      else if length (rr_capabilities requirement) = 0
      then Inl (ContractError CodeInvalidCapability ''routing requirement must declare capabilities'' '''')
      else case validateCapabilities (rr_capabilities requirement) of
        Inl e \<Rightarrow> Inl e
      | Inr _ \<Rightarrow>
        if \<not> validComplexity (rr_complexity requirement) \<or> \<not> validQuality (rr_quality requirement)
           \<or> \<not> validLatency (rr_latency requirement)
        then Inl (ContractError CodeInvalidContract ''routing requirement class is invalid'' '''')
        else if rr_max_cost requirement < 1 \<or> rr_max_cost requirement > MaxCostUnits
           \<or> rr_max_context requirement < 1 \<or> rr_max_context requirement > MaxRoutingBudgetBytes
           \<or> rr_max_output requirement < 1 \<or> rr_max_output requirement > rr_max_context requirement
        then Inl (ContractError CodeInvalidBudget ''routing requirement budget must be positive'' '''')
        else if length (rr_candidates requirement) > MaxCandidates
        then Inl (ContractError CodeInvalidTarget ''routing candidate count exceeds its bound'' '''')
        else case each_unique
            (\<lambda>candidate. if \<not> validIdentity candidate
               then Some (ContractError CodeInvalidTarget ''routing candidate identity is invalid'' candidate)
               else None)
            (\<lambda>candidate. candidate)
            (\<lambda>candidate. ContractError CodeDuplicateIdentity ''routing candidate is duplicated'' candidate)
            [] (rr_candidates requirement) of
          Inl e \<Rightarrow> Inl e
        | Inr _ \<Rightarrow>
          if rr_prompt_profile requirement \<noteq> '''' \<and> \<not> validIdentity (rr_prompt_profile requirement)
          then Inl (ContractError CodeInvalidPromptProfile ''prompt profile identity is invalid'' (rr_prompt_profile requirement))
          else Inr ())"

definition ValidateBudgetGrant :: "BudgetGrantV1 \<Rightarrow> ContractError + unit" where
  "ValidateBudgetGrant b =
     (if bg_max_cost b < 1 \<or> bg_max_cost b > MaxCostUnits \<or> bg_context b < 1
         \<or> bg_context b > MaxRoutingBudgetBytes \<or> bg_output b < 1 \<or> bg_output b > bg_context b
      then Inl (ContractError CodeInvalidBudget ''budget grant values must be positive'' '''')
      else Inr ())"

definition ValidateFallbackPolicy :: "FallbackPolicyV1 \<Rightarrow> ContractError + unit" where
  "ValidateFallbackPolicy p =
     (if fp_mode p \<noteq> FallbackNone \<and> fp_mode p \<noteq> FallbackEligible
      then Inl (ContractError CodeInvalidFallback ''unsupported fallback mode'' '''')
      else if fp_max_attempts p < 1 \<or> fp_max_attempts p > int MaxFallbacks + 1
      then Inl (ContractError CodeInvalidFallback ''fallback attempt count is outside its bound'' '''')
      else if fp_mode p = FallbackNone \<and> fp_max_attempts p \<noteq> 1
      then Inl (ContractError CodeInvalidFallback ''fallback-none policy must allow exactly one attempt'' '''')
      else if fp_mode p = FallbackEligible \<and> \<not> fp_require_no_side_effect p
      then Inl (ContractError CodeInvalidFallback ''eligible fallback must require no side effects'' '''')
      else Inr ())"

definition ValidatePromptProfile :: "PromptProfileV1 \<Rightarrow> ContractError + unit" where
  "ValidatePromptProfile p =
     (if pp_schema_version p \<noteq> PromptProfileV1Version \<or> \<not> validIdentity (pp_id p)
         \<or> blank (pp_version p) \<or> pp_version p \<noteq> trim_space (pp_version p)
         \<or> length (pp_version p) > 64
         \<or> length (pp_components p) = 0 \<or> length (pp_components p) > MaxPromptComponents
      then Inl (ContractError CodeInvalidPromptProfile ''prompt profile identity or bounds are invalid'' (pp_id p))
      else
        each_unique
          (\<lambda>component. if \<not> validIdentity (pc_id component)
             then Some (ContractError CodeInvalidPromptProfile
               ''prompt profile component is invalid or duplicated'' (pc_id component))
             else None)
          pc_id
          (\<lambda>component. ContractError CodeInvalidPromptProfile
             ''prompt profile component is invalid or duplicated'' (pc_id component))
          [] (pp_components p))"

definition ValidateDecision :: "RoutingDecisionV1 \<Rightarrow> ContractError + unit" where
  "ValidateDecision d =
     (if rd_schema_version d \<noteq> RoutingDecisionV1Version \<or> \<not> validHash (rd_catalog_hash d)
         \<or> \<not> validTarget (rd_selected d)
      then Inl (ContractError CodeInvalidContract ''routing decision identity is invalid'' '''')
      else case ValidateRequirement (rd_requirement d) of Inl e \<Rightarrow> Inl e | Inr _ \<Rightarrow>
      (case ValidateBudgetGrant (rd_budget d) of Inl e \<Rightarrow> Inl e | Inr _ \<Rightarrow>
      (case ValidateFallbackPolicy (rd_fallback_policy d) of Inl e \<Rightarrow> Inl e | Inr _ \<Rightarrow>
       if length (rd_reason_codes d) = 0 \<or> length (rd_reason_codes d) > MaxReasonCodes
       then Inl (ContractError CodeInvalidContract ''routing decision must contain bounded reason codes'' '''')
       else case each_unique
           (\<lambda>reason. if \<not> reasonPattern reason
              then Some (ContractError CodeInvalidContract ''routing reason code is invalid or duplicated'' reason)
              else None)
           (\<lambda>reason. reason)
           (\<lambda>reason. ContractError CodeInvalidContract ''routing reason code is invalid or duplicated'' reason)
           [] (rd_reason_codes d) of
         Inl e \<Rightarrow> Inl e
       | Inr _ \<Rightarrow>
         if length (rd_fallback d) > MaxFallbacks
            \<or> fp_mode (rd_fallback_policy d) = FallbackNone \<and> length (rd_fallback d) \<noteq> 0
         then Inl (ContractError CodeInvalidFallback ''fallback targets do not match policy'' '''')
         else case each_ok
             (\<lambda>target. if \<not> validTarget target \<or> target = rd_selected d
                then Inl (ContractError CodeInvalidFallback
                  ''fallback target is invalid or duplicates the selected target'' '''')
                else Inr ())
             (rd_fallback d) of
           Inl e \<Rightarrow> Inl e
         | Inr _ \<Rightarrow>
           if rd_prompt_profile d \<noteq> '''' \<and> \<not> validIdentity (rd_prompt_profile d)
           then Inl (ContractError CodeInvalidPromptProfile ''decision prompt profile identity is invalid'' (rd_prompt_profile d))
           else Inr ())))"

definition ValidateRoutingUsage :: "RoutingUsageV1 \<Rightarrow> ContractError + unit" where
  "ValidateRoutingUsage usage =
     (if ru_schema_version usage \<noteq> RoutingUsageV1Version \<or> \<not> validTarget (ru_target usage)
      then Inl (ContractError CodeInvalidContract ''routing usage identity is invalid'' '''')
      else if ru_route_index usage < 0 \<or> ru_route_index usage > int MaxFallbacks
      then Inl (ContractError CodeInvalidFallback ''routing usage route index is outside its bound'' '''')
      else if ru_cost usage < 1 \<or> ru_cost usage > MaxCostUnits \<or> ru_cumulative usage < ru_cost usage
           \<or> ru_cumulative usage > MaxCostUnits
      then Inl (ContractError CodeInvalidBudget ''routing usage cost is outside its bound'' '''')
      else Inr ())"

text \<open>
  The catalog hash is SHA-256 over the compact JSON encoding, in hex:
  \<open>hashf\<close> stands for that digest (crypto/sha256 over encoding/json), and
  \<open>digest_ok\<close> is what the code relies on, that hex.EncodeToString of a
  32-byte sum is 64 hex digits. Encoding a struct of strings, integers and
  booleans cannot fail.
\<close>

definition digest_ok :: "(CapabilityCatalogV1 \<Rightarrow> string) \<Rightarrow> bool" where
  "digest_ok hashf \<longleftrightarrow> (\<forall>c. validHash (hashf c))"

definition CatalogHash ::
  "(CapabilityCatalogV1 \<Rightarrow> string) \<Rightarrow> CapabilityCatalogV1 \<Rightarrow> ContractError + string" where
  "CatalogHash hashf catalog =
     (case ValidateCatalog catalog of Inl e \<Rightarrow> Inl e | Inr _ \<Rightarrow> Inr (hashf catalog))"

subsection \<open>What the validators accept\<close>

lemma validateCapabilities_loop_iff:
  "validateCapabilities_loop seen prev vs = Inr () \<longleftrightarrow>
     (\<forall>v \<in> set vs. containsCapability v \<and> v \<notin> set seen \<and> (prev \<noteq> '''' \<longrightarrow> prev < v))
     \<and> sorted_wrt (<) vs"
proof (induction seen prev vs rule: validateCapabilities_loop.induct)
  case (1 seen prev)
  then show ?case by simp
next
  case (2 seen prev v vs)
  have ne: "containsCapability v \<Longrightarrow> v \<noteq> ''''"
    by (auto simp: containsCapability_def StableCapabilities_def)
  show ?case
    using "2.IH" ne by (auto simp: not_le)
qed

lemma validateCapabilities_iff:
  "validateCapabilities vs = Inr () \<longleftrightarrow> (\<forall>v \<in> set vs. containsCapability v) \<and> sorted_wrt (<) vs"
  by (auto simp: validateCapabilities_def validateCapabilities_loop_iff)

lemma validIdentity_nonempty: "validIdentity s \<Longrightarrow> s \<noteq> ''''"
  by (auto simp: validIdentity_def)

lemma ValidateModelCapability_id: "ValidateModelCapability m = Inr () \<Longrightarrow> mc_id m \<noteq> ''''"
  by (auto simp: ValidateModelCapability_def validIdentity_nonempty split: if_splits)

lemma ValidateCatalog_loop_iff:
  "ValidateCatalog_loop seen lastID ms = Inr () \<longleftrightarrow>
     (\<forall>m \<in> set ms. ValidateModelCapability m = Inr () \<and> mc_id m \<notin> set seen
        \<and> (lastID \<noteq> '''' \<longrightarrow> lastID < mc_id m))
     \<and> sorted_wrt (<) (map mc_id ms)"
proof (induction seen lastID ms rule: ValidateCatalog_loop.induct)
  case (1 seen lastID)
  then show ?case by simp
next
  case (2 seen lastID m ms)
  show ?case
  proof (cases "ValidateModelCapability m")
    case (Inl e)
    then show ?thesis by simp
  next
    case (Inr u)
    then have ne: "mc_id m \<noteq> ''''" by (simp add: ValidateModelCapability_id)
    show ?thesis using "2.IH" [of u] Inr ne by (auto simp: not_le)
  qed
qed

lemma ValidateCatalog_iff:
  "ValidateCatalog c = Inr () \<longleftrightarrow>
     cat_schema_version c = CapabilityCatalogV1Version \<and> cat_policy_version c = RoutingPolicyV1Version
     \<and> cat_models c \<noteq> [] \<and> length (cat_models c) \<le> MaxCatalogModels
     \<and> (\<forall>m \<in> set (cat_models c). ValidateModelCapability m = Inr ())
     \<and> sorted_wrt (<) (map mc_id (cat_models c))"
  by (auto simp: ValidateCatalog_def ValidateCatalog_loop_iff)

lemma ValidateCatalog_ids_distinct:
  "ValidateCatalog c = Inr () \<Longrightarrow> distinct (map mc_id (cat_models c))"
  by (simp add: ValidateCatalog_iff strict_sorted_iff)

lemma CatalogHash_iff: "CatalogHash hashf c = Inr h \<longleftrightarrow> ValidateCatalog c = Inr () \<and> hashf c = h"
  by (auto simp: CatalogHash_def split: sum.splits)

lemma ValidateBudgetGrant_iff:
  "ValidateBudgetGrant b = Inr () \<longleftrightarrow>
     1 \<le> bg_max_cost b \<and> bg_max_cost b \<le> MaxCostUnits \<and> 1 \<le> bg_output b
     \<and> bg_output b \<le> bg_context b \<and> bg_context b \<le> MaxRoutingBudgetBytes"
  by (auto simp: ValidateBudgetGrant_def)

lemma ValidateDecision_iff:
  "ValidateDecision d = Inr () \<longleftrightarrow>
     rd_schema_version d = RoutingDecisionV1Version \<and> validHash (rd_catalog_hash d)
     \<and> validTarget (rd_selected d) \<and> ValidateRequirement (rd_requirement d) = Inr ()
     \<and> ValidateBudgetGrant (rd_budget d) = Inr ()
     \<and> ValidateFallbackPolicy (rd_fallback_policy d) = Inr ()
     \<and> rd_reason_codes d \<noteq> [] \<and> length (rd_reason_codes d) \<le> MaxReasonCodes
     \<and> list_all reasonPattern (rd_reason_codes d) \<and> distinct (rd_reason_codes d)
     \<and> length (rd_fallback d) \<le> MaxFallbacks
     \<and> (fp_mode (rd_fallback_policy d) = FallbackNone \<longrightarrow> rd_fallback d = [])
     \<and> (\<forall>t \<in> set (rd_fallback d). validTarget t \<and> t \<noteq> rd_selected d)
     \<and> (rd_prompt_profile d = '''' \<or> validIdentity (rd_prompt_profile d))"
  unfolding ValidateDecision_def
  by (simp only: res_simps each_ok_iff each_unique_iff) (auto simp: list_all_iff not_less)

lemma ValidateRequirement_budget:
  assumes "ValidateRequirement r = Inr ()"
  shows "1 \<le> rr_max_cost r" "rr_max_cost r \<le> MaxCostUnits" "1 \<le> rr_max_output r"
    "rr_max_output r \<le> rr_max_context r" "rr_max_context r \<le> MaxRoutingBudgetBytes"
  using assms by (auto simp: ValidateRequirement_def split: if_splits sum.splits)

lemma ValidateRequirement_classes:
  assumes "ValidateRequirement r = Inr ()"
  shows "validComplexity (rr_complexity r)" "validQuality (rr_quality r)" "validLatency (rr_latency r)"
    "rr_prompt_profile r = '''' \<or> validIdentity (rr_prompt_profile r)"
    "distinct (rr_candidates r)" "length (rr_candidates r) \<le> MaxCandidates"
  using assms by (auto simp: ValidateRequirement_def split: if_splits sum.splits)

end
