(* ===== verification/Routing_Resolver.thy ===== *)
theory Routing_Resolver
  imports Routing_Contract "HOL-Library.Product_Lexorder"
begin

section \<open>The routing resolver (internal/routing/resolver.go, defaults.go, product\_policy.go)\<close>

text \<open>
  \<open>ResolveV1\<close> matches a requirement against a catalog: it restricts the
  budget, keeps the models that satisfy the requirement, sorts them by a
  five-component score and returns the best with up to eight fallbacks. The
  lemmas show which models are kept, that the score is a strict weak order (so
  the sort's contract applies), and exactly when the resolver returns a decision.
\<close>

subsection \<open>Ranks and scores\<close>

definition minQualityForComplexity :: "string \<Rightarrow> string" where
  "minQualityForComplexity complexity =
     (if complexity = ComplexityComplex then QualityPremium
      else if complexity = ComplexityStandard then QualityBalanced
      else QualityEconomy)"

definition qualityRank :: "string \<Rightarrow> int" where
  "qualityRank value = (if value = QualityPremium then 2 else if value = QualityBalanced then 1 else 0)"

definition latencyRank :: "string \<Rightarrow> int" where
  "latencyRank value = (if value = LatencySlow then 2 else if value = LatencyBalanced then 1 else 0)"

definition costUnits :: "string \<Rightarrow> int" where
  "costUnits value = (if value = CostHigh then 100 else if value = CostMedium then 10 else 1)"

record modelScore =
  ms_candidate_rank :: int
  ms_quality_delta :: int
  ms_latency_delta :: int
  ms_cost_units :: int
  ms_id :: string

record eligibleModel =
  em_model :: ModelCapabilityV1
  em_score :: modelScore

definition score_less :: "modelScore \<Rightarrow> modelScore \<Rightarrow> bool" where
  "score_less s other =
     (if ms_candidate_rank s \<noteq> ms_candidate_rank other
      then ms_candidate_rank s < ms_candidate_rank other
      else if ms_quality_delta s \<noteq> ms_quality_delta other
      then ms_quality_delta s < ms_quality_delta other
      else if ms_latency_delta s \<noteq> ms_latency_delta other
      then ms_latency_delta s < ms_latency_delta other
      else if ms_cost_units s \<noteq> ms_cost_units other
      then ms_cost_units s < ms_cost_units other
      else ms_id s < ms_id other)"

definition score_key :: "modelScore \<Rightarrow> int \<times> int \<times> int \<times> int \<times> string" where
  "score_key s = (ms_candidate_rank s, ms_quality_delta s, ms_latency_delta s, ms_cost_units s, ms_id s)"

lemma score_less_key: "score_less s t \<longleftrightarrow> score_key s < score_key t"
  by (auto simp: score_less_def score_key_def less_prod_simp)

lemma score_key_inj: "score_key s = score_key t \<longleftrightarrow> s = t"
  by (auto simp: score_key_def)

interpretation score_ord: go_total_less score_less
proof
  fix x y z :: modelScore
  show "score_less x y \<or> score_less y x" if "x \<noteq> y"
    using that score_key_inj [of x y] by (auto simp: score_less_key)
qed (auto simp: score_less_key)

definition eligible_less :: "eligibleModel \<Rightarrow> eligibleModel \<Rightarrow> bool" where
  "eligible_less a b = score_less (em_score a) (em_score b)"

interpretation eligible_ord: go_less eligible_less
  by unfold_locales
    (auto simp: eligible_less_def score_ord.less_irrefl intro: score_ord.less_trans
      dest: score_ord.less_weak)

subsection \<open>The operations\<close>

definition containsAll :: "Capability list \<Rightarrow> Capability list \<Rightarrow> bool" where
  "containsAll have required \<longleftrightarrow> list_all (\<lambda>capability. capability \<in> set have) required"

definition restrictBudget :: "BudgetGrantV1 \<Rightarrow> BudgetGrantV1 \<Rightarrow> BudgetGrantV1" where
  "restrictBudget requirement grant =
     (let r1 = (if bg_max_cost grant < bg_max_cost requirement
                then requirement\<lparr>bg_max_cost := bg_max_cost grant\<rparr> else requirement);
          r2 = (if bg_context grant < bg_context r1
                then r1\<lparr>bg_context := bg_context grant\<rparr> else r1)
      in if bg_output grant < bg_output r2
         then r2\<lparr>bg_output := bg_output grant\<rparr> else r2)"

text \<open>
  \<^verbatim>\<open>allowed[candidate] = index\<close>: a later index of a repeated candidate wins.
\<close>

definition allowed_ranks :: "string list \<Rightarrow> string \<rightharpoonup> int" where
  "allowed_ranks candidates =
     map_of (rev (zip candidates (map int [0..<length candidates])))"

fun eligibleModels :: "ModelCapabilityV1 list \<Rightarrow> RoutingRequirementV1 \<Rightarrow> BudgetGrantV1 \<Rightarrow> eligibleModel list"
where
  "eligibleModels [] requirement budget = []"
| "eligibleModels (model # models) requirement budget =
     (let rest = eligibleModels models requirement budget;
          rank = (if length (rr_candidates requirement) > 0
                  then allowed_ranks (rr_candidates requirement) (mc_id model)
                  else Some (int (length (rr_candidates requirement)) + 1))
      in case rank of
           None \<Rightarrow> rest
         | Some rank \<Rightarrow>
             if \<not> containsAll (mc_capabilities model) (rr_capabilities requirement)
                \<or> qualityRank (mc_quality model)
                    < qualityRank (minQualityForComplexity (rr_complexity requirement))
                \<or> costUnits (mc_cost model) > bg_max_cost budget
                \<or> mc_context_limit model < bg_context budget
                \<or> mc_max_output model < bg_output budget
             then rest
             else \<lparr>em_model = model,
                   em_score = \<lparr>ms_candidate_rank = rank,
                     ms_quality_delta = \<bar>qualityRank (mc_quality model) - qualityRank (rr_quality requirement)\<bar>,
                     ms_latency_delta = \<bar>latencyRank (mc_latency model) - latencyRank (rr_latency requirement)\<bar>,
                     ms_cost_units = costUnits (mc_cost model),
                     ms_id = mc_id model\<rparr>\<rparr> # rest)"

definition reasonCodes :: "RoutingRequirementV1 \<Rightarrow> ModelCapabilityV1 \<Rightarrow> modelScore \<Rightarrow> string list" where
  "reasonCodes requirement selected score =
     [''capability_match'', ''complexity_'' @ rr_complexity requirement,
      ''quality_preference_'' @ mc_quality selected, ''latency_preference_'' @ mc_latency selected,
      ''cost_preference_'' @ mc_cost selected, ''budget_context'', ''budget_output'']
     @ (if length (rr_candidates requirement) > 0
           \<and> ms_candidate_rank score \<le> int (length (rr_candidates requirement))
        then [''candidate_preference''] else [])"

record ResolveRequestV1 =
  rq_catalog :: CapabilityCatalogV1
  rq_catalog_hash :: string
  rq_requirement :: RoutingRequirementV1
  rq_budget :: BudgetGrantV1

definition effective_budget :: "RoutingRequirementV1 \<Rightarrow> BudgetGrantV1 \<Rightarrow> BudgetGrantV1" where
  "effective_budget requirement grant =
     restrictBudget
       \<lparr>bg_max_cost = rr_max_cost requirement, bg_context = rr_max_context requirement,
        bg_output = rr_max_output requirement\<rparr>
       grant"

text \<open>
  The decision assembled from the sorted candidates \<open>best # rest\<close>, before its
  own validation.
\<close>

definition build_decision ::
  "string \<Rightarrow> RoutingRequirementV1 \<Rightarrow> BudgetGrantV1 \<Rightarrow> eligibleModel \<Rightarrow> eligibleModel list \<Rightarrow> RoutingDecisionV1"
where
  "build_decision catalogHash requirement budget best rest =
     (let decision =
        \<lparr>rd_schema_version = RoutingDecisionV1Version,
         rd_catalog_hash = catalogHash,
         rd_requirement = requirement,
         rd_selected = mc_target (em_model best),
         rd_reason_codes = reasonCodes requirement (em_model best) (em_score best),
         rd_budget = budget,
         rd_fallback = [],
         rd_fallback_policy = \<lparr>fp_mode = FallbackNone, fp_max_attempts = 1,
           fp_require_no_side_effect = False, fp_require_approval = False\<rparr>,
         rd_prompt_profile = rr_prompt_profile requirement\<rparr>
      in if rr_allow_fallback requirement
         then let fallbackCount = (if length rest > MaxFallbacks then MaxFallbacks else length rest);
                  fallback = map (\<lambda>c. mc_target (em_model c)) (take fallbackCount rest)
              in decision\<lparr>rd_fallback := fallback,
                   rd_fallback_policy := \<lparr>fp_mode = FallbackEligible,
                     fp_max_attempts = 1 + int (length fallback),
                     fp_require_no_side_effect = True, fp_require_approval = True\<rparr>,
                   rd_reason_codes := rd_reason_codes decision @ [''fallback_declared'']\<rparr>
         else decision\<lparr>rd_reason_codes := rd_reason_codes decision @ [''fallback_disabled'']\<rparr>)"

definition ResolveV1 ::
  "(CapabilityCatalogV1 \<Rightarrow> string) \<Rightarrow> ResolveRequestV1 \<Rightarrow> ContractError + RoutingDecisionV1" where
  "ResolveV1 hashf request =
     (case ValidateRequirement (rq_requirement request) of Inl e \<Rightarrow> Inl e | Inr _ \<Rightarrow>
     (case ValidateBudgetGrant (rq_budget request) of Inl e \<Rightarrow> Inl e | Inr _ \<Rightarrow>
     (case ValidateCatalog (rq_catalog request) of Inl e \<Rightarrow> Inl e | Inr _ \<Rightarrow>
     (case CatalogHash hashf (rq_catalog request) of Inl e \<Rightarrow> Inl e | Inr catalogHash \<Rightarrow>
      if rq_catalog_hash request \<noteq> '''' \<and> rq_catalog_hash request \<noteq> catalogHash
      then Inl (ContractError CodeCatalogHashMismatch ''catalog hash does not match the trusted catalog'' '''')
      else let budget = effective_budget (rq_requirement request) (rq_budget request);
               candidates = eligibleModels (cat_models (rq_catalog request)) (rq_requirement request) budget
           in case sort_by eligible_less candidates of
                [] \<Rightarrow> Inl (ContractError CodeInvalidTarget
                  ''no catalog model satisfies the routing requirement and budget'' '''')
              | best # rest \<Rightarrow>
                  let decision = build_decision catalogHash (rq_requirement request) budget best rest
                  in case ValidateDecision decision of
                       Inl e \<Rightarrow> Inl e
                     | Inr _ \<Rightarrow> Inr decision))))"

definition DefaultRequirementV1 :: RoutingRequirementV1 where
  "DefaultRequirementV1 =
     \<lparr>rr_schema_version = RoutingRequirementV1Version,
      rr_capabilities = [CapabilityRepoEdit, CapabilityRepoRead, CapabilityStructuredOutput, CapabilityToolUse],
      rr_complexity = ComplexityStandard, rr_quality = QualityBalanced, rr_latency = LatencyBalanced,
      rr_max_cost = 20, rr_max_context = 131072, rr_max_output = 32768,
      rr_candidates = [], rr_prompt_profile = '''', rr_allow_fallback = False\<rparr>"

definition ApplyCodexProductPreference ::
  "CapabilityCatalogV1 \<Rightarrow> string \<Rightarrow> RoutingRequirementV1 \<Rightarrow> RoutingRequirementV1" where
  "ApplyCodexProductPreference catalog driver requirement =
     (if length (rr_candidates requirement) \<noteq> 0 \<or> driver \<noteq> ''codex'' then requirement
      else let ids = map mc_id (cat_models catalog)
           in if ''codex/local/gpt-5.6-sol'' \<notin> set ids then requirement
              else requirement\<lparr>rr_candidates := rr_candidates requirement @
                     filter (\<lambda>i. i \<in> set ids)
                       [''codex/local/gpt-5.6-sol'', ''codex/local/gpt-5.6-terra'',
                        ''codex/local/gpt-5.6-luna'']\<rparr>)"

subsection \<open>Which models are eligible, and how they rank\<close>

definition model_fits :: "RoutingRequirementV1 \<Rightarrow> BudgetGrantV1 \<Rightarrow> ModelCapabilityV1 \<Rightarrow> bool" where
  "model_fits r b m \<longleftrightarrow>
     set (rr_capabilities r) \<subseteq> set (mc_capabilities m)
     \<and> qualityRank (minQualityForComplexity (rr_complexity r)) \<le> qualityRank (mc_quality m)
     \<and> costUnits (mc_cost m) \<le> bg_max_cost b
     \<and> bg_context b \<le> mc_context_limit m \<and> bg_output b \<le> mc_max_output m
     \<and> (rr_candidates r \<noteq> [] \<longrightarrow> mc_id m \<in> set (rr_candidates r))"

lemma allowed_ranks_dom: "allowed_ranks cs i = None \<longleftrightarrow> i \<notin> set cs"
proof -
  have "map fst (zip cs (map int [0..<length cs])) = cs" by simp
  then have "fst ` set (zip cs (map int [0..<length cs])) = set cs"
    by (metis list.set_map)
  then show ?thesis by (simp add: allowed_ranks_def map_of_eq_None_iff)
qed

lemma allowed_ranks_mem: "allowed_ranks cs i = Some k \<Longrightarrow> i \<in> set cs"
  using allowed_ranks_dom [of cs i] by auto

lemma allowed_ranks_le: "allowed_ranks cs i = Some k \<Longrightarrow> 0 \<le> k \<and> k < int (length cs)"
  by (auto simp: allowed_ranks_def dest!: map_of_SomeD set_zip_rightD)

definition score_of :: "RoutingRequirementV1 \<Rightarrow> ModelCapabilityV1 \<Rightarrow> modelScore" where
  "score_of r m =
     \<lparr>ms_candidate_rank = (if rr_candidates r = [] then 1
        else the (allowed_ranks (rr_candidates r) (mc_id m))),
      ms_quality_delta = \<bar>qualityRank (mc_quality m) - qualityRank (rr_quality r)\<bar>,
      ms_latency_delta = \<bar>latencyRank (mc_latency m) - latencyRank (rr_latency r)\<bar>,
      ms_cost_units = costUnits (mc_cost m),
      ms_id = mc_id m\<rparr>"

lemma eligibleModels_eq:
  "eligibleModels ms r b =
     map (\<lambda>m. \<lparr>em_model = m, em_score = score_of r m\<rparr>) (filter (model_fits r b) ms)"
  by (induction ms)
    (auto simp: Let_def model_fits_def score_of_def containsAll_def list_all_iff allowed_ranks_dom
      not_le not_less subset_iff dest: allowed_ranks_mem split: option.splits)

lemma restrictBudget_min:
  "restrictBudget r g = \<lparr>bg_max_cost = min (bg_max_cost r) (bg_max_cost g),
     bg_context = min (bg_context r) (bg_context g), bg_output = min (bg_output r) (bg_output g)\<rparr>"
  by (cases r; cases g) (simp add: restrictBudget_def Let_def min_def)

lemma effective_budget_valid:
  "ValidateRequirement r = Inr () \<Longrightarrow> ValidateBudgetGrant g = Inr () \<Longrightarrow>
   ValidateBudgetGrant (effective_budget r g) = Inr ()"
  using ValidateRequirement_budget [of r]
  by (auto simp: ValidateBudgetGrant_iff effective_budget_def restrictBudget_min)

subsection \<open>The decision the resolver builds is valid\<close>

lemma reason_char_code: "reason_char c \<longleftrightarrow>
    (97 \<le> (of_char c :: nat) \<and> (of_char c :: nat) \<le> 122) \<or>
    (48 \<le> (of_char c :: nat) \<and> (of_char c :: nat) \<le> 57) \<or> c \<in> {CHR ''.'', CHR ''_'', CHR ''-''}"
  by (auto simp: reason_char_def is_lower_def is_digit_def)

lemma class_reason_chars:
  "validComplexity c \<Longrightarrow> list_all reason_char c \<and> length c \<le> 10"
  "validQuality q \<Longrightarrow> list_all reason_char q \<and> length q \<le> 10"
  "validLatency l \<Longrightarrow> list_all reason_char l \<and> length l \<le> 10"
  "validCost k \<Longrightarrow> list_all reason_char k \<and> length k \<le> 10"
  by (auto simp: validComplexity_def validQuality_def validLatency_def validCost_def reason_char_code)

lemma reason_literals:
  "reasonPattern ''capability_match''" "reasonPattern ''complexity_''"
  "reasonPattern ''quality_preference_''" "reasonPattern ''latency_preference_''"
  "reasonPattern ''cost_preference_''" "reasonPattern ''budget_context''"
  "reasonPattern ''budget_output''" "reasonPattern ''candidate_preference''"
  "reasonPattern ''fallback_declared''" "reasonPattern ''fallback_disabled''"
  "reasonPattern ''fallback_selected''"
  by (simp_all add: reasonPattern_def reason_char_code is_lower_def)

lemma reasonCodes_ok:
  assumes "validComplexity (rr_complexity r)" "validQuality (mc_quality m)"
    "validLatency (mc_latency m)" "validCost (mc_cost m)"
  shows "list_all reasonPattern (reasonCodes r m s)"
  using assms by (auto simp: reasonCodes_def reasonPattern_def reason_char_code is_lower_def
      dest!: class_reason_chars)

lemma reasonCodes_distinct: "distinct (reasonCodes r m s)"
  by (simp add: reasonCodes_def)

lemma reasonCodes_length: "reasonCodes r m s \<noteq> []" "length (reasonCodes r m s) \<le> 8"
  by (simp_all add: reasonCodes_def)

lemma reasonCodes_no_fallback:
  "''fallback_declared'' \<notin> set (reasonCodes r m s)" "''fallback_disabled'' \<notin> set (reasonCodes r m s)"
  by (simp_all add: reasonCodes_def)

lemma model_classes:
  assumes "ValidateModelCapability m = Inr ()"
  shows "validTarget (mc_target m)" "validQuality (mc_quality m)" "validLatency (mc_latency m)"
    "validCost (mc_cost m)"
  using assms by (auto simp: ValidateModelCapability_def split: if_splits)

text \<open>
  The only check of the built decision that a valid catalog and a valid request
  leave open: that no declared fallback has the selected model's target.
\<close>

lemma build_decision_valid:
  assumes r: "ValidateRequirement r = Inr ()" and b: "ValidateBudgetGrant b = Inr ()"
    and h: "validHash h"
    and ms: "\<forall>e \<in> set (best # rest). ValidateModelCapability (em_model e) = Inr ()"
  shows "ValidateDecision (build_decision h r b best rest) = Inr () \<longleftrightarrow>
     (rr_allow_fallback r \<longrightarrow>
        (\<forall>e \<in> set (take MaxFallbacks rest). mc_target (em_model e) \<noteq> mc_target (em_model best)))"
proof -
  have best: "ValidateModelCapability (em_model best) = Inr ()" using ms by simp
  have rest: "\<forall>e \<in> set (take k rest). validTarget (mc_target (em_model e))" for k
    using ms by (auto dest!: in_set_takeD simp: model_classes(1))
  have codes: "list_all reasonPattern (reasonCodes r (em_model best) (em_score best))"
    using reasonCodes_ok ValidateRequirement_classes [OF r] model_classes [OF best] by blast
  have take_eq: "take (if 8 < length rest then 8 else length rest) rest = take 8 rest" by simp
  show ?thesis
    using assms rest [of 8] codes model_classes(1) [OF best] ValidateRequirement_classes(4) [OF r]
      reasonCodes_length [of r "em_model best" "em_score best"]
    by (auto simp: build_decision_def Let_def take_eq ValidateDecision_iff ValidateFallbackPolicy_def
        reasonCodes_distinct reasonCodes_no_fallback reason_literals min_def)
qed

subsection \<open>The resolver as a whole\<close>

definition resolve_order :: "ResolveRequestV1 \<Rightarrow> eligibleModel list" where
  "resolve_order q = sort_by eligible_less
     (eligibleModels (cat_models (rq_catalog q)) (rq_requirement q)
        (effective_budget (rq_requirement q) (rq_budget q)))"

definition request_ok :: "(CapabilityCatalogV1 \<Rightarrow> string) \<Rightarrow> ResolveRequestV1 \<Rightarrow> bool" where
  "request_ok hashf q \<longleftrightarrow>
     ValidateRequirement (rq_requirement q) = Inr () \<and> ValidateBudgetGrant (rq_budget q) = Inr ()
     \<and> ValidateCatalog (rq_catalog q) = Inr ()
     \<and> (rq_catalog_hash q = '''' \<or> rq_catalog_hash q = hashf (rq_catalog q))"

lemma set_resolve_order_models:
  "em_model ` set (resolve_order q) =
     {m \<in> set (cat_models (rq_catalog q)).
        model_fits (rq_requirement q) (effective_budget (rq_requirement q) (rq_budget q)) m}"
  by (auto simp: resolve_order_def eligibleModels_eq image_image)

lemma resolve_order_score:
  "e \<in> set (resolve_order q) \<Longrightarrow> em_score e = score_of (rq_requirement q) (em_model e)"
  by (auto simp: resolve_order_def eligibleModels_eq)

lemma resolve_order_valid:
  "ValidateCatalog (rq_catalog q) = Inr () \<Longrightarrow> e \<in> set (resolve_order q) \<Longrightarrow>
   ValidateModelCapability (em_model e) = Inr ()"
  using set_resolve_order_models [of q] by (auto simp: ValidateCatalog_iff)

lemma ResolveV1_unfold:
  "ResolveV1 hashf q = Inr d \<longleftrightarrow>
     request_ok hashf q
     \<and> (\<exists>best rest. resolve_order q = best # rest
         \<and> d = build_decision (hashf (rq_catalog q)) (rq_requirement q)
               (effective_budget (rq_requirement q) (rq_budget q)) best rest
         \<and> ValidateDecision d = Inr ())"
  unfolding ResolveV1_def request_ok_def resolve_order_def [symmetric] Let_def
  by (auto simp: CatalogHash_def split: sum.splits list.splits)

lemma build_decision_fields:
  "rd_selected (build_decision h r b best rest) = mc_target (em_model best)"
  "rd_budget (build_decision h r b best rest) = b"
  "rd_catalog_hash (build_decision h r b best rest) = h"
  "rd_requirement (build_decision h r b best rest) = r"
  "rd_fallback (build_decision h r b best rest) =
     (if rr_allow_fallback r then map (\<lambda>e. mc_target (em_model e)) (take MaxFallbacks rest) else [])"
  by (auto simp: build_decision_def Let_def)

lemma resolve_order_best:
  assumes "resolve_order q = best # rest" and "e \<in> set (resolve_order q)"
  shows "\<not> score_less (em_score e) (em_score best)"
proof -
  have "e \<in> set (eligibleModels (cat_models (rq_catalog q)) (rq_requirement q)
      (effective_budget (rq_requirement q) (rq_budget q)))"
    using assms(2) by (simp add: resolve_order_def)
  then show ?thesis
    using eligible_ord.sort_by_hd_least assms(1) by (simp add: resolve_order_def eligible_less_def)
qed

end
