(* ===== verification/Routing_Catalog.thy ===== *)
theory Routing_Catalog
  imports Routing_Resolver
begin

section \<open>Catalogs and the catalog registry (internal/routing/catalog.go, catalog\_registry.go)\<close>

text \<open>
  The compiled-in catalogs, the canonical form a catalog is brought to before it
  is hashed, and the registry of hash-addressed catalog snapshots. The registry's
  reading side is the interface \<^verbatim>\<open>routing.CatalogProvider\<close> that the run
  service uses; its contract is the locale \<open>catalog_provider\<close>, which the
  registry is shown to satisfy.
\<close>

subsection \<open>Canonical catalogs\<close>

definition cloneCatalog :: "CapabilityCatalogV1 \<Rightarrow> CapabilityCatalogV1" where
  "cloneCatalog source =
     source\<lparr>cat_models := map (\<lambda>model. model\<lparr>mc_capabilities := mc_capabilities model\<rparr>) (cat_models source)\<rparr>"

lemma cloneCatalog_id [simp]: "cloneCatalog c = c"
  by (simp add: cloneCatalog_def)

definition model_id_less :: "ModelCapabilityV1 \<Rightarrow> ModelCapabilityV1 \<Rightarrow> bool" where
  "model_id_less l r \<longleftrightarrow> mc_id l < mc_id r"

interpretation model_id_ord: go_less model_id_less
  by unfold_locales (auto simp: model_id_less_def)

definition CanonicalCatalogV1 :: "CapabilityCatalogV1 \<Rightarrow> CapabilityCatalogV1" where
  "CanonicalCatalogV1 source =
     (let result = cloneCatalog source;
          models = map (\<lambda>m. m\<lparr>mc_capabilities := sort_strings (mc_capabilities m)\<rparr>) (cat_models result)
      in result\<lparr>cat_models := sort_by model_id_less models\<rparr>)"

definition BuiltinCatalogV1 :: CapabilityCatalogV1 where
  "BuiltinCatalogV1 = cloneCatalog
     \<lparr>cat_schema_version = CapabilityCatalogV1Version,
      cat_policy_version = RoutingPolicyV1Version,
      cat_models =
       [\<lparr>mc_id = ''codex/local/gpt-5.6'',
         mc_target = \<lparr>tgt_driver = ''codex'', tgt_provider = ''local'', tgt_model = ''gpt-5.6''\<rparr>,
         mc_capabilities = [CapabilityNeedsInput, CapabilityRepoEdit, CapabilityRepoRead,
           CapabilityStreaming, CapabilityStructuredOutput, CapabilityToolUse],
         mc_context_limit = 256 * 1024, mc_max_output = 64 * 1024,
         mc_quality = QualityPremium, mc_cost = CostHigh, mc_latency = LatencyBalanced,
         mc_supports_cancellation = True\<rparr>,
        \<lparr>mc_id = ''codex/local/gpt-5.6-luna'',
         mc_target = \<lparr>tgt_driver = ''codex'', tgt_provider = ''local'', tgt_model = ''gpt-5.6-luna''\<rparr>,
         mc_capabilities = [CapabilityRepoEdit, CapabilityRepoRead, CapabilityStructuredOutput,
           CapabilityToolUse],
         mc_context_limit = 128 * 1024, mc_max_output = 32 * 1024,
         mc_quality = QualityBalanced, mc_cost = CostLow, mc_latency = LatencyFast,
         mc_supports_cancellation = True\<rparr>]\<rparr>"

definition codex_model ::
  "string \<Rightarrow> string \<Rightarrow> string \<Rightarrow> string \<Rightarrow> int \<Rightarrow> int \<Rightarrow> ModelCapabilityV1" where
  "codex_model name quality cost latency contextBytes outputBytes =
     \<lparr>mc_id = ''codex/local/'' @ name,
      mc_target = \<lparr>tgt_driver = ''codex'', tgt_provider = ''local'', tgt_model = name\<rparr>,
      mc_capabilities = [CapabilityNeedsInput, CapabilityRepoEdit, CapabilityRepoRead,
        CapabilityStreaming, CapabilityStructuredOutput, CapabilityToolUse],
      mc_context_limit = contextBytes, mc_max_output = outputBytes,
      mc_quality = quality, mc_cost = cost, mc_latency = latency, mc_supports_cancellation = True\<rparr>"

definition BuiltinCodexCatalogV2 :: CapabilityCatalogV1 where
  "BuiltinCodexCatalogV2 = CanonicalCatalogV1
     \<lparr>cat_schema_version = CapabilityCatalogV1Version,
      cat_policy_version = RoutingPolicyV1Version,
      cat_models =
       [codex_model ''gpt-5.6-sol'' QualityPremium CostMedium LatencyBalanced (256 * 1024) (64 * 1024),
        codex_model ''gpt-5.6-terra'' QualityPremium CostHigh LatencySlow (256 * 1024) (64 * 1024),
        codex_model ''gpt-5.6-luna'' QualityEconomy CostLow LatencyFast (128 * 1024) (32 * 1024)]\<rparr>"

definition team_model :: "string \<Rightarrow> ModelCapabilityV1" where
  "team_model ident =
     \<lparr>mc_id = ident,
      mc_target = \<lparr>tgt_driver = ''codex'', tgt_provider = ''local'', tgt_model = ''gpt-5.6-sol''\<rparr>,
      mc_capabilities = [CapabilityNeedsInput, CapabilityRepoRead, CapabilityStreaming, CapabilityToolUse],
      mc_context_limit = 256 * 1024, mc_max_output = 64 * 1024,
      mc_quality = QualityPremium, mc_cost = CostHigh, mc_latency = LatencyBalanced,
      mc_supports_cancellation = True\<rparr>"

definition BuiltinTeamCatalogV1 :: CapabilityCatalogV1 where
  "BuiltinTeamCatalogV1 =
     \<lparr>cat_schema_version = CapabilityCatalogV1Version,
      cat_policy_version = RoutingPolicyV1Version,
      cat_models = [team_model ''codex/architect/gpt-5.6-sol'', team_model ''codex/reviewer/gpt-5.6-sol'']\<rparr>"

text \<open>
  The entries of a catalog in either order give the same canonical catalog, provided
  their IDs differ; with equal IDs the validator rejects the catalog anyway.
\<close>

lemma sort_models_cong:
  assumes "distinct (map mc_id ms)" and "mset ms = mset ns"
  shows "sort_by model_id_less ms = sort_by model_id_less ns"
proof -
  let ?s = "sort_by model_id_less"
  have d: "distinct (map mc_id ms)" "distinct (map mc_id ns)"
    using assms by simp (metis assms mset_map mset_eq_imp_distinct_iff)
  have s: "sorted (map mc_id (?s xs))" for xs
    using model_id_ord.sorted_sort_by [of xs]
    by (auto simp: sorted_map model_id_less_def not_less)
  have "map mc_id (?s ms) = map mc_id (?s ns)"
    using s d assms by (intro sorted_distinct_set_unique) (auto dest: mset_eq_setD)
  moreover have "inj_on mc_id (set (?s ms) \<union> set (?s ns))"
    using d assms by (auto simp: distinct_map dest: mset_eq_setD)
  ultimately show ?thesis by (rule map_inj_on)
qed

lemma CanonicalCatalogV1_idem: "CanonicalCatalogV1 (CanonicalCatalogV1 c) = CanonicalCatalogV1 c"
proof -
  let ?k = "\<lambda>m. m\<lparr>mc_capabilities := sort_strings (mc_capabilities m)\<rparr>"
  let ?ms = "sort_by model_id_less (map ?k (cat_models c))"
  have "map ?k ?ms = map id ?ms"
    by (rule map_cong) (auto simp: sort_strings_sorted)
  then have "map ?k ?ms = ?ms" by simp
  moreover have "sort_by model_id_less ?ms = ?ms"
    by (rule model_id_ord.sort_by_id) (rule model_id_ord.sorted_sort_by)
  ultimately show ?thesis by (simp add: CanonicalCatalogV1_def Let_def)
qed

lemma ValidateCatalog_canonical:
  assumes "ValidateCatalog c = Inr ()"
  shows "CanonicalCatalogV1 c = c"
proof -
  have m: "\<forall>m \<in> set (cat_models c). sorted_wrt (<) (mc_capabilities m)"
    using assms by (auto simp: ValidateCatalog_iff ValidateModelCapability_def validateCapabilities_iff
        split: if_splits)
  then have "map (\<lambda>m. m\<lparr>mc_capabilities := sort_strings (mc_capabilities m)\<rparr>) (cat_models c) = cat_models c"
    by (intro map_idI) (simp add: sort_strings_sorted strict_sorted_iff)
  moreover have "sort_by model_id_less (cat_models c) = cat_models c"
    using assms by (intro model_id_ord.sort_by_id)
      (auto simp: ValidateCatalog_iff strict_sorted_iff sorted_map model_id_less_def not_less)
  ultimately show ?thesis by (simp add: CanonicalCatalogV1_def)
qed

subsection \<open>The registry\<close>

datatype RegistryError =
    RegValidate ContractError \<comment> \<open>validate routing catalog: ...\<close>
  | RegHash ContractError \<comment> \<open>hash routing catalog: ...\<close>
  | RegInconsistent string \<comment> \<open>routing catalog registry is inconsistent for hash ...\<close>
  | RegActiveUnavailable string \<comment> \<open>active routing catalog ... is unavailable\<close>

record CatalogRegistry =
  reg_active_hash :: string
  reg_catalogs :: "(string, CapabilityCatalogV1) gomap"

definition register_catalog ::
  "(CapabilityCatalogV1 \<Rightarrow> string) \<Rightarrow> CatalogRegistry \<Rightarrow> CapabilityCatalogV1
     \<Rightarrow> RegistryError + (string \<times> CatalogRegistry)" where
  "register_catalog hashf r catalog0 =
     (let catalog = CanonicalCatalogV1 catalog0 in
      case ValidateCatalog catalog of Inl e \<Rightarrow> Inl (RegValidate e) | Inr _ \<Rightarrow>
      (case CatalogHash hashf catalog of Inl e \<Rightarrow> Inl (RegHash e) | Inr hash \<Rightarrow>
       (case map_of (reg_catalogs r) hash of
          Some existing \<Rightarrow>
            if CatalogHash hashf existing \<noteq> Inr hash then Inl (RegInconsistent hash)
            else Inr (hash, r)
        | None \<Rightarrow> Inr (hash, r\<lparr>reg_catalogs := (hash, cloneCatalog catalog) # reg_catalogs r\<rparr>))))"

definition SetActive ::
  "(CapabilityCatalogV1 \<Rightarrow> string) \<Rightarrow> CatalogRegistry \<Rightarrow> CapabilityCatalogV1
     \<Rightarrow> RegistryError + (string \<times> CatalogRegistry)" where
  "SetActive hashf r catalog =
     (case register_catalog hashf r catalog of
        Inl e \<Rightarrow> Inl e
      | Inr (hash, r') \<Rightarrow> Inr (hash, r'\<lparr>reg_active_hash := hash\<rparr>))"

fun register_historical ::
  "(CapabilityCatalogV1 \<Rightarrow> string) \<Rightarrow> CatalogRegistry \<Rightarrow> CapabilityCatalogV1 list
     \<Rightarrow> RegistryError + CatalogRegistry" where
  "register_historical hashf r [] = Inr r"
| "register_historical hashf r (c # cs) =
     (case register_catalog hashf r c of
        Inl e \<Rightarrow> Inl e
      | Inr (_, r') \<Rightarrow> register_historical hashf r' cs)"

definition NewCatalogRegistry ::
  "(CapabilityCatalogV1 \<Rightarrow> string) \<Rightarrow> CapabilityCatalogV1 \<Rightarrow> CapabilityCatalogV1 list
     \<Rightarrow> RegistryError + CatalogRegistry" where
  "NewCatalogRegistry hashf active historical =
     (case register_historical hashf \<lparr>reg_active_hash = '''', reg_catalogs = []\<rparr> historical of
        Inl e \<Rightarrow> Inl e
      | Inr r \<Rightarrow> (case register_catalog hashf r active of
          Inl e \<Rightarrow> Inl e
        | Inr (hash, r') \<Rightarrow> Inr (r'\<lparr>reg_active_hash := hash\<rparr>)))"

definition ActiveCatalog :: "CatalogRegistry \<Rightarrow> RegistryError + (CapabilityCatalogV1 \<times> string)" where
  "ActiveCatalog r =
     (case map_of (reg_catalogs r) (reg_active_hash r) of
        None \<Rightarrow> Inl (RegActiveUnavailable (reg_active_hash r))
      | Some catalog \<Rightarrow> Inr (cloneCatalog catalog, reg_active_hash r))"

definition CatalogByHash :: "CatalogRegistry \<Rightarrow> string \<Rightarrow> CapabilityCatalogV1 option" where
  "CatalogByHash r hash = map_option cloneCatalog (map_of (reg_catalogs r) hash)"

text \<open>
  The invariant of the registry: every stored catalog is canonical, valid, and
  stored under its own hash.
\<close>

definition registry_inv :: "(CapabilityCatalogV1 \<Rightarrow> string) \<Rightarrow> CatalogRegistry \<Rightarrow> bool" where
  "registry_inv hashf r \<longleftrightarrow>
     wf_map (reg_catalogs r)
     \<and> (\<forall>(h, c) \<in> set (reg_catalogs r). ValidateCatalog c = Inr () \<and> hashf c = h)"

lemma registry_inv_lookup:
  "registry_inv hashf r \<Longrightarrow> map_of (reg_catalogs r) h = Some c \<Longrightarrow>
   ValidateCatalog c = Inr () \<and> hashf c = h"
  by (auto simp: registry_inv_def dest: map_of_SomeD)

lemma register_catalog_ok:
  assumes "registry_inv hashf r" and "register_catalog hashf r c = Inr (h, r')"
  shows "registry_inv hashf r'" "h = hashf (CanonicalCatalogV1 c)"
    "ValidateCatalog (CanonicalCatalogV1 c) = Inr ()"
    "reg_active_hash r' = reg_active_hash r"
    "map_of (reg_catalogs r) k = Some d \<Longrightarrow> map_of (reg_catalogs r') k = Some d"
    "\<exists>d. map_of (reg_catalogs r') h = Some d"
  using assms
  by (auto simp: register_catalog_def Let_def CatalogHash_def registry_inv_def wf_map_def
      map_of_eq_None_iff rev_image_eqI dest: map_of_SomeD split: sum.splits option.splits if_splits)

lemma register_catalog_fails_iff:
  assumes "registry_inv hashf r"
  shows "(\<exists>e. register_catalog hashf r c = Inl e) \<longleftrightarrow> ValidateCatalog (CanonicalCatalogV1 c) \<noteq> Inr ()"
  using registry_inv_lookup [OF assms]
  by (auto simp: register_catalog_def Let_def CatalogHash_def split: sum.splits option.splits)

lemma register_historical_inv:
  "registry_inv hashf r \<Longrightarrow> register_historical hashf r cs = Inr r' \<Longrightarrow> registry_inv hashf r'"
  by (induction hashf r cs rule: register_historical.induct)
    (auto split: sum.splits prod.splits dest: register_catalog_ok(1))

lemma NewCatalogRegistry_inv:
  "NewCatalogRegistry hashf a hs = Inr r \<Longrightarrow> registry_inv hashf r"
  using register_historical_inv [of hashf "\<lparr>reg_active_hash = '''', reg_catalogs = []\<rparr>" hs]
  by (auto simp: NewCatalogRegistry_def registry_inv_def wf_map_def split: sum.splits prod.splits
      dest!: register_catalog_ok(1) [unfolded registry_inv_def wf_map_def, rotated])

subsection \<open>The interface the run service reads catalogs through\<close>

text \<open>
  \<^verbatim>\<open>routing.CatalogProvider\<close>: what a client may rely on is that the active
  catalog can also be found by its hash, and that a catalog found by a hash is valid
  and has that hash.
\<close>

locale catalog_provider =
  fixes hashf :: "CapabilityCatalogV1 \<Rightarrow> string"
    and active :: "'p \<Rightarrow> RegistryError + (CapabilityCatalogV1 \<times> string)"
    and by_hash :: "'p \<Rightarrow> string \<Rightarrow> CapabilityCatalogV1 option"
    and inv :: "'p \<Rightarrow> bool"
  assumes active_found: "inv p \<Longrightarrow> active p = Inr (c, h) \<Longrightarrow> by_hash p h = Some c"
    and found_hash: "inv p \<Longrightarrow> by_hash p h = Some c \<Longrightarrow> CatalogHash hashf c = Inr h"
begin

lemma found_valid: "inv p \<Longrightarrow> by_hash p h = Some c \<Longrightarrow> ValidateCatalog c = Inr ()"
  using found_hash by (auto simp: CatalogHash_iff)

lemma active_hash: "inv p \<Longrightarrow> active p = Inr (c, h) \<Longrightarrow> CatalogHash hashf c = Inr h"
  using active_found found_hash by blast

text \<open>A decision resolved against the active catalog names a catalog that can be found again.\<close>

lemma resolved_catalog_found:
  assumes "inv p" "active p = Inr (c, h)" "rq_catalog q = c" "ResolveV1 hashf q = Inr d"
  shows "by_hash p (rd_catalog_hash d) = Some c"
proof -
  have "rd_catalog_hash d = hashf c"
    using assms by (auto simp: ResolveV1_unfold build_decision_fields)
  moreover have "hashf c = h"
    using active_hash [OF assms(1,2)] by (auto simp: CatalogHash_iff)
  ultimately show ?thesis using active_found [OF assms(1,2)] by simp
qed

end

interpretation registry: catalog_provider hashf ActiveCatalog CatalogByHash "registry_inv hashf"
  for hashf
proof
  fix p c h
  show "CatalogByHash p h = Some c" if "registry_inv hashf p" "ActiveCatalog p = Inr (c, h)"
    using that by (auto simp: ActiveCatalog_def CatalogByHash_def split: option.splits)
  show "CatalogHash hashf c = Inr h" if "registry_inv hashf p" "CatalogByHash p h = Some c"
    using that registry_inv_lookup [of hashf p h c] by (auto simp: CatalogByHash_def CatalogHash_def)
qed

subsection \<open>Execution profiles (internal/routing/execution\_profile.go)\<close>

abbreviation "ExecutionProfileV1Version \<equiv> ''fishyume.execution-profile/v1''"

record ExecutionProfileV1 =
  ep_schema_version :: string
  ep_target :: Target
  ep_reasoning_effort :: string

datatype ProfileError =
    ProfileIdentity \<comment> \<open>execution profile identity is invalid\<close>
  | ProfileEffort string \<comment> \<open>execution profile reasoning effort ... is invalid\<close>
  | ProfileTarget \<comment> \<open>execution profile target does not match routing decision\<close>

definition ExecutionProfileForDecision :: "RoutingDecisionV1 \<Rightarrow> ContractError + ExecutionProfileV1" where
  "ExecutionProfileForDecision decision =
     (case ValidateDecision decision of Inl e \<Rightarrow> Inl e | Inr _ \<Rightarrow>
      let effort = (if rr_complexity (rd_requirement decision) = ComplexitySimple then ''low''
                    else if rr_complexity (rd_requirement decision) = ComplexityComplex then ''high''
                    else ''medium'')
      in Inr \<lparr>ep_schema_version = ExecutionProfileV1Version, ep_target = rd_selected decision,
              ep_reasoning_effort = effort\<rparr>)"

definition ValidateExecutionProfile ::
  "ExecutionProfileV1 \<Rightarrow> RoutingDecisionV1 option \<Rightarrow> ProfileError + unit" where
  "ValidateExecutionProfile profile decision =
     (if ep_schema_version profile \<noteq> ExecutionProfileV1Version \<or> ValidateTarget (ep_target profile) \<noteq> Inr ()
      then Inl ProfileIdentity
      else if ep_reasoning_effort profile
                \<notin> set [''low'', ''medium'', ''high'', ''xhigh'', ''max'', ''ultra'']
      then Inl (ProfileEffort (ep_reasoning_effort profile))
      else case decision of
             None \<Rightarrow> Inr ()
           | Some d \<Rightarrow> if ep_target profile \<noteq> rd_selected d then Inl ProfileTarget else Inr ())"

lemma ExecutionProfile_valid:
  assumes "ExecutionProfileForDecision d = Inr p"
  shows "ValidateExecutionProfile p (Some d) = Inr ()"
proof -
  have "ValidateDecision d = Inr ()"
    using assms by (auto simp: ExecutionProfileForDecision_def split: sum.splits)
  then have "validTarget (rd_selected d)" by (simp add: ValidateDecision_iff)
  with assms show ?thesis
    by (auto simp: ExecutionProfileForDecision_def ValidateExecutionProfile_def ValidateTarget_def
        Let_def split: sum.splits if_splits)
qed

end
