(* ===== verification/Routing_Accounting.thy ===== *)
theory Routing_Accounting
  imports Routing_Catalog
begin

section \<open>Cost accounting and fallback (internal/routing/accounting.go)\<close>

text \<open>
  The cost of a route is reserved before an Attempt is launched, and an explicit
  fallback moves a decision to the next declared target. The lemmas say exactly
  when a reservation succeeds and how a chain of fallbacks walks the declared list.
\<close>

fun find_target :: "Target \<Rightarrow> ModelCapabilityV1 list \<Rightarrow> int option" where
  "find_target target [] = None"
| "find_target target (model # models) =
     (if mc_target model = target then Some (costUnits (mc_cost model)) else find_target target models)"

definition CostUnitsForTarget :: "CapabilityCatalogV1 \<Rightarrow> Target \<Rightarrow> ContractError + int" where
  "CostUnitsForTarget catalog target =
     (case ValidateCatalog catalog of Inl e \<Rightarrow> Inl e | Inr _ \<Rightarrow>
      (case find_target target (cat_models catalog) of
         Some cost \<Rightarrow> Inr cost
       | None \<Rightarrow> Inl (ContractError CodeInvalidTarget
           ''routing target is absent from the trusted catalog'' (tgt_model target))))"

definition ValidateRoutingUsageForDecision ::
  "(CapabilityCatalogV1 \<Rightarrow> string) \<Rightarrow> CapabilityCatalogV1 \<Rightarrow> RoutingDecisionV1 \<Rightarrow> RoutingUsageV1
     \<Rightarrow> ContractError + unit" where
  "ValidateRoutingUsageForDecision hashf catalog decision usage =
     (case ValidateCatalog catalog of Inl e \<Rightarrow> Inl e | Inr _ \<Rightarrow>
     (case ValidateDecision decision of Inl e \<Rightarrow> Inl e | Inr _ \<Rightarrow>
     (case ValidateRoutingUsage usage of Inl e \<Rightarrow> Inl e | Inr _ \<Rightarrow>
     (case CatalogHash hashf catalog of Inl e \<Rightarrow> Inl e | Inr hash \<Rightarrow>
      if rd_catalog_hash decision \<noteq> hash
      then Inl (ContractError CodeCatalogHashMismatch
        ''routing decision catalog hash does not match the trusted catalog'' '''')
      else if ru_target usage \<noteq> rd_selected decision
      then Inl (ContractError CodeInvalidTarget
        ''routing usage target conflicts with routing decision'' (tgt_model (ru_target usage)))
      else case CostUnitsForTarget catalog (ru_target usage) of Inl e \<Rightarrow> Inl e | Inr cost \<Rightarrow>
        if ru_cost usage \<noteq> cost \<or> ru_cumulative usage > bg_max_cost (rd_budget decision)
        then Inl (ContractError CodeInvalidBudget
          ''routing usage cost conflicts with the trusted catalog or budget'' (tgt_model (ru_target usage)))
        else Inr ()))))"

text \<open>
  The message of the budget error interpolates the two amounts with
  \<^verbatim>\<open>%d\<close>; the model keeps the fixed text.
\<close>

definition ReserveRoutingUsageV1 ::
  "(CapabilityCatalogV1 \<Rightarrow> string) \<Rightarrow> CapabilityCatalogV1 \<Rightarrow> RoutingDecisionV1 \<Rightarrow> int \<Rightarrow> int
     \<Rightarrow> ContractError + RoutingUsageV1" where
  "ReserveRoutingUsageV1 hashf catalog decision priorCostUnits routeIndex =
     (case ValidateCatalog catalog of Inl e \<Rightarrow> Inl e | Inr _ \<Rightarrow>
     (case ValidateDecision decision of Inl e \<Rightarrow> Inl e | Inr _ \<Rightarrow>
     (case CatalogHash hashf catalog of Inl e \<Rightarrow> Inl e | Inr hash \<Rightarrow>
      if rd_catalog_hash decision \<noteq> hash
      then Inl (ContractError CodeCatalogHashMismatch
        ''routing decision catalog hash does not match the trusted catalog'' '''')
      else if priorCostUnits < 0 \<or> priorCostUnits > MaxCostUnits
      then Inl (ContractError CodeInvalidBudget ''prior routing cost is outside its bound'' '''')
      else case CostUnitsForTarget catalog (rd_selected decision) of Inl e \<Rightarrow> Inl e | Inr cost \<Rightarrow>
        (let cumulative = priorCostUnits + cost in
         if cumulative > MaxCostUnits \<or> cumulative > bg_max_cost (rd_budget decision)
         then Inl (ContractError CodeInvalidBudget ''routing cost exceeds budget'' '''')
         else let usage = \<lparr>ru_schema_version = RoutingUsageV1Version, ru_target = rd_selected decision,
                    ru_route_index = routeIndex, ru_cost = cost, ru_cumulative = cumulative\<rparr>
              in case ValidateRoutingUsageForDecision hashf catalog decision usage of
                   Inl e \<Rightarrow> Inl e
                 | Inr _ \<Rightarrow> Inr usage))))"

text \<open>
  \<open>AdvanceFallbackV1\<close> returns a decision, a flag and an error; a cleared flag is
  \<open>None\<close>.
\<close>

definition AdvanceFallbackV1 :: "RoutingDecisionV1 \<Rightarrow> ContractError + RoutingDecisionV1 option" where
  "AdvanceFallbackV1 previous =
     (case ValidateDecision previous of Inl e \<Rightarrow> Inl e | Inr _ \<Rightarrow>
      if fp_mode (rd_fallback_policy previous) \<noteq> FallbackEligible then Inr None
      else case rd_fallback previous of
        [] \<Rightarrow> Inr None
      | first # others \<Rightarrow>
          let next0 = previous\<lparr>rd_selected := first, rd_fallback := others\<rparr>;
              advanced = (if ''fallback_selected'' \<in> set (rd_reason_codes next0) then next0
                 else next0\<lparr>rd_reason_codes := rd_reason_codes next0 @ [''fallback_selected'']\<rparr>)
          in case ValidateDecision advanced of
               Inl e \<Rightarrow> Inl e
             | Inr _ \<Rightarrow> Inr (Some advanced))"

subsection \<open>Reservations\<close>

lemma costUnits_range: "costUnits c \<in> {1, 10, 100}"
  by (simp add: costUnits_def)

lemma find_target_cost: "find_target t ms = Some k \<Longrightarrow> k \<in> {1, 10, 100} \<and> t \<in> mc_target ` set ms"
  using costUnits_range by (induction ms) (auto split: if_splits)

lemma find_target_None: "find_target t ms = None \<longleftrightarrow> t \<notin> mc_target ` set ms"
  by (induction ms) auto

lemma CostUnitsForTarget_iff:
  "CostUnitsForTarget c t = Inr k \<longleftrightarrow>
     ValidateCatalog c = Inr () \<and> find_target t (cat_models c) = Some k"
  by (auto simp: CostUnitsForTarget_def split: sum.splits option.splits)

lemma ValidateRoutingUsageForDecision_iff:
  "ValidateRoutingUsageForDecision hashf c d u = Inr () \<longleftrightarrow>
     ValidateCatalog c = Inr () \<and> ValidateDecision d = Inr () \<and> ValidateRoutingUsage u = Inr ()
     \<and> rd_catalog_hash d = hashf c \<and> ru_target u = rd_selected d
     \<and> find_target (ru_target u) (cat_models c) = Some (ru_cost u)
     \<and> ru_cumulative u \<le> bg_max_cost (rd_budget d)"
  unfolding ValidateRoutingUsageForDecision_def
  by (simp only: res_simps CatalogHash_iff CostUnitsForTarget_iff) auto

lemma reserve_iff:
  "ReserveRoutingUsageV1 hashf c d prior i = Inr u \<longleftrightarrow>
     ValidateCatalog c = Inr () \<and> ValidateDecision d = Inr () \<and> rd_catalog_hash d = hashf c
     \<and> 0 \<le> prior \<and> 0 \<le> i \<and> i \<le> int MaxFallbacks
     \<and> (\<exists>cost. find_target (rd_selected d) (cat_models c) = Some cost
          \<and> prior + cost \<le> bg_max_cost (rd_budget d)
          \<and> u = \<lparr>ru_schema_version = RoutingUsageV1Version, ru_target = rd_selected d,
                 ru_route_index = i, ru_cost = cost, ru_cumulative = prior + cost\<rparr>)"
  (is "?L \<longleftrightarrow> ?R")
proof -
  have b: "bg_max_cost (rd_budget d) \<le> MaxCostUnits" "validTarget (rd_selected d)"
    if "ValidateDecision d = Inr ()"
    using that by (auto simp: ValidateDecision_iff ValidateBudgetGrant_iff)
  have "?L \<longleftrightarrow> ?R \<and> prior \<le> MaxCostUnits"
  proof (cases "find_target (rd_selected d) (cat_models c)")
    case None
    then show ?thesis
      by (auto simp: ReserveRoutingUsageV1_def CostUnitsForTarget_def split: sum.splits if_splits)
  next
    case (Some cost)
    then have k: "1 \<le> cost" "cost \<le> MaxCostUnits" by (auto dest: find_target_cost)
    show ?thesis
    proof (cases "ValidateCatalog c = Inr () \<and> ValidateDecision d = Inr ()")
      case False
      then show ?thesis by (auto simp: ReserveRoutingUsageV1_def split: sum.splits)
    next
      case True
      then have "CatalogHash hashf c = Inr (hashf c)"
        "CostUnitsForTarget c (rd_selected d) = Inr cost"
        using Some by (simp_all add: CatalogHash_iff CostUnitsForTarget_iff)
      with True Some k b show ?thesis
        by (auto simp: ReserveRoutingUsageV1_def Let_def ValidateRoutingUsageForDecision_iff
            ValidateRoutingUsage_def res_simps)
    qed
  qed
  moreover have "?R \<Longrightarrow> prior \<le> MaxCostUnits"
    using b find_target_cost by fastforce
  ultimately show ?thesis by blast
qed

subsection \<open>Fallback chains\<close>

lemma advance_ok:
  assumes v: "ValidateDecision d = Inr ()" and e: "fp_mode (rd_fallback_policy d) = FallbackEligible"
    and f: "rd_fallback d = t # ts" and t: "t \<notin> set ts"
    and l: "length (rd_reason_codes d) < MaxReasonCodes \<or> ''fallback_selected'' \<in> set (rd_reason_codes d)"
  shows "\<exists>n. AdvanceFallbackV1 d = Inr (Some n) \<and> rd_selected n = t \<and> rd_fallback n = ts
     \<and> ValidateDecision n = Inr () \<and> rd_fallback_policy n = rd_fallback_policy d
     \<and> ''fallback_selected'' \<in> set (rd_reason_codes n) \<and> rd_budget n = rd_budget d
     \<and> rd_requirement n = rd_requirement d \<and> rd_catalog_hash n = rd_catalog_hash d"
proof -
  define n where "n = (let n0 = d\<lparr>rd_selected := t, rd_fallback := ts\<rparr> in
      if ''fallback_selected'' \<in> set (rd_reason_codes d) then n0
      else n0\<lparr>rd_reason_codes := rd_reason_codes d @ [''fallback_selected'']\<rparr>)"
  have n: "rd_selected n = t" "rd_fallback n = ts" "rd_fallback_policy n = rd_fallback_policy d"
    "''fallback_selected'' \<in> set (rd_reason_codes n)" "rd_budget n = rd_budget d"
    "rd_requirement n = rd_requirement d" "rd_catalog_hash n = rd_catalog_hash d"
    by (auto simp: n_def Let_def)
  have "ValidateDecision n = Inr ()"
    using v e f t l reason_literals by (auto simp: n_def Let_def ValidateDecision_iff)
  moreover from this have "AdvanceFallbackV1 d = Inr (Some n)"
    using v e f by (cases "''fallback_selected'' \<in> set (rd_reason_codes d)")
      (simp_all add: AdvanceFallbackV1_def Let_def n_def)
  ultimately show ?thesis using n by blast
qed

text \<open>The decision after \<open>k\<close> explicit fallbacks; \<open>None\<close> when there was none left to take.\<close>

fun advance_times :: "nat \<Rightarrow> RoutingDecisionV1 \<Rightarrow> ContractError + RoutingDecisionV1 option" where
  "advance_times 0 d = Inr (Some d)"
| "advance_times (Suc k) d =
     (case AdvanceFallbackV1 d of
        Inl e \<Rightarrow> Inl e
      | Inr None \<Rightarrow> Inr None
      | Inr (Some n) \<Rightarrow> advance_times k n)"

lemma advance_times_chain:
  assumes "ValidateDecision d = Inr ()" "fp_mode (rd_fallback_policy d) = FallbackEligible"
    "distinct (rd_fallback d)"
    "length (rd_reason_codes d) < MaxReasonCodes \<or> ''fallback_selected'' \<in> set (rd_reason_codes d)"
    "k \<le> length (rd_fallback d)"
  shows "\<exists>n. advance_times k d = Inr (Some n)
     \<and> rd_selected n = (rd_selected d # rd_fallback d) ! k \<and> rd_fallback n = drop k (rd_fallback d)
     \<and> ValidateDecision n = Inr ()"
  using assms
proof (induction k arbitrary: d)
  case 0
  then show ?case by simp
next
  case (Suc k)
  then obtain t ts where f: "rd_fallback d = t # ts" by (cases "rd_fallback d") auto
  with Suc.prems obtain n where n: "AdvanceFallbackV1 d = Inr (Some n)" "rd_selected n = t"
      "rd_fallback n = ts" "ValidateDecision n = Inr ()"
      "rd_fallback_policy n = rd_fallback_policy d" "''fallback_selected'' \<in> set (rd_reason_codes n)"
    using advance_ok [of d t ts] by auto
  with Suc.IH [of n] Suc.prems f show ?case by auto
qed

lemma advance_end:
  assumes "ValidateDecision d = Inr ()" "rd_fallback d = []"
  shows "AdvanceFallbackV1 d = Inr None"
  using assms by (auto simp: AdvanceFallbackV1_def)

end
