(* ===== verification/Routing_Properties.thy ===== *)
theory Routing_Properties
  imports Routing_Accounting
begin

section \<open>Properties of the routing component\<close>

text \<open>
  What the routing package promises its callers: the resolver returns the best
  model the catalog holds within the budget, fails only for a stated reason, and
  its decisions can be reserved, audited and advanced along the declared fallbacks.
\<close>

subsection \<open>Concrete inputs shared by the witnesses\<close>

definition zero_digest :: "CapabilityCatalogV1 \<Rightarrow> string" where
  "zero_digest c = replicate 64 (CHR ''0'')"

lemma zero_digest_ok: "digest_ok zero_digest"
  by (simp add: digest_ok_def zero_digest_def validHash_def list_all_iff is_hex_def is_digit_def)

definition sample_grant :: BudgetGrantV1 where
  "sample_grant = \<lparr>bg_max_cost = 500, bg_context = 131072, bg_output = 32768\<rparr>"

definition sample_requirement :: RoutingRequirementV1 where
  "sample_requirement = DefaultRequirementV1\<lparr>rr_max_cost := 500, rr_allow_fallback := True\<rparr>"

definition sample_request :: ResolveRequestV1 where
  "sample_request = \<lparr>rq_catalog = BuiltinCodexCatalogV2, rq_catalog_hash = '''',
     rq_requirement = sample_requirement, rq_budget = sample_grant\<rparr>"

text \<open>The economy model Luna is below the quality floor of a standard task: Sol is chosen, Terra falls back.\<close>

definition sample_decision :: RoutingDecisionV1 where
  "sample_decision = build_decision (zero_digest BuiltinCodexCatalogV2) sample_requirement sample_grant
     (hd (resolve_order sample_request)) (tl (resolve_order sample_request))"

lemma sample_resolves: "ResolveV1 zero_digest sample_request = Inr sample_decision"
  by code_simp

lemma sample_catalog_valid: "ValidateCatalog BuiltinCodexCatalogV2 = Inr ()"
  by code_simp

lemma sample_request_ok: "request_ok zero_digest sample_request"
  using sample_resolves by (auto simp: ResolveV1_unfold)

lemma sample_targets: "map (tgt_model \<circ> mc_target \<circ> em_model) (resolve_order sample_request)
    = [''gpt-5.6-sol'', ''gpt-5.6-terra'']"
  by code_simp

lemma sample_decision_facts:
  "rd_catalog_hash sample_decision = zero_digest BuiltinCodexCatalogV2"
  "bg_max_cost (rd_budget sample_decision) = 500"
  "find_target (rd_selected sample_decision) (cat_models BuiltinCodexCatalogV2) = Some 10"
  "distinct (rd_fallback sample_decision)" "length (rd_fallback sample_decision) = 1"
  by code_simp+

lemma sample_decision_valid: "ValidateDecision sample_decision = Inr ()"
  using sample_resolves by (auto simp: ResolveV1_unfold)

subsection \<open>The resolver\<close>

text \<open>
  C1. A decision of the resolver selects a model of the catalog that has every required
  capability, reaches the quality floor of the complexity class, fits the cost, context
  and output budget and, where the requirement names candidates, is one of them; and no
  other fitting model of the catalog has a better score.
\<close>

theorem resolve_selects_best:
  assumes "ResolveV1 hashf q = Inr d"
  shows "\<exists>m \<in> set (cat_models (rq_catalog q)).
     mc_target m = rd_selected d \<and> model_fits (rq_requirement q) (rd_budget d) m
     \<and> (\<forall>m' \<in> set (cat_models (rq_catalog q)). model_fits (rq_requirement q) (rd_budget d) m' \<longrightarrow>
          \<not> score_less (score_of (rq_requirement q) m') (score_of (rq_requirement q) m))"
proof -
  obtain best rest where o: "resolve_order q = best # rest"
    and d: "d = build_decision (hashf (rq_catalog q)) (rq_requirement q)
        (effective_budget (rq_requirement q) (rq_budget q)) best rest"
    using assms by (auto simp: ResolveV1_unfold)
  let ?fits = "\<lambda>m. m \<in> set (cat_models (rq_catalog q))
      \<and> model_fits (rq_requirement q) (effective_budget (rq_requirement q) (rq_budget q)) m"
  have models: "em_model ` set (resolve_order q) = {m. ?fits m}"
    using set_resolve_order_models [of q] by auto
  have best: "best \<in> set (resolve_order q)" using o by simp
  then have "?fits (em_model best)" using models by blast
  moreover have "\<not> score_less (score_of (rq_requirement q) m') (score_of (rq_requirement q) (em_model best))"
    if m': "?fits m'" for m'
  proof -
    obtain e where e: "e \<in> set (resolve_order q)" "em_model e = m'"
      using m' models by (metis (mono_tags, lifting) imageE mem_Collect_eq)
    then show ?thesis
      using resolve_order_best [OF o e(1)] resolve_order_score best by metis
  qed
  ultimately show ?thesis
    unfolding d build_decision_fields by blast
qed

theorem resolve_selects_best_witness:
  "\<exists>m \<in> set (cat_models BuiltinCodexCatalogV2). mc_target m = rd_selected sample_decision
     \<and> model_fits sample_requirement (rd_budget sample_decision) m"
  using resolve_selects_best [OF sample_resolves] by (auto simp: sample_request_def)

text \<open>
  C3. The resolver never expands a budget: the granted budget of a decision is the
  component-wise minimum of the requirement and the caller's grant; the decision passes
  its own validator and carries the requirement and the hash of the trusted catalog.
\<close>

theorem resolve_budget_never_expands:
  assumes "ResolveV1 hashf q = Inr d"
  shows "bg_max_cost (rd_budget d) = min (rr_max_cost (rq_requirement q)) (bg_max_cost (rq_budget q))
     \<and> bg_context (rd_budget d) = min (rr_max_context (rq_requirement q)) (bg_context (rq_budget q))
     \<and> bg_output (rd_budget d) = min (rr_max_output (rq_requirement q)) (bg_output (rq_budget q))
     \<and> rd_catalog_hash d = hashf (rq_catalog q) \<and> rd_requirement d = rq_requirement q
     \<and> ValidateDecision d = Inr ()"
  using assms
  by (auto simp: ResolveV1_unfold build_decision_fields effective_budget_def restrictBudget_min)

theorem resolve_budget_never_expands_witness:
  "bg_max_cost (rd_budget sample_decision) = 500 \<and> ValidateDecision sample_decision = Inr ()"
  using resolve_budget_never_expands [OF sample_resolves]
  by (simp add: sample_request_def sample_requirement_def sample_grant_def)

text \<open>
  C2. When the resolver succeeds: a valid request resolves exactly when some model fits,
  except that with model fallback allowed the selected target must not come up again among
  the next eight models of the ranking.
\<close>

theorem resolve_succeeds_iff:
  assumes "digest_ok hashf" and "request_ok hashf q"
  shows "(\<exists>d. ResolveV1 hashf q = Inr d) \<longleftrightarrow>
     (\<exists>best rest. resolve_order q = best # rest
        \<and> (rr_allow_fallback (rq_requirement q) \<longrightarrow>
             (\<forall>e \<in> set (take MaxFallbacks rest). mc_target (em_model e) \<noteq> mc_target (em_model best))))"
proof -
  have "ValidateDecision (build_decision (hashf (rq_catalog q)) (rq_requirement q)
        (effective_budget (rq_requirement q) (rq_budget q)) best rest) = Inr () \<longleftrightarrow>
      (rr_allow_fallback (rq_requirement q) \<longrightarrow>
        (\<forall>e \<in> set (take MaxFallbacks rest). mc_target (em_model e) \<noteq> mc_target (em_model best)))"
    if "resolve_order q = best # rest" for best rest
    using assms that resolve_order_valid [of q]
    by (intro build_decision_valid) (auto simp: request_ok_def digest_ok_def effective_budget_valid)
  then show ?thesis
    using assms(2) by (auto simp: ResolveV1_unfold)
qed

theorem resolve_succeeds_iff_witness:
  "(\<exists>d. ResolveV1 zero_digest sample_request = Inr d) \<longleftrightarrow>
     (\<exists>best rest. resolve_order sample_request = best # rest
        \<and> (rr_allow_fallback (rq_requirement sample_request) \<longrightarrow>
             (\<forall>e \<in> set (take MaxFallbacks rest). mc_target (em_model e) \<noteq> mc_target (em_model best))))"
  by (rule resolve_succeeds_iff [OF zero_digest_ok sample_request_ok])

lemma team_models_fit:
  assumes "rr_candidates r = []"
  shows "filter (model_fits r b) (cat_models BuiltinTeamCatalogV1) = []
     \<or> filter (model_fits r b) (cat_models BuiltinTeamCatalogV1) = cat_models BuiltinTeamCatalogV1"
  using assms by (simp add: BuiltinTeamCatalogV1_def model_fits_def team_model_def)

text \<open>
  The compiled-in Team catalog lists one target under two IDs. With model fallback
  allowed and no candidate list, every request against it is refused: either no model fits
  or the second entry repeats the selected target.
\<close>

theorem team_catalog_rejects_fallback:
  assumes "rq_catalog q = BuiltinTeamCatalogV1" and "rr_candidates (rq_requirement q) = []"
    and "rr_allow_fallback (rq_requirement q)"
  shows "\<exists>e. ResolveV1 hashf q = Inl e"
proof (rule ccontr)
  assume "\<nexists>e. ResolveV1 hashf q = Inl e"
  then obtain d where d: "ResolveV1 hashf q = Inr d" by (cases "ResolveV1 hashf q") auto
  then obtain best rest where o: "resolve_order q = best # rest"
    and v: "ValidateDecision d = Inr ()" and "rd_selected d = mc_target (em_model best)"
    and f: "rd_fallback d = map (\<lambda>e. mc_target (em_model e)) (take 8 rest)"
    using assms(3) by (auto simp: ResolveV1_unfold build_decision_fields)
  have ms: "em_model ` set (resolve_order q) \<subseteq> set (cat_models BuiltinTeamCatalogV1)"
    using set_resolve_order_models [of q] assms(1) by auto
  have "length (resolve_order q) = 0 \<or> length (resolve_order q) = 2"
    using team_models_fit [OF assms(2), of "effective_budget (rq_requirement q) (rq_budget q)"] assms(1)
    by (elim disjE) (simp_all add: resolve_order_def eligibleModels_eq BuiltinTeamCatalogV1_def)
  then have len: "length (resolve_order q) = 2" using o by simp
  then obtain e where "rest = [e]" using o by (cases rest) auto
  moreover have "mc_target (em_model e) = mc_target (em_model best)"
    using ms o \<open>rest = [e]\<close> by (auto simp: BuiltinTeamCatalogV1_def team_model_def)
  ultimately show False
    using v f \<open>rd_selected d = _\<close> by (simp add: ValidateDecision_iff)
qed

theorem team_catalog_rejects_fallback_witness:
  "\<exists>e. ResolveV1 zero_digest
     \<lparr>rq_catalog = BuiltinTeamCatalogV1, rq_catalog_hash = '''',
      rq_requirement = sample_requirement\<lparr>rr_capabilities := [CapabilityRepoRead]\<rparr>,
      rq_budget = sample_grant\<rparr> = Inl e"
  by (rule team_catalog_rejects_fallback) (simp_all add: sample_requirement_def DefaultRequirementV1_def)

subsection \<open>Fallback chains and cost reservations\<close>

text \<open>
  From a resolved decision whose fallback targets are distinct, \<open>k\<close> explicit
  fallbacks reach the \<open>k\<close>-th declared target with a valid decision, and one more than
  there are targets reports that none is left: the chain is finite and visits each declared
  target once.
\<close>

theorem fallback_chain_walks_targets:
  assumes "ResolveV1 hashf q = Inr d" and "rr_allow_fallback (rq_requirement q)"
    and "distinct (rd_fallback d)" and "k \<le> length (rd_fallback d)"
  shows "\<exists>n. advance_times k d = Inr (Some n)
     \<and> rd_selected n = (rd_selected d # rd_fallback d) ! k \<and> ValidateDecision n = Inr ()
     \<and> (k = length (rd_fallback d) \<longrightarrow> AdvanceFallbackV1 n = Inr None)"
proof -
  have v: "ValidateDecision d = Inr ()" using assms(1) by (auto simp: ResolveV1_unfold)
  obtain best rest h b where "d = build_decision h (rq_requirement q) b best rest"
    using assms(1) by (auto simp: ResolveV1_unfold)
  with assms(2) have "fp_mode (rd_fallback_policy d) = FallbackEligible"
    "length (rd_reason_codes d) < MaxReasonCodes"
    using reasonCodes_length(2) [of "rq_requirement q" "em_model best" "em_score best"]
    by (simp_all add: build_decision_def Let_def)
  then obtain n where n: "advance_times k d = Inr (Some n)" "ValidateDecision n = Inr ()"
    "rd_selected n = (rd_selected d # rd_fallback d) ! k" "rd_fallback n = drop k (rd_fallback d)"
    using advance_times_chain [OF v] assms(3,4) by blast
  then show ?thesis using advance_end by auto
qed

theorem fallback_chain_walks_targets_witness:
  "\<exists>n. advance_times 1 sample_decision = Inr (Some n) \<and> ValidateDecision n = Inr ()
     \<and> rd_selected n = (rd_selected sample_decision # rd_fallback sample_decision) ! 1"
proof -
  have "distinct (rd_fallback sample_decision)" "1 \<le> length (rd_fallback sample_decision)"
    by (simp_all add: sample_decision_facts)
  then show ?thesis
    using fallback_chain_walks_targets [OF sample_resolves, of 1]
    by (auto simp: sample_request_def sample_requirement_def)
qed

text \<open>
  A sequence of Attempts of one node, each reserving the cost of its decision on top of
  what the earlier ones reserved.
\<close>

fun reserve_all ::
  "(CapabilityCatalogV1 \<Rightarrow> string) \<Rightarrow> CapabilityCatalogV1 \<Rightarrow> int \<Rightarrow> (RoutingDecisionV1 \<times> int) list
     \<Rightarrow> ContractError + RoutingUsageV1 list" where
  "reserve_all hashf catalog prior [] = Inr []"
| "reserve_all hashf catalog prior ((d, i) # ds) =
     (case ReserveRoutingUsageV1 hashf catalog d prior i of
        Inl e \<Rightarrow> Inl e
      | Inr u \<Rightarrow> (case reserve_all hashf catalog (ru_cumulative u) ds of
          Inl e \<Rightarrow> Inl e
        | Inr us \<Rightarrow> Inr (u # us)))"

lemma reserve_all_sums:
  "reserve_all hashf c prior ds = Inr us \<Longrightarrow> u \<in> set us \<Longrightarrow>
     1 \<le> ru_cost u \<and> prior + int (length us) \<le> prior + (\<Sum>x \<leftarrow> us. ru_cost x)"
proof (induction hashf c prior ds arbitrary: us u rule: reserve_all.induct)
  case (1 hashf catalog prior)
  then show ?case by simp
next
  case (2 hashf catalog prior d i ds)
  from "2.prems" obtain v vs where v: "ReserveRoutingUsageV1 hashf catalog d prior i = Inr v"
    and vs: "reserve_all hashf catalog (ru_cumulative v) ds = Inr vs" "us = v # vs"
    by (auto split: sum.splits)
  have one: "1 \<le> ru_cost v" using v by (auto simp: reserve_iff dest: find_target_cost)
  show ?case
  proof (cases vs)
    case Nil
    then show ?thesis using one vs "2.prems" by auto
  next
    case (Cons w ws)
    then have "int (length vs) \<le> (\<Sum>x \<leftarrow> vs. ru_cost x)"
      using "2.IH" [OF v vs(1), of w] by simp
    moreover have "1 \<le> ru_cost u"
      using "2.IH" [OF v vs(1), of u] "2.prems"(2) one vs(2) by auto
    ultimately show ?thesis using one vs(2) by simp
  qed
qed

lemma reserve_all_last:
  "reserve_all hashf c prior ds = Inr us \<Longrightarrow> us \<noteq> [] \<Longrightarrow>
     ru_cumulative (last us) = prior + (\<Sum>x \<leftarrow> us. ru_cost x)
     \<and> ru_cumulative (last us) \<le> bg_max_cost (rd_budget (fst (last ds))) \<and> ds \<noteq> []"
proof (induction hashf c prior ds arbitrary: us rule: reserve_all.induct)
  case (1 hashf catalog prior)
  then show ?case by simp
next
  case (2 hashf catalog prior d i ds)
  from "2.prems" obtain v vs where v: "ReserveRoutingUsageV1 hashf catalog d prior i = Inr v"
    and vs: "reserve_all hashf catalog (ru_cumulative v) ds = Inr vs" "us = v # vs"
    by (auto split: sum.splits)
  have v': "ru_cumulative v = prior + ru_cost v" "ru_cumulative v \<le> bg_max_cost (rd_budget d)"
    using v by (auto simp: reserve_iff)
  show ?case
  proof (cases "vs = []")
    case True
    then have "ds = []" using vs(1) by (cases ds) (auto split: sum.splits prod.splits)
    then show ?thesis using True v' vs(2) by simp
  next
    case False
    then show ?thesis using "2.IH" [OF v vs(1) False] v' vs(2) by simp
  qed
qed

text \<open>
  C4. Reservations are conservative: over any sequence of Attempts, each reserving on top of
  the previous one, the last cumulative amount is the sum of all reserved costs, stays within
  the last decision's budget, and, since every Attempt costs at least one unit, bounds the
  number of Attempts.
\<close>

theorem reservations_within_budget:
  assumes "reserve_all hashf c 0 ds = Inr us" and "us \<noteq> []"
  shows "ru_cumulative (last us) = (\<Sum>u \<leftarrow> us. ru_cost u)
     \<and> (\<Sum>u \<leftarrow> us. ru_cost u) \<le> bg_max_cost (rd_budget (fst (last ds)))
     \<and> int (length us) \<le> bg_max_cost (rd_budget (fst (last ds)))"
  using reserve_all_last [OF assms] reserve_all_sums [OF assms(1), of "hd us"] assms(2) by auto

lemma sample_two_reservations:
  "\<exists>us. reserve_all zero_digest BuiltinCodexCatalogV2 0 [(sample_decision, 0), (sample_decision, 0)] = Inr us
     \<and> length us = 2"
proof -
  have r: "\<exists>u. ReserveRoutingUsageV1 zero_digest BuiltinCodexCatalogV2 sample_decision prior 0 = Inr u
      \<and> ru_cumulative u = prior + 10" if "0 \<le> prior" "prior \<le> 490" for prior
    using that by (simp add: reserve_iff sample_catalog_valid sample_decision_valid sample_decision_facts)
  obtain u where u: "ReserveRoutingUsageV1 zero_digest BuiltinCodexCatalogV2 sample_decision 0 0 = Inr u"
    "ru_cumulative u = 10" using r [of 0] by auto
  obtain w where "ReserveRoutingUsageV1 zero_digest BuiltinCodexCatalogV2 sample_decision 10 0 = Inr w"
    using r [of 10] by auto
  with u show ?thesis by simp
qed

theorem reservations_within_budget_witness:
  "\<exists>us. reserve_all zero_digest BuiltinCodexCatalogV2 0 [(sample_decision, 0), (sample_decision, 0)] = Inr us
     \<and> int (length us) \<le> bg_max_cost (rd_budget sample_decision)"
proof -
  obtain us where us: "reserve_all zero_digest BuiltinCodexCatalogV2 0
      [(sample_decision, 0), (sample_decision, 0)] = Inr us" and "length us = 2"
    using sample_two_reservations by blast
  then have "us \<noteq> []" by auto
  from reservations_within_budget [OF us this] us show ?thesis by (metis fst_conv last.simps list.distinct(1))
qed

subsection \<open>The catalog registry\<close>

text \<open>
  Making a catalog active keeps the registry consistent: afterwards the active catalog is
  the canonical form of the one given, found under its hash; every catalog found before is
  still found under its hash, unchanged; and the only way to fail is an invalid catalog.
\<close>

theorem set_active_roundtrip:
  assumes "registry_inv hashf r"
  shows "case SetActive hashf r c of
      Inl e \<Rightarrow> ValidateCatalog (CanonicalCatalogV1 c) \<noteq> Inr ()
    | Inr (h, r') \<Rightarrow> registry_inv hashf r'
        \<and> h = hashf (CanonicalCatalogV1 c)
        \<and> (\<exists>c'. ActiveCatalog r' = Inr (c', h) \<and> CatalogByHash r' h = Some c' \<and> hashf c' = h)
        \<and> (\<forall>k d. CatalogByHash r k = Some d \<longrightarrow> CatalogByHash r' k = Some d)"
proof (cases "register_catalog hashf r c")
  case (Inl e)
  then show ?thesis using register_catalog_fails_iff [OF assms, of c] by (auto simp: SetActive_def)
next
  case (Inr p)
  obtain h r' where p: "p = (h, r')" by (cases p)
  note ok = register_catalog_ok [OF assms Inr [unfolded p]]
  have inv: "registry_inv hashf (r'\<lparr>reg_active_hash := h\<rparr>)"
    using ok(1) by (simp add: registry_inv_def)
  obtain d where d: "map_of (reg_catalogs r') h = Some d" using ok(6) by blast
  then have "hashf d = h" using registry_inv_lookup [OF ok(1)] by blast
  with d inv ok show ?thesis
    by (auto simp: SetActive_def Inr p ActiveCatalog_def CatalogByHash_def)
qed

theorem set_active_roundtrip_witness:
  "case SetActive zero_digest \<lparr>reg_active_hash = '''', reg_catalogs = []\<rparr> BuiltinCatalogV1 of
      Inl e \<Rightarrow> ValidateCatalog (CanonicalCatalogV1 BuiltinCatalogV1) \<noteq> Inr ()
    | Inr (h, r') \<Rightarrow> registry_inv zero_digest r'"
  using set_active_roundtrip [of zero_digest "\<lparr>reg_active_hash = '''', reg_catalogs = []\<rparr>" BuiltinCatalogV1]
  by (auto simp: registry_inv_def wf_map_def split: sum.splits)

lemma find_target_distinct:
  "distinct (map mc_target ms) \<Longrightarrow> m \<in> set ms \<Longrightarrow>
   find_target (mc_target m) ms = Some (costUnits (mc_cost m))"
  by (induction ms) (auto simp: image_iff)

text \<open>
  C5. A decision resolved against the registry's active catalog names a catalog that the
  registry finds again by hash; when that catalog lists every target once, the decision's
  first cost reservation succeeds, costs what the selected model costs, and passes the audit.
\<close>

theorem resolved_decision_reservable:
  assumes "registry_inv hashf r" and "ActiveCatalog r = Inr (c, h)"
    and "rq_catalog q = c" and "ResolveV1 hashf q = Inr d"
    and "distinct (map mc_target (cat_models c))"
  shows "CatalogByHash r (rd_catalog_hash d) = Some c
     \<and> (\<exists>u. ReserveRoutingUsageV1 hashf c d 0 0 = Inr u
          \<and> ValidateRoutingUsageForDecision hashf c d u = Inr ()
          \<and> (\<exists>m \<in> set (cat_models c). mc_target m = rd_selected d \<and> ru_cost u = costUnits (mc_cost m)))"
proof -
  obtain best rest where o: "resolve_order q = best # rest"
    and d: "d = build_decision (hashf c) (rq_requirement q)
        (effective_budget (rq_requirement q) (rq_budget q)) best rest"
    and v: "ValidateDecision d = Inr ()" and c: "ValidateCatalog c = Inr ()"
    using assms(3,4) by (auto simp: ResolveV1_unfold request_ok_def)
  have m: "em_model best \<in> set (cat_models c)"
    and fits: "costUnits (mc_cost (em_model best)) \<le> bg_max_cost (rd_budget d)"
    using set_resolve_order_models [of q] o d assms(3)
    by (auto simp: model_fits_def build_decision_fields)
  have sel: "rd_selected d = mc_target (em_model best)" "rd_catalog_hash d = hashf c"
    by (simp_all add: d build_decision_fields)
  have ft: "find_target (rd_selected d) (cat_models c) = Some (costUnits (mc_cost (em_model best)))"
    using find_target_distinct [OF assms(5) m] sel by simp
  then obtain u where u: "ReserveRoutingUsageV1 hashf c d 0 0 = Inr u"
    "ru_cost u = costUnits (mc_cost (em_model best))"
    "ValidateRoutingUsageForDecision hashf c d u = Inr ()"
    using v c sel(2) fits find_target_cost [OF ft]
    by (auto simp: reserve_iff ValidateRoutingUsageForDecision_iff ValidateRoutingUsage_def
        ValidateDecision_iff ValidateBudgetGrant_iff res_simps)
  then show ?thesis
    using registry.resolved_catalog_found [OF assms(1-4)] m sel(1) by metis
qed

definition sample_registry :: CatalogRegistry where
  "sample_registry = \<lparr>reg_active_hash = zero_digest BuiltinCodexCatalogV2,
     reg_catalogs = [(zero_digest BuiltinCodexCatalogV2, BuiltinCodexCatalogV2)]\<rparr>"

theorem resolved_decision_reservable_witness:
  "\<exists>u. ReserveRoutingUsageV1 zero_digest BuiltinCodexCatalogV2 sample_decision 0 0 = Inr u
     \<and> ValidateRoutingUsageForDecision zero_digest BuiltinCodexCatalogV2 sample_decision u = Inr ()"
proof -
  have inv: "registry_inv zero_digest sample_registry"
    using sample_catalog_valid by (simp add: registry_inv_def sample_registry_def wf_map_def)
  have act: "ActiveCatalog sample_registry = Inr (BuiltinCodexCatalogV2, zero_digest BuiltinCodexCatalogV2)"
    by (simp add: ActiveCatalog_def sample_registry_def cloneCatalog_def)
  have cat: "rq_catalog sample_request = BuiltinCodexCatalogV2" by (simp add: sample_request_def)
  have "distinct (map mc_target (cat_models BuiltinCodexCatalogV2))" by code_simp
  from resolved_decision_reservable [OF inv act cat sample_resolves this]
  show ?thesis by blast
qed

end
