(* ===== verification/Json_Text.thy ===== *)
theory Json_Text
  imports Prelude
begin

section \<open>Text encodings: decimal numbers, UTF-8 and JSON\<close>

text \<open>
  What the engine uses of \<^verbatim>\<open>strconv\<close>, \<^verbatim>\<open>unicode/utf8\<close> and
  \<^verbatim>\<open>encoding/json\<close>: the decimal form of an integer, the decoding of the
  next rune of a byte string, the escaped form of a string that
  \<^verbatim>\<open>json.Marshal\<close> writes (HTML-safe, invalid bytes replaced), and the
  text forms of a floating-point number.
\<close>

definition byte :: "char \<Rightarrow> nat" where
  "byte c = of_char c"

definition chr :: "nat \<Rightarrow> char" where
  "chr n = char_of n"

lemma byte_less [simp]: "byte c < 256"
  by (simp add: byte_def)

lemma chr_byte [simp]: "chr (byte c) = c"
  by (simp add: byte_def chr_def)

subsection \<open>Decimal integers\<close>

fun show_nat :: "nat \<Rightarrow> string" where
  "show_nat n = (if n < 10 then [chr (48 + n)] else show_nat (n div 10) @ [chr (48 + n mod 10)])"

declare show_nat.simps [simp del]

definition show_int :: "int \<Rightarrow> string" where
  "show_int i = (if i < 0 then CHR ''-'' # show_nat (nat (- i)) else show_nat (nat i))"

fun read_nat :: "nat \<Rightarrow> string \<Rightarrow> nat" where
  "read_nat acc [] = acc"
| "read_nat acc (c # cs) = read_nat (10 * acc + (byte c - 48)) cs"

lemma byte_chr_digit: "d < 10 \<Longrightarrow> byte (chr (48 + d)) = 48 + d"
  by (simp add: byte_def chr_def)

lemma show_nat_not_Nil [simp]: "show_nat n \<noteq> []"
  by (subst show_nat.simps) simp

lemma read_nat_append: "read_nat acc (xs @ ys) = read_nat (read_nat acc xs) ys"
  by (induction xs arbitrary: acc) auto

lemma read_show_nat: "read_nat 0 (show_nat n) = n"
proof (induction n rule: show_nat.induct)
  case (1 n)
  then show ?case
    by (subst show_nat.simps) (auto simp: read_nat_append byte_chr_digit)
qed

lemma show_nat_inj: "show_nat m = show_nat n \<Longrightarrow> m = n"
  by (metis read_show_nat)

lemma show_nat_digits: "c \<in> set (show_nat n) \<Longrightarrow> is_digit c"
proof (induction n rule: show_nat.induct)
  case (1 n)
  then show ?case
    by (subst (asm) (2) show_nat.simps)
      (auto simp: is_digit_def byte_def [symmetric] byte_chr_digit split: if_splits)
qed

lemma show_int_inj: "show_int i = show_int j \<Longrightarrow> i = j"
proof -
  assume eq: "show_int i = show_int j"
  have minus: "CHR ''-'' # xs \<noteq> show_nat n" for xs n
  proof
    assume "CHR ''-'' # xs = show_nat n"
    then have "CHR ''-'' \<in> set (show_nat n)" by (metis list.set_intros(1))
    then show False using show_nat_digits by (fastforce simp: is_digit_def)
  qed
  show ?thesis
    using eq minus minus [symmetric]
    by (auto simp: show_int_def split: if_splits dest!: show_nat_inj)
qed

subsection \<open>UTF-8\<close>

text \<open>
  \<^verbatim>\<open>utf8.DecodeRuneInString\<close>: the rune and the number of bytes it takes;
  an invalid byte is the replacement character with width one.
\<close>

abbreviation "rune_error \<equiv> (65533 :: nat)"

definition cont_byte :: "nat \<Rightarrow> bool" where
  "cont_byte b \<longleftrightarrow> 128 \<le> b \<and> b \<le> 191"

fun decode_rune :: "nat list \<Rightarrow> nat \<times> nat" where
  "decode_rune [] = (rune_error, 0)"
| "decode_rune (b0 # bs) =
     (if b0 < 128 then (b0, 1)
      else if 194 \<le> b0 \<and> b0 \<le> 223 then
        (case bs of b1 # _ \<Rightarrow>
           if cont_byte b1 then ((b0 - 192) * 64 + (b1 - 128), 2) else (rune_error, 1)
         | _ \<Rightarrow> (rune_error, 1))
      else if 224 \<le> b0 \<and> b0 \<le> 239 then
        (case bs of b1 # b2 # _ \<Rightarrow>
           if (if b0 = 224 then 160 else 128) \<le> b1 \<and> b1 \<le> (if b0 = 237 then 159 else 191) \<and> cont_byte b2
           then ((b0 - 224) * 4096 + (b1 - 128) * 64 + (b2 - 128), 3) else (rune_error, 1)
         | _ \<Rightarrow> (rune_error, 1))
      else if 240 \<le> b0 \<and> b0 \<le> 244 then
        (case bs of b1 # b2 # b3 # _ \<Rightarrow>
           if (if b0 = 240 then 144 else 128) \<le> b1 \<and> b1 \<le> (if b0 = 244 then 143 else 191)
              \<and> cont_byte b2 \<and> cont_byte b3
           then ((b0 - 240) * 262144 + (b1 - 128) * 4096 + (b2 - 128) * 64 + (b3 - 128), 4)
           else (rune_error, 1)
         | _ \<Rightarrow> (rune_error, 1))
      else (rune_error, 1))"

lemma decode_rune_size: "bs \<noteq> [] \<Longrightarrow> 1 \<le> snd (decode_rune bs) \<and> snd (decode_rune bs) \<le> length bs"
  by (cases bs) (auto split: list.splits)

function runes :: "string \<Rightarrow> (nat \<times> string) list" where
  "runes s =
     (if s = [] then []
      else let (r, k) = decode_rune (map byte s) in (r, take k s) # runes (drop k s))"
  by pat_completeness auto
termination
proof (relation "measure length", simp)
  fix s :: string and x :: "nat \<times> nat" and r k
  assume "s \<noteq> []" "x = decode_rune (map byte s)" "(r, k) = x"
  then show "(drop k s, s) \<in> measure length"
    using decode_rune_size [of "map byte s"] by (cases "decode_rune (map byte s)") auto
qed

declare runes.simps [simp del]

lemma runes_Nil [simp]: "runes [] = []"
  by (subst runes.simps) simp

text \<open>
  \<^verbatim>\<open>utf8.ValidString\<close>, \<^verbatim>\<open>utf8.RuneCountInString\<close>. The three-byte encoding
  of U+FFFD itself is valid.
\<close>

definition valid_utf8 :: "string \<Rightarrow> bool" where
  "valid_utf8 s \<longleftrightarrow> (\<forall>(r, bs) \<in> set (runes s). r = rune_error \<longrightarrow> length bs = 3)"

definition rune_count :: "string \<Rightarrow> nat" where
  "rune_count s = length (runes s)"

lemma runes_concat: "concat (map snd (runes s)) = s"
proof (induction s rule: runes.induct)
  case (1 s)
  then show ?case by (subst runes.simps) (auto split: prod.splits)
qed

subsection \<open>JSON strings\<close>

definition hex_digit :: "nat \<Rightarrow> char" where
  "hex_digit n = ''0123456789abcdef'' ! n"

definition json_rune :: "nat \<times> string \<Rightarrow> string" where
  "json_rune rb =
     (case rb of (r, bs) \<Rightarrow>
        if r = 34 then [CHR 0x5C, CHR 0x22]
        else if r = 92 then [CHR 0x5C, CHR 0x5C]
        else if r = 8 then CHR 0x5C # ''b''
        else if r = 12 then CHR 0x5C # ''f''
        else if r = 10 then CHR 0x5C # ''n''
        else if r = 13 then CHR 0x5C # ''r''
        else if r = 9 then CHR 0x5C # ''t''
        else if r < 32 \<or> r = 60 \<or> r = 62 \<or> r = 38
        then CHR 0x5C # ''u00'' @ [hex_digit (r div 16), hex_digit (r mod 16)]
        else if r = rune_error \<and> length bs = 1 then CHR 0x5C # ''ufffd''
        else if r = 8232 then CHR 0x5C # ''u2028''
        else if r = 8233 then CHR 0x5C # ''u2029''
        else bs)"

definition json_string :: "string \<Rightarrow> string" where
  "json_string s = CHR 0x22 # concat (map json_rune (runes s)) @ [CHR 0x22]"

text \<open>An array of already encoded values; a nil slice is \<^verbatim>\<open>null\<close>.\<close>

fun join_with :: "string \<Rightarrow> string list \<Rightarrow> string" where
  "join_with sep [] = []"
| "join_with sep [x] = x"
| "join_with sep (x # y # ys) = x @ sep @ join_with sep (y # ys)"

definition json_array :: "string list \<Rightarrow> string" where
  "json_array xs = ''['' @ join_with '','' xs @ '']''"

definition json_strings :: "string list option \<Rightarrow> string" where
  "json_strings xs = (case xs of None \<Rightarrow> ''null'' | Some ys \<Rightarrow> json_array (map json_string ys))"

text \<open>An object of already encoded members; an omitted member is absent from the list.\<close>

definition json_object :: "(string \<times> string) list \<Rightarrow> string" where
  "json_object ms = ''{'' @ join_with '','' (map (\<lambda>(k, v). json_string k @ '':'' @ v) ms) @ ''}''"

lemma json_string_head: "json_string s = CHR 0x22 # drop 1 (json_string s)"
  by (simp add: json_string_def)

lemma show_int_not_quote: "show_int i \<noteq> CHR 0x22 # xs"
proof
  assume "show_int i = CHR 0x22 # xs"
  then have "CHR 0x22 \<in> set (show_nat (nat i))"
    by (auto simp: show_int_def split: if_splits)
  then show False using show_nat_digits by (fastforce simp: is_digit_def)
qed

subsection \<open>Floating-point numbers\<close>

text \<open>
  A finite float is kept as \<^verbatim>\<open>strconv\<close>'s decimal of its shortest digits: sign,
  digits without leading or trailing zeros, and the position of the decimal point,
  so that the value is \<^verbatim>\<open>0.digits * 10^point\<close>; zero has no digits. JSON has no
  text for infinities and NaN, so no decoded value is one.
\<close>

datatype gofloat = GoFloat (fl_neg: bool) (fl_digits: string) (fl_point: int)

definition digit_at :: "string \<Rightarrow> int \<Rightarrow> char" where
  "digit_at ds j = (if 0 \<le> j \<and> j < int (length ds) then ds ! nat j else CHR ''0'')"

text \<open>\<^verbatim>\<open>fmtE\<close> with the precision of the shortest form.\<close>

definition fmt_e :: "string \<Rightarrow> int \<Rightarrow> string" where
  "fmt_e ds point =
     (let exp = (if ds = [] then 0 else point - 1);
          expo = show_nat (nat \<bar>exp\<bar>)
      in [digit_at ds 0] @ (if length ds > 1 then CHR ''.'' # drop 1 ds else [])
         @ ''e'' @ (if exp < 0 then ''-'' else ''+'') @ (if \<bar>exp\<bar> < 10 then CHR ''0'' # expo else expo))"

text \<open>\<^verbatim>\<open>fmtF\<close> with precision \<^verbatim>\<open>max(nd - dp, 0)\<close>.\<close>

definition fmt_f :: "string \<Rightarrow> int \<Rightarrow> string" where
  "fmt_f ds point =
     (if 0 < point then map (digit_at ds) (map int [0..<nat point]) else ''0'')
     @ (let prec = int (length ds) - point in
        if 0 < prec then CHR ''.'' # map (\<lambda>i. digit_at ds (point + int i)) [0..<nat prec] else [])"

text \<open>\<^verbatim>\<open>strconv.FormatFloat(f, 'g', -1, 64)\<close>.\<close>

definition format_g :: "gofloat \<Rightarrow> string" where
  "format_g f = (if fl_neg f then ''-'' else '''')
     @ (let exp = fl_point f - 1 in
        if exp < - 4 \<or> 6 \<le> exp then fmt_e (fl_digits f) (fl_point f) else fmt_f (fl_digits f) (fl_point f))"

text \<open>The float encoder of \<^verbatim>\<open>encoding/json\<close>: ES6 cut-offs, \<^verbatim>\<open>e-09\<close> cleaned to \<^verbatim>\<open>e-9\<close>.\<close>

definition clean_exponent :: "string \<Rightarrow> string" where
  "clean_exponent b =
     (let n = length b in
      if 4 \<le> n \<and> b ! (n - 4) = CHR ''e'' \<and> b ! (n - 3) = CHR ''-'' \<and> b ! (n - 2) = CHR ''0''
      then take (n - 2) b @ [b ! (n - 1)] else b)"

definition json_float :: "gofloat \<Rightarrow> string" where
  "json_float f = (if fl_neg f then ''-'' else '''')
     @ (let exp = fl_point f - 1 in
        if fl_digits f \<noteq> [] \<and> (exp < - 6 \<or> 21 \<le> exp)
        then clean_exponent (fmt_e (fl_digits f) (fl_point f)) else fmt_f (fl_digits f) (fl_point f))"

text \<open>The float of an integer that a float64 holds exactly.\<close>

definition float_of_int :: "int \<Rightarrow> gofloat" where
  "float_of_int i =
     (if i = 0 then GoFloat False [] 0
      else let ds = show_nat (nat \<bar>i\<bar>) in
        GoFloat (i < 0) (rev (dropWhile (\<lambda>c. c = CHR ''0'') (rev ds))) (int (length ds)))"

text \<open>\<^verbatim>\<open>isValidNumber\<close>: the JSON grammar of a number literal.\<close>

fun digits_then :: "string \<Rightarrow> string" where
  "digits_then [] = []"
| "digits_then (c # cs) = (if is_digit c then digits_then cs else c # cs)"

definition one_digits :: "string \<Rightarrow> string option" where
  "one_digits s = (case s of c # cs \<Rightarrow> if is_digit c then Some (digits_then cs) else None | [] \<Rightarrow> None)"

definition valid_unsigned :: "string \<Rightarrow> bool" where
  "valid_unsigned s =
     (let int_part = (case s of c # cs \<Rightarrow> if c = CHR ''0'' then Some cs else one_digits s | [] \<Rightarrow> None);
          frac = Option.bind int_part (\<lambda>s. case s of
             c # cs \<Rightarrow> if c = CHR ''.'' then one_digits cs else Some s | [] \<Rightarrow> Some s);
          expo = Option.bind frac (\<lambda>s. case s of
             c # cs \<Rightarrow> if c = CHR ''e'' \<or> c = CHR ''E''
               then (case cs of
                  d # ds \<Rightarrow> if d = CHR ''+'' \<or> d = CHR ''-'' then one_digits ds else one_digits cs
                | [] \<Rightarrow> None)
               else Some s
           | [] \<Rightarrow> Some s)
      in expo = Some [])"

definition valid_number :: "string \<Rightarrow> bool" where
  "valid_number s =
     (case s of c # cs \<Rightarrow> if c = CHR ''-'' then valid_unsigned cs else valid_unsigned s
      | [] \<Rightarrow> valid_unsigned s)"

lemma digits_then_all: "(\<forall>c \<in> set s. is_digit c) \<Longrightarrow> digits_then s = []"
  by (induction s) auto

lemma show_nat_head: "n \<noteq> 0 \<Longrightarrow> hd (show_nat n) \<noteq> CHR ''0''"
proof (induction n rule: show_nat.induct)
  case (1 n)
  show ?case
  proof (cases "n < 10")
    case True
    have "chr (48 + n) \<noteq> chr 48"
      using True 1 byte_chr_digit [of n] byte_chr_digit [of 0] by (metis add_cancel_right_right add_0_right zero_less_numeral)
    moreover have "CHR ''0'' = chr 48" using chr_byte [of "CHR ''0''"] by (simp add: byte_def)
    ultimately show ?thesis using True by (subst show_nat.simps) simp
  next
    case False
    then have "hd (show_nat (n div 10)) \<noteq> CHR ''0''" using 1 by auto
    with False show ?thesis by (subst show_nat.simps) simp
  qed
qed

lemma show_nat_shape:
  obtains c cs where "show_nat n = c # cs" "is_digit c" "digits_then cs = []" "c = CHR ''0'' \<longrightarrow> cs = []"
proof -
  obtain c cs where s: "show_nat n = c # cs" by (cases "show_nat n") auto
  then have "is_digit c" "digits_then cs = []"
    using show_nat_digits [of _ n] by (auto intro: digits_then_all)
  moreover have "cs = []" if "c = CHR ''0''"
  proof -
    have "n = 0" using show_nat_head [of n] s that by auto
    then show ?thesis using s by (simp add: show_nat.simps [of 0])
  qed
  ultimately show ?thesis using s that by blast
qed

lemma valid_unsigned_show_nat: "valid_unsigned (show_nat n)"
proof -
  obtain c cs where s: "show_nat n = c # cs" "is_digit c" "digits_then cs = []" "c = CHR ''0'' \<longrightarrow> cs = []"
    by (rule show_nat_shape)
  then show ?thesis
    by (cases "c = CHR ''0''") (simp_all add: valid_unsigned_def one_digits_def)
qed

lemma valid_number_show_int: "valid_number (show_int i)"
proof -
  obtain c cs where s: "show_nat (nat i) = c # cs" "is_digit c"
    by (metis show_nat_shape)
  moreover from s(2) have "c \<noteq> CHR ''-''" by (auto simp: is_digit_def)
  ultimately show ?thesis
    using valid_unsigned_show_nat [of "nat i"] valid_unsigned_show_nat [of "nat (- i)"]
    by (simp add: valid_number_def show_int_def)
qed

subsection \<open>The text of integral floats\<close>

lemma digit_at_strip:
  assumes "j < length ds"
  shows "digit_at (rev (dropWhile (\<lambda>c. c = CHR ''0'') (rev ds))) (int j) = ds ! j"
proof -
  let ?t = "rev (dropWhile (\<lambda>c. c = CHR ''0'') (rev ds))"
  have split: "ds = ?t @ rev (takeWhile (\<lambda>c. c = CHR ''0'') (rev ds))"
    by (metis rev_append rev_rev_ident takeWhile_dropWhile_id)
  show ?thesis
  proof (cases "j < length ?t")
    case True
    then have "ds ! j = ?t ! j" by (subst split) (simp add: nth_append)
    then show ?thesis using True by (simp add: digit_at_def)
  next
    case False
    have "ds ! j \<in> set (rev (takeWhile (\<lambda>c. c = CHR ''0'') (rev ds)))"
      using False assms
      by (subst split) (metis (no_types, lifting) add_diff_inverse_nat length_append nat_add_left_cancel_less
          nth_append nth_mem split)
    then have "ds ! j = CHR ''0''" by (auto dest: set_takeWhileD)
    then show ?thesis using False by (simp add: digit_at_def)
  qed
qed

lemma fmt_f_strip:
  assumes "ds \<noteq> []"
  shows "fmt_f (rev (dropWhile (\<lambda>c. c = CHR ''0'') (rev ds))) (int (length ds)) = ds"
proof -
  have "length (rev (dropWhile (\<lambda>c. c = CHR ''0'') (rev ds))) \<le> length ds"
    by (metis length_dropWhile_le length_rev)
  moreover have "map (digit_at (rev (dropWhile (\<lambda>c. c = CHR ''0'') (rev ds)))) (map int [0..<length ds]) = ds"
    by (rule nth_equalityI) (simp_all add: digit_at_strip)
  ultimately show ?thesis using assms by (simp add: fmt_f_def Let_def)
qed

lemma show_nat_length: "0 < n \<Longrightarrow> length (show_nat n) \<le> k \<longleftrightarrow> n < 10 ^ k"
proof (induction n arbitrary: k rule: show_nat.induct)
  case (1 n)
  show ?case
  proof (cases "n < 10")
    case True
    have "n < 10 ^ k \<longleftrightarrow> 1 \<le> k"
    proof (cases k)
      case (Suc m)
      have "n < 10 * 1" using True by simp
      also have "10 * 1 \<le> 10 * (10 :: nat) ^ m" by (intro mult_le_mono) simp_all
      finally show ?thesis using Suc by simp
    qed (use 1 in simp)
    then show ?thesis using True by (subst show_nat.simps) simp
  next
    case False
    then have ih: "length (show_nat (n div 10)) \<le> m \<longleftrightarrow> n div 10 < 10 ^ m" for m
      using "1.IH" by auto
    have len: "length (show_nat n) = Suc (length (show_nat (n div 10)))"
      using False by (subst show_nat.simps) simp
    show ?thesis
    proof (cases k)
      case 0
      then show ?thesis using False len by simp
    next
      case (Suc m)
      have "n div 10 < 10 ^ m \<longleftrightarrow> n < 10 ^ k"
        by (simp add: Suc div_less_iff_less_mult mult.commute)
      then show ?thesis using ih [of m] Suc len by simp
    qed
  qed
qed

lemma chr_zero: "chr 48 = CHR ''0''"
  using chr_byte [of "CHR ''0''"] by (simp add: byte_def)

lemma format_g_small:
  assumes "\<bar>i\<bar> < 1000000"
  shows "format_g (float_of_int i) = show_int i"
proof (cases "i = 0")
  case True
  then show ?thesis
    by (simp add: format_g_def float_of_int_def fmt_f_def show_int_def show_nat.simps [of 0] chr_zero)
next
  case False
  let ?ds = "show_nat (nat \<bar>i\<bar>)"
  have "length ?ds \<le> 6" using assms False by (subst show_nat_length) auto
  then show ?thesis
    using False fmt_f_strip [of ?ds]
    by (auto simp: format_g_def float_of_int_def Let_def show_int_def not_less)
qed

lemma format_g_large:
  assumes "1000000 \<le> \<bar>i\<bar>"
  shows "CHR ''e'' \<in> set (format_g (float_of_int i))"
proof -
  let ?ds = "show_nat (nat \<bar>i\<bar>)"
  have "\<not> length ?ds \<le> 6" using assms by (subst show_nat_length) auto
  then show ?thesis
    using assms by (auto simp: format_g_def float_of_int_def Let_def fmt_e_def)
qed

lemma show_int_no_e: "CHR ''e'' \<notin> set (show_int i)"
  using show_nat_digits [of "CHR ''e''"] by (auto simp: show_int_def is_digit_def)

lemma format_g_eq_iff: "format_g (float_of_int i) = show_int k \<longleftrightarrow> i = k \<and> \<bar>i\<bar> < 1000000"
proof (cases "\<bar>i\<bar> < 1000000")
  case True
  then show ?thesis using format_g_small show_int_inj by auto
next
  case False
  then show ?thesis using format_g_large [of i] show_int_no_e [of k] by auto
qed

end
