(* ===== verification/Workflow_Model.thy ===== *)
theory Workflow_Model
  imports Json_Text Routing_Resolver "HOL-Library.AList"
begin

section \<open>Workflow documents (internal/workflow/model.go)\<close>

text \<open>
  The workflow document and its results: dynamic scalars, agent selection with
  the deprecated backend/tool/runtime fields, resolution of inputs, the
  topological order of the nodes and the set of a node's ancestors.
\<close>

subsection \<open>Data\<close>

abbreviation "APIVersion \<equiv> ''fishyume/v1''"
abbreviation "ContextPolicyAPIVersion \<equiv> ''fishyume/v2''"
abbreviation "LegacyAPIVersion \<equiv> ''wf/v1''"
abbreviation "MaxAllowedConcurrency \<equiv> (32 :: int)"
abbreviation "MaxSummaryBytes \<equiv> (16384 :: nat)"
abbreviation "MaxPromptBytes \<equiv> (131072 :: nat)"
abbreviation "MaxResultBytes \<equiv> (65536 :: nat)"
abbreviation "MaxResultItems \<equiv> (256 :: nat)"
abbreviation "MaxArtifactBytes \<equiv> (4096 :: nat)"

text \<open>
  A value of type \<^verbatim>\<open>any\<close>. Integers of every Go width are \<open>GInt\<close>, floats
  \<open>GFloat\<close>; every other dynamic type (slices, maps) is \<open>GOther\<close> with its
  type name.
\<close>

datatype goval =
    GNil | GString string | GBool bool | GNumber string | GInt int | GFloat gofloat | GOther string

record InputDeclaration =
  in_required :: bool
  in_default :: goval

record AgentSelection =
  as_driver :: string
  as_target :: string
  as_routing :: "RoutingRequirementV1 option"

record Defaults =
  df_agent :: AgentSelection
  df_backend :: string
  df_tool :: string
  df_runtime :: string

record ContextPolicy =
  cp_project_instructions :: "string list"
  cp_dependencies :: "string list"

text \<open>
  The slices \<^verbatim>\<open>All\<close> and \<^verbatim>\<open>Any\<close> are compared with nil by the code, so
  a nil slice (\<open>None\<close>) differs from an empty one.
\<close>

datatype Condition =
  Condition (c_node: string) (c_field: string) (c_equals: goval)
    (c_all: "Condition list option") (c_any: "Condition list option") (c_not: "Condition option")

record Node =
  n_type :: string
  n_depends_on :: "string list"
  n_when :: "Condition option"
  n_task :: string
  n_prompt :: string
  n_agent :: AgentSelection
  n_tool :: string
  n_runtime :: string
  n_required_skills :: "string list"
  n_context :: "ContextPolicy option"

record Document =
  doc_api_version :: string
  doc_name :: string
  doc_inputs :: "(string, InputDeclaration) gomap"
  doc_defaults :: Defaults
  doc_max_concurrency :: int
  doc_context :: "ContextPolicy option"
  doc_nodes :: "(string, Node) gomap"

record InputQuestion =
  iq_id :: string
  iq_prompt :: string
  iq_choices :: "string list"
  iq_required :: bool

record Usage =
  us_input_tokens :: int
  us_output_tokens :: int

text \<open>The list fields of a result are rendered by templates, where nil and empty differ.\<close>

record Result =
  res_summary :: string
  res_artifacts :: "string list option"
  res_warnings :: "string list option"
  res_checks :: "string list option"
  res_questions :: "InputQuestion list"
  res_usage :: Usage
  res_decision :: string
  res_reason :: string

definition empty_agent :: AgentSelection where
  "empty_agent = \<lparr>as_driver = '''', as_target = '''', as_routing = None\<rparr>"

text \<open>The zero value \<^verbatim>\<open>Node{}\<close>, also what a lookup of a missing node gives.\<close>

definition empty_node :: Node where
  "empty_node = \<lparr>n_type = '''', n_depends_on = [], n_when = None, n_task = '''', n_prompt = '''',
     n_agent = empty_agent, n_tool = '''', n_runtime = '''', n_required_skills = [], n_context = None\<rparr>"

definition get_node :: "Document \<Rightarrow> string \<Rightarrow> Node" where
  "get_node doc i = (case map_of (doc_nodes doc) i of None \<Rightarrow> empty_node | Some n \<Rightarrow> n)"

abbreviation "deps doc i \<equiv> n_depends_on (get_node doc i)"

subsection \<open>Effective policies and agent selection\<close>

definition EffectiveContextPolicy :: "Document \<Rightarrow> Node \<Rightarrow> ContextPolicy" where
  "EffectiveContextPolicy document node =
     (let policy = \<lparr>cp_project_instructions = [], cp_dependencies = []\<rparr>;
          policy = (case doc_context document of Some p \<Rightarrow> p | None \<Rightarrow> policy);
          policy = (case n_context node of Some p \<Rightarrow> p | None \<Rightarrow> policy)
      in policy)"

definition EffectiveRoutingRequirement :: "Document \<Rightarrow> Node \<Rightarrow> RoutingRequirementV1" where
  "EffectiveRoutingRequirement document node =
     (let requirement = DefaultRequirementV1;
          requirement = (case as_routing (df_agent (doc_defaults document)) of
             Some r \<Rightarrow> r | None \<Rightarrow> requirement);
          requirement = (case as_routing (n_agent node) of Some r \<Rightarrow> r | None \<Rightarrow> requirement)
      in requirement)"

datatype AgentError =
    UnsupportedTool string
  | DriverConflict string string
  | UnsupportedRuntime string
  | TargetConflict string string

definition or_else :: "string \<Rightarrow> string \<Rightarrow> string" where
  "or_else s t = (if trim_space s = '''' then trim_space t else trim_space s)"

definition ResolveAgent :: "Defaults \<Rightarrow> Node \<Rightarrow> AgentError + (string \<times> string)" where
  "ResolveAgent defaults node =
     (let driver = or_else (as_driver (n_agent node)) (as_driver (df_agent defaults));
          legacyTool = or_else (n_tool node) (df_tool defaults)
      in if legacyTool \<noteq> '''' \<and> legacyTool \<noteq> ''codex'' \<and> legacyTool \<noteq> ''claude'' \<and> legacyTool \<noteq> ''opencode''
      then Inl (UnsupportedTool legacyTool)
      else let legacyBackend = trim_space (df_backend defaults);
               legacyDriver = (if legacyBackend = ''direct'' then ''codex'' else legacyBackend);
               legacyDriver = (if legacyDriver = '''' then legacyTool else legacyDriver)
      in if driver \<noteq> '''' \<and> legacyDriver \<noteq> '''' \<and> driver \<noteq> legacyDriver
      then Inl (DriverConflict driver legacyDriver)
      else let driver = (if driver = '''' then legacyDriver else driver);
               target = or_else (as_target (n_agent node)) (as_target (df_agent defaults));
               legacyTarget = or_else (n_runtime node) (df_runtime defaults)
      in if legacyTarget \<noteq> '''' \<and> legacyTarget \<noteq> ''local'' \<and> legacyTarget \<noteq> ''wsl'' \<and> legacyTarget \<noteq> ''ssh''
      then Inl (UnsupportedRuntime legacyTarget)
      else if target \<noteq> '''' \<and> legacyTarget \<noteq> '''' \<and> target \<noteq> legacyTarget
      then Inl (TargetConflict target legacyTarget)
      else let target = (if target = '''' then legacyTarget else target);
               target = (if target = '''' then ''local'' else target)
      in Inr (driver, target))"

subsection \<open>Scalars and inputs\<close>

datatype ScalarError = NullScalar | UnsupportedScalar string

definition normalizeScalar :: "goval \<Rightarrow> ScalarError + goval" where
  "normalizeScalar value = (case value of
      GString s \<Rightarrow> Inr (GString s)
    | GBool b \<Rightarrow> Inr (GBool b)
    | GNumber n \<Rightarrow> Inr (GNumber n)
    | GFloat f \<Rightarrow> Inr (GNumber (format_g f))
    | GInt i \<Rightarrow> Inr (GNumber (show_int i))
    | GNil \<Rightarrow> Inl NullScalar
    | GOther t \<Rightarrow> Inl (UnsupportedScalar t))"

definition scalarKind :: "goval \<Rightarrow> string" where
  "scalarKind value = (case value of
      GString s \<Rightarrow> ''string'' | GBool b \<Rightarrow> ''boolean'' | GNumber n \<Rightarrow> ''number'' | _ \<Rightarrow> ''unknown'')"

datatype InputError =
    InputUndeclared string
  | InputMissing string
  | InputScalar string ScalarError
  | InputDefault string ScalarError
  | InputKind string string string

definition resolve_input ::
  "(string, goval) gomap \<Rightarrow> string \<Rightarrow> InputDeclaration \<Rightarrow> InputError + goval option" where
  "resolve_input provided name declaration =
     (let value = (case map_of provided name of
          Some v \<Rightarrow> Some v
        | None \<Rightarrow> if in_default declaration \<noteq> GNil then Some (in_default declaration) else None)
      in case value of
           None \<Rightarrow> if in_required declaration then Inl (InputMissing name) else Inr None
         | Some v \<Rightarrow>
             (case normalizeScalar v of Inl e \<Rightarrow> Inl (InputScalar name e) | Inr normalized \<Rightarrow>
              if in_default declaration \<noteq> GNil
              then (case normalizeScalar (in_default declaration) of
                      Inl e \<Rightarrow> Inl (InputDefault name e)
                    | Inr d \<Rightarrow> if scalarKind d \<noteq> scalarKind normalized
                        then Inl (InputKind name (scalarKind normalized) (scalarKind d))
                        else Inr (Some normalized))
              else Inr (Some normalized)))"

fun resolve_inputs ::
  "(string, goval) gomap \<Rightarrow> (string, InputDeclaration) gomap \<Rightarrow> InputError + (string, goval) gomap" where
  "resolve_inputs provided [] = Inr []"
| "resolve_inputs provided ((name, declaration) # ds) =
     (case resolve_input provided name declaration of
        Inl e \<Rightarrow> Inl e
      | Inr v \<Rightarrow> (case resolve_inputs provided ds of
          Inl e \<Rightarrow> Inl e
        | Inr r \<Rightarrow> Inr (case v of None \<Rightarrow> r | Some x \<Rightarrow> (name, x) # r)))"

definition ResolveInputs ::
  "Document \<Rightarrow> (string, goval) gomap \<Rightarrow> InputError + (string, goval) gomap" where
  "ResolveInputs doc provided =
     (case each_ok (\<lambda>name. if map_of (doc_inputs doc) name = None then Inl (InputUndeclared name) else Inr ())
        (mkeys provided) of
        Inl e \<Rightarrow> Inl e
      | Inr _ \<Rightarrow> resolve_inputs provided (doc_inputs doc))"

subsection \<open>Results\<close>

datatype ResultError =
    SummaryRequired | SummaryTooLong | ListTooLong | TooManyQuestions
  | QuestionIncomplete | QuestionDuplicated string | TooManyChoices
  | ArtifactTooLong | ResultTooLong

definition omit_empty :: "string \<Rightarrow> string \<Rightarrow> (string \<times> string) list" where
  "omit_empty k s = (if s = '''' then [] else [(k, json_string s)])"

definition omit_empty_list :: "string \<Rightarrow> string list \<Rightarrow> (string \<times> string) list" where
  "omit_empty_list k xs = (if xs = [] then [] else [(k, json_array (map json_string xs))])"

definition omit_zero :: "string \<Rightarrow> int \<Rightarrow> (string \<times> string) list" where
  "omit_zero k i = (if i = 0 then [] else [(k, show_int i)])"

definition json_bool :: "bool \<Rightarrow> string" where
  "json_bool b = (if b then ''true'' else ''false'')"

definition json_question :: "InputQuestion \<Rightarrow> string" where
  "json_question q = json_object
     ([(''id'', json_string (iq_id q)), (''prompt'', json_string (iq_prompt q))]
      @ omit_empty_list ''choices'' (iq_choices q) @ [(''required'', json_bool (iq_required q))])"

definition json_usage :: "Usage \<Rightarrow> string" where
  "json_usage u = json_object
     (omit_zero ''inputTokensEstimated'' (us_input_tokens u)
      @ omit_zero ''outputTokensEstimated'' (us_output_tokens u))"

definition items :: "'a list option \<Rightarrow> 'a list" where
  "items xs = (case xs of None \<Rightarrow> [] | Some ys \<Rightarrow> ys)"

text \<open>\<^verbatim>\<open>json.Marshal(result)\<close>; a struct field is never omitted as empty.\<close>

definition json_result :: "Result \<Rightarrow> string" where
  "json_result r = json_object
     (omit_empty ''summary'' (res_summary r)
      @ omit_empty_list ''artifacts'' (items (res_artifacts r))
      @ omit_empty_list ''warnings'' (items (res_warnings r))
      @ omit_empty_list ''checks'' (items (res_checks r))
      @ (if res_questions r = [] then [] else [(''questions'', json_array (map json_question (res_questions r)))])
      @ [(''usage'', json_usage (res_usage r))]
      @ omit_empty ''decision'' (res_decision r)
      @ omit_empty ''reason'' (res_reason r))"

fun validate_questions :: "string list \<Rightarrow> InputQuestion list \<Rightarrow> ResultError + unit" where
  "validate_questions questionIDs [] = Inr ()"
| "validate_questions questionIDs (question # questions) =
     (if blank (iq_id question) \<or> blank (iq_prompt question) then Inl QuestionIncomplete
      else if iq_id question \<in> set questionIDs then Inl (QuestionDuplicated (iq_id question))
      else if length (iq_choices question) > MaxResultItems then Inl TooManyChoices
      else validate_questions (iq_id question # questionIDs) questions)"

definition ValidateResult :: "Result \<Rightarrow> ResultError + unit" where
  "ValidateResult result =
     (if blank (res_summary result) then Inl SummaryRequired
      else if length (res_summary result) > MaxSummaryBytes then Inl SummaryTooLong
      else if length (items (res_artifacts result)) > MaxResultItems
           \<or> length (items (res_warnings result)) > MaxResultItems
           \<or> length (items (res_checks result)) > MaxResultItems then Inl ListTooLong
      else if length (res_questions result) > 32 then Inl TooManyQuestions
      else case validate_questions [] (res_questions result) of Inl e \<Rightarrow> Inl e | Inr _ \<Rightarrow>
      (case each_ok (\<lambda>artifact. if length artifact > MaxArtifactBytes then Inl ArtifactTooLong else Inr ())
           (items (res_artifacts result)) of Inl e \<Rightarrow> Inl e | Inr _ \<Rightarrow>
       if length (json_result result) > MaxResultBytes then Inl ResultTooLong else Inr ()))"

lemma validate_questions_iff:
  "validate_questions seen qs = Inr () \<longleftrightarrow>
     (\<forall>q \<in> set qs. \<not> blank (iq_id q) \<and> \<not> blank (iq_prompt q) \<and> length (iq_choices q) \<le> MaxResultItems
        \<and> iq_id q \<notin> set seen) \<and> distinct (map iq_id qs)"
  by (induction seen qs rule: validate_questions.induct) (force simp: not_less image_iff)+

lemma ValidateResult_iff:
  "ValidateResult r = Inr () \<longleftrightarrow>
     \<not> blank (res_summary r) \<and> length (res_summary r) \<le> MaxSummaryBytes
     \<and> length (items (res_artifacts r)) \<le> MaxResultItems
     \<and> length (items (res_warnings r)) \<le> MaxResultItems
     \<and> length (items (res_checks r)) \<le> MaxResultItems
     \<and> length (res_questions r) \<le> 32 \<and> validate_questions [] (res_questions r) = Inr ()
     \<and> (\<forall>a \<in> set (items (res_artifacts r)). length a \<le> MaxArtifactBytes)
     \<and> length (json_result r) \<le> MaxResultBytes"
  unfolding ValidateResult_def
  by (simp only: res_simps each_ok_iff) (auto simp: not_less)

subsection \<open>Resolution of inputs\<close>

lemma normalizeScalar_idem: "normalizeScalar v = Inr w \<Longrightarrow> normalizeScalar w = Inr w"
  by (cases v) (auto simp: normalizeScalar_def)

lemma normalizeScalar_kind: "normalizeScalar v = Inr w \<Longrightarrow> scalarKind w \<in> {''string'', ''boolean'', ''number''}"
  by (cases v) (auto simp: normalizeScalar_def scalarKind_def)

lemma resolve_inputs_keys: "resolve_inputs provided ds = Inr r \<Longrightarrow> fst ` set r \<subseteq> fst ` set ds"
proof (induction provided ds arbitrary: r rule: resolve_inputs.induct)
  case (1 provided)
  then show ?case by simp
next
  case (2 provided n d ds)
  then obtain v s where v: "resolve_input provided n d = Inr v" and s: "resolve_inputs provided ds = Inr s"
    and r: "r = (case v of None \<Rightarrow> s | Some x \<Rightarrow> (n, x) # s)"
    by (auto split: sum.splits)
  have "fst ` set r \<subseteq> insert n (fst ` set s)" by (auto simp: r split: option.splits)
  then show ?case using "2.IH" [OF v s] by auto
qed

lemma resolve_inputs_lookup:
  "resolve_inputs provided ds = Inr r \<Longrightarrow> wf_map ds \<Longrightarrow>
   map_of r name = (case map_of ds name of None \<Rightarrow> None
     | Some d \<Rightarrow> (case resolve_input provided name d of Inl e \<Rightarrow> None | Inr v \<Rightarrow> v))"
proof (induction provided ds arbitrary: r rule: resolve_inputs.induct)
  case (1 provided)
  then show ?case by simp
next
  case (2 provided n d ds)
  then obtain v s where v: "resolve_input provided n d = Inr v" and s: "resolve_inputs provided ds = Inr s"
    and r: "r = (case v of None \<Rightarrow> s | Some x \<Rightarrow> (n, x) # s)"
    by (auto split: sum.splits)
  have "n \<notin> fst ` set s"
    using resolve_inputs_keys [OF s] "2.prems"(2) by (auto simp: wf_map_def)
  then have "map_of s n = None" by (simp add: map_of_eq_None_iff)
  moreover have "map_of s name = (case map_of ds name of None \<Rightarrow> None
     | Some d \<Rightarrow> (case resolve_input provided name d of Inl e \<Rightarrow> None | Inr v \<Rightarrow> v))"
    using "2.IH" [OF v s] "2.prems"(2) by (simp add: wf_map_def)
  ultimately show ?case using v r by (auto split: option.splits)
qed

lemma resolve_inputs_fails_iff:
  "(\<exists>r. resolve_inputs provided ds = Inr r) \<longleftrightarrow> (\<forall>(n, d) \<in> set ds. \<exists>v. resolve_input provided n d = Inr v)"
  by (induction provided ds rule: resolve_inputs.induct) (auto split: sum.splits)

end
