(* ===== verification/Workflow_Graph.thy ===== *)
theory Workflow_Graph
  imports Workflow_Model
begin

section \<open>The dependency graph of a workflow (internal/workflow/model.go)\<close>

text \<open>
  \<open>TopologicalOrder\<close> is Kahn's algorithm over the \<^verbatim>\<open>indegree\<close> map, with
  the ready list kept sorted; \<open>ancestors\<close> is the recursive visit of a node's
  dependencies. The lemmas show that the order places every node after its
  dependencies, that it is the one that always takes the least available node,
  so that it does not depend on the iteration order of Go's maps, that the
  algorithm fails exactly on cyclic documents, and that the visit computes the
  transitive closure.
\<close>

subsection \<open>Kahn's algorithm\<close>

text \<open>
  \<^verbatim>\<open>children[dependency]\<close> after the first loop: one entry per occurrence of
  the dependency, in the order the nodes are visited.
\<close>

fun children :: "(string, Node) gomap \<Rightarrow> string \<Rightarrow> string list" where
  "children [] dependency = []"
| "children ((i, node) # nodes) dependency =
     map (\<lambda>_. i) (filter (\<lambda>d. d = dependency) (n_depends_on node)) @ children nodes dependency"

definition indegrees :: "(string, Node) gomap \<Rightarrow> (string, int) gomap" where
  "indegrees nodes = map (\<lambda>(i, node). (i, int (length (n_depends_on node)))) nodes"

text \<open>Reading a missing key of a Go map gives the zero value.\<close>

definition deg :: "(string, int) gomap \<Rightarrow> string \<Rightarrow> int" where
  "deg ind i = (case map_of ind i of None \<Rightarrow> 0 | Some k \<Rightarrow> k)"

fun relax :: "string list \<Rightarrow> (string, int) gomap \<Rightarrow> string list \<Rightarrow> (string, int) gomap \<times> string list" where
  "relax [] indegree ready = (indegree, ready)"
| "relax (child # cs) indegree ready =
     (let indegree' = AList.update child (deg indegree child - 1) indegree;
          ready' = (if deg indegree' child = 0 then sort_strings (ready @ [child]) else ready)
      in relax cs indegree' ready')"

definition positives :: "(string, int) gomap \<Rightarrow> string set" where
  "positives ind = {i. 0 < deg ind i}"

lemma finite_positives [simp]: "finite (positives ind)"
proof -
  have "positives ind \<subseteq> fst ` set ind"
    by (force simp: positives_def deg_def dest!: map_of_SomeD split: option.split_asm)
  then show ?thesis using finite_subset by blast
qed

lemma deg_update [simp]: "deg (AList.update i k ind) j = (if j = i then k else deg ind j)"
  by (simp add: deg_def update_conv')

lemma relax_measure:
  "relax cs ind ready = (ind', ready') \<Longrightarrow>
   length ready' + card (positives ind') \<le> length ready + card (positives ind)"
proof (induction cs arbitrary: ind ready)
  case Nil
  then show ?case by simp
next
  case (Cons child cs)
  let ?ind = "AList.update child (deg ind child - 1) ind"
  let ?ready = "if deg ?ind child = 0 then sort_strings (ready @ [child]) else ready"
  have "relax cs ?ind ?ready = (ind', ready')" using Cons.prems by (simp add: Let_def)
  then have ih: "length ready' + card (positives ind') \<le> length ?ready + card (positives ?ind)"
    by (rule Cons.IH)
  have "length ?ready + card (positives ?ind) \<le> length ready + card (positives ind)"
  proof (cases "deg ind child = 1")
    case True
    then have "positives ?ind = positives ind - {child}" "child \<in> positives ind"
      by (auto simp: positives_def)
    then have "Suc (card (positives ?ind)) = card (positives ind)"
      by (metis card.remove finite_positives)
    then show ?thesis using True by simp
  next
    case False
    have "positives ?ind \<subseteq> positives ind" by (auto simp: positives_def split: if_splits)
    then show ?thesis using False card_mono [OF finite_positives] by simp
  qed
  with ih show ?case by linarith
qed

function topo_loop ::
  "(string \<Rightarrow> string list) \<Rightarrow> (string, int) gomap \<Rightarrow> string list \<Rightarrow> string list \<Rightarrow> string list" where
  "topo_loop children_of indegree [] order = order"
| "topo_loop children_of indegree (i # ready) order =
     (let (indegree', ready') = relax (children_of i) indegree ready
      in topo_loop children_of indegree' ready' (order @ [i]))"
  by pat_completeness auto
termination
proof (relation "measure (\<lambda>(ch, ind, ready, order). length ready + card (positives ind))", simp)
  fix ch :: "string \<Rightarrow> string list" and ind :: "(string, int) gomap" and i ready order x ind' ready'
  assume "x = relax (ch i) ind ready" "(ind', ready') = x"
  then have "relax (ch i) ind ready = (ind', ready')" by simp
  from relax_measure [OF this]
  show "((ch, ind', ready', order @ [i]), ch, ind, i # ready, order)
      \<in> measure (\<lambda>(ch, ind, ready, order). length ready + card (positives ind))"
    by simp
qed

definition TopologicalOrder :: "Document \<Rightarrow> string list option" where
  "TopologicalOrder doc =
     (let indegree = indegrees (doc_nodes doc);
          ready = sort_strings (map fst (filter (\<lambda>(i, degree). degree = 0) indegree));
          order = topo_loop (children (doc_nodes doc)) indegree ready []
      in if length order \<noteq> length (doc_nodes doc) then None else Some order)"

subsection \<open>The greedy specification\<close>

text \<open>The nodes that may come next after the nodes of \<open>placed\<close>.\<close>

definition available :: "Document \<Rightarrow> string set \<Rightarrow> string set" where
  "available doc placed =
     {i \<in> fst ` set (doc_nodes doc). i \<notin> placed \<and> set (deps doc i) \<subseteq> placed}"

text \<open>Every step takes the least available node.\<close>

definition greedy :: "Document \<Rightarrow> string list \<Rightarrow> bool" where
  "greedy doc order \<longleftrightarrow>
     (\<forall>k < length order. order ! k \<in> available doc (set (take k order))
        \<and> (\<forall>i \<in> available doc (set (take k order)). order ! k \<le> i))"

lemma greedy_Nil [simp]: "greedy doc []"
  by (simp add: greedy_def)

lemma greedy_snoc:
  "greedy doc (order @ [i]) \<longleftrightarrow> greedy doc order
     \<and> i \<in> available doc (set order) \<and> (\<forall>j \<in> available doc (set order). i \<le> j)"
  unfolding greedy_def by (auto simp: nth_append less_Suc_eq)

lemma greedy_take: "greedy doc order \<Longrightarrow> greedy doc (take n order)"
  unfolding greedy_def by (auto simp: min_def)

lemma greedy_distinct: "greedy doc order \<Longrightarrow> distinct order \<and> set order \<subseteq> fst ` set (doc_nodes doc)"
  by (induction order rule: rev_induct) (auto simp: greedy_snoc available_def)

lemma greedy_deps:
  "greedy doc order \<Longrightarrow> order = xs @ i # ys \<Longrightarrow> set (deps doc i) \<subseteq> set xs"
proof -
  assume g: "greedy doc order" and o: "order = xs @ i # ys"
  have "greedy doc (xs @ [i])"
    using greedy_take [OF g, of "Suc (length xs)"] by (simp add: o)
  then show ?thesis by (simp add: greedy_snoc available_def)
qed

lemma greedy_closed: "greedy doc order \<Longrightarrow> i \<in> set order \<Longrightarrow> set (deps doc i) \<subseteq> set order - {i}"
proof -
  assume g: "greedy doc order" and "i \<in> set order"
  then obtain xs ys where o: "order = xs @ i # ys" by (meson split_list)
  then show ?thesis using greedy_deps [OF g o] greedy_distinct [OF g] by auto
qed

lemma available_insert:
  assumes "greedy doc order" and "i \<in> available doc (set order)"
  shows "available doc (insert i (set order)) = (available doc (set order) - {i})
      \<union> {j \<in> fst ` set (doc_nodes doc). \<not> set (deps doc j) \<subseteq> set order
           \<and> set (deps doc j) \<subseteq> insert i (set order)}"
proof (intro set_eqI)
  fix j
  have "set (deps doc j) \<subseteq> set order" if "j \<in> set order"
    using greedy_closed [OF assms(1) that] by blast
  moreover have "set (deps doc i) \<subseteq> set order" using assms(2) by (simp add: available_def)
  ultimately show "j \<in> available doc (insert i (set order)) \<longleftrightarrow> j \<in> (available doc (set order) - {i})
      \<union> {j \<in> fst ` set (doc_nodes doc). \<not> set (deps doc j) \<subseteq> set order
           \<and> set (deps doc j) \<subseteq> insert i (set order)}"
    unfolding available_def by (cases "j = i"; cases "j \<in> set order") auto
qed

lemma greedy_unique:
  "greedy doc xs \<Longrightarrow> greedy doc ys \<Longrightarrow> length xs = length ys \<Longrightarrow> xs = ys"
proof (induction xs arbitrary: ys rule: rev_induct)
  case Nil
  then show ?case by simp
next
  case (snoc x xs)
  then obtain ys' y where ys: "ys = ys' @ [y]" by (cases ys rule: rev_cases) auto
  then have "xs = ys'" using snoc by (simp add: greedy_snoc)
  then show ?case using snoc.prems ys by (force simp: greedy_snoc intro: antisym)
qed

subsection \<open>The loop refines the specification\<close>

lemma relax_deg:
  "relax cs ind ready = (ind', ready') \<Longrightarrow> deg ind' i = deg ind i - int (count_list cs i)"
proof (induction cs arbitrary: ind ready)
  case Nil
  then show ?case by simp
next
  case (Cons child cs)
  then show ?case by (simp only: relax.simps Let_def Cons.IH) simp
qed

lemma relax_ready:
  "relax cs ind ready = (ind', ready') \<Longrightarrow> sorted ready \<Longrightarrow> distinct ready \<Longrightarrow>
   (\<forall>i \<in> set ready. deg ind i \<le> 0) \<Longrightarrow>
   sorted ready' \<and> distinct ready'
   \<and> set ready' = set ready \<union> {i. 0 < deg ind i \<and> deg ind i \<le> int (count_list cs i)}"
proof (induction cs arbitrary: ind ready)
  case Nil
  then show ?case by auto
next
  case (Cons child cs)
  let ?ind = "AList.update child (deg ind child - 1) ind"
  let ?ready = "if deg ?ind child = 0 then sort_strings (ready @ [child]) else ready"
  have r: "relax cs ?ind ?ready = (ind', ready')" using Cons.prems(1) by (simp add: Let_def)
  have zero: "\<forall>i \<in> set ?ready. deg ?ind i \<le> 0" using Cons.prems(4) by auto
  have "child \<notin> set ready" if "deg ?ind child = 0" using Cons.prems(4) that by auto
  then have "sorted ?ready" "distinct ?ready" using Cons.prems(2,3) by auto
  from Cons.IH [OF r this zero]
  have ih: "sorted ready'" "distinct ready'"
    "set ready' = set ?ready \<union> {i. 0 < deg ?ind i \<and> deg ?ind i \<le> int (count_list cs i)}"
    by auto
  have "set ?ready \<union> {i. 0 < deg ?ind i \<and> deg ?ind i \<le> int (count_list cs i)}
      = set ready \<union> {i. 0 < deg ind i \<and> deg ind i \<le> int (count_list (child # cs) i)}"
    by (cases "deg ind child = 1") auto
  with ih show ?case by simp
qed

text \<open>How many dependency entries of a node are still open.\<close>

definition open_deps :: "Document \<Rightarrow> string set \<Rightarrow> string \<Rightarrow> int" where
  "open_deps doc placed i = int (length (filter (\<lambda>d. d \<notin> placed) (deps doc i)))"

lemma count_children:
  "wf_map nodes \<Longrightarrow> count_list (children nodes d) i =
     (case map_of nodes i of None \<Rightarrow> 0 | Some n \<Rightarrow> count_list (n_depends_on n) d)"
proof (induction nodes d rule: children.induct)
  case (1 dependency)
  then show ?case by simp
next
  case (2 j node nodes d)
  have c: "count_list (map (\<lambda>_. j) (filter (\<lambda>x. x = d) xs)) i = (if i = j then count_list xs d else 0)" for xs
    by (induction xs) auto
  have "i = j \<Longrightarrow> map_of nodes i = None"
    using "2.prems" by (auto simp: wf_map_def map_of_eq_None_iff)
  with 2 show ?case by (auto simp: c wf_map_def split: option.splits)
qed

lemma count_children_get:
  "wf_map (doc_nodes doc) \<Longrightarrow> count_list (children (doc_nodes doc) d) i = count_list (deps doc i) d"
  by (simp add: count_children get_node_def empty_node_def split: option.splits)

lemma open_deps_insert:
  "d \<notin> placed \<Longrightarrow> open_deps doc (insert d placed) i = open_deps doc placed i - int (count_list (deps doc i) d)"
proof -
  assume d: "d \<notin> placed"
  have "length (filter (\<lambda>x. x \<notin> placed) xs) = length (filter (\<lambda>x. x \<notin> insert d placed) xs) + count_list xs d" for xs
    using d by (induction xs) auto
  from this [of "deps doc i"] show ?thesis by (simp add: open_deps_def)
qed

lemma open_deps_zero: "open_deps doc placed i = 0 \<longleftrightarrow> set (deps doc i) \<subseteq> placed"
  by (auto simp: open_deps_def filter_empty_conv)

lemma open_deps_nonneg: "0 \<le> open_deps doc placed i"
  by (simp add: open_deps_def)

text \<open>The state of the loop between two iterations.\<close>

definition topo_inv :: "Document \<Rightarrow> (string, int) gomap \<Rightarrow> string list \<Rightarrow> string list \<Rightarrow> bool" where
  "topo_inv doc ind ready order \<longleftrightarrow>
     greedy doc order \<and> sorted ready \<and> distinct ready \<and> set ready = available doc (set order)
     \<and> (\<forall>i. deg ind i = open_deps doc (set order) i)"

lemma topo_inv_step:
  assumes wf: "wf_map (doc_nodes doc)" and inv: "topo_inv doc ind (i # ready) order"
    and r: "relax (children (doc_nodes doc) i) ind ready = (ind', ready')"
  shows "topo_inv doc ind' ready' (order @ [i])"
proof -
  have i: "i \<in> available doc (set order)" "i \<notin> set order"
    using inv by (auto simp: topo_inv_def available_def)
  have "\<forall>j \<in> available doc (set order). i \<le> j"
    using inv by (auto simp: topo_inv_def)
  with inv i have g: "greedy doc (order @ [i])" by (simp add: topo_inv_def greedy_snoc)
  have deg': "deg ind' j = open_deps doc (insert i (set order)) j" for j
    using inv i(2) relax_deg [OF r, of j]
    by (simp add: topo_inv_def open_deps_insert count_children_get [OF wf])
  have zero: "\<forall>j \<in> set ready. deg ind j \<le> 0"
    using inv by (auto simp: topo_inv_def available_def open_deps_zero [symmetric])
  from relax_ready [OF r _ _ zero] inv
  have rd: "sorted ready'" "distinct ready'"
    "set ready' = set ready \<union> {j. 0 < deg ind j \<and> deg ind j \<le> int (count_list (deps doc j) i)}"
    by (auto simp: topo_inv_def count_children_get [OF wf])
  have node: "j \<in> fst ` set (doc_nodes doc)" if "0 < deg ind j" for j
  proof (rule ccontr)
    assume "j \<notin> fst ` set (doc_nodes doc)"
    then have "map_of (doc_nodes doc) j = None" by (simp add: map_of_eq_None_iff)
    then show False
      using that inv by (simp add: topo_inv_def open_deps_def get_node_def empty_node_def)
  qed
  have new: "0 < deg ind j \<and> deg ind j \<le> int (count_list (deps doc j) i) \<longleftrightarrow>
      \<not> set (deps doc j) \<subseteq> set order \<and> set (deps doc j) \<subseteq> insert i (set order)" for j
  proof -
    have "deg ind j = open_deps doc (set order) j" using inv by (simp add: topo_inv_def)
    moreover have "open_deps doc (insert i (set order)) j
        = open_deps doc (set order) j - int (count_list (deps doc j) i)"
      by (rule open_deps_insert [OF i(2)])
    ultimately show ?thesis
      unfolding open_deps_zero [symmetric]
      using open_deps_nonneg [of doc "insert i (set order)" j] open_deps_nonneg [of doc "set order" j]
      by linarith
  qed
  have "set ready = available doc (set order) - {i}"
    using inv by (auto simp: topo_inv_def)
  moreover have "available doc (set (order @ [i])) = (available doc (set order) - {i})
      \<union> {j \<in> fst ` set (doc_nodes doc). \<not> set (deps doc j) \<subseteq> set order
           \<and> set (deps doc j) \<subseteq> insert i (set order)}"
    using available_insert [OF _ i(1)] inv by (simp add: topo_inv_def)
  moreover have "{j. 0 < deg ind j \<and> deg ind j \<le> int (count_list (deps doc j) i)}
      = {j \<in> fst ` set (doc_nodes doc). \<not> set (deps doc j) \<subseteq> set order
           \<and> set (deps doc j) \<subseteq> insert i (set order)}"
    using node new by blast
  ultimately have "set ready' = available doc (set (order @ [i]))"
    using rd(3) by simp
  with g rd deg' show ?thesis by (simp add: topo_inv_def)
qed

lemma topo_loop_spec:
  "wf_map (doc_nodes doc) \<Longrightarrow> topo_inv doc ind ready order \<Longrightarrow>
   \<exists>result. topo_loop (children (doc_nodes doc)) ind ready order = result
      \<and> greedy doc result \<and> available doc (set result) = {}"
proof (induction "children (doc_nodes doc)" ind ready order rule: topo_loop.induct)
  case (1 indegree order)
  then show ?case by (auto simp: topo_inv_def)
next
  case (2 ind i ready order)
  obtain ind' ready' where r: "relax (children (doc_nodes doc) i) ind ready = (ind', ready')"
    by force
  with 2 topo_inv_step [OF 2(2,3) r] show ?case by simp
qed

lemma deg_indegrees: "deg (indegrees nodes) i =
    (case map_of nodes i of None \<Rightarrow> 0 | Some n \<Rightarrow> int (length (n_depends_on n)))"
  by (induction nodes) (auto simp: indegrees_def deg_def)

lemma topo_inv_init:
  assumes "wf_map (doc_nodes doc)"
  shows "topo_inv doc (indegrees (doc_nodes doc))
     (sort_strings (map fst (filter (\<lambda>(i, degree). degree = 0) (indegrees (doc_nodes doc))))) []"
proof -
  have "map fst (indegrees nodes) = map fst nodes" for nodes
    by (simp add: indegrees_def split_def)
  then have d: "distinct (map fst (filter P (indegrees nodes)))" if "wf_map nodes" for P nodes
    using that by (simp add: distinct_map_filter wf_map_def)
  have "set (map fst (filter (\<lambda>(i, degree). degree = 0) (indegrees (doc_nodes doc)))) = available doc {}"
    using assms
    by (force simp: indegrees_def available_def get_node_def wf_map_lookup image_iff)
  moreover have "deg (indegrees (doc_nodes doc)) i = open_deps doc {} i" for i
    by (simp add: deg_indegrees open_deps_def get_node_def empty_node_def split: option.splits)
  ultimately show ?thesis
    using d [OF assms] by (simp add: topo_inv_def)
qed

subsection \<open>The order as a whole\<close>

lemma TopologicalOrder_greedy:
  assumes "wf_map (doc_nodes doc)"
  shows "TopologicalOrder doc = Some order \<longleftrightarrow> greedy doc order \<and> length order = length (doc_nodes doc)"
proof -
  obtain result where r: "topo_loop (children (doc_nodes doc)) (indegrees (doc_nodes doc))
      (sort_strings (map fst (filter (\<lambda>(i, degree). degree = 0) (indegrees (doc_nodes doc))))) [] = result"
    and g: "greedy doc result" "available doc (set result) = {}"
    using topo_loop_spec [OF assms topo_inv_init [OF assms]] by blast
  have len: "length xs \<le> length (doc_nodes doc)" if "greedy doc xs" for xs
    using greedy_distinct [OF that] by (metis card_image_le card_mono distinct_card finite_imageI
        finite_set length_map list.set_map card_length order_trans)
  have "order = result" if o: "greedy doc order" "length order = length (doc_nodes doc)"
  proof -
    have "length result \<le> length order" using len [OF g(1)] o(2) by simp
    then have eq: "take (length result) order = result"
      using greedy_unique [OF greedy_take [OF o(1)] g(1)] by simp
    show ?thesis
    proof (cases "length result = length order")
      case True
      then show ?thesis using eq by simp
    next
      case False
      then have "length result < length order" using \<open>length result \<le> length order\<close> by simp
      with o(1) eq have "order ! length result \<in> available doc (set result)"
        unfolding greedy_def by (metis (no_types))
      with g(2) show ?thesis by simp
    qed
  qed
  then show ?thesis
    using r g(1) by (auto simp: TopologicalOrder_def Let_def)
qed

lemma order_set:
  assumes "wf_map (doc_nodes doc)" "TopologicalOrder doc = Some order"
  shows "distinct order" "set order = fst ` set (doc_nodes doc)"
proof -
  have o: "greedy doc order" "length order = length (doc_nodes doc)"
    using assms by (simp_all add: TopologicalOrder_greedy)
  then show "distinct order" using greedy_distinct by blast
  then have "card (set order) = card (fst ` set (doc_nodes doc))"
    using o(2) assms(1) by (metis distinct_card length_map list.set_map wf_map_def)
  with greedy_distinct [OF o(1)] show "set order = fst ` set (doc_nodes doc)"
    by (simp add: card_subset_eq)
qed

text \<open>Dependency edges between nodes, from a dependency to its dependent.\<close>

definition edges :: "Document \<Rightarrow> (string \<times> string) set" where
  "edges doc = {(d, i). i \<in> fst ` set (doc_nodes doc) \<and> d \<in> set (deps doc i)}"

definition deps_exist :: "Document \<Rightarrow> bool" where
  "deps_exist doc \<longleftrightarrow> (\<forall>i \<in> fst ` set (doc_nodes doc). set (deps doc i) \<subseteq> fst ` set (doc_nodes doc))"

lemma missing_node_deps: "i \<notin> fst ` set (doc_nodes doc) \<Longrightarrow> deps doc i = []"
  by (simp add: get_node_def empty_node_def map_of_eq_None_iff [symmetric])

lemma edges_deps: "(d, i) \<in> edges doc \<longleftrightarrow> d \<in> set (deps doc i)"
  using missing_node_deps by (fastforce simp: edges_def)

lemma takeWhile_shorter: "x \<in> set xs \<Longrightarrow> length (takeWhile (\<lambda>y. y \<noteq> x) xs) < length xs"
  by (induction xs) auto

lemma order_positions:
  assumes g: "greedy doc order" and e: "(d, i) \<in> edges doc" and i: "i \<in> set order"
  shows "length (takeWhile (\<lambda>x. x \<noteq> d) order) < length (takeWhile (\<lambda>x. x \<noteq> i) order)"
proof -
  obtain xs ys where o: "order = xs @ i # ys" using i by (meson split_list)
  have "d \<in> set xs" using greedy_deps [OF g o] e by (auto simp: edges_deps)
  moreover have "i \<notin> set xs" using greedy_distinct [OF g] o by simp
  ultimately have "takeWhile (\<lambda>x. x \<noteq> i) order = xs"
    unfolding o by (subst takeWhile_append2) auto
  moreover have "takeWhile (\<lambda>x. x \<noteq> d) order = takeWhile (\<lambda>x. x \<noteq> d) xs"
    using \<open>d \<in> set xs\<close> unfolding o by (simp add: takeWhile_append1)
  ultimately show ?thesis
    using \<open>d \<in> set xs\<close> takeWhile_shorter [of d xs] by simp
qed

lemma finite_edges: "finite (edges doc)"
proof -
  have "edges doc \<subseteq> (\<Union>i \<in> fst ` set (doc_nodes doc). (\<lambda>d. (d, i)) ` set (deps doc i))"
    by (auto simp: edges_def)
  then show ?thesis by (rule finite_subset) simp
qed

text \<open>The algorithm succeeds exactly on documents without a missing dependency and without a cycle.\<close>

lemma order_exists_iff:
  assumes wf: "wf_map (doc_nodes doc)"
  shows "(\<exists>order. TopologicalOrder doc = Some order) \<longleftrightarrow> deps_exist doc \<and> acyclic (edges doc)"
proof
  assume "\<exists>order. TopologicalOrder doc = Some order"
  then obtain order where o: "TopologicalOrder doc = Some order" by blast
  then have g: "greedy doc order" using wf by (simp add: TopologicalOrder_greedy)
  note set_o = order_set(2) [OF wf o]
  have "deps_exist doc" unfolding deps_exist_def
    using greedy_closed [OF g] set_o by blast
  moreover have "edges doc \<subseteq> measure (\<lambda>i. length (takeWhile (\<lambda>x. x \<noteq> i) order))"
  proof (intro subsetI)
    fix e assume "e \<in> edges doc"
    moreover then have "snd e \<in> set order" unfolding set_o by (auto simp only: edges_def snd_conv)
    ultimately show "e \<in> measure (\<lambda>i. length (takeWhile (\<lambda>x. x \<noteq> i) order))"
      using order_positions [OF g, of "fst e" "snd e"] by (cases e) simp
  qed
  then have "wf (edges doc)" by (rule wf_subset [OF wf_measure])
  ultimately show "deps_exist doc \<and> acyclic (edges doc)" by (simp add: wf_acyclic)
next
  assume "deps_exist doc \<and> acyclic (edges doc)"
  then have de: "deps_exist doc" and "wf (edges doc)"
    by (simp_all add: finite_acyclic_wf finite_edges)
  obtain result where g: "greedy doc result" "available doc (set result) = {}"
    using topo_loop_spec [OF wf topo_inv_init [OF wf]] by blast
  have "fst ` set (doc_nodes doc) - set result = {}"
  proof (rule ccontr)
    assume "fst ` set (doc_nodes doc) - set result \<noteq> {}"
    then obtain z where z: "z \<in> fst ` set (doc_nodes doc) - set result"
      and m: "\<And>y. (y, z) \<in> edges doc \<Longrightarrow> y \<notin> fst ` set (doc_nodes doc) - set result"
      using wfE_min [OF \<open>wf (edges doc)\<close>] by (metis ex_in_conv)
    have "set (deps doc z) \<subseteq> set result"
      using m z de [unfolded deps_exist_def] by (blast intro: edges_deps [THEN iffD2])
    with z g(2) show False by (auto simp: available_def)
  qed
  then have "set result = fst ` set (doc_nodes doc)" using greedy_distinct [OF g(1)] by blast
  then have "length result = length (doc_nodes doc)"
    using greedy_distinct [OF g(1)] wf by (metis distinct_card length_map list.set_map wf_map_def)
  with g(1) show "\<exists>order. TopologicalOrder doc = Some order"
    using TopologicalOrder_greedy [OF wf] by blast
qed

text \<open>The iteration order of the node map does not matter.\<close>

lemma get_node_perm:
  assumes "wf_map (doc_nodes doc)" "wf_map (doc_nodes doc')" "set (doc_nodes doc) = set (doc_nodes doc')"
  shows "get_node doc i = get_node doc' i"
  using map_of_perm [OF assms] by (simp add: get_node_def)

lemma greedy_perm:
  assumes "wf_map (doc_nodes doc)" "wf_map (doc_nodes doc')" "set (doc_nodes doc) = set (doc_nodes doc')"
  shows "greedy doc order = greedy doc' order"
  by (simp add: greedy_def available_def get_node_perm [OF assms] assms(3))

lemma TopologicalOrder_perm:
  assumes "wf_map (doc_nodes doc)" "wf_map (doc_nodes doc')" "set (doc_nodes doc) = set (doc_nodes doc')"
  shows "TopologicalOrder doc = TopologicalOrder doc'"
proof -
  have "length (doc_nodes doc) = length (doc_nodes doc')"
    using assms by (metis distinct_card length_map list.set_map wf_map_def)
  then have "TopologicalOrder doc = Some x \<longleftrightarrow> TopologicalOrder doc' = Some x" for x
    using assms by (simp add: TopologicalOrder_greedy greedy_perm [OF assms])
  then show ?thesis by (metis option.exhaust)
qed

subsection \<open>Ancestors\<close>

text \<open>
  The closure \<^verbatim>\<open>visit\<close> of \<open>ancestors\<close>, its pending loops flattened into a
  list of dependencies still to look at: visiting a new dependency puts its own
  dependencies in front.
\<close>

function visit :: "Document \<Rightarrow> string list \<Rightarrow> string list \<Rightarrow> string list" where
  "visit doc [] result = result"
| "visit doc (dependency # pending) result =
     (if dependency \<in> set result then visit doc pending result
      else visit doc (deps doc dependency @ pending) (dependency # result))"
  by pat_completeness auto
termination
proof (relation "(\<lambda>(doc, pending, result). card (fst ` set (doc_nodes doc) - set result))
    <*mlex*> measure (\<lambda>(doc, pending, result). length pending)", goal_cases)
  case 1
  show ?case by (simp add: wf_mlex)
next
  case (2 doc d ds result)
  then show ?case by (simp add: mlex_leq)
next
  case (3 doc d ds result)
  let ?N = "fst ` set (doc_nodes doc)"
  show ?case
  proof (cases "d \<in> ?N")
    case True
    then have "?N - set (d # result) \<subset> ?N - set result" using 3 by auto
    then have "card (?N - set (d # result)) < card (?N - set result)"
      by (intro psubset_card_mono) auto
    then show ?thesis by (simp add: mlex_less)
  next
    case False
    then have "?N - set (d # result) = ?N - set result" "deps doc d = []"
      using missing_node_deps by auto
    then show ?thesis by (simp add: mlex_leq)
  qed
qed

definition ancestors :: "Document \<Rightarrow> string \<Rightarrow> string list" where
  "ancestors doc nodeID = visit doc (deps doc nodeID) []"

lemma visit_superset: "set result \<union> set pending \<subseteq> set (visit doc pending result)"
  by (induction doc pending result rule: visit.induct) auto

lemma visit_closed:
  "(\<forall>r \<in> set result. set (deps doc r) \<subseteq> set result \<union> set pending) \<Longrightarrow>
   \<forall>r \<in> set (visit doc pending result). set (deps doc r) \<subseteq> set (visit doc pending result)"
proof (induction doc pending result rule: visit.induct)
  case (1 doc result)
  then show ?case by simp
next
  case (2 doc d ds result)
  show ?case
  proof (cases "d \<in> set result")
    case True
    then show ?thesis using 2 by auto
  next
    case False
    have "\<forall>r \<in> set (d # result). set (deps doc r) \<subseteq> set (d # result) \<union> set (deps doc d @ ds)"
      using "2.prems" by auto
    from "2.IH"(2) [OF False this] False show ?thesis by simp
  qed
qed

lemma visit_sound:
  "x \<in> set (visit doc pending result) \<Longrightarrow>
   x \<in> set result \<or> (\<exists>s \<in> set pending. (x, s) \<in> (edges doc)\<^sup>*)"
proof (induction doc pending result rule: visit.induct)
  case (1 doc result)
  then show ?case by simp
next
  case (2 doc d ds result)
  show ?case
  proof (cases "d \<in> set result")
    case True
    then show ?thesis using 2 by auto
  next
    case False
    then have "x \<in> set (d # result) \<or> (\<exists>s \<in> set (deps doc d @ ds). (x, s) \<in> (edges doc)\<^sup>*)"
      using 2 by simp
    then show ?thesis
      by (auto simp: edges_deps [symmetric] dest: rtrancl_into_rtrancl)
  qed
qed

lemma ancestors_closure: "set (ancestors doc i) = {x. (x, i) \<in> (edges doc)\<^sup>+}"
proof (intro set_eqI iffI)
  fix x
  assume "x \<in> set (ancestors doc i)"
  then obtain s where "s \<in> set (deps doc i)" "(x, s) \<in> (edges doc)\<^sup>*"
    using visit_sound [of x doc "deps doc i" "[]"] by (auto simp: ancestors_def)
  then show "x \<in> {x. (x, i) \<in> (edges doc)\<^sup>+}"
    by (auto simp: edges_deps [symmetric])
next
  fix x
  assume "x \<in> {x. (x, i) \<in> (edges doc)\<^sup>+}"
  then have "(x, i) \<in> (edges doc)\<^sup>+" by simp
  moreover have "\<forall>r \<in> set (ancestors doc i). set (deps doc r) \<subseteq> set (ancestors doc i)"
    unfolding ancestors_def by (rule visit_closed) simp
  moreover have "set (deps doc i) \<subseteq> set (ancestors doc i)"
    using visit_superset [of "[]" "deps doc i" doc] by (simp add: ancestors_def)
  ultimately show "x \<in> set (ancestors doc i)"
    by (induction rule: converse_trancl_induct) (auto simp: edges_deps)
qed

lemma ancestors_nodes: "deps_exist doc \<Longrightarrow> set (ancestors doc i) \<subseteq> fst ` set (doc_nodes doc)"
proof -
  assume de: "deps_exist doc"
  have "\<exists>j. (x, j) \<in> edges doc" if "(x, i) \<in> (edges doc)\<^sup>+" for x
    using that by (meson converse_tranclE)
  then show ?thesis using de by (fastforce simp: ancestors_closure edges_def deps_exist_def)
qed

lemma edges_perm:
  assumes "wf_map (doc_nodes doc)" "wf_map (doc_nodes doc')" "set (doc_nodes doc) = set (doc_nodes doc')"
  shows "edges doc = edges doc'"
  by (simp add: edges_def get_node_perm [OF assms] assms(3))

end
