(* ===== verification/Workflow_Template.thy ===== *)
theory Workflow_Template
  imports Workflow_Graph
begin

section \<open>Templates and conditions (internal/workflow/template.go, validate.go)\<close>

text \<open>
  A node's task and prompt are texts with references \<^verbatim>\<open>{{inputs.x}}\<close> and
  \<^verbatim>\<open>{{nodes.n.result.f}}\<close>; a node's condition compares public result fields.
  \<open>ParseTemplate\<close> and \<open>validateCondition\<close> check them when the document is
  validated, \<open>Render\<close> and \<open>Evaluate\<close> use them when the node is scheduled. The
  lemmas show that what is accepted is never an unsupported reference or an index
  out of range when it is used.
\<close>

subsection \<open>Lexing references\<close>

definition ident_char :: "char \<Rightarrow> bool" where
  "ident_char c \<longleftrightarrow> is_alpha c \<or> is_digit c \<or> c = CHR ''_'' \<or> c = CHR ''-''"

definition re_space :: "char \<Rightarrow> bool" where
  "re_space c \<longleftrightarrow> byte c \<in> {9, 10, 12, 13, 32}"

definition match_ident :: "string \<Rightarrow> (string \<times> string) option" where
  "match_ident s = (case s of
      [] \<Rightarrow> None
    | c # cs \<Rightarrow> if is_alpha c then Some (c # takeWhile ident_char cs, dropWhile ident_char cs) else None)"

lemma match_ident_length: "match_ident s = Some (i, r) \<Longrightarrow> length r < length s"
  by (auto simp: match_ident_def split: list.splits if_splits intro: le_imp_less_Suc length_dropWhile_le)

text \<open>The repetition \<^verbatim>\<open>(\.ident)+\<close> of the pattern, as far as it goes.\<close>

function match_more :: "string \<Rightarrow> string list \<times> string" where
  "match_more s = (case s of
      [] \<Rightarrow> ([], s)
    | c # cs \<Rightarrow> if c = CHR ''.'' then
        (case match_ident cs of
           None \<Rightarrow> ([], s)
         | Some (i, r) \<Rightarrow> let (is, rest) = match_more r in (i # is, rest))
      else ([], s))"
  by pat_completeness auto
termination
  by (relation "measure length") (auto dest: match_ident_length)

declare match_more.simps [simp del]

text \<open>
  \<^verbatim>\<open>templateReferencePattern\<close> at the start of a text: the dotted path and the
  text after the match. No two parts of the pattern can start with the same
  character, so the greedy match is the only one.
\<close>

definition match_ref :: "string \<Rightarrow> (string \<times> string) option" where
  "match_ref s =
     (if take 2 s \<noteq> ''{{'' then None
      else case match_ident (dropWhile re_space (drop 2 s)) of
        None \<Rightarrow> None
      | Some (i, r) \<Rightarrow>
          let (is, rest) = match_more r; rest = dropWhile re_space rest
          in if is = [] \<or> take 2 rest \<noteq> ''}}'' then None
             else Some (join_with ''.'' (i # is), drop 2 rest))"

lemma match_more_length: "length (snd (match_more s)) \<le> length s"
proof (induction s rule: match_more.induct)
  case (1 s)
  then show ?case
    by (subst match_more.simps)
      (force dest: match_ident_length split: list.splits option.splits prod.splits)
qed

lemma match_ref_length: "match_ref s = Some (path, rest) \<Longrightarrow> length rest < length s"
proof -
  assume m: "match_ref s = Some (path, rest)"
  then obtain i r where i: "match_ident (dropWhile re_space (drop 2 s)) = Some (i, r)"
    and rest: "rest = drop 2 (dropWhile re_space (snd (match_more r)))"
    by (auto simp: match_ref_def Let_def split: if_splits option.splits prod.splits)
  have "length rest \<le> length r"
    using match_more_length [of r] length_dropWhile_le [of re_space "snd (match_more r)"]
    by (simp add: rest)
  also have "\<dots> < length (dropWhile re_space (drop 2 s))" by (rule match_ident_length [OF i])
  also have "\<dots> \<le> length s" using length_dropWhile_le [of re_space "drop 2 s"] by simp
  finally show ?thesis .
qed

datatype segment = Lit char | Ref (ref_text: string) (ref_path: string)

text \<open>The matches of the pattern in a text, leftmost first, and the characters between them.\<close>

function tokenize :: "string \<Rightarrow> segment list" where
  "tokenize s = (case s of
      [] \<Rightarrow> []
    | c # cs \<Rightarrow> (case match_ref s of
        None \<Rightarrow> Lit c # tokenize cs
      | Some (path, rest) \<Rightarrow> Ref (take (length s - length rest) s) path # tokenize rest))"
  by pat_completeness auto
termination
proof (relation "measure length", goal_cases)
  case (3 s c cs x path rest)
  then have "match_ref s = Some (path, rest)" by simp
  then show ?case using match_ref_length by simp
qed simp_all

declare tokenize.simps [simp del]

fun segment_text :: "segment \<Rightarrow> string" where
  "segment_text (Lit c) = [c]"
| "segment_text (Ref t p) = t"

fun references_of :: "segment list \<Rightarrow> string list" where
  "references_of [] = []"
| "references_of (Lit c # ss) = references_of ss"
| "references_of (Ref t p # ss) = p # references_of ss"

fun covered_of :: "segment list \<Rightarrow> bool list" where
  "covered_of [] = []"
| "covered_of (Lit c # ss) = False # covered_of ss"
| "covered_of (Ref t p # ss) = replicate (length t) True @ covered_of ss"

subsection \<open>ParseTemplate\<close>

fun split_on :: "char \<Rightarrow> string \<Rightarrow> string list" where
  "split_on d [] = [[]]"
| "split_on d (c # cs) =
     (if c = d then [] # split_on d cs
      else case split_on d cs of [] \<Rightarrow> [[c]] | p # ps \<Rightarrow> (c # p) # ps)"

definition allowedResultFields :: "string list" where
  "allowedResultFields =
     [''result.summary'', ''result.artifacts'', ''result.warnings'', ''result.checks'',
      ''result.decision'', ''result.reason'', ''result.usage.inputTokensEstimated'',
      ''result.usage.outputTokensEstimated'']"

datatype TemplateError =
    UndeclaredInput string
  | NotAncestor string
  | FieldNotPublic string
  | UnsupportedReference string
  | UnsupportedExpression
  | UnmatchedClosing

definition validateReference ::
  "string \<Rightarrow> (string, InputDeclaration) gomap \<Rightarrow> string list \<Rightarrow> TemplateError + unit" where
  "validateReference path inputs anc =
     (let parts = split_on CHR ''.'' path in
      if length parts = 2 \<and> parts ! 0 = ''inputs''
      then (if map_of inputs (parts ! 1) = None then Inl (UndeclaredInput (parts ! 1)) else Inr ())
      else if 4 \<le> length parts \<and> parts ! 0 = ''nodes''
      then (if parts ! 1 \<notin> set anc then Inl (NotAncestor (parts ! 1))
            else let field = join_with ''.'' (drop 2 parts) in
              if field \<notin> set allowedResultFields then Inl (FieldNotPublic field) else Inr ())
      else Inl (UnsupportedReference path))"

fun check_delimiters :: "string \<Rightarrow> bool list \<Rightarrow> TemplateError + unit" where
  "check_delimiters (c # d # text) (k # covered) =
     (if [c, d] = ''{{'' \<and> \<not> k then Inl UnsupportedExpression
      else if [c, d] = ''}}'' \<and> \<not> k then Inl UnmatchedClosing
      else check_delimiters (d # text) covered)"
| "check_delimiters text covered = Inr ()"

record Template =
  tpl_text :: string
  tpl_references :: "string list"

definition ParseTemplate ::
  "string \<Rightarrow> (string, InputDeclaration) gomap \<Rightarrow> string list \<Rightarrow> TemplateError + Template" where
  "ParseTemplate text inputs anc =
     (let segments = tokenize text in
      case each_ok (\<lambda>path. validateReference path inputs anc) (references_of segments) of
        Inl e \<Rightarrow> Inl e
      | Inr _ \<Rightarrow> (case check_delimiters text (covered_of segments) of
          Inl e \<Rightarrow> Inl e
        | Inr _ \<Rightarrow> Inr \<lparr>tpl_text = text, tpl_references = references_of segments\<rparr>))"

subsection \<open>Rendering\<close>

text \<open>
  A value a reference can denote. \<open>RefPanic\<close> is Go's run-time panic on an index
  out of range of \<^verbatim>\<open>parts\<close>.
\<close>

datatype refvalue = RvScalar goval | RvList "string list option" | RvInt int

datatype RefError =
    RefMissing string
  | RefUnsupported string
  | RefPanic
  | RefEncode
  | RefScalar ScalarError
  | PromptTooLong

definition result_field :: "string \<Rightarrow> Result \<Rightarrow> string \<Rightarrow> RefError + refvalue" where
  "result_field path result field =
     (if field = ''result.summary''
      then (if res_summary result = '''' then Inl (RefMissing path)
            else Inr (RvScalar (GString (res_summary result))))
      else if field = ''result.artifacts'' then Inr (RvList (res_artifacts result))
      else if field = ''result.warnings'' then Inr (RvList (res_warnings result))
      else if field = ''result.checks'' then Inr (RvList (res_checks result))
      else if field = ''result.decision''
      then (if res_decision result = '''' then Inl (RefMissing path)
            else Inr (RvScalar (GString (res_decision result))))
      else if field = ''result.reason'' then Inr (RvScalar (GString (res_reason result)))
      else if field = ''result.usage.inputTokensEstimated''
      then Inr (RvInt (us_input_tokens (res_usage result)))
      else if field = ''result.usage.outputTokensEstimated''
      then Inr (RvInt (us_output_tokens (res_usage result)))
      else Inl (RefUnsupported path))"

definition referenceValue ::
  "string \<Rightarrow> (string, goval) gomap \<Rightarrow> (string, Result) gomap \<Rightarrow> RefError + refvalue" where
  "referenceValue path inputs results =
     (let parts = split_on CHR ''.'' path in
      if length parts < 2 then Inl RefPanic
      else if parts ! 0 = ''inputs''
      then (case map_of inputs (parts ! 1) of
              None \<Rightarrow> Inl (RefMissing path)
            | Some v \<Rightarrow> Inr (RvScalar v))
      else case map_of results (parts ! 1) of
          None \<Rightarrow> Inl (RefMissing path)
        | Some result \<Rightarrow> result_field path result (join_with ''.'' (drop 2 parts)))"

text \<open>
  \<^verbatim>\<open>json.Marshal\<close> of a scalar; \<open>None\<close> is its error (an invalid number literal).
  Slices and maps never get here: \<open>normalizeScalar\<close> refuses them.
\<close>

definition json_scalar :: "goval \<Rightarrow> string option" where
  "json_scalar v = (case v of
      GNil \<Rightarrow> Some ''null''
    | GString s \<Rightarrow> Some (json_string s)
    | GBool b \<Rightarrow> Some (json_bool b)
    | GNumber n \<Rightarrow> if n = '''' then Some ''0'' else if valid_number n then Some n else None
    | GInt i \<Rightarrow> Some (show_int i)
    | GFloat f \<Rightarrow> Some (json_float f)
    | GOther t \<Rightarrow> None)"

definition json_value :: "refvalue \<Rightarrow> string option" where
  "json_value v = (case v of
      RvScalar s \<Rightarrow> json_scalar s | RvList xs \<Rightarrow> Some (json_strings xs) | RvInt i \<Rightarrow> Some (show_int i))"

definition renderValue :: "refvalue \<Rightarrow> RefError + string" where
  "renderValue value = (case value of
      RvScalar (GString text) \<Rightarrow> Inr text
    | _ \<Rightarrow> (case json_value value of None \<Rightarrow> Inl RefEncode | Some data \<Rightarrow> Inr data))"

text \<open>
  \<^verbatim>\<open>ReplaceAllStringFunc\<close> with the closure's \<^verbatim>\<open>renderErr\<close>: the first error
  stops the replacement and is returned.
\<close>

fun render_segments ::
  "(string, goval) gomap \<Rightarrow> (string, Result) gomap \<Rightarrow> segment list \<Rightarrow> RefError + string" where
  "render_segments inputs results [] = Inr []"
| "render_segments inputs results (Lit c # ss) =
     (case render_segments inputs results ss of Inl e \<Rightarrow> Inl e | Inr out \<Rightarrow> Inr (c # out))"
| "render_segments inputs results (Ref t path # ss) =
     (case referenceValue path inputs results of Inl e \<Rightarrow> Inl e | Inr value \<Rightarrow>
     (case renderValue value of Inl e \<Rightarrow> Inl e | Inr text \<Rightarrow>
     (case render_segments inputs results ss of Inl e \<Rightarrow> Inl e | Inr out \<Rightarrow> Inr (text @ out))))"

definition Render ::
  "Template \<Rightarrow> (string, goval) gomap \<Rightarrow> (string, Result) gomap \<Rightarrow> RefError + string" where
  "Render t inputs results =
     (case render_segments inputs results (tokenize (tpl_text t)) of
        Inl e \<Rightarrow> Inl e
      | Inr rendered \<Rightarrow> if length rendered > MaxPromptBytes then Inl PromptTooLong else Inr rendered)"

subsection \<open>Conditions\<close>

function Evaluate :: "Condition \<Rightarrow> (string, Result) gomap \<Rightarrow> RefError + bool"
  and evaluate_all :: "Condition list \<Rightarrow> (string, Result) gomap \<Rightarrow> RefError + bool"
  and evaluate_any :: "Condition list \<Rightarrow> (string, Result) gomap \<Rightarrow> RefError + bool" where
  "Evaluate (Condition node field equals all any neg) results =
     (case neg of
        Some c \<Rightarrow> (case Evaluate c results of Inl e \<Rightarrow> Inl e | Inr v \<Rightarrow> Inr (\<not> v))
      | None \<Rightarrow> (case all of
          Some cs \<Rightarrow> evaluate_all cs results
        | None \<Rightarrow> (case any of
            Some cs \<Rightarrow> evaluate_any cs results
          | None \<Rightarrow>
             (case referenceValue (''nodes.'' @ node @ ''.'' @ field) [] results of
                Inl e \<Rightarrow> Inl e
              | Inr v \<Rightarrow> (case normalizeScalar equals of
                  Inl e \<Rightarrow> Inl (RefScalar e)
                | Inr want \<Rightarrow>
                    let left = (case json_value v of None \<Rightarrow> '''' | Some d \<Rightarrow> d);
                        right = (case json_scalar want of None \<Rightarrow> '''' | Some d \<Rightarrow> d)
                    in Inr (left = right))))))"
| "evaluate_all [] results = Inr True"
| "evaluate_all (c # cs) results =
     (case Evaluate c results of
        Inl e \<Rightarrow> Inl e
      | Inr v \<Rightarrow> if \<not> v then Inr v else evaluate_all cs results)"
| "evaluate_any [] results = Inr False"
| "evaluate_any (c # cs) results =
     (case Evaluate c results of
        Inl e \<Rightarrow> Inl e
      | Inr v \<Rightarrow> if v then Inr True else evaluate_any cs results)"
  by pat_completeness auto
termination
  by (relation "measure (\<lambda>x. case x of
        Inl (c, _) \<Rightarrow> size c
      | Inr (Inl (cs, _)) \<Rightarrow> size_list size cs
      | Inr (Inr (cs, _)) \<Rightarrow> size_list size cs)") auto

datatype ConditionError =
    CondForms | CondCompare | CondAncestor string | CondField string | CondEquals ScalarError | CondEmpty

function validateCondition :: "Condition \<Rightarrow> string list \<Rightarrow> ConditionError + unit"
  and validate_conditions :: "Condition list \<Rightarrow> string list \<Rightarrow> ConditionError + unit" where
  "validateCondition (Condition node field equals all any neg) anc =
     (let compare = node \<noteq> '''' \<or> field \<noteq> '''' \<or> equals \<noteq> GNil;
          forms = (if compare then 1 else 0) + (if all \<noteq> None then 1 else 0)
            + (if any \<noteq> None then 1 else 0) + (if neg \<noteq> None then (1 :: nat) else 0)
      in if forms \<noteq> 1 then Inl CondForms
         else if compare then
           (if node = '''' \<or> field = '''' \<or> equals = GNil then Inl CondCompare
            else if node \<notin> set anc then Inl (CondAncestor node)
            else if field \<notin> set allowedResultFields then Inl (CondField field)
            else case normalizeScalar equals of Inl e \<Rightarrow> Inl (CondEquals e) | Inr _ \<Rightarrow> Inr ())
         else (case (case any of Some cs \<Rightarrow> Some cs | None \<Rightarrow> all) of
             Some cs \<Rightarrow>
               if length cs = 0 then Inl CondEmpty else validate_conditions cs anc
           | None \<Rightarrow> (case neg of None \<Rightarrow> Inr () | Some c \<Rightarrow> validateCondition c anc)))"
| "validate_conditions [] anc = Inr ()"
| "validate_conditions (c # cs) anc =
     (case validateCondition c anc of Inl e \<Rightarrow> Inl e | Inr _ \<Rightarrow> validate_conditions cs anc)"
  by pat_completeness auto
termination
  by (relation "measure (\<lambda>x. case x of
        Inl (c, _) \<Rightarrow> size c
      | Inr (cs, _) \<Rightarrow> size_list size cs)") (auto split: option.splits)

subsection \<open>Accepted templates\<close>

lemma split_on_append: "d \<notin> set xs \<Longrightarrow> split_on d (xs @ d # ys) = xs # split_on d ys"
  by (induction xs) auto

lemma split_on_single: "d \<notin> set xs \<Longrightarrow> split_on d xs = [xs]"
  by (induction xs) auto

lemma split_on_not_Nil [simp]: "split_on d s \<noteq> []"
  by (induction s) (auto split: list.splits)

lemma validateReference_ok:
  assumes "validateReference path decls anc = Inr ()"
  shows "(\<exists>x. split_on CHR ''.'' path = [''inputs'', x] \<and> map_of decls x \<noteq> None)
     \<or> (\<exists>n fs. split_on CHR ''.'' path = ''nodes'' # n # fs \<and> n \<in> set anc
          \<and> join_with ''.'' fs \<in> set allowedResultFields)"
proof -
  obtain p ps where s: "split_on CHR ''.'' path = p # ps" by (metis neq_Nil_conv split_on_not_Nil)
  show ?thesis
    using assms by (cases ps) (auto simp: s validateReference_def Let_def split: if_splits)
qed

text \<open>
  The field of a result is there: the node has a result, and a summary or a decision that
  is asked for is not empty. An agent's result has a summary and no decision, that of an
  approval a decision and no summary; every other field is always there.
\<close>

definition has_field :: "Result \<Rightarrow> string \<Rightarrow> bool" where
  "has_field r f \<longleftrightarrow> (f = ''result.summary'' \<longrightarrow> res_summary r \<noteq> []) \<and> (f = ''result.decision'' \<longrightarrow> res_decision r \<noteq> [])"

definition field_present :: "(string, Result) gomap \<Rightarrow> string \<Rightarrow> string \<Rightarrow> bool" where
  "field_present results n f \<longleftrightarrow> (case map_of results n of None \<Rightarrow> False | Some r \<Rightarrow> has_field r f)"

text \<open>A reference has a value: an input that is given, or a field that is there.\<close>

definition reference_present :: "(string, goval) gomap \<Rightarrow> (string, Result) gomap \<Rightarrow> string \<Rightarrow> bool" where
  "reference_present inputs results path =
     (case split_on CHR ''.'' path of
        p # n # fs \<Rightarrow> if p = ''inputs'' then map_of inputs n \<noteq> None else field_present results n (join_with ''.'' fs)
      | _ \<Rightarrow> False)"

lemma allowed_field:
  assumes "field \<in> set allowedResultFields"
  shows "(\<exists>v. result_field path r field = Inr v \<and> json_value v \<noteq> None) \<or> result_field path r field = Inl (RefMissing path)"
    "has_field r field \<Longrightarrow> \<exists>v. result_field path r field = Inr v \<and> json_value v \<noteq> None"
    "\<not> has_field r field \<Longrightarrow> result_field path r field = Inl (RefMissing path)"
  using assms
  by (auto simp: allowedResultFields_def result_field_def json_value_def json_scalar_def has_field_def)

lemma referenceValue_input:
  "split_on CHR ''.'' path = [''inputs'', x] \<Longrightarrow> referenceValue path inputs results =
     (case map_of inputs x of None \<Rightarrow> Inl (RefMissing path) | Some v \<Rightarrow> Inr (RvScalar v))"
  by (simp add: referenceValue_def)

lemma drop_two: "drop 2 (x # y # zs) = zs"
  by (simp only: numeral_2_eq_2 drop_Suc_Cons drop_0)

lemma referenceValue_node:
  "split_on CHR ''.'' path = ''nodes'' # n # fs \<Longrightarrow> referenceValue path inputs results =
     (case map_of results n of None \<Rightarrow> Inl (RefMissing path)
      | Some r \<Rightarrow> result_field path r (join_with ''.'' fs))"
  by (cases "map_of results n") (simp_all add: referenceValue_def drop_two)

lemma referenceValue_cases:
  assumes "validateReference path decls anc = Inr ()"
  shows "if reference_present inputs results path
     then \<exists>v. referenceValue path inputs results = Inr v
       \<and> (json_value v \<noteq> None \<or> (\<exists>x s. v = RvScalar s \<and> map_of inputs x = Some s \<and> json_scalar s = None))
     else referenceValue path inputs results = Inl (RefMissing path)"
  using validateReference_ok [OF assms]
proof (elim disjE exE conjE)
  fix x assume "split_on CHR ''.'' path = [''inputs'', x]"
  then show ?thesis
    by (cases "map_of inputs x") (auto simp: referenceValue_input reference_present_def json_value_def)
next
  fix n fs
  assume s: "split_on CHR ''.'' path = ''nodes'' # n # fs" and f: "join_with ''.'' fs \<in> set allowedResultFields"
  show ?thesis
  proof (cases "map_of results n")
    case None
    then show ?thesis using s by (simp add: referenceValue_node reference_present_def field_present_def)
  next
    case (Some r)
    then show ?thesis
      using s allowed_field(2,3) [OF f, of r path]
      by (cases "has_field r (join_with ''.'' fs)") (auto simp: referenceValue_node reference_present_def field_present_def)
  qed
qed

lemma renderValue_defined: "json_value v \<noteq> None \<Longrightarrow> \<exists>s. renderValue v = Inr s"
  by (auto simp: renderValue_def split: refvalue.splits goval.splits option.splits)

lemma renderValue_errors: "renderValue v = Inl e \<Longrightarrow> e = RefEncode \<and> json_value v = None"
  by (auto simp: renderValue_def split: refvalue.splits goval.splits option.splits)

lemma render_segments_errors:
  "\<forall>p \<in> set (references_of ss). validateReference p decls anc = Inr () \<Longrightarrow>
   render_segments inputs results ss = Inl e \<Longrightarrow>
   (e = RefEncode \<and> (\<exists>x v. map_of inputs x = Some v \<and> json_scalar v = None))
   \<or> (\<exists>p \<in> set (references_of ss). e = RefMissing p \<and> \<not> reference_present inputs results p)"
proof (induction inputs results ss rule: render_segments.induct)
  case (3 inputs results t path ss)
  have "validateReference path decls anc = Inr ()" using "3.prems"(1) by simp
  note path = referenceValue_cases [OF this, of inputs results]
  show ?case
  proof (cases "referenceValue path inputs results")
    case (Inl e')
    then show ?thesis using "3.prems"(2) path by (auto split: if_splits)
  next
    case (Inr v)
    with path have v: "json_value v \<noteq> None \<or> (\<exists>x s. v = RvScalar s \<and> map_of inputs x = Some s \<and> json_scalar s = None)"
      by (auto split: if_splits)
    show ?thesis
    proof (cases "renderValue v")
      case (Inl e')
      then show ?thesis using "3.prems"(2) Inr v renderValue_errors [OF Inl] by auto
    next
      case rendered: (Inr out)
      then show ?thesis using "3.IH" [OF Inr rendered] "3.prems" Inr by (auto split: sum.splits)
    qed
  qed
qed (auto split: sum.splits)

lemma ParseTemplate_ok:
  "ParseTemplate text decls anc = Inr t \<Longrightarrow>
     tpl_text t = text \<and> tpl_references t = references_of (tokenize text)
     \<and> (\<forall>p \<in> set (references_of (tokenize text)). validateReference p decls anc = Inr ())"
  by (auto simp: ParseTemplate_def Let_def split: sum.splits)

text \<open>The segments are exactly the text, and a template is accepted only if no delimiter is left over.\<close>

lemma match_ident_parts: "match_ident s = Some (i, r) \<Longrightarrow> s = i @ r"
  by (auto simp: match_ident_def split: list.splits if_splits)

lemma suffix_dropWhile: "\<exists>xs. s = xs @ dropWhile P s"
  by (metis takeWhile_dropWhile_id)

lemma match_more_suffix: "\<exists>xs. s = xs @ snd (match_more s)"
proof (induction s rule: match_more.induct)
  case (1 s)
  show ?case
  proof (cases "\<exists>cs i r. s = CHR ''.'' # cs \<and> match_ident cs = Some (i, r)")
    case True
    then obtain cs i r where s: "s = CHR ''.'' # cs" "match_ident cs = Some (i, r)" by blast
    from 1 [OF s(1) refl s(2)] obtain xs where "r = xs @ snd (match_more r)" by auto
    then have "s = (CHR ''.'' # i @ xs) @ snd (match_more r)"
      using s match_ident_parts [OF s(2)] by simp
    moreover have "snd (match_more s) = snd (match_more r)"
      using s by (subst match_more.simps) (simp split: prod.splits)
    ultimately show ?thesis by metis
  next
    case False
    then have "snd (match_more s) = s"
      by (subst match_more.simps) (auto split: list.splits option.splits)
    then show ?thesis by (metis append_Nil)
  qed
qed

lemma match_ref_suffix: "match_ref s = Some (path, rest) \<Longrightarrow> \<exists>xs. s = xs @ rest"
proof -
  assume m: "match_ref s = Some (path, rest)"
  then obtain i r where i: "match_ident (dropWhile re_space (drop 2 s)) = Some (i, r)"
    and rest: "rest = drop 2 (dropWhile re_space (snd (match_more r)))"
    by (auto simp: match_ref_def Let_def split: if_splits option.splits prod.splits)
  have "\<exists>xs. s = xs @ dropWhile re_space (drop 2 s)"
    using suffix_dropWhile by (metis append.assoc append_take_drop_id)
  moreover have "\<exists>xs. dropWhile re_space (drop 2 s) = xs @ r"
    using match_ident_parts [OF i] by blast
  moreover have "\<exists>xs. r = xs @ rest"
    using match_more_suffix [of r] suffix_dropWhile unfolding rest
    by (metis append.assoc append_take_drop_id)
  ultimately show ?thesis by (metis append.assoc)
qed

lemma tokenize_text: "concat (map segment_text (tokenize s)) = s"
proof (induction s rule: tokenize.induct)
  case (1 s)
  show ?case
  proof (cases s)
    case Nil
    then show ?thesis by (simp add: tokenize.simps)
  next
    case (Cons c cs)
    show ?thesis
    proof (cases "match_ref s")
      case None
      with 1 Cons show ?thesis by (subst tokenize.simps) simp
    next
      case (Some m)
      obtain path rest where m: "m = (path, rest)" by (cases m)
      then obtain xs where "s = xs @ rest" using match_ref_suffix Some by blast
      then have "take (length s - length rest) s @ rest = s" by simp
      moreover have "concat (map segment_text (tokenize rest)) = rest"
        using 1(2) [OF Cons Some m [symmetric]] .
      ultimately show ?thesis using Cons Some m by (subst tokenize.simps) simp
    qed
  qed
qed

lemma covered_length: "length (covered_of ss) = length (concat (map segment_text ss))"
  by (induction ss rule: covered_of.induct) auto

lemma check_delimiters_iff:
  "length covered = length xs \<Longrightarrow>
   check_delimiters xs covered = Inr () \<longleftrightarrow>
     (\<forall>k. Suc k < length xs \<longrightarrow> take 2 (drop k xs) \<in> {''{{'', ''}}''} \<longrightarrow> covered ! k)"
proof (induction xs covered rule: check_delimiters.induct)
  case (1 c d ts k covered)
  have split: "(\<forall>j. Suc j < length (c # d # ts) \<longrightarrow> take 2 (drop j (c # d # ts)) \<in> {''{{'', ''}}''} \<longrightarrow> (k # covered) ! j)
      \<longleftrightarrow> ([c, d] \<in> {''{{'', ''}}''} \<longrightarrow> k)
        \<and> (\<forall>j. Suc j < length (d # ts) \<longrightarrow> take 2 (drop j (d # ts)) \<in> {''{{'', ''}}''} \<longrightarrow> covered ! j)"
    (is "?L \<longleftrightarrow> ?R1 \<and> ?R2")
  proof (intro iffI conjI)
    assume ?L
    from spec [OF this, of 0] show ?R1 by (simp add: numeral_2_eq_2)
    show ?R2
    proof (intro allI impI)
      fix j
      assume "Suc j < length (d # ts)" "take 2 (drop j (d # ts)) \<in> {''{{'', ''}}''}"
      then show "covered ! j" using spec [OF \<open>?L\<close>, of "Suc j"] by simp
    qed
  next
    assume R: "?R1 \<and> ?R2"
    show ?L
    proof (intro allI impI)
      fix j
      assume j: "Suc j < length (c # d # ts)" "take 2 (drop j (c # d # ts)) \<in> {''{{'', ''}}''}"
      then show "(k # covered) ! j"
        using R by (cases j) (auto simp: numeral_2_eq_2)
    qed
  qed
  show ?case unfolding split using 1 by auto
qed auto

subsection \<open>Accepted conditions\<close>

lemma join_split: "join_with [d] (split_on d s) = s"
proof (induction s)
  case Nil
  then show ?case by simp
next
  case (Cons c cs)
  obtain p ps where s: "split_on d cs = p # ps" by (metis neq_Nil_conv split_on_not_Nil)
  have "join_with [d] ((c # p) # ps) = c # join_with [d] (p # ps)" by (cases ps) simp_all
  then show ?case using Cons s by simp
qed

lemma referenceValue_condition:
  assumes "CHR ''.'' \<notin> set n"
  shows "referenceValue (''nodes.'' @ n @ ''.'' @ f) inputs results =
     (case map_of results n of None \<Rightarrow> Inl (RefMissing (''nodes.'' @ n @ ''.'' @ f))
      | Some r \<Rightarrow> result_field (''nodes.'' @ n @ ''.'' @ f) r f)"
proof -
  have "split_on CHR ''.'' (''nodes'' @ CHR ''.'' # (n @ CHR ''.'' # f)) = ''nodes'' # n # split_on CHR ''.'' f"
    using assms by (subst split_on_append) (simp_all add: split_on_append)
  then have s: "split_on CHR ''.'' (''nodes.'' @ n @ ''.'' @ f) = ''nodes'' # n # split_on CHR ''.'' f"
    by simp
  show ?thesis by (simp only: referenceValue_node [OF s] join_split)
qed

definition dot_free :: "string list \<Rightarrow> bool" where
  "dot_free xs \<longleftrightarrow> (\<forall>x \<in> set xs. CHR ''.'' \<notin> set x)"

text \<open>The results a condition looks at, field by field.\<close>

lemma condition_size: "c \<in> set cs \<Longrightarrow> size c \<le> size_list size cs"
  for c :: Condition
  by (erule size_list_estimation') (rule order_refl)

function condition_reads :: "Condition \<Rightarrow> (string \<times> string) list" where
  "condition_reads (Condition node field equals all any neg) =
     (case neg of Some c \<Rightarrow> condition_reads c | None \<Rightarrow>
      (case all of Some cs \<Rightarrow> concat (map condition_reads cs) | None \<Rightarrow>
       (case any of Some cs \<Rightarrow> concat (map condition_reads cs) | None \<Rightarrow> [(node, field)])))"
  by pat_completeness auto
termination
  by (relation "measure size") (auto dest: condition_size)

definition missing_field :: "string \<times> string \<Rightarrow> RefError" where
  "missing_field nf = RefMissing (''nodes.'' @ fst nf @ ''.'' @ snd nf)"

definition same_results :: "string list \<Rightarrow> (string, Result) gomap \<Rightarrow> (string, Result) gomap \<Rightarrow> bool" where
  "same_results anc results results' \<longleftrightarrow> (\<forall>a \<in> set anc. map_of results a = map_of results' a)"

lemma validateCondition_cases:
  assumes "validateCondition (Condition node field equals all any neg) anc = Inr ()"
  obtains
    (Compare) "all = None" "any = None" "neg = None" "node \<in> set anc" "field \<in> set allowedResultFields"
      "\<exists>w. normalizeScalar equals = Inr w"
  | (All) cs where "all = Some cs" "any = None" "neg = None" "validate_conditions cs anc = Inr ()"
  | (Any) cs where "all = None" "any = Some cs" "neg = None" "validate_conditions cs anc = Inr ()"
  | (Not) c where "all = None" "any = None" "neg = Some c" "validateCondition c anc = Inr ()"
  using assms
  by (cases all; cases any; cases neg) (auto simp: Let_def split: if_splits sum.splits)

lemma Evaluate_compare:
  assumes "CHR ''.'' \<notin> set node" "field \<in> set allowedResultFields" "normalizeScalar equals = Inr w"
  shows "Evaluate (Condition node field equals None None None) results = Inl e \<Longrightarrow>
      e = missing_field (node, field) \<and> \<not> field_present results node field"
    "map_of results node = map_of results' node \<Longrightarrow>
       Evaluate (Condition node field equals None None None) results
         = Evaluate (Condition node field equals None None None) results'"
proof -
  let ?path = "''nodes.'' @ node @ ''.'' @ field"
  have e: "Evaluate (Condition node field equals None None None) R =
      (case (case map_of R node of None \<Rightarrow> Inl (RefMissing ?path) | Some r \<Rightarrow> result_field ?path r field) of
         Inl e \<Rightarrow> Inl e
       | Inr v \<Rightarrow> Inr ((case json_value v of None \<Rightarrow> [] | Some d \<Rightarrow> d) = (case json_scalar w of None \<Rightarrow> [] | Some d \<Rightarrow> d)))"
    for R
    by (simp only: Evaluate.simps option.case referenceValue_condition [OF assms(1)] assms(3) sum.case Let_def)
  note f = allowed_field(2,3) [OF assms(2), where path = ?path]
  show "e = missing_field (node, field) \<and> \<not> field_present results node field"
    if "Evaluate (Condition node field equals None None None) results = Inl e"
  proof (cases "map_of results node")
    case None
    then show ?thesis using that unfolding e by (simp add: missing_field_def field_present_def)
  next
    case (Some r)
    then show ?thesis
      using that f [of r] unfolding e
      by (cases "has_field r field") (auto simp: missing_field_def field_present_def)
  qed
  show "Evaluate (Condition node field equals None None None) results
         = Evaluate (Condition node field equals None None None) results'"
    if "map_of results node = map_of results' node"
    unfolding e using that by simp
qed

lemma Evaluate_forms:
  "Evaluate (Condition node field equals (Some cs) any None) results = evaluate_all cs results"
  "Evaluate (Condition node field equals None (Some cs) None) results = evaluate_any cs results"
  "Evaluate (Condition node field equals all any (Some c)) results =
     (case Evaluate c results of Inl e \<Rightarrow> Inl e | Inr v \<Rightarrow> Inr (\<not> v))"
  by (simp_all only: Evaluate.simps option.case)

text \<open>An evaluation fails only for a field that is not there, and depends on the ancestors only.\<close>

definition evaluates ::
  "string list \<Rightarrow> (string \<times> string) list \<Rightarrow> (string, Result) gomap \<Rightarrow> (string, Result) gomap \<Rightarrow>
     ((string, Result) gomap \<Rightarrow> RefError + bool) \<Rightarrow> bool"
where
  "evaluates anc rs results results' ev \<longleftrightarrow>
     (\<forall>e. ev results = Inl e \<longrightarrow>
        (\<exists>nf \<in> set rs. e = missing_field nf \<and> \<not> field_present results (fst nf) (snd nf)))
     \<and> (same_results anc results results' \<longrightarrow> ev results = ev results')"

lemma evaluates_not:
  "evaluates anc rs results results' ev \<Longrightarrow>
   evaluates anc rs results results' (\<lambda>R. case ev R of Inl e \<Rightarrow> Inl e | Inr v \<Rightarrow> Inr (\<not> v))"
  by (auto simp: evaluates_def split: sum.splits)

lemma evaluates_seq:
  "evaluates anc rs results results' ev \<Longrightarrow> evaluates anc rs' results results' ev' \<Longrightarrow>
   evaluates anc (rs @ rs') results results'
     (\<lambda>R. case ev R of Inl e \<Rightarrow> Inl e | Inr v \<Rightarrow> if f v then Inr (g v) else ev' R)"
  unfolding evaluates_def by (cases "ev results"; cases "ev results'") auto

lemma evaluates_const: "evaluates anc rs results results' (\<lambda>R. Inr b)"
  by (simp add: evaluates_def)

lemma evaluates_group:
  "(\<And>c. c \<in> set cs \<Longrightarrow> validateCondition c anc = Inr () \<Longrightarrow> evaluates anc (condition_reads c) results results' (Evaluate c)) \<Longrightarrow>
   validate_conditions cs anc = Inr () \<Longrightarrow>
   evaluates anc (concat (map condition_reads cs)) results results' (evaluate_all cs)
     \<and> evaluates anc (concat (map condition_reads cs)) results results' (evaluate_any cs)"
proof (induction cs)
  case Nil
  then show ?case by (simp add: evaluates_const)
next
  case (Cons c cs)
  then have v: "validateCondition c anc = Inr ()" "validate_conditions cs anc = Inr ()"
    by (auto split: sum.splits)
  have c: "evaluates anc (condition_reads c) results results' (Evaluate c)" using Cons.prems(1) v(1) by simp
  have cs: "evaluates anc (concat (map condition_reads cs)) results results' (evaluate_all cs)"
    "evaluates anc (concat (map condition_reads cs)) results results' (evaluate_any cs)"
    using Cons.IH [OF Cons.prems(1) v(2)] by auto
  show ?case
    using evaluates_seq [OF c cs(1), where f = "\<lambda>v. \<not> v" and g = "\<lambda>v. v"]
      evaluates_seq [OF c cs(2), where f = "\<lambda>v. v" and g = "\<lambda>v. True"]
    by simp
qed

lemma Evaluate_validated:
  assumes "dot_free anc"
  shows "validateCondition c anc = Inr () \<Longrightarrow> evaluates anc (condition_reads c) results results' (Evaluate c)"
proof (induction c)
  case (Condition node field equals all any neg)
  from Condition.prems show ?case
  proof (cases rule: validateCondition_cases)
    case Compare
    then obtain w where w: "normalizeScalar equals = Inr w" by blast
    have "CHR ''.'' \<notin> set node" using Compare assms by (auto simp: dot_free_def)
    note ev = Evaluate_compare [OF this Compare(5) w]
    show ?thesis
      unfolding Compare(1-3) evaluates_def same_results_def
    proof (intro conjI allI impI)
      fix e assume "Evaluate (Condition node field equals None None None) results = Inl e"
      from ev(1) [OF this]
      show "\<exists>nf \<in> set (condition_reads (Condition node field equals None None None)).
          e = missing_field nf \<and> \<not> field_present results (fst nf) (snd nf)"
        by simp
    next
      assume "\<forall>a \<in> set anc. map_of results a = map_of results' a"
      with Compare(4) show "Evaluate (Condition node field equals None None None) results
          = Evaluate (Condition node field equals None None None) results'"
        by (intro ev(2)) blast
    qed
  next
    case (All cs)
    have "evaluates anc (concat (map condition_reads cs)) results results' (evaluate_all cs)"
      using evaluates_group [OF _ All(4)] Condition.IH(1) [of cs] All(1) by simp
    then show ?thesis using All(1,3) by (simp only: Evaluate_forms condition_reads.simps option.case)
  next
    case (Any cs)
    have "evaluates anc (concat (map condition_reads cs)) results results' (evaluate_any cs)"
      using evaluates_group [OF _ Any(4)] Condition.IH(2) [of cs] Any(2) by simp
    then show ?thesis using Any(1-3) by (simp only: Evaluate_forms condition_reads.simps option.case)
  next
    case (Not c)
    have "evaluates anc (condition_reads c) results results' (Evaluate c)"
      using Condition.IH(3) [of c] Not by simp
    from evaluates_not [OF this] show ?thesis using Not by (simp only: Evaluate_forms condition_reads.simps option.case)
  qed
qed

lemma reads_validated:
  "validateCondition c anc = Inr () \<Longrightarrow> set (condition_reads c) \<subseteq> set anc \<times> set allowedResultFields"
proof (induction c)
  case (Condition node field equals all any neg)
  have group: "validate_conditions cs anc = Inr () \<Longrightarrow> \<forall>c \<in> set cs. validateCondition c anc = Inr ()" for cs
    by (induction cs) (auto split: sum.splits)
  from Condition.prems show ?case
  proof (cases rule: validateCondition_cases)
    case Compare
    then show ?thesis by simp
  next
    case (All cs)
    then show ?thesis using group [OF All(4)] Condition.IH(1) [of cs] by fastforce
  next
    case (Any cs)
    then show ?thesis using group [OF Any(4)] Condition.IH(2) [of cs] by fastforce
  next
    case (Not c)
    then show ?thesis using Condition.IH(3) [of c] by simp
  qed
qed

end
