(* ===== verification/Workflow_Validate.thy ===== *)
theory Workflow_Validate
  imports Workflow_Template
begin

section \<open>Validation and normalisation of documents (internal/workflow/validate.go, parse.go)\<close>

text \<open>
  \<open>Validate\<close> is the gate every document passes before a run is created;
  \<open>normalizeDocument\<close> rewrites the deprecated fields before it. Decoding the
  file (JSON, YAML) is not modelled: a document is what the decoder returns.
\<close>

subsection \<open>Paths\<close>

text \<open>
  \<^verbatim>\<open>filepath.Clean\<close> on a slash-separated system, by the rules of its
  documentation: empty and \<^verbatim>\<open>.\<close> elements go, \<^verbatim>\<open>..\<close> removes the element before
  it if there is one, and at the root it goes too. The stack holds the elements
  kept so far, last first.
\<close>

fun clean_parts :: "bool \<Rightarrow> string list \<Rightarrow> string list \<Rightarrow> string list" where
  "clean_parts rooted out [] = rev out"
| "clean_parts rooted out (p # ps) =
     (if p = '''' \<or> p = ''.'' then clean_parts rooted out ps
      else if p = ''..'' then
        (case out of
           [] \<Rightarrow> if rooted then clean_parts rooted [] ps else clean_parts rooted [''..''] ps
         | q # qs \<Rightarrow> if q = ''..'' then clean_parts rooted (''..'' # out) ps
             else clean_parts rooted qs ps)
      else clean_parts rooted (p # out) ps)"

definition path_is_abs :: "string \<Rightarrow> bool" where
  "path_is_abs s = (case s of c # cs \<Rightarrow> c = CHR ''/'' | [] \<Rightarrow> False)"

definition path_clean :: "string \<Rightarrow> string" where
  "path_clean s =
     (let parts = clean_parts (path_is_abs s) [] (split_on CHR ''/'' s)
      in if path_is_abs s then CHR ''/'' # join_with ''/'' parts
         else if parts = [] then ''.'' else join_with ''/'' parts)"

definition has_prefix :: "string \<Rightarrow> string \<Rightarrow> bool" where
  "has_prefix s p \<longleftrightarrow> take (length p) s = p"

fun contains_sub :: "string \<Rightarrow> string \<Rightarrow> bool" where
  "contains_sub [] p = (p = [])"
| "contains_sub (c # cs) p = (has_prefix (c # cs) p \<or> contains_sub cs p)"

subsection \<open>Context policies\<close>

datatype WorkflowError =
    WfVersion string
  | WfName
  | WfContextVersion
  | WfConcurrency
  | WfNoNodes
  | WfAgent AgentError
  | WfDefaultRouting ContractError
  | WfNodeContextVersion string
  | WfNodeID string
  | WfMissingDependency string string
  | WfSelfDependency string
  | WfRepeatedDependency string string
  | WfUnsafePath string string
  | WfRepeatedPath string string
  | WfContextDependency string string
  | WfRepeatedContextDependency string string
  | WfTaskRequired string
  | WfAgentPrompt string
  | WfNodeAgent AgentError
  | WfNodeRouting string ContractError
  | WfPromptRequired string
  | WfAgentOnlyFields string
  | WfNodeType string string
  | WfEmptySkill string
  | WfCycle
  | WfCondition string ConditionError
  | WfTemplate string TemplateError
  | WfBindingVersion
  | WfBindingNode string
  | WfBindingCount string
  | WfBindingID string
  | WfBindingRepeated string string
  | WfBindingReason string
  | WfInputName string
  | WfInputDefault string ScalarError
  | WfInputs InputError

definition unsafe_path :: "string \<Rightarrow> bool" where
  "unsafe_path relative \<longleftrightarrow>
     blank relative \<or> path_is_abs relative \<or> path_clean relative \<noteq> relative \<or> relative = ''.''
     \<or> has_prefix relative ''../'' \<or> contains_sub relative ''/../''"

definition validateContextPolicy :: "Document \<Rightarrow> string \<Rightarrow> ContextPolicy \<Rightarrow> WorkflowError + unit" where
  "validateContextPolicy doc nodeID policy =
     (case each_unique
         (\<lambda>relative. if unsafe_path relative then Some (WfUnsafePath nodeID relative) else None)
         (\<lambda>relative. relative) (\<lambda>relative. WfRepeatedPath nodeID relative)
         [] (cp_project_instructions policy) of
        Inl e \<Rightarrow> Inl e
      | Inr _ \<Rightarrow>
        each_unique
          (\<lambda>dependency. if dependency \<notin> set (ancestors doc nodeID)
             then Some (WfContextDependency nodeID dependency) else None)
          (\<lambda>dependency. dependency) (\<lambda>dependency. WfRepeatedContextDependency nodeID dependency)
          [] (cp_dependencies policy))"

subsection \<open>Validate\<close>

text \<open>\<^verbatim>\<open>nodeIDPattern = ^[A-Za-z][A-Za-z0-9_-]{0,63}$\<close>.\<close>

definition nodeIDPattern :: "string \<Rightarrow> bool" where
  "nodeIDPattern s = (case s of
      [] \<Rightarrow> False | c # cs \<Rightarrow> is_alpha c \<and> length cs \<le> 63 \<and> list_all ident_char cs)"

fun check_dependencies ::
  "Document \<Rightarrow> string \<Rightarrow> string list \<Rightarrow> string list \<Rightarrow> WorkflowError + unit" where
  "check_dependencies doc i seen [] = Inr ()"
| "check_dependencies doc i seen (dependency # ds) =
     (if map_of (doc_nodes doc) dependency = None then Inl (WfMissingDependency i dependency)
      else if dependency = i then Inl (WfSelfDependency i)
      else if dependency \<in> set seen then Inl (WfRepeatedDependency i dependency)
      else check_dependencies doc i (dependency # seen) ds)"

definition check_node :: "Document \<Rightarrow> string \<times> Node \<Rightarrow> WorkflowError + unit" where
  "check_node doc entry = (case entry of (i, node) \<Rightarrow>
     if doc_api_version doc \<noteq> ContextPolicyAPIVersion \<and> n_context node \<noteq> None
     then Inl (WfNodeContextVersion i)
     else if \<not> nodeIDPattern i then Inl (WfNodeID i)
     else case check_dependencies doc i [] (n_depends_on node) of Inl e \<Rightarrow> Inl e | Inr _ \<Rightarrow>
     (case validateContextPolicy doc i (EffectiveContextPolicy doc node) of Inl e \<Rightarrow> Inl e | Inr _ \<Rightarrow>
     (case (if n_type node = ''agent'' then
              (if blank (n_task node) then Inl (WfTaskRequired i)
               else if n_prompt node \<noteq> '''' then Inl (WfAgentPrompt i)
               else case ResolveAgent (doc_defaults doc) node of Inl e \<Rightarrow> Inl (WfNodeAgent e) | Inr _ \<Rightarrow>
               (case as_routing (n_agent node) of
                  None \<Rightarrow> Inr ()
                | Some r \<Rightarrow> wrap_err (WfNodeRouting i) (ValidateRequirement r)))
            else if n_type node = ''approval'' then
              (if blank (n_prompt node) then Inl (WfPromptRequired i)
               else if n_task node \<noteq> '''' \<or> as_driver (n_agent node) \<noteq> '''' \<or> as_target (n_agent node) \<noteq> ''''
                  \<or> as_routing (n_agent node) \<noteq> None \<or> n_tool node \<noteq> '''' \<or> n_runtime node \<noteq> ''''
                  \<or> 0 < length (n_required_skills node)
               then Inl (WfAgentOnlyFields i) else Inr ())
            else Inl (WfNodeType i (n_type node))) of
        Inl e \<Rightarrow> Inl e
      | Inr _ \<Rightarrow> each_ok (\<lambda>skill. if blank skill then Inl (WfEmptySkill i) else Inr ())
          (n_required_skills node))))"

definition check_texts :: "Document \<Rightarrow> string \<times> Node \<Rightarrow> WorkflowError + unit" where
  "check_texts doc entry = (case entry of (i, node) \<Rightarrow>
     case (case n_when node of
             None \<Rightarrow> Inr ()
           | Some c \<Rightarrow> wrap_err (WfCondition i) (validateCondition c (ancestors doc i))) of
       Inl e \<Rightarrow> Inl e
     | Inr _ \<Rightarrow>
       let template = (if n_type node = ''approval'' then n_prompt node else n_task node)
       in case ParseTemplate template (doc_inputs doc) (ancestors doc i) of
            Inl e \<Rightarrow> Inl (WfTemplate i e)
          | Inr _ \<Rightarrow> Inr ())"

definition known_version :: "string \<Rightarrow> bool" where
  "known_version v \<longleftrightarrow> v = APIVersion \<or> v = ContextPolicyAPIVersion \<or> v = LegacyAPIVersion"

definition Validate :: "Document \<Rightarrow> WorkflowError + string list" where
  "Validate doc =
     (if \<not> known_version (doc_api_version doc) then Inl (WfVersion (doc_api_version doc))
      else if blank (doc_name doc) then Inl WfName
      else if doc_api_version doc \<noteq> ContextPolicyAPIVersion \<and> doc_context doc \<noteq> None
      then Inl WfContextVersion
      else if doc_max_concurrency doc < 1 \<or> doc_max_concurrency doc > MaxAllowedConcurrency
      then Inl WfConcurrency
      else if length (doc_nodes doc) = 0 then Inl WfNoNodes
      else case ResolveAgent (doc_defaults doc) empty_node of Inl e \<Rightarrow> Inl (WfAgent e) | Inr _ \<Rightarrow>
      (case (case as_routing (df_agent (doc_defaults doc)) of
               None \<Rightarrow> Inr ()
             | Some r \<Rightarrow> wrap_err WfDefaultRouting (ValidateRequirement r)) of
         Inl e \<Rightarrow> Inl e
       | Inr _ \<Rightarrow>
      (case each_ok (check_node doc) (doc_nodes doc) of Inl e \<Rightarrow> Inl e | Inr _ \<Rightarrow>
      (case TopologicalOrder doc of
         None \<Rightarrow> Inl WfCycle
       | Some order \<Rightarrow>
         (case each_ok (check_texts doc) (doc_nodes doc) of Inl e \<Rightarrow> Inl e | Inr _ \<Rightarrow> Inr order)))))"

subsection \<open>Context bindings\<close>

record MemoryBinding =
  mb_id :: string
  mb_reason :: string

abbreviation "maxContextMemoryBindingsPerNode \<equiv> (32 :: nat)"

fun check_selections :: "string \<Rightarrow> string list \<Rightarrow> MemoryBinding list \<Rightarrow> WorkflowError + unit" where
  "check_selections nodeID seen [] = Inr ()"
| "check_selections nodeID seen (selection # ss) =
     (if blank (mb_id selection) \<or> mb_id selection \<noteq> trim_space (mb_id selection)
         \<or> length (mb_id selection) > 128 then Inl (WfBindingID nodeID)
      else if mb_id selection \<in> set seen then Inl (WfBindingRepeated nodeID (mb_id selection))
      else if blank (mb_reason selection) \<or> mb_reason selection \<noteq> trim_space (mb_reason selection)
         \<or> length (mb_reason selection) > 1024 then Inl (WfBindingReason nodeID)
      else check_selections nodeID (mb_id selection # seen) ss)"

definition ValidateContextBindings ::
  "Document \<Rightarrow> (string, MemoryBinding list) gomap \<Rightarrow> WorkflowError + unit" where
  "ValidateContextBindings doc memoryByNode =
     (if length memoryByNode > 0 \<and> doc_api_version doc \<noteq> ContextPolicyAPIVersion
      then Inl WfBindingVersion
      else each_ok (\<lambda>(nodeID, selections).
         if map_of (doc_nodes doc) nodeID = None then Inl (WfBindingNode nodeID)
         else if length selections > maxContextMemoryBindingsPerNode then Inl (WfBindingCount nodeID)
         else check_selections nodeID [] selections) memoryByNode)"

subsection \<open>Normalisation of deprecated fields\<close>

text \<open>
  The loop over the inputs writes normalised defaults back into the map while it
  ranges over it; the loop over the nodes rewrites every node. The warnings name
  the deprecated field.
\<close>

definition normalize_input :: "string \<Rightarrow> InputDeclaration \<Rightarrow> WorkflowError + InputDeclaration" where
  "normalize_input name decl =
     (if \<not> nodeIDPattern name then Inl (WfInputName name)
      else if in_default decl \<noteq> GNil
      then (case normalizeScalar (in_default decl) of
              Inl e \<Rightarrow> Inl (WfInputDefault name e)
            | Inr v \<Rightarrow> Inr (decl\<lparr>in_default := v\<rparr>))
      else Inr decl)"

fun normalize_inputs ::
  "(string, InputDeclaration) gomap \<Rightarrow> WorkflowError + (string, InputDeclaration) gomap" where
  "normalize_inputs [] = Inr []"
| "normalize_inputs ((name, decl) # ds) =
     (case normalize_input name decl of
        Inl e \<Rightarrow> Inl e
      | Inr d \<Rightarrow> (case normalize_inputs ds of Inl e \<Rightarrow> Inl e | Inr r \<Rightarrow> Inr ((name, d) # r)))"

datatype Deprecation = DeprecatedDefaults | DeprecatedNode string

definition normalize_node :: "Defaults \<Rightarrow> string \<Rightarrow> Node \<Rightarrow> WorkflowError + (Node \<times> Deprecation list)" where
  "normalize_node dflt i node =
     (if n_tool node \<noteq> '''' \<or> n_runtime node \<noteq> ''''
      then (case ResolveAgent dflt node of
              Inl e \<Rightarrow> Inl (WfNodeAgent e)
            | Inr (driver, target) \<Rightarrow>
                Inr (node\<lparr>n_agent := \<lparr>as_driver = driver, as_target = target, as_routing = None\<rparr>,
                       n_tool := '''', n_runtime := ''''\<rparr>, [DeprecatedNode i]))
      else Inr (node, []))"

fun normalize_nodes ::
  "Defaults \<Rightarrow> (string, Node) gomap \<Rightarrow> WorkflowError + ((string, Node) gomap \<times> Deprecation list)" where
  "normalize_nodes dflt [] = Inr ([], [])"
| "normalize_nodes dflt ((i, node) # ns) =
     (case normalize_node dflt i node of
        Inl e \<Rightarrow> Inl e
      | Inr (node', w) \<Rightarrow> (case normalize_nodes dflt ns of
          Inl e \<Rightarrow> Inl e
        | Inr (ns', ws) \<Rightarrow> Inr ((i, node') # ns', w @ ws)))"

definition normalizeDocument :: "Document \<Rightarrow> WorkflowError + (Document \<times> Deprecation list)" where
  "normalizeDocument doc0 =
     (if \<not> known_version (doc_api_version doc0) then Inl (WfVersion (doc_api_version doc0))
      else let doc = (if doc_api_version doc0 = LegacyAPIVersion
                then doc0\<lparr>doc_api_version := APIVersion\<rparr> else doc0)
      in case normalize_inputs (doc_inputs doc) of Inl e \<Rightarrow> Inl e | Inr inputs \<Rightarrow>
      (let doc = doc\<lparr>doc_inputs := inputs\<rparr>; dflt = doc_defaults doc in
       case (if df_backend dflt \<noteq> '''' \<or> df_tool dflt \<noteq> '''' \<or> df_runtime dflt \<noteq> ''''
             then (case ResolveAgent dflt empty_node of
                Inl e \<Rightarrow> Inl (WfAgent e)
              | Inr (driver, target) \<Rightarrow>
                  Inr (dflt\<lparr>df_agent := \<lparr>as_driver = driver, as_target = target, as_routing = None\<rparr>,
                         df_backend := '''', df_tool := '''', df_runtime := ''''\<rparr>, [DeprecatedDefaults]))
             else Inr (dflt, [])) of
         Inl e \<Rightarrow> Inl e
       | Inr (dflt', w) \<Rightarrow>
         (case normalize_nodes dflt' (doc_nodes doc) of
            Inl e \<Rightarrow> Inl e
          | Inr (nodes, ws) \<Rightarrow> Inr (doc\<lparr>doc_defaults := dflt', doc_nodes := nodes\<rparr>, w @ ws))))"

text \<open>
  \<^verbatim>\<open>Parse\<close> after the document has been decoded.
\<close>

record Normalized =
  nz_document :: Document
  nz_inputs :: "(string, goval) gomap"
  nz_order :: "string list"
  nz_warnings :: "Deprecation list"
  nz_policy_version :: string
  nz_memory_bindings :: "(string, MemoryBinding list) gomap"

definition parse_document :: "Document \<Rightarrow> (string, goval) gomap \<Rightarrow> WorkflowError + Normalized" where
  "parse_document doc0 provided =
     (case normalizeDocument doc0 of Inl e \<Rightarrow> Inl e | Inr (doc, warnings) \<Rightarrow>
     (case Validate doc of Inl e \<Rightarrow> Inl e | Inr order \<Rightarrow>
     (case ResolveInputs doc provided of Inl e \<Rightarrow> Inl (WfInputs e) | Inr inputs \<Rightarrow>
      Inr \<lparr>nz_document = doc, nz_inputs = inputs, nz_order = order, nz_warnings = warnings,
           nz_policy_version = (if doc_api_version doc = ContextPolicyAPIVersion
              then ''context-policy/v1'' else ''context-policy/legacy''),
           nz_memory_bindings = []\<rparr>)))"

end
