(* ===== verification/Workflow_Properties.thy ===== *)
theory Workflow_Properties
  imports Workflow_Validate
begin

section \<open>Properties of the workflow component\<close>

text \<open>
  What a validated document guarantees to the scheduler: an execution order that
  respects every dependency and does not depend on Go's map iteration, conditions
  and templates that can be evaluated when the ancestors of their node have
  results, and context paths that stay below the project root but for one case.
\<close>

subsection \<open>What Validate accepts\<close>

lemma check_dependencies_iff:
  "check_dependencies doc i seen ds = Inr () \<longleftrightarrow>
     (\<forall>d \<in> set ds. map_of (doc_nodes doc) d \<noteq> None \<and> d \<noteq> i \<and> d \<notin> set seen) \<and> distinct ds"
  by (induction ds arbitrary: seen) auto

lemma Validate_iff:
  "Validate doc = Inr order \<longleftrightarrow>
     known_version (doc_api_version doc) \<and> \<not> blank (doc_name doc)
     \<and> (doc_api_version doc \<noteq> ContextPolicyAPIVersion \<longrightarrow> doc_context doc = None)
     \<and> 1 \<le> doc_max_concurrency doc \<and> doc_max_concurrency doc \<le> MaxAllowedConcurrency
     \<and> doc_nodes doc \<noteq> [] \<and> (\<exists>a. ResolveAgent (doc_defaults doc) empty_node = Inr a)
     \<and> (\<forall>r. as_routing (df_agent (doc_defaults doc)) = Some r \<longrightarrow> ValidateRequirement r = Inr ())
     \<and> (\<forall>e \<in> set (doc_nodes doc). check_node doc e = Inr ())
     \<and> TopologicalOrder doc = Some order
     \<and> (\<forall>e \<in> set (doc_nodes doc). check_texts doc e = Inr ())"
  (is "?L \<longleftrightarrow> ?R")
proof -
  have routing: "(case x of None \<Rightarrow> Inr () | Some r \<Rightarrow> wrap_err WfDefaultRouting (ValidateRequirement r)) = Inr ()
      \<longleftrightarrow> (\<forall>r. x = Some r \<longrightarrow> ValidateRequirement r = Inr ())" for x
    by (cases x) simp_all
  have order: "(case x of None \<Rightarrow> Inl WfCycle | Some ord \<Rightarrow> (case r of Inl e \<Rightarrow> Inl e | Inr _ \<Rightarrow> Inr ord)) = Inr order
      \<longleftrightarrow> x = Some order \<and> r = Inr ()" for x and r :: "WorkflowError + unit"
    by (cases x; cases r) auto
  show ?thesis
    unfolding Validate_def
    by (simp only: guard_Inr_iff check_Inr_iff order each_ok_iff) (auto simp: not_less routing)
qed

lemma Validate_node:
  assumes "Validate doc = Inr order" and "(i, n) \<in> set (doc_nodes doc)"
  shows "nodeIDPattern i" "check_dependencies doc i [] (n_depends_on n) = Inr ()"
    "\<forall>c. n_when n = Some c \<longrightarrow> validateCondition c (ancestors doc i) = Inr ()"
    "\<exists>t. ParseTemplate (if n_type n = ''approval'' then n_prompt n else n_task n)
        (doc_inputs doc) (ancestors doc i) = Inr t"
proof -
  have c: "check_node doc (i, n) = Inr ()" and t: "check_texts doc (i, n) = Inr ()"
    using assms by (auto simp: Validate_iff)
  show "nodeIDPattern i" "check_dependencies doc i [] (n_depends_on n) = Inr ()"
    using c by (auto simp: check_node_def split: if_splits sum.splits)
  show "\<forall>c. n_when n = Some c \<longrightarrow> validateCondition c (ancestors doc i) = Inr ()"
    using t by (auto simp: check_texts_def split: sum.splits)
  show "\<exists>t. ParseTemplate (if n_type n = ''approval'' then n_prompt n else n_task n)
        (doc_inputs doc) (ancestors doc i) = Inr t"
    using t by (auto simp: check_texts_def Let_def split: sum.splits)
qed

lemma ident_dot_free: "nodeIDPattern i \<Longrightarrow> CHR ''.'' \<notin> set i"
  by (fastforce simp: nodeIDPattern_def list_all_iff ident_char_def is_alpha_def is_lower_def
      is_upper_def is_digit_def split: list.splits)

lemma Validate_deps_exist:
  assumes "wf_map (doc_nodes doc)" "Validate doc = Inr order"
  shows "deps_exist doc"
  using order_exists_iff [OF assms(1)] assms(2) by (auto simp: Validate_iff)

lemma Validate_ancestors_dot_free:
  assumes "wf_map (doc_nodes doc)" "Validate doc = Inr order"
  shows "dot_free (ancestors doc i)"
  using ancestors_nodes [OF Validate_deps_exist [OF assms]] Validate_node(1) [OF assms(2)] ident_dot_free
  by (fastforce simp: dot_free_def)

subsection \<open>A sample document\<close>

definition sample_agent_node :: "string \<Rightarrow> string list \<Rightarrow> Node" where
  "sample_agent_node task ds = empty_node\<lparr>n_type := ''agent'', n_task := task, n_depends_on := ds\<rparr>"

definition sample_doc :: Document where
  "sample_doc = \<lparr>doc_api_version = ''fishyume/v1'', doc_name = ''demo'',
     doc_inputs = [(''topic'', \<lparr>in_required = True, in_default = GNil\<rparr>)],
     doc_defaults = \<lparr>df_agent = empty_agent, df_backend = '''', df_tool = '''', df_runtime = ''''\<rparr>,
     doc_max_concurrency = 2, doc_context = None,
     doc_nodes =
       [(''merge'', (sample_agent_node ''use {{nodes.a.result.summary}}'' [''b'', ''a''])
           \<lparr>n_when := Some (Condition ''b'' ''result.decision'' (GString ''go'') None None None)\<rparr>),
        (''b'', sample_agent_node ''write {{inputs.topic}}'' []),
        (''a'', sample_agent_node ''read {{inputs.topic}}'' [])]\<rparr>"

lemma sample_trims:
  "trim_space ''demo'' = ''demo''" "trim_space ''use {{nodes.a.result.summary}}'' \<noteq> []"
  "trim_space ''write {{inputs.topic}}'' \<noteq> []" "trim_space ''read {{inputs.topic}}'' \<noteq> []"
  by code_simp+

lemma sample_agents: "ResolveAgent (doc_defaults sample_doc) node = Inr ([], ''local'')"
  if "n_agent node = empty_agent" "n_tool node = []" "n_runtime node = []"
  using that by (simp add: ResolveAgent_def or_else_def sample_doc_def empty_agent_def)

lemma sample_order: "TopologicalOrder sample_doc = Some [''a'', ''b'', ''merge'']"
  by code_simp

lemma sample_texts: "list_all (\<lambda>e. check_texts sample_doc e = Inr ()) (doc_nodes sample_doc)"
  by code_simp

lemma sample_nodes: "e \<in> set (doc_nodes sample_doc) \<Longrightarrow> check_node sample_doc e = Inr ()"
proof -
  have p: "EffectiveContextPolicy sample_doc n = \<lparr>cp_project_instructions = [], cp_dependencies = []\<rparr>"
    if "n_context n = None" for n
    using that by (simp add: EffectiveContextPolicy_def sample_doc_def)
  have ids: "nodeIDPattern ''merge''" "nodeIDPattern ''a''" "nodeIDPattern ''b''" by code_simp+
  have nodes: "map_of (doc_nodes sample_doc) ''a'' \<noteq> None" "map_of (doc_nodes sample_doc) ''b'' \<noteq> None"
    by (simp_all add: sample_doc_def)
  assume "e \<in> set (doc_nodes sample_doc)"
  then have "e \<in> set [(''merge'', (sample_agent_node ''use {{nodes.a.result.summary}}'' [''b'', ''a''])
           \<lparr>n_when := Some (Condition ''b'' ''result.decision'' (GString ''go'') None None None)\<rparr>),
        (''b'', sample_agent_node ''write {{inputs.topic}}'' []),
        (''a'', sample_agent_node ''read {{inputs.topic}}'' [])]"
    by (simp add: sample_doc_def)
  then show ?thesis
    using nodes sample_trims
    by (auto simp: check_node_def ids p validateContextPolicy_def sample_agent_node_def empty_node_def
        sample_agents empty_agent_def)
qed

lemma sample_doc_valid: "Validate sample_doc = Inr [''a'', ''b'', ''merge'']"
proof -
  have "\<exists>a. ResolveAgent (doc_defaults sample_doc) empty_node = Inr a"
    by (simp add: sample_agents empty_node_def)
  moreover have "doc_api_version sample_doc = ''fishyume/v1''" "doc_name sample_doc = ''demo''"
    "doc_context sample_doc = None" "doc_max_concurrency sample_doc = 2" "doc_nodes sample_doc \<noteq> []"
    "as_routing (df_agent (doc_defaults sample_doc)) = None"
    by (simp_all add: sample_doc_def empty_agent_def)
  moreover have "\<forall>e \<in> set (doc_nodes sample_doc). check_texts sample_doc e = Inr ()"
    using sample_texts by (simp add: list_all_iff)
  ultimately show ?thesis
    using sample_nodes sample_order sample_trims by (simp add: Validate_iff known_version_def)
qed

lemma sample_doc_wf: "wf_map (doc_nodes sample_doc)"
  by (simp add: wf_map_def sample_doc_def)

subsection \<open>The execution order\<close>

text \<open>
  C6. The order of a validated document lists every node once and every node after all its
  dependencies, and at every place it has the least identifier among the nodes whose
  dependencies are already placed.
\<close>

theorem validated_order:
  assumes "wf_map (doc_nodes doc)" and "Validate doc = Inr order"
  shows "distinct order \<and> set order = fst ` set (doc_nodes doc)
     \<and> (\<forall>xs i ys. order = xs @ i # ys \<longrightarrow> set (deps doc i) \<subseteq> set xs
          \<and> (\<forall>j \<in> fst ` set (doc_nodes doc). j \<notin> set xs \<and> set (deps doc j) \<subseteq> set xs \<longrightarrow> i \<le> j))"
proof -
  have o: "TopologicalOrder doc = Some order" using assms(2) by (simp add: Validate_iff)
  then have g: "greedy doc order" by (simp add: TopologicalOrder_greedy [OF assms(1)])
  have "i \<le> j" if "order = xs @ i # ys" "j \<in> available doc (set xs)" for xs i ys j
  proof -
    have "greedy doc (xs @ [i])"
      using greedy_take [OF g, of "Suc (length xs)"] that(1) by simp
    then show ?thesis using that(2) by (simp add: greedy_snoc)
  qed
  then show ?thesis
    using order_set [OF assms(1) o] greedy_deps [OF g] by (simp add: available_def)
qed

theorem validated_order_witness:
  "distinct [''a'', ''b'', ''merge''] \<and> set (deps sample_doc ''merge'') \<subseteq> set [''a'', ''b'']"
proof -
  have "[''a'', ''b'', ''merge''] = [''a'', ''b''] @ ''merge'' # []" by simp
  then show ?thesis using validated_order [OF sample_doc_wf sample_doc_valid] by blast
qed

text \<open>
  C7. \<open>TopologicalOrder\<close> fails exactly when a dependency is missing or the dependencies
  form a cycle; on success and on failure its answer is the same for every iteration order
  of the node map.
\<close>

theorem topological_order_iff_acyclic:
  assumes "wf_map (doc_nodes doc)" and "wf_map (doc_nodes doc')"
    and "set (doc_nodes doc) = set (doc_nodes doc')"
  shows "((\<exists>order. TopologicalOrder doc = Some order) \<longleftrightarrow> deps_exist doc \<and> acyclic (edges doc))
     \<and> TopologicalOrder doc' = TopologicalOrder doc"
  using order_exists_iff [OF assms(1)] TopologicalOrder_perm [OF assms] by simp

definition cyclic_doc :: Document where
  "cyclic_doc = sample_doc\<lparr>doc_nodes :=
     [(''a'', sample_agent_node ''t'' [''b'']), (''b'', sample_agent_node ''t'' [''a''])]\<rparr>"

theorem topological_order_iff_acyclic_witness:
  "TopologicalOrder cyclic_doc = None \<and> \<not> acyclic (edges cyclic_doc)"
proof -
  have wf: "wf_map (doc_nodes cyclic_doc)" by (simp add: wf_map_def cyclic_doc_def)
  have none: "TopologicalOrder cyclic_doc = None" by code_simp
  have "deps_exist cyclic_doc"
    by (simp add: deps_exist_def cyclic_doc_def get_node_def sample_agent_node_def)
  with topological_order_iff_acyclic [OF wf wf refl] none show ?thesis by simp
qed

lemma visit_perm:
  assumes "\<And>i. get_node doc i = get_node doc' i"
  shows "visit doc pending result = visit doc' pending result"
  using assms by (induction doc pending result rule: visit.induct) simp_all

lemma ancestors_perm:
  assumes "\<And>i. get_node doc i = get_node doc' i"
  shows "ancestors doc i = ancestors doc' i"
  using visit_perm [OF assms] by (simp add: ancestors_def assms)

lemma check_dependencies_perm:
  assumes "map_of (doc_nodes doc) = map_of (doc_nodes doc')"
  shows "check_dependencies doc i seen ds = check_dependencies doc' i seen ds"
  by (induction ds arbitrary: seen) (simp_all add: assms)

text \<open>
  C8. Validation does not depend on the iteration order of the node map: a permuted map
  passes with the same order or fails too.
\<close>

theorem validate_map_order_independent:
  assumes "wf_map (doc_nodes doc)" and "wf_map ns" and "set ns = set (doc_nodes doc)"
  shows "Validate (doc\<lparr>doc_nodes := ns\<rparr>) = Inr order \<longleftrightarrow> Validate doc = Inr order"
proof -
  let ?doc = "doc\<lparr>doc_nodes := ns\<rparr>"
  have wf: "wf_map (doc_nodes ?doc)" and s: "set (doc_nodes ?doc) = set (doc_nodes doc)"
    using assms by simp_all
  note perm = map_of_perm [OF wf assms(1) s] TopologicalOrder_perm [OF wf assms(1) s]
  have anc: "ancestors ?doc i = ancestors doc i" for i
    by (rule ancestors_perm) (rule get_node_perm [OF wf assms(1) s])
  have policy: "validateContextPolicy ?doc = validateContextPolicy doc"
    unfolding validateContextPolicy_def anc ..
  have effective: "EffectiveContextPolicy ?doc = EffectiveContextPolicy doc"
    by (simp add: EffectiveContextPolicy_def fun_eq_iff)
  have fields: "doc_api_version ?doc = doc_api_version doc" "doc_defaults ?doc = doc_defaults doc"
    "doc_inputs ?doc = doc_inputs doc"
    by simp_all
  have "check_node ?doc = check_node doc"
    unfolding check_node_def policy effective check_dependencies_perm [OF perm(1)] fields ..
  moreover have "check_texts ?doc = check_texts doc"
    unfolding check_texts_def anc fields ..
  moreover have "ns = [] \<longleftrightarrow> doc_nodes doc = []" using assms(3) by (metis set_empty)
  ultimately show ?thesis using perm(2) s by (simp add: Validate_iff)
qed

theorem validate_map_order_independent_witness:
  "Validate (sample_doc\<lparr>doc_nodes := rev (doc_nodes sample_doc)\<rparr>) = Inr [''a'', ''b'', ''merge'']"
proof -
  have "wf_map (rev (doc_nodes sample_doc))" using sample_doc_wf by (simp add: wf_map_def rev_map [symmetric])
  from validate_map_order_independent [OF sample_doc_wf this] show ?thesis using sample_doc_valid by simp
qed

subsection \<open>Conditions and templates of scheduled nodes\<close>

text \<open>
  C9. When the scheduler reaches a node of a validated document, its condition evaluates to
  a boolean unless it reads a field that is not there: the node has no result, or the result
  has no summary or no decision (that of an agent has no decision, that of an approval no
  summary). Then it reports that field as missing, and there is no other error. All it reads
  is result fields of ancestors, and its value depends on the results of ancestors only.
\<close>

theorem validated_condition_evaluates:
  assumes "wf_map (doc_nodes doc)" and "Validate doc = Inr order" and "(i, n) \<in> set (doc_nodes doc)"
    and "n_when n = Some c"
  shows "(\<forall>e. Evaluate c results = Inl e \<longrightarrow>
        (\<exists>nf \<in> set (condition_reads c). e = missing_field nf \<and> \<not> field_present results (fst nf) (snd nf)))
     \<and> ((\<forall>nf \<in> set (condition_reads c). field_present results (fst nf) (snd nf)) \<longrightarrow> (\<exists>b. Evaluate c results = Inr b))
     \<and> set (condition_reads c) \<subseteq> set (ancestors doc i) \<times> set allowedResultFields
     \<and> (same_results (ancestors doc i) results results' \<longrightarrow> Evaluate c results = Evaluate c results')"
proof -
  have valid: "validateCondition c (ancestors doc i) = Inr ()"
    using Validate_node(3) [OF assms(2,3)] assms(4) by simp
  have "evaluates (ancestors doc i) (condition_reads c) results results' (Evaluate c)"
    by (rule Evaluate_validated [OF Validate_ancestors_dot_free [OF assms(1,2)] valid])
  then have "\<And>e. Evaluate c results = Inl e \<Longrightarrow>
      \<exists>nf \<in> set (condition_reads c). e = missing_field nf \<and> \<not> field_present results (fst nf) (snd nf)"
    and "same_results (ancestors doc i) results results' \<longrightarrow> Evaluate c results = Evaluate c results'"
    by (simp_all add: evaluates_def)
  moreover from this(1) have "(\<forall>nf \<in> set (condition_reads c). field_present results (fst nf) (snd nf)) \<longrightarrow>
      (\<exists>b. Evaluate c results = Inr b)"
    by (cases "Evaluate c results") blast+
  ultimately show ?thesis using reads_validated [OF valid] by blast
qed

definition sample_result :: "string \<Rightarrow> Result" where
  "sample_result d = \<lparr>res_summary = ''done'', res_artifacts = None, res_warnings = None, res_checks = None,
     res_questions = [], res_usage = \<lparr>us_input_tokens = 0, us_output_tokens = 0\<rparr>,
     res_decision = d, res_reason = ''''\<rparr>"

theorem validated_condition_evaluates_witness:
  "(\<exists>b. Evaluate (Condition ''b'' ''result.decision'' (GString ''go'') None None None)
     [(''b'', sample_result ''go'')] = Inr b)
   \<and> (\<exists>e. Evaluate (Condition ''b'' ''result.decision'' (GString ''go'') None None None)
     [(''b'', sample_result [])] = Inl e \<and> e = RefMissing ''nodes.b.result.decision'')"
proof -
  let ?c = "Condition ''b'' ''result.decision'' (GString ''go'') None None None"
  let ?n = "(sample_agent_node ''use {{nodes.a.result.summary}}'' [''b'', ''a''])\<lparr>n_when := Some ?c\<rparr>"
  have "(''merge'', ?n) \<in> set (doc_nodes sample_doc)" by (simp add: sample_doc_def)
  note ev = validated_condition_evaluates [OF sample_doc_wf sample_doc_valid this, of ?c]
  have reads: "condition_reads ?c = [(''b'', ''result.decision'')]" by simp
  have "field_present [(''b'', sample_result ''go'')] ''b'' ''result.decision''"
    by (simp add: field_present_def has_field_def sample_result_def)
  moreover have "\<not> (case Evaluate ?c [(''b'', sample_result [])] of Inl _ \<Rightarrow> False | Inr _ \<Rightarrow> True)" by code_simp
  ultimately show ?thesis
    using ev [of "[(''b'', sample_result ''go'')]"] ev [of "[(''b'', sample_result [])]"]
    by (simp add: reads missing_field_def del: Evaluate.simps split: sum.splits)
qed

text \<open>
  C10. The template of a node of a validated document renders without a run-time panic or an
  unsupported reference. It fails only if the text is too long, if a reference has no value
  (an input that is not given, a node without a result, a result without the summary or the
  decision that is asked for), which the error names, or if an input cannot be encoded. So
  where every reference has a value and every input can be encoded only the size limit is left.
\<close>

theorem validated_template_renders:
  assumes "Validate doc = Inr order" and "(i, n) \<in> set (doc_nodes doc)"
    and "template = (if n_type n = ''approval'' then n_prompt n else n_task n)"
  shows "\<exists>t. ParseTemplate template (doc_inputs doc) (ancestors doc i) = Inr t
     \<and> (\<forall>e. Render t inputs results = Inl e \<longrightarrow> e = PromptTooLong
          \<or> (\<exists>p \<in> set (tpl_references t). e = RefMissing p \<and> \<not> reference_present inputs results p)
          \<or> e = RefEncode \<and> (\<exists>x v. map_of inputs x = Some v \<and> json_scalar v = None))
     \<and> ((\<forall>p \<in> set (tpl_references t). reference_present inputs results p)
          \<and> (\<forall>x v. map_of inputs x = Some v \<longrightarrow> json_scalar v \<noteq> None) \<longrightarrow>
          (\<exists>s. Render t inputs results = (if length s > MaxPromptBytes then Inl PromptTooLong else Inr s)))"
proof -
  obtain t where t: "ParseTemplate template (doc_inputs doc) (ancestors doc i) = Inr t"
    using Validate_node(4) [OF assms(1,2)] assms(3) by blast
  then have tt: "tpl_text t = template" "tpl_references t = references_of (tokenize template)"
    and refs: "\<forall>p \<in> set (references_of (tokenize template)).
      validateReference p (doc_inputs doc) (ancestors doc i) = Inr ()"
    using ParseTemplate_ok by blast+
  note errors = render_segments_errors [OF refs, of inputs results]
  have "e = PromptTooLong \<or> (\<exists>p \<in> set (tpl_references t). e = RefMissing p \<and> \<not> reference_present inputs results p)
      \<or> e = RefEncode \<and> (\<exists>x v. map_of inputs x = Some v \<and> json_scalar v = None)"
    if "Render t inputs results = Inl e" for e
    using that errors by (auto simp: Render_def tt split: sum.splits if_splits)
  moreover have "\<exists>s. Render t inputs results = (if length s > MaxPromptBytes then Inl PromptTooLong else Inr s)"
    if "\<forall>p \<in> set (tpl_references t). reference_present inputs results p"
      and "\<forall>x v. map_of inputs x = Some v \<longrightarrow> json_scalar v \<noteq> None"
  proof (cases "render_segments inputs results (tokenize template)")
    case (Inl e)
    then have False using errors [OF Inl] that by (fastforce simp: tt)
    then show ?thesis ..
  next
    case (Inr s)
    then show ?thesis by (auto simp: Render_def tt)
  qed
  ultimately show ?thesis using t by blast
qed

theorem validated_template_renders_witness:
  "\<exists>t. ParseTemplate ''read {{inputs.topic}}'' (doc_inputs sample_doc) (ancestors sample_doc ''a'') = Inr t
     \<and> (\<exists>s. Render t [(''topic'', GString ''x'')] [] = (if length s > MaxPromptBytes then Inl PromptTooLong else Inr s))"
proof -
  have m: "(''a'', sample_agent_node ''read {{inputs.topic}}'' []) \<in> set (doc_nodes sample_doc)"
    by (simp add: sample_doc_def)
  have t: "''read {{inputs.topic}}'' =
      (if n_type (sample_agent_node ''read {{inputs.topic}}'' []) = ''approval''
       then n_prompt (sample_agent_node ''read {{inputs.topic}}'' [])
       else n_task (sample_agent_node ''read {{inputs.topic}}'' []))"
    by (simp add: sample_agent_node_def)
  obtain r where r: "ParseTemplate ''read {{inputs.topic}}'' (doc_inputs sample_doc) (ancestors sample_doc ''a'') = Inr r"
    and render: "(\<forall>p \<in> set (tpl_references r). reference_present [(''topic'', GString ''x'')] [] p)
      \<and> (\<forall>x v. map_of [(''topic'', GString ''x'')] x = Some v \<longrightarrow> json_scalar v \<noteq> None) \<longrightarrow>
      (\<exists>s. Render r [(''topic'', GString ''x'')] [] = (if length s > MaxPromptBytes then Inl PromptTooLong else Inr s))"
    using validated_template_renders [OF sample_doc_valid m t, of "[(''topic'', GString ''x'')]" "[]"] by blast
  have "references_of (tokenize ''read {{inputs.topic}}'') = [''inputs.topic'']" by code_simp
  then have "tpl_references r = [''inputs.topic'']" using ParseTemplate_ok [OF r] by simp
  moreover have "reference_present [(''topic'', GString ''x'')] [] ''inputs.topic''" by code_simp
  moreover have "\<forall>x v. map_of [(''topic'', GString ''x'')] x = Some v \<longrightarrow> json_scalar v \<noteq> None"
    by (simp add: json_scalar_def)
  ultimately show ?thesis using r render by simp
qed

text \<open>
  What \<open>ParseTemplate\<close> lets pass: the text is the sequence of its literal characters and
  references, and every opening or closing delimiter lies inside a reference.
\<close>

theorem accepted_template_has_no_stray_delimiter:
  assumes "ParseTemplate template decls anc = Inr t"
  shows "concat (map segment_text (tokenize template)) = template
     \<and> (\<forall>k. Suc k < length template \<longrightarrow> take 2 (drop k template) \<in> {''{{'', ''}}''} \<longrightarrow>
          covered_of (tokenize template) ! k)"
proof -
  have "check_delimiters template (covered_of (tokenize template)) = Inr ()"
    using assms by (auto simp: ParseTemplate_def Let_def split: sum.splits)
  moreover have "length (covered_of (tokenize template)) = length template"
    by (simp add: covered_length tokenize_text)
  ultimately show ?thesis by (simp add: check_delimiters_iff tokenize_text)
qed

theorem accepted_template_has_no_stray_delimiter_witness:
  "covered_of (tokenize ''read {{inputs.topic}}'') ! 5"
proof -
  have "ParseTemplate ''read {{inputs.topic}}'' (doc_inputs sample_doc) []
      = Inr \<lparr>tpl_text = ''read {{inputs.topic}}'', tpl_references = [''inputs.topic'']\<rparr>"
    by code_simp
  from accepted_template_has_no_stray_delimiter [OF this]
  show ?thesis by (auto dest: spec [of _ 5])
qed

subsection \<open>Number conditions on a reloaded document\<close>

text \<open>
  The run service reads the normalised document back from disk with a plain JSON decoder,
  which turns every number into a float64: \<open>pf\<close> stands for \<^verbatim>\<open>strconv.ParseFloat\<close>,
  exact on integers below 2^53.
\<close>

definition parse_float_exact :: "(string \<Rightarrow> gofloat) \<Rightarrow> bool" where
  "parse_float_exact pf \<longleftrightarrow> (\<forall>i. \<bar>i\<bar> < 2 ^ 53 \<longrightarrow> pf (show_int i) = float_of_int i)"

definition reload_scalar :: "(string \<Rightarrow> gofloat) \<Rightarrow> goval \<Rightarrow> goval" where
  "reload_scalar pf v = (case v of GNumber t \<Rightarrow> GFloat (pf t) | _ \<Rightarrow> v)"

lemma Evaluate_tokens:
  assumes "CHR ''.'' \<notin> set n" and "map_of results n = Some r" and "normalizeScalar equals = Inr w"
  shows "Evaluate (Condition n ''result.usage.inputTokensEstimated'' equals None None None) results
     = Inr (show_int (us_input_tokens (res_usage r)) = (case json_scalar w of None \<Rightarrow> [] | Some d \<Rightarrow> d))"
  by (simp only: Evaluate.simps option.case referenceValue_condition [OF assms(1)] assms(2,3) sum.case Let_def)
    (simp add: result_field_def json_value_def)

lemma show_int_not_Nil: "show_int i \<noteq> []"
  by (simp add: show_int_def)

text \<open>
  A condition comparing a token count with an integer holds, in the document as parsed,
  exactly when the count is that integer; in the document as reloaded it holds only if the
  integer is also below a million in magnitude, because a larger one is then compared in
  exponent notation.
\<close>

theorem number_condition_lost_on_reload:
  assumes "parse_float_exact pf" and "\<bar>i\<bar> < 2 ^ 53"
    and "CHR ''.'' \<notin> set n" and "map_of results n = Some r"
  shows "Evaluate (Condition n ''result.usage.inputTokensEstimated'' (GNumber (show_int i)) None None None) results
       = Inr (us_input_tokens (res_usage r) = i)
     \<and> Evaluate (Condition n ''result.usage.inputTokensEstimated''
          (reload_scalar pf (GNumber (show_int i))) None None None) results
       = Inr (us_input_tokens (res_usage r) = i \<and> \<bar>i\<bar> < 1000000)"
proof
  let ?k = "us_input_tokens (res_usage r)"
  have w: "normalizeScalar (GNumber (show_int i)) = Inr (GNumber (show_int i))"
    "normalizeScalar (reload_scalar pf (GNumber (show_int i))) = Inr (GNumber (format_g (float_of_int i)))"
    using assms(1,2) by (simp_all add: normalizeScalar_def reload_scalar_def parse_float_exact_def)
  have "json_scalar (GNumber (show_int i)) = Some (show_int i)"
    by (simp add: json_scalar_def show_int_not_Nil valid_number_show_int)
  then show "Evaluate (Condition n ''result.usage.inputTokensEstimated'' (GNumber (show_int i)) None None None) results
       = Inr (?k = i)"
    by (simp only: Evaluate_tokens [OF assms(3,4) w(1)]) (auto dest: show_int_inj)
  have "show_int ?k = (case json_scalar (GNumber (format_g (float_of_int i))) of None \<Rightarrow> [] | Some d \<Rightarrow> d)
      \<longleftrightarrow> ?k = i \<and> \<bar>i\<bar> < 1000000"
  proof (cases "\<bar>i\<bar> < 1000000")
    case True
    then show ?thesis
      by (auto simp: format_g_small json_scalar_def show_int_not_Nil valid_number_show_int dest: show_int_inj)
  next
    case False
    then have "format_g (float_of_int i) \<noteq> []" "show_int ?k \<noteq> format_g (float_of_int i)"
      using format_g_large [of i] show_int_no_e [of ?k] by auto
    then show ?thesis using False by (auto simp: json_scalar_def show_int_not_Nil)
  qed
  then show "Evaluate (Condition n ''result.usage.inputTokensEstimated''
          (reload_scalar pf (GNumber (show_int i))) None None None) results
       = Inr (?k = i \<and> \<bar>i\<bar> < 1000000)"
    by (simp only: Evaluate_tokens [OF assms(3,4) w(2)])
qed

definition sample_parse_float :: "string \<Rightarrow> gofloat" where
  "sample_parse_float s = float_of_int
     (case s of c # cs \<Rightarrow> if c = CHR ''-'' then - int (read_nat 0 cs) else int (read_nat 0 s) | [] \<Rightarrow> 0)"

lemma sample_parse_float_exact: "parse_float_exact sample_parse_float"
proof -
  have "sample_parse_float (show_int i) = float_of_int i" for i
  proof (cases "i < 0")
    case True
    then show ?thesis by (simp add: sample_parse_float_def show_int_def read_show_nat)
  next
    case False
    obtain c cs where s: "show_nat (nat i) = c # cs" "is_digit c" by (metis show_nat_shape)
    moreover from s(2) have "c \<noteq> CHR ''-''" by (auto simp: is_digit_def)
    moreover have "read_nat 0 (c # cs) = nat i" using read_show_nat [of "nat i"] s(1) by simp
    ultimately show ?thesis using False by (simp add: sample_parse_float_def show_int_def del: read_nat.simps)
  qed
  then show ?thesis by (simp add: parse_float_exact_def)
qed

theorem number_condition_lost_on_reload_witness:
  "Evaluate (Condition ''a'' ''result.usage.inputTokensEstimated''
      (reload_scalar sample_parse_float (GNumber (show_int 1500000))) None None None)
      [(''a'', (sample_result ''x'')\<lparr>res_usage := \<lparr>us_input_tokens = 1500000, us_output_tokens = 0\<rparr>\<rparr>)]
    = Inr False"
  using number_condition_lost_on_reload [OF sample_parse_float_exact, of 1500000 "''a''"
      "[(''a'', (sample_result ''x'')\<lparr>res_usage := \<lparr>us_input_tokens = 1500000, us_output_tokens = 0\<rparr>\<rparr>)]"]
  by simp

subsection \<open>Normalisation\<close>

lemma normalize_input_idem: "normalize_input name d = Inr d' \<Longrightarrow> normalize_input name d' = Inr d'"
  by (auto simp: normalize_input_def dest: normalizeScalar_idem split: if_splits sum.splits)

lemma normalize_inputs_idem: "normalize_inputs ds = Inr r \<Longrightarrow> normalize_inputs r = Inr r"
proof (induction ds arbitrary: r rule: normalize_inputs.induct)
  case 1
  then show ?case by simp
next
  case (2 name decl ds)
  then obtain d s where d: "normalize_input name decl = Inr d" and s: "normalize_inputs ds = Inr s"
    and r: "r = (name, d) # s"
    by (auto split: sum.splits)
  then show ?case using "2.IH" [OF d s] normalize_input_idem [OF d] by (simp add: r)
qed

text \<open>How one entry of the node map is rewritten.\<close>

definition node_normalized :: "Defaults \<Rightarrow> string \<times> Node \<Rightarrow> string \<times> Node \<Rightarrow> bool" where
  "node_normalized dflt e e' \<longleftrightarrow> fst e' = fst e \<and> (\<exists>w. normalize_node dflt (fst e) (snd e) = Inr (snd e', w))"

lemma normalize_nodes_spec:
  "normalize_nodes dflt ns = Inr (ns', ws) \<Longrightarrow> list_all2 (node_normalized dflt) ns ns'"
proof (induction dflt ns arbitrary: ns' ws rule: normalize_nodes.induct)
  case (1 dflt)
  then show ?case by simp
next
  case (2 dflt i node ns)
  from "2.prems" obtain n' w s v where n: "normalize_node dflt i node = Inr (n', w)"
    and s: "normalize_nodes dflt ns = Inr (s, v)" and r: "ns' = (i, n') # s"
    by (auto split: sum.splits prod.splits)
  have "list_all2 (node_normalized dflt) ns s" using "2.IH" [OF n refl s] .
  moreover have "node_normalized dflt (i, node) (i, n')" using n by (simp add: node_normalized_def)
  ultimately show ?case by (simp add: r)
qed

lemma normalize_nodes_id:
  "\<forall>e \<in> set ns. n_tool (snd e) = [] \<and> n_runtime (snd e) = [] \<Longrightarrow> normalize_nodes dflt ns = Inr (ns, [])"
  by (induction ns) (auto simp: normalize_node_def)

lemma node_normalized_clear: "node_normalized dflt e e' \<Longrightarrow> n_tool (snd e') = [] \<and> n_runtime (snd e') = []"
  by (auto simp: node_normalized_def normalize_node_def split: if_splits sum.splits dest!: sym [of _ "snd e'"])

lemma normalize_node_routing:
  "node_normalized dflt e e' \<Longrightarrow> n_tool (snd e) \<noteq> [] \<or> n_runtime (snd e) \<noteq> [] \<Longrightarrow> as_routing (n_agent (snd e')) = None"
  by (auto simp: node_normalized_def normalize_node_def split: if_splits sum.splits dest!: sym [of _ "snd e'"])

lemma normalizeDocument_ok:
  assumes "normalizeDocument doc = Inr (doc', ws)"
  shows "doc_api_version doc' \<in> {APIVersion, ContextPolicyAPIVersion}"
    "normalize_inputs (doc_inputs doc) = Inr (doc_inputs doc')"
    "df_backend (doc_defaults doc') = [] \<and> df_tool (doc_defaults doc') = [] \<and> df_runtime (doc_defaults doc') = []"
    "list_all2 (node_normalized (doc_defaults doc')) (doc_nodes doc) (doc_nodes doc')"
  using assms
  by (auto simp: normalizeDocument_def Let_def known_version_def dest!: normalize_nodes_spec
      split: if_splits sum.splits prod.splits)

text \<open>
  C11. A normalised document has a supported version and no deprecated backend, tool or
  runtime field, in its defaults or in a node, and normalising it again changes nothing and
  warns of nothing.
\<close>

theorem normalize_idempotent:
  assumes "normalizeDocument doc = Inr (doc', ws)"
  shows "doc_api_version doc' \<in> {APIVersion, ContextPolicyAPIVersion}
     \<and> (\<forall>(i, n) \<in> set (doc_nodes doc'). n_tool n = [] \<and> n_runtime n = [])
     \<and> normalizeDocument doc' = Inr (doc', [])"
proof -
  note ok = normalizeDocument_ok [OF assms]
  have clear: "\<forall>e \<in> set (doc_nodes doc'). n_tool (snd e) = [] \<and> n_runtime (snd e) = []"
    using ok(4) node_normalized_clear by (metis in_set_conv_nth list_all2_conv_all_nth)
  have "normalize_inputs (doc_inputs doc') = Inr (doc_inputs doc')"
    using normalize_inputs_idem [OF ok(2)] .
  moreover have "normalize_nodes (doc_defaults doc') (doc_nodes doc') = Inr (doc_nodes doc', [])"
    using normalize_nodes_id [OF clear] .
  moreover have "known_version (doc_api_version doc') \<and> doc_api_version doc' \<noteq> LegacyAPIVersion"
    using ok(1) by (auto simp: known_version_def)
  ultimately have "normalizeDocument doc' = Inr (doc', [])"
    using ok(3) by (simp add: normalizeDocument_def Let_def)
  then show ?thesis using ok(1) clear by auto
qed

definition tool_doc :: Document where
  "tool_doc = sample_doc\<lparr>doc_nodes := [(''a'', (sample_agent_node ''t'' [])
     \<lparr>n_tool := ''codex'', n_agent := empty_agent\<lparr>as_routing := Some (DefaultRequirementV1\<lparr>rr_complexity := ComplexityComplex\<rparr>)\<rparr>\<rparr>)]\<rparr>"

lemma tool_doc_normalized: "\<exists>doc'. normalizeDocument tool_doc = Inr (doc', [DeprecatedNode ''a''])"
proof -
  have "map_sum id snd (normalizeDocument tool_doc) = Inr [DeprecatedNode ''a'']" by code_simp
  then show ?thesis by (cases "normalizeDocument tool_doc") auto
qed

theorem normalize_idempotent_witness:
  "\<exists>doc'. normalizeDocument tool_doc = Inr (doc', [DeprecatedNode ''a'']) \<and> normalizeDocument doc' = Inr (doc', [])"
  using tool_doc_normalized normalize_idempotent by blast

text \<open>
  Normalising a node with a deprecated tool or runtime field drops the routing
  requirement the node declares: afterwards the effective requirement is that of the
  defaults, whatever the node asked for.
\<close>

theorem normalize_drops_routing:
  assumes "normalizeDocument doc = Inr (doc', ws)" and "wf_map (doc_nodes doc)"
    and "(i, n) \<in> set (doc_nodes doc)" and "n_tool n \<noteq> [] \<or> n_runtime n \<noteq> []"
  shows "EffectiveRoutingRequirement doc' (get_node doc' i) =
     (case as_routing (df_agent (doc_defaults doc')) of None \<Rightarrow> DefaultRequirementV1 | Some r \<Rightarrow> r)"
proof -
  have rel: "list_all2 (node_normalized (doc_defaults doc')) (doc_nodes doc) (doc_nodes doc')"
    by (rule normalizeDocument_ok(4) [OF assms(1)])
  then have "map fst (doc_nodes doc') = map fst (doc_nodes doc)"
    by (induction rule: list_all2_induct) (auto simp: node_normalized_def)
  then have wf: "wf_map (doc_nodes doc')" using assms(2) by (simp add: wf_map_def)
  obtain k where k: "k < length (doc_nodes doc)" "doc_nodes doc ! k = (i, n)"
    using assms(3) by (metis in_set_conv_nth)
  have rk: "node_normalized (doc_defaults doc') (i, n) (doc_nodes doc' ! k)" "k < length (doc_nodes doc')"
    using rel k by (metis list_all2_conv_all_nth)+
  then have "(i, snd (doc_nodes doc' ! k)) \<in> set (doc_nodes doc')"
    by (metis fst_conv node_normalized_def nth_mem prod.collapse)
  then have "get_node doc' i = snd (doc_nodes doc' ! k)"
    using wf by (simp add: wf_map_lookup get_node_def)
  moreover have "as_routing (n_agent (snd (doc_nodes doc' ! k))) = None"
    using normalize_node_routing [OF rk(1)] assms(4) by simp
  ultimately show ?thesis by (simp add: EffectiveRoutingRequirement_def Let_def)
qed

theorem normalize_drops_routing_witness:
  "\<exists>doc'. normalizeDocument tool_doc = Inr (doc', [DeprecatedNode ''a''])
     \<and> EffectiveRoutingRequirement doc' (get_node doc' ''a'') =
       (case as_routing (df_agent (doc_defaults doc')) of None \<Rightarrow> DefaultRequirementV1 | Some r \<Rightarrow> r)"
proof -
  obtain doc' where d: "normalizeDocument tool_doc = Inr (doc', [DeprecatedNode ''a''])"
    using tool_doc_normalized by blast
  have "wf_map (doc_nodes tool_doc)" by (simp add: wf_map_def tool_doc_def)
  from normalize_drops_routing [OF d this] d show ?thesis
    by (auto simp: tool_doc_def)
qed

subsection \<open>Inputs and paths\<close>

text \<open>
  \<open>ResolveInputs\<close> refuses undeclared inputs; on success an input has a value exactly
  when one is provided or a default exists, the value is the normalised provided value or the
  normalised default, and it has the default's kind where there is a default.
\<close>

theorem resolve_inputs_spec:
  assumes "ResolveInputs doc provided = Inr inputs" and "wf_map (doc_inputs doc)"
  shows "fst ` set provided \<subseteq> fst ` set (doc_inputs doc)
     \<and> (\<forall>name d. map_of (doc_inputs doc) name = Some d \<longrightarrow>
          (case map_of inputs name of
             None \<Rightarrow> map_of provided name = None \<and> in_default d = GNil \<and> \<not> in_required d
           | Some v \<Rightarrow>
               (case map_of provided name of
                  Some p \<Rightarrow> normalizeScalar p = Inr v
                | None \<Rightarrow> normalizeScalar (in_default d) = Inr v)
               \<and> (in_default d \<noteq> GNil \<longrightarrow>
                    (\<exists>w. normalizeScalar (in_default d) = Inr w \<and> scalarKind v = scalarKind w))))"
proof -
  have r: "resolve_inputs provided (doc_inputs doc) = Inr inputs"
    and declared: "\<forall>name \<in> set (mkeys provided). map_of (doc_inputs doc) name \<noteq> None"
    using assms(1) by (auto simp: ResolveInputs_def split: sum.splits if_splits)
  have each: "\<forall>(n, d) \<in> set (doc_inputs doc). \<exists>v. resolve_input provided n d = Inr v"
    using r resolve_inputs_fails_iff by blast
  have "case map_of inputs name of
             None \<Rightarrow> map_of provided name = None \<and> in_default d = GNil \<and> \<not> in_required d
           | Some v \<Rightarrow>
               (case map_of provided name of
                  Some p \<Rightarrow> normalizeScalar p = Inr v
                | None \<Rightarrow> normalizeScalar (in_default d) = Inr v)
               \<and> (in_default d \<noteq> GNil \<longrightarrow>
                    (\<exists>w. normalizeScalar (in_default d) = Inr w \<and> scalarKind v = scalarKind w))"
    if d: "map_of (doc_inputs doc) name = Some d" for name d
  proof -
    obtain v where v: "resolve_input provided name d = Inr v"
      using each map_of_SomeD [OF d] by blast
    have look: "map_of inputs name = v" using resolve_inputs_lookup [OF r assms(2), of name] d v by simp
    show ?thesis
      unfolding look using v by (auto simp: resolve_input_def Let_def split: option.splits if_splits sum.splits)
  qed
  moreover have "fst ` set provided \<subseteq> fst ` set (doc_inputs doc)"
    using declared by (auto simp: map_of_eq_None_iff)
  ultimately show ?thesis by blast
qed

theorem resolve_inputs_spec_witness:
  "\<exists>inputs. ResolveInputs sample_doc [(''topic'', GInt 7)] = Inr inputs
     \<and> map_of inputs ''topic'' = Some (GNumber ''7'')"
proof -
  have r: "ResolveInputs sample_doc [(''topic'', GInt 7)] = Inr [(''topic'', GNumber ''7'')]" by code_simp
  have "wf_map (doc_inputs sample_doc)" by (simp add: wf_map_def sample_doc_def)
  from resolve_inputs_spec [OF r this] r show ?thesis by simp
qed

definition plain_part :: "string \<Rightarrow> bool" where
  "plain_part p \<longleftrightarrow> p \<noteq> '''' \<and> p \<noteq> ''.'' \<and> p \<noteq> ''..''"

definition clean_shape :: "string list \<Rightarrow> bool" where
  "clean_shape xs \<longleftrightarrow> (\<exists>k ns. xs = replicate k ''..'' @ ns \<and> list_all plain_part ns)"

lemma clean_parts_shape:
  "clean_shape (rev out) \<Longrightarrow> clean_shape (clean_parts False out ps)"
proof (induction False out ps rule: clean_parts.induct)
  case (1 out)
  then show ?case by simp
next
  case (2 out p ps)
  obtain k ns where o: "rev out = replicate k ''..'' @ ns" "list_all plain_part ns"
    using 2(7) by (auto simp: clean_shape_def)
  show ?case
  proof (cases "p = '''' \<or> p = ''.'' \<or> p = ''..''")
    case False
    then have "clean_shape (rev (p # out))"
      using o by (auto simp: clean_shape_def plain_part_def intro!: exI [of _ k] exI [of _ "ns @ [p]"])
    then show ?thesis using 2(6) False by simp
  next
    case True
    show ?thesis
    proof (cases "p = ''..''")
      case False
      then show ?thesis using True 2(1,7) by auto
    next
      case dots: True
      show ?thesis
      proof (cases out)
        case Nil
        have "clean_shape (rev [''..''])" by (auto simp: clean_shape_def intro!: exI [of _ "1 :: nat"])
        then show ?thesis using 2(3) dots Nil by simp
      next
        case (Cons q qs)
        show ?thesis
        proof (cases "q = ''..''")
          case True
          have "ns = []"
          proof (rule ccontr)
            assume "ns \<noteq> []"
            then have "last ns = q" using o(1) Cons by (metis last_appendR last_snoc rev.simps(2))
            with o(2) \<open>ns \<noteq> []\<close> True show False by (auto simp: list_all_iff plain_part_def dest: last_in_set)
          qed
          then have "rev (''..'' # out) = replicate (Suc k) ''..''" using o(1) by (simp add: replicate_append_same)
          then have "clean_shape (rev (''..'' # out))" unfolding clean_shape_def
            by (intro exI [of _ "Suc k"] exI [of _ "[]"]) simp
          then show ?thesis using 2(4) dots Cons True by simp
        next
          case False
          have "ns \<noteq> []"
          proof
            assume "ns = []"
            then have "q \<in> set (replicate k ''..'')" using o(1) Cons by (metis append_Nil2 in_set_conv_decomp rev.simps(2))
            then show False using False by simp
          qed
          then obtain ms where ms: "ns = ms @ [q]"
            using o(1) Cons by (metis append_butlast_last_id last_appendR last_snoc rev.simps(2))
          then have "rev qs = replicate k ''..'' @ ms" using o(1) Cons by simp
          moreover have "list_all plain_part ms" using o(2) ms by simp
          ultimately have "clean_shape (rev qs)" by (auto simp: clean_shape_def)
          then show ?thesis using 2(5) dots Cons False by simp
        qed
      qed
    qed
  qed
qed

lemma split_on_no_sep: "p \<in> set (split_on d s) \<Longrightarrow> d \<notin> set p"
  by (induction s arbitrary: p) (auto split: if_splits list.splits)

lemma split_join:
  "xs \<noteq> [] \<Longrightarrow> \<forall>x \<in> set xs. d \<notin> set x \<Longrightarrow> split_on d (join_with [d] xs) = xs"
proof (induction "[d]" xs rule: join_with.induct)
  case (2 x)
  then show ?case by (simp add: split_on_single)
next
  case (3 x y ys)
  then show ?case by (simp add: split_on_append)
qed simp

lemma clean_parts_subset: "set (clean_parts False out ps) \<subseteq> insert ''..'' (set out \<union> set ps)"
  by (induction False out ps rule: clean_parts.induct) (auto split: list.splits)

text \<open>
  A project instruction path that passes the context policy check has no empty,
  \<^verbatim>\<open>.\<close> or \<^verbatim>\<open>..\<close> element, with one exception: the path \<^verbatim>\<open>..\<close> itself, the
  parent of the project, passes.
\<close>

theorem context_path_check:
  "\<not> unsafe_path ''..''
   \<and> (\<not> unsafe_path r \<longrightarrow> r = ''..'' \<or> (\<forall>p \<in> set (split_on CHR ''/'' r). plain_part p))"
proof (intro conjI impI)
  have "trim_space ''..'' \<noteq> []" by code_simp
  then show "\<not> unsafe_path ''..''"
    by (simp add: unsafe_path_def path_is_abs_def path_clean_def has_prefix_def)
next
  assume safe: "\<not> unsafe_path r"
  let ?parts = "clean_parts False [] (split_on CHR ''/'' r)"
  have "\<not> path_is_abs r" "path_clean r = r" "r \<noteq> ''.''" "\<not> has_prefix r ''../''"
    using safe by (auto simp: unsafe_path_def)
  then have ne: "?parts \<noteq> []" and join: "join_with ''/'' ?parts = r"
    by (auto simp: path_clean_def Let_def split: if_splits)
  have "\<forall>x \<in> set ?parts. CHR ''/'' \<notin> set x"
    using clean_parts_subset [of "[]" "split_on CHR ''/'' r"] split_on_no_sep [of _ "CHR ''/''" r] by fastforce
  then have parts: "split_on CHR ''/'' r = ?parts"
    using split_join [OF ne] join by metis
  obtain k ns where s: "?parts = replicate k ''..'' @ ns" "list_all plain_part ns"
    using clean_parts_shape [of "[]" "split_on CHR ''/'' r"] by (auto simp: clean_shape_def)
  show "r = ''..'' \<or> (\<forall>p \<in> set (split_on CHR ''/'' r). plain_part p)"
  proof (cases k)
    case 0
    then have "split_on CHR ''/'' r = ns" using trans [OF parts s(1)] by simp
    then show ?thesis using s(2) by (simp add: list_all_iff)
  next
    case (Suc m)
    then obtain qs where q: "?parts = ''..'' # qs" using s(1) by simp
    show ?thesis
    proof (cases qs)
      case Nil
      have "join_with ''/'' [''..''] = r" using join unfolding q Nil .
      then show ?thesis by simp
    next
      case (Cons x xs)
      have "join_with ''/'' (''..'' # x # xs) = r" using join unfolding q Cons .
      then have "r = CHR ''.'' # CHR ''.'' # CHR ''/'' # join_with ''/'' (x # xs)" by simp
      then have "has_prefix r ''../''" unfolding has_prefix_def by (simp only:) (simp add: eval_nat_numeral)
      with \<open>\<not> has_prefix r ''../''\<close> show ?thesis by simp
    qed
  qed
qed

theorem context_path_check_witness:
  "\<not> unsafe_path ''docs/a.md'' \<and> list_all plain_part (split_on CHR ''/'' ''docs/a.md'')"
proof -
  have "\<not> unsafe_path ''docs/a.md''" by code_simp
  with context_path_check [of "''docs/a.md''"] show ?thesis by (simp add: list_all_iff)
qed

end
