(* ===== verification/Json_Valid.thy ===== *)
theory Json_Valid
  imports Json_Text
begin

section \<open>Recognising JSON: \<^verbatim>\<open>json.Valid\<close> and decoding into a map\<close>

text \<open>
  The contracts accept raw JSON fields with \<^verbatim>\<open>json.Valid\<close>. It is modelled
  as the scanner of \<^verbatim>\<open>encoding/json\<close> is written: one step per byte over a
  state and a stack of enclosing objects and arrays, at most 10000 deep. Decoding into
  \<^verbatim>\<open>map[string]any\<close> succeeds on a JSON object all of whose numbers fit a
  64-bit float, and yields a nil map for \<^verbatim>\<open>null\<close>.
\<close>

datatype jctx = ObjKey | ObjVal | ArrVal

datatype jstate =
    BeginValue | BeginValueOrEmpty | BeginStringOrEmpty | BeginString | EndValue | EndTop
  | InStr | InEsc | InHex nat | NumNeg | NumZero | NumInt | NumDot | NumFrac | NumE | NumESign | NumExp
  | InLit string | ScanError

type_synonym jscan = "jstate \<times> jctx list"

definition json_space :: "char \<Rightarrow> bool" where
  "json_space c \<longleftrightarrow> c = CHR '' '' \<or> c = CHR 0x09 \<or> c = CHR 0x0D \<or> c = CHR 0x0A"

abbreviation max_nesting :: nat where "max_nesting \<equiv> 10000"

definition push_ctx :: "jstate \<Rightarrow> jctx \<Rightarrow> jctx list \<Rightarrow> jscan" where
  "push_ctx st p K = (if length K + 1 \<le> max_nesting then (st, p # K) else (ScanError, K))"

definition pop_ctx :: "jctx list \<Rightarrow> jscan" where
  "pop_ctx K = (if tl K = [] then (EndTop, []) else (EndValue, tl K))"

definition begin_value :: "char \<Rightarrow> jctx list \<Rightarrow> jscan" where
  "begin_value c K =
     (if json_space c then (BeginValue, K)
      else if c = CHR 0x7B then push_ctx BeginStringOrEmpty ObjKey K
      else if c = CHR ''['' then push_ctx BeginValueOrEmpty ArrVal K
      else if c = CHR 0x22 then (InStr, K)
      else if c = CHR ''-'' then (NumNeg, K)
      else if c = CHR ''0'' then (NumZero, K)
      else if c = CHR ''t'' then (InLit ''rue'', K)
      else if c = CHR ''f'' then (InLit ''alse'', K)
      else if c = CHR ''n'' then (InLit ''ull'', K)
      else if is_digit c then (NumInt, K)
      else (ScanError, K))"

definition end_value :: "char \<Rightarrow> jctx list \<Rightarrow> jscan" where
  "end_value c K =
     (case K of
        [] \<Rightarrow> (if json_space c then (EndTop, []) else (ScanError, []))
      | p # K' \<Rightarrow>
          if json_space c then (EndValue, K)
          else case p of
            ObjKey \<Rightarrow> (if c = CHR '':'' then (BeginValue, ObjVal # K') else (ScanError, K))
          | ObjVal \<Rightarrow> (if c = CHR '','' then (BeginString, ObjKey # K')
                       else if c = CHR 0x7D then pop_ctx K else (ScanError, K))
          | ArrVal \<Rightarrow> (if c = CHR '','' then (BeginValue, K)
                       else if c = CHR '']'' then pop_ctx K else (ScanError, K)))"

fun jstep :: "jscan \<Rightarrow> char \<Rightarrow> jscan" where
  "jstep (BeginValue, K) c = begin_value c K"
| "jstep (BeginValueOrEmpty, K) c =
     (if json_space c then (BeginValueOrEmpty, K)
      else if c = CHR '']'' then end_value c K else begin_value c K)"
| "jstep (BeginStringOrEmpty, K) c =
     (if json_space c then (BeginStringOrEmpty, K)
      else if c = CHR 0x7D then end_value c (ObjVal # tl K)
      else if c = CHR 0x22 then (InStr, K) else (ScanError, K))"
| "jstep (BeginString, K) c =
     (if json_space c then (BeginString, K) else if c = CHR 0x22 then (InStr, K) else (ScanError, K))"
| "jstep (EndValue, K) c = end_value c K"
| "jstep (EndTop, K) c = (if json_space c then (EndTop, K) else (ScanError, K))"
| "jstep (InStr, K) c =
     (if c = CHR 0x22 then (EndValue, K) else if c = CHR 0x5C then (InEsc, K)
      else if byte c < 32 then (ScanError, K) else (InStr, K))"
| "jstep (InEsc, K) c =
     (if c \<in> set [CHR ''b'', CHR ''f'', CHR ''n'', CHR ''r'', CHR ''t'', CHR 0x5C, CHR ''/'', CHR 0x22]
      then (InStr, K) else if c = CHR ''u'' then (InHex 3, K) else (ScanError, K))"
| "jstep (InHex n, K) c =
     (if is_hex c then (case n of 0 \<Rightarrow> (InStr, K) | Suc k \<Rightarrow> (InHex k, K)) else (ScanError, K))"
| "jstep (NumNeg, K) c =
     (if c = CHR ''0'' then (NumZero, K) else if is_digit c then (NumInt, K) else (ScanError, K))"
| "jstep (NumInt, K) c =
     (if is_digit c then (NumInt, K) else if c = CHR ''.'' then (NumDot, K)
      else if c = CHR ''e'' \<or> c = CHR ''E'' then (NumE, K) else end_value c K)"
| "jstep (NumZero, K) c =
     (if c = CHR ''.'' then (NumDot, K)
      else if c = CHR ''e'' \<or> c = CHR ''E'' then (NumE, K) else end_value c K)"
| "jstep (NumDot, K) c = (if is_digit c then (NumFrac, K) else (ScanError, K))"
| "jstep (NumFrac, K) c =
     (if is_digit c then (NumFrac, K) else if c = CHR ''e'' \<or> c = CHR ''E'' then (NumE, K)
      else end_value c K)"
| "jstep (NumE, K) c =
     (if c = CHR ''+'' \<or> c = CHR ''-'' then (NumESign, K)
      else if is_digit c then (NumExp, K) else (ScanError, K))"
| "jstep (NumESign, K) c = (if is_digit c then (NumExp, K) else (ScanError, K))"
| "jstep (NumExp, K) c = (if is_digit c then (NumExp, K) else end_value c K)"
| "jstep (InLit w, K) c =
     (case w of
        [] \<Rightarrow> (ScanError, K)
      | d # w' \<Rightarrow> if c = d then (if w' = [] then (EndValue, K) else (InLit w', K)) else (ScanError, K))"
| "jstep (ScanError, K) c = (ScanError, K)"

fun jrun :: "jscan \<Rightarrow> string \<Rightarrow> jscan" where
  "jrun s [] = s"
| "jrun s (c # cs) = jrun (jstep s c) cs"

definition json_valid :: "string \<Rightarrow> bool" where
  "json_valid text \<longleftrightarrow> fst (jstep (jrun (BeginValue, []) text) (CHR '' '')) = EndTop"

subsection \<open>Decoding into a map\<close>

text \<open>The first byte that is not white space tells the kind of a valid text.\<close>

fun json_head :: "string \<Rightarrow> char option" where
  "json_head [] = None"
| "json_head (c # cs) = (if json_space c then json_head cs else Some c)"

definition number_state :: "jstate \<Rightarrow> bool" where
  "number_state st \<longleftrightarrow>
     st \<in> set [NumNeg, NumZero, NumInt, NumDot, NumFrac, NumE, NumESign, NumExp]"

text \<open>The number literals of a text, in order; \<open>acc\<close> is the reversed literal being read.\<close>

fun number_literals :: "jscan \<Rightarrow> string \<Rightarrow> string \<Rightarrow> string list" where
  "number_literals s acc [] = (if acc = [] then [] else [rev acc])"
| "number_literals s acc (c # cs) =
     (let s' = jstep s c in
      if number_state (fst s') then number_literals s' (c # acc) cs
      else if acc = [] then number_literals s' [] cs
      else rev acc # number_literals s' [] cs)"

text \<open>
  \<^verbatim>\<open>strconv.ParseFloat\<close> of a JSON number: digits without the point, the number of
  them after it, and the exponent, which stops growing once it is past 10000. The
  value overflows when it is at least \<open>2 ^ 1024 - 2 ^ 970\<close>, the midpoint that
  rounds to \<open>2 ^ 1024\<close>.
\<close>

fun read_exponent :: "nat \<Rightarrow> string \<Rightarrow> nat" where
  "read_exponent e [] = e"
| "read_exponent e (c # cs) =
     read_exponent (if e < 10000 then 10 * e + (byte c - 48) else e) cs"

definition number_parts :: "string \<Rightarrow> nat \<times> int" where
  "number_parts text =
     (let unsigned = (case text of CHR ''-'' # cs \<Rightarrow> cs | _ \<Rightarrow> text);
          mantissa = takeWhile (\<lambda>c. c \<noteq> CHR ''e'' \<and> c \<noteq> CHR ''E'') unsigned;
          tail = drop (length mantissa + 1) unsigned;
          whole = takeWhile (\<lambda>c. c \<noteq> CHR ''.'') mantissa;
          frac = drop (length whole + 1) mantissa;
          exponent = (case tail of
              [] \<Rightarrow> 0
            | c # cs \<Rightarrow> if c = CHR ''-'' then - int (read_exponent 0 cs)
                        else if c = CHR ''+'' then int (read_exponent 0 cs)
                        else int (read_exponent 0 tail))
      in (read_nat 0 (whole @ frac), exponent - int (length frac)))"

definition float_limit :: nat where
  "float_limit = 2 ^ 1024 - 2 ^ 970"

definition number_overflows :: "string \<Rightarrow> bool" where
  "number_overflows text =
     (let (m, e) = number_parts text in
      m \<noteq> 0 \<and> (if 0 \<le> e then float_limit \<le> m * 10 ^ nat e else float_limit * 10 ^ nat (- e) \<le> m))"

text \<open>
  \<^verbatim>\<open>json.Unmarshal(data, &object)\<close> into a map of a valid text succeeds with a
  map that is not nil.
\<close>

definition decodes_to_object :: "string \<Rightarrow> bool" where
  "decodes_to_object text \<longleftrightarrow>
     json_valid text \<and> json_head text = Some (CHR 0x7B)
     \<and> list_all (\<lambda>n. \<not> number_overflows n) (number_literals (BeginValue, []) [] text)"

subsection \<open>Facts about the scanner\<close>

lemma jrun_error [simp]: "jrun (ScanError, K) s = (ScanError, K)"
  by (induction s) auto

lemma jrun_append [simp]: "jrun s (xs @ ys) = jrun (jrun s xs) ys"
  by (induction xs arbitrary: s) auto

lemma json_valid_nonempty: "json_valid s \<Longrightarrow> s \<noteq> []"
  by (auto simp: json_valid_def begin_value_def json_space_def)

text \<open>An unescaped run of string characters stays in the string.\<close>

lemma jrun_plain:
  "list_all (\<lambda>c. c \<noteq> CHR 0x22 \<and> c \<noteq> CHR 0x5C \<and> 32 \<le> byte c) s \<Longrightarrow> jrun (InStr, K) s = (InStr, K)"
  by (induction s) auto

lemma json_valid_plain_string:
  assumes "list_all (\<lambda>c. c \<noteq> CHR 0x22 \<and> c \<noteq> CHR 0x5C \<and> 32 \<le> byte c) s"
  shows "json_valid (CHR 0x22 # s @ [CHR 0x22])"
  using assms
  by (simp add: json_valid_def begin_value_def json_space_def jrun_plain end_value_def)

lemma json_valid_samples:
  "json_valid [CHR 0x7B, CHR 0x7D]" "json_valid ''[1, -2.5e+3,null]''" "\<not> json_valid ''[1,]''"
  "\<not> json_valid ''01''" "\<not> json_valid ''''"
  by code_simp+

end
