(* ===== verification/Agent_Contract.thy ===== *)
theory Agent_Contract
  imports Routing_Catalog Json_Valid Workflow_Model
begin

section \<open>The Agent driver contract (internal/agent/contract.go)\<close>

text \<open>
  The protocol between the engine and an Agent driver: Attempt envelopes, execution
  handles, results, events, observations and the IPC records, with the validator of
  each. Raw JSON fields are byte strings, empty when absent; slices and maps that the
  validators compare with nil are options. \<^verbatim>\<open>InputQuestion\<close> and
  \<^verbatim>\<open>Usage\<close> have the fields of the workflow types of the same names, which
  are reused. \<^verbatim>\<open>json.Marshal\<close> of a result and of an event is written out, because
  the size of the encoding is bounded.
\<close>

abbreviation "AgentProtocolVersion \<equiv> (1 :: int)"
abbreviation "AgentMaxResultBytes \<equiv> (65536 :: nat)"
abbreviation "MaxEventBytes \<equiv> (65536 :: nat)"
abbreviation "MaxExecutionHandleDataSize \<equiv> (65536 :: nat)"

record AttemptIdentity =
  ai_run_id :: string
  ai_node_id :: string
  ai_attempt :: int

record UpstreamResult =
  ur_node_id :: string
  ur_result :: string

record AttemptContext =
  ac_upstream_results :: "UpstreamResult list option"
  ac_required_skills :: "string list option"
  ac_input_answer :: string

record ResultContract =
  rc_schema :: string
  rc_max_bytes :: int

record AttemptEnvelope =
  ae_protocol_version :: int
  ae_identity :: AttemptIdentity
  ae_workspace :: string
  ae_target :: string
  ae_task :: string
  ae_context :: AttemptContext
  ae_constraints :: "(string, string) gomap option"
  ae_budget :: "(string, int) gomap option"
  ae_result_contract :: ResultContract
  ae_routing_decision :: "RoutingDecisionV1 option"
  ae_execution_profile :: "ExecutionProfileV1 option"
  ae_prompt :: string

record DriverCapabilities =
  dc_targets :: "string list"
  dc_output :: bool
  dc_waiting_input :: bool
  dc_recovery :: bool
  dc_confirmed_cancel :: bool
  dc_concurrent_cancel :: bool
  dc_max_concurrent :: int

record AgentHandle =
  ah_driver :: string
  ah_target :: string
  ah_schema_version :: int
  ah_id :: string
  ah_data :: string

abbreviation "SideEffectNone \<equiv> ''none''"
abbreviation "SideEffectUnknown \<equiv> ''unknown''"

record AgentResult =
  ar_status :: string
  ar_summary :: string
  ar_artifacts :: "string list"
  ar_warnings :: "string list"
  ar_checks :: "string list"
  ar_questions :: "InputQuestion list"
  ar_usage :: Usage
  ar_side_effect :: string

abbreviation "EventAttemptStarted \<equiv> ''attempt.started''"
abbreviation "EventAttemptProgress \<equiv> ''attempt.progress''"
abbreviation "EventAttemptDiagnostic \<equiv> ''attempt.diagnostic''"
abbreviation "EventAttemptNeedsInput \<equiv> ''attempt.needs_input''"
abbreviation "EventAttemptResultPending \<equiv> ''attempt.result_pending''"
abbreviation "EventAttemptCompleted \<equiv> ''attempt.completed''"

record DriverEvent =
  ev_type :: string
  ev_message :: string
  ev_diagnostic :: string
  ev_result :: "AgentResult option"

abbreviation "ObservationActive \<equiv> ''active''"
abbreviation "ObservationWaitingInput \<equiv> ''waiting_input''"
abbreviation "ObservationResultPending \<equiv> ''result_pending''"
abbreviation "ObservationTerminal \<equiv> ''terminal''"
abbreviation "ObservationLost \<equiv> ''lost''"

record AgentObservation =
  ao_state :: string
  ao_events :: "DriverEvent list"
  ao_result :: "AgentResult option"
  ao_diagnostic :: string

abbreviation "CancelConfirmed \<equiv> ''confirmed''"
abbreviation "CancelNotConfirmed \<equiv> ''not_confirmed''"

record CancelResult =
  cr_state :: string
  cr_diagnostic :: string

record IPCHandshake =
  hs_protocol_version :: int
  hs_state_schema :: int
  hs_owner_id :: string
  hs_state_dir_hash :: string

record APIError =
  api_code :: string
  api_message :: string
  api_data :: string

datatype AgentContractError =
    NoTargets | TargetBlank | TargetDuplicated string | NegativeConcurrency | ConcurrentWithoutConfirmed
  | EnvelopeVersion int | IdentityIncomplete | WorkspaceOrTask | EnvelopeTarget | CollectionsImplicit
  | MaxBytesRange | SchemaInvalid | EnvelopeDecision ContractError | EnvelopeProfile ProfileError
  | UpstreamInvalid
  | HandleIdentity | HandleSchemaVersion | HandleDataSize | HandleDataInvalid
  | StatusUnsupported string | AgentSummaryRequired | AgentSummaryTooLong | CollectionBound
  | NeedsQuestion | QuestionsUnexpected | NegativeUsage | SideEffectUnsupported string
  | AgentQuestionIncomplete | AgentQuestionDuplicated string | EncodedTooLong
  | EventType string | EventTooLong | CompletedWithoutResult | CompletedNeedsInput
  | CompletedResult AgentContractError | NeedsInputStatus | NeedsInputResult AgentContractError
  | EventResultUnexpected string | ObservationResultUnexpected string | TerminalWithoutResult
  | ObservationState string | CancelState string | HandshakeIncomplete
  | APICode string | APIMessage | APIData

subsection \<open>JSON encodings\<close>

definition json_agent_usage :: "Usage \<Rightarrow> string" where
  "json_agent_usage u = json_object
     [(''inputTokensEstimated'', show_int (us_input_tokens u)),
      (''outputTokensEstimated'', show_int (us_output_tokens u))]"

definition json_agent_result :: "AgentResult \<Rightarrow> string" where
  "json_agent_result r = json_object
     ([(''status'', json_string (ar_status r))]
      @ omit_empty ''summary'' (ar_summary r)
      @ omit_empty_list ''artifacts'' (ar_artifacts r)
      @ omit_empty_list ''warnings'' (ar_warnings r)
      @ omit_empty_list ''checks'' (ar_checks r)
      @ (if ar_questions r = [] then [] else [(''questions'', json_array (map json_question (ar_questions r)))])
      @ [(''usage'', json_agent_usage (ar_usage r))]
      @ omit_empty ''sideEffectStatus'' (ar_side_effect r))"

definition json_event :: "DriverEvent \<Rightarrow> string" where
  "json_event e = json_object
     ([(''type'', json_string (ev_type e))]
      @ omit_empty ''message'' (ev_message e)
      @ omit_empty ''diagnostic'' (ev_diagnostic e)
      @ (case ev_result e of None \<Rightarrow> [] | Some r \<Rightarrow> [(''result'', json_agent_result r)]))"

subsection \<open>Validators\<close>

definition ValidateCapabilities :: "DriverCapabilities \<Rightarrow> AgentContractError + unit" where
  "ValidateCapabilities capabilities =
     (if length (dc_targets capabilities) = 0 then Inl NoTargets
      else case each_unique
          (\<lambda>target. if blank target \<or> target \<noteq> trim_space target then Some TargetBlank else None)
          (\<lambda>target. target) (\<lambda>target. TargetDuplicated target) [] (dc_targets capabilities) of
        Inl e \<Rightarrow> Inl e
      | Inr _ \<Rightarrow>
        if dc_max_concurrent capabilities < 0 then Inl NegativeConcurrency
        else if \<not> dc_confirmed_cancel capabilities \<and> dc_concurrent_cancel capabilities
        then Inl ConcurrentWithoutConfirmed
        else Inr ())"

definition ValidateAttemptEnvelope :: "AttemptEnvelope \<Rightarrow> AgentContractError + unit" where
  "ValidateAttemptEnvelope envelope =
     (if ae_protocol_version envelope \<noteq> AgentProtocolVersion
      then Inl (EnvelopeVersion (ae_protocol_version envelope))
      else if blank (ai_run_id (ae_identity envelope)) \<or> blank (ai_node_id (ae_identity envelope))
           \<or> ai_attempt (ae_identity envelope) < 1 then Inl IdentityIncomplete
      else if blank (ae_workspace envelope) \<or> blank (ae_task envelope) then Inl WorkspaceOrTask
      else if blank (ae_target envelope) \<or> ae_target envelope \<noteq> trim_space (ae_target envelope)
      then Inl EnvelopeTarget
      else if ac_upstream_results (ae_context envelope) = None \<or> ac_required_skills (ae_context envelope) = None
           \<or> ae_constraints envelope = None \<or> ae_budget envelope = None then Inl CollectionsImplicit
      else if rc_max_bytes (ae_result_contract envelope) < 1
           \<or> rc_max_bytes (ae_result_contract envelope) > int AgentMaxResultBytes then Inl MaxBytesRange
      else if length (rc_schema (ae_result_contract envelope)) > 0
           \<and> \<not> json_valid (rc_schema (ae_result_contract envelope)) then Inl SchemaInvalid
      else case (case ae_routing_decision envelope of
                   None \<Rightarrow> Inr ()
                 | Some d \<Rightarrow> wrap_err EnvelopeDecision (ValidateDecision d)) of
        Inl e \<Rightarrow> Inl e
      | Inr _ \<Rightarrow>
      (case (case ae_execution_profile envelope of
                   None \<Rightarrow> Inr ()
                 | Some p \<Rightarrow> wrap_err EnvelopeProfile
                     (ValidateExecutionProfile p (ae_routing_decision envelope))) of
        Inl e \<Rightarrow> Inl e
      | Inr _ \<Rightarrow>
        each_ok
          (\<lambda>upstream. if blank (ur_node_id upstream) \<or> length (ur_result upstream) = 0
              \<or> \<not> json_valid (ur_result upstream) then Inl UpstreamInvalid else Inr ())
          (items (ac_upstream_results (ae_context envelope)))))"

definition ValidateAgentHandle :: "AgentHandle \<Rightarrow> AgentContractError + unit" where
  "ValidateAgentHandle handle =
     (if blank (ah_driver handle) \<or> blank (ah_target handle) \<or> blank (ah_id handle) then Inl HandleIdentity
      else if ah_schema_version handle < 1 then Inl HandleSchemaVersion
      else if length (ah_data handle) > MaxExecutionHandleDataSize then Inl HandleDataSize
      else if length (ah_data handle) > 0 \<and> \<not> json_valid (ah_data handle) then Inl HandleDataInvalid
      else Inr ())"

definition result_statuses :: "string list" where
  "result_statuses = [''succeeded'', ''failed'', ''needs_input'', ''indeterminate'']"

fun agent_questions :: "string list \<Rightarrow> InputQuestion list \<Rightarrow> AgentContractError + unit" where
  "agent_questions questionIDs [] = Inr ()"
| "agent_questions questionIDs (question # questions) =
     (if blank (iq_id question) \<or> blank (iq_prompt question) then Inl AgentQuestionIncomplete
      else if iq_id question \<in> set questionIDs then Inl (AgentQuestionDuplicated (iq_id question))
      else agent_questions (iq_id question # questionIDs) questions)"

definition ValidateAgentResult :: "AgentResult \<Rightarrow> AgentContractError + unit" where
  "ValidateAgentResult result =
     (if ar_status result \<notin> set result_statuses then Inl (StatusUnsupported (ar_status result))
      else if blank (ar_summary result) then Inl AgentSummaryRequired
      else if length (ar_summary result) > 16 * 1024 then Inl AgentSummaryTooLong
      else if length (ar_artifacts result) > 256 \<or> length (ar_warnings result) > 256
           \<or> length (ar_checks result) > 256 \<or> length (ar_questions result) > 32 then Inl CollectionBound
      else if ar_status result = ''needs_input'' \<and> length (ar_questions result) = 0 then Inl NeedsQuestion
      else if ar_status result \<noteq> ''needs_input'' \<and> length (ar_questions result) > 0
      then Inl QuestionsUnexpected
      else if us_input_tokens (ar_usage result) < 0 \<or> us_output_tokens (ar_usage result) < 0
      then Inl NegativeUsage
      else if ar_side_effect result \<noteq> '''' \<and> ar_side_effect result \<noteq> SideEffectNone
           \<and> ar_side_effect result \<noteq> SideEffectUnknown
      then Inl (SideEffectUnsupported (ar_side_effect result))
      else case agent_questions [] (ar_questions result) of
        Inl e \<Rightarrow> Inl e
      | Inr _ \<Rightarrow> if length (json_agent_result result) > AgentMaxResultBytes then Inl EncodedTooLong else Inr ())"

definition validate_event :: "DriverEvent \<Rightarrow> AgentContractError + unit" where
  "validate_event event =
     (if ev_type event \<notin> set [EventAttemptStarted, EventAttemptProgress, EventAttemptDiagnostic,
           EventAttemptNeedsInput, EventAttemptResultPending, EventAttemptCompleted]
      then Inl (EventType (ev_type event))
      else if length (json_event event) > MaxEventBytes then Inl EventTooLong
      else if ev_type event = EventAttemptCompleted
      then (case ev_result event of
              None \<Rightarrow> Inl CompletedWithoutResult
            | Some result \<Rightarrow>
                if ar_status result = ''needs_input'' then Inl CompletedNeedsInput
                else wrap_err CompletedResult (ValidateAgentResult result))
      else if ev_type event = EventAttemptNeedsInput
      then (case ev_result event of
              None \<Rightarrow> Inr ()
            | Some result \<Rightarrow>
                if ar_status result \<noteq> ''needs_input'' then Inl NeedsInputStatus
                else wrap_err NeedsInputResult (ValidateAgentResult result))
      else case ev_result event of
             None \<Rightarrow> Inr ()
           | Some _ \<Rightarrow> Inl (EventResultUnexpected (ev_type event)))"

definition ValidateObservation :: "AgentObservation \<Rightarrow> AgentContractError + unit" where
  "ValidateObservation observation =
     (case each_ok validate_event (ao_events observation) of
        Inl e \<Rightarrow> Inl e
      | Inr _ \<Rightarrow>
        if ao_state observation \<in> set [ObservationActive, ObservationWaitingInput,
             ObservationResultPending, ObservationLost]
        then (if ao_result observation \<noteq> None
              then Inl (ObservationResultUnexpected (ao_state observation)) else Inr ())
        else if ao_state observation = ObservationTerminal
        then (case ao_result observation of
                None \<Rightarrow> Inl TerminalWithoutResult
              | Some result \<Rightarrow> ValidateAgentResult result)
        else Inl (ObservationState (ao_state observation)))"

definition ValidateCancelResult :: "CancelResult \<Rightarrow> AgentContractError + unit" where
  "ValidateCancelResult result =
     (if cr_state result \<noteq> CancelConfirmed \<and> cr_state result \<noteq> CancelNotConfirmed
      then Inl (CancelState (cr_state result)) else Inr ())"

definition ValidateIPCHandshake :: "IPCHandshake \<Rightarrow> AgentContractError + unit" where
  "ValidateIPCHandshake handshake =
     (if hs_protocol_version handshake < 1 \<or> hs_state_schema handshake < 1
         \<or> blank (hs_owner_id handshake) \<or> blank (hs_state_dir_hash handshake)
      then Inl HandshakeIncomplete else Inr ())"

definition ValidateAPIError :: "APIError \<Rightarrow> AgentContractError + unit" where
  "ValidateAPIError value =
     (if api_code value \<notin> set [''INVALID_ATTEMPT_ENVELOPE'', ''INVALID_AGENT_RESULT'',
           ''CAPABILITY_UNAVAILABLE'', ''PROTOCOL_MISMATCH'', ''STATE_CONFLICT'', ''NOT_FOUND'']
      then Inl (APICode (api_code value))
      else if blank (api_message value) then Inl APIMessage
      else if length (api_data value) > 0 \<and> \<not> json_valid (api_data value) then Inl APIData
      else Inr ())"

subsection \<open>What the validators accept\<close>

lemma agent_questions_seen:
  "agent_questions seen qs = Inr () \<longleftrightarrow>
     (\<forall>q \<in> set qs. \<not> blank (iq_id q) \<and> \<not> blank (iq_prompt q) \<and> iq_id q \<notin> set seen)
     \<and> distinct (map iq_id qs)"
  by (induction seen qs rule: agent_questions.induct) (force simp: image_iff)+

lemma agent_questions_iff:
  "agent_questions [] qs = Inr () \<longleftrightarrow>
     (\<forall>q \<in> set qs. \<not> blank (iq_id q) \<and> \<not> blank (iq_prompt q)) \<and> distinct (map iq_id qs)"
  by (simp add: agent_questions_seen)

lemma ValidateAgentResult_iff:
  "ValidateAgentResult r = Inr () \<longleftrightarrow>
     ar_status r \<in> set result_statuses \<and> \<not> blank (ar_summary r) \<and> length (ar_summary r) \<le> 16384
     \<and> length (ar_artifacts r) \<le> 256 \<and> length (ar_warnings r) \<le> 256 \<and> length (ar_checks r) \<le> 256
     \<and> length (ar_questions r) \<le> 32 \<and> (ar_status r = ''needs_input'' \<longleftrightarrow> ar_questions r \<noteq> [])
     \<and> 0 \<le> us_input_tokens (ar_usage r) \<and> 0 \<le> us_output_tokens (ar_usage r)
     \<and> ar_side_effect r \<in> {'''', SideEffectNone, SideEffectUnknown}
     \<and> (\<forall>q \<in> set (ar_questions r). \<not> blank (iq_id q) \<and> \<not> blank (iq_prompt q))
     \<and> distinct (map iq_id (ar_questions r))
     \<and> length (json_agent_result r) \<le> AgentMaxResultBytes"
  unfolding ValidateAgentResult_def
  by (simp only: res_simps) (auto simp: not_less agent_questions_iff)

lemma ValidateAttemptEnvelope_iff:
  "ValidateAttemptEnvelope e = Inr () \<longleftrightarrow>
     ae_protocol_version e = AgentProtocolVersion
     \<and> \<not> blank (ai_run_id (ae_identity e)) \<and> \<not> blank (ai_node_id (ae_identity e))
     \<and> 1 \<le> ai_attempt (ae_identity e) \<and> \<not> blank (ae_workspace e) \<and> \<not> blank (ae_task e)
     \<and> \<not> blank (ae_target e) \<and> ae_target e = trim_space (ae_target e)
     \<and> ac_upstream_results (ae_context e) \<noteq> None \<and> ac_required_skills (ae_context e) \<noteq> None
     \<and> ae_constraints e \<noteq> None \<and> ae_budget e \<noteq> None
     \<and> 1 \<le> rc_max_bytes (ae_result_contract e)
     \<and> rc_max_bytes (ae_result_contract e) \<le> int AgentMaxResultBytes
     \<and> (rc_schema (ae_result_contract e) = [] \<or> json_valid (rc_schema (ae_result_contract e)))
     \<and> (\<forall>d. ae_routing_decision e = Some d \<longrightarrow> ValidateDecision d = Inr ())
     \<and> (\<forall>p. ae_execution_profile e = Some p \<longrightarrow>
          ValidateExecutionProfile p (ae_routing_decision e) = Inr ())
     \<and> (\<forall>u \<in> set (items (ac_upstream_results (ae_context e))).
          \<not> blank (ur_node_id u) \<and> json_valid (ur_result u))"
  unfolding ValidateAttemptEnvelope_def
  by (simp only: res_simps each_ok_iff)
    (auto simp: not_less not_le split: option.splits dest: json_valid_nonempty)

end
