(* ===== verification/Backend_Contract.thy ===== *)
theory Backend_Contract
  imports Agent_Contract
begin

section \<open>The scheduler's execution port (internal/backend, internal/driver/scheduleradapter)\<close>

text \<open>
  The contract between the run scheduler and the back ends that execute Attempts, the
  registry that finds a back end by name, and the adapter that puts an Agent driver
  behind the port. The source's alias \<^verbatim>\<open>BackendResult\<close> names the result type
  here, since package \<^verbatim>\<open>agent\<close> has a type \<^verbatim>\<open>AgentResult\<close> of its own.
  A back end itself is a parameter \<open>'b\<close> with its name; the registry's mutex makes every
  operation atomic, so each operation is one function on the map.
\<close>

record BackendResultContract =
  brc_schema :: string
  brc_max_bytes :: int

record AgentExecutionSpec =
  xs_run_id :: string
  xs_node_id :: string
  xs_attempt :: int
  xs_workspace :: string
  xs_tool :: string
  xs_runtime :: string
  xs_model :: string
  xs_reasoning_effort :: string
  xs_instructions :: string
  xs_required_skills :: "string list"
  xs_result_contract :: BackendResultContract
  xs_envelope :: "AttemptEnvelope option"

record ExecutionHandle =
  eh_driver :: string
  eh_target :: string
  eh_backend :: string
  eh_schema_version :: int
  eh_id :: string
  eh_data :: string

definition DriverName :: "ExecutionHandle \<Rightarrow> string" where
  "DriverName handle = (if \<not> blank (eh_driver handle) then eh_driver handle else eh_backend handle)"

abbreviation "FailureModelUnavailablePreExecution \<equiv> ''model_unavailable_pre_execution''"

record BackendResult =
  br_status :: string
  br_summary :: string
  br_artifacts :: "string list"
  br_warnings :: "string list"
  br_checks :: "string list"
  br_questions :: "InputQuestion list"
  br_usage :: Usage
  br_side_effect :: string
  br_failure_class :: string

record ExecutionObservation =
  eo_state :: string
  eo_result :: "BackendResult option"
  eo_diagnostic :: string

record Capabilities =
  cap_tools :: "string list"
  cap_runtimes :: "string list"
  cap_output :: bool
  cap_waiting_input :: bool
  cap_max_concurrent :: int
  cap_concurrent_cancel :: bool

datatype BackendError =
    SpecRunID | SpecNodeID | SpecAttempt | SpecWorkspace | SpecTool | SpecRuntime | SpecModel
  | SpecInstructions | SpecMaxBytes | SpecSchema
  | BkHandleBackend | BkHandleSchemaVersion | BkHandleID | BkHandleDataSize | BkHandleDataInvalid
  | BkHandleDataNotObject
  | BkStatus string | BkSummaryRequired | BkNeedsQuestion | BkQuestionsUnexpected | BkTooManyQuestions
  | BkQuestionIncomplete | BkQuestionDuplicated string | BkTooManyChoices | BkNegativeUsage
  | BkSideEffect string | BkFailureNotFailed | BkFailureClass string | BkFailureSideEffect
  | BkResultUnexpected string | BkTerminalWithoutResult | BkObservationState string | BkCancelState string
  | BkNil | BkNameRequired | BkNameWhitespace string | BkNameRegistered string
  | BkUnknown string "string list"

subsection \<open>Validators\<close>

definition ValidateAgentExecutionSpec :: "AgentExecutionSpec \<Rightarrow> BackendError + unit" where
  "ValidateAgentExecutionSpec spec =
     (if blank (xs_run_id spec) then Inl SpecRunID
      else if blank (xs_node_id spec) then Inl SpecNodeID
      else if xs_attempt spec < 1 then Inl SpecAttempt
      else if blank (xs_workspace spec) then Inl SpecWorkspace
      else if blank (xs_tool spec) then Inl SpecTool
      else if blank (xs_runtime spec) then Inl SpecRuntime
      else if xs_model spec \<noteq> '''' \<and> xs_model spec \<noteq> trim_space (xs_model spec) then Inl SpecModel
      else if blank (xs_instructions spec) then Inl SpecInstructions
      else if brc_max_bytes (xs_result_contract spec) < 0 then Inl SpecMaxBytes
      else if length (brc_schema (xs_result_contract spec)) > 0
           \<and> \<not> json_valid (brc_schema (xs_result_contract spec)) then Inl SpecSchema
      else Inr ())"

definition ValidateExecutionHandle :: "ExecutionHandle \<Rightarrow> BackendError + unit" where
  "ValidateExecutionHandle handle =
     (if blank (DriverName handle) then Inl BkHandleBackend
      else if eh_schema_version handle < 1 then Inl BkHandleSchemaVersion
      else if blank (eh_id handle) then Inl BkHandleID
      else if length (eh_data handle) > MaxExecutionHandleDataSize then Inl BkHandleDataSize
      else if length (eh_data handle) = 0 then Inr ()
      else if \<not> json_valid (eh_data handle) then Inl BkHandleDataInvalid
      else if \<not> decodes_to_object (eh_data handle) then Inl BkHandleDataNotObject
      else Inr ())"

fun backend_questions :: "string list \<Rightarrow> InputQuestion list \<Rightarrow> BackendError + unit" where
  "backend_questions questionIDs [] = Inr ()"
| "backend_questions questionIDs (question # questions) =
     (if blank (iq_id question) \<or> blank (iq_prompt question) then Inl BkQuestionIncomplete
      else if iq_id question \<in> set questionIDs then Inl (BkQuestionDuplicated (iq_id question))
      else if length (iq_choices question) > 256 then Inl BkTooManyChoices
      else backend_questions (iq_id question # questionIDs) questions)"

definition ValidateBackendResult :: "BackendResult \<Rightarrow> BackendError + unit" where
  "ValidateBackendResult result =
     (if br_status result \<notin> set result_statuses then Inl (BkStatus (br_status result))
      else if blank (br_summary result) then Inl BkSummaryRequired
      else if br_status result = ''needs_input'' \<and> length (br_questions result) = 0 then Inl BkNeedsQuestion
      else if br_status result \<noteq> ''needs_input'' \<and> length (br_questions result) > 0
      then Inl BkQuestionsUnexpected
      else if length (br_questions result) > 32 then Inl BkTooManyQuestions
      else case backend_questions [] (br_questions result) of
        Inl e \<Rightarrow> Inl e
      | Inr _ \<Rightarrow>
        if us_input_tokens (br_usage result) < 0 \<or> us_output_tokens (br_usage result) < 0
        then Inl BkNegativeUsage
        else if br_side_effect result \<noteq> '''' \<and> br_side_effect result \<noteq> SideEffectNone
             \<and> br_side_effect result \<noteq> SideEffectUnknown
        then Inl (BkSideEffect (br_side_effect result))
        else if br_failure_class result \<noteq> ''''
        then (if br_status result \<noteq> ''failed'' then Inl BkFailureNotFailed
              else if br_failure_class result \<noteq> FailureModelUnavailablePreExecution
              then Inl (BkFailureClass (br_failure_class result))
              else if br_side_effect result \<noteq> SideEffectNone then Inl BkFailureSideEffect
              else Inr ())
        else Inr ())"

definition ValidateExecutionObservation :: "ExecutionObservation \<Rightarrow> BackendError + unit" where
  "ValidateExecutionObservation observation =
     (if eo_state observation \<in> set [ObservationActive, ObservationWaitingInput,
           ObservationResultPending, ObservationLost]
      then (if eo_result observation \<noteq> None
            then Inl (BkResultUnexpected (eo_state observation)) else Inr ())
      else if eo_state observation = ObservationTerminal
      then (case eo_result observation of
              None \<Rightarrow> Inl BkTerminalWithoutResult
            | Some result \<Rightarrow> ValidateBackendResult result)
      else Inl (BkObservationState (eo_state observation)))"

subsection \<open>The registry\<close>

type_synonym 'b Registry = "(string, 'b) gomap"

definition NewRegistry :: "'b Registry" where
  "NewRegistry = []"

definition Register :: "('b \<Rightarrow> string) \<Rightarrow> 'b Registry \<Rightarrow> 'b option \<Rightarrow> BackendError + 'b Registry" where
  "Register name_of r candidate =
     (case candidate of
        None \<Rightarrow> Inl BkNil
      | Some c \<Rightarrow>
          let name = trim_space (name_of c) in
          if name = '''' then Inl BkNameRequired
          else if name \<noteq> name_of c then Inl (BkNameWhitespace (name_of c))
          else if map_of r name \<noteq> None then Inl (BkNameRegistered name)
          else Inr ((name, c) # r))"

definition Names :: "'b Registry \<Rightarrow> string list" where
  "Names r = sort_strings (map fst r)"

definition Get :: "'b Registry \<Rightarrow> string \<Rightarrow> BackendError + 'b" where
  "Get r name =
     (let name = trim_space name in
      case map_of r name of
        Some candidate \<Rightarrow> Inr candidate
      | None \<Rightarrow> Inl (BkUnknown name (Names r)))"

text \<open>
  What the run service needs of a registry: a back end is found under its name from its
  registration on, and a registration disturbs no other name.
\<close>

locale backend_registry =
  fixes empty :: 'r
    and add :: "'r \<Rightarrow> 'b \<Rightarrow> BackendError + 'r"
    and get :: "'r \<Rightarrow> string \<Rightarrow> BackendError + 'b"
    and name_of :: "'b \<Rightarrow> string"
    and ok :: "'r \<Rightarrow> bool"
  assumes empty_ok: "ok empty"
    and get_empty: "\<nexists>b. get empty n = Inr b"
    and add_ok: "ok r \<Longrightarrow> add r b = Inr r' \<Longrightarrow> ok r'"
    and get_added: "add r b = Inr r' \<Longrightarrow> get r' (name_of b) = Inr b"
    and get_kept: "add r b = Inr r' \<Longrightarrow> get r n = Inr c \<Longrightarrow> get r' n = Inr c"
    and get_named: "ok r \<Longrightarrow> get r n = Inr c \<Longrightarrow> name_of c = trim_space n"
begin

fun add_all :: "'r \<Rightarrow> 'b list \<Rightarrow> BackendError + 'r" where
  "add_all r [] = Inr r"
| "add_all r (b # bs) = (case add r b of Inl e \<Rightarrow> Inl e | Inr r' \<Rightarrow> add_all r' bs)"

lemma add_all_ok: "ok r \<Longrightarrow> add_all r bs = Inr r' \<Longrightarrow> ok r'"
  by (induction bs arbitrary: r) (auto split: sum.splits intro: add_ok)

lemma get_all_kept: "add_all r bs = Inr r' \<Longrightarrow> get r n = Inr c \<Longrightarrow> get r' n = Inr c"
  by (induction bs arbitrary: r) (auto split: sum.splits dest: get_kept)

lemma get_all_added: "add_all r bs = Inr r' \<Longrightarrow> b \<in> set bs \<Longrightarrow> get r' (name_of b) = Inr b"
  by (induction bs arbitrary: r) (auto split: sum.splits dest: get_added get_all_kept)

end

definition registry_ok :: "('b \<Rightarrow> string) \<Rightarrow> 'b Registry \<Rightarrow> bool" where
  "registry_ok name_of r \<longleftrightarrow> wf_map r \<and> (\<forall>(n, c) \<in> set r. name_of c = n)"

lemma Register_iff:
  "Register name_of r (Some c) = Inr r' \<longleftrightarrow>
     name_of c \<noteq> '''' \<and> trim_space (name_of c) = name_of c \<and> map_of r (name_of c) = None
     \<and> r' = (name_of c, c) # r"
  by (auto simp: Register_def Let_def)

lemma Get_iff: "Get r n = Inr c \<longleftrightarrow> map_of r (trim_space n) = Some c"
  by (auto simp: Get_def Let_def split: option.splits)

interpretation backends: backend_registry NewRegistry "\<lambda>r c. Register name_of r (Some c)" Get
  name_of "registry_ok name_of" for name_of :: "'b \<Rightarrow> string"
proof
  show "registry_ok name_of NewRegistry"
    by (simp add: registry_ok_def NewRegistry_def wf_map_def)
  show "\<nexists>b. Get NewRegistry n = Inr b" for n
    by (simp add: Get_iff NewRegistry_def)
next
  fix r r' :: "'b Registry" and b c n
  assume add: "Register name_of r (Some b) = Inr r'"
  show "Get r' (name_of b) = Inr b"
    using add by (auto simp: Register_iff Get_iff)
  show "registry_ok name_of r \<Longrightarrow> registry_ok name_of r'"
    using add by (auto simp: Register_iff registry_ok_def wf_map_def map_of_eq_None_iff)
  show "Get r n = Inr c \<Longrightarrow> Get r' n = Inr c"
    using add by (auto simp: Register_iff Get_iff)
next
  fix r :: "'b Registry" and n c
  assume "registry_ok name_of r" "Get r n = Inr c"
  then show "name_of c = trim_space n"
    by (auto simp: registry_ok_def Get_iff dest!: map_of_SomeD)
qed

subsection \<open>The adapter from an Agent driver to the port\<close>

definition toDriverHandle :: "ExecutionHandle \<Rightarrow> AgentHandle" where
  "toDriverHandle handle =
     \<lparr>ah_driver = DriverName handle,
      ah_target = (if eh_target handle = '''' then ''local'' else eh_target handle),
      ah_schema_version = eh_schema_version handle, ah_id = eh_id handle, ah_data = eh_data handle\<rparr>"

definition fromDriverHandle :: "AgentHandle \<Rightarrow> ExecutionHandle" where
  "fromDriverHandle handle =
     \<lparr>eh_driver = ah_driver handle, eh_target = ah_target handle, eh_backend = ah_driver handle,
      eh_schema_version = ah_schema_version handle, eh_id = ah_id handle, eh_data = ah_data handle\<rparr>"

definition toBackendResult :: "AgentResult \<Rightarrow> BackendResult" where
  "toBackendResult result =
     \<lparr>br_status = ar_status result, br_summary = ar_summary result, br_artifacts = ar_artifacts result,
      br_warnings = ar_warnings result, br_checks = ar_checks result, br_questions = ar_questions result,
      br_usage = ar_usage result, br_side_effect = ar_side_effect result, br_failure_class = ''''\<rparr>"

definition adapter_observation :: "AgentObservation \<Rightarrow> ExecutionObservation" where
  "adapter_observation observation =
     \<lparr>eo_state = ao_state observation, eo_result = map_option toBackendResult (ao_result observation),
      eo_diagnostic = ao_diagnostic observation\<rparr>"

definition adapter_capabilities :: "string \<Rightarrow> DriverCapabilities \<Rightarrow> Capabilities" where
  "adapter_capabilities name value =
     \<lparr>cap_tools = [name], cap_runtimes = dc_targets value, cap_output = dc_output value,
      cap_waiting_input = dc_waiting_input value, cap_max_concurrent = dc_max_concurrent value,
      cap_concurrent_cancel = dc_concurrent_cancel value\<rparr>"

text \<open>
  The envelope \<^verbatim>\<open>Start\<close> passes to the driver. The empty list of required skills
  becomes nil: \<^verbatim>\<open>append([]string(nil), xs...)\<close> of no elements is nil.
\<close>

definition append_nil :: "'a list \<Rightarrow> 'a list option" where
  "append_nil xs = (if xs = [] then None else Some xs)"

definition adapter_envelope :: "AgentExecutionSpec \<Rightarrow> AttemptEnvelope" where
  "adapter_envelope spec =
     (let target = (if xs_runtime spec = '''' then ''local'' else xs_runtime spec) in
      case xs_envelope spec of
        None \<Rightarrow>
          \<lparr>ae_protocol_version = AgentProtocolVersion,
           ae_identity = \<lparr>ai_run_id = xs_run_id spec, ai_node_id = xs_node_id spec, ai_attempt = xs_attempt spec\<rparr>,
           ae_workspace = xs_workspace spec, ae_target = target, ae_task = xs_instructions spec,
           ae_context = \<lparr>ac_upstream_results = Some [],
             ac_required_skills = append_nil (xs_required_skills spec), ac_input_answer = ''''\<rparr>,
           ae_constraints = Some [], ae_budget = Some [],
           ae_result_contract = \<lparr>rc_schema = brc_schema (xs_result_contract spec),
             rc_max_bytes = brc_max_bytes (xs_result_contract spec)\<rparr>,
           ae_routing_decision = None, ae_execution_profile = None, ae_prompt = xs_instructions spec\<rparr>
      | Some envelope \<Rightarrow>
          if ae_target envelope = '''' then envelope\<lparr>ae_target := target\<rparr> else envelope)"

subsection \<open>What the validators accept\<close>

lemma backend_questions_seen:
  "backend_questions seen qs = Inr () \<longleftrightarrow>
     (\<forall>q \<in> set qs. \<not> blank (iq_id q) \<and> \<not> blank (iq_prompt q) \<and> length (iq_choices q) \<le> 256
        \<and> iq_id q \<notin> set seen) \<and> distinct (map iq_id qs)"
  by (induction seen qs rule: backend_questions.induct) (force simp: not_less image_iff)+

lemma ValidateBackendResult_iff:
  "ValidateBackendResult r = Inr () \<longleftrightarrow>
     br_status r \<in> set result_statuses \<and> \<not> blank (br_summary r)
     \<and> (br_status r = ''needs_input'' \<longleftrightarrow> br_questions r \<noteq> []) \<and> length (br_questions r) \<le> 32
     \<and> (\<forall>q \<in> set (br_questions r).
          \<not> blank (iq_id q) \<and> \<not> blank (iq_prompt q) \<and> length (iq_choices q) \<le> 256)
     \<and> distinct (map iq_id (br_questions r))
     \<and> 0 \<le> us_input_tokens (br_usage r) \<and> 0 \<le> us_output_tokens (br_usage r)
     \<and> br_side_effect r \<in> {'''', SideEffectNone, SideEffectUnknown}
     \<and> (br_failure_class r \<noteq> '''' \<longrightarrow> br_status r = ''failed''
          \<and> br_failure_class r = FailureModelUnavailablePreExecution \<and> br_side_effect r = SideEffectNone)"
  unfolding ValidateBackendResult_def
  by (simp only: res_simps) (auto simp: not_less backend_questions_seen)

lemma toBackendResult_valid:
  assumes "ValidateAgentResult r = Inr ()"
  shows "ValidateBackendResult (toBackendResult r) = Inr () \<longleftrightarrow>
     (\<forall>q \<in> set (ar_questions r). length (iq_choices q) \<le> 256)"
  using assms unfolding ValidateBackendResult_iff ValidateAgentResult_iff toBackendResult_def by auto

lemma ValidateExecutionObservation_result:
  "ValidateExecutionObservation o' = Inr () \<longleftrightarrow>
     (case eo_result o' of
        None \<Rightarrow> eo_state o' \<in> {ObservationActive, ObservationWaitingInput, ObservationResultPending, ObservationLost}
      | Some r \<Rightarrow> eo_state o' = ObservationTerminal \<and> ValidateBackendResult r = Inr ())"
  by (auto simp: ValidateExecutionObservation_def split: option.splits)

lemma ValidateObservation_result:
  "ValidateObservation o' = Inr () \<longleftrightarrow>
     (\<forall>e \<in> set (ao_events o'). validate_event e = Inr ()) \<and>
     (case ao_result o' of
        None \<Rightarrow> ao_state o' \<in> {ObservationActive, ObservationWaitingInput, ObservationResultPending, ObservationLost}
      | Some r \<Rightarrow> ao_state o' = ObservationTerminal \<and> ValidateAgentResult r = Inr ())"
  unfolding ValidateObservation_def
  by (simp only: res_simps) (auto split: option.splits)

end
