(* ===== verification/Contract_Properties.thy ===== *)
theory Contract_Properties
  imports Backend_Contract
begin

section \<open>Properties of the Attempt contracts\<close>

text \<open>
  How the two contracts of an Attempt fit together: what the scheduler's port accepts of
  what a conforming driver reports, which envelopes the adapter builds, and the laws of the
  back end registry.
\<close>

subsection \<open>The adapter\<close>

text \<open>
  C17. An observation that obeys the driver contract is accepted by the scheduler's port
  exactly when none of the questions of its result has more than 256 choices, a bound the
  driver contract does not check; and no failure class ever comes through the adapter.
\<close>

theorem adapter_observation_accepted:
  assumes "ValidateObservation observation = Inr ()"
  shows "(ValidateExecutionObservation (adapter_observation observation) = Inr () \<longleftrightarrow>
       (\<forall>result question. ao_result observation = Some result \<longrightarrow> question \<in> set (ar_questions result) \<longrightarrow>
          length (iq_choices question) \<le> 256))
     \<and> (\<forall>result. eo_result (adapter_observation observation) = Some result \<longrightarrow> br_failure_class result = [])"
  using assms unfolding ValidateObservation_result ValidateExecutionObservation_result
  by (cases "ao_result observation") (auto simp: adapter_observation_def toBackendResult_valid, auto simp: toBackendResult_def)

definition crowded_result :: AgentResult where
  "crowded_result = \<lparr>ar_status = ''needs_input'', ar_summary = ''s'', ar_artifacts = [], ar_warnings = [],
     ar_checks = [], ar_questions = [\<lparr>iq_id = ''q'', iq_prompt = ''p'', iq_choices = replicate 257 [],
       iq_required = False\<rparr>],
     ar_usage = \<lparr>us_input_tokens = 0, us_output_tokens = 0\<rparr>, ar_side_effect = []\<rparr>"

lemma json_rune_length: "bs \<noteq> [] \<Longrightarrow> length (json_rune (r, bs)) \<le> 6 * length bs"
  by (cases bs) (auto simp: json_rune_def)

lemma json_string_length: "length (json_string s) \<le> 2 + 6 * length s"
proof -
  have "length (concat (map json_rune (runes s))) \<le> 6 * length s"
  proof (induction s rule: runes.induct)
    case (1 s)
    show ?case
    proof (cases "s = []")
      case False
      obtain r k where d: "decode_rune (map byte s) = (r, k)" by fastforce
      with False decode_rune_size [of "map byte s"] have k: "1 \<le> k" "k \<le> length s" by auto
      then have "length (json_rune (r, take k s)) \<le> 6 * k"
        using json_rune_length [of "take k s" r] by (cases s) auto
      moreover have "length (concat (map json_rune (runes (drop k s)))) \<le> 6 * (length s - k)"
        using 1 [OF False d [symmetric]] by simp
      ultimately show ?thesis using False d k by (subst runes.simps) simp
    qed simp
  qed
  then show ?thesis by (simp add: json_string_def)
qed

lemma crowded_json_size: "length (json_agent_result crowded_result) \<le> AgentMaxResultBytes"
proof -
  have join: "length (join_with '','' (replicate (Suc n) x)) = n + Suc n * length x" for n and x :: string
    by (induction n) (simp_all add: replicate_app_Cons_same)
  have e: "length (json_string []) = 2" by (simp add: json_string_def)
  have "length (json_array (map json_string (replicate 257 []))) = 772"
    using join [of 256 "json_string []"] e by (simp add: json_array_def map_replicate_const eval_nat_numeral)
  moreover note json_string_length [of "''status''"] json_string_length [of "''needs_input''"]
    json_string_length [of "''summary''"] json_string_length [of "''s''"] json_string_length [of "''questions''"]
    json_string_length [of "''id''"] json_string_length [of "''q''"] json_string_length [of "''prompt''"]
    json_string_length [of "''p''"] json_string_length [of "''choices''"] json_string_length [of "''required''"]
    json_string_length [of "''usage''"] json_string_length [of "''inputTokensEstimated''"]
    json_string_length [of "''outputTokensEstimated''"]
  moreover have "length (show_int 0) = 1" "length (json_bool False) = 5"
    by (simp_all add: show_int_def show_nat.simps json_bool_def)
  ultimately show ?thesis
    by (simp add: json_agent_result_def crowded_result_def json_object_def omit_empty_def omit_empty_list_def
        json_array_def json_question_def json_agent_usage_def)
qed

lemma crowded_valid: "ValidateAgentResult crowded_result = Inr ()"
proof -
  have "\<not> blank ''s''" "\<not> blank ''q''" "\<not> blank ''p''"
    by (simp_all add: trim_space_def space_strings_def)
  then show ?thesis
    using crowded_json_size
    by (simp add: ValidateAgentResult_iff) (simp add: crowded_result_def result_statuses_def)
qed

theorem adapter_observation_accepted_witness:
  "ValidateObservation \<lparr>ao_state = ObservationTerminal, ao_events = [], ao_result = Some crowded_result,
       ao_diagnostic = []\<rparr> = Inr ()
   \<and> ValidateExecutionObservation (adapter_observation \<lparr>ao_state = ObservationTerminal, ao_events = [],
       ao_result = Some crowded_result, ao_diagnostic = []\<rparr>) \<noteq> Inr ()"
proof -
  let ?o = "\<lparr>ao_state = ObservationTerminal, ao_events = [], ao_result = Some crowded_result, ao_diagnostic = []\<rparr>"
  have v: "ValidateObservation ?o = Inr ()" by (simp add: ValidateObservation_result crowded_valid)
  have "\<not> (\<forall>result question. ao_result ?o = Some result \<longrightarrow> question \<in> set (ar_questions result) \<longrightarrow>
      length (iq_choices question) \<le> 256)" by (simp add: crowded_result_def)
  with adapter_observation_accepted [OF v] v show ?thesis by blast
qed

text \<open>
  For an execution spec the port accepts and that carries no envelope, the adapter
  builds an envelope the driver contract accepts exactly when the spec requires some skill, bounds
  the result between one byte and 64 KiB, and has no white space around the runtime. In
  particular a spec without required skills is always refused, because copying an empty
  slice yields nil.
\<close>

theorem adapter_envelope_accepted:
  assumes "ValidateAgentExecutionSpec spec = Inr ()" and "xs_envelope spec = None"
  shows "ValidateAttemptEnvelope (adapter_envelope spec) = Inr () \<longleftrightarrow>
     xs_required_skills spec \<noteq> [] \<and> 1 \<le> brc_max_bytes (xs_result_contract spec)
     \<and> brc_max_bytes (xs_result_contract spec) \<le> int AgentMaxResultBytes
     \<and> trim_space (xs_runtime spec) = xs_runtime spec"
proof -
  have r: "\<not> blank (xs_run_id spec)" "\<not> blank (xs_node_id spec)" "1 \<le> xs_attempt spec"
    "\<not> blank (xs_workspace spec)" "\<not> blank (xs_runtime spec)" "\<not> blank (xs_instructions spec)"
    "brc_schema (xs_result_contract spec) = [] \<or> json_valid (brc_schema (xs_result_contract spec))"
    using assms(1) by (auto simp: ValidateAgentExecutionSpec_def split: if_splits)
  then have "xs_runtime spec \<noteq> []" by auto
  with r assms(2) show ?thesis
    by (auto simp: ValidateAttemptEnvelope_iff adapter_envelope_def append_nil_def items_def)
qed

definition sample_spec :: AgentExecutionSpec where
  "sample_spec = \<lparr>xs_run_id = ''r'', xs_node_id = ''n'', xs_attempt = 1, xs_workspace = ''w'', xs_tool = ''t'',
     xs_runtime = ''local'', xs_model = [], xs_reasoning_effort = [], xs_instructions = ''do'',
     xs_required_skills = [], xs_result_contract = \<lparr>brc_schema = [], brc_max_bytes = 10\<rparr>, xs_envelope = None\<rparr>"

lemma sample_spec_valid: "ValidateAgentExecutionSpec sample_spec = Inr ()"
  by (simp add: ValidateAgentExecutionSpec_def sample_spec_def trim_space_def space_strings_def)

theorem adapter_envelope_accepted_witness:
  "ValidateAgentExecutionSpec sample_spec = Inr () \<and> xs_envelope sample_spec = None
   \<and> ValidateAttemptEnvelope (adapter_envelope sample_spec) \<noteq> Inr ()"
  using adapter_envelope_accepted [OF sample_spec_valid] sample_spec_valid by (simp add: sample_spec_def)

subsection \<open>The registry\<close>

text \<open>
  A back end can be registered exactly when its name is not empty, has no white space
  around it and finds nothing yet; from then on it is found under its name, every other name
  finds what it found, a name that finds nothing is refused with the sorted list of all
  names, and the registry stays well formed.
\<close>

theorem registry_register_get:
  assumes "registry_ok name_of r"
  shows "((\<exists>r'. Register name_of r (Some b) = Inr r') \<longleftrightarrow>
       name_of b \<noteq> [] \<and> trim_space (name_of b) = name_of b \<and> \<not> (\<exists>c. Get r (name_of b) = Inr c))
     \<and> (\<forall>r'. Register name_of r (Some b) = Inr r' \<longrightarrow>
          registry_ok name_of r' \<and> Get r' (name_of b) = Inr b
          \<and> (\<forall>n c. Get r n = Inr c \<longrightarrow> Get r' n = Inr c)
          \<and> set (Names r') = insert (name_of b) (set (Names r)) \<and> sorted_wrt (<) (Names r')
          \<and> (\<forall>n. trim_space n \<notin> set (Names r') \<longrightarrow> Get r' n = Inl (BkUnknown (trim_space n) (Names r'))))"
proof -
  have "registry_ok name_of r' \<and> Get r' (name_of b) = Inr b
      \<and> (\<forall>n c. Get r n = Inr c \<longrightarrow> Get r' n = Inr c)
      \<and> set (Names r') = insert (name_of b) (set (Names r)) \<and> sorted_wrt (<) (Names r')
      \<and> (\<forall>n. trim_space n \<notin> set (Names r') \<longrightarrow> Get r' n = Inl (BkUnknown (trim_space n) (Names r')))"
    if "Register name_of r (Some b) = Inr r'" for r'
  proof -
    have ok: "registry_ok name_of r'" by (rule backends.add_ok [OF assms that])
    have "sorted_wrt (<) (Names r')"
      using ok by (simp add: Names_def registry_ok_def wf_map_def strict_sorted_iff)
    moreover have "set (Names r') = insert (name_of b) (set (Names r))"
      using that by (auto simp: Register_iff Names_def simp del: sort_by.simps)
    moreover have "Get r' n = Inl (BkUnknown (trim_space n) (Names r'))" if "trim_space n \<notin> set (Names r')" for n
      using that by (auto simp: Get_def Names_def Let_def map_of_eq_None_iff split: option.splits)
    ultimately show ?thesis
      using ok backends.get_added [OF that] backends.get_kept [OF that] by blast
  qed
  then show ?thesis by (auto simp: Register_iff Get_iff)
qed

theorem registry_register_get_witness:
  "\<exists>r'. Register id NewRegistry (Some ''codex'') = Inr r' \<and> Get r' ''codex'' = Inr ''codex''"
proof -
  have t: "trim_space ''codex'' = ''codex''" by (simp add: trim_space_def space_strings_def)
  have n: "\<not> (\<exists>c. Get NewRegistry (id ''codex'') = Inr c)" by (rule backends.get_empty)
  from registry_register_get [OF backends.empty_ok, of id "''codex''"] t n show ?thesis by fastforce
qed

end
