(* ===== verification/Context_Contract.thy ===== *)
theory Context_Contract
  imports Agent_Contract
begin

section \<open>The context contract (internal/contextcompiler/contract_v2.go)\<close>

text \<open>
  What an Attempt is told: components of nine kinds in three attention tiers, each with
  its provenance, size and content hash, and the omissions that say what was left out
  and why. The validators fix the canonical order, the tier of each kind, the byte
  accounting and the budgets. \<open>sha\<close> stands for \<^verbatim>\<open>hashBytes\<close>, the hex
  SHA-256 of a byte string; Memory records are not modelled here.
\<close>

abbreviation "EnvelopeV2Version \<equiv> ''fishyume.context/v2''"
abbreviation "CompilerV2Version \<equiv> ''context-compiler/v2''"
abbreviation "ManifestV2Version \<equiv> ''fishyume.context-manifest/v2''"
abbreviation "MaxContextPayloadBytes \<equiv> (131072 :: int)"
abbreviation "MaxContextComponents \<equiv> (128 :: nat)"
abbreviation "MaxContextOmissions \<equiv> (256 :: nat)"
abbreviation "MaxComponentContentBytes \<equiv> (65536 :: nat)"
abbreviation "MaxSelectedMemoryRecords \<equiv> (32 :: nat)"
abbreviation "MaxProvenanceRefBytes \<equiv> (1024 :: nat)"

datatype ContextErrorCode =
    CodeContextInvalidComponent | CodeContextRequiredMissing | CodeContextBudgetUnsatisfiable
  | CodeContextSourceUnavailable | CodeContextHashMismatch | CodeContextVersionUnsupported
  | CodeMemoryInvalidRecord | CodeMemoryConflict | CodeMemoryNotFound

datatype ContextError = ContextError ContextErrorCode string string

abbreviation "TierRequired \<equiv> ''required''"
abbreviation "TierImportant \<equiv> ''important''"
abbreviation "TierOptional \<equiv> ''optional''"

abbreviation "SensitivityPublic \<equiv> ''public''"
abbreviation "SensitivityProject \<equiv> ''project''"
abbreviation "SensitivitySensitive \<equiv> ''sensitive''"

abbreviation "KindExecutionContract \<equiv> ''execution_contract''"
abbreviation "KindProjectInstructions \<equiv> ''project_instructions''"
abbreviation "KindWorkflowPolicy \<equiv> ''workflow_policy''"
abbreviation "KindNodeTask \<equiv> ''node_task''"
abbreviation "KindUserAnswer \<equiv> ''user_answer''"
abbreviation "KindDependencyResult \<equiv> ''dependency_result''"
abbreviation "KindSkillInstructions \<equiv> ''skill_instructions''"
abbreviation "KindMemory \<equiv> ''memory''"
abbreviation "KindOutputContract \<equiv> ''output_contract''"

abbreviation "TruncationNone \<equiv> ''none''"
abbreviation "TruncationTail \<equiv> ''tail''"

abbreviation "OmissionBudgetExhausted \<equiv> ''budget_exhausted''"

record ComponentProvenanceV2 =
  pv_source :: string
  pv_source_version :: string
  pv_source_hash :: string
  pv_reason :: string

record ContextComponentV2 =
  cc_id :: string
  cc_kind :: string
  cc_tier :: string
  cc_sensitivity :: string
  cc_provenance :: ComponentProvenanceV2
  cc_content :: string
  cc_content_hash :: string
  cc_original_bytes :: int
  cc_included_bytes :: int
  cc_truncation :: string

record ContextOmissionV2 =
  om_component_id :: string
  om_kind :: string
  om_tier :: string
  om_reason :: string
  om_source_hash :: string
  om_original_bytes :: int

record AttentionBudgetV2 =
  ab_total :: int
  ab_required :: int
  ab_important :: int
  ab_optional :: int

record ContextEnvelopeV2 =
  ce_schema_version :: string
  ce_compiler_version :: string
  ce_identity :: AttemptIdentity
  ce_budget :: AttentionBudgetV2
  ce_components :: "ContextComponentV2 list"
  ce_omissions :: "ContextOmissionV2 list"

record ContextComponentManifestV2 =
  cm_id :: string
  cm_kind :: string
  cm_tier :: string
  cm_sensitivity :: string
  cm_provenance :: ComponentProvenanceV2
  cm_content_hash :: string
  cm_original_bytes :: int
  cm_included_bytes :: int
  cm_truncation :: string

record AttentionUsageV2 =
  au_total :: int
  au_required :: int
  au_important :: int
  au_optional :: int

record ContextManifestV2 =
  mf_schema_version :: string
  mf_compiler_version :: string
  mf_envelope_hash :: string
  mf_budget :: AttentionBudgetV2
  mf_usage :: AttentionUsageV2
  mf_components :: "ContextComponentManifestV2 list"
  mf_omissions :: "ContextOmissionV2 list"

subsection \<open>Field checks\<close>

text \<open>The pattern \<^verbatim>\<open>^[a-z][a-z0-9._:-]{0,127}$\<close>.\<close>

definition contractIDPattern :: "string \<Rightarrow> bool" where
  "contractIDPattern s =
     (case s of
        [] \<Rightarrow> False
      | c # cs \<Rightarrow> is_lower c \<and> length cs \<le> 127
          \<and> list_all (\<lambda>d. is_lower d \<or> is_digit d \<or> d \<in> set ''._:-'') cs)"

definition componentRank :: "string \<Rightarrow> int" where
  "componentRank kind =
     (if kind = KindExecutionContract then 0
      else if kind = KindProjectInstructions then 1
      else if kind = KindWorkflowPolicy then 2
      else if kind = KindNodeTask then 3
      else if kind = KindUserAnswer then 4
      else if kind = KindDependencyResult then 5
      else if kind = KindSkillInstructions then 6
      else if kind = KindMemory then 7
      else if kind = KindOutputContract then 8
      else -1)"

definition tierAllowed :: "string \<Rightarrow> string \<Rightarrow> bool" where
  "tierAllowed kind tier =
     (if kind \<in> set [KindExecutionContract, KindProjectInstructions, KindNodeTask, KindUserAnswer,
           KindOutputContract] then tier = TierRequired
      else if kind \<in> set [KindWorkflowPolicy, KindDependencyResult, KindSkillInstructions]
      then tier = TierRequired \<or> tier = TierImportant
      else if kind = KindMemory then tier = TierOptional
      else False)"

definition validTier :: "string \<Rightarrow> bool" where
  "validTier value \<longleftrightarrow> value = TierRequired \<or> value = TierImportant \<or> value = TierOptional"

definition validSensitivity :: "string \<Rightarrow> bool" where
  "validSensitivity value \<longleftrightarrow>
     value = SensitivityPublic \<or> value = SensitivityProject \<or> value = SensitivitySensitive"

definition validOmissionReason :: "string \<Rightarrow> bool" where
  "validOmissionReason value \<longleftrightarrow> value \<in> set [OmissionBudgetExhausted, ''superseded'', ''expired'',
     ''irrelevant'', ''unavailable'', ''sensitivity_policy'', ''duplicate'']"

definition validateProvenance :: "string \<Rightarrow> string \<Rightarrow> string \<Rightarrow> bool" where
  "validateProvenance source version sourceHash \<longleftrightarrow>
     \<not> (blank source \<or> source \<noteq> trim_space source \<or> length source > MaxProvenanceRefBytes
        \<or> blank version \<or> version \<noteq> trim_space version \<or> length version > 128
        \<or> \<not> validHash sourceHash)"

definition validateBudgetV2 :: "AttentionBudgetV2 \<Rightarrow> ContextError + unit" where
  "validateBudgetV2 b =
     (if ab_total b < 1 \<or> ab_total b > MaxContextPayloadBytes \<or> ab_required b < 1 \<or> ab_important b < 0
         \<or> ab_optional b < 0 \<or> ab_required b > ab_total b \<or> ab_important b > ab_total b
         \<or> ab_optional b > ab_total b
      then Inl (ContextError CodeContextBudgetUnsatisfiable
        ''attention tier budgets must be non-negative, bounded, and sum to totalBytes'' '''')
      else if ab_required b > ab_total b - ab_important b
         \<or> ab_required b + ab_important b > ab_total b - ab_optional b
         \<or> ab_required b + ab_important b + ab_optional b \<noteq> ab_total b
      then Inl (ContextError CodeContextBudgetUnsatisfiable
        ''attention tier budgets must be non-negative, bounded, and sum to totalBytes'' '''')
      else Inr ())"

definition validateComponentV2 :: "(string \<Rightarrow> string) \<Rightarrow> ContextComponentV2 \<Rightarrow> ContextError + unit" where
  "validateComponentV2 sha c =
     (let bad = (\<lambda>message. Inl (ContextError CodeContextInvalidComponent message (cc_id c)));
          included = length (cc_content c) in
      if \<not> contractIDPattern (cc_id c) \<or> componentRank (cc_kind c) < 0 \<or> \<not> validTier (cc_tier c)
         \<or> \<not> validSensitivity (cc_sensitivity c)
      then bad ''Context component identity or enum is invalid''
      else if \<not> tierAllowed (cc_kind c) (cc_tier c)
      then bad ''Context component kind cannot use this attention tier''
      else if \<not> validateProvenance (pv_source (cc_provenance c)) (pv_source_version (cc_provenance c))
                 (pv_source_hash (cc_provenance c))
           \<or> blank (pv_reason (cc_provenance c))
           \<or> pv_reason (cc_provenance c) \<noteq> trim_space (pv_reason (cc_provenance c))
           \<or> length (pv_reason (cc_provenance c)) > 1024
      then bad ''Context component provenance is invalid''
      else if \<not> valid_utf8 (cc_content c)
      then bad ''Context component content is not valid UTF-8''
      else if included = 0 \<or> included > MaxComponentContentBytes \<or> cc_included_bytes c \<noteq> int included
           \<or> cc_original_bytes c < int included
      then bad ''Context component byte accounting is invalid''
      else if cc_content_hash c \<noteq> sha (cc_content c)
      then Inl (ContextError CodeContextHashMismatch ''Context component content hash does not match'' (cc_id c))
      else if cc_truncation c = TruncationNone
      then (if cc_original_bytes c \<noteq> cc_included_bytes c
            then bad ''untruncated component byte counts differ'' else Inr ())
      else if cc_truncation c = TruncationTail
      then (if cc_tier c = TierRequired \<or> cc_original_bytes c \<le> cc_included_bytes c
            then bad ''required components cannot be truncated and tail truncation must remove bytes''
            else Inr ())
      else bad ''unsupported truncation mode'')"

definition validateOmissionV2 :: "ContextOmissionV2 \<Rightarrow> ContextError + unit" where
  "validateOmissionV2 om =
     (if \<not> contractIDPattern (om_component_id om) \<or> componentRank (om_kind om) < 0
         \<or> \<not> validTier (om_tier om) \<or> \<not> tierAllowed (om_kind om) (om_tier om)
         \<or> \<not> validOmissionReason (om_reason om) \<or> \<not> validHash (om_source_hash om)
         \<or> om_original_bytes om < 0
      then Inl (ContextError CodeContextInvalidComponent ''Context omission is invalid'' (om_component_id om))
      else if om_tier om = TierRequired
      then Inl (ContextError CodeContextRequiredMissing
        ''required context cannot be represented as an omission'' (om_component_id om))
      else Inr ())"

subsection \<open>The envelope\<close>

definition addUsage :: "AttentionUsageV2 \<Rightarrow> string \<Rightarrow> int \<Rightarrow> AttentionUsageV2" where
  "addUsage usage tier bytes =
     (let usage = usage\<lparr>au_total := au_total usage + bytes\<rparr> in
      if tier = TierRequired then usage\<lparr>au_required := au_required usage + bytes\<rparr>
      else if tier = TierImportant then usage\<lparr>au_important := au_important usage + bytes\<rparr>
      else if tier = TierOptional then usage\<lparr>au_optional := au_optional usage + bytes\<rparr>
      else usage)"

definition no_usage :: AttentionUsageV2 where
  "no_usage = \<lparr>au_total = 0, au_required = 0, au_important = 0, au_optional = 0\<rparr>"

text \<open>The variables of the loop over the components.\<close>

record EnvelopeScan =
  sc_seen :: "string list"
  sc_kinds :: "string list"
  sc_usage :: AttentionUsageV2
  sc_last_rank :: int
  sc_last_id :: string
  sc_memory :: nat

definition scan_start :: EnvelopeScan where
  "scan_start = \<lparr>sc_seen = [], sc_kinds = [], sc_usage = no_usage, sc_last_rank = -1,
     sc_last_id = '''', sc_memory = 0\<rparr>"

fun scan_components ::
  "(string \<Rightarrow> string) \<Rightarrow> EnvelopeScan \<Rightarrow> ContextComponentV2 list \<Rightarrow> ContextError + EnvelopeScan" where
  "scan_components sha st [] = Inr st"
| "scan_components sha st (c # cs) =
     (case validateComponentV2 sha c of
        Inl e \<Rightarrow> Inl e
      | Inr _ \<Rightarrow>
        if cc_id c \<in> set (sc_seen st)
        then Inl (ContextError CodeContextInvalidComponent ''Context component ID is duplicated'' (cc_id c))
        else if componentRank (cc_kind c) < sc_last_rank st
             \<or> componentRank (cc_kind c) = sc_last_rank st \<and> cc_id c \<le> sc_last_id st
        then Inl (ContextError CodeContextInvalidComponent
          ''Context components are not in canonical order'' (cc_id c))
        else scan_components sha
          \<lparr>sc_seen = cc_id c # sc_seen st, sc_kinds = cc_kind c # sc_kinds st,
           sc_usage = addUsage (sc_usage st) (cc_tier c) (cc_included_bytes c),
           sc_last_rank = componentRank (cc_kind c), sc_last_id = cc_id c,
           sc_memory = (if cc_kind c = KindMemory then sc_memory st + 1 else sc_memory st)\<rparr> cs)"

fun scan_omissions :: "string list \<Rightarrow> string \<Rightarrow> ContextOmissionV2 list \<Rightarrow> ContextError + unit" where
  "scan_omissions seen lastID [] = Inr ()"
| "scan_omissions seen lastID (om # oms) =
     (case validateOmissionV2 om of
        Inl e \<Rightarrow> Inl e
      | Inr _ \<Rightarrow>
        if om_component_id om \<in> set seen
        then Inl (ContextError CodeContextInvalidComponent
          ''included and omitted component IDs overlap'' (om_component_id om))
        else if om_component_id om \<le> lastID
        then Inl (ContextError CodeContextInvalidComponent
          ''Context omissions are not in canonical ID order'' (om_component_id om))
        else scan_omissions (om_component_id om # seen) (om_component_id om) oms)"

definition ValidateContextEnvelopeV2 ::
  "(string \<Rightarrow> string) \<Rightarrow> ContextEnvelopeV2 \<Rightarrow> ContextError + unit" where
  "ValidateContextEnvelopeV2 sha env =
     (if ce_schema_version env \<noteq> EnvelopeV2Version \<or> ce_compiler_version env \<noteq> CompilerV2Version
      then Inl (ContextError CodeContextVersionUnsupported
        ''unsupported Context Envelope or compiler version'' '''')
      else if blank (ai_run_id (ce_identity env)) \<or> blank (ai_node_id (ce_identity env))
           \<or> ai_attempt (ce_identity env) < 1
      then Inl (ContextError CodeContextInvalidComponent ''Attempt identity is incomplete'' '''')
      else case validateBudgetV2 (ce_budget env) of
        Inl e \<Rightarrow> Inl e
      | Inr _ \<Rightarrow>
        if length (ce_components env) = 0 \<or> length (ce_components env) > MaxContextComponents
        then Inl (ContextError CodeContextInvalidComponent
          ''Context component count is outside its bounds'' '''')
        else if length (ce_omissions env) > MaxContextOmissions
        then Inl (ContextError CodeContextInvalidComponent ''Context omission count exceeds its bound'' '''')
        else case scan_components sha scan_start (ce_components env) of
          Inl e \<Rightarrow> Inl e
        | Inr st \<Rightarrow>
          (case each_ok
              (\<lambda>kind. if kind \<notin> set (sc_kinds st)
                 then Inl (ContextError CodeContextRequiredMissing
                   (''required component kind '' @ [CHR 0x22] @ kind @ [CHR 0x22] @ '' is missing'') '''')
                 else Inr ())
              [KindExecutionContract, KindNodeTask, KindOutputContract] of
             Inl e \<Rightarrow> Inl e
           | Inr _ \<Rightarrow>
             if sc_memory st > MaxSelectedMemoryRecords
             then Inl (ContextError CodeContextBudgetUnsatisfiable
               ''selected Memory record count exceeds its bound'' '''')
             else if au_total (sc_usage st) > ab_total (ce_budget env)
                  \<or> au_required (sc_usage st) > ab_required (ce_budget env)
                  \<or> au_important (sc_usage st) > ab_important (ce_budget env)
                  \<or> au_optional (sc_usage st) > ab_optional (ce_budget env)
             then Inl (ContextError CodeContextBudgetUnsatisfiable
               ''Context components exceed an attention tier budget'' '''')
             else scan_omissions (sc_seen st) '''' (ce_omissions env)))"

subsection \<open>Canonical JSON, the hash and the manifest\<close>

text \<open>
  \<^verbatim>\<open>canonicalJSON\<close>: the compact encoding without HTML escaping. A nil slice of
  omissions encodes as \<^verbatim>\<open>null\<close>; the compiler always makes one that is not nil.
\<close>

definition json_text :: "string \<Rightarrow> string" where
  "json_text s =
     CHR 0x22 # concat (map (\<lambda>(r, bs). if r \<in> set [60, 62, 38] then bs else json_rune (r, bs)) (runes s))
       @ [CHR 0x22]"

definition json_provenance :: "ComponentProvenanceV2 \<Rightarrow> string" where
  "json_provenance p = json_object
     [(''source'', json_text (pv_source p)), (''sourceVersion'', json_text (pv_source_version p)),
      (''sourceHash'', json_text (pv_source_hash p)), (''reason'', json_text (pv_reason p))]"

definition json_component :: "ContextComponentV2 \<Rightarrow> string" where
  "json_component c = json_object
     [(''id'', json_text (cc_id c)), (''kind'', json_text (cc_kind c)), (''tier'', json_text (cc_tier c)),
      (''sensitivity'', json_text (cc_sensitivity c)), (''provenance'', json_provenance (cc_provenance c)),
      (''content'', json_text (cc_content c)), (''contentHash'', json_text (cc_content_hash c)),
      (''originalBytes'', show_int (cc_original_bytes c)), (''includedBytes'', show_int (cc_included_bytes c)),
      (''truncation'', json_text (cc_truncation c))]"

definition json_omission :: "ContextOmissionV2 \<Rightarrow> string" where
  "json_omission om = json_object
     [(''componentId'', json_text (om_component_id om)), (''kind'', json_text (om_kind om)),
      (''tier'', json_text (om_tier om)), (''reason'', json_text (om_reason om)),
      (''sourceHash'', json_text (om_source_hash om)), (''originalBytes'', show_int (om_original_bytes om))]"

definition json_envelope :: "ContextEnvelopeV2 \<Rightarrow> string" where
  "json_envelope env = json_object
     [(''schemaVersion'', json_text (ce_schema_version env)),
      (''compilerVersion'', json_text (ce_compiler_version env)),
      (''identity'', json_object
         [(''runId'', json_text (ai_run_id (ce_identity env))),
          (''nodeId'', json_text (ai_node_id (ce_identity env))),
          (''attempt'', show_int (ai_attempt (ce_identity env)))]),
      (''budget'', json_object
         [(''totalBytes'', show_int (ab_total (ce_budget env))),
          (''requiredBytes'', show_int (ab_required (ce_budget env))),
          (''importantBytes'', show_int (ab_important (ce_budget env))),
          (''optionalBytes'', show_int (ab_optional (ce_budget env)))]),
      (''components'', json_array (map json_component (ce_components env))),
      (''omissions'', json_array (map json_omission (ce_omissions env)))]"

definition CanonicalEnvelopeHashV2 ::
  "(string \<Rightarrow> string) \<Rightarrow> ContextEnvelopeV2 \<Rightarrow> ContextError + string" where
  "CanonicalEnvelopeHashV2 sha env =
     (case ValidateContextEnvelopeV2 sha env of
        Inl e \<Rightarrow> Inl e
      | Inr _ \<Rightarrow> Inr (sha (json_envelope env)))"

definition manifest_component :: "ContextComponentV2 \<Rightarrow> ContextComponentManifestV2" where
  "manifest_component c =
     \<lparr>cm_id = cc_id c, cm_kind = cc_kind c, cm_tier = cc_tier c, cm_sensitivity = cc_sensitivity c,
      cm_provenance = cc_provenance c, cm_content_hash = cc_content_hash c,
      cm_original_bytes = cc_original_bytes c, cm_included_bytes = cc_included_bytes c,
      cm_truncation = cc_truncation c\<rparr>"

definition usage_of :: "ContextComponentV2 list \<Rightarrow> AttentionUsageV2" where
  "usage_of cs = foldl (\<lambda>usage c. addUsage usage (cc_tier c) (cc_included_bytes c)) no_usage cs"

definition BuildContextManifestV2 ::
  "(string \<Rightarrow> string) \<Rightarrow> ContextEnvelopeV2 \<Rightarrow> ContextError + ContextManifestV2" where
  "BuildContextManifestV2 sha env =
     (case CanonicalEnvelopeHashV2 sha env of
        Inl e \<Rightarrow> Inl e
      | Inr hash \<Rightarrow> Inr
          \<lparr>mf_schema_version = ManifestV2Version, mf_compiler_version = ce_compiler_version env,
           mf_envelope_hash = hash, mf_budget = ce_budget env, mf_usage = usage_of (ce_components env),
           mf_components = map manifest_component (ce_components env), mf_omissions = ce_omissions env\<rparr>)"

subsection \<open>What the validators accept\<close>

text \<open>The canonical order of components, as \<^verbatim>\<open>sort.Slice\<close> compares them in the compiler.\<close>

definition canon_less :: "ContextComponentV2 \<Rightarrow> ContextComponentV2 \<Rightarrow> bool" where
  "canon_less a b \<longleftrightarrow>
     (if componentRank (cc_kind a) \<noteq> componentRank (cc_kind b)
      then componentRank (cc_kind a) < componentRank (cc_kind b) else cc_id a < cc_id b)"

interpretation canon: go_less canon_less
  by unfold_locales (auto simp: canon_less_def split: if_splits)

definition scan_next :: "EnvelopeScan \<Rightarrow> ContextComponentV2 \<Rightarrow> EnvelopeScan" where
  "scan_next st c =
     \<lparr>sc_seen = cc_id c # sc_seen st, sc_kinds = cc_kind c # sc_kinds st,
      sc_usage = addUsage (sc_usage st) (cc_tier c) (cc_included_bytes c),
      sc_last_rank = componentRank (cc_kind c), sc_last_id = cc_id c,
      sc_memory = (if cc_kind c = KindMemory then sc_memory st + 1 else sc_memory st)\<rparr>"

definition after_last :: "EnvelopeScan \<Rightarrow> ContextComponentV2 \<Rightarrow> bool" where
  "after_last st c \<longleftrightarrow> sc_last_rank st < componentRank (cc_kind c)
     \<or> sc_last_rank st = componentRank (cc_kind c) \<and> sc_last_id st < cc_id c"

lemma after_last_next: "after_last (scan_next st c) d \<longleftrightarrow> canon_less c d"
  by (auto simp: after_last_def scan_next_def canon_less_def)

lemma scan_next_seen: "sc_seen (scan_next st c) = cc_id c # sc_seen st"
  by (simp add: scan_next_def)

lemma after_last_trans: "after_last st c \<Longrightarrow> canon_less c d \<Longrightarrow> after_last st d"
  by (auto simp: after_last_def canon_less_def split: if_splits)

lemma scan_components_Cons:
  "scan_components sha st (c # cs) = Inr st' \<longleftrightarrow>
     validateComponentV2 sha c = Inr () \<and> cc_id c \<notin> set (sc_seen st) \<and> after_last st c
     \<and> scan_components sha (scan_next st c) cs = Inr st'"
  by (cases "validateComponentV2 sha c") (auto simp: scan_next_def after_last_def)

lemma scan_components_iff:
  "scan_components sha st cs = Inr st' \<longleftrightarrow>
     (\<forall>c \<in> set cs. validateComponentV2 sha c = Inr () \<and> cc_id c \<notin> set (sc_seen st) \<and> after_last st c)
     \<and> distinct (map cc_id cs) \<and> sorted_wrt canon_less cs \<and> st' = foldl scan_next st cs"
proof (induction cs arbitrary: st)
  case Nil
  then show ?case by auto
next
  case (Cons c cs)
  show ?case
    unfolding scan_components_Cons Cons.IH after_last_next
    by (auto intro: after_last_trans simp: scan_next_seen image_iff dest: sym)
qed

lemma scan_fold:
  "sc_seen (foldl scan_next st cs) = rev (map cc_id cs) @ sc_seen st"
  "sc_kinds (foldl scan_next st cs) = rev (map cc_kind cs) @ sc_kinds st"
  "sc_memory (foldl scan_next st cs) = length (filter (\<lambda>c. cc_kind c = KindMemory) cs) + sc_memory st"
  "sc_usage (foldl scan_next st cs)
     = foldl (\<lambda>usage c. addUsage usage (cc_tier c) (cc_included_bytes c)) (sc_usage st) cs"
  by (induction cs arbitrary: st) (auto simp: scan_next_def)

definition tier_bytes :: "string \<Rightarrow> ContextComponentV2 list \<Rightarrow> int" where
  "tier_bytes tier cs = sum_list (map cc_included_bytes (filter (\<lambda>c. cc_tier c = tier) cs))"

lemma usage_fold:
  "au_total (foldl (\<lambda>usage c. addUsage usage (cc_tier c) (cc_included_bytes c)) u cs)
     = au_total u + sum_list (map cc_included_bytes cs)"
  "au_required (foldl (\<lambda>usage c. addUsage usage (cc_tier c) (cc_included_bytes c)) u cs)
     = au_required u + tier_bytes TierRequired cs"
  "au_important (foldl (\<lambda>usage c. addUsage usage (cc_tier c) (cc_included_bytes c)) u cs)
     = au_important u + tier_bytes TierImportant cs"
  "au_optional (foldl (\<lambda>usage c. addUsage usage (cc_tier c) (cc_included_bytes c)) u cs)
     = au_optional u + tier_bytes TierOptional cs"
  by (induction cs arbitrary: u) (auto simp: tier_bytes_def addUsage_def Let_def)

lemma usage_of_simps:
  "au_total (usage_of cs) = sum_list (map cc_included_bytes cs)"
  "au_required (usage_of cs) = tier_bytes TierRequired cs"
  "au_important (usage_of cs) = tier_bytes TierImportant cs"
  "au_optional (usage_of cs) = tier_bytes TierOptional cs"
  by (simp_all add: usage_of_def usage_fold no_usage_def)

lemma tier_bytes_sum:
  "\<forall>c \<in> set cs. validTier (cc_tier c) \<Longrightarrow>
     sum_list (map cc_included_bytes cs)
       = tier_bytes TierRequired cs + tier_bytes TierImportant cs + tier_bytes TierOptional cs"
  by (induction cs) (auto simp: tier_bytes_def validTier_def)

lemma scan_omissions_iff:
  "scan_omissions seen lastID oms = Inr () \<longleftrightarrow>
     (\<forall>om \<in> set oms. validateOmissionV2 om = Inr () \<and> om_component_id om \<notin> set seen
        \<and> lastID < om_component_id om)
     \<and> sorted_wrt (<) (map om_component_id oms)"
proof (induction oms arbitrary: seen lastID)
  case Nil
  then show ?case by simp
next
  case (Cons om oms)
  then show ?case
    by (cases "validateOmissionV2 om") (auto simp: not_le)
qed

lemma contractIDPattern_nonempty: "contractIDPattern s \<Longrightarrow> [] < s"
  by (cases s) (auto simp: contractIDPattern_def)

lemma validateBudgetV2_iff:
  "validateBudgetV2 b = Inr () \<longleftrightarrow>
     1 \<le> ab_required b \<and> 0 \<le> ab_important b \<and> 0 \<le> ab_optional b
     \<and> ab_required b + ab_important b + ab_optional b = ab_total b \<and> ab_total b \<le> MaxContextPayloadBytes"
  by (auto simp: validateBudgetV2_def)

lemma validateComponentV2_iff:
  "validateComponentV2 sha c = Inr () \<longleftrightarrow>
     contractIDPattern (cc_id c) \<and> 0 \<le> componentRank (cc_kind c) \<and> validTier (cc_tier c)
     \<and> validSensitivity (cc_sensitivity c) \<and> tierAllowed (cc_kind c) (cc_tier c)
     \<and> validateProvenance (pv_source (cc_provenance c)) (pv_source_version (cc_provenance c))
          (pv_source_hash (cc_provenance c))
     \<and> \<not> blank (pv_reason (cc_provenance c))
     \<and> pv_reason (cc_provenance c) = trim_space (pv_reason (cc_provenance c))
     \<and> length (pv_reason (cc_provenance c)) \<le> 1024
     \<and> valid_utf8 (cc_content c) \<and> cc_content c \<noteq> []
     \<and> length (cc_content c) \<le> MaxComponentContentBytes
     \<and> cc_included_bytes c = int (length (cc_content c)) \<and> cc_content_hash c = sha (cc_content c)
     \<and> (cc_truncation c = TruncationNone \<and> cc_original_bytes c = cc_included_bytes c
        \<or> cc_truncation c = TruncationTail \<and> cc_tier c \<noteq> TierRequired
          \<and> cc_included_bytes c < cc_original_bytes c)"
  unfolding validateComponentV2_def Let_def
  by (simp only: res_simps) (auto simp: not_less not_le)

lemma validateOmissionV2_iff:
  "validateOmissionV2 om = Inr () \<longleftrightarrow>
     contractIDPattern (om_component_id om) \<and> 0 \<le> componentRank (om_kind om) \<and> validTier (om_tier om)
     \<and> tierAllowed (om_kind om) (om_tier om) \<and> validOmissionReason (om_reason om)
     \<and> validHash (om_source_hash om) \<and> 0 \<le> om_original_bytes om \<and> om_tier om \<noteq> TierRequired"
  by (auto simp: validateOmissionV2_def not_less)

lemma ValidateContextEnvelopeV2_iff:
  "ValidateContextEnvelopeV2 sha env = Inr () \<longleftrightarrow>
     ce_schema_version env = EnvelopeV2Version \<and> ce_compiler_version env = CompilerV2Version
     \<and> \<not> blank (ai_run_id (ce_identity env)) \<and> \<not> blank (ai_node_id (ce_identity env))
     \<and> 1 \<le> ai_attempt (ce_identity env) \<and> validateBudgetV2 (ce_budget env) = Inr ()
     \<and> ce_components env \<noteq> [] \<and> length (ce_components env) \<le> MaxContextComponents
     \<and> length (ce_omissions env) \<le> MaxContextOmissions
     \<and> (\<forall>c \<in> set (ce_components env). validateComponentV2 sha c = Inr ())
     \<and> distinct (map cc_id (ce_components env)) \<and> sorted_wrt canon_less (ce_components env)
     \<and> {KindExecutionContract, KindNodeTask, KindOutputContract} \<subseteq> cc_kind ` set (ce_components env)
     \<and> length (filter (\<lambda>c. cc_kind c = KindMemory) (ce_components env)) \<le> MaxSelectedMemoryRecords
     \<and> au_total (usage_of (ce_components env)) \<le> ab_total (ce_budget env)
     \<and> au_required (usage_of (ce_components env)) \<le> ab_required (ce_budget env)
     \<and> au_important (usage_of (ce_components env)) \<le> ab_important (ce_budget env)
     \<and> au_optional (usage_of (ce_components env)) \<le> ab_optional (ce_budget env)
     \<and> (\<forall>om \<in> set (ce_omissions env). validateOmissionV2 om = Inr ()
          \<and> om_component_id om \<notin> cc_id ` set (ce_components env))
     \<and> sorted_wrt (<) (map om_component_id (ce_omissions env))"
proof -
  have rank: "validateComponentV2 sha c = Inr () \<Longrightarrow> after_last scan_start c" for c
    by (simp add: validateComponentV2_iff after_last_def scan_start_def)
  have ids: "validateOmissionV2 om = Inr () \<Longrightarrow> [] < om_component_id om" for om
    using contractIDPattern_nonempty by (simp add: validateOmissionV2_iff)
  have usage: "sc_usage (foldl scan_next scan_start cs) = usage_of cs" for cs
    by (simp add: scan_fold usage_of_def scan_start_def)
  have start: "sc_seen scan_start = []" "sc_kinds scan_start = []" "sc_memory scan_start = 0"
    by (simp_all add: scan_start_def)
  show ?thesis
    unfolding ValidateContextEnvelopeV2_def
    by (simp only: res_simps scan_components_iff scan_omissions_iff)
      (auto simp: scan_fold(1-3) usage start not_less not_le rank ids simp del: less_list_code)
qed

end
