(* ===== verification/Context_Compiler.thy ===== *)
theory Context_Compiler
  imports Context_Contract
begin

section \<open>The context compiler (internal/contextcompiler/compiler_v2.go)\<close>

text \<open>
  The pure compiler: it checks resolved sources and the engine-owned contracts, gives the
  important tier a max-min fair share of its budget (a binary search for the water
  level, then the rest byte by byte), keeps the tails of what does not fit, packs
  optional records whole, and records every component left out. \<open>sha\<close> is the hex
  SHA-256 of a byte string. Sizes are natural numbers; all of them are bounded by the
  contract, so Go's \<^verbatim>\<open>int\<close> does not overflow.
\<close>

record ContextSourceResolutionV2 =
  sr_components :: "ContextComponentV2 list"
  sr_omissions :: "ContextOmissionV2 list"

record ContextCompilerInputV2 =
  ci_identity :: AttemptIdentity
  ci_resolution :: ContextSourceResolutionV2
  ci_execution_contract :: ContextComponentV2
  ci_output_contract :: ContextComponentV2
  ci_budget :: AttentionBudgetV2

record CompilationV2 =
  cv_envelope :: ContextEnvelopeV2
  cv_manifest :: ContextManifestV2
  cv_hash :: string

subsection \<open>Balanced allocation\<close>

text \<open>The sum of the sizes capped at \<open>mid\<close>, abandoned once it is over the budget.\<close>

fun level_total :: "nat \<Rightarrow> nat \<Rightarrow> nat \<Rightarrow> nat list \<Rightarrow> nat" where
  "level_total budget mid acc [] = acc"
| "level_total budget mid acc (s # ss) =
     (let acc = acc + (if s < mid then s else mid) in
      if acc > budget then acc else level_total budget mid acc ss)"

function water_level :: "nat list \<Rightarrow> nat \<Rightarrow> nat \<Rightarrow> nat \<Rightarrow> nat" where
  "water_level sizes budget lo hi =
     (if lo < hi then
        let mid = (lo + hi + 1) div 2 in
        if level_total budget mid 0 sizes \<le> budget then water_level sizes budget mid hi
        else water_level sizes budget lo (mid - 1)
      else lo)"
  by pat_completeness auto
termination
  by (relation "measure (\<lambda>(sizes, budget, lo, hi). hi - lo)") auto

declare water_level.simps [simp del]

text \<open>One more byte for each unsatisfied component while bytes are left.\<close>

fun give_one :: "nat \<Rightarrow> (nat \<times> nat) list \<Rightarrow> nat list \<times> nat" where
  "give_one left [] = ([], left)"
| "give_one left ((a, s) # r) =
     (if left = 0 then (a # map fst r, left)
      else if a < s then (let (al, left') = give_one (left - 1) r in ((a + 1) # al, left'))
      else (let (al, left') = give_one left r in (a # al, left')))"

text \<open>An equal share for each unsatisfied component, one more for the first \<open>remainder\<close>.\<close>

fun give_share :: "nat \<Rightarrow> nat \<Rightarrow> nat \<Rightarrow> nat \<Rightarrow> (nat \<times> nat) list \<Rightarrow> nat list \<times> nat" where
  "give_share share remainder seen left [] = ([], left)"
| "give_share share remainder seen left ((a, s) # r) =
     (if a \<ge> s then (let (al, left') = give_share share remainder seen left r in (a # al, left'))
      else let add = (if seen < remainder then share + 1 else share);
               add = (if add > s - a then s - a else add);
               (al, left') = give_share share remainder (seen + 1) (left - add) r
           in ((a + add) # al, left'))"

definition unsatisfied :: "nat list \<Rightarrow> nat list \<Rightarrow> nat" where
  "unsatisfied a sizes = length (filter (\<lambda>(x, s). x < s) (zip a sizes))"

lemma give_one_left: "snd (give_one left r) = left - length (filter (\<lambda>(x, s). x < s) r)"
  by (induction left r rule: give_one.induct) (auto split: prod.splits)

lemma give_share_left: "snd (give_share share remainder seen left r) \<le> left"
proof (induction share remainder seen left r rule: give_share.induct)
  case (1 share remainder seen left)
  then show ?case by simp
next
  case (2 share remainder seen left a s r)
  then show ?case
    by (fastforce simp: Let_def split: prod.splits if_splits intro: le_trans)
qed

function water_fill :: "nat list \<Rightarrow> nat list \<Rightarrow> nat \<Rightarrow> nat list" where
  "water_fill sizes a left =
     (if left = 0 then a
      else let active = unsatisfied a sizes in
        if active = 0 then a
        else let share = left div active; remainder = left mod active in
          if share = 0 then
            (let (a', left') = give_one left (zip a sizes) in water_fill sizes a' left')
          else
            (let (a', left') = give_share share remainder 0 left (zip a sizes) in
             if left' = left then a' else water_fill sizes a' left'))"
  by pat_completeness auto
termination
proof (relation "measure (\<lambda>(sizes, a, left). left)", goal_cases)
  case 1
  then show ?case by simp
next
  case (2 sizes a left active share remainder x a' left')
  from 2(7) 2(8) have "left' = left - unsatisfied a sizes"
    using give_one_left [of left "zip a sizes"] by (simp add: unsatisfied_def) (metis snd_conv)
  with 2 show ?case by (auto simp: split_beta dest: sym)
next
  case (3 sizes a left active share remainder x a' left')
  have "left' \<le> left"
    using 3(7) 3(8) give_share_left [of share remainder 0 left "zip a sizes"] by (metis snd_conv)
  with 3 show ?case by (auto simp: split_beta dest: sym)
qed

declare water_fill.simps [simp del]

definition balanced_sizes :: "nat list \<Rightarrow> nat \<Rightarrow> nat list" where
  "balanced_sizes sizes budget =
     (let level = water_level sizes budget 0 (foldl max 0 sizes);
          a = map (\<lambda>s. if s < level then s else level) sizes
      in water_fill sizes a (budget - sum_list a))"

definition balancedAlloc :: "ContextComponentV2 list \<Rightarrow> int \<Rightarrow> nat list" where
  "balancedAlloc cs budget =
     (if length cs = 0 \<or> budget \<le> 0 then replicate (length cs) 0
      else balanced_sizes (map (\<lambda>c. length (cc_content c)) cs) (nat budget))"

subsection \<open>Allocation\<close>

text \<open>\<^verbatim>\<open>utf8.RuneStart(b)\<close> is \<^verbatim>\<open>b & 0xC0 != 0x80\<close>: not a continuation byte.\<close>

definition validTail :: "string \<Rightarrow> nat \<Rightarrow> string" where
  "validTail content maxBytes =
     (if maxBytes \<ge> length content then content
      else if maxBytes = 0 then ''''
      else dropWhile (\<lambda>c. cont_byte (byte c)) (drop (length content - maxBytes) content))"

definition omissionFor :: "ContextComponentV2 \<Rightarrow> ContextOmissionV2" where
  "omissionFor c =
     \<lparr>om_component_id = cc_id c, om_kind = cc_kind c, om_tier = cc_tier c,
      om_reason = OmissionBudgetExhausted, om_source_hash = pv_source_hash (cc_provenance c),
      om_original_bytes = cc_original_bytes c\<rparr>"

definition sumBytes :: "ContextComponentV2 list \<Rightarrow> int" where
  "sumBytes cs = sum_list (map (\<lambda>c. int (length (cc_content c))) cs)"

definition truncate_to :: "(string \<Rightarrow> string) \<Rightarrow> ContextComponentV2 \<Rightarrow> string \<Rightarrow> ContextComponentV2" where
  "truncate_to sha c content =
     c\<lparr>cc_content := content, cc_included_bytes := int (length content), cc_content_hash := sha content,
       cc_truncation := TruncationTail\<rparr>"

fun allocate_important ::
  "(string \<Rightarrow> string) \<Rightarrow> (ContextComponentV2 \<times> nat) list
     \<Rightarrow> ContextComponentV2 list \<times> ContextOmissionV2 list" where
  "allocate_important sha [] = ([], [])"
| "allocate_important sha ((c, n) # rest) =
     (let (included, omitted) = allocate_important sha rest in
      if n = 0 then (included, omitted)
      else if n < length (cc_content c)
      then (let content = validTail (cc_content c) n in
            if content = '''' then (included, omissionFor c # omitted)
            else (truncate_to sha c content # included, omitted))
      else (c # included, omitted))"

fun allocate_optional ::
  "int \<Rightarrow> ContextComponentV2 list \<Rightarrow> ContextComponentV2 list \<times> ContextOmissionV2 list" where
  "allocate_optional remaining [] = ([], [])"
| "allocate_optional remaining (c # rest) =
     (let size = int (length (cc_content c)) in
      if size \<le> remaining
      then (let (included, omitted) = allocate_optional (remaining - size) rest in (c # included, omitted))
      else (let (included, omitted) = allocate_optional remaining rest in (included, omissionFor c # omitted)))"

abbreviation of_tier :: "string \<Rightarrow> ContextComponentV2 list \<Rightarrow> ContextComponentV2 list" where
  "of_tier tier cs \<equiv> filter (\<lambda>c. cc_tier c = tier) cs"

definition by_component_id :: "ContextOmissionV2 \<Rightarrow> ContextOmissionV2 \<Rightarrow> bool" where
  "by_component_id a b \<longleftrightarrow> om_component_id a < om_component_id b"

definition allocateV2 ::
  "(string \<Rightarrow> string) \<Rightarrow> ContextComponentV2 list \<Rightarrow> AttentionBudgetV2
     \<Rightarrow> ContextError + (ContextComponentV2 list \<times> ContextOmissionV2 list)" where
  "allocateV2 sha sources budget =
     (let required = sort_by canon_less (of_tier TierRequired sources);
          important = sort_by canon_less (of_tier TierImportant sources);
          optional = of_tier TierOptional sources in
      if sumBytes required > ab_required budget
      then Inl (ContextError CodeContextBudgetUnsatisfiable ''required Context exceeds required tier budget'' '''')
      else
        let shares = zip important (balancedAlloc important (ab_important budget));
            (imp_in, imp_out) = allocate_important sha shares;
            zero_out = map (\<lambda>(c, n). omissionFor c) (filter (\<lambda>(c, n). n = 0) shares);
            (opt_in, opt_out) = allocate_optional (ab_optional budget)
              (sort_by (\<lambda>a b. cc_id a < cc_id b) optional)
        in Inr (sort_by canon_less (required @ imp_in @ opt_in),
                sort_by by_component_id (imp_out @ zero_out @ opt_out)))"

subsection \<open>Compilation\<close>

definition trim_byte :: "char \<Rightarrow> bool" where
  "trim_byte c \<longleftrightarrow> c = CHR '' '' \<or> c = CHR 0x09 \<or> c = CHR 0x0D \<or> c = CHR 0x0A"

definition stringsTrim :: "string \<Rightarrow> string" where
  "stringsTrim s = rev (dropWhile trim_byte (rev (dropWhile trim_byte s)))"

fun check_sources ::
  "(string \<Rightarrow> string) \<Rightarrow> string list \<Rightarrow> ContextComponentV2 list \<Rightarrow> ContextError + string list" where
  "check_sources sha seen [] = Inr seen"
| "check_sources sha seen (c # cs) =
     (if cc_kind c = KindExecutionContract \<or> cc_kind c = KindOutputContract
      then Inl (ContextError CodeContextInvalidComponent
        ''source resolution cannot provide engine-owned contracts'' (cc_id c))
      else case validateComponentV2 sha c of
        Inl e \<Rightarrow> Inl e
      | Inr _ \<Rightarrow>
        if cc_truncation c \<noteq> TruncationNone \<or> cc_original_bytes c \<noteq> cc_included_bytes c
        then Inl (ContextError CodeContextInvalidComponent
          ''source resolution components must be complete and untruncated'' (cc_id c))
        else if cc_id c \<in> set seen
        then Inl (ContextError CodeContextInvalidComponent ''duplicate Context component ID'' (cc_id c))
        else check_sources sha (cc_id c # seen) cs)"

fun check_omissions :: "string list \<Rightarrow> ContextOmissionV2 list \<Rightarrow> ContextError + string list" where
  "check_omissions seen [] = Inr seen"
| "check_omissions seen (om # oms) =
     (case validateOmissionV2 om of
        Inl e \<Rightarrow> Inl e
      | Inr _ \<Rightarrow>
        if om_component_id om \<in> set seen
        then Inl (ContextError CodeContextInvalidComponent
          ''included and omitted component IDs overlap'' (om_component_id om))
        else check_omissions (om_component_id om # seen) oms)"

definition validateEngineContract ::
  "(string \<Rightarrow> string) \<Rightarrow> ContextComponentV2 \<Rightarrow> string \<Rightarrow> ContextError + unit" where
  "validateEngineContract sha c kind =
     (if cc_kind c \<noteq> kind \<or> cc_tier c \<noteq> TierRequired
      then Inl (ContextError CodeContextInvalidComponent
        (''engine-owned '' @ kind @ '' contract must be required'') (cc_id c))
      else if \<not> valid_utf8 (cc_content c)
      then Inl (ContextError CodeContextInvalidComponent ''engine contract content is not valid UTF-8'' (cc_id c))
      else validateComponentV2 sha c)"

text \<open>The checks before the allocation; the result is the sources with the two contracts.\<close>

definition compile_checks ::
  "(string \<Rightarrow> string) \<Rightarrow> ContextCompilerInputV2 \<Rightarrow> ContextError + ContextComponentV2 list" where
  "compile_checks sha input =
     (let bad = (\<lambda>message subject. Inl (ContextError CodeContextInvalidComponent message subject));
          sources = sr_components (ci_resolution input);
          omissions = sr_omissions (ci_resolution input);
          exec = ci_execution_contract input;
          outc = ci_output_contract input in
      case validateBudgetV2 (ci_budget input) of Inl e \<Rightarrow> Inl e | Inr _ \<Rightarrow>
      if stringsTrim (ai_run_id (ci_identity input)) = '''' \<or> stringsTrim (ai_node_id (ci_identity input)) = ''''
         \<or> ai_attempt (ci_identity input) < 1
      then bad ''Attempt identity is incomplete'' ''''
      else if length sources > MaxContextComponents \<or> length omissions > MaxContextOmissions
      then bad ''Context source count exceeds its bound'' ''''
      else (case check_sources sha [] sources of Inl e \<Rightarrow> Inl e | Inr seen \<Rightarrow>
      (case check_omissions seen omissions of Inl e \<Rightarrow> Inl e | Inr seen \<Rightarrow>
      (case validateEngineContract sha exec KindExecutionContract of Inl e \<Rightarrow> Inl e | Inr _ \<Rightarrow>
      (case validateEngineContract sha outc KindOutputContract of Inl e \<Rightarrow> Inl e | Inr _ \<Rightarrow>
       if cc_id exec \<in> set seen
       then bad ''engine contract ID overlaps source resolution'' (cc_id exec)
       else if cc_id outc \<in> set seen \<or> cc_id outc = cc_id exec
       then bad ''engine contract IDs overlap source resolution'' (cc_id outc)
       else Inr (sources @ [exec, outc]))))))"

definition CompileContextV2 ::
  "(string \<Rightarrow> string) \<Rightarrow> ContextCompilerInputV2 \<Rightarrow> ContextError + CompilationV2" where
  "CompileContextV2 sha input =
     (case compile_checks sha input of Inl e \<Rightarrow> Inl e | Inr sources \<Rightarrow>
     (case allocateV2 sha sources (ci_budget input) of Inl e \<Rightarrow> Inl e | Inr (components, budgetOmissions) \<Rightarrow>
      let omissions = sort_by by_component_id (sr_omissions (ci_resolution input) @ budgetOmissions) in
      if length omissions > MaxContextOmissions
      then Inl (ContextError CodeContextInvalidComponent ''Context omission count exceeds its bound'' '''')
      else
        let env = \<lparr>ce_schema_version = EnvelopeV2Version, ce_compiler_version = CompilerV2Version,
                    ce_identity = ci_identity input, ce_budget = ci_budget input,
                    ce_components = components, ce_omissions = omissions\<rparr> in
        (case ValidateContextEnvelopeV2 sha env of Inl e \<Rightarrow> Inl e | Inr _ \<Rightarrow>
        (case CanonicalEnvelopeHashV2 sha env of Inl e \<Rightarrow> Inl e | Inr hash \<Rightarrow>
        (case BuildContextManifestV2 sha env of Inl e \<Rightarrow> Inl e | Inr manifest \<Rightarrow>
         Inr \<lparr>cv_envelope = env, cv_manifest = manifest, cv_hash = hash\<rparr>)))))"

subsection \<open>The default budget policy (budget\_policy\_v1.go)\<close>

definition DefaultBudgetPolicyV1 :: AttentionBudgetV2 where
  "DefaultBudgetPolicyV1 =
     \<lparr>ab_total = 128 * 1024, ab_required = 64 * 1024, ab_important = 48 * 1024, ab_optional = 16 * 1024\<rparr>"

definition AttentionBudget :: "AttentionBudgetV2 \<Rightarrow> ContextError + AttentionBudgetV2" where
  "AttentionBudget p = (case validateBudgetV2 p of Inl e \<Rightarrow> Inl e | Inr _ \<Rightarrow> Inr p)"

definition ValidateBudgetPolicyV1 :: "AttentionBudgetV2 \<Rightarrow> ContextError + unit" where
  "ValidateBudgetPolicyV1 policy =
     (if policy \<noteq> DefaultBudgetPolicyV1
      then Inl (ContextError CodeContextBudgetUnsatisfiable
        ''BudgetPolicyV1 must use the stable 128 KiB 4:3:1 default'' '''')
      else case AttentionBudget policy of Inl e \<Rightarrow> Inl e | Inr _ \<Rightarrow> Inr ())"

end
