(* ===== verification/Context_Allocation.thy ===== *)
theory Context_Allocation
  imports Context_Compiler "HOL-Library.Sublist"
begin

section \<open>What the context compiler guarantees\<close>

text \<open>
  The facts behind the properties of the compiler: the water level found by the binary
  search is the greatest one that fits, the tail of valid UTF-8 cut at a rune start is
  valid UTF-8, and the allocation keeps or records every source within the budget of
  each tier.
\<close>

subsection \<open>The water level\<close>

definition capped_sum :: "nat \<Rightarrow> nat list \<Rightarrow> nat" where
  "capped_sum level sizes = sum_list (map (\<lambda>s. min s level) sizes)"

lemma capped_sum_mono: "l \<le> l' \<Longrightarrow> capped_sum l ss \<le> capped_sum l' ss"
  unfolding capped_sum_def by (rule sum_list_mono) auto

lemma level_total_iff:
  "acc \<le> budget \<Longrightarrow> level_total budget mid acc ss \<le> budget \<longleftrightarrow> acc + capped_sum mid ss \<le> budget"
proof (induction ss arbitrary: acc)
  case Nil
  then show ?case by (simp add: capped_sum_def)
next
  case (Cons s ss)
  have m: "(if s < mid then s else mid) = min s mid" by auto
  show ?case
  proof (cases "acc + min s mid \<le> budget")
    case True
    with Cons.IH [OF True] show ?thesis by (simp add: m Let_def capped_sum_def add.assoc)
  next
    case False
    then show ?thesis by (auto simp: m Let_def capped_sum_def)
  qed
qed

lemma water_level_spec:
  assumes "capped_sum lo ss \<le> budget" and "lo \<le> hi" and "hi = cap \<or> budget < capped_sum (hi + 1) ss"
    and "hi \<le> cap"
  shows "capped_sum (water_level ss budget lo hi) ss \<le> budget \<and> water_level ss budget lo hi \<le> cap
    \<and> (water_level ss budget lo hi = cap \<or> budget < capped_sum (water_level ss budget lo hi + 1) ss)"
  using assms
proof (induction ss budget lo hi rule: water_level.induct)
  case (1 sizes budget lo hi)
  show ?case
  proof (cases "lo < hi")
    case False
    with 1(3-) show ?thesis by (subst (1 2 3 4) water_level.simps) auto
  next
    case True
    define mid where "mid = (lo + hi + 1) div 2"
    have mid: "lo < mid" "mid \<le> hi" using True by (auto simp: mid_def)
    have unf: "water_level sizes budget lo hi =
        (if capped_sum mid sizes \<le> budget then water_level sizes budget mid hi
         else water_level sizes budget lo (mid - 1))"
      using True level_total_iff [of 0 budget mid sizes] by (subst water_level.simps) (simp add: mid_def Let_def)
    show ?thesis
    proof (cases "capped_sum mid sizes \<le> budget")
      case c: True
      then have "level_total budget mid 0 sizes \<le> budget" using level_total_iff [of 0 budget mid sizes] by simp
      with 1(1) [OF True mid_def] c mid 1(5,6) show ?thesis by (simp add: unf)
    next
      case c: False
      then have "\<not> level_total budget mid 0 sizes \<le> budget" using level_total_iff [of 0 budget mid sizes] by simp
      with 1(2) [OF True mid_def] c mid 1(3,6) show ?thesis by (simp add: unf)
    qed
  qed
qed

lemma give_one_sum: "give_one left r = (al, left') \<Longrightarrow> sum_list al + left' = sum_list (map fst r) + left"
proof (induction left r arbitrary: al left' rule: give_one.induct)
  case (1 left)
  then show ?case by simp
next
  case (2 left a s r)
  then show ?case by (cases "left = 0"; cases "a < s") (fastforce split: prod.splits)+
qed

lemma give_one_rel:
  "give_one left r = (al, left') \<Longrightarrow> list_all2 (\<lambda>(a, s) y. y = a \<or> y = a + 1 \<and> a < s) r al"
proof (induction left r arbitrary: al left' rule: give_one.induct)
  case (1 left)
  then show ?case by simp
next
  case (2 left a s r)
  have self: "list_all2 (\<lambda>(a, s) y. y = a \<or> y = a + 1 \<and> a < s) r (map fst r)" for r :: "(nat \<times> nat) list"
    by (induction r) auto
  show ?case
    using 2 self by (cases "left = 0"; cases "a < s") (fastforce split: prod.splits)+
qed

lemma water_fill_few:
  assumes "length a = length sizes" and "left < unsatisfied a sizes \<or> unsatisfied a sizes = 0"
  shows "length (water_fill sizes a left) = length sizes"
    "list_all2 (\<lambda>(x, s) y. y = x \<or> y = x + 1 \<and> x < s) (zip a sizes) (water_fill sizes a left)"
    "sum_list (water_fill sizes a left) = sum_list a + (if unsatisfied a sizes = 0 then 0 else left)"
proof -
  have self: "list_all2 (\<lambda>(x, s) y. y = x \<or> y = x + 1 \<and> x < s) (zip a sizes) a"
    using assms(1) by (induction a sizes rule: list_induct2) auto
  show "length (water_fill sizes a left) = length sizes"
    "list_all2 (\<lambda>(x, s) y. y = x \<or> y = x + 1 \<and> x < s) (zip a sizes) (water_fill sizes a left)"
    "sum_list (water_fill sizes a left) = sum_list a + (if unsatisfied a sizes = 0 then 0 else left)"
  proof (atomize (full), cases "left = 0 \<or> unsatisfied a sizes = 0")
    case True
    then have "water_fill sizes a left = a" by (subst water_fill.simps) auto
    with True self assms(1) show "length (water_fill sizes a left) = length sizes \<and>
      list_all2 (\<lambda>(x, s) y. y = x \<or> y = x + 1 \<and> x < s) (zip a sizes) (water_fill sizes a left) \<and>
      sum_list (water_fill sizes a left) = sum_list a + (if unsatisfied a sizes = 0 then 0 else left)"
      by auto
  next
    case False
    obtain a' left' where g: "give_one left (zip a sizes) = (a', left')" by fastforce
    have "left' = 0"
      using give_one_left [of left "zip a sizes"] g assms(2) False by (simp add: unsatisfied_def)
    then have "water_fill sizes a left = a'"
      using False assms(2) g by (subst water_fill.simps) (simp add: Let_def water_fill.simps)
    with give_one_sum [OF g] give_one_rel [OF g] False \<open>left' = 0\<close> assms(1)
    show "length (water_fill sizes a left) = length sizes \<and>
      list_all2 (\<lambda>(x, s) y. y = x \<or> y = x + 1 \<and> x < s) (zip a sizes) (water_fill sizes a left) \<and>
      sum_list (water_fill sizes a left) = sum_list a + (if unsatisfied a sizes = 0 then 0 else left)"
      by (auto dest: list_all2_lengthD)
  qed
qed

text \<open>What the allocation promises: max-min fairness within the budget.\<close>

definition fair_split :: "nat list \<Rightarrow> nat \<Rightarrow> nat list \<Rightarrow> bool" where
  "fair_split sizes budget a \<longleftrightarrow>
     length a = length sizes \<and> sum_list a = min budget (sum_list sizes)
     \<and> (\<exists>level. list_all2 (\<lambda>s x. x = min s level \<or> x = level + 1 \<and> level < s) sizes a)"

lemma capped_sum_all: "\<forall>s \<in> set ss. s \<le> l \<Longrightarrow> map (\<lambda>s. min s l) ss = ss"
  by (induction ss) (auto simp: min_absorb1)

lemma capped_sum_le: "capped_sum l ss \<le> sum_list ss"
  unfolding capped_sum_def using sum_list_mono [of ss "\<lambda>s. min s l" "\<lambda>s. s"] by simp

lemma unsatisfied_capped: "unsatisfied (map (\<lambda>s. min s l) ss) ss = length (filter (\<lambda>s. l < s) ss)"
  unfolding unsatisfied_def by (induction ss) auto

lemma capped_sum_Suc: "capped_sum (Suc l) ss = capped_sum l ss + length (filter (\<lambda>s. l < s) ss)"
  unfolding capped_sum_def by (induction ss) auto

lemma foldl_max: "(\<forall>s \<in> set ss. s \<le> foldl max (m :: nat) ss) \<and> m \<le> foldl max m ss"
proof (induction ss arbitrary: m)
  case Nil
  show ?case by simp
next
  case (Cons s ss)
  from Cons.IH [of "max m s"] show ?case by auto
qed

lemma balanced_sizes_fair: "fair_split sizes budget (balanced_sizes sizes budget)"
proof -
  define top where "top = foldl max 0 sizes"
  define level where "level = water_level sizes budget 0 top"
  define a where "a = map (\<lambda>s. min s level) sizes"
  have a_eq: "map (\<lambda>s. if s < level then s else level) sizes = a"
    by (auto simp: a_def)
  have sum_a: "sum_list a = capped_sum level sizes" by (simp add: a_def capped_sum_def)
  have lv: "capped_sum level sizes \<le> budget" "level = top \<or> budget < capped_sum (level + 1) sizes"
    using water_level_spec [of 0 sizes budget top top] by (auto simp: level_def capped_sum_def sum_list_0)
  have un: "unsatisfied a sizes = length (filter (\<lambda>s. level < s) sizes)"
    by (simp add: a_def unsatisfied_capped)
  have few: "budget - sum_list a < unsatisfied a sizes \<or> unsatisfied a sizes = 0"
    using lv(2)
  proof
    assume "level = top"
    then show ?thesis using foldl_max [of sizes 0] by (auto simp: un top_def filter_empty_conv not_less)
  next
    assume "budget < capped_sum (level + 1) sizes"
    then have "budget - sum_list a < unsatisfied a sizes"
      using lv(1) by (simp add: capped_sum_Suc un sum_a less_diff_conv2)
    then show ?thesis ..
  qed
  have len: "length a = length sizes" by (simp add: a_def)
  note f = water_fill_few [OF len few]
  have bal: "balanced_sizes sizes budget = water_fill sizes a (budget - sum_list a)"
    unfolding balanced_sizes_def Let_def top_def [symmetric] level_def [symmetric] a_eq ..
  have "sum_list (water_fill sizes a (budget - sum_list a)) = min budget (sum_list sizes)"
  proof (cases "unsatisfied a sizes = 0")
    case True
    then have "\<forall>s \<in> set sizes. s \<le> level" by (auto simp: un filter_empty_conv not_less)
    then have "a = sizes" by (simp add: a_def capped_sum_all)
    with f(3) True lv(1) sum_a show ?thesis by simp
  next
    case False
    have "budget < sum_list sizes"
      using False few lv(1) capped_sum_Suc [of level sizes] capped_sum_le [of "Suc level" sizes]
      by (simp add: un sum_a)
    with f(3) False lv(1) sum_a show ?thesis by simp
  qed
  moreover have "list_all2 (\<lambda>s x. x = min s level \<or> x = level + 1 \<and> level < s) sizes
      (water_fill sizes a (budget - sum_list a))"
    using f(2) len unfolding a_def
    by (auto simp: list_all2_conv_all_nth)
  ultimately show ?thesis using f(1) by (auto simp: fair_split_def bal)
qed

subsection \<open>Tails of valid UTF-8\<close>

lemma decode_rune_cont:
  "decode_rune bs = (r, k) \<Longrightarrow> 0 < i \<Longrightarrow> i < k \<Longrightarrow> cont_byte (bs ! i)"
proof (cases bs)
  case (Cons b0 cs)
  assume d: "decode_rune bs = (r, k)" and i: "0 < i" "i < k"
  consider (c1) "i = 1" | (c2) "i = 2" | (c3) "i = 3" | (c4) "4 \<le> i" using i by linarith
  then show ?thesis
    by cases (use d i Cons in \<open>auto simp: cont_byte_def split: if_splits list.splits\<close>)
qed auto

lemma valid_utf8_drop:
  "valid_utf8 s \<Longrightarrow> n < length s \<Longrightarrow> \<not> cont_byte (byte (s ! n)) \<Longrightarrow> valid_utf8 (drop n s)"
proof (induction s arbitrary: n rule: runes.induct)
  case (1 s)
  obtain r k where d: "decode_rune (map byte s) = (r, k)" by fastforce
  have s: "s \<noteq> []" using 1(3) by auto
  have v: "valid_utf8 (drop k s)"
    using 1(2) s d by (subst (asm) valid_utf8_def, subst (asm) runes.simps) (auto simp: valid_utf8_def)
  show ?case
  proof (cases "n < k")
    case True
    have "n = 0"
      using decode_rune_cont [OF d, of n] True 1(3,4) by (cases "n = 0") auto
    with 1(2) show ?thesis by simp
  next
    case False
    with 1(1) [OF s, of "(r, k)" r k "n - k"] d v 1(3,4) show ?thesis by simp
  qed
qed

lemma valid_utf8_ascii: "list_all (\<lambda>c. byte c < 128) s \<Longrightarrow> valid_utf8 s"
proof (induction s)
  case Nil
  then show ?case by (simp add: valid_utf8_def)
next
  case (Cons c s)
  then have "decode_rune (map byte (c # s)) = (byte c, 1)" by simp
  then have "runes (c # s) = (byte c, [c]) # runes s" by (subst runes.simps) simp
  with Cons show ?case by (simp add: valid_utf8_def)
qed

lemma validTail_cases:
  obtains (all) "length s \<le> n" "validTail s n = s"
  | (none) "n < length s" "validTail s n = []"
  | (tail) m where "n < length s" "length s - n \<le> m" "m < length s" "validTail s n = drop m s"
      "\<not> cont_byte (byte (s ! m))"
proof (cases "length s \<le> n \<or> validTail s n = []")
  case True
  then show ?thesis using all none by (cases "length s \<le> n") (auto simp: validTail_def)
next
  case False
  define k where "k = length s - n"
  define j where "j = length (takeWhile (\<lambda>c. cont_byte (byte c)) (drop k s))"
  have t: "validTail s n = dropWhile (\<lambda>c. cont_byte (byte c)) (drop k s)"
    using False by (auto simp: validTail_def k_def split: if_splits)
  have d: "validTail s n = drop (j + k) s" by (simp add: t dropWhile_eq_drop j_def)
  have lt: "j + k < length s" using False d by (metis drop_all not_le)
  have "\<not> cont_byte (byte (hd (validTail s n)))" using False t by (metis hd_dropWhile)
  then have "\<not> cont_byte (byte (s ! (j + k)))" using d lt by (simp add: hd_drop_conv_nth)
  with tail [of "j + k"] lt d False show ?thesis by (simp add: k_def)
qed

lemma validTail_length: "length (validTail s n) \<le> n"
  by (cases rule: validTail_cases [of s n]) auto

lemma validTail_suffix: "suffix (validTail s n) s"
  by (cases rule: validTail_cases [of s n]) (auto simp: suffix_drop)

lemma validTail_utf8: "valid_utf8 s \<Longrightarrow> valid_utf8 (validTail s n)"
  by (cases rule: validTail_cases [of s n]) (auto simp: valid_utf8_drop valid_utf8_def [of "[]"])

subsection \<open>Allocation of the tiers\<close>

text \<open>How a component of the envelope stems from a source.\<close>

definition kept :: "(string \<Rightarrow> string) \<Rightarrow> ContextComponentV2 \<Rightarrow> ContextComponentV2 \<Rightarrow> bool" where
  "kept sha c c' \<longleftrightarrow> c' = c \<or>
     (cc_tier c = TierImportant \<and>
      (\<exists>t. strict_suffix t (cc_content c) \<and> t \<noteq> [] \<and> (valid_utf8 (cc_content c) \<longrightarrow> valid_utf8 t)
        \<and> c' = truncate_to sha c t))"

lemma truncate_to_simps [simp]:
  "cc_id (truncate_to sha c t) = cc_id c" "cc_kind (truncate_to sha c t) = cc_kind c"
  "cc_tier (truncate_to sha c t) = cc_tier c" "cc_sensitivity (truncate_to sha c t) = cc_sensitivity c"
  "cc_provenance (truncate_to sha c t) = cc_provenance c"
  "cc_original_bytes (truncate_to sha c t) = cc_original_bytes c"
  "cc_content (truncate_to sha c t) = t" "cc_content_hash (truncate_to sha c t) = sha t"
  "cc_included_bytes (truncate_to sha c t) = int (length t)"
  "cc_truncation (truncate_to sha c t) = TruncationTail"
  by (simp_all add: truncate_to_def)

lemma kept_same: "kept sha c c' \<Longrightarrow> cc_id c' = cc_id c \<and> cc_kind c' = cc_kind c \<and> cc_tier c' = cc_tier c
    \<and> cc_provenance c' = cc_provenance c \<and> suffix (cc_content c') (cc_content c)"
  by (auto simp: kept_def strict_suffix_def)

lemma omissionFor_simps [simp]:
  "om_component_id (omissionFor c) = cc_id c" "om_tier (omissionFor c) = cc_tier c"
  "om_kind (omissionFor c) = cc_kind c" "om_reason (omissionFor c) = OmissionBudgetExhausted"
  "om_source_hash (omissionFor c) = pv_source_hash (cc_provenance c)"
  "om_original_bytes (omissionFor c) = cc_original_bytes c"
  by (simp_all add: omissionFor_def)

lemma strict_suffix_length: "strict_suffix t s \<Longrightarrow> length t < length s"
  by (auto simp: strict_suffix_def suffix_def)

lemma kept_valid:
  assumes "validateComponentV2 sha c = Inr ()" and "cc_truncation c = TruncationNone" and "kept sha c c'"
  shows "validateComponentV2 sha c' = Inr ()"
proof (cases "c' = c")
  case True
  with assms(1) show ?thesis by simp
next
  case False
  with assms(3) obtain t where t: "cc_tier c = TierImportant" "strict_suffix t (cc_content c)" "t \<noteq> []"
      "valid_utf8 (cc_content c) \<longrightarrow> valid_utf8 t" "c' = truncate_to sha c t"
    by (auto simp: kept_def)
  with assms(1,2) strict_suffix_length [OF t(2)] show ?thesis by (auto simp: validateComponentV2_iff)
qed

lemma omissionFor_valid:
  "validateComponentV2 sha c = Inr () \<Longrightarrow> cc_tier c \<noteq> TierRequired \<Longrightarrow>
     validateOmissionV2 (omissionFor c) = Inr ()"
  by (auto simp: validateComponentV2_iff validateOmissionV2_iff validOmissionReason_def validateProvenance_def)

lemma validTail_kept:
  assumes "cc_tier c = TierImportant" and "n < length (cc_content c)" and "validTail (cc_content c) n \<noteq> []"
  shows "kept sha c (truncate_to sha c (validTail (cc_content c) n))"
proof -
  have "strict_suffix (validTail (cc_content c) n) (cc_content c)"
    using validTail_suffix [of "cc_content c" n] validTail_length [of "cc_content c" n] assms(2)
    by (auto simp: strict_suffix_def)
  with assms validTail_utf8 show ?thesis by (auto simp: kept_def)
qed

lemma allocate_important_spec:
  assumes "allocate_important sha shares = (inc, omi)" and "\<forall>(c, n) \<in> set shares. cc_tier c = TierImportant"
  shows "mset (map cc_id inc) + mset (map om_component_id omi)
      + mset (map cc_id (map fst (filter (\<lambda>(c, n). n = 0) shares))) = mset (map cc_id (map fst shares))"
    and "\<forall>c' \<in> set inc. \<exists>c \<in> fst ` set shares. kept sha c c'"
    and "set omi \<subseteq> omissionFor ` fst ` set shares"
    and "sumBytes inc \<le> int (sum_list (map snd shares))"
  using assms
proof (atomize (full), induction sha shares arbitrary: inc omi rule: allocate_important.induct)
  case (1 sha)
  then show ?case by (simp add: sumBytes_def)
next
  case (2 sha c n rest)
  obtain inc' omi' where r: "allocate_important sha rest = (inc', omi')" by fastforce
  note IH = "2.IH" [OF r]
  have tier: "cc_tier c = TierImportant" "\<forall>(c, n) \<in> set rest. cc_tier c = TierImportant"
    using 2(3) by auto
  note IH = IH [OF tier(2)]
  consider (zero) "n = 0" | (whole) "0 < n" "length (cc_content c) \<le> n"
    | (gone) "0 < n" "n < length (cc_content c)" "validTail (cc_content c) n = []"
    | (cut) "0 < n" "n < length (cc_content c)" "validTail (cc_content c) n \<noteq> []"
    by fastforce
  then show ?case
  proof cases
    case zero
    with IH 2(2) r show ?thesis by auto
  next
    case whole
    with IH 2(2) r show ?thesis by (auto simp: sumBytes_def kept_def)
  next
    case gone
    with IH 2(2) r show ?thesis by (auto simp: Let_def)
  next
    case cut
    have "kept sha c (truncate_to sha c (validTail (cc_content c) n))"
      by (rule validTail_kept [OF tier(1) cut(2,3)])
    moreover have "length (validTail (cc_content c) n) \<le> n" by (rule validTail_length)
    ultimately show ?thesis using IH 2(2) r cut by (auto simp: Let_def sumBytes_def)
  qed
qed

lemma allocate_optional_spec:
  assumes "allocate_optional remaining cs = (inc, omi)" and "0 \<le> remaining"
  shows "mset (map cc_id inc) + mset (map om_component_id omi) = mset (map cc_id cs)"
    and "set inc \<subseteq> set cs" and "set omi \<subseteq> omissionFor ` set cs" and "sumBytes inc \<le> remaining"
  using assms
proof (atomize (full), induction remaining cs arbitrary: inc omi rule: allocate_optional.induct)
  case (1 remaining)
  then show ?case by (simp add: sumBytes_def)
next
  case (2 remaining c rest)
  show ?case
  proof (cases "int (length (cc_content c)) \<le> remaining")
    case True
    obtain inc' omi' where r: "allocate_optional (remaining - int (length (cc_content c))) rest = (inc', omi')"
      by fastforce
    from "2.IH"(1) [OF refl True r] True 2(3,4) r show ?thesis by (auto simp: Let_def sumBytes_def)
  next
    case False
    obtain inc' omi' where r: "allocate_optional remaining rest = (inc', omi')" by fastforce
    from "2.IH"(2) [OF refl False r] False 2(3,4) r show ?thesis by (auto simp: Let_def)
  qed
qed

lemma balancedAlloc_length [simp]: "length (balancedAlloc cs b) = length cs"
  using balanced_sizes_fair [of "map (\<lambda>c. length (cc_content c)) cs" "nat b"]
  by (simp add: balancedAlloc_def fair_split_def)

lemma balancedAlloc_sum: "0 \<le> b \<Longrightarrow> int (sum_list (balancedAlloc cs b)) \<le> b"
  using balanced_sizes_fair [of "map (\<lambda>c. length (cc_content c)) cs" "nat b"]
  by (auto simp: balancedAlloc_def fair_split_def sum_list_replicate)

lemma canon_sorted_strict:
  "sorted_wrt (\<lambda>x y. \<not> canon_less y x) cs \<Longrightarrow> distinct (map cc_id cs) \<Longrightarrow> sorted_wrt canon_less cs"
  by (induction cs) (auto simp: canon_less_def image_iff not_less less_le split: if_splits)

interpretation by_id: go_less by_component_id
  by unfold_locales (auto simp: by_component_id_def)

lemma by_id_sorted_strict:
  "sorted_wrt (\<lambda>x y. \<not> by_component_id y x) oms \<Longrightarrow> distinct (map om_component_id oms) \<Longrightarrow>
     sorted_wrt (<) (map om_component_id oms)"
  by (induction oms) (auto simp: by_component_id_def image_iff not_less order_le_less)

lemma tier_partition:
  "\<forall>c \<in> set cs. validTier (cc_tier c) \<Longrightarrow>
     mset (map f (of_tier TierRequired cs)) + mset (map f (of_tier TierImportant cs))
       + mset (map f (of_tier TierOptional cs)) = mset (map f cs)"
  by (induction cs) (auto simp: validTier_def)

lemma mset_ids_sort: "mset (map f (sort_by lt cs)) = mset (map f cs)"
  by simp

lemma sumBytes_mset: "mset xs = mset ys \<Longrightarrow> sumBytes xs = sumBytes ys"
  unfolding sumBytes_def by (metis mset_map sum_mset_sum_list)

lemma sumBytes_append [simp]: "sumBytes (xs @ ys) = sumBytes xs + sumBytes ys"
  by (simp add: sumBytes_def)

lemma tier_bytes_valid:
  "\<forall>c \<in> set cs. validateComponentV2 sha c = Inr () \<Longrightarrow> tier_bytes tier cs = sumBytes (of_tier tier cs)"
  by (induction cs) (auto simp: tier_bytes_def sumBytes_def validateComponentV2_iff)

lemma mset_of_tier: "mset xs = mset ys \<Longrightarrow> mset (of_tier t xs) = mset (of_tier t ys)"
  by (metis mset_filter)

lemma filter_all_tier: "\<forall>c \<in> set cs. cc_tier c = t' \<Longrightarrow> of_tier t cs = (if t = t' then cs else [])"
  by (auto simp: filter_empty_conv intro: filter_True)

lemma allocateV2_spec:
  assumes alloc: "allocateV2 sha sources b = Inr (cs, oms)"
    and valid: "\<forall>c \<in> set sources. validateComponentV2 sha c = Inr () \<and> cc_truncation c = TruncationNone"
    and dist: "distinct (map cc_id sources)"
    and bud: "validateBudgetV2 b = Inr ()"
  shows "mset (map cc_id cs) + mset (map om_component_id oms) = mset (map cc_id sources)"
    and "\<forall>c' \<in> set cs. \<exists>c \<in> set sources. kept sha c c'"
    and "\<forall>c \<in> set sources. cc_tier c = TierRequired \<longrightarrow> c \<in> set cs"
    and "\<forall>om \<in> set oms. \<exists>c \<in> set sources. om = omissionFor c \<and> cc_tier c \<noteq> TierRequired"
    and "\<forall>tier. tier_bytes tier cs \<le>
      (if tier = TierRequired then ab_required b else if tier = TierImportant then ab_important b
       else if tier = TierOptional then ab_optional b else 0)"
    and "sorted_wrt canon_less cs" and "sorted_wrt (<) (map om_component_id oms)"
proof -
  define req where "req = sort_by canon_less (of_tier TierRequired sources)"
  define imp where "imp = sort_by canon_less (of_tier TierImportant sources)"
  define opt where "opt = sort_by (\<lambda>a b. cc_id a < cc_id b) (of_tier TierOptional sources)"
  define shares where "shares = zip imp (balancedAlloc imp (ab_important b))"
  define zero where "zero = map (\<lambda>(c, n). omissionFor c) (filter (\<lambda>(c, n). n = 0) shares)"
  obtain iin iout where i: "allocate_important sha shares = (iin, iout)" by fastforce
  obtain oin oout where o: "allocate_optional (ab_optional b) opt = (oin, oout)" by fastforce
  have req_ok: "sumBytes req \<le> ab_required b"
    and cs: "cs = sort_by canon_less (req @ iin @ oin)"
    and oms: "oms = sort_by by_component_id (iout @ zero @ oout)"
    using alloc i o
    by (auto simp: allocateV2_def Let_def req_def [symmetric] imp_def [symmetric] opt_def [symmetric]
        shares_def [symmetric] zero_def [symmetric] split: if_splits)
  have b0: "0 \<le> ab_important b" "0 \<le> ab_optional b" using bud by (auto simp: validateBudgetV2_iff)
  have fst_shares: "map fst shares = imp" by (simp add: shares_def)
  have sets: "set req = set (of_tier TierRequired sources)" "set imp = set (of_tier TierImportant sources)"
    "set opt = set (of_tier TierOptional sources)"
    by (simp_all add: req_def imp_def opt_def)
  have "set shares \<subseteq> set imp \<times> UNIV" by (auto simp: shares_def dest: set_zip_leftD)
  then have tier: "\<forall>(c, n) \<in> set shares. cc_tier c = TierImportant" using sets by auto
  note I = allocate_important_spec [OF i tier, unfolded fst_shares]
  have fimg: "fst ` set shares = set imp" using fst_shares by (metis set_map)
  note I = I [unfolded fimg]
  note O = allocate_optional_spec [OF o b0(2)]
  have zero_ids: "map om_component_id zero = map cc_id (map fst (filter (\<lambda>(c, n). n = 0) shares))"
    by (simp add: zero_def split_beta comp_def)
  have zero_sub: "set zero \<subseteq> omissionFor ` set imp"
    using fimg by (force simp: zero_def)
  have vt: "\<forall>c \<in> set sources. validTier (cc_tier c)" using valid by (auto simp: validateComponentV2_iff)
  show ids: "mset (map cc_id cs) + mset (map om_component_id oms) = mset (map cc_id sources)"
  proof -
    have "mset (map cc_id cs) + mset (map om_component_id oms)
      = mset (map cc_id req)
        + (mset (map cc_id iin) + mset (map om_component_id iout)
           + mset (map cc_id (map fst (filter (\<lambda>(c, n). n = 0) shares))))
        + (mset (map cc_id oin) + mset (map om_component_id oout))"
      unfolding cs oms mset_ids_sort map_append mset_append zero_ids by (simp add: ac_simps)
    also have "\<dots> = mset (map cc_id req) + mset (map cc_id imp) + mset (map cc_id opt)"
      unfolding I(1) O(1) ..
    also have "\<dots> = mset (map cc_id sources)"
      using tier_partition [OF vt, of cc_id] by (simp add: req_def imp_def opt_def)
    finally show ?thesis .
  qed
  show kept: "\<forall>c' \<in> set cs. \<exists>c \<in> set sources. kept sha c c'"
    using I(2) O(2) sets by (fastforce simp: cs kept_def)
  show "\<forall>c \<in> set sources. cc_tier c = TierRequired \<longrightarrow> c \<in> set cs"
    using sets by (auto simp: cs)
  show "\<forall>om \<in> set oms. \<exists>c \<in> set sources. om = omissionFor c \<and> cc_tier c \<noteq> TierRequired"
  proof
    fix om
    assume "om \<in> set oms"
    then have "om \<in> omissionFor ` (set imp \<union> set opt)" using I(3) O(3) zero_sub by (auto simp: oms)
    then show "\<exists>c \<in> set sources. om = omissionFor c \<and> cc_tier c \<noteq> TierRequired"
      unfolding sets by auto
  qed
  have dist_all: "distinct (map cc_id cs)" "distinct (map om_component_id oms)"
  proof -
    have "mset (map cc_id cs @ map om_component_id oms) = mset (map cc_id sources)" using ids by simp
    then have "distinct (map cc_id cs @ map om_component_id oms)" using dist mset_eq_imp_distinct_iff by blast
    then show "distinct (map cc_id cs)" "distinct (map om_component_id oms)" by auto
  qed
  show "sorted_wrt canon_less cs"
    unfolding cs by (rule canon_sorted_strict) (use canon.sorted_sort_by dist_all(1) cs in simp_all)
  show "sorted_wrt (<) (map om_component_id oms)"
    unfolding oms by (rule by_id_sorted_strict) (use by_id.sorted_sort_by dist_all(2) oms in simp_all)
  have valid_cs: "\<forall>c \<in> set cs. validateComponentV2 sha c = Inr ()"
    using kept valid kept_valid by blast
  have tiers: "\<forall>c \<in> set req. cc_tier c = TierRequired" "\<forall>c \<in> set iin. cc_tier c = TierImportant"
    "\<forall>c \<in> set oin. cc_tier c = TierOptional"
  proof -
    show "\<forall>c \<in> set req. cc_tier c = TierRequired" "\<forall>c \<in> set oin. cc_tier c = TierOptional"
      using O(2) sets by auto
    show "\<forall>c \<in> set iin. cc_tier c = TierImportant"
    proof
      fix c'
      assume "c' \<in> set iin"
      then obtain c where "c \<in> set imp" "kept sha c c'" using I(2) by blast
      then show "cc_tier c' = TierImportant" using kept_same sets(2) by fastforce
    qed
  qed
  have bytes: "tier_bytes t cs = (if t = TierRequired then sumBytes req else if t = TierImportant then sumBytes iin
      else if t = TierOptional then sumBytes oin else 0)" for t
  proof -
    have "mset (of_tier t cs) = mset (of_tier t (req @ iin @ oin))" unfolding cs by (rule mset_of_tier) simp
    then have "tier_bytes t cs = sumBytes (of_tier t (req @ iin @ oin))"
      using tier_bytes_valid [OF valid_cs] sumBytes_mset by metis
    then show ?thesis
      using tiers by (simp add: filter_all_tier [of req TierRequired] filter_all_tier [of iin TierImportant]
          filter_all_tier [of oin TierOptional]) (simp add: sumBytes_def)
  qed
  have "length shares = length (balancedAlloc imp (ab_important b))" by (simp add: shares_def)
  have "map snd shares = balancedAlloc imp (ab_important b)" by (simp add: shares_def)
  then have "sumBytes iin \<le> ab_important b"
    using I(4) balancedAlloc_sum [OF b0(1), of imp] by simp
  then show "\<forall>tier. tier_bytes tier cs \<le>
      (if tier = TierRequired then ab_required b else if tier = TierImportant then ab_important b
       else if tier = TierOptional then ab_optional b else 0)"
    using O(4) req_ok by (simp add: bytes)
qed

subsection \<open>The order of the sources\<close>

context go_less begin

lemma strict_sorted_unique:
  "sorted_wrt lt xs \<Longrightarrow> sorted_wrt lt ys \<Longrightarrow> mset xs = mset ys \<Longrightarrow> xs = ys"
proof (induction xs arbitrary: ys)
  case Nil
  then show ?case by simp
next
  case (Cons x xs)
  then obtain y ys' where ys: "ys = y # ys'" by (cases ys) auto
  have "x \<in> set ys" "y \<in> set (x # xs)"
    using Cons.prems(3) ys by (metis list.set_intros(1) set_mset_mset)+
  then have "x = y" using Cons.prems(1,2) ys less_asym by auto
  then show ?case using Cons ys by auto
qed

lemma strict_sort_cong:
  "sorted_wrt lt (sort_by lt xs) \<Longrightarrow> sorted_wrt lt (sort_by lt ys) \<Longrightarrow> mset xs = mset ys \<Longrightarrow>
     sort_by lt xs = sort_by lt ys"
  by (rule strict_sorted_unique) simp_all

end

lemma canon_sort_cong:
  assumes "mset xs = mset ys" and "distinct (map cc_id xs)"
  shows "sort_by canon_less xs = sort_by canon_less ys"
proof -
  have "distinct (map cc_id ys)" using assms by (metis mset_map mset_eq_imp_distinct_iff)
  with assms show ?thesis
    by (intro canon.strict_sort_cong canon_sorted_strict canon.sorted_sort_by) simp_all
qed

interpretation component_id: go_less "\<lambda>a b. cc_id a < cc_id b"
  by unfold_locales auto

lemma id_sort_cong:
  assumes "mset xs = mset ys" and "distinct (map cc_id xs)"
  shows "sort_by (\<lambda>a b. cc_id a < cc_id b) xs = sort_by (\<lambda>a b. cc_id a < cc_id b) ys"
proof -
  have "distinct (map cc_id ys)" using assms by (metis mset_map mset_eq_imp_distinct_iff)
  moreover have "sorted_wrt (\<lambda>x y. \<not> cc_id y < cc_id x) cs \<Longrightarrow> distinct (map cc_id cs) \<Longrightarrow>
      sorted_wrt (\<lambda>a b. cc_id a < cc_id b) cs" for cs
    by (induction cs) (auto simp: image_iff less_le)
  note strict = this [OF component_id.sorted_sort_by]
  ultimately show ?thesis using assms
    by (intro component_id.strict_sort_cong strict) simp_all
qed

lemma omission_sort_cong:
  assumes "mset xs = mset ys" and "distinct (map om_component_id xs)"
  shows "sort_by by_component_id xs = sort_by by_component_id ys"
proof -
  have "distinct (map om_component_id ys)" using assms by (metis mset_map mset_eq_imp_distinct_iff)
  moreover have "sorted_wrt (<) (map om_component_id cs) = sorted_wrt by_component_id cs" for cs
    by (simp add: sorted_wrt_map by_component_id_def [abs_def])
  ultimately show ?thesis using assms by_id_sorted_strict [OF by_id.sorted_sort_by]
    by (intro by_id.strict_sort_cong) auto
qed

lemma distinct_filter_map: "distinct (map f xs) \<Longrightarrow> distinct (map f (filter P xs))"
  by (simp add: distinct_map_filter)

lemma allocateV2_perm:
  assumes "mset xs = mset ys" and "distinct (map cc_id xs)"
  shows "allocateV2 sha xs b = allocateV2 sha ys b"
proof -
  have t: "sort_by canon_less (of_tier t xs) = sort_by canon_less (of_tier t ys)" for t
    by (rule canon_sort_cong [OF mset_of_tier [OF assms(1)] distinct_filter_map [OF assms(2)]])
  have o: "sort_by (\<lambda>a b. cc_id a < cc_id b) (of_tier t xs) = sort_by (\<lambda>a b. cc_id a < cc_id b) (of_tier t ys)" for t
    by (rule id_sort_cong [OF mset_of_tier [OF assms(1)] distinct_filter_map [OF assms(2)]])
  show ?thesis unfolding allocateV2_def Let_def t o ..
qed

subsection \<open>Compilation\<close>

lemma check_sources_iff:
  "check_sources sha seen cs = Inr seen' \<longleftrightarrow>
     (\<forall>c \<in> set cs. cc_kind c \<notin> {KindExecutionContract, KindOutputContract}
        \<and> validateComponentV2 sha c = Inr () \<and> cc_truncation c = TruncationNone
        \<and> cc_id c \<notin> set seen)
     \<and> distinct (map cc_id cs) \<and> seen' = rev (map cc_id cs) @ seen"
proof (induction cs arbitrary: seen)
  case Nil
  then show ?case by auto
next
  case (Cons c cs)
  have "validateComponentV2 sha c = Inr () \<Longrightarrow> cc_truncation c = TruncationNone \<Longrightarrow>
      cc_original_bytes c = cc_included_bytes c"
    by (auto simp: validateComponentV2_iff)
  then have "check_sources sha seen (c # cs) = Inr seen' \<longleftrightarrow>
      cc_kind c \<notin> {KindExecutionContract, KindOutputContract} \<and> validateComponentV2 sha c = Inr ()
      \<and> cc_truncation c = TruncationNone \<and> cc_id c \<notin> set seen
      \<and> check_sources sha (cc_id c # seen) cs = Inr seen'"
    by (cases "validateComponentV2 sha c") auto
  then show ?case by (auto simp: Cons.IH image_iff)
qed

lemma check_omissions_iff:
  "check_omissions seen oms = Inr seen' \<longleftrightarrow>
     (\<forall>om \<in> set oms. validateOmissionV2 om = Inr () \<and> om_component_id om \<notin> set seen)
     \<and> distinct (map om_component_id oms) \<and> seen' = rev (map om_component_id oms) @ seen"
proof (induction oms arbitrary: seen)
  case Nil
  then show ?case by auto
next
  case (Cons om oms)
  have "check_omissions seen (om # oms) = Inr seen' \<longleftrightarrow>
      validateOmissionV2 om = Inr () \<and> om_component_id om \<notin> set seen
      \<and> check_omissions (om_component_id om # seen) oms = Inr seen'"
    by (cases "validateOmissionV2 om") auto
  then show ?case by (auto simp: Cons.IH image_iff)
qed

lemma validateEngineContract_iff:
  "validateEngineContract sha c k = Inr () \<longleftrightarrow>
     cc_kind c = k \<and> cc_tier c = TierRequired \<and> validateComponentV2 sha c = Inr ()"
  by (auto simp: validateEngineContract_def validateComponentV2_iff)

lemma required_untruncated:
  "validateComponentV2 sha c = Inr () \<Longrightarrow> cc_tier c = TierRequired \<Longrightarrow> cc_truncation c = TruncationNone"
  by (auto simp: validateComponentV2_iff)

abbreviation all_sources :: "ContextCompilerInputV2 \<Rightarrow> ContextComponentV2 list" where
  "all_sources input \<equiv> sr_components (ci_resolution input) @ [ci_execution_contract input, ci_output_contract input]"

lemma compile_checks_iff:
  "compile_checks sha input = Inr sources \<longleftrightarrow>
     validateBudgetV2 (ci_budget input) = Inr ()
     \<and> stringsTrim (ai_run_id (ci_identity input)) \<noteq> [] \<and> stringsTrim (ai_node_id (ci_identity input)) \<noteq> []
     \<and> 1 \<le> ai_attempt (ci_identity input)
     \<and> length (sr_components (ci_resolution input)) \<le> MaxContextComponents
     \<and> length (sr_omissions (ci_resolution input)) \<le> MaxContextOmissions
     \<and> (\<forall>c \<in> set (sr_components (ci_resolution input)).
          cc_kind c \<notin> {KindExecutionContract, KindOutputContract}
          \<and> validateComponentV2 sha c = Inr () \<and> cc_truncation c = TruncationNone)
     \<and> (\<forall>om \<in> set (sr_omissions (ci_resolution input)). validateOmissionV2 om = Inr ())
     \<and> validateEngineContract sha (ci_execution_contract input) KindExecutionContract = Inr ()
     \<and> validateEngineContract sha (ci_output_contract input) KindOutputContract = Inr ()
     \<and> distinct (map cc_id (all_sources input) @ map om_component_id (sr_omissions (ci_resolution input)))
     \<and> sources = all_sources input"
  unfolding compile_checks_def Let_def
  by (simp only: res_simps check_sources_iff check_omissions_iff) (auto simp: not_less image_iff dest: sym)

lemma compile_checks_sources:
  assumes "compile_checks sha input = Inr sources"
  shows "\<forall>c \<in> set sources. validateComponentV2 sha c = Inr () \<and> cc_truncation c = TruncationNone"
    and "distinct (map cc_id sources)" and "sources = all_sources input"
  using assms by (auto simp: compile_checks_iff validateEngineContract_iff required_untruncated)

subsection \<open>When a compilation succeeds\<close>

text \<open>
  Past the checks and the required budget only counts can fail: the envelope that the
  allocation builds satisfies every other demand of the validator.
\<close>

lemma allocateV2_required:
  "(\<exists>r. allocateV2 sha sources b = Inr r) \<longleftrightarrow> sumBytes (of_tier TierRequired sources) \<le> ab_required b"
proof -
  have "sumBytes (sort_by canon_less (of_tier TierRequired sources)) = sumBytes (of_tier TierRequired sources)"
    by (rule sumBytes_mset) simp
  then show ?thesis by (auto simp: allocateV2_def Let_def split_beta)
qed

definition compiled_envelope ::
  "ContextCompilerInputV2 \<Rightarrow> ContextComponentV2 list \<Rightarrow> ContextOmissionV2 list \<Rightarrow> ContextEnvelopeV2" where
  "compiled_envelope input cs oms =
     \<lparr>ce_schema_version = EnvelopeV2Version, ce_compiler_version = CompilerV2Version,
      ce_identity = ci_identity input, ce_budget = ci_budget input, ce_components = cs,
      ce_omissions = sort_by by_component_id (sr_omissions (ci_resolution input) @ oms)\<rparr>"

lemma compiled_envelope_simps [simp]:
  "ce_schema_version (compiled_envelope input cs oms) = EnvelopeV2Version"
  "ce_compiler_version (compiled_envelope input cs oms) = CompilerV2Version"
  "ce_identity (compiled_envelope input cs oms) = ci_identity input"
  "ce_budget (compiled_envelope input cs oms) = ci_budget input"
  "ce_components (compiled_envelope input cs oms) = cs"
  "ce_omissions (compiled_envelope input cs oms)
     = sort_by by_component_id (sr_omissions (ci_resolution input) @ oms)"
  by (simp_all add: compiled_envelope_def)

lemma CompileContextV2_iff:
  "CompileContextV2 sha input = Inr out \<longleftrightarrow>
     (\<exists>cs oms. compile_checks sha input = Inr (all_sources input)
        \<and> allocateV2 sha (all_sources input) (ci_budget input) = Inr (cs, oms)
        \<and> length (sr_omissions (ci_resolution input)) + length oms \<le> MaxContextOmissions
        \<and> ValidateContextEnvelopeV2 sha (compiled_envelope input cs oms) = Inr ()
        \<and> cv_envelope out = compiled_envelope input cs oms
        \<and> cv_hash out = sha (json_envelope (cv_envelope out))
        \<and> BuildContextManifestV2 sha (cv_envelope out) = Inr (cv_manifest out))"
proof (cases "compile_checks sha input")
  case (Inl e)
  then show ?thesis by (simp add: CompileContextV2_def)
next
  case (Inr sources)
  have s: "sources = all_sources input" using Inr by (rule compile_checks_sources)
  show ?thesis
  proof (cases "allocateV2 sha sources (ci_budget input)")
    case e: (Inl e)
    with Inr s show ?thesis by (simp add: CompileContextV2_def)
  next
    case a: (Inr r)
    obtain cs oms where r: "r = (cs, oms)" by fastforce
    have env: "\<lparr>ce_schema_version = EnvelopeV2Version, ce_compiler_version = CompilerV2Version,
        ce_identity = ci_identity input, ce_budget = ci_budget input, ce_components = cs,
        ce_omissions = sort_by by_component_id (sr_omissions (ci_resolution input) @ oms)\<rparr>
        = compiled_envelope input cs oms" by (simp add: compiled_envelope_def)
    show ?thesis
    proof (cases "ValidateContextEnvelopeV2 sha (compiled_envelope input cs oms)")
      case v: (Inl e)
      with Inr s a r show ?thesis by (simp add: CompileContextV2_def env)
    next
      case v: (Inr u)
      have h: "CanonicalEnvelopeHashV2 sha (compiled_envelope input cs oms)
          = Inr (sha (json_envelope (compiled_envelope input cs oms)))"
        using v by (simp add: CanonicalEnvelopeHashV2_def)
      then obtain m where m: "BuildContextManifestV2 sha (compiled_envelope input cs oms) = Inr m"
        by (auto simp: BuildContextManifestV2_def)
      have "CompileContextV2 sha input =
          (if length (sr_omissions (ci_resolution input)) + length oms > MaxContextOmissions
           then Inl (ContextError CodeContextInvalidComponent ''Context omission count exceeds its bound'' [])
           else Inr \<lparr>cv_envelope = compiled_envelope input cs oms, cv_manifest = m,
             cv_hash = sha (json_envelope (compiled_envelope input cs oms))\<rparr>)"
        using Inr s a r by (simp add: CompileContextV2_def Let_def env v h m)
      with Inr s a r v m show ?thesis by (cases out) (auto simp: not_less)
    qed
  qed
qed

lemma compiled_valid_iff:
  assumes "compile_checks sha input = Inr (all_sources input)"
    and "allocateV2 sha (all_sources input) (ci_budget input) = Inr (cs, oms)"
    and "length (sr_omissions (ci_resolution input)) + length oms \<le> MaxContextOmissions"
  shows "ValidateContextEnvelopeV2 sha (compiled_envelope input cs oms) = Inr () \<longleftrightarrow>
     \<not> blank (ai_run_id (ci_identity input)) \<and> \<not> blank (ai_node_id (ci_identity input))
     \<and> length cs \<le> MaxContextComponents
     \<and> KindNodeTask \<in> cc_kind ` set (sr_components (ci_resolution input))
     \<and> length (filter (\<lambda>c. cc_kind c = KindMemory) cs) \<le> MaxSelectedMemoryRecords"
proof -
  let ?res = "sr_omissions (ci_resolution input)"
  let ?oms = "sort_by by_component_id (?res @ oms)"
  have checks: "validateBudgetV2 (ci_budget input) = Inr ()" "1 \<le> ai_attempt (ci_identity input)"
    "\<forall>om \<in> set ?res. validateOmissionV2 om = Inr ()"
    "validateEngineContract sha (ci_execution_contract input) KindExecutionContract = Inr ()"
    "validateEngineContract sha (ci_output_contract input) KindOutputContract = Inr ()"
    "distinct (map cc_id (all_sources input) @ map om_component_id ?res)"
    using assms(1) by (auto simp: compile_checks_iff)
  note src = compile_checks_sources(1,2) [OF assms(1)]
  note A = allocateV2_spec [OF assms(2) src checks(1)]
  have valid_cs: "\<forall>c \<in> set cs. validateComponentV2 sha c = Inr ()"
    using A(2) src(1) kept_valid by blast
  have "mset (map cc_id cs @ map om_component_id (?res @ oms))
      = mset (map cc_id (all_sources input) @ map om_component_id ?res)"
    using A(1) by (simp add: ac_simps)
  then have dist: "distinct (map cc_id cs @ map om_component_id (?res @ oms))"
    using checks(6) mset_eq_imp_distinct_iff by blast
  have dist_oms: "distinct (map om_component_id ?oms)"
    using dist unfolding distinct_sort_by by simp
  have sorted_oms: "sorted_wrt (<) (map om_component_id ?oms)"
    by (rule by_id_sorted_strict [OF by_id.sorted_sort_by dist_oms])
  have budget_oms: "\<forall>om \<in> set oms. validateOmissionV2 om = Inr ()"
    using A(4) src(1) omissionFor_valid by metis
  have valid_oms: "\<forall>om \<in> set ?oms. validateOmissionV2 om = Inr () \<and> om_component_id om \<notin> cc_id ` set cs"
  proof
    fix om
    assume om: "om \<in> set ?oms"
    have "om_component_id om \<notin> cc_id ` set cs" using dist om by (auto simp: image_iff)
    moreover have "validateOmissionV2 om = Inr ()"
      using om checks(3) budget_oms by auto
    ultimately show "validateOmissionV2 om = Inr () \<and> om_component_id om \<notin> cc_id ` set cs" by simp
  qed
  have eng: "cc_kind (ci_execution_contract input) = KindExecutionContract"
    "cc_tier (ci_execution_contract input) = TierRequired"
    "cc_kind (ci_output_contract input) = KindOutputContract" "cc_tier (ci_output_contract input) = TierRequired"
    using checks(4,5) by (auto simp: validateEngineContract_iff)
  have inc: "ci_execution_contract input \<in> set cs" "ci_output_contract input \<in> set cs"
    using A(3) eng by auto
  have kinds: "{KindExecutionContract, KindNodeTask, KindOutputContract} \<subseteq> cc_kind ` set cs \<longleftrightarrow>
      KindNodeTask \<in> cc_kind ` set (sr_components (ci_resolution input))" (is "?l \<longleftrightarrow> ?r")
  proof
    assume ?l
    then obtain c' where "c' \<in> set cs" "cc_kind c' = KindNodeTask" by auto
    with A(2) kept_same obtain c where "c \<in> set (all_sources input)" "cc_kind c = KindNodeTask" by metis
    with eng show ?r by (auto intro: rev_image_eqI)
  next
    assume ?r
    then obtain c where c: "c \<in> set (sr_components (ci_resolution input))" "cc_kind c = KindNodeTask" by auto
    then have "cc_tier c = TierRequired"
      using src(1) by (auto simp: validateComponentV2_iff tierAllowed_def)
    then have "c \<in> set cs" using A(3) c(1) by simp
    with inc eng c(2) show ?l by force
  qed
  have tiers: "tier_bytes TierRequired cs \<le> ab_required (ci_budget input)"
    "tier_bytes TierImportant cs \<le> ab_important (ci_budget input)"
    "tier_bytes TierOptional cs \<le> ab_optional (ci_budget input)"
    using A(5) [rule_format, of TierRequired] A(5) [rule_format, of TierImportant]
      A(5) [rule_format, of TierOptional] by simp_all
  have vt: "\<forall>c \<in> set cs. validTier (cc_tier c)" using valid_cs by (simp add: validateComponentV2_iff)
  have total: "sum_list (map cc_included_bytes cs) \<le> ab_total (ci_budget input)"
    using tier_bytes_sum [OF vt] tiers checks(1) by (simp add: validateBudgetV2_iff)
  have ne: "cs \<noteq> []" using inc by auto
  have dist_cs: "distinct (map cc_id cs)" using dist by simp
  show ?thesis
    unfolding ValidateContextEnvelopeV2_iff
    using checks(1,2) valid_cs dist_cs A(6) tiers total ne valid_oms sorted_oms assms(3) kinds
    by (simp add: usage_of_simps)
qed

end
