(* ===== verification/Context_Properties.thy ===== *)
theory Context_Properties
  imports Context_Allocation
begin

section \<open>Properties of the context compiler\<close>

text \<open>
  The claims about the compiler over the facts of the allocation, and a sample input: a
  required task, a dependency result too long for its tier, and a memory record, with a
  digest of 64 zeros.
\<close>

definition zero_sha :: "string \<Rightarrow> string" where
  "zero_sha s = replicate 64 (CHR ''0'')"

definition sample_provenance :: ComponentProvenanceV2 where
  "sample_provenance = \<lparr>pv_source = ''run'', pv_source_version = ''v1'',
     pv_source_hash = replicate 64 (CHR ''0''), pv_reason = ''sample''\<rparr>"

definition sample_component :: "string \<Rightarrow> string \<Rightarrow> string \<Rightarrow> string \<Rightarrow> ContextComponentV2" where
  "sample_component i kind tier content =
     \<lparr>cc_id = i, cc_kind = kind, cc_tier = tier, cc_sensitivity = SensitivityProject,
      cc_provenance = sample_provenance, cc_content = content, cc_content_hash = zero_sha content,
      cc_original_bytes = int (length content), cc_included_bytes = int (length content),
      cc_truncation = TruncationNone\<rparr>"

definition sample_components :: "ContextComponentV2 list" where
  "sample_components =
     [sample_component ''mem'' KindMemory TierOptional ''fact'',
      sample_component ''dep'' KindDependencyResult TierImportant ''0123456789'',
      sample_component ''task'' KindNodeTask TierRequired ''do'']"

definition sample_input :: ContextCompilerInputV2 where
  "sample_input =
     \<lparr>ci_identity = \<lparr>ai_run_id = ''r'', ai_node_id = ''n'', ai_attempt = 1\<rparr>,
      ci_resolution = \<lparr>sr_components = sample_components, sr_omissions = []\<rparr>,
      ci_execution_contract = sample_component ''exec'' KindExecutionContract TierRequired ''e'',
      ci_output_contract = sample_component ''out'' KindOutputContract TierRequired ''o'',
      ci_budget = \<lparr>ab_total = 14, ab_required = 6, ab_important = 6, ab_optional = 2\<rparr>\<rparr>"

lemma context_sample_trims:
  "trim_space ''run'' = ''run''" "trim_space ''v1'' = ''v1''" "trim_space ''sample'' = ''sample''"
  "trim_space ''r'' = ''r''" "trim_space ''n'' = ''n''"
  by (simp_all add: trim_space_def space_strings_def)

lemma sample_provenance_ok:
  "validateProvenance (pv_source sample_provenance) (pv_source_version sample_provenance)
     (pv_source_hash sample_provenance)"
  "pv_reason sample_provenance = ''sample''"
  by (simp_all add: validateProvenance_def sample_provenance_def context_sample_trims validHash_def list_all_iff
      is_hex_def is_digit_def)

lemma sample_component_valid:
  assumes "contractIDPattern i" "0 \<le> componentRank kind" "tierAllowed kind tier" "validTier tier"
    and "valid_utf8 content" "content \<noteq> []" "length content \<le> MaxComponentContentBytes"
  shows "validateComponentV2 zero_sha (sample_component i kind tier content) = Inr ()"
  using assms sample_provenance_ok
  by (simp add: validateComponentV2_iff sample_component_def validSensitivity_def context_sample_trims)

lemma sample_component_simps [simp]:
  "cc_id (sample_component i kind tier content) = i" "cc_kind (sample_component i kind tier content) = kind"
  "cc_tier (sample_component i kind tier content) = tier"
  "cc_truncation (sample_component i kind tier content) = TruncationNone"
  by (simp_all add: sample_component_def)

lemma sample_sources_valid: "c \<in> set (all_sources sample_input) \<Longrightarrow> validateComponentV2 zero_sha c = Inr ()"
proof -
  have ids: "contractIDPattern ''exec''" "contractIDPattern ''out''" "contractIDPattern ''mem''"
    "contractIDPattern ''dep''" "contractIDPattern ''task''"
    by code_simp+
  have texts: "valid_utf8 ''e''" "valid_utf8 ''o''" "valid_utf8 ''fact''" "valid_utf8 ''0123456789''"
    "valid_utf8 ''do''"
    by (simp_all add: valid_utf8_ascii byte_def)
  assume "c \<in> set (all_sources sample_input)"
  then consider "c = sample_component ''mem'' KindMemory TierOptional ''fact''"
    | "c = sample_component ''dep'' KindDependencyResult TierImportant ''0123456789''"
    | "c = sample_component ''task'' KindNodeTask TierRequired ''do''"
    | "c = sample_component ''exec'' KindExecutionContract TierRequired ''e''"
    | "c = sample_component ''out'' KindOutputContract TierRequired ''o''"
    by (auto simp: sample_input_def sample_components_def)
  then show ?thesis
    by cases (simp_all add: sample_component_valid ids texts componentRank_def tierAllowed_def validTier_def)
qed

lemma sample_checks: "compile_checks zero_sha sample_input = Inr (all_sources sample_input)"
proof -
  have trim: "stringsTrim ''r'' \<noteq> []" "stringsTrim ''n'' \<noteq> []" by (simp_all add: stringsTrim_def trim_byte_def)
  have "validateComponentV2 zero_sha c = Inr ()" if "c \<in> set sample_components" for c
    using sample_sources_valid [of c] that by (simp add: sample_input_def)
  moreover have "validateComponentV2 zero_sha (ci_execution_contract sample_input) = Inr ()"
    "validateComponentV2 zero_sha (ci_output_contract sample_input) = Inr ()"
    by (simp_all add: sample_sources_valid)
  moreover have "length sample_components = 3" "map cc_id sample_components = [''mem'', ''dep'', ''task'']"
    "\<forall>c \<in> set sample_components. cc_kind c \<notin> {KindExecutionContract, KindOutputContract}
       \<and> cc_truncation c = TruncationNone"
    by (simp_all add: sample_components_def)
  ultimately show ?thesis
    using trim by (simp add: compile_checks_iff validateEngineContract_iff validateBudgetV2_iff sample_input_def)
qed

lemma sample_allocation:
  "allocateV2 zero_sha (all_sources sample_input) (ci_budget sample_input) =
     Inr ([sample_component ''exec'' KindExecutionContract TierRequired ''e'',
           sample_component ''task'' KindNodeTask TierRequired ''do'',
           truncate_to zero_sha (sample_component ''dep'' KindDependencyResult TierImportant ''0123456789'') ''456789'',
           sample_component ''out'' KindOutputContract TierRequired ''o''],
          [omissionFor (sample_component ''mem'' KindMemory TierOptional ''fact'')])"
  by code_simp

lemma sample_compiles:
  "\<exists>out. CompileContextV2 zero_sha sample_input = Inr out"
proof -
  let ?out = "compiled_envelope sample_input
    [sample_component ''exec'' KindExecutionContract TierRequired ''e'',
     sample_component ''task'' KindNodeTask TierRequired ''do'',
     truncate_to zero_sha (sample_component ''dep'' KindDependencyResult TierImportant ''0123456789'') ''456789'',
     sample_component ''out'' KindOutputContract TierRequired ''o'']
    [omissionFor (sample_component ''mem'' KindMemory TierOptional ''fact'')]"
  have small: "length (sr_omissions (ci_resolution sample_input)) +
      length [omissionFor (sample_component ''mem'' KindMemory TierOptional ''fact'')] \<le> MaxContextOmissions"
    by (simp add: sample_input_def)
  have "ValidateContextEnvelopeV2 zero_sha ?out = Inr ()"
    using compiled_valid_iff [OF sample_checks sample_allocation small]
    by (simp add: sample_input_def sample_components_def context_sample_trims)
  then obtain m where m: "BuildContextManifestV2 zero_sha ?out = Inr m"
    by (auto simp: BuildContextManifestV2_def CanonicalEnvelopeHashV2_def)
  have "CompileContextV2 zero_sha sample_input =
      Inr \<lparr>cv_envelope = ?out, cv_manifest = m, cv_hash = zero_sha (json_envelope ?out)\<rparr>"
    unfolding CompileContextV2_iff
    using sample_checks sample_allocation small \<open>ValidateContextEnvelopeV2 zero_sha ?out = Inr ()\<close> m
    by (intro exI conjI) simp_all
  then show ?thesis ..
qed

lemma sample_sizes:
  "length sample_components = 3" "map (\<lambda>c. length (cc_content c)) sample_components = [4, 10, 2]"
  "length (cc_content (sample_components ! Suc 0)) = 10"
  by (simp_all add: sample_components_def sample_component_def)

subsection \<open>Allocation\<close>

text \<open>
  C16. The bytes of the important tier are shared max-min fairly: no component gets more
  than it needs, all of the budget is used while any component wants more, and no component gets
  two bytes more than one that was cut short.
\<close>

theorem balanced_alloc_fair:
  "length (balancedAlloc cs budget) = length cs
   \<and> sum_list (balancedAlloc cs budget) = min (nat budget) (sum_list (map (\<lambda>c. length (cc_content c)) cs))
   \<and> (\<forall>i < length cs. balancedAlloc cs budget ! i \<le> length (cc_content (cs ! i)))
   \<and> (\<forall>i < length cs. \<forall>j < length cs. balancedAlloc cs budget ! i < length (cc_content (cs ! i))
        \<longrightarrow> balancedAlloc cs budget ! j \<le> balancedAlloc cs budget ! i + 1)"
proof (cases "length cs = 0 \<or> budget \<le> 0")
  case True
  then show ?thesis by (auto simp: balancedAlloc_def sum_list_replicate)
next
  case False
  define sizes where "sizes = map (\<lambda>c. length (cc_content c)) cs"
  define a where "a = balancedAlloc cs budget"
  have a: "fair_split sizes (nat budget) a"
    using False balanced_sizes_fair [of sizes "nat budget"] by (auto simp: a_def sizes_def balancedAlloc_def)
  then obtain level where l: "list_all2 (\<lambda>s x. x = min s level \<or> x = level + 1 \<and> level < s) sizes a"
    by (auto simp: fair_split_def)
  have len: "length a = length cs" "length sizes = length cs" using a by (auto simp: fair_split_def sizes_def)
  have el: "a ! i = min (sizes ! i) level \<or> a ! i = level + 1 \<and> level < sizes ! i" if "i < length cs" for i
    using l that len by (auto simp: list_all2_conv_all_nth)
  have size: "sizes ! i = length (cc_content (cs ! i))" if "i < length cs" for i
    using that by (simp add: sizes_def)
  have "a ! i \<le> length (cc_content (cs ! i))" if "i < length cs" for i
    using el [OF that] size [OF that] by auto
  moreover have "a ! j \<le> a ! i + 1"
    if "i < length cs" "j < length cs" "a ! i < length (cc_content (cs ! i))" for i j
    using el [OF that(1)] el [OF that(2)] size [OF that(1)] that(3) by auto
  moreover have "sum_list a = min (nat budget) (sum_list sizes)" using a by (simp add: fair_split_def)
  ultimately show ?thesis using len by (simp add: a_def [symmetric] sizes_def [symmetric])
qed

theorem balanced_alloc_fair_witness:
  "length (balancedAlloc sample_components 10) = 3 \<and> sum_list (balancedAlloc sample_components 10) = 10
   \<and> balancedAlloc sample_components 10 ! 1 \<le> 10"
proof -
  note fair = balanced_alloc_fair [of sample_components 10, unfolded sample_sizes(1,2)]
  then have "balancedAlloc sample_components 10 ! Suc 0 \<le> length (cc_content (sample_components ! Suc 0))"
    by auto
  with fair show ?thesis by (simp add: sample_sizes)
qed

text \<open>
  C12. A compilation accounts for every source: each identity is in the envelope or in the
  omissions and in only one of them; every component of the envelope is a source, whole or, in the
  important tier, cut to a proper suffix that is valid UTF-8; the required ones are all there,
  unchanged.
\<close>

theorem compile_accounts_for_sources:
  assumes "CompileContextV2 sha input = Inr out"
  shows "mset (map cc_id (ce_components (cv_envelope out)))
       + mset (map om_component_id (ce_omissions (cv_envelope out)))
       = mset (map cc_id (all_sources input)) + mset (map om_component_id (sr_omissions (ci_resolution input)))
     \<and> distinct (map cc_id (ce_components (cv_envelope out)) @ map om_component_id (ce_omissions (cv_envelope out)))
     \<and> (\<forall>c' \<in> set (ce_components (cv_envelope out)). \<exists>c \<in> set (all_sources input). kept sha c c')
     \<and> (\<forall>c \<in> set (all_sources input). cc_tier c = TierRequired \<longrightarrow> c \<in> set (ce_components (cv_envelope out)))"
proof -
  from assms obtain cs oms where c: "compile_checks sha input = Inr (all_sources input)"
      "allocateV2 sha (all_sources input) (ci_budget input) = Inr (cs, oms)"
      "cv_envelope out = compiled_envelope input cs oms"
    by (auto simp: CompileContextV2_iff)
  have chk: "validateBudgetV2 (ci_budget input) = Inr ()"
    "distinct (map cc_id (all_sources input) @ map om_component_id (sr_omissions (ci_resolution input)))"
    using c(1) by (auto simp: compile_checks_iff)
  note A = allocateV2_spec [OF c(2) compile_checks_sources(1,2) [OF c(1)] chk(1)]
  have ids: "mset (map cc_id cs) + mset (map om_component_id (sr_omissions (ci_resolution input) @ oms))
      = mset (map cc_id (all_sources input)) + mset (map om_component_id (sr_omissions (ci_resolution input)))"
    using A(1) by (simp add: ac_simps)
  then have "mset (map cc_id cs @ map om_component_id (sort_by by_component_id (sr_omissions (ci_resolution input) @ oms)))
      = mset (map cc_id (all_sources input) @ map om_component_id (sr_omissions (ci_resolution input)))"
    by simp
  then have "distinct (map cc_id cs @ map om_component_id (sort_by by_component_id (sr_omissions (ci_resolution input) @ oms)))"
    using chk(2) mset_eq_imp_distinct_iff by blast
  with ids A(2,3) show ?thesis by (simp add: c(3) del: distinct_append)
qed

theorem compile_accounts_for_sources_witness:
  "\<exists>out. CompileContextV2 zero_sha sample_input = Inr out
     \<and> ci_output_contract sample_input \<in> set (ce_components (cv_envelope out))"
  using sample_compiles compile_accounts_for_sources [of zero_sha sample_input]
  by (fastforce simp: sample_input_def)

text \<open>
  C13. A compiled envelope passes its own validator and uses at most the budget of each tier
  and 128 KiB in all. Its manifest lists the components of the envelope in their order, each
  with its identity, its original size, the size and the hash of the content that is
  included and how it was cut, and the same omissions and budget, with the bytes used in
  each tier and the hash of the envelope.
\<close>

theorem compile_within_budget:
  assumes "CompileContextV2 sha input = Inr out"
  shows "ValidateContextEnvelopeV2 sha (cv_envelope out) = Inr ()
     \<and> tier_bytes TierRequired (ce_components (cv_envelope out)) \<le> ab_required (ci_budget input)
     \<and> tier_bytes TierImportant (ce_components (cv_envelope out)) \<le> ab_important (ci_budget input)
     \<and> tier_bytes TierOptional (ce_components (cv_envelope out)) \<le> ab_optional (ci_budget input)
     \<and> sum_list (map cc_included_bytes (ce_components (cv_envelope out))) \<le> MaxContextPayloadBytes
     \<and> au_total (mf_usage (cv_manifest out))
         = int (length (concat (map cc_content (ce_components (cv_envelope out)))))
     \<and> au_required (mf_usage (cv_manifest out)) = tier_bytes TierRequired (ce_components (cv_envelope out))
     \<and> au_important (mf_usage (cv_manifest out)) = tier_bytes TierImportant (ce_components (cv_envelope out))
     \<and> au_optional (mf_usage (cv_manifest out)) = tier_bytes TierOptional (ce_components (cv_envelope out))
     \<and> map (\<lambda>m. (cm_id m, cm_kind m, cm_tier m, cm_sensitivity m, cm_provenance m, cm_truncation m)) (mf_components (cv_manifest out))
         = map (\<lambda>c. (cc_id c, cc_kind c, cc_tier c, cc_sensitivity c, cc_provenance c, cc_truncation c)) (ce_components (cv_envelope out))
     \<and> map (\<lambda>m. (cm_original_bytes m, cm_included_bytes m, cm_content_hash m)) (mf_components (cv_manifest out))
         = map (\<lambda>c. (cc_original_bytes c, int (length (cc_content c)), sha (cc_content c))) (ce_components (cv_envelope out))
     \<and> mf_omissions (cv_manifest out) = ce_omissions (cv_envelope out) \<and> mf_budget (cv_manifest out) = ci_budget input
     \<and> mf_envelope_hash (cv_manifest out) = cv_hash out \<and> cv_hash out = sha (json_envelope (cv_envelope out))"
proof -
  from assms obtain cs oms where c: "cv_envelope out = compiled_envelope input cs oms"
      "ValidateContextEnvelopeV2 sha (cv_envelope out) = Inr ()"
      "cv_hash out = sha (json_envelope (cv_envelope out))"
      "BuildContextManifestV2 sha (cv_envelope out) = Inr (cv_manifest out)"
    by (auto simp: CompileContextV2_iff)
  have v: "\<forall>x \<in> set cs. validateComponentV2 sha x = Inr ()" "validateBudgetV2 (ci_budget input) = Inr ()"
    "au_total (usage_of cs) \<le> ab_total (ci_budget input)"
    "au_required (usage_of cs) \<le> ab_required (ci_budget input)"
    "au_important (usage_of cs) \<le> ab_important (ci_budget input)"
    "au_optional (usage_of cs) \<le> ab_optional (ci_budget input)"
    using c(2) unfolding c(1) ValidateContextEnvelopeV2_iff by auto
  have m: "mf_usage (cv_manifest out) = usage_of cs" "mf_components (cv_manifest out) = map manifest_component cs"
    "mf_envelope_hash (cv_manifest out) = cv_hash out" "mf_omissions (cv_manifest out) = ce_omissions (cv_envelope out)"
    "mf_budget (cv_manifest out) = ci_budget input"
    using c(4) [symmetric] c(2,3) by (simp_all add: BuildContextManifestV2_def CanonicalEnvelopeHashV2_def c(1))
  have "sum_list (map cc_included_bytes cs) = int (length (concat (map cc_content cs)))"
    using v(1) by (induction cs) (auto simp: validateComponentV2_iff)
  moreover have "map ((\<lambda>m. (cm_original_bytes m, cm_included_bytes m, cm_content_hash m)) \<circ> manifest_component) cs
      = map (\<lambda>c. (cc_original_bytes c, int (length (cc_content c)), sha (cc_content c))) cs"
    using v(1) by (auto simp: manifest_component_def validateComponentV2_iff)
  moreover have "map ((\<lambda>m. (cm_id m, cm_kind m, cm_tier m, cm_sensitivity m, cm_provenance m, cm_truncation m)) \<circ> manifest_component) cs
      = map (\<lambda>c. (cc_id c, cc_kind c, cc_tier c, cc_sensitivity c, cc_provenance c, cc_truncation c)) cs"
    by (simp add: manifest_component_def)
  ultimately show ?thesis
    using v(2-) c(2,3) m by (simp add: c(1) usage_of_simps validateBudgetV2_iff)
qed

theorem compile_within_budget_witness:
  "\<exists>out. CompileContextV2 zero_sha sample_input = Inr out
     \<and> tier_bytes TierImportant (ce_components (cv_envelope out)) \<le> 6"
  using sample_compiles compile_within_budget [of zero_sha sample_input] by (fastforce simp: sample_input_def)

text \<open>
  C14. Past the input checks a compilation succeeds exactly when the required content fits
  its budget, the counts are within their bounds and a node task is there: the validator
  never refuses an envelope for anything else the allocation did.
\<close>

theorem compile_succeeds_iff:
  assumes "compile_checks sha input = Inr (all_sources input)"
  shows "(\<exists>out. CompileContextV2 sha input = Inr out) \<longleftrightarrow>
     sumBytes (of_tier TierRequired (all_sources input)) \<le> ab_required (ci_budget input)
     \<and> KindNodeTask \<in> cc_kind ` set (sr_components (ci_resolution input))
     \<and> \<not> blank (ai_run_id (ci_identity input)) \<and> \<not> blank (ai_node_id (ci_identity input))
     \<and> (\<forall>cs oms. allocateV2 sha (all_sources input) (ci_budget input) = Inr (cs, oms) \<longrightarrow>
          length cs \<le> MaxContextComponents
          \<and> length (filter (\<lambda>c. cc_kind c = KindMemory) cs) \<le> MaxSelectedMemoryRecords
          \<and> length (sr_omissions (ci_resolution input)) + length oms \<le> MaxContextOmissions)"
    (is "?l \<longleftrightarrow> ?r")
proof
  assume ?l
  then obtain out cs oms where c: "allocateV2 sha (all_sources input) (ci_budget input) = Inr (cs, oms)"
      "length (sr_omissions (ci_resolution input)) + length oms \<le> MaxContextOmissions"
      "ValidateContextEnvelopeV2 sha (compiled_envelope input cs oms) = Inr ()"
    by (auto simp: CompileContextV2_iff)
  have "sumBytes (of_tier TierRequired (all_sources input)) \<le> ab_required (ci_budget input)"
    using allocateV2_required c(1) by blast
  moreover have "\<not> blank (ai_run_id (ci_identity input)) \<and> \<not> blank (ai_node_id (ci_identity input))
     \<and> length cs \<le> MaxContextComponents
     \<and> KindNodeTask \<in> cc_kind ` set (sr_components (ci_resolution input))
     \<and> length (filter (\<lambda>c. cc_kind c = KindMemory) cs) \<le> MaxSelectedMemoryRecords"
    using compiled_valid_iff [OF assms c(1,2)] c(3) by blast
  ultimately show ?r using c(2) by (simp only: c(1) sum.inject prod.inject) blast
next
  assume r: ?r
  then obtain cs oms where a: "allocateV2 sha (all_sources input) (ci_budget input) = Inr (cs, oms)"
    using allocateV2_required by (metis surj_pair)
  with r have len: "length (sr_omissions (ci_resolution input)) + length oms \<le> MaxContextOmissions" by blast
  have v: "ValidateContextEnvelopeV2 sha (compiled_envelope input cs oms) = Inr ()"
    using compiled_valid_iff [OF assms a len] r a by blast
  then obtain m where "BuildContextManifestV2 sha (compiled_envelope input cs oms) = Inr m"
    by (auto simp: BuildContextManifestV2_def CanonicalEnvelopeHashV2_def)
  with assms a len v have "CompileContextV2 sha input = Inr \<lparr>cv_envelope = compiled_envelope input cs oms,
      cv_manifest = m, cv_hash = sha (json_envelope (compiled_envelope input cs oms))\<rparr>"
    unfolding CompileContextV2_iff by (intro exI conjI) simp_all
  then show ?l ..
qed

theorem compile_succeeds_iff_witness:
  "\<exists>out. CompileContextV2 zero_sha sample_input = Inr out"
  unfolding compile_succeeds_iff [OF sample_checks] sample_allocation
  by (simp add: sample_input_def sample_components_def context_sample_trims sumBytes_def sample_component_def)

text \<open>
  C15. The compilation does not depend on the order in which the sources and the
  omissions were resolved.
\<close>

theorem compile_order_independent:
  assumes "mset (sr_components (ci_resolution input)) = mset (sr_components (ci_resolution input'))"
    and "mset (sr_omissions (ci_resolution input)) = mset (sr_omissions (ci_resolution input'))"
    and "input' = input\<lparr>ci_resolution := ci_resolution input'\<rparr>"
  shows "CompileContextV2 sha input = Inr out \<longleftrightarrow> CompileContextV2 sha input' = Inr out"
proof -
  have same: "ci_identity input' = ci_identity input" "ci_budget input' = ci_budget input"
    "ci_execution_contract input' = ci_execution_contract input"
    "ci_output_contract input' = ci_output_contract input"
    using assms(3) by (metis ContextCompilerInputV2.select_convs(1,3-5) ContextCompilerInputV2.surjective
        ContextCompilerInputV2.update_convs(2))+
  have src: "mset (all_sources input) = mset (all_sources input')" using assms(1) same by simp
  have sets: "set (sr_components (ci_resolution input)) = set (sr_components (ci_resolution input'))"
    "set (sr_omissions (ci_resolution input)) = set (sr_omissions (ci_resolution input'))"
    using assms(1,2) by (metis set_mset_mset)+
  have lens: "length (sr_components (ci_resolution input)) = length (sr_components (ci_resolution input'))"
    "length (sr_omissions (ci_resolution input)) = length (sr_omissions (ci_resolution input'))"
    using assms(1,2) by (metis size_mset)+
  have "mset (map cc_id (all_sources input) @ map om_component_id (sr_omissions (ci_resolution input)))
      = mset (map cc_id (all_sources input') @ map om_component_id (sr_omissions (ci_resolution input')))"
    using src assms(2) by (metis mset_append mset_map)
  then have d: "distinct (map cc_id (all_sources input) @ map om_component_id (sr_omissions (ci_resolution input)))
      \<longleftrightarrow> distinct (map cc_id (all_sources input') @ map om_component_id (sr_omissions (ci_resolution input')))"
    by (rule mset_eq_imp_distinct_iff)
  have chk: "compile_checks sha input = Inr (all_sources input) \<longleftrightarrow>
      compile_checks sha input' = Inr (all_sources input')"
    unfolding compile_checks_iff d using same sets lens by (simp del: distinct_append)
  show ?thesis
  proof (cases "compile_checks sha input = Inr (all_sources input)")
    case False
    with chk show ?thesis by (simp add: CompileContextV2_iff)
  next
    case True
    have alloc: "allocateV2 sha (all_sources input) (ci_budget input)
        = allocateV2 sha (all_sources input') (ci_budget input')"
      unfolding same(2) by (rule allocateV2_perm [OF src compile_checks_sources(2) [OF True]])
    have env: "compiled_envelope input cs oms = compiled_envelope input' cs oms"
      if "allocateV2 sha (all_sources input) (ci_budget input) = Inr (cs, oms)" for cs oms
    proof -
      have b: "validateBudgetV2 (ci_budget input) = Inr ()" using True by (simp add: compile_checks_iff)
      note A = allocateV2_spec(1) [OF that compile_checks_sources(1,2) [OF True] b]
      have "mset (map cc_id cs @ map om_component_id (sr_omissions (ci_resolution input) @ oms))
          = mset (map cc_id (all_sources input) @ map om_component_id (sr_omissions (ci_resolution input)))"
        using A by (simp add: ac_simps)
      then have "distinct (map cc_id cs @ map om_component_id (sr_omissions (ci_resolution input) @ oms))"
        using True mset_eq_imp_distinct_iff unfolding compile_checks_iff by blast
      then have d: "distinct (map om_component_id (sr_omissions (ci_resolution input) @ oms))" by simp
      have "mset (sr_omissions (ci_resolution input) @ oms) = mset (sr_omissions (ci_resolution input') @ oms)"
        using assms(2) by simp
      from omission_sort_cong [OF this d] show ?thesis by (simp only: compiled_envelope_def same)
    qed
    show ?thesis
      unfolding CompileContextV2_iff alloc [symmetric] lens [symmetric]
    proof (intro ex_cong1, goal_cases)
      case (1 cs oms)
      show ?case
      proof (cases "allocateV2 sha (all_sources input) (ci_budget input) = Inr (cs, oms)")
        case a: True
        show ?thesis using True chk unfolding env [OF a] by blast
      next
        case False
        then show ?thesis by blast
      qed
    qed
  qed
qed

theorem compile_order_independent_witness:
  "\<exists>out. CompileContextV2 zero_sha
     (sample_input\<lparr>ci_resolution := \<lparr>sr_components = rev sample_components, sr_omissions = []\<rparr>\<rparr>) = Inr out"
proof -
  obtain out where "CompileContextV2 zero_sha sample_input = Inr out" using sample_compiles by blast
  moreover have "CompileContextV2 zero_sha sample_input = Inr out \<longleftrightarrow> CompileContextV2 zero_sha
     (sample_input\<lparr>ci_resolution := \<lparr>sr_components = rev sample_components, sr_omissions = []\<rparr>\<rparr>) = Inr out"
    by (rule compile_order_independent) (simp_all add: sample_input_def)
  ultimately show ?thesis by blast
qed

end
