(* ===== verification/Run_Lifecycle.thy ===== *)
theory Run_Lifecycle
  imports Backend_Contract Context_Contract Routing_Accounting Workflow_Validate
begin

section \<open>Run, node and Attempt snapshots (internal/run/lifecycle.go, m4\_compat.go, legacy\_attempt.go)\<close>

text \<open>
  The durable records of the run service with their validators: phases, conclusions and
  reasons are the strings of the source, times are integers (instants), pointers are
  options. \<open>hashf\<close> and \<open>catalogs\<close> stand for the catalog digest and the lookup of the
  catalog provider. The wire forms at the end map a record to the members its JSON has and
  back, with the defaults and aliases of older files.
\<close>

type_synonym instant = int

abbreviation "stateSchemaVersion \<equiv> (3 :: int)"
abbreviation "protocolVersion \<equiv> (2 :: int)"
abbreviation "maxActionReceipts \<equiv> (256 :: nat)"

abbreviation "PhaseCreated \<equiv> ''created''"
abbreviation "PhaseRunning \<equiv> ''running''"
abbreviation "PhaseWaiting \<equiv> ''waiting''"
abbreviation "PhasePaused \<equiv> ''paused''"
abbreviation "PhaseCancelling \<equiv> ''cancelling''"
abbreviation "PhaseCompleted \<equiv> ''completed''"

abbreviation "NodePhasePending \<equiv> ''pending''"
abbreviation "NodePhaseReady \<equiv> ''ready''"
abbreviation "NodePhaseRunning \<equiv> ''running''"
abbreviation "NodePhaseWaiting \<equiv> ''waiting''"
abbreviation "NodePhaseCompleted \<equiv> ''completed''"
abbreviation "NodePhaseSkipped \<equiv> ''skipped''"

abbreviation "ConclusionSucceeded \<equiv> ''succeeded''"
abbreviation "ConclusionFailed \<equiv> ''failed''"
abbreviation "ConclusionCancelled \<equiv> ''cancelled''"
abbreviation "ConclusionRejected \<equiv> ''rejected''"
abbreviation "ConclusionIndeterminate \<equiv> ''indeterminate''"

abbreviation "ReasonApprovalRequired \<equiv> ''approval_required''"
abbreviation "ReasonAgentWaitingInput \<equiv> ''agent_waiting_input''"
abbreviation "ReasonCompletionMissing \<equiv> ''completion_missing''"
abbreviation "ReasonInvalidResult \<equiv> ''invalid_result''"
abbreviation "ReasonCancelFailed \<equiv> ''cancel_failed''"
abbreviation "ReasonConditionFalse \<equiv> ''condition_false''"
abbreviation "ReasonUpstreamFailed \<equiv> ''upstream_failed''"
abbreviation "ReasonFailurePolicy \<equiv> ''failure_policy''"
abbreviation "ReasonWorkflowCancelled \<equiv> ''workflow_cancelled''"
abbreviation "ReasonControllerDetach \<equiv> ''controller_detached''"
abbreviation "ReasonUserRequested \<equiv> ''user_requested''"

abbreviation "LaunchPrepared \<equiv> ''prepared''"
abbreviation "LaunchDispatching \<equiv> ''dispatching''"
abbreviation "LaunchHandlePersisted \<equiv> ''handle_persisted''"
abbreviation "LaunchFinishedWithoutHandle \<equiv> ''finished_without_handle''"

record NodeSummary =
  sm_id :: string
  sm_type :: string
  sm_phase :: string
  sm_conclusion :: string
  sm_reason :: string
  sm_diagnostic :: string
  sm_current_attempt :: int

record ActionReceipt =
  rp_action_id :: string
  rp_request_hash :: string
  rp_state_version :: nat
  rp_phase :: string
  rp_conclusion :: string

record WorkflowSnapshot =
  ws_protocol_version :: int
  ws_schema_version :: int
  ws_state_version :: nat
  ws_id :: string
  ws_workflow_name :: string
  ws_project :: string
  ws_resolved_driver :: string
  ws_resolved_target :: string
  ws_warnings :: "string list"
  ws_backend :: string
  ws_effective_concurrency :: int
  ws_phase :: string
  ws_conclusion :: string
  ws_reason :: string
  ws_summary :: string
  ws_inputs :: "(string, goval) gomap"
  ws_order :: "string list"
  ws_nodes :: "(string, NodeSummary) gomap"
  ws_active_node :: string
  ws_cancel_requested :: bool
  ws_receipts :: "(string, ActionReceipt) gomap"
  ws_state_dir :: string
  ws_created_at :: instant
  ws_updated_at :: instant

record NodeSnapshot =
  ns_protocol_version :: int
  ns_schema_version :: int
  ns_run_id :: string
  ns_id :: string
  ns_type :: string
  ns_phase :: string
  ns_conclusion :: string
  ns_reason :: string
  ns_diagnostic :: string
  ns_result :: "Result option"
  ns_pending_answer :: string
  ns_pending_target :: "Target option"
  ns_current_attempt :: int
  ns_created_at :: instant
  ns_updated_at :: instant

record MemoryUsageReceipt =
  mu_schema_version :: string
  mu_mutation_id :: string
  mu_record_ids :: "string list"
  mu_committed :: bool

text \<open>The v1 manifest of the context compiler.\<close>

record Component =
  cp_name :: string
  cp_source :: string
  cp_version :: string

record Manifest =
  mv_compiler_version :: string
  mv_components :: "Component list"

record AttemptSnapshot =
  as_protocol_version :: int
  as_schema_version :: int
  as_run_id :: string
  as_node_id :: string
  as_number :: int
  as_phase :: string
  as_conclusion :: string
  as_reason :: string
  as_resolved_driver :: string
  as_resolved_target :: string
  as_backend :: string
  as_launch_state :: string
  as_execution :: "ExecutionHandle option"
  as_result_consumed :: bool
  as_compiler_version :: string
  as_compiler_version_v2 :: string
  as_manifest :: Manifest
  as_manifest_v2 :: "ContextManifestV2 option"
  as_context_hash :: string
  as_routing_decision :: "RoutingDecisionV1 option"
  as_execution_profile :: "ExecutionProfileV1 option"
  as_routing_usage :: "RoutingUsageV1 option"
  as_side_effect :: string
  as_failure_class :: string
  as_memory_usage :: "MemoryUsageReceipt option"
  as_prompt_hash :: string
  as_started_at :: instant
  as_updated_at :: instant
  as_completed_at :: "instant option"

record WorkflowEvent =
  we_protocol_version :: int
  we_run_id :: string
  we_sequence :: nat
  we_type :: string
  we_phase :: string
  we_conclusion :: string
  we_reason :: string
  we_node_id :: string
  we_node_phase :: string
  we_message :: string
  we_timestamp :: instant

datatype SnapshotError =
    SchemaVersion string int | UnknownPhase string | UnknownConclusion string | UnknownReason string
  | TerminalMismatch string string | ActiveReason string string | BadReceipt string | BadReceiptConclusion string
  | ConclusionRequired | ConclusionUnexpected string string | SkippedReason
  | PendingTarget ContractError | PendingTargetState
  | AttemptNumber | AttemptPhase string | WaitingReason | DriverAlias string string
  | AttemptDecision ContractError | DecisionDriver string string | UsageWithoutDecision
  | CatalogUnavailable string | AttemptUsage ContractError | AttemptProfile ProfileError
  | AttemptSideEffect string | AttemptFailureClass string | AttemptHandle BackendError
  | HandleDriver string string | HandleTarget string string | AttemptLaunchState string
  | LegacyMemory | MemorySchema | MemoryMutation | MemoryIds | MemoryId | MemoryMismatch

subsection \<open>Enumerations\<close>

definition validPhase :: "string \<Rightarrow> bool" where
  "validPhase phase \<longleftrightarrow> phase \<in> set [PhaseCreated, PhaseRunning, PhaseWaiting, PhasePaused,
     PhaseCancelling, PhaseCompleted]"

definition validNodePhase :: "string \<Rightarrow> bool" where
  "validNodePhase phase \<longleftrightarrow> phase \<in> set [NodePhasePending, NodePhaseReady, NodePhaseRunning,
     NodePhaseWaiting, NodePhaseCompleted, NodePhaseSkipped]"

definition validConclusion :: "string \<Rightarrow> bool" where
  "validConclusion conclusion \<longleftrightarrow> conclusion \<in> set [ConclusionSucceeded, ConclusionFailed,
     ConclusionCancelled, ConclusionRejected, ConclusionIndeterminate]"

definition validReason :: "string \<Rightarrow> bool" where
  "validReason reason \<longleftrightarrow> reason \<in> set [ReasonApprovalRequired, ReasonAgentWaitingInput,
     ReasonCompletionMissing, ReasonInvalidResult, ReasonCancelFailed, ReasonConditionFalse,
     ReasonUpstreamFailed, ReasonFailurePolicy, ReasonWorkflowCancelled, ReasonControllerDetach,
     ReasonUserRequested]"

definition validateStateSchemaVersion :: "int \<Rightarrow> string \<Rightarrow> SnapshotError + unit" where
  "validateStateSchemaVersion version kind =
     (if version < 0 \<or> version > stateSchemaVersion then Inl (SchemaVersion kind version) else Inr ())"

subsection \<open>Runs and nodes\<close>

definition check_receipt :: "nat \<Rightarrow> string \<times> ActionReceipt \<Rightarrow> SnapshotError + unit" where
  "check_receipt stateVersion entry =
     (case entry of (actionID, receipt) \<Rightarrow>
        if actionID = '''' \<or> rp_action_id receipt \<noteq> actionID \<or> rp_request_hash receipt = ''''
           \<or> rp_state_version receipt = 0 \<or> rp_state_version receipt > stateVersion
           \<or> \<not> validPhase (rp_phase receipt)
        then Inl (BadReceipt actionID)
        else if (rp_phase receipt = PhaseCompleted) \<noteq> (rp_conclusion receipt \<noteq> '''')
           \<or> rp_conclusion receipt \<noteq> '''' \<and> \<not> validConclusion (rp_conclusion receipt)
        then Inl (BadReceiptConclusion actionID)
        else Inr ())"

definition ValidateWorkflowSnapshot :: "WorkflowSnapshot \<Rightarrow> SnapshotError + unit" where
  "ValidateWorkflowSnapshot run =
     (case validateStateSchemaVersion (ws_schema_version run) ''run'' of Inl e \<Rightarrow> Inl e | Inr _ \<Rightarrow>
      if \<not> validPhase (ws_phase run) then Inl (UnknownPhase (ws_phase run))
      else if ws_conclusion run \<noteq> '''' \<and> \<not> validConclusion (ws_conclusion run)
      then Inl (UnknownConclusion (ws_conclusion run))
      else if ws_reason run \<noteq> '''' \<and> \<not> validReason (ws_reason run) then Inl (UnknownReason (ws_reason run))
      else let terminal = (ws_phase run = PhaseCompleted) in
        if terminal \<noteq> (ws_conclusion run \<noteq> '''') then Inl (TerminalMismatch (ws_phase run) (ws_conclusion run))
        else if ws_phase run \<noteq> PhaseWaiting \<and> ws_phase run \<noteq> PhasePaused \<and> ws_phase run \<noteq> PhaseCancelling
             \<and> ws_reason run \<noteq> '''' \<and> \<not> terminal
        then Inl (ActiveReason (ws_phase run) (ws_reason run))
        else each_ok (check_receipt (ws_state_version run)) (ws_receipts run))"

definition ValidateNodeSnapshot :: "NodeSnapshot \<Rightarrow> SnapshotError + unit" where
  "ValidateNodeSnapshot node =
     (case validateStateSchemaVersion (ns_schema_version node) ''node'' of Inl e \<Rightarrow> Inl e | Inr _ \<Rightarrow>
      if \<not> validNodePhase (ns_phase node) then Inl (UnknownPhase (ns_phase node))
      else if ns_conclusion node \<noteq> '''' \<and> \<not> validConclusion (ns_conclusion node)
      then Inl (UnknownConclusion (ns_conclusion node))
      else if ns_reason node \<noteq> '''' \<and> \<not> validReason (ns_reason node) then Inl (UnknownReason (ns_reason node))
      else if ns_phase node = NodePhaseCompleted \<and> ns_conclusion node = '''' then Inl ConclusionRequired
      else if ns_phase node \<noteq> NodePhaseCompleted \<and> ns_conclusion node \<noteq> ''''
      then Inl (ConclusionUnexpected (ns_phase node) (ns_conclusion node))
      else if ns_phase node = NodePhaseSkipped \<and> ns_reason node = '''' then Inl SkippedReason
      else case ns_pending_target node of
        None \<Rightarrow> Inr ()
      | Some target \<Rightarrow>
          (case ValidateTarget target of
             Inl e \<Rightarrow> Inl (PendingTarget e)
           | Inr _ \<Rightarrow>
               if ns_phase node \<noteq> NodePhaseReady \<or> ns_type node \<noteq> ''agent'' \<or> ns_current_attempt node < 1
               then Inl PendingTargetState else Inr ()))"

definition summarizeNode :: "NodeSnapshot \<Rightarrow> NodeSummary" where
  "summarizeNode node =
     \<lparr>sm_id = ns_id node, sm_type = ns_type node, sm_phase = ns_phase node,
      sm_conclusion = ns_conclusion node, sm_reason = ns_reason node, sm_diagnostic = ns_diagnostic node,
      sm_current_attempt = ns_current_attempt node\<rparr>"

subsection \<open>Names of drivers and targets\<close>

definition legacyDriverName :: "string \<Rightarrow> string" where
  "legacyDriverName name = (if name = ''direct'' then ''codex'' else name)"

definition runDriver :: "WorkflowSnapshot \<Rightarrow> string" where
  "runDriver run = (if ws_resolved_driver run \<noteq> '''' then ws_resolved_driver run else ws_backend run)"

definition runTarget :: "WorkflowSnapshot \<Rightarrow> string" where
  "runTarget run = (if ws_resolved_target run \<noteq> '''' then ws_resolved_target run else ''local'')"

definition attemptDriver :: "AttemptSnapshot \<Rightarrow> string" where
  "attemptDriver attempt =
     (if as_resolved_driver attempt \<noteq> '''' then as_resolved_driver attempt else as_backend attempt)"

definition attemptTarget :: "AttemptSnapshot \<Rightarrow> string" where
  "attemptTarget attempt =
     (if as_resolved_target attempt \<noteq> '''' then as_resolved_target attempt else ''local'')"

definition executionTarget :: "ExecutionHandle \<Rightarrow> string" where
  "executionTarget handle = (if eh_target handle \<noteq> '''' then eh_target handle else ''local'')"

subsection \<open>Attempts\<close>

text \<open>
  The loop over the record IDs: valid, trimmed, bounded, and different from the one before.
\<close>

fun check_record_ids :: "string option \<Rightarrow> string list \<Rightarrow> SnapshotError + unit" where
  "check_record_ids previous [] = Inr ()"
| "check_record_ids previous (i # ids) =
     (if \<not> valid_utf8 i \<or> blank i \<or> i \<noteq> trim_space i \<or> length i > 128 \<or> previous = Some i
      then Inl MemoryId else check_record_ids (Some i) ids)"

definition validateAttemptMemoryUsage :: "AttemptSnapshot \<Rightarrow> SnapshotError + unit" where
  "validateAttemptMemoryUsage attempt =
     (case as_memory_usage attempt of
        None \<Rightarrow> Inr ()
      | Some usage \<Rightarrow>
          (case as_manifest_v2 attempt of
             None \<Rightarrow> Inl LegacyMemory
           | Some manifest \<Rightarrow>
               if as_compiler_version_v2 attempt \<noteq> CompilerV2Version then Inl LegacyMemory
               else if mu_schema_version usage \<noteq> ''fishyume.memory-usage/v1'' \<or> \<not> mu_committed usage
               then Inl MemorySchema
               else if \<not> valid_utf8 (mu_mutation_id usage) \<or> blank (mu_mutation_id usage)
                    \<or> mu_mutation_id usage \<noteq> trim_space (mu_mutation_id usage)
                    \<or> length (mu_mutation_id usage) > 256
               then Inl MemoryMutation
               else if length (mu_record_ids usage) < 1 \<or> length (mu_record_ids usage) > MaxSelectedMemoryRecords
                    \<or> \<not> sorted (mu_record_ids usage)
               then Inl MemoryIds
               else case check_record_ids None (mu_record_ids usage) of
                 Inl e \<Rightarrow> Inl e
               | Inr _ \<Rightarrow>
                   if sort_strings (map cm_id (filter (\<lambda>c. cm_kind c = KindMemory) (mf_components manifest)))
                      \<noteq> mu_record_ids usage
                   then Inl MemoryMismatch else Inr ()))"

definition check_routing ::
  "(CapabilityCatalogV1 \<Rightarrow> string) \<Rightarrow> (string \<Rightarrow> CapabilityCatalogV1 option) \<Rightarrow> AttemptSnapshot
     \<Rightarrow> SnapshotError + unit" where
  "check_routing hashf catalogs attempt =
     (case (case as_routing_decision attempt of
              None \<Rightarrow> Inr ()
            | Some decision \<Rightarrow>
                (case ValidateDecision decision of
                   Inl e \<Rightarrow> Inl (AttemptDecision e)
                 | Inr _ \<Rightarrow>
                     if as_resolved_driver attempt \<noteq> ''''
                        \<and> tgt_driver (rd_selected decision) \<noteq> as_resolved_driver attempt
                     then Inl (DecisionDriver (as_resolved_driver attempt) (tgt_driver (rd_selected decision)))
                     else Inr ())) of
        Inl e \<Rightarrow> Inl e
      | Inr _ \<Rightarrow>
        (case as_routing_usage attempt of
           None \<Rightarrow> Inr ()
         | Some usage \<Rightarrow>
             (case as_routing_decision attempt of
                None \<Rightarrow> Inl UsageWithoutDecision
              | Some decision \<Rightarrow>
                  (case catalogs (rd_catalog_hash decision) of
                     None \<Rightarrow> Inl (CatalogUnavailable (rd_catalog_hash decision))
                   | Some catalog \<Rightarrow>
                       wrap_err AttemptUsage
                         (ValidateRoutingUsageForDecision hashf catalog decision usage)))))"

definition check_execution :: "AttemptSnapshot \<Rightarrow> SnapshotError + unit" where
  "check_execution attempt =
     (case as_execution attempt of
        None \<Rightarrow> Inr ()
      | Some handle \<Rightarrow>
          (case ValidateExecutionHandle handle of
             Inl e \<Rightarrow> Inl (AttemptHandle e)
           | Inr _ \<Rightarrow>
               if DriverName handle \<noteq> attemptDriver attempt
               then Inl (HandleDriver (attemptDriver attempt) (DriverName handle))
               else if executionTarget handle \<noteq> attemptTarget attempt
               then Inl (HandleTarget (attemptTarget attempt) (executionTarget handle))
               else Inr ()))"

definition ValidateAttemptSnapshotWithCatalogs ::
  "(CapabilityCatalogV1 \<Rightarrow> string) \<Rightarrow> (string \<Rightarrow> CapabilityCatalogV1 option) \<Rightarrow> AttemptSnapshot
     \<Rightarrow> SnapshotError + unit" where
  "ValidateAttemptSnapshotWithCatalogs hashf catalogs attempt =
     (case validateStateSchemaVersion (as_schema_version attempt) ''Attempt'' of Inl e \<Rightarrow> Inl e | Inr _ \<Rightarrow>
      if as_number attempt < 1 then Inl AttemptNumber
      else if as_phase attempt \<noteq> NodePhaseRunning \<and> as_phase attempt \<noteq> NodePhaseWaiting
           \<and> as_phase attempt \<noteq> NodePhaseCompleted
      then Inl (AttemptPhase (as_phase attempt))
      else if as_conclusion attempt \<noteq> '''' \<and> \<not> validConclusion (as_conclusion attempt)
      then Inl (UnknownConclusion (as_conclusion attempt))
      else if as_reason attempt \<noteq> '''' \<and> \<not> validReason (as_reason attempt)
      then Inl (UnknownReason (as_reason attempt))
      else if as_phase attempt = NodePhaseCompleted \<and> as_conclusion attempt = '''' then Inl ConclusionRequired
      else if as_phase attempt \<noteq> NodePhaseCompleted \<and> as_conclusion attempt \<noteq> ''''
      then Inl (ConclusionUnexpected (as_phase attempt) (as_conclusion attempt))
      else if as_phase attempt = NodePhaseWaiting \<and> as_reason attempt = '''' then Inl WaitingReason
      else if as_resolved_driver attempt \<noteq> '''' \<and> as_backend attempt \<noteq> ''''
           \<and> as_resolved_driver attempt \<noteq> as_backend attempt
      then Inl (DriverAlias (as_resolved_driver attempt) (as_backend attempt))
      else case check_routing hashf catalogs attempt of Inl e \<Rightarrow> Inl e | Inr _ \<Rightarrow>
      (case (case as_execution_profile attempt of
               None \<Rightarrow> Inr ()
             | Some profile \<Rightarrow> wrap_err AttemptProfile
                 (ValidateExecutionProfile profile (as_routing_decision attempt))) of
         Inl e \<Rightarrow> Inl e
       | Inr _ \<Rightarrow>
         if as_side_effect attempt \<noteq> '''' \<and> as_side_effect attempt \<noteq> SideEffectNone
            \<and> as_side_effect attempt \<noteq> SideEffectUnknown
         then Inl (AttemptSideEffect (as_side_effect attempt))
         else if as_failure_class attempt \<noteq> ''''
              \<and> (as_conclusion attempt \<noteq> ConclusionFailed
                 \<or> as_failure_class attempt \<noteq> FailureModelUnavailablePreExecution
                 \<or> as_side_effect attempt \<noteq> SideEffectNone)
         then Inl (AttemptFailureClass (as_failure_class attempt))
         else case check_execution attempt of Inl e \<Rightarrow> Inl e | Inr _ \<Rightarrow>
           (if as_launch_state attempt \<noteq> ''''
               \<and> as_launch_state attempt \<notin> set [LaunchPrepared, LaunchDispatching, LaunchHandlePersisted,
                    LaunchFinishedWithoutHandle]
            then Inl (AttemptLaunchState (as_launch_state attempt))
            else validateAttemptMemoryUsage attempt)))"

subsection \<open>Wire forms\<close>

text \<open>
  \<^verbatim>\<open>MarshalJSON\<close> replaces the driver and the target by their effective names and
  never writes the deprecated alias; \<^verbatim>\<open>UnmarshalJSON\<close> reads the alias and the
  runtime of older files, which are its two extra arguments (empty when absent).
\<close>

definition marshal_run :: "WorkflowSnapshot \<Rightarrow> WorkflowSnapshot" where
  "marshal_run run =
     run\<lparr>ws_resolved_driver := runDriver run, ws_resolved_target := runTarget run, ws_backend := ''''\<rparr>"

definition unmarshal_run :: "string \<Rightarrow> string \<Rightarrow> WorkflowSnapshot \<Rightarrow> WorkflowSnapshot" where
  "unmarshal_run backend runtime wire =
     (let driver = (if ws_resolved_driver wire = '''' then legacyDriverName backend else ws_resolved_driver wire);
          target = (if ws_resolved_target wire = '''' then runtime else ws_resolved_target wire);
          target = (if target = '''' then ''local'' else target)
      in wire\<lparr>ws_resolved_driver := driver, ws_resolved_target := target, ws_backend := driver\<rparr>)"

definition marshal_attempt :: "AttemptSnapshot \<Rightarrow> AttemptSnapshot" where
  "marshal_attempt attempt =
     attempt\<lparr>as_resolved_driver := attemptDriver attempt, as_resolved_target := attemptTarget attempt,
       as_backend := '''',
       as_context_hash := (if as_context_hash attempt = '''' then as_prompt_hash attempt else as_context_hash attempt),
       as_prompt_hash := ''''\<rparr>"

definition unmarshal_attempt :: "string \<Rightarrow> string \<Rightarrow> string \<Rightarrow> AttemptSnapshot \<Rightarrow> AttemptSnapshot" where
  "unmarshal_attempt backend runtime promptHash wire =
     (let driver = (if as_resolved_driver wire = '''' then backend else as_resolved_driver wire);
          target = (if as_resolved_target wire = '''' then runtime else as_resolved_target wire);
          target = (if target = '''' then ''local'' else target);
          hash = (if as_context_hash wire = '''' then promptHash else as_context_hash wire)
      in wire\<lparr>as_resolved_driver := driver, as_resolved_target := target, as_backend := driver,
           as_context_hash := hash, as_prompt_hash := hash\<rparr>)"

end
