(* ===== verification/Run_Scheduler.thy ===== *)
theory Run_Scheduler
  imports Run_Lifecycle
begin

section \<open>Scheduling and aggregation (internal/run/scheduler.go, aggregation.go)\<close>

text \<open>
  \<open>PlanSchedule\<close> as the code computes it: the maps of nodes and of results built by a
  loop over the snapshots, the scan of the dependencies with its early exit, and the loop
  over the topological order that extends the decision. After it the summary of the node
  states into the state of the run, with the helpers of the service that the scheduler
  and the aggregation share.
\<close>

abbreviation "FishyumeSafetyConcurrencyCeiling \<equiv> (8 :: int)"

record SchedulingDecision =
  sd_ready_agents :: "string list"
  sd_ready_approvals :: "string list"
  sd_skip_upstream :: "string list"
  sd_skip_conditions :: "string list"
  sd_skip_policy :: "string list"
  sd_limit :: int
  sd_active :: int
  sd_available :: int
  sd_stop :: bool
  sd_complete :: bool

datatype ScheduleError =
    WorkflowConcurrency | BackendConcurrency | EffectiveNotPositive | NodeCondition string RefError

subsection \<open>Limits\<close>

definition EffectiveConcurrency :: "int \<Rightarrow> int \<Rightarrow> ScheduleError + int" where
  "EffectiveConcurrency workflowLimit backendLimit =
     (if workflowLimit < 1 then Inl WorkflowConcurrency
      else if backendLimit < 0 then Inl BackendConcurrency
      else let limit = FishyumeSafetyConcurrencyCeiling;
               limit = (if workflowLimit < limit then workflowLimit else limit);
               limit = (if backendLimit > 0 \<and> backendLimit < limit then backendLimit else limit)
           in Inr limit)"

definition plan_limit :: "int \<Rightarrow> int \<Rightarrow> ScheduleError + int" where
  "plan_limit maxConcurrency backendLimit =
     (if maxConcurrency < 1 then Inl WorkflowConcurrency
      else if backendLimit < 0 then Inl BackendConcurrency
      else let effective = FishyumeSafetyConcurrencyCeiling;
               effective = (if maxConcurrency < effective then maxConcurrency else effective);
               effective = (if backendLimit > 0 \<and> backendLimit < effective then backendLimit else effective)
           in if effective < 1 then Inl EffectiveNotPositive else Inr effective)"

text \<open>The argument is the declared capability of the backend the registry returned.\<close>

definition backendConcurrencyLimit :: "int option \<Rightarrow> (unit + ScheduleError) + int" where
  "backendConcurrencyLimit candidate =
     (case candidate of
        None \<Rightarrow> Inl (Inl ())
      | Some limit \<Rightarrow> if limit < 0 then Inl (Inr BackendConcurrency) else Inr limit)"

subsection \<open>What the snapshots say\<close>

definition zero_node :: NodeSnapshot where
  "zero_node = \<lparr>ns_protocol_version = 0, ns_schema_version = 0, ns_run_id = '''', ns_id = '''', ns_type = '''',
     ns_phase = '''', ns_conclusion = '''', ns_reason = '''', ns_diagnostic = '''', ns_result = None,
     ns_pending_answer = '''', ns_pending_target = None, ns_current_attempt = 0, ns_created_at = 0,
     ns_updated_at = 0\<rparr>"

definition index_nodes :: "NodeSnapshot list \<Rightarrow> (string, NodeSnapshot) gomap" where
  "index_nodes nodes = fold (\<lambda>node m. AList.update (ns_id node) node m) nodes []"

definition node_results :: "NodeSnapshot list \<Rightarrow> (string, Result) gomap" where
  "node_results nodes =
     fold (\<lambda>node m. case ns_result node of None \<Rightarrow> m | Some r \<Rightarrow> AList.update (ns_id node) r m) nodes []"

definition node_of :: "(string, NodeSnapshot) gomap \<Rightarrow> string \<Rightarrow> NodeSnapshot" where
  "node_of byID i = (case map_of byID i of None \<Rightarrow> zero_node | Some node \<Rightarrow> node)"

definition failure_conclusion :: "string \<Rightarrow> bool" where
  "failure_conclusion c \<longleftrightarrow> c = ConclusionFailed \<or> c = ConclusionIndeterminate \<or> c = ConclusionCancelled"

definition active_agent :: "NodeSnapshot \<Rightarrow> bool" where
  "active_agent node \<longleftrightarrow> ns_type node = ''agent''
     \<and> (ns_phase node = NodePhaseRunning \<or> ns_phase node = NodePhaseWaiting) \<and> ns_current_attempt node > 0"

definition failed_node :: "NodeSnapshot \<Rightarrow> bool" where
  "failed_node node \<longleftrightarrow> ns_phase node = NodePhaseCompleted \<and> failure_conclusion (ns_conclusion node)"

definition settled :: "NodeSnapshot \<Rightarrow> bool" where
  "settled node \<longleftrightarrow> ns_phase node = NodePhaseCompleted \<or> ns_phase node = NodePhaseSkipped"

definition unstarted :: "NodeSnapshot \<Rightarrow> bool" where
  "unstarted node \<longleftrightarrow> ns_phase node = NodePhasePending \<or> ns_phase node = NodePhaseReady"

subsection \<open>Missing results of a condition\<close>

function conditionResultMissing :: "Condition \<Rightarrow> (string, Result) gomap \<Rightarrow> bool"
  and any_result_missing :: "Condition list \<Rightarrow> (string, Result) gomap \<Rightarrow> bool" where
  "conditionResultMissing (Condition node field equals all any neg) results =
     (if node \<noteq> '''' then map_of results node = None
      else if any_result_missing (items all) results then True
      else if any_result_missing (items any) results then True
      else (case neg of None \<Rightarrow> False | Some c \<Rightarrow> conditionResultMissing c results))"
| "any_result_missing [] results = False"
| "any_result_missing (c # cs) results =
     (if conditionResultMissing c results then True else any_result_missing cs results)"
  by pat_completeness auto
termination
  by (relation "measure (\<lambda>x. case x of
        Inl (c, _) \<Rightarrow> size c
      | Inr (cs, _) \<Rightarrow> size_list size cs)") (auto simp: items_def split: option.splits)

subsection \<open>The plan\<close>

text \<open>
  The loop over the dependencies: whether all of them are settled, and whether one of
  those seen before the first unsettled one failed.
\<close>

fun scan_dependencies :: "(string, NodeSnapshot) gomap \<Rightarrow> bool \<Rightarrow> string list \<Rightarrow> bool \<times> bool" where
  "scan_dependencies byID upstreamFailed [] = (True, upstreamFailed)"
| "scan_dependencies byID upstreamFailed (dependency # ds) =
     (let node = node_of byID dependency
      in if ns_phase node \<noteq> NodePhaseCompleted \<and> ns_phase node \<noteq> NodePhaseSkipped then (False, upstreamFailed)
         else scan_dependencies byID
           (if failure_conclusion (ns_conclusion node) \<or> ns_reason node = ReasonUpstreamFailed
            then True else upstreamFailed) ds)"

definition plan_node ::
  "Normalized \<Rightarrow> (string, NodeSnapshot) gomap \<Rightarrow> (string, Result) gomap \<Rightarrow> SchedulingDecision \<Rightarrow> string
     \<Rightarrow> ScheduleError + SchedulingDecision" where
  "plan_node normalized byID results d nodeID =
     (let ok = (map_of byID nodeID \<noteq> None); node = node_of byID nodeID
      in if ok \<and> sd_stop d \<and> ns_type node = ''approval'' \<and> ns_phase node = NodePhaseWaiting
      then Inr (d\<lparr>sd_skip_policy := sd_skip_policy d @ [nodeID]\<rparr>)
      else if \<not> ok \<or> ns_phase node \<noteq> NodePhasePending \<and> ns_phase node \<noteq> NodePhaseReady then Inr d
      else let definition = get_node (nz_document normalized) nodeID;
               (stable, upstreamFailed) = scan_dependencies byID False (n_depends_on definition);
               schedule = (\<lambda>eligibleFailureBranch.
                 if sd_stop d \<and> \<not> eligibleFailureBranch
                 then Inr (d\<lparr>sd_skip_policy := sd_skip_policy d @ [nodeID]\<rparr>)
                 else if n_type definition = ''approval''
                 then Inr (d\<lparr>sd_ready_approvals := sd_ready_approvals d @ [nodeID]\<rparr>)
                 else if sd_available d > 0
                 then Inr (d\<lparr>sd_ready_agents := sd_ready_agents d @ [nodeID], sd_available := sd_available d - 1\<rparr>)
                 else Inr d)
      in if \<not> stable then Inr d
      else case n_when definition of
        Some condition \<Rightarrow>
          (case Evaluate condition results of
             Inl err \<Rightarrow>
               if upstreamFailed \<and> conditionResultMissing condition results
               then Inr (d\<lparr>sd_skip_upstream := sd_skip_upstream d @ [nodeID]\<rparr>)
               else Inl (NodeCondition nodeID err)
           | Inr matches \<Rightarrow>
               if \<not> matches then Inr (d\<lparr>sd_skip_conditions := sd_skip_conditions d @ [nodeID]\<rparr>)
               else schedule upstreamFailed)
      | None \<Rightarrow>
          if upstreamFailed then Inr (d\<lparr>sd_skip_upstream := sd_skip_upstream d @ [nodeID]\<rparr>)
          else schedule False)"

fun plan_nodes ::
  "Normalized \<Rightarrow> (string, NodeSnapshot) gomap \<Rightarrow> (string, Result) gomap \<Rightarrow> SchedulingDecision \<Rightarrow> string list
     \<Rightarrow> ScheduleError + SchedulingDecision" where
  "plan_nodes normalized byID results d [] = Inr d"
| "plan_nodes normalized byID results d (nodeID # ids) =
     (case plan_node normalized byID results d nodeID of
        Inl e \<Rightarrow> Inl e
      | Inr d' \<Rightarrow> plan_nodes normalized byID results d' ids)"

definition PlanSchedule ::
  "Normalized \<Rightarrow> WorkflowSnapshot \<Rightarrow> NodeSnapshot list \<Rightarrow> int \<Rightarrow> ScheduleError + SchedulingDecision" where
  "PlanSchedule normalized run nodes backendLimit =
     (case plan_limit (doc_max_concurrency (nz_document normalized)) backendLimit of
        Inl e \<Rightarrow> Inl e
      | Inr effective \<Rightarrow>
          let byID = index_nodes nodes;
              results = node_results nodes;
              active = int (length (filter active_agent nodes));
              failure = (failure_conclusion (ws_conclusion run) \<or> list_ex failed_node nodes);
              available = (if effective - active < 0 then 0 else effective - active);
              d = \<lparr>sd_ready_agents = [], sd_ready_approvals = [], sd_skip_upstream = [], sd_skip_conditions = [],
                   sd_skip_policy = [], sd_limit = effective, sd_active = active, sd_available = available,
                   sd_stop = failure, sd_complete = False\<rparr>
          in (case plan_nodes normalized byID results d (nz_order normalized) of
                Inl e \<Rightarrow> Inl e
              | Inr d' \<Rightarrow> Inr (d'\<lparr>sd_complete := list_all settled nodes\<rparr>)))"

subsection \<open>Helpers of the service\<close>

definition findNode :: "NodeSnapshot list \<Rightarrow> string \<Rightarrow> NodeSnapshot option" where
  "findNode nodes nodeID = List.find (\<lambda>node. ns_id node = nodeID) nodes"

definition findActiveNode :: "NodeSnapshot list \<Rightarrow> NodeSnapshot option" where
  "findActiveNode nodes =
     List.find (\<lambda>node. ns_phase node = NodePhaseRunning
       \<or> ns_phase node = NodePhaseWaiting \<and> ns_type node = ''agent'') nodes"

definition findActiveAttempts :: "NodeSnapshot list \<Rightarrow> (string \<times> int) list" where
  "findActiveAttempts nodes =
     map (\<lambda>node. (ns_id node, ns_current_attempt node))
       (filter (\<lambda>node. ns_type node = ''agent'' \<and> ns_current_attempt node > 0
          \<and> (ns_phase node = NodePhaseRunning \<or> ns_phase node = NodePhaseWaiting)) nodes)"

definition ancestorSet :: "Document \<Rightarrow> string \<Rightarrow> string list" where
  "ancestorSet doc nodeID = visit doc (deps doc nodeID) []"

definition contextDependencySet :: "Normalized \<Rightarrow> string \<Rightarrow> string list" where
  "contextDependencySet normalized nodeID =
     (if nz_policy_version normalized \<noteq> ''context-policy/v1''
      then ancestorSet (nz_document normalized) nodeID
      else remdups (cp_dependencies
        (EffectiveContextPolicy (nz_document normalized) (get_node (nz_document normalized) nodeID))))"

subsection \<open>Aggregation\<close>

text \<open>\<^verbatim>\<open>fmt.Sprint\<close> yields the text only for a string or a number written so.\<close>

function mentionsRejected :: "Condition \<Rightarrow> bool" and any_mentions_rejected :: "Condition list \<Rightarrow> bool" where
  "mentionsRejected (Condition node field equals all any neg) =
     (if node \<noteq> '''' \<and> field = ''result.decision''
         \<and> (equals = GString ''rejected'' \<or> equals = GNumber ''rejected'') then True
      else if any_mentions_rejected (items all) then True
      else if any_mentions_rejected (items any) then True
      else (case neg of None \<Rightarrow> False | Some c \<Rightarrow> mentionsRejected c))"
| "any_mentions_rejected [] = False"
| "any_mentions_rejected (c # cs) = (if mentionsRejected c then True else any_mentions_rejected cs)"
  by pat_completeness auto
termination
  by (relation "measure (\<lambda>x. case x of Inl c \<Rightarrow> size c | Inr cs \<Rightarrow> size_list size cs)")
    (auto simp: items_def split: option.splits)

fun rejected_branch :: "(string, NodeSnapshot) gomap \<Rightarrow> (string \<times> Node) list \<Rightarrow> bool" where
  "rejected_branch state [] = False"
| "rejected_branch state ((i, definition) # nodes) =
     (if (case n_when definition of None \<Rightarrow> False | Some c \<Rightarrow> mentionsRejected c)
         \<and> ns_reason (node_of state i) \<noteq> ReasonConditionFalse
      then True else rejected_branch state nodes)"

definition hasEligibleRejectedBranch :: "Document \<Rightarrow> NodeSnapshot list \<Rightarrow> bool" where
  "hasEligibleRejectedBranch doc nodes = rejected_branch (index_nodes nodes) (doc_nodes doc)"

fun conclude :: "string \<Rightarrow> NodeSnapshot list \<Rightarrow> string option" where
  "conclude conclusion [] = Some conclusion"
| "conclude conclusion (node # nodes) =
     (if ns_conclusion node = ConclusionFailed then None
      else let conclusion = (if ns_conclusion node = ConclusionIndeterminate then ConclusionIndeterminate else conclusion);
               conclusion = (if ns_conclusion node = ConclusionRejected \<and> conclusion = ConclusionSucceeded
                  then ConclusionRejected else conclusion)
           in conclude conclusion nodes)"

definition aggregateConclusion :: "NodeSnapshot list \<Rightarrow> Document \<Rightarrow> string \<times> string" where
  "aggregateConclusion nodes doc =
     (case conclude ConclusionSucceeded nodes of
        None \<Rightarrow> (ConclusionFailed, ReasonUpstreamFailed)
      | Some conclusion \<Rightarrow>
          if conclusion = ConclusionRejected \<and> hasEligibleRejectedBranch doc nodes
          then (ConclusionSucceeded, '''') else (conclusion, ''''))"

definition aggregateRunStateChanged :: "WorkflowSnapshot \<Rightarrow> WorkflowSnapshot \<Rightarrow> bool" where
  "aggregateRunStateChanged before after \<longleftrightarrow>
     ws_phase before \<noteq> ws_phase after \<or> ws_conclusion before \<noteq> ws_conclusion after
     \<or> ws_reason before \<noteq> ws_reason after \<or> ws_summary before \<noteq> ws_summary after
     \<or> ws_active_node before \<noteq> ws_active_node after"

definition aggregateRunState ::
  "WorkflowSnapshot \<Rightarrow> NodeSnapshot list \<Rightarrow> Document \<Rightarrow> instant \<Rightarrow> WorkflowSnapshot \<times> string \<times> bool" where
  "aggregateRunState run nodes doc now =
     (let activeRunning = length (filter (\<lambda>n. ns_phase n = NodePhaseRunning \<and> ns_type n = ''agent'') nodes);
          waitingAgents = filter (\<lambda>n. ns_phase n = NodePhaseWaiting \<and> ns_type n = ''agent'') nodes;
          waitingApprovals = filter (\<lambda>n. ns_phase n = NodePhaseWaiting \<and> ns_type n \<noteq> ''agent'') nodes;
          pending = length (filter unstarted nodes);
          failure = list_ex failed_node nodes;
          activeIDs = map ns_id (filter (\<lambda>n. ns_phase n = NodePhaseRunning \<and> ns_type n = ''agent''
             \<or> ns_phase n = NodePhaseWaiting) nodes);
          compatActive = (case activeIDs of [i] \<Rightarrow> i | _ \<Rightarrow> '''')
      in if activeRunning > 0
      then (run\<lparr>ws_phase := PhaseRunning, ws_conclusion := '''', ws_reason := '''', ws_active_node := compatActive,
              ws_updated_at := now,
              ws_summary := (if failure then ''workflow failure detected; draining active sibling executions''
                 else ws_summary run)\<rparr>,
            ''run.running'', False)
      else case waitingAgents of
        n # _ \<Rightarrow>
          (run\<lparr>ws_phase := PhaseWaiting, ws_conclusion := '''', ws_reason := ns_reason n, ws_active_node := compatActive,
              ws_summary := (if ns_diagnostic n = '''' then ''Agent execution is waiting'' else ns_diagnostic n),
              ws_updated_at := now\<rparr>,
           ''run.waiting'', True)
      | [] \<Rightarrow>
        (case waitingApprovals of
           n # _ \<Rightarrow>
             (run\<lparr>ws_phase := PhaseWaiting, ws_conclusion := '''', ws_reason := ReasonApprovalRequired,
                 ws_active_node := compatActive,
                 ws_summary := (if ns_diagnostic n = '''' then ''approval required'' else ns_diagnostic n),
                 ws_updated_at := now\<rparr>,
              ''run.waiting'', True)
         | [] \<Rightarrow>
           if pending > 0
           then (run\<lparr>ws_phase := PhaseRunning, ws_conclusion := '''', ws_reason := '''',
                   ws_active_node := compatActive, ws_updated_at := now\<rparr>,
                 ''run.running'', False)
           else case aggregateConclusion nodes doc of
             (conclusion, reason) \<Rightarrow>
               (run\<lparr>ws_phase := PhaseCompleted, ws_conclusion := conclusion, ws_reason := reason,
                   ws_active_node := '''', ws_summary := ''workflow completed'', ws_updated_at := now\<rparr>,
                ''run.completed'', True)))"

end
