(* ===== verification/Run_Planning.thy ===== *)
theory Run_Planning
  imports Run_Scheduler
begin

section \<open>What a scheduling decision contains\<close>

text \<open>
  The abstract specification of the scheduler: a verdict for each node that depends only
  on the snapshots of the node and its dependencies, on the results and on whether
  scheduling is stopped, not on the position in the order or on the counters the loop
  carries. The lemmas show that \<open>PlanSchedule\<close> sorts the nodes by verdict and cuts the
  ready agents at the free capacity; the snapshot validators and the aggregation of the
  run state follow.
\<close>

subsection \<open>What the validators accept\<close>

lemma version_ok: "validateStateSchemaVersion v k = Inr u \<longleftrightarrow> 0 \<le> v \<and> v \<le> stateSchemaVersion"
  by (auto simp: validateStateSchemaVersion_def)

lemma check_receipt_iff:
  "check_receipt version (i, r) = Inr u \<longleftrightarrow>
     i \<noteq> '''' \<and> rp_action_id r = i \<and> rp_request_hash r \<noteq> '''' \<and> 0 < rp_state_version r
     \<and> rp_state_version r \<le> version \<and> validPhase (rp_phase r)
     \<and> (rp_phase r = PhaseCompleted \<longleftrightarrow> rp_conclusion r \<noteq> '''')
     \<and> (rp_conclusion r = '''' \<or> validConclusion (rp_conclusion r))"
  by (auto simp: check_receipt_def)

lemma ValidateWorkflowSnapshot_iff:
  "ValidateWorkflowSnapshot run = Inr () \<longleftrightarrow>
     0 \<le> ws_schema_version run \<and> ws_schema_version run \<le> stateSchemaVersion
     \<and> validPhase (ws_phase run) \<and> (ws_conclusion run = '''' \<or> validConclusion (ws_conclusion run))
     \<and> (ws_reason run = '''' \<or> validReason (ws_reason run))
     \<and> (ws_phase run = PhaseCompleted \<longleftrightarrow> ws_conclusion run \<noteq> '''')
     \<and> (ws_phase run \<in> {PhaseWaiting, PhasePaused, PhaseCancelling, PhaseCompleted} \<or> ws_reason run = '''')
     \<and> (\<forall>e \<in> set (ws_receipts run). check_receipt (ws_state_version run) e = Inr ())"
  unfolding ValidateWorkflowSnapshot_def
  by (simp only: check_Inr_iff guard_Inr_iff version_ok Let_def each_ok_iff) auto

lemma ValidateNodeSnapshot_iff:
  "ValidateNodeSnapshot node = Inr () \<longleftrightarrow>
     0 \<le> ns_schema_version node \<and> ns_schema_version node \<le> stateSchemaVersion
     \<and> validNodePhase (ns_phase node) \<and> (ns_conclusion node = '''' \<or> validConclusion (ns_conclusion node))
     \<and> (ns_reason node = '''' \<or> validReason (ns_reason node))
     \<and> (ns_phase node = NodePhaseCompleted \<longleftrightarrow> ns_conclusion node \<noteq> '''')
     \<and> (ns_phase node = NodePhaseSkipped \<longrightarrow> ns_reason node \<noteq> '''')
     \<and> (case ns_pending_target node of None \<Rightarrow> True
        | Some target \<Rightarrow> ValidateTarget target = Inr () \<and> ns_phase node = NodePhaseReady
            \<and> ns_type node = ''agent'' \<and> 1 \<le> ns_current_attempt node)"
proof -
  have "(case ns_pending_target node of None \<Rightarrow> Inr ()
      | Some target \<Rightarrow> (case ValidateTarget target of Inl e \<Rightarrow> Inl (PendingTarget e)
         | Inr _ \<Rightarrow> if ns_phase node \<noteq> NodePhaseReady \<or> ns_type node \<noteq> ''agent'' \<or> ns_current_attempt node < 1
             then Inl PendingTargetState else Inr ())) = Inr () \<longleftrightarrow>
      (case ns_pending_target node of None \<Rightarrow> True
        | Some target \<Rightarrow> ValidateTarget target = Inr () \<and> ns_phase node = NodePhaseReady
            \<and> ns_type node = ''agent'' \<and> 1 \<le> ns_current_attempt node)"
    by (cases "ns_pending_target node") (simp, simp only: option.case check_Inr_iff guard_Inr_iff, auto)
  then show ?thesis
    unfolding ValidateNodeSnapshot_def
    by (simp only: check_Inr_iff guard_Inr_iff version_ok) auto
qed

lemma aggregateRunState_frame [simp]:
  "ws_schema_version (fst (aggregateRunState run nodes doc now)) = ws_schema_version run"
  "ws_receipts (fst (aggregateRunState run nodes doc now)) = ws_receipts run"
  "ws_state_version (fst (aggregateRunState run nodes doc now)) = ws_state_version run"
  "ws_nodes (fst (aggregateRunState run nodes doc now)) = ws_nodes run"
  "ws_id (fst (aggregateRunState run nodes doc now)) = ws_id run"
  "ws_order (fst (aggregateRunState run nodes doc now)) = ws_order run"
  "ws_cancel_requested (fst (aggregateRunState run nodes doc now)) = ws_cancel_requested run"
  unfolding aggregateRunState_def Let_def
  by (simp_all split: list.split prod.split del: filter.simps)

subsection \<open>Maps of snapshots\<close>

lemma map_of_update_nodes:
  "distinct (map ns_id nodes) \<Longrightarrow>
     map_of (fold (\<lambda>n m. AList.update (ns_id n) n m) nodes m) i =
       (case List.find (\<lambda>n. ns_id n = i) nodes of None \<Rightarrow> map_of m i | Some n \<Rightarrow> Some n)"
proof (induction nodes arbitrary: m)
  case (Cons n nodes)
  moreover have "List.find (\<lambda>x. ns_id x = ns_id n) nodes = None"
    using Cons.prems by (simp add: find_None_iff) (metis image_eqI)
  ultimately show ?case by (auto simp: AList.update_conv' split: option.splits)
qed simp

lemma map_of_index_nodes:
  assumes "distinct (map ns_id nodes)"
  shows "map_of (index_nodes nodes) i = Some node \<longleftrightarrow> node \<in> set nodes \<and> ns_id node = i"
proof -
  have "List.find (\<lambda>n. ns_id n = i) nodes = Some node \<longleftrightarrow> node \<in> set nodes \<and> ns_id node = i"
    using assms by (induction nodes) (auto simp: image_iff)
  then show ?thesis
    using map_of_update_nodes [OF assms, of "[]" i] unfolding index_nodes_def by (auto split: option.splits)
qed

lemma index_nodes_None:
  assumes "distinct (map ns_id nodes)"
  shows "map_of (index_nodes nodes) i = None \<longleftrightarrow> i \<notin> ns_id ` set nodes"
proof -
  have "map_of (index_nodes nodes) i = None \<longleftrightarrow> (\<nexists>n. map_of (index_nodes nodes) i = Some n)" by simp
  then show ?thesis by (auto simp: map_of_index_nodes [OF assms])
qed

lemma node_of_index [simp]:
  "distinct (map ns_id nodes) \<Longrightarrow> node \<in> set nodes \<Longrightarrow> node_of (index_nodes nodes) (ns_id node) = node"
  using map_of_index_nodes [of nodes "ns_id node" node] by (simp add: node_of_def)

lemma node_of_missing:
  "distinct (map ns_id nodes) \<Longrightarrow> i \<notin> ns_id ` set nodes \<Longrightarrow> node_of (index_nodes nodes) i = zero_node"
  by (simp add: node_of_def index_nodes_None [THEN iffD2])

lemma zero_node_simps [simp]:
  "ns_type zero_node = ''''" "ns_phase zero_node = ''''" "ns_conclusion zero_node = ''''"
  "\<not> settled zero_node" "\<not> unstarted zero_node"
  by (simp_all add: settled_def unstarted_def zero_node_def)

subsection \<open>Verdicts\<close>

datatype verdict = Idle | UpstreamSkip | ConditionSkip | PolicySkip | ApprovalReady | AgentReady

definition upstream_failed :: "NodeSnapshot \<Rightarrow> bool" where
  "upstream_failed node \<longleftrightarrow> failure_conclusion (ns_conclusion node) \<or> ns_reason node = ReasonUpstreamFailed"

definition ready_verdict :: "bool \<Rightarrow> string \<Rightarrow> verdict" where
  "ready_verdict held type = (if held then PolicySkip else if type = ''approval'' then ApprovalReady else AgentReady)"

definition node_verdict ::
  "Document \<Rightarrow> (string, NodeSnapshot) gomap \<Rightarrow> (string, Result) gomap \<Rightarrow> bool \<Rightarrow> string
     \<Rightarrow> ScheduleError + verdict" where
  "node_verdict doc byID results stop i =
     (let node = node_of byID i;
          up = list_ex (\<lambda>d. upstream_failed (node_of byID d)) (deps doc i)
      in if stop \<and> ns_type node = ''approval'' \<and> ns_phase node = NodePhaseWaiting then Inr PolicySkip
         else if \<not> unstarted node \<or> \<not> list_all (\<lambda>d. settled (node_of byID d)) (deps doc i) then Inr Idle
         else case n_when (get_node doc i) of
           None \<Rightarrow> Inr (if up then UpstreamSkip else ready_verdict stop (n_type (get_node doc i)))
         | Some c \<Rightarrow>
             (case Evaluate c results of
                Inl e \<Rightarrow> if up \<and> conditionResultMissing c results then Inr UpstreamSkip else Inl (NodeCondition i e)
              | Inr b \<Rightarrow> Inr (if b then ready_verdict (stop \<and> \<not> up) (n_type (get_node doc i)) else ConditionSkip)))"

definition apply_verdict :: "SchedulingDecision \<Rightarrow> string \<Rightarrow> verdict \<Rightarrow> SchedulingDecision" where
  "apply_verdict d i v =
     (case v of
        Idle \<Rightarrow> d
      | UpstreamSkip \<Rightarrow> d\<lparr>sd_skip_upstream := sd_skip_upstream d @ [i]\<rparr>
      | ConditionSkip \<Rightarrow> d\<lparr>sd_skip_conditions := sd_skip_conditions d @ [i]\<rparr>
      | PolicySkip \<Rightarrow> d\<lparr>sd_skip_policy := sd_skip_policy d @ [i]\<rparr>
      | ApprovalReady \<Rightarrow> d\<lparr>sd_ready_approvals := sd_ready_approvals d @ [i]\<rparr>
      | AgentReady \<Rightarrow>
          if sd_available d > 0
          then d\<lparr>sd_ready_agents := sd_ready_agents d @ [i], sd_available := sd_available d - 1\<rparr> else d)"

lemma scan_dependencies_spec:
  "fst (scan_dependencies byID u ds) = list_all (\<lambda>d. settled (node_of byID d)) ds"
  "list_all (\<lambda>d. settled (node_of byID d)) ds \<Longrightarrow>
     snd (scan_dependencies byID u ds) = (u \<or> list_ex (\<lambda>d. upstream_failed (node_of byID d)) ds)"
  by (induction ds arbitrary: u) (auto simp: Let_def settled_def upstream_failed_def)

lemma missing_not_waiting: "map_of byID i = None \<Longrightarrow> node_of byID i = zero_node"
  by (simp add: node_of_def)

lemma plan_node_verdict:
  "plan_node nz byID results d i =
     (case node_verdict (nz_document nz) byID results (sd_stop d) i of
        Inl e \<Rightarrow> Inl e
      | Inr v \<Rightarrow> Inr (apply_verdict d i v))"
proof (cases "map_of byID i = None")
  case True
  then show ?thesis
    by (simp add: plan_node_def node_verdict_def missing_not_waiting apply_verdict_def Let_def)
next
  case False
  let ?ds = "deps (nz_document nz) i"
  have phase: "(ns_phase n \<noteq> NodePhasePending \<and> ns_phase n \<noteq> NodePhaseReady) = (\<not> unstarted n)" for n
    by (auto simp: unstarted_def)
  obtain stable up where s: "scan_dependencies byID False ?ds = (stable, up)" by fastforce
  have st: "stable = list_all (\<lambda>d. settled (node_of byID d)) ?ds"
    using scan_dependencies_spec(1) [of byID False ?ds] s by simp
  have u: "stable \<Longrightarrow> up = list_ex (\<lambda>d. upstream_failed (node_of byID d)) ?ds"
    using scan_dependencies_spec(2) [of byID ?ds False] s st by simp
  show ?thesis
  proof (cases stable)
    case True
    note u [OF True, symmetric, simp] st [symmetric, simp] True [simp] s [simp]
    show ?thesis
      using False unfolding plan_node_def node_verdict_def phase
      by (auto simp: Let_def apply_verdict_def ready_verdict_def split: option.splits sum.splits)
  next
    case nst: False
    then show ?thesis
      using False unfolding plan_node_def node_verdict_def phase
      by (auto simp: Let_def apply_verdict_def s st [symmetric])
  qed
qed

lemma apply_verdict_fixed [simp]:
  "sd_stop (apply_verdict d i v) = sd_stop d" "sd_limit (apply_verdict d i v) = sd_limit d"
  "sd_active (apply_verdict d i v) = sd_active d"
  by (auto simp: apply_verdict_def split: verdict.split)

text \<open>The nodes of the order with a given verdict.\<close>

abbreviation with_verdict ::
  "Document \<Rightarrow> (string, NodeSnapshot) gomap \<Rightarrow> (string, Result) gomap \<Rightarrow> bool \<Rightarrow> verdict \<Rightarrow> string list \<Rightarrow> string list"
where
  "with_verdict doc byID results stop v ids \<equiv>
     filter (\<lambda>i. node_verdict doc byID results stop i = Inr v) ids"

lemma take_Suc_nat: "0 < (k :: int) \<Longrightarrow> take (nat k) (x # xs) = x # take (nat (k - 1)) xs"
  by (simp add: nat_diff_distrib take_Cons')

lemma plan_nodes_spec:
  "plan_nodes nz byID results d ids = Inr d' \<Longrightarrow>
     sd_skip_upstream d' = sd_skip_upstream d @ with_verdict (nz_document nz) byID results (sd_stop d) UpstreamSkip ids
   \<and> sd_skip_conditions d' = sd_skip_conditions d @ with_verdict (nz_document nz) byID results (sd_stop d) ConditionSkip ids
   \<and> sd_skip_policy d' = sd_skip_policy d @ with_verdict (nz_document nz) byID results (sd_stop d) PolicySkip ids
   \<and> sd_ready_approvals d' = sd_ready_approvals d @ with_verdict (nz_document nz) byID results (sd_stop d) ApprovalReady ids
   \<and> sd_ready_agents d' = sd_ready_agents d
       @ take (nat (sd_available d)) (with_verdict (nz_document nz) byID results (sd_stop d) AgentReady ids)
   \<and> sd_limit d' = sd_limit d \<and> sd_active d' = sd_active d \<and> sd_stop d' = sd_stop d
   \<and> (\<forall>i \<in> set ids. \<exists>v. node_verdict (nz_document nz) byID results (sd_stop d) i = Inr v)"
proof (induction ids arbitrary: d)
  case Nil
  then show ?case by simp
next
  case (Cons i ids)
  let ?V = "node_verdict (nz_document nz) byID results (sd_stop d)"
  from Cons.prems obtain v where v: "?V i = Inr v"
    and rest: "plan_nodes nz byID results (apply_verdict d i v) ids = Inr d'"
    by (auto simp: plan_node_verdict split: sum.splits)
  note ih = Cons.IH [OF rest, unfolded apply_verdict_fixed]
  show ?case
  proof (cases v)
    case AgentReady
    then show ?thesis
      using ih v by (cases "sd_available d > 0") (simp_all add: apply_verdict_def take_Suc_nat)
  qed (use ih v in \<open>simp_all add: apply_verdict_def\<close>)
qed

lemma plan_nodes_defined:
  "(\<forall>i \<in> set ids. \<exists>v. node_verdict (nz_document nz) byID results (sd_stop d) i = Inr v) \<Longrightarrow>
   \<exists>d'. plan_nodes nz byID results d ids = Inr d'"
  by (induction ids arbitrary: d) (auto simp: plan_node_verdict)

subsection \<open>The whole decision\<close>

definition stop_scheduling :: "WorkflowSnapshot \<Rightarrow> NodeSnapshot list \<Rightarrow> bool" where
  "stop_scheduling run nodes \<longleftrightarrow> failure_conclusion (ws_conclusion run) \<or> list_ex failed_node nodes"

definition verdict_of :: "Document \<Rightarrow> WorkflowSnapshot \<Rightarrow> NodeSnapshot list \<Rightarrow> string \<Rightarrow> ScheduleError + verdict" where
  "verdict_of doc run nodes =
     node_verdict doc (index_nodes nodes) (node_results nodes) (stop_scheduling run nodes)"

definition active_count :: "NodeSnapshot list \<Rightarrow> int" where
  "active_count nodes = int (length (filter active_agent nodes))"

definition start_decision :: "int \<Rightarrow> WorkflowSnapshot \<Rightarrow> NodeSnapshot list \<Rightarrow> SchedulingDecision" where
  "start_decision effective run nodes =
     \<lparr>sd_ready_agents = [], sd_ready_approvals = [], sd_skip_upstream = [], sd_skip_conditions = [],
      sd_skip_policy = [], sd_limit = effective, sd_active = active_count nodes,
      sd_available = (if effective - active_count nodes < 0 then 0 else effective - active_count nodes),
      sd_stop = stop_scheduling run nodes, sd_complete = False\<rparr>"

lemma start_decision_simps [simp]:
  "sd_ready_agents (start_decision e run nodes) = []" "sd_ready_approvals (start_decision e run nodes) = []"
  "sd_skip_upstream (start_decision e run nodes) = []" "sd_skip_conditions (start_decision e run nodes) = []"
  "sd_skip_policy (start_decision e run nodes) = []" "sd_limit (start_decision e run nodes) = e"
  "sd_active (start_decision e run nodes) = active_count nodes"
  "sd_stop (start_decision e run nodes) = stop_scheduling run nodes"
  "nat (sd_available (start_decision e run nodes)) = nat (e - active_count nodes)"
  by (simp_all add: start_decision_def)

lemma PlanSchedule_unfold:
  "PlanSchedule nz run nodes limit =
     (case plan_limit (doc_max_concurrency (nz_document nz)) limit of
        Inl e \<Rightarrow> Inl e
      | Inr effective \<Rightarrow>
          (case plan_nodes nz (index_nodes nodes) (node_results nodes) (start_decision effective run nodes) (nz_order nz) of
             Inl e \<Rightarrow> Inl e
           | Inr d' \<Rightarrow> Inr (d'\<lparr>sd_complete := list_all settled nodes\<rparr>)))"
  unfolding PlanSchedule_def Let_def start_decision_def active_count_def stop_scheduling_def by (rule refl)

lemma PlanSchedule_ok:
  assumes "PlanSchedule nz run nodes limit = Inr d"
  obtains effective where
    "plan_limit (doc_max_concurrency (nz_document nz)) limit = Inr effective"
    "sd_limit d = effective" "sd_active d = active_count nodes"
    "sd_stop d = stop_scheduling run nodes" "sd_complete d = list_all settled nodes"
    "sd_skip_upstream d = filter (\<lambda>i. verdict_of (nz_document nz) run nodes i = Inr UpstreamSkip) (nz_order nz)"
    "sd_skip_conditions d = filter (\<lambda>i. verdict_of (nz_document nz) run nodes i = Inr ConditionSkip) (nz_order nz)"
    "sd_skip_policy d = filter (\<lambda>i. verdict_of (nz_document nz) run nodes i = Inr PolicySkip) (nz_order nz)"
    "sd_ready_approvals d = filter (\<lambda>i. verdict_of (nz_document nz) run nodes i = Inr ApprovalReady) (nz_order nz)"
    "sd_ready_agents d = take (nat (effective - active_count nodes))
       (filter (\<lambda>i. verdict_of (nz_document nz) run nodes i = Inr AgentReady) (nz_order nz))"
    "\<forall>i \<in> set (nz_order nz). \<exists>v. verdict_of (nz_document nz) run nodes i = Inr v"
proof -
  from assms obtain effective d' where e: "plan_limit (doc_max_concurrency (nz_document nz)) limit = Inr effective"
    and d': "plan_nodes nz (index_nodes nodes) (node_results nodes) (start_decision effective run nodes)
       (nz_order nz) = Inr d'"
    and d: "d = d'\<lparr>sd_complete := list_all settled nodes\<rparr>"
    by (auto simp: PlanSchedule_unfold split: sum.splits)
  show thesis
    using that [OF e] plan_nodes_spec [OF d'] unfolding d verdict_of_def by simp
qed

lemma plan_limit_eq: "plan_limit w b = EffectiveConcurrency w b"
  by (simp add: plan_limit_def EffectiveConcurrency_def Let_def)

lemma EffectiveConcurrency_ok:
  "EffectiveConcurrency w b = Inr e \<longleftrightarrow>
     1 \<le> w \<and> 0 \<le> b \<and> e = min FishyumeSafetyConcurrencyCeiling (if b = 0 then w else min w b)"
  by (auto simp: EffectiveConcurrency_def Let_def)

lemma PlanSchedule_succeeds_iff:
  "(\<exists>d. PlanSchedule nz run nodes limit = Inr d) \<longleftrightarrow>
     1 \<le> doc_max_concurrency (nz_document nz) \<and> 0 \<le> limit
     \<and> (\<forall>i \<in> set (nz_order nz). \<exists>v. verdict_of (nz_document nz) run nodes i = Inr v)" (is "?l \<longleftrightarrow> ?r")
proof
  assume ?l
  then show ?r by (auto elim!: PlanSchedule_ok simp: plan_limit_eq EffectiveConcurrency_ok)
next
  assume r: ?r
  then obtain e where e: "plan_limit (doc_max_concurrency (nz_document nz)) limit = Inr e"
    by (simp add: plan_limit_eq EffectiveConcurrency_ok)
  from r have "\<exists>d'. plan_nodes nz (index_nodes nodes) (node_results nodes) (start_decision e run nodes)
      (nz_order nz) = Inr d'"
    by (intro plan_nodes_defined) (simp add: verdict_of_def)
  with e show ?l by (auto simp: PlanSchedule_unfold)
qed

subsection \<open>Ready nodes and progress\<close>

abbreviation "ready_kind doc i \<equiv> (if n_type (get_node doc i) = ''approval'' then ApprovalReady else AgentReady)"

lemma ready_verdict_iff:
  "ready_verdict held t = AgentReady \<longleftrightarrow> \<not> held \<and> t \<noteq> ''approval''"
  "ready_verdict held t = ApprovalReady \<longleftrightarrow> \<not> held \<and> t = ''approval''"
  "ready_verdict held t = PolicySkip \<longleftrightarrow> held"
  "ready_verdict held t \<noteq> UpstreamSkip" "ready_verdict held t \<noteq> ConditionSkip" "ready_verdict held t \<noteq> Idle"
  by (auto simp: ready_verdict_def)

lemma verdict_ready:
  assumes "node_verdict doc byID results stop i = Inr v" "v = AgentReady \<or> v = ApprovalReady"
  shows "v = ready_kind doc i" "unstarted (node_of byID i)"
    "\<forall>d \<in> set (deps doc i). settled (node_of byID d)"
    "case n_when (get_node doc i) of
       None \<Rightarrow> \<not> stop \<and> (\<forall>d \<in> set (deps doc i). \<not> upstream_failed (node_of byID d))
     | Some c \<Rightarrow> Evaluate c results = Inr True
         \<and> (stop \<longrightarrow> (\<exists>d \<in> set (deps doc i). upstream_failed (node_of byID d)))"
  using assms
  by (auto simp: node_verdict_def Let_def ready_verdict_iff list_all_iff list_ex_iff
      split: if_splits option.splits sum.splits)

lemma verdict_skip:
  assumes "node_verdict doc byID results stop i = Inr v" "v = UpstreamSkip \<or> v = ConditionSkip"
  shows "unstarted (node_of byID i)" "\<forall>d \<in> set (deps doc i). settled (node_of byID d)"
    "v = UpstreamSkip \<Longrightarrow> \<exists>d \<in> set (deps doc i). upstream_failed (node_of byID d)"
  using assms
  by (auto simp: node_verdict_def Let_def ready_verdict_iff list_all_iff list_ex_iff
      split: if_splits option.splits sum.splits)

lemma verdict_idle:
  "node_verdict doc byID results stop i = Inr Idle \<Longrightarrow> unstarted (node_of byID i) \<Longrightarrow>
     \<exists>d \<in> set (deps doc i). \<not> settled (node_of byID d)"
  by (auto simp: node_verdict_def Let_def ready_verdict_iff list_all_iff
      split: if_splits option.splits sum.splits)

text \<open>The earliest unstarted node of a topological order has only settled dependencies.\<close>

lemma first_unstarted:
  assumes "greedy doc order" "i \<in> set order" "unstarted (node_of byID i)"
    and phases: "\<forall>j \<in> set order. settled (node_of byID j) \<or> unstarted (node_of byID j)"
  obtains j where "j \<in> set order" "unstarted (node_of byID j)" "\<forall>d \<in> set (deps doc j). settled (node_of byID d)"
proof -
  obtain xs j ys where o: "order = xs @ j # ys" and j: "unstarted (node_of byID j)"
    and xs: "\<forall>x \<in> set xs. \<not> unstarted (node_of byID x)"
    using split_list_first_prop [of order "\<lambda>x. unstarted (node_of byID x)"] assms(2,3) by auto
  have "set (deps doc j) \<subseteq> set xs" using greedy_deps [OF assms(1) o] by simp
  then have "\<forall>d \<in> set (deps doc j). settled (node_of byID d)"
    using xs phases o by auto
  then show thesis using that [of j] o j by simp
qed

definition decides_something :: "SchedulingDecision \<Rightarrow> bool" where
  "decides_something d \<longleftrightarrow> sd_skip_upstream d \<noteq> [] \<or> sd_skip_conditions d \<noteq> [] \<or> sd_skip_policy d \<noteq> []
     \<or> sd_ready_approvals d \<noteq> [] \<or> sd_ready_agents d \<noteq> []"

lemma PlanSchedule_progress:
  assumes order: "greedy (nz_document nz) (nz_order nz)"
    and ids: "map ns_id nodes = nz_order nz"
    and phases: "\<forall>n \<in> set nodes. settled n \<or> unstarted n"
    and plan: "PlanSchedule nz run nodes limit = Inr d"
  shows "sd_complete d \<or> decides_something d"
proof (cases "sd_complete d")
  case False
  have dist: "distinct (map ns_id nodes)" using greedy_distinct [OF order] ids by simp
  have set_order: "set (nz_order nz) = ns_id ` set nodes" using ids by (metis list.set_map)
  let ?byID = "index_nodes nodes"
  obtain effective where
    e: "plan_limit (doc_max_concurrency (nz_document nz)) limit = Inr effective"
    and c: "sd_complete d = list_all settled nodes"
    and d: "sd_skip_upstream d = filter (\<lambda>i. verdict_of (nz_document nz) run nodes i = Inr UpstreamSkip) (nz_order nz)"
    "sd_skip_conditions d = filter (\<lambda>i. verdict_of (nz_document nz) run nodes i = Inr ConditionSkip) (nz_order nz)"
    "sd_skip_policy d = filter (\<lambda>i. verdict_of (nz_document nz) run nodes i = Inr PolicySkip) (nz_order nz)"
    "sd_ready_approvals d = filter (\<lambda>i. verdict_of (nz_document nz) run nodes i = Inr ApprovalReady) (nz_order nz)"
    and a: "sd_ready_agents d = take (nat (effective - active_count nodes))
       (filter (\<lambda>i. verdict_of (nz_document nz) run nodes i = Inr AgentReady) (nz_order nz))"
    and v: "\<forall>i \<in> set (nz_order nz). \<exists>v. verdict_of (nz_document nz) run nodes i = Inr v"
    using plan by (elim PlanSchedule_ok)
  have "active_count nodes = 0"
    using phases by (auto simp: active_count_def active_agent_def settled_def unstarted_def filter_empty_conv)
  then have free: "nat (effective - active_count nodes) > 0"
    using e by (auto simp: plan_limit_eq EffectiveConcurrency_ok)
  from False c phases obtain n where n: "n \<in> set nodes" "unstarted n"
    by (auto simp: list_all_iff)
  have ph: "\<forall>j \<in> set (nz_order nz). settled (node_of ?byID j) \<or> unstarted (node_of ?byID j)"
    using phases dist by (auto simp: set_order)
  have i: "ns_id n \<in> set (nz_order nz)" "unstarted (node_of ?byID (ns_id n))"
    using n dist by (auto simp: set_order)
  obtain j where j: "j \<in> set (nz_order nz)" "unstarted (node_of ?byID j)"
      "\<forall>d \<in> set (deps (nz_document nz) j). settled (node_of ?byID d)"
    using first_unstarted [OF order i ph] .
  from v j(1) obtain w where w: "verdict_of (nz_document nz) run nodes j = Inr w" by blast
  have "w \<noteq> Idle" using w j(2,3) verdict_idle unfolding verdict_of_def by blast
  then show ?thesis
    unfolding decides_something_def d a using w j(1) free by (cases w) (auto simp: filter_empty_conv)
qed simp

subsection \<open>Aggregation\<close>

lemma conclude_spec:
  "conclude c nodes =
     (if \<exists>n \<in> set nodes. ns_conclusion n = ConclusionFailed then None
      else if \<exists>n \<in> set nodes. ns_conclusion n = ConclusionIndeterminate then Some ConclusionIndeterminate
      else if c = ConclusionSucceeded \<and> (\<exists>n \<in> set nodes. ns_conclusion n = ConclusionRejected)
      then Some ConclusionRejected else Some c)"
proof (induction nodes arbitrary: c)
  case Nil
  then show ?case by simp
next
  case (Cons n nodes)
  show ?case
    by (cases "ns_conclusion n = ConclusionFailed"; cases "ns_conclusion n = ConclusionIndeterminate";
        cases "ns_conclusion n = ConclusionRejected") (simp_all add: Let_def Cons.IH)
qed

lemma aggregateConclusion_cases:
  "aggregateConclusion nodes doc \<in>
     {(ConclusionFailed, ReasonUpstreamFailed), (ConclusionSucceeded, ''''), (ConclusionRejected, ''''),
      (ConclusionIndeterminate, '''')}"
  by (simp add: aggregateConclusion_def conclude_spec)

definition running_agent :: "NodeSnapshot \<Rightarrow> bool" where
  "running_agent n \<longleftrightarrow> ns_phase n = NodePhaseRunning \<and> ns_type n = ''agent''"

definition waiting_node :: "NodeSnapshot \<Rightarrow> bool" where
  "waiting_node n \<longleftrightarrow> ns_phase n = NodePhaseWaiting"

text \<open>The five branches of the aggregation.\<close>

lemma aggregateRunState_cases:
  obtains
    (Running) "\<exists>n \<in> set nodes. running_agent n"
      "ws_phase (fst (aggregateRunState run nodes doc now)) = PhaseRunning"
      "ws_conclusion (fst (aggregateRunState run nodes doc now)) = ''''"
      "ws_reason (fst (aggregateRunState run nodes doc now)) = ''''"
      "snd (aggregateRunState run nodes doc now) = (''run.running'', False)"
  | (Waiting) n where "\<not> (\<exists>n \<in> set nodes. running_agent n)" "n \<in> set nodes" "waiting_node n"
      "ws_phase (fst (aggregateRunState run nodes doc now)) = PhaseWaiting"
      "ws_conclusion (fst (aggregateRunState run nodes doc now)) = ''''"
      "ws_reason (fst (aggregateRunState run nodes doc now)) \<in> {ns_reason n, ReasonApprovalRequired}"
      "snd (aggregateRunState run nodes doc now) = (''run.waiting'', True)"
  | (Pending) n where "\<not> (\<exists>n \<in> set nodes. running_agent n)" "\<not> (\<exists>n \<in> set nodes. waiting_node n)"
      "n \<in> set nodes" "unstarted n"
      "ws_phase (fst (aggregateRunState run nodes doc now)) = PhaseRunning"
      "ws_conclusion (fst (aggregateRunState run nodes doc now)) = ''''"
      "ws_reason (fst (aggregateRunState run nodes doc now)) = ''''"
      "snd (aggregateRunState run nodes doc now) = (''run.running'', False)"
  | (Completed) "\<not> (\<exists>n \<in> set nodes. running_agent n \<or> waiting_node n \<or> unstarted n)"
      "ws_phase (fst (aggregateRunState run nodes doc now)) = PhaseCompleted"
      "(ws_conclusion (fst (aggregateRunState run nodes doc now)), ws_reason (fst (aggregateRunState run nodes doc now)))
         = aggregateConclusion nodes doc"
      "snd (aggregateRunState run nodes doc now) = (''run.completed'', True)"
proof -
  let ?r = "filter (\<lambda>n. ns_phase n = NodePhaseRunning \<and> ns_type n = ''agent'') nodes"
  let ?wa = "filter (\<lambda>n. ns_phase n = NodePhaseWaiting \<and> ns_type n = ''agent'') nodes"
  let ?wo = "filter (\<lambda>n. ns_phase n = NodePhaseWaiting \<and> ns_type n \<noteq> ''agent'') nodes"
  let ?p = "filter unstarted nodes"
  have r: "?r = [] \<longleftrightarrow> \<not> (\<exists>n \<in> set nodes. running_agent n)"
    by (auto simp: filter_empty_conv running_agent_def)
  have w: "?wa = [] \<and> ?wo = [] \<longleftrightarrow> \<not> (\<exists>n \<in> set nodes. waiting_node n)"
    by (auto simp: filter_empty_conv waiting_node_def)
  have p: "?p = [] \<longleftrightarrow> \<not> (\<exists>n \<in> set nodes. unstarted n)"
    by (auto simp: filter_empty_conv)
  show thesis
  proof (cases "?r = []")
    case False
    then have "\<exists>n \<in> set nodes. running_agent n" using r by simp
    then show thesis
      using False by (intro Running) (simp_all add: aggregateRunState_def Let_def)
  next
    case nr: True
    show thesis
    proof (cases ?wa)
      case (Cons n ns)
      then have "n \<in> set ?wa" by simp
      then have "n \<in> set nodes" "waiting_node n" by (auto simp: waiting_node_def)
      then show thesis
        using nr r Cons by (intro Waiting [of n]) (simp_all add: aggregateRunState_def Let_def)
    next
      case wa: Nil
      show thesis
      proof (cases ?wo)
        case (Cons n ns)
        then have "n \<in> set ?wo" by simp
        then have "n \<in> set nodes" "waiting_node n" by (auto simp: waiting_node_def)
        then show thesis
          using nr r wa Cons by (intro Waiting [of n]) (simp_all add: aggregateRunState_def Let_def)
      next
        case wo: Nil
        show thesis
        proof (cases ?p)
          case (Cons n ns)
          then have "n \<in> set ?p" by simp
          then have "n \<in> set nodes" "unstarted n" by auto
          then show thesis
            using nr r wa wo w Cons by (intro Pending [of n]) (simp_all add: aggregateRunState_def Let_def)
        next
          case Nil
          then show thesis
            using nr r wa wo w p
            by (intro Completed) (auto simp: aggregateRunState_def Let_def split: prod.splits)
        qed
      qed
    qed
  qed
qed

lemma aggregateConclusion_valid:
  "validConclusion (fst (aggregateConclusion nodes doc))" "fst (aggregateConclusion nodes doc) \<noteq> []"
  "snd (aggregateConclusion nodes doc) = [] \<or> validReason (snd (aggregateConclusion nodes doc))"
  using aggregateConclusion_cases [of nodes doc]
  by (elim insertE emptyE; simp add: validConclusion_def validReason_def)+

lemma valid_phases [simp]:
  "validPhase PhaseCompleted" "validPhase PhaseRunning" "validPhase PhaseWaiting" "validPhase PhaseCancelling"
  "validReason ReasonApprovalRequired"
  by (simp_all add: validPhase_def validReason_def)

lemma aggregate_valid:
  assumes "ValidateWorkflowSnapshot run = Inr ()" and "\<forall>n \<in> set nodes. ValidateNodeSnapshot n = Inr ()"
  shows "ValidateWorkflowSnapshot (fst (aggregateRunState run nodes doc now)) = Inr ()"
proof (cases rule: aggregateRunState_cases [of nodes run doc now])
  case Completed
  let ?run = "fst (aggregateRunState run nodes doc now)"
  have "ws_conclusion ?run = fst (aggregateConclusion nodes doc)" "ws_reason ?run = snd (aggregateConclusion nodes doc)"
    using Completed(3) by (metis fst_conv, metis snd_conv)
  then show ?thesis
    using assms(1) aggregateConclusion_valid [of nodes doc] Completed(2) by (simp add: ValidateWorkflowSnapshot_iff)
next
  case (Waiting n)
  then have "ns_reason n = [] \<or> validReason (ns_reason n)"
    using assms(2) by (simp add: ValidateNodeSnapshot_iff)
  with Waiting(4-6) show ?thesis
    using assms(1) by (auto simp: ValidateWorkflowSnapshot_iff)
qed (use assms(1) in \<open>simp_all add: ValidateWorkflowSnapshot_iff\<close>)

end
