(* ===== verification/Run_Properties.thy ===== *)
theory Run_Properties
  imports Run_Planning
begin

section \<open>Properties of scheduling and of the run state\<close>

text \<open>
  What the scheduler decides and what the run state says about the nodes: the decision as
  a sorting by verdict, its capacity bound, what a node needs to be started, progress, and
  the aggregation of node states. The samples are the four nodes of a diamond.
\<close>

subsection \<open>A sample run\<close>

definition diamond_doc :: Document where
  "diamond_doc = \<lparr>doc_api_version = ''fishyume/v1'', doc_name = ''demo'', doc_inputs = [],
     doc_defaults = \<lparr>df_agent = empty_agent, df_backend = '''', df_tool = '''', df_runtime = ''''\<rparr>,
     doc_max_concurrency = 2, doc_context = None,
     doc_nodes =
       [(''plan'', empty_node\<lparr>n_type := ''agent''\<rparr>),
        (''lint'', empty_node\<lparr>n_type := ''agent'', n_depends_on := [''plan'']\<rparr>),
        (''docs'', empty_node\<lparr>n_type := ''agent'', n_depends_on := [''plan'']\<rparr>),
        (''test'', empty_node\<lparr>n_type := ''agent'', n_depends_on := [''plan'']\<rparr>),
        (''ship'', empty_node\<lparr>n_type := ''approval'', n_depends_on := [''lint'', ''test'']\<rparr>)]\<rparr>"

definition diamond :: Normalized where
  "diamond = \<lparr>nz_document = diamond_doc, nz_inputs = [], nz_order = [''plan'', ''docs'', ''lint'', ''test'', ''ship''],
     nz_warnings = [], nz_policy_version = ''context-policy/legacy'',
     nz_memory_bindings = []\<rparr>"

definition fresh_node :: "string \<Rightarrow> string \<Rightarrow> string \<Rightarrow> string \<Rightarrow> NodeSnapshot" where
  "fresh_node i type phase conclusion = zero_node\<lparr>ns_schema_version := 3, ns_id := i, ns_type := type,
     ns_phase := phase, ns_conclusion := conclusion\<rparr>"

definition sample_run :: WorkflowSnapshot where
  "sample_run = \<lparr>ws_protocol_version = 2, ws_schema_version = 3, ws_state_version = 1, ws_id = ''run-1'',
     ws_workflow_name = ''demo'', ws_project = ''p'', ws_resolved_driver = ''codex'', ws_resolved_target = ''local'',
     ws_warnings = [], ws_backend = ''codex'', ws_effective_concurrency = 2, ws_phase = PhaseRunning,
     ws_conclusion = '''', ws_reason = '''', ws_summary = '''', ws_inputs = [], ws_order = nz_order diamond,
     ws_nodes = [], ws_active_node = '''', ws_cancel_requested = False, ws_receipts = [], ws_state_dir = '''',
     ws_created_at = 0, ws_updated_at = 0\<rparr>"

definition after_plan :: "NodeSnapshot list" where
  "after_plan =
     [fresh_node ''plan'' ''agent'' ''completed'' ''succeeded'', fresh_node ''docs'' ''agent'' ''pending'' '''',
      fresh_node ''lint'' ''agent'' ''pending'' '''', fresh_node ''test'' ''agent'' ''pending'' '''',
      fresh_node ''ship'' ''approval'' ''pending'' '''']"

lemma diamond_order: "TopologicalOrder diamond_doc = Some (nz_order diamond)"
  by code_simp

lemma diamond_wf: "wf_map (doc_nodes diamond_doc)"
  by (simp add: wf_map_def diamond_doc_def)

lemma diamond_greedy: "greedy (nz_document diamond) (nz_order diamond)"
  using diamond_order by (simp add: diamond_def TopologicalOrder_greedy [OF diamond_wf])

lemma after_plan_decision:
  "PlanSchedule diamond sample_run after_plan 0 = Inr
     \<lparr>sd_ready_agents = [''docs'', ''lint''], sd_ready_approvals = [], sd_skip_upstream = [], sd_skip_conditions = [],
      sd_skip_policy = [], sd_limit = 2, sd_active = 0, sd_available = 0, sd_stop = False, sd_complete = False\<rparr>"
  by code_simp

lemma after_plan_ids: "map ns_id after_plan = nz_order diamond"
  by code_simp

subsection \<open>The scheduler\<close>

text \<open>
  C18. The decision sorts the nodes of the order by verdict, the skipped, the approvals and
  the agents each in topological order, and cuts the ready agents at the free capacity; a
  node's verdict does not depend on the other nodes that become ready. Planning succeeds
  exactly if the workflow's limit is positive, the backend's is not negative and every node
  of the order has a verdict; otherwise it fails.
\<close>

theorem plan_schedule_sorts_by_verdict:
  "((\<exists>e. PlanSchedule nz run nodes limit = Inl e) \<longleftrightarrow>
     doc_max_concurrency (nz_document nz) < 1 \<or> limit < 0
       \<or> (\<exists>i \<in> set (nz_order nz). \<exists>e. verdict_of (nz_document nz) run nodes i = Inl e))
   \<and> (case PlanSchedule nz run nodes limit of Inl e \<Rightarrow> True
   | Inr d \<Rightarrow>
       (let ofv = (\<lambda>v. filter (\<lambda>i. verdict_of (nz_document nz) run nodes i = Inr v) (nz_order nz))
        in sd_skip_upstream d = ofv UpstreamSkip \<and> sd_skip_conditions d = ofv ConditionSkip
         \<and> sd_skip_policy d = ofv PolicySkip \<and> sd_ready_approvals d = ofv ApprovalReady
         \<and> sd_ready_agents d = take (nat (sd_limit d - sd_active d)) (ofv AgentReady)
         \<and> sd_complete d = list_all settled nodes))"
    (is "?fails \<and> ?sorted")
proof
  have verdict: "(\<exists>v. r = Inr v) \<longleftrightarrow> (\<nexists>e. r = Inl e)" for r :: "ScheduleError + verdict" by (cases r) auto
  have "(\<exists>e. PlanSchedule nz run nodes limit = Inl e) \<longleftrightarrow> \<not> (\<exists>d. PlanSchedule nz run nodes limit = Inr d)"
    by (cases "PlanSchedule nz run nodes limit") simp_all
  then show ?fails
    unfolding PlanSchedule_succeeds_iff verdict by auto
next
  show ?sorted
  proof (cases "PlanSchedule nz run nodes limit")
    case (Inl e)
    then show ?thesis by simp
  next
    case (Inr d)
    then obtain effective where "sd_limit d = effective" "sd_active d = active_count nodes"
      "sd_complete d = list_all settled nodes"
      "sd_skip_upstream d = filter (\<lambda>i. verdict_of (nz_document nz) run nodes i = Inr UpstreamSkip) (nz_order nz)"
      "sd_skip_conditions d = filter (\<lambda>i. verdict_of (nz_document nz) run nodes i = Inr ConditionSkip) (nz_order nz)"
      "sd_skip_policy d = filter (\<lambda>i. verdict_of (nz_document nz) run nodes i = Inr PolicySkip) (nz_order nz)"
      "sd_ready_approvals d = filter (\<lambda>i. verdict_of (nz_document nz) run nodes i = Inr ApprovalReady) (nz_order nz)"
      "sd_ready_agents d = take (nat (effective - active_count nodes))
         (filter (\<lambda>i. verdict_of (nz_document nz) run nodes i = Inr AgentReady) (nz_order nz))"
      by (elim PlanSchedule_ok)
    then show ?thesis by (simp add: Inr Let_def)
  qed
qed

text \<open>
  C19. The agents a decision starts never exceed the limit together with the active ones,
  that limit is the one \<open>EffectiveConcurrency\<close> reports, and it is at most 8, at most the
  workflow's limit and at most a limit the backend declares.
\<close>

theorem plan_schedule_capacity:
  assumes "PlanSchedule nz run nodes limit = Inr d"
  shows "int (length (sd_ready_agents d)) + sd_active d \<le> max (sd_limit d) (sd_active d)
     \<and> EffectiveConcurrency (doc_max_concurrency (nz_document nz)) limit = Inr (sd_limit d)
     \<and> 1 \<le> sd_limit d \<and> sd_limit d \<le> FishyumeSafetyConcurrencyCeiling
     \<and> sd_limit d \<le> doc_max_concurrency (nz_document nz) \<and> (limit > 0 \<longrightarrow> sd_limit d \<le> limit)"
proof -
  from assms obtain effective rest where
    e: "plan_limit (doc_max_concurrency (nz_document nz)) limit = Inr effective" "sd_limit d = effective"
    "sd_active d = active_count nodes"
    and a: "sd_ready_agents d = take (nat (effective - active_count nodes)) rest"
    by (elim PlanSchedule_ok)
  have "length (sd_ready_agents d) \<le> nat (effective - active_count nodes)"
    by (simp add: a)
  then have "int (length (sd_ready_agents d)) + sd_active d \<le> max (sd_limit d) (sd_active d)"
    unfolding e(2,3) by linarith
  then show ?thesis
    using e(1) unfolding plan_limit_eq EffectiveConcurrency_ok e(2) by (intro conjI) (simp_all add: min_def)
qed

theorem plan_schedule_capacity_witness:
  "int (length [''docs'', ''lint'']) \<le> (2 :: int) \<and> EffectiveConcurrency 2 0 = Inr 2"
  using plan_schedule_capacity [OF after_plan_decision] by (simp add: diamond_def diamond_doc_def)

lemma list_all2_disjoint:
  assumes "list_all2 (\<lambda>xs v. \<forall>j \<in> set xs. f j = Inr v) xss vs" "distinct vs" "n = length vs"
  shows "\<forall>a < n. \<forall>b < n. a \<noteq> b \<longrightarrow> set (xss ! a) \<inter> set (xss ! b) = {}"
proof (intro allI impI)
  fix a b assume ab: "a < n" "b < n" "a \<noteq> b"
  have "length xss = n" using assms(1,3) by (simp add: list_all2_lengthD)
  then have "\<forall>j \<in> set (xss ! a). f j = Inr (vs ! a)" "\<forall>j \<in> set (xss ! b). f j = Inr (vs ! b)"
    using list_all2_nthD [OF assms(1)] ab(1,2) by simp_all
  moreover have "vs ! a \<noteq> vs ! b" using ab assms(2,3) by (simp add: nth_eq_iff_index_eq)
  ultimately show "set (xss ! a) \<inter> set (xss ! b) = {}" by auto
qed

text \<open>
  C20. A node is started only if it is pending or ready in the snapshots, every dependency
  is completed or skipped, its condition, if any, evaluates to true, and no dependency
  failed or was skipped after a failure unless a condition admits it; after a failure in the run only such a
  failure branch is started. The five lists of a decision are pairwise disjoint.
\<close>

theorem scheduled_nodes_enabled:
  assumes "PlanSchedule nz run nodes limit = Inr d" and "distinct (map ns_id nodes)"
    and "i \<in> set (sd_ready_agents d) \<union> set (sd_ready_approvals d)"
  shows "(\<exists>node \<in> set nodes. ns_id node = i \<and> unstarted node)
     \<and> (\<forall>dep \<in> set (deps (nz_document nz) i). \<exists>node \<in> set nodes. ns_id node = dep \<and> settled node)
     \<and> (case n_when (get_node (nz_document nz) i) of
          None \<Rightarrow> \<not> stop_scheduling run nodes
            \<and> (\<forall>node \<in> set nodes. ns_id node \<in> set (deps (nz_document nz) i) \<longrightarrow> \<not> upstream_failed node)
        | Some c \<Rightarrow> Evaluate c (node_results nodes) = Inr True
            \<and> (stop_scheduling run nodes \<longrightarrow>
                 (\<exists>node \<in> set nodes. ns_id node \<in> set (deps (nz_document nz) i) \<and> upstream_failed node)))
     \<and> i \<notin> set (sd_skip_upstream d) \<union> set (sd_skip_conditions d) \<union> set (sd_skip_policy d)
     \<and> (let lists = [sd_skip_upstream d, sd_skip_conditions d, sd_skip_policy d, sd_ready_approvals d, sd_ready_agents d]
        in \<forall>a < 5. \<forall>b < 5. a \<noteq> b \<longrightarrow> set (lists ! a) \<inter> set (lists ! b) = {})"
proof -
  note dist = assms(2)
  let ?n = "node_of (index_nodes nodes)"
  have found: "\<exists>node \<in> set nodes. ns_id node = j \<and> ?n j = node" if "settled (?n j) \<or> unstarted (?n j)" for j
    using that node_of_missing [OF dist, of j] node_of_index [OF dist] by (cases "j \<in> ns_id ` set nodes") auto
  from assms(1) obtain effective where
    l: "sd_skip_upstream d = filter (\<lambda>i. verdict_of (nz_document nz) run nodes i = Inr UpstreamSkip) (nz_order nz)"
    "sd_skip_conditions d = filter (\<lambda>i. verdict_of (nz_document nz) run nodes i = Inr ConditionSkip) (nz_order nz)"
    "sd_skip_policy d = filter (\<lambda>i. verdict_of (nz_document nz) run nodes i = Inr PolicySkip) (nz_order nz)"
    "sd_ready_approvals d = filter (\<lambda>i. verdict_of (nz_document nz) run nodes i = Inr ApprovalReady) (nz_order nz)"
    "sd_ready_agents d = take (nat (effective - active_count nodes))
       (filter (\<lambda>i. verdict_of (nz_document nz) run nodes i = Inr AgentReady) (nz_order nz))"
    by (elim PlanSchedule_ok)
  have agent: "verdict_of (nz_document nz) run nodes i = Inr AgentReady" if "i \<in> set (sd_ready_agents d)"
    using that unfolding l by (auto dest: in_set_takeD)
  obtain v where v: "verdict_of (nz_document nz) run nodes i = Inr v" "v = AgentReady \<or> v = ApprovalReady"
    using assms(3) agent unfolding l(4) by auto
  note r = verdict_ready [OF v(1) [unfolded verdict_of_def] v(2)]
  have "\<exists>node \<in> set nodes. ns_id node = i \<and> unstarted node" using found [of i] r(2) by auto
  moreover have "\<forall>dep \<in> set (deps (nz_document nz) i). \<exists>node \<in> set nodes. ns_id node = dep \<and> settled node"
    using found r(3) by fastforce
  moreover have "case n_when (get_node (nz_document nz) i) of
          None \<Rightarrow> \<not> stop_scheduling run nodes
            \<and> (\<forall>node \<in> set nodes. ns_id node \<in> set (deps (nz_document nz) i) \<longrightarrow> \<not> upstream_failed node)
        | Some c \<Rightarrow> Evaluate c (node_results nodes) = Inr True
            \<and> (stop_scheduling run nodes \<longrightarrow>
                 (\<exists>node \<in> set nodes. ns_id node \<in> set (deps (nz_document nz) i) \<and> upstream_failed node))"
  proof -
    have up: "(\<exists>dep \<in> set (deps (nz_document nz) i). upstream_failed (?n dep)) \<longleftrightarrow>
        (\<exists>node \<in> set nodes. ns_id node \<in> set (deps (nz_document nz) i) \<and> upstream_failed node)"
      using found r(3) node_of_index [OF dist] by metis
    show ?thesis
    proof (cases "n_when (get_node (nz_document nz) i)")
      case None
      then show ?thesis using r(4) up by (simp add: stop_scheduling_def)
    next
      case (Some c)
      then show ?thesis using r(4) up by simp
    qed
  qed
  moreover have "i \<notin> set (sd_skip_upstream d) \<union> set (sd_skip_conditions d) \<union> set (sd_skip_policy d)"
    using v unfolding l by auto
  moreover have "let lists = [sd_skip_upstream d, sd_skip_conditions d, sd_skip_policy d, sd_ready_approvals d, sd_ready_agents d]
      in \<forall>a < 5. \<forall>b < 5. a \<noteq> b \<longrightarrow> set (lists ! a) \<inter> set (lists ! b) = {}"
  proof -
    have lists: "list_all2 (\<lambda>xs v. \<forall>j \<in> set xs. verdict_of (nz_document nz) run nodes j = Inr v)
        [sd_skip_upstream d, sd_skip_conditions d, sd_skip_policy d, sd_ready_approvals d, sd_ready_agents d]
        [UpstreamSkip, ConditionSkip, PolicySkip, ApprovalReady, AgentReady]"
      unfolding l by (auto dest: in_set_takeD)
    show ?thesis unfolding Let_def by (rule list_all2_disjoint [OF lists]) simp_all
  qed
  ultimately show ?thesis by blast
qed

theorem scheduled_nodes_enabled_witness:
  "\<exists>node \<in> set after_plan. ns_id node = ''lint'' \<and> unstarted node"
proof -
  have "distinct (map ns_id after_plan)" by (simp add: after_plan_ids diamond_def)
  from scheduled_nodes_enabled [OF after_plan_decision this, of "''lint''"] show ?thesis by simp
qed

text \<open>
  C21. The scheduler does not stall: on a topologically ordered document, while no node is
  running or waiting for an answer, every decision either reports the run complete or
  starts, holds for approval or skips at least one node.
\<close>

theorem scheduler_progress:
  assumes "wf_map (doc_nodes (nz_document nz))" and "TopologicalOrder (nz_document nz) = Some (nz_order nz)"
    and "map ns_id nodes = nz_order nz" and "\<forall>node \<in> set nodes. ValidateNodeSnapshot node = Inr ()"
    and "\<forall>node \<in> set nodes. ns_phase node \<noteq> NodePhaseRunning \<and> ns_phase node \<noteq> NodePhaseWaiting"
    and "PlanSchedule nz run nodes limit = Inr d"
  shows "sd_complete d \<or> sd_skip_upstream d \<noteq> [] \<or> sd_skip_conditions d \<noteq> [] \<or> sd_skip_policy d \<noteq> []
     \<or> sd_ready_approvals d \<noteq> [] \<or> sd_ready_agents d \<noteq> []"
proof -
  have "\<forall>n \<in> set nodes. settled n \<or> unstarted n"
  proof
    fix n
    assume n: "n \<in> set nodes"
    with assms(4) have "validNodePhase (ns_phase n)" by (simp add: ValidateNodeSnapshot_iff)
    with n assms(5) show "settled n \<or> unstarted n"
      by (auto simp: validNodePhase_def settled_def unstarted_def)
  qed
  moreover have "greedy (nz_document nz) (nz_order nz)"
    using assms(1,2) by (simp add: TopologicalOrder_greedy)
  ultimately show ?thesis
    using PlanSchedule_progress assms(3,6) unfolding decides_something_def by blast
qed

lemma after_plan_valid: "\<forall>node \<in> set after_plan. ValidateNodeSnapshot node = Inr ()"
  by code_simp

theorem scheduler_progress_witness: "[''docs'', ''lint''] \<noteq> []"
proof -
  have "\<forall>node \<in> set after_plan. ns_phase node \<noteq> NodePhaseRunning \<and> ns_phase node \<noteq> NodePhaseWaiting"
    by code_simp
  from scheduler_progress [OF _ _ after_plan_ids after_plan_valid this after_plan_decision]
  show ?thesis using diamond_wf diamond_order by (simp add: diamond_def)
qed

subsection \<open>Aggregation\<close>

text \<open>
  C22. Aggregating valid node snapshots into a valid run snapshot gives a valid run snapshot,
  whatever the nodes are doing, and leaves its version, receipts, order and cancellation flag alone.
\<close>

theorem aggregate_preserves_valid:
  assumes "ValidateWorkflowSnapshot run = Inr ()" and "\<forall>node \<in> set nodes. ValidateNodeSnapshot node = Inr ()"
  shows "ValidateWorkflowSnapshot (fst (aggregateRunState run nodes doc now)) = Inr ()
     \<and> ws_state_version (fst (aggregateRunState run nodes doc now)) = ws_state_version run
     \<and> ws_receipts (fst (aggregateRunState run nodes doc now)) = ws_receipts run
     \<and> ws_order (fst (aggregateRunState run nodes doc now)) = ws_order run
     \<and> ws_cancel_requested (fst (aggregateRunState run nodes doc now)) = ws_cancel_requested run"
  using aggregate_valid [OF assms] by simp

lemma sample_run_valid: "ValidateWorkflowSnapshot sample_run = Inr ()"
  by code_simp

theorem aggregate_preserves_valid_witness:
  "ValidateWorkflowSnapshot (fst (aggregateRunState sample_run after_plan diamond_doc 7)) = Inr ()"
  using aggregate_preserves_valid [OF sample_run_valid after_plan_valid] by blast

text \<open>
  C23. The aggregation completes a run exactly when every node is completed or skipped, and
  then it is failed if a node failed, else indeterminate if one is, else rejected if one
  was rejected and no branch admits rejections, else succeeded: a node that was cancelled
  does not keep the run from succeeding.
\<close>

theorem aggregate_completion:
  assumes "\<forall>node \<in> set nodes. ValidateNodeSnapshot node = Inr ()"
    and "\<forall>node \<in> set nodes. ns_phase node = NodePhaseRunning \<longrightarrow> ns_type node = ''agent''"
    and "aggregateRunState run nodes doc now = (run', event, stop)"
  shows "(ws_phase run' = PhaseCompleted \<longleftrightarrow> (\<forall>node \<in> set nodes. settled node))
     \<and> (stop \<longleftrightarrow> ws_phase run' = PhaseWaiting \<or> ws_phase run' = PhaseCompleted)
     \<and> (ws_phase run' = PhaseCompleted \<longrightarrow> ws_conclusion run' =
         (let some = (\<lambda>c. \<exists>node \<in> set nodes. ns_conclusion node = c)
          in if some ConclusionFailed then ConclusionFailed
             else if some ConclusionIndeterminate then ConclusionIndeterminate
             else if some ConclusionRejected \<and> \<not> hasEligibleRejectedBranch doc nodes then ConclusionRejected
             else ConclusionSucceeded))"
proof -
  have run': "fst (aggregateRunState run nodes doc now) = run'"
    "snd (aggregateRunState run nodes doc now) = (event, stop)"
    using assms(3) by simp_all
  have settled: "settled n \<longleftrightarrow> \<not> (running_agent n \<or> waiting_node n \<or> unstarted n)" if "n \<in> set nodes" for n
  proof -
    have "validNodePhase (ns_phase n)" using assms(1) that by (simp add: ValidateNodeSnapshot_iff)
    then show ?thesis
      using assms(2) that
      by (auto simp: validNodePhase_def settled_def running_agent_def waiting_node_def unstarted_def)
  qed
  show ?thesis
  proof (cases rule: aggregateRunState_cases [of nodes run doc now])
    case Running
    then show ?thesis using settled unfolding run' by auto
  next
    case (Waiting n)
    then show ?thesis using settled unfolding run' by auto
  next
    case (Pending n)
    then show ?thesis using settled unfolding run' by auto
  next
    case Completed
    have "ws_conclusion run' = fst (aggregateConclusion nodes doc)"
      using Completed(3) unfolding run' by (metis fst_conv)
    then show ?thesis
      using settled Completed(1,2,4) unfolding run' by (auto simp: aggregateConclusion_def conclude_spec Let_def)
  qed
qed

definition cancelled_nodes :: "NodeSnapshot list" where
  "cancelled_nodes =
     [fresh_node ''plan'' ''agent'' ''completed'' ''cancelled'',
      fresh_node ''lint'' ''agent'' ''skipped'' ''''\<lparr>ns_reason := ReasonUpstreamFailed\<rparr>]"

theorem aggregate_completion_witness:
  "ws_conclusion (fst (aggregateRunState sample_run cancelled_nodes diamond_doc 7)) = ConclusionSucceeded"
proof -
  have v: "\<forall>node \<in> set cancelled_nodes. ValidateNodeSnapshot node = Inr ()" by code_simp
  have a: "\<forall>node \<in> set cancelled_nodes. ns_phase node = NodePhaseRunning \<longrightarrow> ns_type node = ''agent''"
    by code_simp
  have s: "\<forall>node \<in> set cancelled_nodes. settled node" by code_simp
  obtain run' event stop where r: "aggregateRunState sample_run cancelled_nodes diamond_doc 7 = (run', event, stop)"
    by (cases "aggregateRunState sample_run cancelled_nodes diamond_doc 7") auto
  have "\<not> (\<exists>node \<in> set cancelled_nodes. ns_conclusion node = ConclusionFailed)"
    "\<not> (\<exists>node \<in> set cancelled_nodes. ns_conclusion node = ConclusionIndeterminate)"
    "\<not> (\<exists>node \<in> set cancelled_nodes. ns_conclusion node = ConclusionRejected)" by code_simp+
  with aggregate_completion [OF v a r] s show ?thesis by (simp add: r)
qed

end
