(* ===== verification/Steps.thy ===== *)
theory Steps
  imports Prelude
begin

section \<open>Operations over files\<close>

text \<open>
  The services read and replace files one at a time and return at the first error; nothing
  is undone after it. A step is a function from the files to an error or a value together
  with the files as it leaves them. Its weakest precondition has a second assertion, for
  the files that a stopped or failed step leaves behind.
\<close>

type_synonym ('s, 'e, 'a) step = "'s \<Rightarrow> ('e + 'a) \<times> 's"

definition ret :: "'a \<Rightarrow> ('s, 'e, 'a) step" where
  "ret x files = (Inr x, files)"

definition fail :: "'e \<Rightarrow> ('s, 'e, 'a) step" where
  "fail e files = (Inl e, files)"

definition next_step :: "('s, 'e, 'a) step \<Rightarrow> ('a \<Rightarrow> ('s, 'e, 'b) step) \<Rightarrow> ('s, 'e, 'b) step" where
  "next_step m k files = (case m files of (Inl e, files') \<Rightarrow> (Inl e, files') | (Inr x, files') \<Rightarrow> k x files')"

definition check :: "('d \<Rightarrow> 'e) \<Rightarrow> 'd + 'a \<Rightarrow> ('s, 'e, 'a) step" where
  "check w r files = (wrap_err w r, files)"

text \<open>\<^verbatim>\<open>_ = f()\<close>.\<close>

definition ignore_error :: "('s, 'e, unit) step \<Rightarrow> ('s, 'e, unit) step" where
  "ignore_error m files = (Inr (), snd (m files))"

lemma next_step_ok: "m f = (Inr x, f') \<Longrightarrow> next_step m k f = k x f'"
  by (simp add: next_step_def)

lemma next_step_fails: "fst (m f) = Inl e \<Longrightarrow> fst (next_step m k f) = Inl e"
  by (cases "m f") (simp add: next_step_def)

lemma next_step_assoc: "next_step (next_step m k) h = next_step m (\<lambda>x. next_step (k x) h)"
  by (rule ext) (simp add: next_step_def split: prod.split sum.split)

lemma next_step_ret: "next_step (ret x) k = k x"
  by (rule ext) (simp add: next_step_def ret_def)

lemma next_step_fail: "next_step (fail e) k = fail e"
  by (rule ext) (simp add: next_step_def fail_def)

subsection \<open>Weakest preconditions\<close>

text \<open>
  \<open>wp m Q E\<close> holds of the files from which the step ends in \<open>Q\<close> if it returns a value
  and in \<open>E\<close> if it returns an error. For the primitive steps it is a rewrite rule.
\<close>

definition wp :: "('s, 'e, 'a) step \<Rightarrow> ('a \<Rightarrow> 's \<Rightarrow> bool) \<Rightarrow> ('e \<Rightarrow> 's \<Rightarrow> bool) \<Rightarrow> 's \<Rightarrow> bool" where
  "wp m Q E f = (case m f of (Inl e, f') \<Rightarrow> E e f' | (Inr x, f') \<Rightarrow> Q x f')"

named_theorems wp_simps \<open>weakest preconditions of the primitive steps\<close>

lemma wp_ret [wp_simps]: "wp (ret x) Q E f = Q x f"
  by (simp add: wp_def ret_def)

lemma wp_fail [wp_simps]: "wp (fail e) Q E f = E e f"
  by (simp add: wp_def fail_def)

lemma wp_next [wp_simps]: "wp (next_step m k) Q E f = wp m (\<lambda>x. wp (k x) Q E) E f"
  by (simp add: wp_def next_step_def split: prod.split sum.split)

lemma wp_check [wp_simps]: "wp (check w r) Q E f = (case r of Inl e \<Rightarrow> E (w e) f | Inr x \<Rightarrow> Q x f)"
  by (simp add: wp_def check_def wrap_err_def split: sum.split)

lemma wp_if [wp_simps]: "wp (if c then m else m') Q E f = (if c then wp m Q E f else wp m' Q E f)"
  by simp

lemma wp_mono:
  "wp m Q E f \<Longrightarrow> (\<And>x f'. Q x f' \<Longrightarrow> Q' x f') \<Longrightarrow> (\<And>e f'. E e f' \<Longrightarrow> E' e f') \<Longrightarrow> wp m Q' E' f"
  by (auto simp: wp_def split: prod.splits sum.splits)

lemma wp_eq: "m f = (Inr x, f') \<Longrightarrow> wp m Q E f = Q x f'" "m f = (Inl e, f') \<Longrightarrow> wp m Q E f = E e f'"
  by (simp_all add: wp_def)

lemma wp_result:
  "wp m Q E f \<longleftrightarrow> (\<exists>x f'. m f = (Inr x, f') \<and> Q x f') \<or> (\<exists>e f'. m f = (Inl e, f') \<and> E e f')"
  by (cases "m f"; cases "fst (m f)") (auto simp: wp_def)

end
