(* ===== verification/Json_Indent.thy ===== *)
theory Json_Indent
  imports Json_Valid
begin

section \<open>Indented JSON\<close>

text \<open>
  \<^verbatim>\<open>json.MarshalIndent(value, "", "  ")\<close> writes every nested
  \<^verbatim>\<open>json.RawMessage\<close> compacted and then indented at its own depth, and decoding a
  raw message keeps those bytes. The two scanners work on valid JSON text whose special
  characters \<^verbatim>\<open>json.Marshal\<close> has already escaped.
\<close>

definition json_newline :: "nat \<Rightarrow> string" where
  "json_newline depth = CHR 0x0A # replicate (2 * depth) (CHR 0x20)"

fun json_compact :: "bool \<Rightarrow> bool \<Rightarrow> string \<Rightarrow> string" where
  "json_compact quoted escaped [] = []"
| "json_compact quoted escaped (c # cs) =
     (if quoted then c # json_compact (escaped \<or> c \<noteq> CHR 0x22) (\<not> escaped \<and> c = CHR 0x5C) cs
      else if json_space c then json_compact False False cs
      else c # json_compact (c = CHR 0x22) False cs)"

fun json_indent :: "nat \<Rightarrow> bool \<Rightarrow> bool \<Rightarrow> bool \<Rightarrow> string \<Rightarrow> string" where
  "json_indent depth opened quoted escaped [] = []"
| "json_indent depth opened quoted escaped (c # cs) =
     (if quoted then c # json_indent depth opened (escaped \<or> c \<noteq> CHR 0x22) (\<not> escaped \<and> c = CHR 0x5C) cs
      else if json_space c then json_indent depth opened False False cs
      else let starts = (opened \<and> c \<noteq> CHR ''}'' \<and> c \<noteq> CHR '']'');
               depth = (if starts then depth + 1 else depth)
           in (if starts then json_newline depth else []) @
             (if c = CHR ''{'' \<or> c = CHR ''['' then c # json_indent depth True False False cs
              else if c = CHR '','' then c # json_newline depth @ json_indent depth False False False cs
              else if c = CHR '':'' then c # CHR 0x20 # json_indent depth False False False cs
              else if c = CHR ''}'' \<or> c = CHR '']''
              then (if opened then c # json_indent depth False False False cs
                    else json_newline (depth - 1) @ c # json_indent (depth - 1) False False False cs)
              else c # json_indent depth False (c = CHR 0x22) False cs))"

definition raw_file :: "nat \<Rightarrow> string \<Rightarrow> string" where
  "raw_file depth raw = (if raw = [] then [] else json_indent depth False False False (json_compact False False raw))"

lemma json_compact_spaces: "list_all json_space ws \<Longrightarrow> json_compact False e (ws @ t) = json_compact False e t"
  if "e = False" for e
  using that by (induction ws) auto

lemma json_newline_spaces: "list_all json_space (json_newline d)"
  by (simp add: json_newline_def json_space_def list_all_iff)

lemma json_compact_newline [simp]: "json_compact False False (json_newline d @ t) = json_compact False False t"
  by (rule json_compact_spaces) (simp_all add: json_newline_spaces)

lemma json_compact_indent:
  "(quoted \<longrightarrow> \<not> opened) \<Longrightarrow> (\<not> quoted \<longrightarrow> \<not> escaped) \<Longrightarrow>
     json_compact quoted escaped (json_indent depth opened quoted escaped s) = json_compact quoted escaped s"
proof (induction s arbitrary: depth opened quoted escaped)
  case Nil
  then show ?case by simp
next
  case (Cons c cs)
  show ?case
  proof (cases "quoted \<or> json_space c")
    case True
    then show ?thesis using Cons by auto
  next
    case False
    have ih: "json_compact q False (json_indent d oo q False cs) = json_compact q False cs" if "q \<longrightarrow> \<not> oo" for d oo q
      using Cons.IH that by simp
    from False Cons.prems have flags: "quoted = False" "escaped = False" "json_space c = False" by auto
    have tail: "json_compact False False (json_indent d oo False False cs) = json_compact False False cs" for d oo
      by (rule ih) simp
    show ?thesis
    proof (cases "c = CHR 0x22")
      case True
      then show ?thesis by (simp add: flags ih Let_def)
    next
      case nq: False
      have "json_compact False False (c # t) = c # json_compact False False t" for t
        using nq flags(3) by simp
      moreover have "json_compact False False (CHR 0x20 # t) = json_compact False False t" for t
        by (simp add: json_space_def)
      ultimately show ?thesis
        using nq unfolding flags json_indent.simps Let_def
        by (simp only: tail json_compact_newline append.simps if_False flags simp_thms split: if_split)
    qed
  qed
qed

lemma json_compact_idem: "json_compact quoted escaped (json_compact quoted escaped s) = json_compact quoted escaped s"
  if "\<not> quoted \<longrightarrow> \<not> escaped"
  using that by (induction quoted escaped s rule: json_compact.induct) auto

text \<open>Writing a raw message again at another depth forgets the depth it was read from.\<close>

lemma raw_file_raw_file [simp]: "raw_file d (raw_file e raw) = raw_file d raw"
proof (cases "raw = []")
  case False
  let ?c = "json_compact False False raw"
  have c: "json_compact False False (json_indent e False False False ?c) = ?c"
    by (simp add: json_compact_indent json_compact_idem)
  show ?thesis
  proof (cases "json_indent e False False False ?c = []")
    case True
    with c have "?c = []" by simp
    then show ?thesis by (simp add: raw_file_def)
  next
    case nonempty: False
    then show ?thesis using False c by (simp add: raw_file_def)
  qed
qed (simp add: raw_file_def)

end
