(* ===== verification/Run_Store.thy ===== *)
theory Run_Store
  imports Run_Planning Steps Json_Indent
begin

section \<open>The files of a run (internal/store/json\_store.go, run/service.go)\<close>

text \<open>
  The directory of one run as the service sees it through its store: \<open>RunFiles\<close> holds
  what \<^verbatim>\<open>readJSON\<close> decodes from each file. Every durable step of the code (a
  replaced file, an appended event, a removed intent) is one step that takes effect
  entirely or, when the process stops or the write fails, not at all: \<open>rf_writes\<close> counts
  the steps that still succeed. Readings of the clock are arbitrary. File names are the
  keys of the maps; the ID of the run is that of the directory.
\<close>

subsection \<open>What files hold\<close>

definition empty_omitted :: "'a list option \<Rightarrow> 'a list option" where
  "empty_omitted xs = (if xs = Some [] then None else xs)"

definition result_file :: "Result \<Rightarrow> Result" where
  "result_file r = r\<lparr>res_artifacts := empty_omitted (res_artifacts r), res_warnings := empty_omitted (res_warnings r),
     res_checks := empty_omitted (res_checks r)\<rparr>"

definition node_file :: "nat \<Rightarrow> NodeSnapshot \<Rightarrow> NodeSnapshot" where
  "node_file depth node = node\<lparr>ns_pending_answer := raw_file depth (ns_pending_answer node),
     ns_result := map_option result_file (ns_result node)\<rparr>"

lemma result_file_idem [simp]: "result_file (result_file r) = result_file r"
  by (simp add: result_file_def empty_omitted_def)

lemma node_file_node_file [simp]: "node_file d (node_file e node) = node_file d node"
  by (cases "ns_result node") (simp_all add: node_file_def)

lemma node_file_simps [simp]:
  "ns_id (node_file d node) = ns_id node" "ns_phase (node_file d node) = ns_phase node"
  "ns_type (node_file d node) = ns_type node" "ns_conclusion (node_file d node) = ns_conclusion node"
  "ns_reason (node_file d node) = ns_reason node" "ns_diagnostic (node_file d node) = ns_diagnostic node"
  "ns_current_attempt (node_file d node) = ns_current_attempt node"
  "ns_schema_version (node_file d node) = ns_schema_version node"
  "ns_pending_target (node_file d node) = ns_pending_target node"
  "ns_pending_answer (node_file d node) = raw_file d (ns_pending_answer node)"
  by (simp_all add: node_file_def)

lemma summarizeNode_file [simp]: "summarizeNode (node_file d node) = summarizeNode node"
  by (simp add: summarizeNode_def)

record ResumeAction =
  ra_action_id :: string
  ra_request_hash :: string
  ra_type :: string
  ra_node_id :: string
  ra_expected_attempt :: "int option"
  ra_reason :: string
  ra_answers :: "(string, goval) gomap option"
  ra_acknowledge :: bool

record ActionNodeMutation =
  am_before :: NodeSnapshot
  am_after :: NodeSnapshot

record ActionIntent =
  ai_version :: int
  ai_action_id :: string
  ai_request_hash :: string
  ai_type :: string
  ai_node_id :: string
  ai_phase :: string
  ai_applied :: nat
  ai_event_type :: string
  ai_summary :: string
  ai_action :: ResumeAction
  ai_mutations :: "ActionNodeMutation list"

definition mutation_file :: "ActionNodeMutation \<Rightarrow> ActionNodeMutation" where
  "mutation_file m = \<lparr>am_before = node_file 4 (am_before m), am_after = node_file 4 (am_after m)\<rparr>"

definition intent_file :: "ActionIntent \<Rightarrow> ActionIntent" where
  "intent_file intent = intent\<lparr>ai_action := (ai_action intent)\<lparr>ra_answers := empty_omitted (ra_answers (ai_action intent))\<rparr>,
     ai_mutations := map mutation_file (ai_mutations intent)\<rparr>"

record RunFiles =
  rf_run :: "WorkflowSnapshot option"
  rf_workflow :: "Normalized option"
  rf_nodes :: "(string, NodeSnapshot) gomap"
  rf_attempts :: "(string \<times> int, AttemptSnapshot) gomap"
  rf_results :: "(string \<times> int, Result) gomap"
  rf_intents :: "(string, ActionIntent) gomap"
  rf_events :: "WorkflowEvent list"
  rf_writes :: nat
  rf_clock :: "nat \<Rightarrow> instant"
  rf_ticks :: nat

subsection \<open>Operations that touch files\<close>

datatype ActionError =
    NoActionID | OtherPending string | Conflict string string | Evidence string | HashConflict | Bound string
  | NoNode | Fields string | UnknownAction string | NoExpectedAttempt | NoAnswer string | NoScalar string
  | NoChoice string | UnknownAnswer string | Encode | Decided string string | NoApproval string
  | NoRetry string | Unacknowledged string | NoInput string | WrongAttempt "int option" int | Cancelling string

datatype RouteError =
    Catalog RegistryError | Contract ContractError | WrongDriver string string | NoHistory | NoDecision | NotNext
  | CatalogGone string | UsageOnly | Cumulative int int | GlobalBound | Selection AgentError | NodeGone string
  | Gate string

datatype LaunchError =
    Schedule ScheduleError | TemplateError TemplateError | RenderError RefError | TooLarge | Compile string
  | Memory string | NoBackend string | BadHandle BackendError | OtherDriver string string
  | OtherTarget string string | Owned int string | Mixed string string | Unconfirmed string

datatype RunError =
    WriteFailed | FileMissing string | FileExists string | UnsafeID string | AttemptNumberInvalid
  | InvalidRun SnapshotError | InvalidNode string SnapshotError | InvalidAttempt SnapshotError | InvalidSnapshot SnapshotError
  | EventOrder | NodeMissing string | ControllerInactive | StateVersionConflict nat nat
  | ActionFailed ActionError | RouteFailed RouteError | LaunchFailed LaunchError

abbreviation "ActionIDRequired \<equiv> ActionFailed NoActionID"
abbreviation "OtherActionPending i \<equiv> ActionFailed (OtherPending i)"
abbreviation "IntentConflict a i \<equiv> ActionFailed (Conflict a i)"
abbreviation "IntentEvidence a \<equiv> ActionFailed (Evidence a)"
abbreviation "IntentHashConflict \<equiv> ActionFailed HashConflict"
abbreviation "ActionBound a \<equiv> ActionFailed (Bound a)"
abbreviation "ActionNodeRequired \<equiv> ActionFailed NoNode"
abbreviation "ActionFields t \<equiv> ActionFailed (Fields t)"
abbreviation "ActionUnknown t \<equiv> ActionFailed (UnknownAction t)"
abbreviation "ExpectedAttemptRequired \<equiv> ActionFailed NoExpectedAttempt"
abbreviation "AnswerMissing q \<equiv> ActionFailed (NoAnswer q)"
abbreviation "AnswerScalar q \<equiv> ActionFailed (NoScalar q)"
abbreviation "AnswerChoice q \<equiv> ActionFailed (NoChoice q)"
abbreviation "AnswerUnknown q \<equiv> ActionFailed (UnknownAnswer q)"
abbreviation "AnswerEncode \<equiv> ActionFailed Encode"
abbreviation "DecisionConflict i d \<equiv> ActionFailed (Decided i d)"
abbreviation "NotWaitingApproval i \<equiv> ActionFailed (NoApproval i)"
abbreviation "NotRetryable i \<equiv> ActionFailed (NoRetry i)"
abbreviation "RiskNotAcknowledged i \<equiv> ActionFailed (Unacknowledged i)"
abbreviation "NotWaitingInput i \<equiv> ActionFailed (NoInput i)"
abbreviation "AttemptConflict e n \<equiv> ActionFailed (WrongAttempt e n)"
abbreviation "CancellationPending i \<equiv> ActionFailed (Cancelling i)"
abbreviation "RouteCatalog e \<equiv> RouteFailed (Catalog e)"
abbreviation "RouteContract e \<equiv> RouteFailed (Contract e)"
abbreviation "RouteDriver a b \<equiv> RouteFailed (WrongDriver a b)"
abbreviation "RouteHistory \<equiv> RouteFailed NoHistory"
abbreviation "RouteWithoutDecision \<equiv> RouteFailed NoDecision"
abbreviation "RouteNotNext \<equiv> RouteFailed NotNext"
abbreviation "RouteCatalogMissing h \<equiv> RouteFailed (CatalogGone h)"
abbreviation "RouteUsageWithoutDecision \<equiv> RouteFailed UsageOnly"
abbreviation "RouteCumulative a b \<equiv> RouteFailed (Cumulative a b)"
abbreviation "RouteGlobalBound \<equiv> RouteFailed GlobalBound"
abbreviation "RouteAgent e \<equiv> RouteFailed (Selection e)"
abbreviation "RouteNodeMissing i \<equiv> RouteFailed (NodeGone i)"
abbreviation "RouteGate e \<equiv> RouteFailed (Gate e)"

text \<open>
  The steps over the files of a run.
\<close>

type_synonym 'a run_step = "(RunFiles, RunError, 'a) step"

text \<open>One durable step.\<close>

definition durable :: "(RunFiles \<Rightarrow> RunFiles) \<Rightarrow> unit run_step" where
  "durable change files =
     (if rf_writes files = 0 then (Inl WriteFailed, files)
      else (Inr (), change (files\<lparr>rf_writes := rf_writes files - 1\<rparr>)))"

definition clock_now :: "instant run_step" where
  "clock_now files = (Inr (rf_clock files (rf_ticks files)), files\<lparr>rf_ticks := rf_ticks files + 1\<rparr>)"

definition look :: "string \<Rightarrow> (RunFiles \<Rightarrow> 'a option) \<Rightarrow> 'a run_step" where
  "look name sel files = (case sel files of None \<Rightarrow> (Inl (FileMissing name), files) | Some x \<Rightarrow> (Inr x, files))"

definition safeID :: "string \<Rightarrow> bool" where
  "safeID s \<longleftrightarrow> s \<noteq> [] \<and> is_alpha (hd s)
     \<and> list_all (\<lambda>c. is_alpha c \<or> is_digit c \<or> c = CHR ''_'' \<or> c = CHR ''-'') (tl s) \<and> length s \<le> 128"

definition validateID :: "string \<Rightarrow> unit run_step" where
  "validateID value = (if \<not> safeID value then fail (UnsafeID value) else ret ())"

definition validateAttempt :: "string \<Rightarrow> int \<Rightarrow> unit run_step" where
  "validateAttempt nodeID number =
     next_step (validateID nodeID) (\<lambda>_. if number < 1 then fail AttemptNumberInvalid else ret ())"

definition WriteSnapshot :: "WorkflowSnapshot \<Rightarrow> unit run_step" where
  "WriteSnapshot run = durable (\<lambda>f. f\<lparr>rf_run := Some (marshal_run run)\<rparr>)"

definition ReadSnapshot :: "WorkflowSnapshot run_step" where
  "ReadSnapshot = next_step (look ''run.json'' rf_run) (\<lambda>wire. ret (unmarshal_run '''' '''' wire))"

definition WriteNode :: "string \<Rightarrow> NodeSnapshot \<Rightarrow> unit run_step" where
  "WriteNode nodeID node = next_step (validateID nodeID)
     (\<lambda>_. durable (\<lambda>f. f\<lparr>rf_nodes := AList.update nodeID (node_file 1 node) (rf_nodes f)\<rparr>))"

definition ReadNode :: "string \<Rightarrow> NodeSnapshot run_step" where
  "ReadNode nodeID = next_step (validateID nodeID) (\<lambda>_. look nodeID (\<lambda>f. map_of (rf_nodes f) nodeID))"

definition ReadWorkflow :: "Normalized run_step" where
  "ReadWorkflow = look ''workflow.normalized.json'' rf_workflow"

text \<open>A new Attempt writes its snapshot and then its empty output file.\<close>

definition WriteAttempt :: "string \<Rightarrow> int \<Rightarrow> AttemptSnapshot \<Rightarrow> unit run_step" where
  "WriteAttempt nodeID number attempt = next_step (validateAttempt nodeID number) (\<lambda>_ files.
     if map_of (rf_attempts files) (nodeID, number) \<noteq> None then fail (FileExists nodeID) files
     else next_step (durable (\<lambda>f. f\<lparr>rf_attempts := AList.update (nodeID, number) (marshal_attempt attempt) (rf_attempts f)\<rparr>))
            (\<lambda>_. durable (\<lambda>f. f)) files)"

definition UpdateAttempt :: "string \<Rightarrow> int \<Rightarrow> AttemptSnapshot \<Rightarrow> unit run_step" where
  "UpdateAttempt nodeID number attempt = next_step (validateAttempt nodeID number)
     (\<lambda>_. durable (\<lambda>f. f\<lparr>rf_attempts := AList.update (nodeID, number) (marshal_attempt attempt) (rf_attempts f)\<rparr>))"

definition ReadAttempt :: "string \<Rightarrow> int \<Rightarrow> AttemptSnapshot run_step" where
  "ReadAttempt nodeID number = next_step (validateAttempt nodeID number) (\<lambda>_.
     next_step (look nodeID (\<lambda>f. map_of (rf_attempts f) (nodeID, number)))
       (\<lambda>wire. ret (unmarshal_attempt '''' '''' '''' wire)))"

definition ListAttempts :: "string \<Rightarrow> int list run_step" where
  "ListAttempts nodeID = next_step (validateID nodeID) (\<lambda>_ files.
     (Inr (sort (map snd (filter (\<lambda>k. fst k = nodeID \<and> snd k > 0) (mkeys (rf_attempts files))))), files))"

definition WriteResult :: "string \<Rightarrow> int \<Rightarrow> Result \<Rightarrow> unit run_step" where
  "WriteResult nodeID number r = next_step (validateAttempt nodeID number)
     (\<lambda>_. durable (\<lambda>f. f\<lparr>rf_results := AList.update (nodeID, number) (result_file r) (rf_results f)\<rparr>))"

definition WriteActionIntent :: "string \<Rightarrow> ActionIntent \<Rightarrow> unit run_step" where
  "WriteActionIntent actionID intent =
     (if actionID = '''' then fail ActionIDRequired
      else durable (\<lambda>f. f\<lparr>rf_intents := AList.update actionID (intent_file intent) (rf_intents f)\<rparr>))"

definition ReadActionIntent :: "string \<Rightarrow> ActionIntent run_step" where
  "ReadActionIntent actionID =
     (if actionID = '''' then fail ActionIDRequired else look actionID (\<lambda>f. map_of (rf_intents f) actionID))"

definition RemoveActionIntent :: "string \<Rightarrow> unit run_step" where
  "RemoveActionIntent actionID =
     (if actionID = '''' then fail ActionIDRequired
      else durable (\<lambda>f. f\<lparr>rf_intents := AList.delete actionID (rf_intents f)\<rparr>))"

definition ListActionIntentIDs :: "string list run_step" where
  "ListActionIntentIDs files =
     (let ids = map (\<lambda>(_, intent). ai_action_id intent) (rf_intents files)
      in if '''' \<in> set ids then (Inl ActionIDRequired, files) else (Inr (sort_strings ids), files))"

definition AppendEvent :: "WorkflowEvent \<Rightarrow> unit run_step" where
  "AppendEvent event = durable (\<lambda>f. f\<lparr>rf_events := rf_events f @ [event]\<rparr>)"

subsection \<open>Runs on disk\<close>

fun scan_events :: "nat \<Rightarrow> WorkflowEvent list \<Rightarrow> RunError + nat" where
  "scan_events sequence [] = Inr sequence"
| "scan_events sequence (event # events) =
     (if we_sequence event \<le> sequence then Inl EventOrder else scan_events (we_sequence event) events)"

definition resetEventSequence :: "nat run_step" where
  "resetEventSequence files = (scan_events 0 (rf_events files), files)"

definition persistRun ::
  "WorkflowSnapshot \<Rightarrow> NodeSnapshot option \<Rightarrow> string \<Rightarrow> string \<Rightarrow> WorkflowSnapshot run_step" where
  "persistRun run node eventType message =
     (let run = run\<lparr>ws_state_version := ws_state_version run + 1\<rparr>
      in next_step (check InvalidSnapshot (ValidateWorkflowSnapshot run)) (\<lambda>_.
         next_step (WriteSnapshot run) (\<lambda>_.
         next_step resetEventSequence (\<lambda>sequence.
         next_step clock_now (\<lambda>now.
         let event = \<lparr>we_protocol_version = protocolVersion, we_run_id = ws_id run, we_sequence = sequence + 1,
               we_type = eventType, we_phase = ws_phase run, we_conclusion = ws_conclusion run,
               we_reason = ws_reason run,
               we_node_id = (case node of None \<Rightarrow> '''' | Some n \<Rightarrow> ns_id n),
               we_node_phase = (case node of None \<Rightarrow> '''' | Some n \<Rightarrow> ns_phase n),
               we_message = message, we_timestamp = now\<rparr>
         in next_step (AppendEvent event) (\<lambda>_. ret run))))))"

fun load_nodes :: "string list \<Rightarrow> NodeSnapshot list run_step" where
  "load_nodes [] = ret []"
| "load_nodes (i # ids) =
     next_step (ReadNode i) (\<lambda>node.
     next_step (check (InvalidNode i) (ValidateNodeSnapshot node)) (\<lambda>_.
     next_step (load_nodes ids) (\<lambda>nodes.
     ret (node\<lparr>ns_schema_version := (if ns_schema_version node = 0 then 1 else ns_schema_version node)\<rparr> # nodes))))"

definition loadRun :: "(WorkflowSnapshot \<times> NodeSnapshot list) run_step" where
  "loadRun =
     next_step ReadSnapshot (\<lambda>run.
     next_step (check InvalidRun (ValidateWorkflowSnapshot run)) (\<lambda>_.
     let run = run\<lparr>ws_schema_version := (if ws_schema_version run = 0 then 1 else ws_schema_version run)\<rparr>
     in next_step (load_nodes (ws_order run)) (\<lambda>nodes. ret (run, nodes))))"

definition writeAttempt ::
  "(CapabilityCatalogV1 \<Rightarrow> string) \<Rightarrow> (string \<Rightarrow> CapabilityCatalogV1 option) \<Rightarrow> AttemptSnapshot \<Rightarrow> bool
     \<Rightarrow> unit run_step" where
  "writeAttempt hashf catalogs attempt create =
     next_step (check InvalidAttempt (ValidateAttemptSnapshotWithCatalogs hashf catalogs attempt)) (\<lambda>_.
     if create then WriteAttempt (as_node_id attempt) (as_number attempt) attempt
     else UpdateAttempt (as_node_id attempt) (as_number attempt) attempt)"

text \<open>
  The entry of every controller commit, under the service's lock: the controller is still
  the active one (\<open>active\<close>), and the run on disk is neither cancelled nor paused nor complete.
\<close>

definition controllerMutation ::
  "bool \<Rightarrow> (WorkflowSnapshot \<Rightarrow> NodeSnapshot list \<Rightarrow> 'a run_step) \<Rightarrow> 'a run_step" where
  "controllerMutation active action =
     (if \<not> active then fail ControllerInactive
      else next_step loadRun (\<lambda>(run, nodes).
        if ws_cancel_requested run \<or> ws_phase run = PhasePaused \<or> ws_phase run = PhaseCancelling
           \<or> ws_phase run = PhaseCompleted
        then fail ControllerInactive else action run nodes))"

subsection \<open>Receipts\<close>

fun oldest_receipt :: "string \<Rightarrow> nat \<Rightarrow> (string \<times> ActionReceipt) list \<Rightarrow> string" where
  "oldest_receipt oldestID oldestVersion [] = oldestID"
| "oldest_receipt oldestID oldestVersion ((i, receipt) # receipts) =
     (if oldestID = '''' \<or> rp_state_version receipt < oldestVersion
         \<or> rp_state_version receipt = oldestVersion \<and> i < oldestID
      then oldest_receipt i (rp_state_version receipt) receipts
      else oldest_receipt oldestID oldestVersion receipts)"

lemma oldest_receipt_mem: "oldest_receipt i v receipts \<in> insert i (set (mkeys receipts))"
proof (induction receipts arbitrary: i v)
  case (Cons e receipts)
  obtain a r where e: "e = (a, r)" by fastforce
  show ?case using Cons.IH [of a "rp_state_version r"] Cons.IH [of i v] by (auto simp: e)
qed simp

lemma oldest_receipt_key:
  "receipts \<noteq> [] \<Longrightarrow> oldest_receipt [] v receipts \<in> set (mkeys receipts)"
proof (cases receipts)
  case (Cons e es)
  then show ?thesis using oldest_receipt_mem [of "fst e" "rp_state_version (snd e)" es] by (cases e) simp
qed simp

lemma delete_key_shorter: "k \<in> set (mkeys m) \<Longrightarrow> length (AList.delete k m) < length m"
proof (induction m)
  case (Cons e m)
  have "length (AList.delete k m) \<le> length m" by (simp add: AList.delete_eq)
  with Cons show ?case by (cases e) (auto simp: le_imp_less_Suc)
qed simp

function evict_receipts :: "(string, ActionReceipt) gomap \<Rightarrow> (string, ActionReceipt) gomap" where
  "evict_receipts receipts =
     (if length receipts \<le> maxActionReceipts then receipts
      else evict_receipts (AList.delete (oldest_receipt '''' 0 receipts) receipts))"
  by pat_completeness auto
termination
proof (relation "measure length", simp)
  fix receipts :: "(string, ActionReceipt) gomap"
  assume "\<not> length receipts \<le> maxActionReceipts"
  then have "receipts \<noteq> []" by auto
  then show "(AList.delete (oldest_receipt [] 0 receipts) receipts, receipts) \<in> measure length"
    using delete_key_shorter [OF oldest_receipt_key] by simp
qed

declare evict_receipts.simps [simp del]

definition recordActionReceipt :: "WorkflowSnapshot \<Rightarrow> string \<Rightarrow> string \<Rightarrow> WorkflowSnapshot" where
  "recordActionReceipt run actionID requestHash =
     (if actionID = '''' then run
      else run\<lparr>ws_receipts := evict_receipts (AList.update actionID
        \<lparr>rp_action_id = actionID, rp_request_hash = requestHash, rp_state_version = ws_state_version run + 1,
         rp_phase = ws_phase run, rp_conclusion = ws_conclusion run\<rparr> (ws_receipts run))\<rparr>)"

end
