(* ===== verification/Run_Routing.thy ===== *)
theory Run_Routing
  imports Run_Store
begin

section \<open>Routing of an Attempt (internal/run/routing.go)\<close>

text \<open>
  How the service routes the next Attempt of a node: it resolves a decision against the
  active catalog, or continues the persisted one when an accepted action has bound the
  node to a target, audits the cost of the earlier Attempts and reserves the new one. The
  catalog provider is a parameter: \<open>ca_active\<close> its active catalog and \<open>ca_gate\<close> its
  availability probe, if it has one, both indexed by the probe because they may answer
  differently each time, and \<open>ca_by_hash\<close> its immutable catalogs.
\<close>

record CatalogAccess =
  ca_active :: "nat \<Rightarrow> RegistryError + (CapabilityCatalogV1 \<times> string)"
  ca_by_hash :: "string \<Rightarrow> CapabilityCatalogV1 option"
  ca_gate :: "(nat \<Rightarrow> Target \<Rightarrow> string option) option"

definition cloneRoutingDecision :: "RoutingDecisionV1 \<Rightarrow> RoutingDecisionV1" where
  "cloneRoutingDecision source =
     source\<lparr>rd_requirement := (rd_requirement source)
         \<lparr>rr_capabilities := rr_capabilities (rd_requirement source), rr_candidates := rr_candidates (rd_requirement source)\<rparr>,
       rd_reason_codes := rd_reason_codes source, rd_fallback := rd_fallback source\<rparr>"

definition resolveAttemptRoutingWithCatalogs ::
  "(CapabilityCatalogV1 \<Rightarrow> string) \<Rightarrow> RegistryError + (CapabilityCatalogV1 \<times> string) \<Rightarrow> string
     \<Rightarrow> RoutingRequirementV1 \<Rightarrow> RunError + RoutingDecisionV1 option" where
  "resolveAttemptRoutingWithCatalogs hashf active driver requirement =
     (case active of
        Inl e \<Rightarrow> Inl (RouteCatalog e)
      | Inr (catalog, catalogHash) \<Rightarrow>
          let knownDriver = list_ex (\<lambda>model. tgt_driver (mc_target model) = driver) (cat_models catalog)
          in if \<not> knownDriver then Inr None
          else let requirement = ApplyCodexProductPreference catalog driver requirement;
                   request = \<lparr>rq_catalog = catalog, rq_catalog_hash = catalogHash, rq_requirement = requirement,
                     rq_budget = \<lparr>bg_max_cost = rr_max_cost requirement, bg_context = rr_max_context requirement,
                       bg_output = rr_max_output requirement\<rparr>\<rparr>
               in case ResolveV1 hashf request of
                    Inl e \<Rightarrow> Inl (RouteContract e)
                  | Inr decision \<Rightarrow>
                      if tgt_driver (rd_selected decision) \<noteq> driver
                      then Inl (RouteDriver (tgt_driver (rd_selected decision)) driver)
                      else Inr (Some (cloneRoutingDecision decision)))"

definition routingModel :: "RoutingDecisionV1 option \<Rightarrow> string" where
  "routingModel decision = (case decision of None \<Rightarrow> '''' | Some d \<Rightarrow> tgt_model (rd_selected d))"

definition routingExecutionProfile :: "RoutingDecisionV1 option \<Rightarrow> RunError + ExecutionProfileV1 option" where
  "routingExecutionProfile decision =
     (case decision of
        None \<Rightarrow> Inr None
      | Some d \<Rightarrow> (case ExecutionProfileForDecision d of Inl e \<Rightarrow> Inl (RouteContract e) | Inr p \<Rightarrow> Inr (Some p)))"

definition routingReasoningEffort :: "ExecutionProfileV1 option \<Rightarrow> string" where
  "routingReasoningEffort profile = (case profile of None \<Rightarrow> '''' | Some p \<Rightarrow> ep_reasoning_effort p)"

text \<open>At most three probes: resolve, and ask the gate about the selected target.\<close>

fun probe_route ::
  "(CapabilityCatalogV1 \<Rightarrow> string) \<Rightarrow> CatalogAccess \<Rightarrow> string \<Rightarrow> RoutingRequirementV1 \<Rightarrow> nat \<Rightarrow> nat
     \<Rightarrow> RunError + RoutingDecisionV1 option" where
  "probe_route hashf catalogs driver requirement probe left =
     (case resolveAttemptRoutingWithCatalogs hashf (ca_active catalogs probe) driver requirement of
        Inl e \<Rightarrow> Inl e
      | Inr None \<Rightarrow> Inr None
      | Inr (Some decision) \<Rightarrow>
          (case ca_gate catalogs of
             None \<Rightarrow> Inr (Some decision)
           | Some ensure \<Rightarrow>
               (case ensure probe (rd_selected decision) of
                  None \<Rightarrow> Inr (Some decision)
                | Some e \<Rightarrow>
                    (case left of
                       0 \<Rightarrow> Inl (RouteGate e)
                     | Suc others \<Rightarrow> probe_route hashf catalogs driver requirement (probe + 1) others))))"

declare probe_route.simps [simp del]

text \<open>The loop over the earlier Attempts, with the cost accumulated so far.\<close>

fun add_routing_cost ::
  "(CapabilityCatalogV1 \<Rightarrow> string) \<Rightarrow> CatalogAccess \<Rightarrow> string \<Rightarrow> int \<Rightarrow> int \<Rightarrow> int list \<Rightarrow> int run_step" where
  "add_routing_cost hashf catalogs nodeID nextAttempt cost [] = ret cost"
| "add_routing_cost hashf catalogs nodeID nextAttempt cost (number # numbers) =
     (if number \<ge> nextAttempt then add_routing_cost hashf catalogs nodeID nextAttempt cost numbers
      else next_step (ReadAttempt nodeID number) (\<lambda>attempt.
        next_step
          (case (as_routing_usage attempt, as_routing_decision attempt) of
             (Some usage, None) \<Rightarrow> fail RouteUsageWithoutDecision
           | (Some usage, Some decision) \<Rightarrow>
               (case ca_by_hash catalogs (rd_catalog_hash decision) of
                  None \<Rightarrow> fail (RouteCatalogMissing (rd_catalog_hash decision))
                | Some catalog \<Rightarrow>
                    next_step (check RouteContract (ValidateRoutingUsageForDecision hashf catalog decision usage)) (\<lambda>_.
                    let expected = cost + ru_cost usage
                    in if ru_cumulative usage \<noteq> expected then fail (RouteCumulative (ru_cumulative usage) expected)
                       else ret expected))
           | (None, Some decision) \<Rightarrow>
               next_step (check RouteContract (ValidateDecision decision)) (\<lambda>_.
               (case ca_by_hash catalogs (rd_catalog_hash decision) of
                  None \<Rightarrow> fail (RouteCatalogMissing (rd_catalog_hash decision))
                | Some catalog \<Rightarrow>
                    next_step (check RouteContract (CostUnitsForTarget catalog (rd_selected decision))) (\<lambda>units.
                    ret (cost + units))))
           | (None, None) \<Rightarrow> ret cost)
          (\<lambda>cost. if cost > MaxCostUnits then fail RouteGlobalBound
             else add_routing_cost hashf catalogs nodeID nextAttempt cost numbers)))"

definition routingCostBeforeAttempt ::
  "(CapabilityCatalogV1 \<Rightarrow> string) \<Rightarrow> CatalogAccess \<Rightarrow> string \<Rightarrow> int \<Rightarrow> int run_step" where
  "routingCostBeforeAttempt hashf catalogs nodeID nextAttempt =
     next_step (ListAttempts nodeID) (add_routing_cost hashf catalogs nodeID nextAttempt 0)"

text \<open>The decision of an Attempt an accepted action has bound to a target.\<close>

definition continue_route ::
  "NodeSnapshot \<Rightarrow> RoutingDecisionV1 \<Rightarrow> (RoutingDecisionV1 \<times> int) run_step" where
  "continue_route node decision =
     (case ns_pending_target node of
        None \<Rightarrow> ret (decision, 0)
      | Some pending \<Rightarrow>
          if ns_current_attempt node < 1 then fail RouteHistory
          else next_step (ReadAttempt (ns_id node) (ns_current_attempt node)) (\<lambda>previous.
            case as_routing_decision previous of
              None \<Rightarrow> fail RouteWithoutDecision
            | Some old \<Rightarrow>
                if rd_selected old = pending
                then ret (cloneRoutingDecision old,
                       case as_routing_usage previous of None \<Rightarrow> 0 | Some usage \<Rightarrow> ru_route_index usage)
                else next_step (check RouteContract (AdvanceFallbackV1 old)) (\<lambda>advanced.
                  case advanced of
                    None \<Rightarrow> fail RouteNotNext
                  | Some next \<Rightarrow>
                      if rd_selected next \<noteq> pending then fail RouteNotNext
                      else ret (next,
                        case as_routing_usage previous of None \<Rightarrow> 1 | Some usage \<Rightarrow> ru_route_index usage + 1))))"

definition prepareAttemptRouting ::
  "(CapabilityCatalogV1 \<Rightarrow> string) \<Rightarrow> CatalogAccess \<Rightarrow> NodeSnapshot \<Rightarrow> string \<Rightarrow> RoutingRequirementV1
     \<Rightarrow> (RoutingDecisionV1 \<times> RoutingUsageV1) option run_step" where
  "prepareAttemptRouting hashf catalogs node driver requirement =
     next_step (check id (probe_route hashf catalogs driver requirement 0 2)) (\<lambda>resolved.
       case resolved of
         None \<Rightarrow> ret None
       | Some fresh \<Rightarrow>
           next_step (continue_route node fresh) (\<lambda>(decision, routeIndex).
           case (case ca_gate catalogs of None \<Rightarrow> None | Some ensure \<Rightarrow> ensure 3 (rd_selected decision)) of
             Some e \<Rightarrow> fail (RouteGate e)
           | None \<Rightarrow>
               if tgt_driver (rd_selected decision) \<noteq> driver
               then fail (RouteDriver (tgt_driver (rd_selected decision)) driver)
               else next_step (routingCostBeforeAttempt hashf catalogs (ns_id node) (ns_current_attempt node + 1)) (\<lambda>priorCost.
                 case ca_by_hash catalogs (rd_catalog_hash decision) of
                   None \<Rightarrow> fail (RouteCatalogMissing (rd_catalog_hash decision))
                 | Some catalog \<Rightarrow>
                     next_step (check RouteContract
                       (ReserveRoutingUsageV1 hashf catalog decision priorCost routeIndex)) (\<lambda>usage.
                     ret (Some (decision, usage))))))"

definition pendingRoutingTarget ::
  "(CapabilityCatalogV1 \<Rightarrow> string) \<Rightarrow> CatalogAccess \<Rightarrow> NodeSnapshot \<Rightarrow> bool \<Rightarrow> Target option run_step" where
  "pendingRoutingTarget hashf catalogs node allowFallback =
     (if ns_current_attempt node < 1 then ret None
      else next_step (ReadAttempt (ns_id node) (ns_current_attempt node)) (\<lambda>previous.
        case as_routing_decision previous of
          None \<Rightarrow> ret None
        | Some decision \<Rightarrow>
            let dynamicRouting = (ca_gate catalogs \<noteq> None);
                classifiedUnavailable = (as_failure_class previous = FailureModelUnavailablePreExecution);
                safe = (allowFallback \<and> as_conclusion previous = ConclusionFailed
                  \<and> as_side_effect previous = SideEffectNone \<and> (\<not> dynamicRouting \<or> classifiedUnavailable))
            in next_step
              (if safe
               then next_step (check RouteContract (AdvanceFallbackV1 decision)) (\<lambda>advanced.
                 ret (case advanced of None \<Rightarrow> rd_selected decision | Some next \<Rightarrow> rd_selected next))
               else ret (rd_selected decision)) (\<lambda>target.
            next_step ReadWorkflow (\<lambda>normalized.
            case map_of (doc_nodes (nz_document normalized)) (ns_id node) of
              None \<Rightarrow> fail (RouteNodeMissing (ns_id node))
            | Some definition \<Rightarrow>
                next_step (check RouteAgent (ResolveAgent (doc_defaults (nz_document normalized)) definition)) (\<lambda>(driver, _).
                next_step (prepareAttemptRouting hashf catalogs (node\<lparr>ns_pending_target := Some target\<rparr>) driver
                    (EffectiveRoutingRequirement (nz_document normalized) definition)) (\<lambda>_.
                ret (Some target)))))))"

end
