(* ===== verification/Run_Actions.thy ===== *)
theory Run_Actions
  imports Run_Routing
begin

section \<open>Actions on a run (internal/run/service.go)\<close>

text \<open>
  Approve, reject, retry and answer: the checks of an action, the plan of node mutations
  it writes to an intent before the first node changes, the replay of an intent after a
  crash, the receipt that makes the action idempotent, and the handler \<open>Resume\<close> that
  combines them. The lease and the controller goroutine around the handler are not part
  of it: \<open>Resume\<close> reports whether it would start a controller.
\<close>

abbreviation "actionIntentVersion \<equiv> (2 :: int)"
abbreviation "actionIntentPlanned \<equiv> ''planned''"
abbreviation "actionIntentApplying \<equiv> ''applying''"

subsection \<open>Checks\<close>

definition validateResumeAction :: "ResumeAction \<Rightarrow> RunError + unit" where
  "validateResumeAction action =
     (if ra_node_id action = '''' then Inl ActionNodeRequired
      else if ra_type action = ''approve'' then
        (if ra_reason action \<noteq> '''' \<or> ra_acknowledge action then Inl (ActionFields ''approve'') else Inr ())
      else if ra_type action = ''reject'' then
        (if ra_acknowledge action then Inl (ActionFields ''reject'') else Inr ())
      else if ra_type action = ''retry'' then
        (if ra_reason action \<noteq> '''' then Inl (ActionFields ''retry'') else Inr ())
      else if ra_type action = ''answer'' then
        (if (case ra_expected_attempt action of None \<Rightarrow> True | Some n \<Rightarrow> n < 1) then Inl ExpectedAttemptRequired
         else if ra_reason action \<noteq> '''' \<or> ra_acknowledge action then Inl (ActionFields ''answer'') else Inr ())
      else Inl (ActionUnknown (ra_type action)))"

definition validateAnswerScalar :: "goval \<Rightarrow> bool" where
  "validateAnswerScalar value = (case value of GNil \<Rightarrow> False | GOther _ \<Rightarrow> False | _ \<Rightarrow> True)"

fun check_questions :: "(string, goval) gomap \<Rightarrow> InputQuestion list \<Rightarrow> RunError + unit" where
  "check_questions answers [] = Inr ()"
| "check_questions answers (question # questions) =
     (case map_of answers (iq_id question) of
        None \<Rightarrow> if iq_required question then Inl (AnswerMissing (iq_id question)) else check_questions answers questions
      | Some value \<Rightarrow>
          if \<not> validateAnswerScalar value then Inl (AnswerScalar (iq_id question))
          else if length (iq_choices question) > 0
             \<and> (case value of GString text \<Rightarrow> text \<notin> set (iq_choices question) | _ \<Rightarrow> True)
          then Inl (AnswerChoice (iq_id question))
          else check_questions answers questions)"

fun check_answers :: "InputQuestion list \<Rightarrow> (string, goval) gomap \<Rightarrow> RunError + unit" where
  "check_answers questions [] = Inr ()"
| "check_answers questions ((i, value) # answers) =
     (if i \<notin> iq_id ` set questions then Inl (AnswerUnknown i)
      else if \<not> validateAnswerScalar value then Inl (AnswerScalar i)
      else check_answers questions answers)"

text \<open>\<^verbatim>\<open>json.Marshal\<close> of a map writes its keys in order.\<close>

definition json_answers :: "(string, goval) gomap \<Rightarrow> string option" where
  "json_answers answers =
     (let entries = sort_by (\<lambda>l r. fst l < fst r) answers
      in if list_ex (\<lambda>(_, v). json_scalar v = None) entries then None
         else Some (''{'' @ join_with '','' (map (\<lambda>(k, v). json_string k @ '':'' @ the (json_scalar v)) entries) @ ''}''))"

definition validateAndEncodeAnswers ::
  "int \<Rightarrow> InputQuestion list \<Rightarrow> (string, goval) gomap option \<Rightarrow> RunError + string" where
  "validateAndEncodeAnswers attempt questions answers0 =
     (let answers = items answers0
      in case check_questions answers questions of Inl e \<Rightarrow> Inl e | Inr _ \<Rightarrow>
        (case check_answers questions answers of Inl e \<Rightarrow> Inl e | Inr _ \<Rightarrow>
          (case json_answers answers of
             None \<Rightarrow> Inl AnswerEncode
           | Some encoded \<Rightarrow> Inr (json_object
               [(''attempt'', show_int attempt),
                (''questions'', if questions = [] then ''null'' else json_array (map json_question questions)),
                (''answers'', encoded)]))))"

subsection \<open>Plans\<close>

fun descend :: "Document \<Rightarrow> string list \<Rightarrow> string list \<Rightarrow> string list" where
  "descend doc descendants [] = descendants"
| "descend doc descendants (i # ids) =
     descend doc (if list_ex (\<lambda>d. d \<in> set descendants) (deps doc i) then List.insert i descendants else descendants) ids"

fun reset_nodes :: "string list \<Rightarrow> ActionNodeMutation list run_step" where
  "reset_nodes [] = ret []"
| "reset_nodes (i # ids) =
     next_step (ReadNode i) (\<lambda>node.
       if ns_phase node = NodePhaseSkipped
       then next_step clock_now (\<lambda>now.
            next_step (reset_nodes ids) (\<lambda>mutations.
            ret (\<lparr>am_before = node, am_after = node\<lparr>ns_phase := NodePhasePending, ns_reason := '''',
                   ns_conclusion := '''', ns_result := None, ns_updated_at := now\<rparr>\<rparr> # mutations)))
       else reset_nodes ids)"

definition planDownstreamReset :: "string \<Rightarrow> ActionNodeMutation list run_step" where
  "planDownstreamReset target =
     next_step ReadWorkflow (\<lambda>normalized.
       reset_nodes (sort_strings (filter (\<lambda>i. i \<noteq> target)
         (descend (nz_document normalized) [target] (nz_order normalized)))))"

subsection \<open>Intents\<close>

definition finalizeAction ::
  "WorkflowSnapshot \<Rightarrow> NodeSnapshot \<Rightarrow> ResumeAction \<Rightarrow> string \<Rightarrow> string \<Rightarrow> WorkflowSnapshot run_step" where
  "finalizeAction run node action eventType summary =
     next_step clock_now (\<lambda>now.
     let run = run\<lparr>ws_nodes := AList.update (ns_id node) (summarizeNode node) (ws_nodes run),
           ws_phase := PhaseRunning, ws_conclusion := '''', ws_reason := '''', ws_active_node := '''',
           ws_summary := summary, ws_cancel_requested := False, ws_updated_at := now\<rparr>;
         run = recordActionReceipt run (ra_action_id action) (ra_request_hash action)
     in next_step (persistRun run (Some node) eventType summary) (\<lambda>run.
        if ra_action_id action = '''' then ret run
        else next_step (RemoveActionIntent (ra_action_id action)) (\<lambda>_. ret run)))"

definition prepareActionIntent :: "ActionIntent \<Rightarrow> unit run_step" where
  "prepareActionIntent intent =
     next_step ListActionIntentIDs (\<lambda>ids.
       case List.find (\<lambda>i. i \<noteq> ai_action_id intent) ids of
         Some i \<Rightarrow> fail (OtherActionPending i)
       | None \<Rightarrow> WriteActionIntent (ai_action_id intent) intent)"

fun apply_mutations ::
  "string \<Rightarrow> ActionIntent \<Rightarrow> nat \<Rightarrow> WorkflowSnapshot \<Rightarrow> ActionNodeMutation list \<Rightarrow> WorkflowSnapshot run_step" where
  "apply_mutations actionID intent index run [] = ret run"
| "apply_mutations actionID intent index run (mutation # mutations) =
     next_step (ReadNode (ns_id (am_after mutation))) (\<lambda>current.
       if index < ai_applied intent
       then apply_mutations actionID intent (index + 1)
              (run\<lparr>ws_nodes := AList.update (ns_id current) (summarizeNode current) (ws_nodes run)\<rparr>) mutations
       else next_step
         (if current \<noteq> am_after mutation
          then if current \<noteq> am_before mutation then fail (IntentConflict (ai_action_id intent) (ns_id current))
               else WriteNode (ns_id current) (am_after mutation)
          else ret ()) (\<lambda>_.
         let run = run\<lparr>ws_nodes := AList.update (ns_id (am_after mutation)) (summarizeNode (am_after mutation))
               (ws_nodes run)\<rparr>
         in if actionID \<noteq> '''' \<and> ai_applied intent < index + 1
            then let intent = intent\<lparr>ai_applied := index + 1\<rparr>
                 in next_step (WriteActionIntent actionID intent) (\<lambda>_.
                    apply_mutations actionID intent (index + 1) run mutations)
            else apply_mutations actionID intent (index + 1) run mutations))"

definition applyActionIntent :: "WorkflowSnapshot \<Rightarrow> ResumeAction \<Rightarrow> ActionIntent \<Rightarrow> WorkflowSnapshot run_step" where
  "applyActionIntent run action intent =
     next_step (apply_mutations (ra_action_id action) intent 0 run (ai_mutations intent)) (\<lambda>run.
       finalizeAction run (am_after (hd (ai_mutations intent))) action (ai_event_type intent) (ai_summary intent))"

definition resumeActionIntent :: "WorkflowSnapshot \<Rightarrow> ResumeAction \<Rightarrow> ActionIntent \<Rightarrow> WorkflowSnapshot run_step" where
  "resumeActionIntent run action intent =
     (if ai_version intent \<noteq> actionIntentVersion
         \<or> ai_phase intent \<noteq> actionIntentPlanned \<and> ai_phase intent \<noteq> actionIntentApplying
         \<or> length (ai_mutations intent) = 0
      then fail (IntentEvidence (ai_action_id intent))
      else if ai_phase intent = actionIntentPlanned
      then let intent = intent\<lparr>ai_phase := actionIntentApplying\<rparr>
           in next_step (WriteActionIntent (ra_action_id action) intent) (\<lambda>_. applyActionIntent run action intent)
      else applyActionIntent run action intent)"

definition AbortActionIntent :: "string \<Rightarrow> string \<Rightarrow> unit run_step" where
  "AbortActionIntent actionID requestHash files =
     (case ReadActionIntent actionID files of
        (Inl (FileMissing _), files') \<Rightarrow> (Inr (), files')
      | (Inl e, files') \<Rightarrow> (Inl e, files')
      | (Inr intent, files') \<Rightarrow>
          if ai_request_hash intent \<noteq> requestHash then (Inl IntentHashConflict, files')
          else if ai_version intent = actionIntentVersion \<and> ai_phase intent = actionIntentPlanned
             \<and> ai_applied intent = 0
          then RemoveActionIntent actionID files'
          else (Inr (), files'))"

subsection \<open>Applying an action\<close>

definition approval_result :: "string \<Rightarrow> string \<Rightarrow> Result" where
  "approval_result decision reason =
     \<lparr>res_summary = '''', res_artifacts = None, res_warnings = None, res_checks = None, res_questions = [],
      res_usage = \<lparr>us_input_tokens = 0, us_output_tokens = 0\<rparr>, res_decision = decision, res_reason = reason\<rparr>"

text \<open>What the branches of the switch hand to the common end: a finished run, or a plan.\<close>

datatype ActionPlan = Done WorkflowSnapshot | Plan "ActionNodeMutation list" string string

definition plan_decision :: "WorkflowSnapshot \<Rightarrow> NodeSnapshot \<Rightarrow> ResumeAction \<Rightarrow> ActionPlan run_step" where
  "plan_decision run node action =
     (let decision = (if ra_type action = ''approve'' then ''approved'' else ''rejected'');
          decided = (case ns_result node of None \<Rightarrow> '''' | Some r \<Rightarrow> res_decision r)
      in if decided \<noteq> ''''
      then if decided = decision \<and> ns_result node \<noteq> None \<and> res_reason (the (ns_result node)) = ra_reason action
           then if ws_phase run = PhaseCompleted then ret (Done run)
                else next_step (finalizeAction run node action ''node.approval_decided'' (''approval '' @ decision))
                  (\<lambda>run. ret (Done run))
           else fail (DecisionConflict (ns_id node) decided)
      else if ns_type node \<noteq> ''approval'' \<or> ns_phase node \<noteq> NodePhaseWaiting
         \<or> ns_reason node \<noteq> ReasonApprovalRequired
      then fail (NotWaitingApproval (ns_id node))
      else next_step clock_now (\<lambda>now.
        let after = node\<lparr>ns_phase := NodePhaseCompleted, ns_result := Some (approval_result decision (ra_reason action)),
              ns_reason := '''', ns_updated_at := now,
              ns_conclusion := (if decision = ''approved'' then ConclusionSucceeded else ConclusionRejected)\<rparr>
        in ret (Plan [\<lparr>am_before = node, am_after = after\<rparr>] ''node.approval_decided'' (''approval '' @ decision))))"

definition plan_retry ::
  "(CapabilityCatalogV1 \<Rightarrow> string) \<Rightarrow> CatalogAccess \<Rightarrow> NodeSnapshot \<Rightarrow> ResumeAction \<Rightarrow> ActionPlan run_step" where
  "plan_retry hashf catalogs node action =
     (let allowed = (ns_phase node = NodePhaseWaiting
            \<and> (ns_reason node = ReasonAgentWaitingInput \<or> ns_reason node = ReasonCompletionMissing
               \<or> ns_reason node = ReasonInvalidResult));
          allowed = (allowed \<or> ns_phase node = NodePhaseCompleted
            \<and> (ns_conclusion node = ConclusionFailed \<or> ns_conclusion node = ConclusionIndeterminate))
      in if \<not> allowed \<or> ns_current_attempt node < 1 then fail (NotRetryable (ns_id node))
      else if ns_conclusion node = ConclusionIndeterminate \<and> \<not> ra_acknowledge action
      then fail (RiskNotAcknowledged (ns_id node))
      else next_step (pendingRoutingTarget hashf catalogs node True) (\<lambda>pendingRoute.
        next_step clock_now (\<lambda>now.
        let after = node\<lparr>ns_phase := NodePhaseReady, ns_conclusion := '''', ns_reason := '''', ns_result := None,
              ns_pending_target := pendingRoute, ns_updated_at := now\<rparr>
        in next_step (planDownstreamReset (ns_id after)) (\<lambda>downstream.
           ret (Plan (\<lparr>am_before = node, am_after = after\<rparr> # downstream)
             ''node.retry_requested'' ''explicit retry requested'')))))"

definition plan_answer ::
  "(CapabilityCatalogV1 \<Rightarrow> string) \<Rightarrow> CatalogAccess \<Rightarrow> NodeSnapshot \<Rightarrow> ResumeAction \<Rightarrow> ActionPlan run_step" where
  "plan_answer hashf catalogs node action =
     (let questions = (case ns_result node of None \<Rightarrow> [] | Some r \<Rightarrow> res_questions r)
      in if ns_type node \<noteq> ''agent'' \<or> ns_phase node \<noteq> NodePhaseWaiting \<or> ns_reason node \<noteq> ReasonAgentWaitingInput
         \<or> questions = []
      then fail (NotWaitingInput (ns_id node))
      else if ra_expected_attempt action \<noteq> Some (ns_current_attempt node)
      then fail (AttemptConflict (ra_expected_attempt action) (ns_current_attempt node))
      else next_step (check id (validateAndEncodeAnswers (ns_current_attempt node) questions (ra_answers action))) (\<lambda>inputAnswer.
        next_step (pendingRoutingTarget hashf catalogs node False) (\<lambda>pendingRoute.
        next_step clock_now (\<lambda>now.
        let after = node\<lparr>ns_phase := NodePhaseReady, ns_conclusion := '''', ns_reason := '''', ns_diagnostic := '''',
              ns_pending_answer := inputAnswer, ns_pending_target := pendingRoute, ns_result := None,
              ns_updated_at := now\<rparr>
        in next_step (planDownstreamReset (ns_id after)) (\<lambda>downstream.
           ret (Plan (\<lparr>am_before = node, am_after = after\<rparr> # downstream)
             ''node.answer_submitted'' ''input answer submitted''))))))"

definition applyAction ::
  "(CapabilityCatalogV1 \<Rightarrow> string) \<Rightarrow> CatalogAccess \<Rightarrow> WorkflowSnapshot \<Rightarrow> ResumeAction \<Rightarrow> WorkflowSnapshot run_step" where
  "applyAction hashf catalogs run action =
     (if ra_node_id action = '''' then fail ActionNodeRequired
      else next_step (ReadNode (ra_node_id action)) (\<lambda>node.
        next_step
          (if ra_type action = ''approve'' \<or> ra_type action = ''reject'' then plan_decision run node action
           else if ra_type action = ''retry'' then plan_retry hashf catalogs node action
           else if ra_type action = ''answer'' then plan_answer hashf catalogs node action
           else fail (ActionUnknown (ra_type action))) (\<lambda>plan.
        case plan of
          Done run \<Rightarrow> ret run
        | Plan mutations eventType summary \<Rightarrow>
            let intent = \<lparr>ai_version = actionIntentVersion, ai_action_id = ra_action_id action,
                  ai_request_hash = ra_request_hash action, ai_type = ra_type action, ai_node_id = ra_node_id action,
                  ai_phase = actionIntentPlanned, ai_applied = 0, ai_event_type = eventType, ai_summary = summary,
                  ai_action = action, ai_mutations = mutations\<rparr>
            in if ra_action_id action = ''''
            then applyActionIntent run action (intent\<lparr>ai_phase := actionIntentApplying\<rparr>)
            else next_step (prepareActionIntent intent) (\<lambda>_.
              let intent = intent\<lparr>ai_phase := actionIntentApplying\<rparr>
              in next_step (WriteActionIntent (ra_action_id action) intent) (\<lambda>_.
                 applyActionIntent run action intent)))))"

subsection \<open>Resume\<close>

fun settled_needs_input :: "bool \<Rightarrow> NodeSnapshot list \<Rightarrow> bool run_step" where
  "settled_needs_input found [] = ret found"
| "settled_needs_input found (node # nodes) =
     (if ns_type node \<noteq> ''agent'' then settled_needs_input found nodes
      else if ns_phase node = NodePhaseRunning then ret False
      else if ns_phase node \<noteq> NodePhaseWaiting then settled_needs_input found nodes
      else if ns_reason node \<noteq> ReasonAgentWaitingInput then ret False
      else if ns_current_attempt node < 1
         \<or> (case ns_result node of None \<Rightarrow> True | Some r \<Rightarrow> res_questions r = []) then ret False
      else next_step (ReadAttempt (ns_id node) (ns_current_attempt node)) (\<lambda>attempt.
        if \<not> as_result_consumed attempt \<or> as_phase attempt \<noteq> NodePhaseWaiting
           \<or> as_reason attempt \<noteq> ReasonAgentWaitingInput
        then ret False else settled_needs_input True nodes))"

definition hasSettledNeedsInput :: "NodeSnapshot list \<Rightarrow> bool run_step" where
  "hasSettledNeedsInput nodes = settled_needs_input False nodes"

text \<open>\<^verbatim>\<open>reflect.DeepEqual\<close> of two actions: the answers are compared as maps.\<close>

definition same_action :: "ResumeAction \<Rightarrow> ResumeAction \<Rightarrow> bool" where
  "same_action a b \<longleftrightarrow> a\<lparr>ra_answers := None\<rparr> = b\<lparr>ra_answers := None\<rparr>
     \<and> map_option set (ra_answers a) = map_option set (ra_answers b)"

text \<open>The handler for a request whose action has left neither a receipt nor an intent.\<close>

definition resume_new ::
  "(CapabilityCatalogV1 \<Rightarrow> string) \<Rightarrow> CatalogAccess \<Rightarrow> nat option \<Rightarrow> ResumeAction option
     \<Rightarrow> WorkflowSnapshot \<Rightarrow> NodeSnapshot list \<Rightarrow> (WorkflowSnapshot \<times> bool) run_step" where
  "resume_new hashf catalogs expectedVersion request run nodes =
     (if (case expectedVersion of None \<Rightarrow> False | Some v \<Rightarrow> ws_state_version run \<noteq> v)
      then fail (StateVersionConflict (the expectedVersion) (ws_state_version run))
      else if ws_phase run = PhaseCompleted \<and> request = None then ret (run, False)
      else next_step
        (if request = None \<and> ws_phase run = PhaseWaiting \<and> ws_reason run = ReasonAgentWaitingInput
         then hasSettledNeedsInput nodes else ret False) (\<lambda>held.
        if held then ret (run, False)
        else case request of
          Some action \<Rightarrow>
            next_step (check id (validateResumeAction action)) (\<lambda>_.
            next_step (applyAction hashf catalogs run action) (\<lambda>run.
            ret (run, ws_phase run \<noteq> PhaseCompleted)))
        | None \<Rightarrow>
            if ws_cancel_requested run then fail (CancellationPending (ws_id run))
            else if ws_phase run = PhaseWaiting \<and> ws_reason run = ReasonApprovalRequired then ret (run, False)
            else next_step clock_now (\<lambda>now.
              let run = run\<lparr>ws_phase := PhaseRunning, ws_conclusion := '''', ws_reason := '''',
                    ws_summary := ''controller resumed'', ws_updated_at := now\<rparr>
              in next_step (persistRun run None ''run.resumed'' (ws_summary run)) (\<lambda>run. ret (run, True)))))"

text \<open>The receipt and the intent of an action come before every other check.\<close>

definition resume_loaded ::
  "(CapabilityCatalogV1 \<Rightarrow> string) \<Rightarrow> CatalogAccess \<Rightarrow> nat option \<Rightarrow> ResumeAction option
     \<Rightarrow> WorkflowSnapshot \<Rightarrow> NodeSnapshot list \<Rightarrow> (WorkflowSnapshot \<times> bool) run_step" where
  "resume_loaded hashf catalogs expectedVersion request run nodes files =
     (case request of
        None \<Rightarrow> resume_new hashf catalogs expectedVersion request run nodes files
      | Some action \<Rightarrow>
          if ra_action_id action = '''' then resume_new hashf catalogs expectedVersion request run nodes files
          else (case map_of (ws_receipts run) (ra_action_id action) of
            Some receipt \<Rightarrow>
              if rp_request_hash receipt \<noteq> ra_request_hash action
              then fail (ActionBound (ra_action_id action)) files
              else next_step (ignore_error (RemoveActionIntent (ra_action_id action))) (\<lambda>_. ret (run, False)) files
          | None \<Rightarrow>
              (case map_of (rf_intents files) (ra_action_id action) of
                 None \<Rightarrow> resume_new hashf catalogs expectedVersion request run nodes files
               | Some intent \<Rightarrow>
                   if ai_request_hash intent \<noteq> ra_request_hash action \<or> ai_type intent \<noteq> ra_type action
                      \<or> ai_node_id intent \<noteq> ra_node_id action \<or> \<not> same_action (ai_action intent) action
                   then fail (ActionBound (ra_action_id action)) files
                   else next_step (resumeActionIntent run action intent)
                     (\<lambda>run. ret (run, ws_phase run \<noteq> PhaseCompleted)) files)))"

definition Resume ::
  "(CapabilityCatalogV1 \<Rightarrow> string) \<Rightarrow> CatalogAccess \<Rightarrow> nat option \<Rightarrow> ResumeAction option
     \<Rightarrow> (WorkflowSnapshot \<times> bool) run_step" where
  "Resume hashf catalogs expectedVersion request =
     next_step resetEventSequence (\<lambda>_.
     next_step loadRun (\<lambda>(run, nodes).
     resume_loaded hashf catalogs expectedVersion request run nodes))"

end
