(* ===== verification/Run_Recovery.thy ===== *)
theory Run_Recovery
  imports Run_Actions
begin

section \<open>Crashes and replay of actions\<close>

text \<open>
  Weakest preconditions of the steps over the files of a run, whose error assertion
  describes the files a stopped or failed step leaves behind; the receipts and what eviction keeps;
  the run snapshot an action commits; and the invariant of an action that has been
  planned: after any number of crashes its intent can still be replayed, and the replay
  with enough successful writes ends in the state of the uninterrupted action.
\<close>

subsection \<open>Weakest preconditions\<close>

text \<open>The primitive steps over the files of a run.\<close>

lemma wp_durable [wp_simps]:
  "wp (durable c) Q E f = (if rf_writes f = 0 then E WriteFailed f else Q () (c (f\<lparr>rf_writes := rf_writes f - 1\<rparr>)))"
  by (simp add: wp_def durable_def)

lemma wp_clock [wp_simps]:
  "wp clock_now Q E f = Q (rf_clock f (rf_ticks f)) (f\<lparr>rf_ticks := rf_ticks f + 1\<rparr>)"
  by (simp add: wp_def clock_now_def)

lemma wp_look [wp_simps]:
  "wp (look name sel) Q E f = (case sel f of None \<Rightarrow> E (FileMissing name) f | Some x \<Rightarrow> Q x f)"
  by (simp add: wp_def look_def split: option.split)

lemma validateID_ok: "safeID i \<Longrightarrow> validateID i = ret ()"
  by (simp add: validateID_def)

subsection \<open>Receipts\<close>

lemma oldest_receipt_least:
  assumes "\<forall>e \<in> set receipts. fst e \<noteq> []" "oldest \<noteq> []"
  shows "\<exists>w. (oldest_receipt oldest v receipts, w) \<in> set ((oldest, v) # map (\<lambda>(i, r). (i, rp_state_version r)) receipts)
     \<and> w \<le> v \<and> (\<forall>e \<in> set receipts. w \<le> rp_state_version (snd e))"
  using assms
proof (induction receipts arbitrary: oldest v)
  case Nil
  then show ?case by simp
next
  case (Cons e receipts)
  obtain a r where e: "e = (a, r)" by fastforce
  have a: "a \<noteq> []" and rest: "\<forall>e \<in> set receipts. fst e \<noteq> []" using Cons.prems e by auto
  show ?case
  proof (cases "rp_state_version r < v \<or> rp_state_version r = v \<and> a < oldest")
    case True
    then have "oldest_receipt oldest v (e # receipts) = oldest_receipt a (rp_state_version r) receipts"
      by (auto simp: e)
    moreover from Cons.IH [OF rest a, of "rp_state_version r"] obtain w where
      "(oldest_receipt a (rp_state_version r) receipts, w)
         \<in> set ((a, rp_state_version r) # map (\<lambda>(i, r). (i, rp_state_version r)) receipts)"
      "w \<le> rp_state_version r" "\<forall>e \<in> set receipts. w \<le> rp_state_version (snd e)" by blast
    ultimately show ?thesis using True by (intro exI [of _ w]) (auto simp: e)
  next
    case False
    then have "oldest_receipt oldest v (e # receipts) = oldest_receipt oldest v receipts"
      using Cons.prems(2) by (auto simp: e)
    moreover from Cons.IH [OF rest Cons.prems(2), of v] obtain w where
      "(oldest_receipt oldest v receipts, w)
         \<in> set ((oldest, v) # map (\<lambda>(i, r). (i, rp_state_version r)) receipts)"
      "w \<le> v" "\<forall>e \<in> set receipts. w \<le> rp_state_version (snd e)" by blast
    ultimately show ?thesis using False by (intro exI [of _ w]) (auto simp: e)
  qed
qed

lemma oldest_receipt_spec:
  assumes "\<forall>e \<in> set receipts. fst e \<noteq> []" "receipts \<noteq> []"
  obtains r where "(oldest_receipt [] v receipts, r) \<in> set receipts"
    "\<forall>e \<in> set receipts. rp_state_version r \<le> rp_state_version (snd e)"
proof -
  obtain a r0 rest where rs: "receipts = (a, r0) # rest" using assms(2) by (cases receipts) auto
  then have "a \<noteq> []" "\<forall>e \<in> set rest. fst e \<noteq> []" using assms(1) by auto
  from oldest_receipt_least [OF this(2,1), of "rp_state_version r0"] obtain w where
    w: "(oldest_receipt a (rp_state_version r0) rest, w)
          \<in> set ((a, rp_state_version r0) # map (\<lambda>(i, r). (i, rp_state_version r)) rest)"
       "w \<le> rp_state_version r0" "\<forall>e \<in> set rest. w \<le> rp_state_version (snd e)" by blast
  then obtain r where "(oldest_receipt a (rp_state_version r0) rest, r) \<in> set receipts" "rp_state_version r = w"
    by (auto simp: rs)
  with w that rs show thesis by auto
qed

lemma evict_receipts_subset: "set (evict_receipts receipts) \<subseteq> set receipts"
proof (induction receipts rule: evict_receipts.induct)
  case (1 receipts)
  then show ?case
    by (subst evict_receipts.simps) (auto simp: AList.delete_eq split: if_splits)
qed

lemma evict_receipts_length: "length (evict_receipts receipts) \<le> maxActionReceipts"
proof (induction receipts rule: evict_receipts.induct)
  case (1 receipts)
  then show ?case by (subst evict_receipts.simps) auto
qed

lemma evict_receipts_short: "length receipts \<le> maxActionReceipts \<Longrightarrow> evict_receipts receipts = receipts"
  by (subst evict_receipts.simps) simp

lemma evict_receipts_spec:
  assumes "wf_map receipts" "\<forall>e \<in> set receipts. fst e \<noteq> []"
  shows "wf_map (evict_receipts receipts)
    \<and> min maxActionReceipts (length receipts) = length (evict_receipts receipts)
    \<and> (\<forall>e \<in> set receipts - set (evict_receipts receipts). \<forall>e' \<in> set (evict_receipts receipts).
         rp_state_version (snd e) \<le> rp_state_version (snd e'))"
  using assms
proof (induction receipts rule: evict_receipts.induct)
  case (1 receipts)
  show ?case
  proof (cases "length receipts \<le> maxActionReceipts")
    case True
    then show ?thesis using 1 by (simp add: evict_receipts_short)
  next
    case False
    let ?k = "oldest_receipt [] 0 receipts"
    let ?d = "AList.delete ?k receipts"
    have ne: "receipts \<noteq> []" using False by auto
    obtain r where r: "(?k, r) \<in> set receipts" "\<forall>e \<in> set receipts. rp_state_version r \<le> rp_state_version (snd e)"
      using oldest_receipt_spec [OF 1(3) ne] .
    have wf: "wf_map ?d" using 1(2) by (simp add: wf_map_def AList.distinct_delete)
    have set_d: "set ?d = set receipts - {(?k, r)}"
      using 1(2) r(1) by (auto simp: AList.delete_eq wf_map_def dest: eq_key_imp_eq_value)
    have dist: "distinct receipts" "distinct ?d" using 1(2) wf by (auto simp: wf_map_def distinct_map)
    then have "length ?d = length receipts - 1"
      using r(1) by (simp add: distinct_card [symmetric] set_d)
    moreover note ih = 1(1) [OF False wf]
    moreover have "\<forall>e \<in> set ?d. fst e \<noteq> []" using 1(3) set_d by auto
    moreover have step: "evict_receipts receipts = evict_receipts ?d"
      using False by (subst evict_receipts.simps) simp
    ultimately have ih': "wf_map (evict_receipts receipts)"
      "min maxActionReceipts (length receipts - 1) = length (evict_receipts receipts)"
      "\<forall>e \<in> set ?d - set (evict_receipts receipts). \<forall>e' \<in> set (evict_receipts receipts).
         rp_state_version (snd e) \<le> rp_state_version (snd e')" by auto
    have "rp_state_version (snd e) \<le> rp_state_version (snd e')"
      if "e \<in> set receipts - set (evict_receipts receipts)" "e' \<in> set (evict_receipts receipts)" for e e'
    proof (cases "e = (?k, r)")
      case True
      have "e' \<in> set receipts" using that(2) evict_receipts_subset by blast
      then show ?thesis using True r(2) by simp
    next
      case ne: False
      then show ?thesis using that ih'(3) set_d by blast
    qed
    then show ?thesis using ih'(1,2) False by auto
  qed
qed

text \<open>The newest receipt stays.\<close>

lemma evict_keeps_newest:
  assumes "wf_map receipts" "\<forall>e \<in> set receipts. fst e \<noteq> []" "(i, r) \<in> set receipts"
    and "\<forall>e \<in> set receipts. e = (i, r) \<or> rp_state_version (snd e) < rp_state_version r"
  shows "map_of (evict_receipts receipts) i = Some r"
proof -
  note spec = evict_receipts_spec [OF assms(1,2)]
  have "length receipts \<noteq> 0" using assms(3) by auto
  then have "length (evict_receipts receipts) \<noteq> 0" using spec by (metis min_def zero_neq_numeral)
  then obtain e' where e': "e' \<in> set (evict_receipts receipts)" by (cases "evict_receipts receipts") auto
  have "(i, r) \<in> set (evict_receipts receipts)"
  proof (rule ccontr)
    assume out: "(i, r) \<notin> set (evict_receipts receipts)"
    with spec assms(3) e' have "rp_state_version (snd (i, r)) \<le> rp_state_version (snd e')" by blast
    then have "rp_state_version r \<le> rp_state_version (snd e')" by simp
    moreover have "e' \<in> set receipts" using e' evict_receipts_subset by blast
    ultimately have "e' = (i, r)" using assms(4) by force
    with e' out show False by simp
  qed
  then show ?thesis using spec by (simp add: wf_map_lookup)
qed

subsection \<open>Loading\<close>

definition disk_run :: "RunFiles \<Rightarrow> WorkflowSnapshot" where
  "disk_run f = (let run = unmarshal_run [] [] (the (rf_run f))
     in run\<lparr>ws_schema_version := (if ws_schema_version run = 0 then 1 else ws_schema_version run)\<rparr>)"

definition loadable :: "RunFiles \<Rightarrow> bool" where
  "loadable f \<longleftrightarrow> rf_run f \<noteq> None \<and> ValidateWorkflowSnapshot (disk_run f) = Inr () \<and> wf_map (ws_receipts (disk_run f))
     \<and> (\<forall>i \<in> set (ws_order (disk_run f)). safeID i
          \<and> (\<exists>node. map_of (rf_nodes f) i = Some node \<and> ValidateNodeSnapshot node = Inr ()))
     \<and> (\<exists>k. scan_events 0 (rf_events f) = Inr k)"

lemma unmarshal_marshal_simps [simp]:
  "ws_receipts (unmarshal_run b r (marshal_run run)) = ws_receipts run"
  "ws_order (unmarshal_run b r (marshal_run run)) = ws_order run"
  "ws_state_version (unmarshal_run b r (marshal_run run)) = ws_state_version run"
  "ws_schema_version (unmarshal_run b r (marshal_run run)) = ws_schema_version run"
  "ws_phase (unmarshal_run b r (marshal_run run)) = ws_phase run"
  "ws_conclusion (unmarshal_run b r (marshal_run run)) = ws_conclusion run"
  "ws_reason (unmarshal_run b r (marshal_run run)) = ws_reason run"
  "ws_nodes (unmarshal_run b r (marshal_run run)) = ws_nodes run"
  "ws_id (unmarshal_run b r (marshal_run run)) = ws_id run"
  by (simp_all add: unmarshal_run_def marshal_run_def Let_def)

lemma validate_unmarshal [simp]:
  "ValidateWorkflowSnapshot (unmarshal_run b r (marshal_run run)) = Inr () \<longleftrightarrow> ValidateWorkflowSnapshot run = Inr ()"
  by (simp add: ValidateWorkflowSnapshot_iff)

lemma validate_schema_one:
  "ValidateWorkflowSnapshot (run\<lparr>ws_schema_version := (if ws_schema_version run = 0 then 1 else ws_schema_version run)\<rparr>) = Inr ()
     \<longleftrightarrow> ValidateWorkflowSnapshot run = Inr ()"
  by (auto simp: ValidateWorkflowSnapshot_iff)

lemma load_nodes_ok:
  "(\<forall>i \<in> set ids. safeID i \<and> (\<exists>node. map_of (rf_nodes f) i = Some node \<and> ValidateNodeSnapshot node = Inr ())) \<Longrightarrow>
     \<exists>nodes. load_nodes ids f = (Inr nodes, f)"
proof (induction ids)
  case Nil
  then show ?case by (simp add: ret_def)
next
  case (Cons i ids)
  then obtain node nodes where "safeID i" "map_of (rf_nodes f) i = Some node" "ValidateNodeSnapshot node = Inr ()"
    "load_nodes ids f = (Inr nodes, f)" by auto
  then show ?case
    by (simp add: next_step_def ReadNode_def validateID_ok look_def check_def ret_def)
qed

lemma loadRun_ok: "loadable f \<Longrightarrow> \<exists>nodes. loadRun f = (Inr (disk_run f, nodes), f)"
proof -
  assume l: "loadable f"
  then obtain w where w: "rf_run f = Some w" by (auto simp: loadable_def)
  let ?r = "unmarshal_run [] [] w"
  have v: "ValidateWorkflowSnapshot ?r = Inr ()"
    using l by (simp add: loadable_def disk_run_def w Let_def validate_schema_one)
  have "\<forall>i \<in> set (ws_order (disk_run f)). safeID i \<and>
      (\<exists>node. map_of (rf_nodes f) i = Some node \<and> ValidateNodeSnapshot node = Inr ())"
    using l by (simp add: loadable_def)
  from load_nodes_ok [OF this] obtain nodes where n: "load_nodes (ws_order (disk_run f)) f = (Inr nodes, f)" by blast
  show ?thesis
    using n unfolding loadRun_def ReadSnapshot_def
    by (simp add: next_step_def look_def w check_def v ret_def disk_run_def Let_def)
qed

subsection \<open>The run an action commits\<close>

lemma update_receipts:
  assumes "ValidateWorkflowSnapshot run = Inr ()" "wf_map (ws_receipts run)" "i \<noteq> []"
    and version: "rp_state_version r = ws_state_version run + 1"
    and u: "u = AList.update i r (ws_receipts run)"
  shows "wf_map u" "wf_map (evict_receipts u)" "map_of (evict_receipts u) i = Some r"
    and "\<forall>e \<in> set u. fst e \<noteq> []"
    and "\<forall>e \<in> set u. e = (i, r) \<or> e \<in> set (ws_receipts run) \<and> check_receipt (ws_state_version run) e = Inr ()"
proof -
  show wf: "wf_map u" using assms(2) by (simp add: u wf_map_def AList.distinct_update)
  show mem: "\<forall>e \<in> set u. e = (i, r) \<or> e \<in> set (ws_receipts run) \<and> check_receipt (ws_state_version run) e = Inr ()"
  proof
    fix e
    assume "e \<in> set u"
    then have "map_of u (fst e) = Some (snd e)" using wf by (simp add: wf_map_def)
    then have "e = (i, r) \<or> e \<in> set (ws_receipts run)"
      using assms(2) map_of_SomeD [of "ws_receipts run" "fst e" "snd e"]
      by (cases "fst e = i") (auto simp: u AList.update_conv' prod_eq_iff)
    then show "e = (i, r) \<or> e \<in> set (ws_receipts run) \<and> check_receipt (ws_state_version run) e = Inr ()"
      using assms(1) by (auto simp: ValidateWorkflowSnapshot_iff)
  qed
  show keys: "\<forall>e \<in> set u. fst e \<noteq> []"
    using mem assms(3) by (auto simp: check_receipt_iff)
  have newest: "\<forall>e \<in> set u. e = (i, r) \<or> rp_state_version (snd e) < rp_state_version r"
    using mem by (auto simp: check_receipt_iff version)
  have "map_of u i = Some r" by (simp add: u AList.update_conv')
  then show "map_of (evict_receipts u) i = Some r"
    by (rule evict_keeps_newest [OF wf keys map_of_SomeD newest])
  show "wf_map (evict_receipts u)" using evict_receipts_spec [OF wf keys] by simp
qed

lemma commit_valid:
  assumes "ValidateWorkflowSnapshot run = Inr ()" "wf_map (ws_receipts run)" "i \<noteq> []" "hash \<noteq> []"
    and run': "run' = recordActionReceipt (run\<lparr>ws_nodes := m, ws_phase := PhaseRunning, ws_conclusion := [],
        ws_reason := [], ws_active_node := a, ws_summary := s, ws_cancel_requested := False, ws_updated_at := t\<rparr>) i hash"
  shows "ValidateWorkflowSnapshot (run'\<lparr>ws_state_version := ws_state_version run' + 1\<rparr>) = Inr ()"
    and "wf_map (ws_receipts run')" "ws_order run' = ws_order run"
    and "\<exists>r. map_of (ws_receipts run') i = Some r \<and> rp_request_hash r = hash \<and> rp_state_version r = ws_state_version run + 1"
    and "length (ws_receipts run') \<le> maxActionReceipts"
proof -
  define r where "r = \<lparr>rp_action_id = i, rp_request_hash = hash, rp_state_version = ws_state_version run + 1,
    rp_phase = PhaseRunning, rp_conclusion = []\<rparr>"
  let ?u = "AList.update i r (ws_receipts run)"
  have rec: "ws_receipts run' = evict_receipts ?u" "ws_state_version run' = ws_state_version run"
    "ws_phase run' = PhaseRunning" "ws_conclusion run' = []" "ws_reason run' = []"
    "ws_schema_version run' = ws_schema_version run"
    using assms(3) by (simp_all add: run' recordActionReceipt_def r_def)
  have version: "rp_state_version r = ws_state_version run + 1" by (simp add: r_def)
  note u = update_receipts [OF assms(1-3) version refl]
  show "ws_order run' = ws_order run" by (simp add: run' recordActionReceipt_def)
  show "\<exists>r. map_of (ws_receipts run') i = Some r \<and> rp_request_hash r = hash
      \<and> rp_state_version r = ws_state_version run + 1" using u(3) by (simp add: rec r_def)
  show "wf_map (ws_receipts run')" using u(2) by (simp add: rec)
  show "length (ws_receipts run') \<le> maxActionReceipts" by (simp add: rec evict_receipts_length)
  have "check_receipt (ws_state_version run + 1) e = Inr ()" if "e \<in> set (evict_receipts ?u)" for e
  proof -
    have "e \<in> set ?u" using that evict_receipts_subset by blast
    with u(5) have "e = (i, r) \<or> check_receipt (ws_state_version run) e = Inr ()" by blast
    then show ?thesis using assms(3,4) by (cases e) (auto simp: check_receipt_iff r_def)
  qed
  then show "ValidateWorkflowSnapshot (run'\<lparr>ws_state_version := ws_state_version run' + 1\<rparr>) = Inr ()"
    using assms(1) by (simp add: ValidateWorkflowSnapshot_iff rec)
qed

subsection \<open>The invariant of a planned action\<close>

text \<open>A snapshot that the indentation of the intent file leaves alone.\<close>

definition stable_node :: "NodeSnapshot \<Rightarrow> bool" where
  "stable_node node \<longleftrightarrow> node_file 1 node = node \<and> node_file 4 node = node"

definition replayable :: "ResumeAction \<Rightarrow> ActionIntent \<Rightarrow> bool" where
  "replayable action plan \<longleftrightarrow>
     ra_action_id action \<noteq> [] \<and> ra_request_hash action \<noteq> [] \<and> ra_answers (ai_action plan) \<noteq> Some []
     \<and> ai_version plan = actionIntentVersion \<and> ai_request_hash plan = ra_request_hash action
     \<and> ai_type plan = ra_type action \<and> ai_node_id plan = ra_node_id action \<and> same_action (ai_action plan) action
     \<and> ai_mutations plan \<noteq> [] \<and> distinct (map (ns_id \<circ> am_after) (ai_mutations plan))
     \<and> (\<forall>m \<in> set (ai_mutations plan). safeID (ns_id (am_after m)) \<and> ns_id (am_before m) = ns_id (am_after m)
          \<and> stable_node (am_before m) \<and> stable_node (am_after m)
          \<and> ValidateNodeSnapshot (am_before m) = Inr () \<and> ValidateNodeSnapshot (am_after m) = Inr ())"

definition mutated_ids :: "ActionIntent \<Rightarrow> string set" where
  "mutated_ids plan = (ns_id \<circ> am_after) ` set (ai_mutations plan)"

text \<open>The node files after the first \<open>k\<close> mutations are known to be durable.\<close>

definition between :: "ActionIntent \<Rightarrow> nat \<Rightarrow> RunFiles \<Rightarrow> RunFiles \<Rightarrow> bool" where
  "between plan k f0 f \<longleftrightarrow>
     (\<forall>i. i \<notin> mutated_ids plan \<longrightarrow> map_of (rf_nodes f) i = map_of (rf_nodes f0) i)
     \<and> (\<forall>j < length (ai_mutations plan). let m = ai_mutations plan ! j in
          map_of (rf_nodes f) (ns_id (am_after m)) = Some (am_after m)
          \<or> k \<le> j \<and> map_of (rf_nodes f) (ns_id (am_after m)) = Some (am_before m))"

definition applying :: "ResumeAction \<Rightarrow> ActionIntent \<Rightarrow> nat \<Rightarrow> RunFiles \<Rightarrow> RunFiles \<Rightarrow> bool" where
  "applying action plan k f0 f \<longleftrightarrow>
     rf_run f = rf_run f0 \<and> rf_events f = rf_events f0 \<and> between plan k f0 f \<and> k \<le> length (ai_mutations plan)
     \<and> map_of (rf_intents f) (ra_action_id action)
         = Some (plan\<lparr>ai_phase := actionIntentApplying, ai_applied := k\<rparr>)"

lemma intent_file_id:
  assumes "replayable action plan"
  shows "intent_file (plan\<lparr>ai_phase := ph, ai_applied := k\<rparr>) = plan\<lparr>ai_phase := ph, ai_applied := k\<rparr>"
proof -
  have "mutation_file m = m" if "m \<in> set (ai_mutations plan)" for m
    using assms that by (auto simp: replayable_def mutation_file_def stable_node_def)
  then have "map mutation_file (ai_mutations plan) = ai_mutations plan" by (simp add: map_idI)
  moreover have "empty_omitted (ra_answers (ai_action plan)) = ra_answers (ai_action plan)"
    using assms by (simp add: replayable_def empty_omitted_def)
  ultimately show ?thesis by (simp add: intent_file_def)
qed

lemma between_write:
  assumes "replayable action plan" "between plan k f0 f" "j < length (ai_mutations plan)" "m = ai_mutations plan ! j"
    and "rf_nodes f' = AList.update (ns_id (am_after m)) (am_after m) (rf_nodes f)"
  shows "between plan k f0 f'"
proof -
  have "ns_id (am_after m) \<in> mutated_ids plan" using assms(3,4) by (auto simp: mutated_ids_def)
  moreover have "ns_id (am_after (ai_mutations plan ! l)) = ns_id (am_after m) \<longleftrightarrow> l = j"
    if "l < length (ai_mutations plan)" for l
    using assms(1,3,4) that by (auto simp: replayable_def distinct_conv_nth)
  ultimately show ?thesis
    using assms(2-5) by (auto simp: between_def Let_def AList.update_conv')
qed

lemma between_mono: "between plan k f0 f \<Longrightarrow> k' \<le> k \<Longrightarrow> between plan k' f0 f"
  unfolding between_def Let_def by (meson order_trans)

lemma between_next:
  assumes "between plan k f0 f" "k < length (ai_mutations plan)"
    and "map_of (rf_nodes f) (ns_id (am_after (ai_mutations plan ! k))) = Some (am_after (ai_mutations plan ! k))"
  shows "between plan (Suc k) f0 f"
  unfolding between_def Let_def
proof (intro conjI allI impI)
  fix i assume "i \<notin> mutated_ids plan"
  then show "map_of (rf_nodes f) i = map_of (rf_nodes f0) i" using assms(1) by (simp add: between_def)
next
  fix j assume "j < length (ai_mutations plan)"
  then show "map_of (rf_nodes f) (ns_id (am_after (ai_mutations plan ! j))) = Some (am_after (ai_mutations plan ! j))
      \<or> Suc k \<le> j \<and> map_of (rf_nodes f) (ns_id (am_after (ai_mutations plan ! j))) = Some (am_before (ai_mutations plan ! j))"
    using assms by (cases "j = k") (auto simp: between_def Let_def)
qed

definition summarize_all :: "ActionNodeMutation list \<Rightarrow> WorkflowSnapshot \<Rightarrow> WorkflowSnapshot" where
  "summarize_all ms run = fold (\<lambda>m run. run\<lparr>ws_nodes :=
     AList.update (ns_id (am_after m)) (summarizeNode (am_after m)) (ws_nodes run)\<rparr>) ms run"

text \<open>The loop over the mutations from any point an earlier attempt may have reached.\<close>

lemma wp_ReadNode [wp_simps]:
  "safeID i \<Longrightarrow> wp (ReadNode i) Q E f =
     (case map_of (rf_nodes f) i of None \<Rightarrow> E (FileMissing i) f | Some node \<Rightarrow> Q node f)"
  by (simp add: ReadNode_def wp_simps validateID_ok)

lemma wp_WriteNode [wp_simps]:
  "safeID i \<Longrightarrow> wp (WriteNode i node) Q E f =
     (if rf_writes f = 0 then E WriteFailed f
      else Q () (f\<lparr>rf_writes := rf_writes f - 1, rf_nodes := AList.update i (node_file 1 node) (rf_nodes f)\<rparr>))"
  by (simp add: WriteNode_def wp_simps validateID_ok)

lemma wp_WriteActionIntent [wp_simps]:
  "i \<noteq> [] \<Longrightarrow> wp (WriteActionIntent i intent) Q E f =
     (if rf_writes f = 0 then E WriteFailed f
      else Q () (f\<lparr>rf_writes := rf_writes f - 1, rf_intents := AList.update i (intent_file intent) (rf_intents f)\<rparr>))"
  by (simp add: WriteActionIntent_def wp_simps)

lemma apply_mutations_wp:
  assumes r: "replayable action plan"
  shows "ms = drop index (ai_mutations plan) \<Longrightarrow> index \<le> k \<Longrightarrow> index \<le> length (ai_mutations plan) \<Longrightarrow>
    applying action plan k f0 f \<Longrightarrow> b \<le> rf_writes f \<Longrightarrow>
    wp (apply_mutations (ra_action_id action) (plan\<lparr>ai_phase := actionIntentApplying, ai_applied := k\<rparr>) index run ms)
      (\<lambda>run' f. run' = summarize_all ms run \<and> applying action plan (length (ai_mutations plan)) f0 f
         \<and> b \<le> rf_writes f + 2 * length ms)
      (\<lambda>e f. e = WriteFailed \<and> (\<exists>k'. applying action plan k' f0 f) \<and> b < 2 * length ms) f"
proof (induction ms arbitrary: index k run b f)
  case Nil
  then have "k = length (ai_mutations plan)" by (auto simp: applying_def)
  with Nil show ?case by (simp add: wp_simps summarize_all_def)
next
  case (Cons m ms)
  let ?id = "ns_id (am_after m)" and ?aid = "ra_action_id action"
  let ?J = "\<lambda>k. plan\<lparr>ai_phase := actionIntentApplying, ai_applied := k\<rparr>"
  let ?run = "run\<lparr>ws_nodes := AList.update ?id (summarizeNode (am_after m)) (ws_nodes run)\<rparr>"
  have idx: "index < length (ai_mutations plan)" "m = ai_mutations plan ! index"
    "ms = drop (Suc index) (ai_mutations plan)"
    using Cons.prems(1) by (metis drop_eq_Nil leI list.distinct(1), metis nth_via_drop, metis drop_Suc list.sel(3) tl_drop)
  then have "m \<in> set (ai_mutations plan)" by simp
  then have mok: "safeID ?id" "ns_id (am_before m) = ?id" "node_file 1 (am_after m) = am_after m"
    using r by (auto simp: replayable_def stable_node_def)
  have aid: "?aid \<noteq> []" using r by (simp add: replayable_def)
  have cur: "map_of (rf_nodes f) ?id = Some (am_after m) \<or> k \<le> index \<and> map_of (rf_nodes f) ?id = Some (am_before m)"
    using Cons.prems(4) idx by (auto simp: applying_def between_def Let_def)
  have sum: "summarize_all (m # ms) run = summarize_all ms ?run" by (simp add: summarize_all_def)
  show ?case
  proof (cases "index < k")
    case True
    then have "map_of (rf_nodes f) ?id = Some (am_after m)" using cur by simp
    moreover have "wp (apply_mutations ?aid (?J k) (index + 1) ?run ms)
        (\<lambda>run' f. run' = summarize_all ms ?run \<and> applying action plan (length (ai_mutations plan)) f0 f
           \<and> b \<le> rf_writes f + 2 * length ms)
        (\<lambda>e f. e = WriteFailed \<and> (\<exists>k'. applying action plan k' f0 f) \<and> b < 2 * length ms) f"
      by (rule Cons.IH) (use idx True Cons.prems in auto)
    ultimately show ?thesis
      using True mok(1) by (simp add: wp_simps sum) (erule wp_mono; simp)
  next
    case False
    then have k: "k = index" using Cons.prems(2) by simp
    have marker: "wp (WriteActionIntent ?aid (?J (Suc index)))
        (\<lambda>_. wp (apply_mutations ?aid (?J (Suc index)) (Suc index) ?run ms)
          (\<lambda>run' f. run' = summarize_all ms ?run \<and> applying action plan (length (ai_mutations plan)) f0 f
             \<and> b \<le> rf_writes f + 2 * length (m # ms))
          (\<lambda>e f. e = WriteFailed \<and> (\<exists>k'. applying action plan k' f0 f) \<and> b < 2 * length (m # ms)))
        (\<lambda>e f. e = WriteFailed \<and> (\<exists>k'. applying action plan k' f0 f) \<and> b < 2 * length (m # ms)) f1"
      if f1: "applying action plan index f0 f1" "map_of (rf_nodes f1) ?id = Some (am_after m)" "b \<le> rf_writes f1 + 1" for f1
    proof (cases "rf_writes f1 = 0")
      case True
      then show ?thesis using f1 aid by (auto simp: wp_simps)
    next
      case nz: False
      let ?f2 = "f1\<lparr>rf_writes := rf_writes f1 - 1,
        rf_intents := AList.update ?aid (?J (Suc index)) (rf_intents f1)\<rparr>"
      have "between plan (Suc index) f0 f1"
        using between_next [of plan index f0 f1] f1(1,2) idx by (simp add: applying_def)
      then have "applying action plan (Suc index) f0 ?f2"
        using f1(1) idx(1) by (simp add: applying_def between_def AList.update_conv')
      then have "wp (apply_mutations ?aid (?J (Suc index)) (Suc index) ?run ms)
          (\<lambda>run' f. run' = summarize_all ms ?run \<and> applying action plan (length (ai_mutations plan)) f0 f
             \<and> b - 2 \<le> rf_writes f + 2 * length ms)
          (\<lambda>e f. e = WriteFailed \<and> (\<exists>k'. applying action plan k' f0 f) \<and> b - 2 < 2 * length ms) ?f2"
        by (intro Cons.IH) (use idx f1(3) nz in auto)
      then have "wp (apply_mutations ?aid (?J (Suc index)) (Suc index) ?run ms)
          (\<lambda>run' f. run' = summarize_all ms ?run \<and> applying action plan (length (ai_mutations plan)) f0 f
             \<and> b \<le> rf_writes f + 2 * length (m # ms))
          (\<lambda>e f. e = WriteFailed \<and> (\<exists>k'. applying action plan k' f0 f) \<and> b < 2 * length (m # ms)) ?f2"
        by (rule wp_mono) auto
      then show ?thesis
        using nz aid by (simp add: wp_simps intent_file_id [OF r])
    qed
    show ?thesis
    proof (cases "map_of (rf_nodes f) ?id = Some (am_after m)")
      case True
      then show ?thesis
        using marker [of f] Cons.prems(4,5) mok(1) aid k
        by (cases "rf_writes f = 0") (simp_all add: wp_simps sum Let_def)
    next
      case nafter: False
      with cur have before: "map_of (rf_nodes f) ?id = Some (am_before m)" by simp
      then have ne: "am_before m \<noteq> am_after m" using nafter by auto
      show ?thesis
      proof (cases "rf_writes f = 0")
        case True
        then show ?thesis
          using before ne mok Cons.prems(4,5) k by (auto simp: wp_simps)
      next
        case nz: False
        let ?f1 = "f\<lparr>rf_writes := rf_writes f - 1,
          rf_nodes := AList.update ?id (am_after m) (rf_nodes f)\<rparr>"
        have "between plan index f0 ?f1"
          by (rule between_write [OF r _ idx(1,2)]) (use Cons.prems(4) k in \<open>auto simp: applying_def\<close>)
        then have "applying action plan index f0 ?f1"
          using Cons.prems(4) k by (simp add: applying_def)
        from marker [OF this] show ?thesis
          using before ne nz mok Cons.prems(5) aid k
          by (cases "rf_writes f = 1") (simp_all add: wp_simps sum Let_def AList.update_conv')
      qed
    qed
  qed
qed

subsection \<open>Committing\<close>

definition committed :: "ResumeAction \<Rightarrow> ActionIntent \<Rightarrow> RunFiles \<Rightarrow> RunFiles \<Rightarrow> bool" where
  "committed action plan f0 f \<longleftrightarrow>
     loadable f \<and> between plan (length (ai_mutations plan)) f0 f
     \<and> (\<exists>r. map_of (ws_receipts (disk_run f)) (ra_action_id action) = Some r \<and> rp_request_hash r = ra_request_hash action)
     \<and> (\<exists>es. rf_events f = rf_events f0 @ es \<and> length es \<le> 1)
     \<and> ws_state_version (disk_run f) = ws_state_version (disk_run f0) + 1"

definition recoverable :: "ResumeAction \<Rightarrow> ActionIntent \<Rightarrow> RunFiles \<Rightarrow> RunFiles \<Rightarrow> bool" where
  "recoverable action plan f0 f \<longleftrightarrow>
     rf_run f = rf_run f0 \<and> rf_events f = rf_events f0
     \<and> (\<exists>k ph. (ph = actionIntentApplying \<or> ph = actionIntentPlanned \<and> k = 0)
          \<and> between plan k f0 f \<and> k \<le> length (ai_mutations plan)
          \<and> map_of (rf_intents f) (ra_action_id action) = Some (plan\<lparr>ai_phase := ph, ai_applied := k\<rparr>))"

lemma applying_recoverable: "applying action plan k f0 f \<Longrightarrow> recoverable action plan f0 f"
  by (auto simp: applying_def recoverable_def)

lemma disk_run_simps:
  assumes "rf_run f = Some (marshal_run r)"
  shows "ws_receipts (disk_run f) = ws_receipts r" "ws_order (disk_run f) = ws_order r"
    "ws_state_version (disk_run f) = ws_state_version r"
    "ValidateWorkflowSnapshot (disk_run f) = Inr () \<longleftrightarrow> ValidateWorkflowSnapshot r = Inr ()"
proof -
  have "disk_run f = (let run = unmarshal_run [] [] (marshal_run r)
      in run\<lparr>ws_schema_version := (if ws_schema_version run = 0 then 1 else ws_schema_version run)\<rparr>)"
    using assms by (simp only: disk_run_def option.sel)
  then show "ws_receipts (disk_run f) = ws_receipts r" "ws_order (disk_run f) = ws_order r"
    "ws_state_version (disk_run f) = ws_state_version r"
    "ValidateWorkflowSnapshot (disk_run f) = Inr () \<longleftrightarrow> ValidateWorkflowSnapshot r = Inr ()"
    by (simp_all only: Let_def validate_schema_one validate_unmarshal) simp_all
qed

lemma disk_run_cong: "rf_run f = rf_run f' \<Longrightarrow> disk_run f = disk_run f'"
  by (simp add: disk_run_def)

lemma scan_events_snoc:
  "scan_events s es = Inr k \<Longrightarrow> k < we_sequence e \<Longrightarrow> scan_events s (es @ [e]) = Inr (we_sequence e)"
  by (induction es arbitrary: s) (auto split: if_splits)

lemma loadable_between:
  assumes "loadable f0" "replayable action plan" "between plan k f0 f" "ws_order (disk_run f) = ws_order (disk_run f0)"
    and "rf_run f \<noteq> None" "ValidateWorkflowSnapshot (disk_run f) = Inr ()" "wf_map (ws_receipts (disk_run f))"
    and "\<exists>k. scan_events 0 (rf_events f) = Inr k"
  shows "loadable f"
proof -
  have "safeID i \<and> (\<exists>node. map_of (rf_nodes f) i = Some node \<and> ValidateNodeSnapshot node = Inr ())"
    if i: "i \<in> set (ws_order (disk_run f))" for i
  proof (cases "i \<in> mutated_ids plan")
    case False
    then show ?thesis using assms(1,3,4) i by (auto simp: loadable_def between_def)
  next
    case True
    then obtain j where j: "j < length (ai_mutations plan)" "i = ns_id (am_after (ai_mutations plan ! j))"
      by (auto simp: mutated_ids_def in_set_conv_nth)
    then have "ai_mutations plan ! j \<in> set (ai_mutations plan)" by simp
    then show ?thesis
      using assms(2,3) j by (fastforce simp: replayable_def between_def Let_def)
  qed
  then show ?thesis using assms(5-8) by (simp add: loadable_def)
qed

lemma summarize_all_Cons: "summarize_all (m # ms) run = summarize_all ms
     (run\<lparr>ws_nodes := AList.update (ns_id (am_after m)) (summarizeNode (am_after m)) (ws_nodes run)\<rparr>)"
  by (simp add: summarize_all_def)

lemma summarize_all_frame: "summarize_all ms run = run\<lparr>ws_nodes := ws_nodes (summarize_all ms run)\<rparr>"
proof (induction ms arbitrary: run)
  case Nil
  then show ?case by (simp add: summarize_all_def)
next
  case (Cons m ms)
  show ?case unfolding summarize_all_Cons by (subst Cons.IH) simp
qed

lemma validate_nodes [simp]:
  "ValidateWorkflowSnapshot (run\<lparr>ws_nodes := m\<rparr>) = Inr () \<longleftrightarrow> ValidateWorkflowSnapshot run = Inr ()"
  by (simp add: ValidateWorkflowSnapshot_iff)

lemma summarize_all_simps [simp]:
  "ws_receipts (summarize_all ms run) = ws_receipts run" "ws_order (summarize_all ms run) = ws_order run"
  "ws_state_version (summarize_all ms run) = ws_state_version run"
  "ValidateWorkflowSnapshot (summarize_all ms run) = Inr () \<longleftrightarrow> ValidateWorkflowSnapshot run = Inr ()"
  by (subst summarize_all_frame, simp)+

lemma wp_resetEventSequence [wp_simps]:
  "wp resetEventSequence Q E f = (case scan_events 0 (rf_events f) of Inl e \<Rightarrow> E e f | Inr k \<Rightarrow> Q k f)"
  by (simp add: wp_def resetEventSequence_def split: sum.split)

lemma wp_RemoveActionIntent [wp_simps]:
  "i \<noteq> [] \<Longrightarrow> wp (RemoveActionIntent i) Q E f =
     (if rf_writes f = 0 then E WriteFailed f
      else Q () (f\<lparr>rf_writes := rf_writes f - 1, rf_intents := AList.delete i (rf_intents f)\<rparr>))"
  by (simp add: RemoveActionIntent_def wp_simps)

text \<open>
  \<open>persistRun\<close> of a valid run from files with an ordered event log: the snapshot and the
  event are two durable steps.
\<close>

lemma persistRun_wp:
  assumes v: "ValidateWorkflowSnapshot (run\<lparr>ws_state_version := ws_state_version run + 1\<rparr>) = Inr ()"
    and s: "scan_events 0 (rf_events f) = Inr k" and b: "b \<le> rf_writes f"
    and "\<And>f'. rf_run f' = rf_run f \<Longrightarrow> rf_events f' = rf_events f \<Longrightarrow> rf_nodes f' = rf_nodes f \<Longrightarrow>
       rf_intents f' = rf_intents f \<Longrightarrow> b < 1 \<Longrightarrow> E WriteFailed f'"
    and "\<And>f'. rf_run f' = Some (marshal_run (run\<lparr>ws_state_version := ws_state_version run + 1\<rparr>)) \<Longrightarrow>
       rf_events f' = rf_events f \<Longrightarrow> rf_nodes f' = rf_nodes f \<Longrightarrow> rf_intents f' = rf_intents f \<Longrightarrow>
       b < 2 \<Longrightarrow> E WriteFailed f'"
    and "\<And>f' e. rf_run f' = Some (marshal_run (run\<lparr>ws_state_version := ws_state_version run + 1\<rparr>)) \<Longrightarrow>
       rf_events f' = rf_events f @ [e] \<Longrightarrow> we_sequence e = k + 1 \<Longrightarrow> rf_nodes f' = rf_nodes f \<Longrightarrow>
       rf_intents f' = rf_intents f \<Longrightarrow> b \<le> rf_writes f' + 2 \<Longrightarrow>
       Q (run\<lparr>ws_state_version := ws_state_version run + 1\<rparr>) f'"
  shows "wp (persistRun run node eventType message) Q E f"
proof -
  consider (none) "rf_writes f = 0" | (one) "rf_writes f = 1" | (more) n where "rf_writes f = Suc (Suc n)"
    by (metis One_nat_def not0_implies_Suc)
  then show ?thesis
  proof cases
    case none
    then show ?thesis using assms by (simp add: persistRun_def Let_def wp_simps WriteSnapshot_def)
  next
    case one
    then show ?thesis using assms by (simp add: persistRun_def Let_def wp_simps WriteSnapshot_def AppendEvent_def)
  next
    case more
    then show ?thesis using assms by (simp add: persistRun_def Let_def wp_simps WriteSnapshot_def AppendEvent_def)
  qed
qed

lemma finalizeAction_wp:
  assumes r: "replayable action plan" and l: "loadable f0"
    and f: "applying action plan (length (ai_mutations plan)) f0 f" "b \<le> rf_writes f"
    and run: "run = summarize_all ms (disk_run f0)"
  shows "wp (finalizeAction run node action eventType summary)
     (\<lambda>run' f'. ws_phase run' = PhaseRunning \<and> committed action plan f0 f'
        \<and> map_of (rf_intents f') (ra_action_id action) = None)
     (\<lambda>e f'. e = WriteFailed \<and> (recoverable action plan f0 f' \<or> committed action plan f0 f') \<and> b < 3) f"
proof -
  let ?aid = "ra_action_id action" and ?n = "length (ai_mutations plan)"
  have ids: "?aid \<noteq> []" "ra_request_hash action \<noteq> []" using r by (simp_all add: replayable_def)
  have run_ok: "ValidateWorkflowSnapshot run = Inr ()" "wf_map (ws_receipts run)"
    "ws_order run = ws_order (disk_run f0)" "ws_state_version run = ws_state_version (disk_run f0)"
    using l by (simp_all add: run loadable_def)
  obtain k where k: "scan_events 0 (rf_events f) = Inr k"
    using l f(1) by (auto simp: loadable_def applying_def)
  define run1 where "run1 = recordActionReceipt
    (run\<lparr>ws_nodes := AList.update (ns_id node) (summarizeNode node) (ws_nodes run),
       ws_phase := PhaseRunning, ws_conclusion := [], ws_reason := [], ws_active_node := [],
       ws_summary := summary, ws_cancel_requested := False, ws_updated_at := rf_clock f (rf_ticks f)\<rparr>)
    ?aid (ra_request_hash action)"
  note c = commit_valid [OF run_ok(1,2) ids run1_def]
  let ?run2 = "run1\<lparr>ws_state_version := ws_state_version run1 + 1\<rparr>"
  have v1: "ws_state_version run1 = ws_state_version run" "ws_phase run1 = PhaseRunning"
    by (simp_all add: run1_def recordActionReceipt_def)
  have com: "committed action plan f0 f'"
    if f': "rf_run f' = Some (marshal_run ?run2)" "rf_nodes f' = rf_nodes f"
      "rf_events f' = rf_events f \<or> (\<exists>e. rf_events f' = rf_events f @ [e] \<and> we_sequence e = k + 1)" for f'
  proof -
    note d = disk_run_simps [OF f'(1)]
    have b: "between plan ?n f0 f'" using f(1) f'(2) by (simp add: applying_def between_def)
    have "\<exists>k. scan_events 0 (rf_events f') = Inr k"
      using f'(3) k scan_events_snoc [OF k] by auto
    then have "loadable f'"
      using loadable_between [OF l r b] f'(1) c(1-3) run_ok(3) by (simp add: d)
    moreover have "\<exists>es. rf_events f' = rf_events f0 @ es \<and> length es \<le> 1"
      using f'(3) f(1) by (auto simp: applying_def)
    ultimately show ?thesis
      using b c(4) run_ok(4) by (auto simp: committed_def d v1)
  qed
  have "wp (persistRun run1 (Some node) eventType summary)
     (\<lambda>run'. wp (if ?aid = [] then ret run' else next_step (RemoveActionIntent ?aid) (\<lambda>_. ret run'))
        (\<lambda>run' f'. ws_phase run' = PhaseRunning \<and> committed action plan f0 f' \<and> map_of (rf_intents f') ?aid = None)
        (\<lambda>e f'. e = WriteFailed \<and> (recoverable action plan f0 f' \<or> committed action plan f0 f') \<and> b < 3))
     (\<lambda>e f'. e = WriteFailed \<and> (recoverable action plan f0 f' \<or> committed action plan f0 f') \<and> b < 3)
     (f\<lparr>rf_ticks := rf_ticks f + 1\<rparr>)"
  proof (rule persistRun_wp [where b = b and k = k], goal_cases)
    case (4 f')
    have "applying action plan ?n f0 f'"
      using f(1) 4 by (simp add: applying_def between_def)
    then have "recoverable action plan f0 f'" by (rule applying_recoverable)
    with 4 show ?case by simp
  next
    case (5 f')
    then show ?case using com [of f'] by simp
  next
    case (6 f' e)
    have c6: "committed action plan f0 f'" using com [of f'] 6 by simp
    show ?case
    proof (cases "rf_writes f' = 0")
      case True
      then show ?thesis using c6 6 ids by (simp add: wp_simps)
    next
      case False
      let ?f = "f'\<lparr>rf_writes := rf_writes f' - 1, rf_intents := AList.delete ?aid (rf_intents f')\<rparr>"
      have "committed action plan f0 ?f" using com [of ?f] 6 by simp
      then show ?thesis using False ids v1 by (simp add: wp_simps AList.delete_conv')
    qed
  qed (use c(1) k f(2) in simp_all)
  then show ?thesis
    unfolding finalizeAction_def wp_simps Let_def run1_def by simp
qed

subsection \<open>Replaying an intent\<close>

text \<open>What a replay promises when it returns, and what it leaves when it stops.\<close>

definition replayed :: "ResumeAction \<Rightarrow> ActionIntent \<Rightarrow> RunFiles \<Rightarrow> WorkflowSnapshot \<Rightarrow> RunFiles \<Rightarrow> bool" where
  "replayed action plan f0 run f \<longleftrightarrow>
     ws_phase run = PhaseRunning \<and> committed action plan f0 f \<and> map_of (rf_intents f) (ra_action_id action) = None"

definition stopped :: "ResumeAction \<Rightarrow> ActionIntent \<Rightarrow> RunFiles \<Rightarrow> nat \<Rightarrow> nat \<Rightarrow> RunError \<Rightarrow> RunFiles \<Rightarrow> bool" where
  "stopped action plan f0 b n e f \<longleftrightarrow>
     e = WriteFailed \<and> (recoverable action plan f0 f \<or> committed action plan f0 f) \<and> b < n"

lemma stopped_mono: "stopped action plan f0 b n e f \<Longrightarrow> b' < b + (n' - n) + 1 \<Longrightarrow> n \<le> n' \<Longrightarrow> stopped action plan f0 b' n' e f"
  by (auto simp: stopped_def)

lemma applyActionIntent_wp:
  assumes r: "replayable action plan" and l: "loadable f0"
    and f: "applying action plan k f0 f" "b \<le> rf_writes f"
  shows "wp (applyActionIntent (disk_run f0) action (plan\<lparr>ai_phase := actionIntentApplying, ai_applied := k\<rparr>))
     (replayed action plan f0) (stopped action plan f0 b (2 * length (ai_mutations plan) + 3)) f"
proof -
  let ?ms = "ai_mutations plan"
  have loop: "wp (apply_mutations (ra_action_id action) (plan\<lparr>ai_phase := actionIntentApplying, ai_applied := k\<rparr>) 0
        (disk_run f0) ?ms)
      (\<lambda>run' f. run' = summarize_all ?ms (disk_run f0) \<and> applying action plan (length ?ms) f0 f
         \<and> b \<le> rf_writes f + 2 * length ?ms)
      (\<lambda>e f. e = WriteFailed \<and> (\<exists>k'. applying action plan k' f0 f) \<and> b < 2 * length ?ms) f"
    by (rule apply_mutations_wp [OF r]) (use f in auto)
  have finish: "wp (finalizeAction run' node action et sm)
      (replayed action plan f0) (stopped action plan f0 b (2 * length ?ms + 3)) f'"
    if a: "run' = summarize_all ?ms (disk_run f0)" "applying action plan (length ?ms) f0 f'"
      "b \<le> rf_writes f' + 2 * length ?ms" for run' f' node et sm
  proof -
    have "b - 2 * length ?ms \<le> rf_writes f'" using a(3) by simp
    from finalizeAction_wp [OF r l a(2) this a(1)] show ?thesis
      by (rule wp_mono) (auto simp: replayed_def stopped_def)
  qed
  show ?thesis
    unfolding applyActionIntent_def wp_next
    using loop by (simp, elim wp_mono)
      (use finish applying_recoverable in \<open>auto simp: stopped_def\<close>)
qed

lemma resumeActionIntent_wp:
  assumes r: "replayable action plan" and l: "loadable f0"
    and f: "recoverable action plan f0 f" "b \<le> rf_writes f"
    and i: "map_of (rf_intents f) (ra_action_id action) = Some intent"
  shows "wp (resumeActionIntent (disk_run f0) action intent)
     (replayed action plan f0) (stopped action plan f0 b (2 * length (ai_mutations plan) + 4)) f"
proof -
  let ?aid = "ra_action_id action"
  obtain k ph where k: "ph = actionIntentApplying \<or> ph = actionIntentPlanned \<and> k = 0"
      "between plan k f0 f" "k \<le> length (ai_mutations plan)"
      "intent = plan\<lparr>ai_phase := ph, ai_applied := k\<rparr>"
      "rf_run f = rf_run f0" "rf_events f = rf_events f0"
    using f(1) i by (auto simp: recoverable_def)
  have ok: "ai_version plan = actionIntentVersion" "ai_mutations plan \<noteq> []" "?aid \<noteq> []"
    using r by (auto simp: replayable_def)
  from k(1) show ?thesis
  proof
    assume ph: "ph = actionIntentApplying"
    have "applying action plan k f0 f" using k i ph by (simp add: applying_def)
    from applyActionIntent_wp [OF r l this f(2)]
    have "wp (applyActionIntent (disk_run f0) action intent)
        (replayed action plan f0) (stopped action plan f0 b (2 * length (ai_mutations plan) + 4)) f"
      unfolding k(4) ph by (rule wp_mono) (auto simp: stopped_def)
    then show ?thesis using ok by (simp add: resumeActionIntent_def k(4) ph)
  next
    assume ph: "ph = actionIntentPlanned \<and> k = 0"
    let ?J = "plan\<lparr>ai_phase := actionIntentApplying, ai_applied := 0\<rparr>"
    let ?f = "f\<lparr>rf_writes := rf_writes f - 1, rf_intents := AList.update ?aid ?J (rf_intents f)\<rparr>"
    show ?thesis
    proof (cases "rf_writes f = 0")
      case True
      then show ?thesis
        using f ok ph by (simp add: resumeActionIntent_def k(4) Let_def wp_simps stopped_def)
    next
      case False
      have "applying action plan 0 f0 ?f"
        using k ph by (simp add: applying_def between_def AList.update_conv')
      moreover have "b - 1 \<le> rf_writes ?f" using f(2) by simp
      ultimately have "wp (applyActionIntent (disk_run f0) action ?J)
         (replayed action plan f0) (stopped action plan f0 (b - 1) (2 * length (ai_mutations plan) + 3)) ?f"
        by (rule applyActionIntent_wp [OF r l])
      then have "wp (applyActionIntent (disk_run f0) action ?J)
         (replayed action plan f0) (stopped action plan f0 b (2 * length (ai_mutations plan) + 4)) ?f"
        by (rule wp_mono) (auto simp: stopped_def)
      moreover have "intent\<lparr>ai_phase := actionIntentApplying\<rparr> = ?J" using ph by (simp add: k(4))
      moreover have "ai_version intent = actionIntentVersion" "ai_mutations intent \<noteq> []" "ai_phase intent = actionIntentPlanned"
        using ok ph by (simp_all add: k(4))
      ultimately show ?thesis
        using False ok(3) intent_file_id [OF r, where ph = actionIntentApplying and k = 0]
        by (simp add: resumeActionIntent_def Let_def wp_simps)
    qed
  qed
qed

lemma loadRun_wp: "loadable f \<Longrightarrow> (\<And>nodes. Q (disk_run f, nodes) f) \<Longrightarrow> wp loadRun Q E f"
  using loadRun_ok [of f] by (auto simp: wp_def)

lemma Resume_wp:
  assumes l: "loadable f" and "\<And>nodes. wp (resume_loaded hashf catalogs v request (disk_run f) nodes) Q E f"
  shows "wp (Resume hashf catalogs v request) Q E f"
proof -
  have "wp loadRun (\<lambda>x. wp (case x of (run, nodes) \<Rightarrow> resume_loaded hashf catalogs v request run nodes) Q E) E f"
    by (rule loadRun_wp [OF l]) (simp add: assms(2))
  then show ?thesis using l unfolding Resume_def by (auto simp: wp_simps loadable_def)
qed

lemma loadable_recoverable:
  assumes "replayable action plan" "loadable f0" "recoverable action plan f0 f"
  shows "loadable f" "disk_run f = disk_run f0"
proof -
  obtain k where k: "between plan k f0 f" "rf_run f = rf_run f0" "rf_events f = rf_events f0"
    using assms(3) by (auto simp: recoverable_def)
  show dr: "disk_run f = disk_run f0" using k(2) by (rule disk_run_cong)
  show "loadable f"
    by (rule loadable_between [OF assms(2,1) k(1)]) (use assms(2) in \<open>simp_all add: dr k loadable_def\<close>)
qed

lemma Resume_recoverable:
  assumes r: "replayable action plan" and l: "loadable f0" and f: "recoverable action plan f0 f" "b \<le> rf_writes f"
    and new: "map_of (ws_receipts (disk_run f0)) (ra_action_id action) = None"
  shows "wp (Resume hashf catalogs v (Some action))
     (\<lambda>(run', started) f'. started \<and> replayed action plan f0 run' f')
     (stopped action plan f0 b (2 * length (ai_mutations plan) + 4)) f"
proof (rule Resume_wp [OF loadable_recoverable(1) [OF r l f(1)]])
  fix nodes
  let ?aid = "ra_action_id action"
  obtain k ph where i: "map_of (rf_intents f) ?aid = Some (plan\<lparr>ai_phase := ph, ai_applied := k\<rparr>)"
    using f(1) by (auto simp: recoverable_def)
  have m: "?aid \<noteq> []" "ai_request_hash plan = ra_request_hash action" "ai_type plan = ra_type action"
      "ai_node_id plan = ra_node_id action" "same_action (ai_action plan) action"
    using r by (simp_all add: replayable_def)
  have "resume_loaded hashf catalogs v (Some action) (disk_run f0) nodes f
      = next_step (resumeActionIntent (disk_run f0) action (plan\<lparr>ai_phase := ph, ai_applied := k\<rparr>))
          (\<lambda>run. ret (run, ws_phase run \<noteq> PhaseCompleted)) f"
    using m i new by (simp add: resume_loaded_def)
  moreover have "wp (next_step (resumeActionIntent (disk_run f0) action (plan\<lparr>ai_phase := ph, ai_applied := k\<rparr>))
          (\<lambda>run. ret (run, ws_phase run \<noteq> PhaseCompleted)))
      (\<lambda>(run', started) f'. started \<and> replayed action plan f0 run' f')
      (stopped action plan f0 b (2 * length (ai_mutations plan) + 4)) f"
    unfolding wp_simps by (rule wp_mono [OF resumeActionIntent_wp [OF r l f i]]) (auto simp: replayed_def)
  ultimately show "wp (resume_loaded hashf catalogs v (Some action) (disk_run f) nodes)
      (\<lambda>(run', started) f'. started \<and> replayed action plan f0 run' f')
      (stopped action plan f0 b (2 * length (ai_mutations plan) + 4)) f"
    by (simp add: wp_def loadable_recoverable(2) [OF r l f(1)])
qed

subsection \<open>Crashes\<close>

text \<open>
  The files that a request can leave behind when every handling of it so far has ended in
  an error, for example because the process stopped after any number of durable steps.
\<close>

inductive crashes ::
  "(CapabilityCatalogV1 \<Rightarrow> string) \<Rightarrow> CatalogAccess \<Rightarrow> nat option \<Rightarrow> ResumeAction option \<Rightarrow> RunFiles \<Rightarrow> RunFiles \<Rightarrow> bool"
  for hashf catalogs expectedVersion request where
  crashes_none: "crashes hashf catalogs expectedVersion request f f"
| crashes_more: "crashes hashf catalogs expectedVersion request f f1 \<Longrightarrow>
    Resume hashf catalogs expectedVersion request (f1\<lparr>rf_writes := n\<rparr>) = (Inl e, f2) \<Longrightarrow>
    crashes hashf catalogs expectedVersion request f f2"

lemma disk_run_writes [simp]: "disk_run (f\<lparr>rf_writes := n\<rparr>) = disk_run f"
  by (simp add: disk_run_def)

lemma states_ignore_budget [simp]:
  "loadable (f\<lparr>rf_writes := n\<rparr>) \<longleftrightarrow> loadable f"
  "between plan k f0 (f\<lparr>rf_writes := n\<rparr>) \<longleftrightarrow> between plan k f0 f"
  "recoverable action plan f0 (f\<lparr>rf_writes := n\<rparr>) \<longleftrightarrow> recoverable action plan f0 f"
  "committed action plan f0 (f\<lparr>rf_writes := n\<rparr>) \<longleftrightarrow> committed action plan f0 f"
  by (simp_all add: loadable_def between_def recoverable_def committed_def)

text \<open>A committed action returns its run however few writes succeed.\<close>

lemma committed_change:
  assumes "committed action plan f0 f"
    and "rf_run f' = rf_run f" "rf_nodes f' = rf_nodes f" "rf_events f' = rf_events f"
  shows "committed action plan f0 f'"
  using assms by (simp add: committed_def loadable_def between_def disk_run_def)

lemma Resume_committed:
  assumes "ra_action_id action \<noteq> []" "committed action plan f0 f"
  shows "wp (Resume hashf catalogs v (Some action))
    (\<lambda>(run, started) f'. committed action plan f0 f'
       \<and> (rf_writes f > 0 \<longrightarrow> map_of (rf_intents f') (ra_action_id action) = None)) (\<lambda>_ _. False) f"
proof (rule Resume_wp)
  show "loadable f" using assms(2) by (simp add: committed_def)
next
  fix nodes
  obtain r where r: "map_of (ws_receipts (disk_run f)) (ra_action_id action) = Some r"
    "rp_request_hash r = ra_request_hash action" using assms(2) by (auto simp: committed_def)
  show "wp (resume_loaded hashf catalogs v (Some action) (disk_run f) nodes)
     (\<lambda>(run, started) f'. committed action plan f0 f'
       \<and> (rf_writes f > 0 \<longrightarrow> map_of (rf_intents f') (ra_action_id action) = None)) (\<lambda>_ _. False) f"
  proof (cases "rf_writes f = 0")
    case True
    then show ?thesis using assms r
      by (simp add: wp_def resume_loaded_def next_step_def ignore_error_def RemoveActionIntent_def durable_def ret_def)
  next
    case False
    have "committed action plan f0 (f\<lparr>rf_writes := rf_writes f - 1, rf_intents := AList.delete (ra_action_id action) (rf_intents f)\<rparr>)"
      by (rule committed_change [OF assms(2)]) simp_all
    then show ?thesis using assms r False
      by (simp add: wp_def resume_loaded_def next_step_def ignore_error_def RemoveActionIntent_def durable_def ret_def
          AList.delete_conv')
  qed
qed

text \<open>The two together: an action that has been planned ends in the committed state.\<close>

lemma Resume_planned:
  assumes r: "replayable action plan" and l: "loadable f0"
    and new: "map_of (ws_receipts (disk_run f0)) (ra_action_id action) = None"
    and f: "recoverable action plan f0 f \<or> committed action plan f0 f"
  shows "wp (Resume hashf catalogs v (Some action))
     (\<lambda>_ f'. committed action plan f0 f' \<and> (rf_writes f > 0 \<longrightarrow> map_of (rf_intents f') (ra_action_id action) = None))
     (\<lambda>_ f'. (recoverable action plan f0 f' \<or> committed action plan f0 f')
        \<and> rf_writes f < 2 * length (ai_mutations plan) + 4) f"
  using f
proof
  assume "recoverable action plan f0 f"
  from Resume_recoverable [OF r l this le_refl new] show ?thesis
    by (rule wp_mono) (auto simp: replayed_def stopped_def)
next
  assume c: "committed action plan f0 f"
  have "ra_action_id action \<noteq> []" using r by (simp add: replayable_def)
  from Resume_committed [OF this c] show ?thesis by (rule wp_mono) auto
qed

lemma wp_error: "m f = (Inl e, f') \<Longrightarrow> wp m Q E f \<Longrightarrow> E e f'"
  by (simp add: wp_def)

lemma crashes_invariant:
  assumes "crashes hashf catalogs v request f1 f" "I f1"
    and budget: "\<And>f n. I f \<Longrightarrow> I (f\<lparr>rf_writes := n\<rparr>)"
    and step: "\<And>f. I f \<Longrightarrow> wp (Resume hashf catalogs v request) (\<lambda>_ _. True) (\<lambda>_. I) f"
  shows "I f"
  using assms(1,2)
proof (induction rule: crashes.induct)
  case (crashes_more f f1 n e f2)
  then have "wp (Resume hashf catalogs v request) (\<lambda>_ _. True) (\<lambda>_. I) (f1\<lparr>rf_writes := n\<rparr>)"
    using budget step by blast
  with crashes_more(2) show ?case by (rule wp_error)
qed

subsection \<open>The first handling of an action\<close>

text \<open>Files that a handling which wrote nothing leaves behind.\<close>

definition untouched :: "RunFiles \<Rightarrow> RunFiles \<Rightarrow> bool" where
  "untouched f0 f \<longleftrightarrow> rf_run f = rf_run f0 \<and> rf_nodes f = rf_nodes f0 \<and> rf_events f = rf_events f0
     \<and> rf_intents f = rf_intents f0"

lemma untouched_loadable:
  assumes "untouched f0 f" "loadable f0"
  shows "loadable f" "disk_run f = disk_run f0"
  using assms by (simp_all add: untouched_def loadable_def disk_run_def)

lemma wp_ListActionIntentIDs:
  "rf_intents f = [] \<Longrightarrow> wp ListActionIntentIDs Q E f = Q [] f"
  by (simp add: wp_def ListActionIntentIDs_def)

lemma launch_wp:
  assumes r: "replayable action plan" and l: "loadable f0" and i: "rf_intents f0 = []"
    and p: "ai_action_id plan = ra_action_id action" "ai_phase plan = actionIntentPlanned" "ai_applied plan = 0" "between plan 0 f0 f0"
    and f: "untouched f0 f" "b \<le> rf_writes f"
  shows "wp (next_step (prepareActionIntent plan) (\<lambda>_.
       next_step (WriteActionIntent (ra_action_id action) (plan\<lparr>ai_phase := actionIntentApplying\<rparr>)) (\<lambda>_.
       applyActionIntent (disk_run f0) action (plan\<lparr>ai_phase := actionIntentApplying\<rparr>))))
     (replayed action plan f0)
     (\<lambda>e f'. untouched f0 f' \<and> b < 1 \<or> stopped action plan f0 b (2 * length (ai_mutations plan) + 5) e f') f"
proof -
  let ?aid = "ra_action_id action" and ?J = "plan\<lparr>ai_phase := actionIntentApplying, ai_applied := 0\<rparr>"
  have aid: "?aid \<noteq> []" "ai_action_id plan = ?aid" using r p(1) by (simp_all add: replayable_def)
  have J: "?J = plan\<lparr>ai_phase := actionIntentApplying\<rparr>" "plan\<lparr>ai_phase := actionIntentPlanned, ai_applied := 0\<rparr> = plan"
    using p by simp_all
  let ?f1 = "f\<lparr>rf_writes := rf_writes f - 1, rf_intents := AList.update ?aid plan (rf_intents f)\<rparr>"
  let ?f2 = "?f1\<lparr>rf_writes := rf_writes f - 2, rf_intents := AList.update ?aid ?J (rf_intents ?f1)\<rparr>"
  have same: "rf_run f = rf_run f0" "rf_events f = rf_events f0" "rf_nodes f = rf_nodes f0"
    using f(1) by (simp_all add: untouched_def)
  have planned: "recoverable action plan f0 ?f1"
    unfolding recoverable_def
    by (intro conjI exI [of _ 0] exI [of _ actionIntentPlanned])
      (use same p(4) J(2) in \<open>simp_all add: between_def AList.update_conv'\<close>)
  have applying: "applying action plan 0 f0 ?f2"
    using same p(4) by (simp add: applying_def between_def AList.update_conv')
  have "b - 2 \<le> rf_writes ?f2" using f(2) by simp
  note apply_wp = applyActionIntent_wp [OF r l applying this]
  have run: "wp (applyActionIntent (disk_run f0) action ?J) (replayed action plan f0)
      (\<lambda>e f'. untouched f0 f' \<and> b < 1 \<or> stopped action plan f0 b (2 * length (ai_mutations plan) + 5) e f') ?f2"
    by (rule wp_mono [OF apply_wp]) (auto simp: stopped_def)
  consider "rf_writes f = 0" | "rf_writes f = 1" | n where "rf_writes f = Suc (Suc n)"
    by (metis One_nat_def not0_implies_Suc)
  then show ?thesis
  proof cases
    case 1
    then show ?thesis
      using aid f i by (simp add: prepareActionIntent_def wp_simps wp_ListActionIntentIDs untouched_def)
  next
    case 2
    then show ?thesis
      using aid f i planned r intent_file_id [OF r, where ph = actionIntentPlanned and k = 0]
      by (simp add: prepareActionIntent_def wp_simps wp_ListActionIntentIDs untouched_def J(2) stopped_def)
  next
    case 3
    have "intent_file plan = plan" "intent_file ?J = ?J"
      using intent_file_id [OF r, where ph = actionIntentPlanned and k = 0]
        intent_file_id [OF r, where ph = actionIntentApplying and k = 0] J(2) by simp_all
    then show ?thesis
      using 3 aid f(1) i run unfolding J
      by (simp add: prepareActionIntent_def wp_simps wp_ListActionIntentIDs untouched_def)
  qed
qed

end
