(* ===== verification/Run_Decisions.thy ===== *)
theory Run_Decisions
  imports Run_Recovery
begin

section \<open>Decisions of approvals under crashes\<close>

text \<open>
  The states that the handling of one approve or reject request goes through, from a run
  that waits for the approval to the committed decision, however often the handling stops
  before its end: nothing written yet, a plan that can be replayed, or committed.
\<close>

text \<open>A run that waits for an approval, and an action that decides it.\<close>

definition open_approval :: "RunFiles \<Rightarrow> ResumeAction \<Rightarrow> NodeSnapshot \<Rightarrow> bool" where
  "open_approval f0 action node \<longleftrightarrow>
     loadable f0 \<and> rf_intents f0 = [] \<and> map_of (ws_receipts (disk_run f0)) (ra_action_id action) = None
     \<and> ra_action_id action \<noteq> [] \<and> ra_request_hash action \<noteq> [] \<and> ra_answers action \<noteq> Some []
     \<and> (ra_type action = ''approve'' \<or> ra_type action = ''reject'') \<and> validateResumeAction action = Inr ()
     \<and> safeID (ra_node_id action) \<and> map_of (rf_nodes f0) (ra_node_id action) = Some node
     \<and> ns_id node = ra_node_id action \<and> ns_type node = ''approval'' \<and> ns_phase node = NodePhaseWaiting
     \<and> ns_reason node = ReasonApprovalRequired \<and> ns_result node = None \<and> ns_pending_answer node = []
     \<and> ValidateNodeSnapshot node = Inr ()"

definition decision_of :: "ResumeAction \<Rightarrow> string" where
  "decision_of action = (if ra_type action = ''approve'' then ''approved'' else ''rejected'')"

definition decided_node :: "NodeSnapshot \<Rightarrow> ResumeAction \<Rightarrow> instant \<Rightarrow> NodeSnapshot" where
  "decided_node node action now =
     node\<lparr>ns_phase := NodePhaseCompleted, ns_result := Some (approval_result (decision_of action) (ra_reason action)),
       ns_reason := '''', ns_updated_at := now,
       ns_conclusion := (if ra_type action = ''approve'' then ConclusionSucceeded else ConclusionRejected)\<rparr>"

definition approval_plan :: "NodeSnapshot \<Rightarrow> ResumeAction \<Rightarrow> instant \<Rightarrow> ActionIntent" where
  "approval_plan node action now =
     \<lparr>ai_version = actionIntentVersion, ai_action_id = ra_action_id action,
      ai_request_hash = ra_request_hash action, ai_type = ra_type action, ai_node_id = ra_node_id action,
      ai_phase = actionIntentPlanned, ai_applied = 0, ai_event_type = ''node.approval_decided'',
      ai_summary = ''approval '' @ decision_of action, ai_action = action,
      ai_mutations = [\<lparr>am_before = node, am_after = decided_node node action now\<rparr>]\<rparr>"

lemma approval_replayable:
  assumes "open_approval f0 action node"
  shows "replayable action (approval_plan node action now)" "between (approval_plan node action now) 0 f0 f0"
proof -
  have target: "ns_pending_target node = None"
    using assms by (auto simp: open_approval_def ValidateNodeSnapshot_iff split: option.splits)
  have stable: "stable_node node" "stable_node (decided_node node action now)"
    using assms by (simp_all add: open_approval_def stable_node_def node_file_def decided_node_def raw_file_def
        approval_result_def result_file_def empty_omitted_def)
  have "ValidateNodeSnapshot (decided_node node action now) = Inr ()"
    using assms target
    by (simp add: open_approval_def ValidateNodeSnapshot_iff decided_node_def validNodePhase_def validConclusion_def)
  then show "replayable action (approval_plan node action now)"
    using assms stable
    by (simp add: open_approval_def replayable_def approval_plan_def decided_node_def same_action_def)
  show "between (approval_plan node action now) 0 f0 f0"
    using assms by (simp add: between_def approval_plan_def open_approval_def decided_node_def)
qed

lemma applyAction_approval:
  assumes "open_approval f0 action node" "untouched f0 f"
  defines "plan \<equiv> approval_plan node action (rf_clock f (rf_ticks f))"
  shows "applyAction hashf catalogs run action f =
     next_step (prepareActionIntent plan) (\<lambda>_.
       next_step (WriteActionIntent (ra_action_id action) (plan\<lparr>ai_phase := actionIntentApplying\<rparr>)) (\<lambda>_.
       applyActionIntent run action (plan\<lparr>ai_phase := actionIntentApplying\<rparr>))) (f\<lparr>rf_ticks := rf_ticks f + 1\<rparr>)"
proof -
  have "ReadNode (ra_node_id action) f = (Inr node, f)"
    using assms(1,2) by (simp add: open_approval_def untouched_def ReadNode_def validateID_ok next_step_def ret_def look_def)
  moreover have "plan_decision run node action f = (Inr (Plan (ai_mutations plan) (ai_event_type plan) (ai_summary plan)),
      f\<lparr>rf_ticks := rf_ticks f + 1\<rparr>)"
    using assms(1) by (simp add: open_approval_def plan_decision_def Let_def next_step_def clock_now_def ret_def
        plan_def approval_plan_def decided_node_def decision_of_def)
  moreover have "ra_node_id action \<noteq> []"
    using assms(1) by (auto simp: open_approval_def safeID_def)
  ultimately show ?thesis
    using assms(1) unfolding applyAction_def
    by (auto simp: open_approval_def next_step_ok Let_def plan_def approval_plan_def)
qed

definition decided :: "RunFiles \<Rightarrow> ResumeAction \<Rightarrow> NodeSnapshot \<Rightarrow> RunFiles \<Rightarrow> bool" where
  "decided f0 action node f \<longleftrightarrow> (\<exists>now. committed action (approval_plan node action now) f0 f)"

text \<open>What holds of the files between the handlings of a decision.\<close>

definition deciding :: "RunFiles \<Rightarrow> ResumeAction \<Rightarrow> NodeSnapshot \<Rightarrow> RunFiles \<Rightarrow> bool" where
  "deciding f0 action node f \<longleftrightarrow> untouched f0 f
     \<or> (\<exists>now. recoverable action (approval_plan node action now) f0 f \<or> committed action (approval_plan node action now) f0 f)"

lemma deciding_budget: "deciding f0 action node f \<Longrightarrow> deciding f0 action node (f\<lparr>rf_writes := n\<rparr>)"
  by (simp add: deciding_def untouched_def)

lemma Resume_first:
  assumes o: "open_approval f0 action node" and f: "untouched f0 f"
    and v: "v = None \<or> v = Some (ws_state_version (disk_run f0))"
  shows "Resume hashf catalogs v (Some action) f =
     next_step (applyAction hashf catalogs (disk_run f0) action) (\<lambda>run. ret (run, ws_phase run \<noteq> PhaseCompleted)) f"
proof -
  have l: "loadable f0" using o by (simp add: open_approval_def)
  note lf = untouched_loadable [OF f l]
  obtain nodes where "loadRun f = (Inr (disk_run f0, nodes), f)" using loadRun_ok [OF lf(1)] lf(2) by auto
  moreover obtain k where "resetEventSequence f = (Inr k, f)"
    using lf(1) by (auto simp: loadable_def resetEventSequence_def)
  ultimately have "Resume hashf catalogs v (Some action) f = resume_loaded hashf catalogs v (Some action) (disk_run f0) nodes f"
    by (simp add: Resume_def next_step_ok)
  moreover have "resume_loaded hashf catalogs v (Some action) (disk_run f0) nodes f
      = next_step (applyAction hashf catalogs (disk_run f0) action) (\<lambda>run. ret (run, ws_phase run \<noteq> PhaseCompleted)) f"
    using o f v by (auto simp: resume_loaded_def resume_new_def open_approval_def untouched_def
        next_step_ok ret_def check_def)
  ultimately show ?thesis by simp
qed

lemma Resume_untouched:
  assumes o: "open_approval f0 action node" and f: "untouched f0 f"
    and v: "v = None \<or> v = Some (ws_state_version (disk_run f0))"
  shows "wp (Resume hashf catalogs v (Some action))
    (\<lambda>_ f'. decided f0 action node f' \<and> map_of (rf_intents f') (ra_action_id action) = None)
    (\<lambda>_ f'. deciding f0 action node f' \<and> rf_writes f < 7) f"
proof -
  have l: "loadable f0" using o by (simp add: open_approval_def)
  let ?plan = "approval_plan node action (rf_clock f (rf_ticks f))"
  let ?f = "f\<lparr>rf_ticks := rf_ticks f + 1\<rparr>"
  note r = approval_replayable [OF o, of "rf_clock f (rf_ticks f)"]
  have wp: "wp (applyAction hashf catalogs (disk_run f0) action)
      (replayed action ?plan f0)
      (\<lambda>e f'. untouched f0 f' \<and> rf_writes f < 1 \<or> stopped action ?plan f0 (rf_writes f) (2 * length (ai_mutations ?plan) + 5) e f') f"
  proof -
    have "untouched f0 ?f" "rf_writes f \<le> rf_writes ?f" using f by (simp_all add: untouched_def)
    from launch_wp [OF r(1) l _ _ _ _ r(2) this] o
    have "wp (next_step (prepareActionIntent ?plan) (\<lambda>_.
       next_step (WriteActionIntent (ra_action_id action) (?plan\<lparr>ai_phase := actionIntentApplying\<rparr>)) (\<lambda>_.
       applyActionIntent (disk_run f0) action (?plan\<lparr>ai_phase := actionIntentApplying\<rparr>))))
      (replayed action ?plan f0)
      (\<lambda>e f'. untouched f0 f' \<and> rf_writes f < 1 \<or> stopped action ?plan f0 (rf_writes f) (2 * length (ai_mutations ?plan) + 5) e f') ?f"
      by (simp add: open_approval_def approval_plan_def)
    then show ?thesis unfolding wp_def [of "applyAction hashf catalogs (disk_run f0) action"]
      by (simp only: applyAction_approval [OF o f] wp_def)
  qed
  have "wp (next_step (applyAction hashf catalogs (disk_run f0) action) (\<lambda>run. ret (run, ws_phase run \<noteq> PhaseCompleted)))
    (\<lambda>_ f'. decided f0 action node f' \<and> map_of (rf_intents f') (ra_action_id action) = None)
    (\<lambda>_ f'. deciding f0 action node f' \<and> rf_writes f < 7) f"
    unfolding wp_simps
    by (rule wp_mono [OF wp]) (auto simp: replayed_def stopped_def decided_def deciding_def approval_plan_def)
  then show ?thesis
    unfolding wp_def [of "Resume hashf catalogs v (Some action)"] Resume_first [OF o f v] by (simp only: wp_def)
qed

lemma Resume_deciding:
  assumes o: "open_approval f0 action node" and f: "deciding f0 action node f"
    and v: "v = None \<or> v = Some (ws_state_version (disk_run f0))"
  shows "wp (Resume hashf catalogs v (Some action))
    (\<lambda>_ f'. decided f0 action node f' \<and> (rf_writes f > 0 \<longrightarrow> map_of (rf_intents f') (ra_action_id action) = None))
    (\<lambda>_ f'. deciding f0 action node f' \<and> rf_writes f < 7) f"
proof (cases "untouched f0 f")
  case True
  show ?thesis by (rule wp_mono [OF Resume_untouched [OF o True v]]) auto
next
  case False
  then obtain now where now: "recoverable action (approval_plan node action now) f0 f
      \<or> committed action (approval_plan node action now) f0 f"
    using f by (auto simp: deciding_def)
  have "loadable f0" "map_of (ws_receipts (disk_run f0)) (ra_action_id action) = None"
    using o by (simp_all add: open_approval_def)
  from Resume_planned [OF approval_replayable(1) [OF o] this now] show ?thesis
    by (rule wp_mono) (auto simp: decided_def deciding_def approval_plan_def)
qed

lemma crashes_deciding:
  assumes "open_approval f0 action node" "v = None \<or> v = Some (ws_state_version (disk_run f0))"
    and "crashes hashf catalogs v (Some action) f0 f"
  shows "deciding f0 action node f"
  using assms(3)
proof (rule crashes_invariant)
  show "deciding f0 action node f0" by (simp add: deciding_def untouched_def)
  show "\<And>f n. deciding f0 action node f \<Longrightarrow> deciding f0 action node (f\<lparr>rf_writes := n\<rparr>)" by (rule deciding_budget)
  show "\<And>f. deciding f0 action node f \<Longrightarrow>
      wp (Resume hashf catalogs v (Some action)) (\<lambda>_ _. True) (\<lambda>_. deciding f0 action node) f"
    by (rule wp_mono [OF Resume_deciding [OF assms(1) _ assms(2)]]) auto
qed

end
