(* ===== verification/Run_Action_Properties.thy ===== *)
theory Run_Action_Properties
  imports Run_Decisions Run_Properties
begin

section \<open>Properties of actions on a run\<close>

text \<open>
  What a request that approves, rejects, retries or answers does to the files of a run
  when its handling stops after any number of durable steps and is repeated: decisions and
  planned mutations are applied exactly once, except for answers, whose intents cannot be
  replayed once their first node is written. The samples are the files of a run of the
  diamond that waits for its approval, and of one whose agent waits for an answer.
\<close>

subsection \<open>Sample files\<close>

definition no_catalogs :: CatalogAccess where
  "no_catalogs = \<lparr>ca_active = (\<lambda>_. Inl (RegActiveUnavailable [])), ca_by_hash = (\<lambda>_. None), ca_gate = None\<rparr>"

definition files_of :: "WorkflowSnapshot \<Rightarrow> NodeSnapshot list \<Rightarrow> RunFiles" where
  "files_of run nodes = \<lparr>rf_run = Some (marshal_run run), rf_workflow = Some diamond,
     rf_nodes = map (\<lambda>node. (ns_id node, node)) nodes, rf_attempts = [], rf_results = [], rf_intents = [],
     rf_events = [], rf_writes = 0, rf_clock = (\<lambda>n. int n), rf_ticks = 0\<rparr>"

definition ship_node :: NodeSnapshot where
  "ship_node = (fresh_node ''ship'' ''approval'' ''waiting'' '''')\<lparr>ns_reason := ReasonApprovalRequired\<rparr>"

definition ship_files :: RunFiles where
  "ship_files = files_of
     (sample_run\<lparr>ws_phase := PhaseWaiting, ws_reason := ReasonApprovalRequired, ws_active_node := ''ship''\<rparr>)
     (map (\<lambda>i. fresh_node i ''agent'' ''completed'' ''succeeded'') [''plan'', ''docs'', ''lint'', ''test''] @ [ship_node])"

definition approve_ship :: ResumeAction where
  "approve_ship = \<lparr>ra_action_id = ''action-1'', ra_request_hash = ''hash-1'', ra_type = ''approve'', ra_node_id = ''ship'',
     ra_expected_attempt = None, ra_reason = '''', ra_answers = None, ra_acknowledge = False\<rparr>"

lemma sample_loadable:
  assumes "ValidateWorkflowSnapshot (disk_run f) = Inr ()" "ws_receipts (disk_run f) = []"
    "list_all (\<lambda>i. safeID i \<and> (case map_of (rf_nodes f) i of None \<Rightarrow> False
      | Some node \<Rightarrow> ValidateNodeSnapshot node = Inr ())) (ws_order (disk_run f))"
    "rf_run f \<noteq> None" "rf_events f = []"
  shows "loadable f"
  using assms by (auto simp: loadable_def wf_map_def list_all_iff split: option.splits)

lemma ship_loadable: "loadable ship_files"
  by (rule sample_loadable) code_simp+

lemma ship_open: "open_approval ship_files approve_ship ship_node"
proof -
  have "ws_receipts (disk_run ship_files) = []" by code_simp
  moreover have "validateResumeAction approve_ship = Inr ()" "safeID ''ship''"
    "map_of (rf_nodes ship_files) ''ship'' = Some ship_node" "ValidateNodeSnapshot ship_node = Inr ()" by code_simp+
  ultimately show ?thesis
    using ship_loadable unfolding open_approval_def
    by (simp add: approve_ship_def ship_node_def fresh_node_def zero_node_def ship_files_def files_of_def)
qed

subsection \<open>Decisions\<close>

text \<open>
  C24. Approving or rejecting is exactly once. From a run that waits for the approval, let
  the handling of one request stop in an error any number of times, each time after an
  arbitrary number of durable steps; then a handling of the same request with seven more
  successful steps returns the run, the node is completed with that decision and reason,
  no other node file has changed, the receipt binds the request, the intent is gone, the
  state version has grown by one and at most one event has been logged.
\<close>

theorem approval_exactly_once:
  assumes o: "open_approval f0 action node"
    and v: "v = None \<or> v = Some (ws_state_version (disk_run f0))"
    and crashed: "crashes hashf catalogs v (Some action) f0 f" and enough: "7 \<le> w"
  shows "\<exists>run started f' now. Resume hashf catalogs v (Some action) (f\<lparr>rf_writes := w\<rparr>) = (Inr (run, started), f')
    \<and> map_of (rf_nodes f') (ra_node_id action) = Some (decided_node node action now)
    \<and> (\<forall>i. i \<noteq> ra_node_id action \<longrightarrow> map_of (rf_nodes f') i = map_of (rf_nodes f0) i)
    \<and> (\<exists>r. map_of (ws_receipts (disk_run f')) (ra_action_id action) = Some r \<and> rp_request_hash r = ra_request_hash action)
    \<and> map_of (rf_intents f') (ra_action_id action) = None
    \<and> ws_state_version (disk_run f') = ws_state_version (disk_run f0) + 1
    \<and> (\<exists>es. rf_events f' = rf_events f0 @ es \<and> length es \<le> 1)"
proof -
  have "deciding f0 action node (f\<lparr>rf_writes := w\<rparr>)"
    by (rule deciding_budget [OF crashes_deciding [OF o v crashed]])
  from Resume_deciding [OF o this v, of hashf catalogs] enough
  obtain run started f' where f': "Resume hashf catalogs v (Some action) (f\<lparr>rf_writes := w\<rparr>) = (Inr (run, started), f')"
    "decided f0 action node f'" "map_of (rf_intents f') (ra_action_id action) = None"
    unfolding wp_result by auto
  then obtain now where c: "committed action (approval_plan node action now) f0 f'" by (auto simp: decided_def)
  have "ns_id (decided_node node action now) = ra_node_id action"
    using o by (simp add: open_approval_def decided_node_def)
  then have "map_of (rf_nodes f') (ra_node_id action) = Some (decided_node node action now)"
    "\<forall>i. i \<noteq> ra_node_id action \<longrightarrow> map_of (rf_nodes f') i = map_of (rf_nodes f0) i"
    using c by (simp_all add: committed_def between_def approval_plan_def mutated_ids_def)
  with f' c show ?thesis by (auto simp: committed_def)
qed

lemma approval_exactly_once_witness:
  "let crash = snd (Resume (\<lambda>_. []) no_catalogs (Some 1) (Some approve_ship) (ship_files\<lparr>rf_writes := 3\<rparr>));
       done = snd (Resume (\<lambda>_. []) no_catalogs (Some 1) (Some approve_ship) (crash\<lparr>rf_writes := 7\<rparr>))
   in fst (Resume (\<lambda>_. []) no_catalogs (Some 1) (Some approve_ship) (ship_files\<lparr>rf_writes := 3\<rparr>)) = Inl WriteFailed
    \<and> map_option ns_conclusion (map_of (rf_nodes done) ''ship'') = Some ConclusionSucceeded
    \<and> ws_state_version (disk_run done) = 2"
proof -
  let ?resume = "Resume (\<lambda>_. []) no_catalogs (Some 1) (Some approve_ship)"
  let ?crash = "snd (?resume (ship_files\<lparr>rf_writes := 3\<rparr>))"
  let ?plan = "approval_plan ship_node approve_ship 0"
  have version: "ws_state_version (disk_run ship_files) = 1" by code_simp
  have "fst (next_step (prepareActionIntent ?plan) (\<lambda>_.
       next_step (WriteActionIntent (ra_action_id approve_ship) (?plan\<lparr>ai_phase := actionIntentApplying\<rparr>)) (\<lambda>_.
       applyActionIntent (disk_run ship_files) approve_ship (?plan\<lparr>ai_phase := actionIntentApplying\<rparr>)))
       (ship_files\<lparr>rf_writes := 3, rf_ticks := 1\<rparr>)) = Inl WriteFailed" by code_simp
  moreover have "untouched ship_files (ship_files\<lparr>rf_writes := 3\<rparr>)" by (simp add: untouched_def)
  moreover have "rf_ticks ship_files = 0" "rf_clock ship_files 0 = 0" by code_simp+
  ultimately have fails: "fst (?resume (ship_files\<lparr>rf_writes := 3\<rparr>)) = Inl WriteFailed"
    using Resume_first [OF ship_open, of "ship_files\<lparr>rf_writes := 3\<rparr>" "Some 1"]
      applyAction_approval [OF ship_open, of "ship_files\<lparr>rf_writes := 3\<rparr>"] version
    by (simp add: next_step_fails)
  then have "?resume (ship_files\<lparr>rf_writes := 3\<rparr>) = (Inl WriteFailed, ?crash)" by (simp add: prod_eq_iff)
  then have crashed: "crashes (\<lambda>_. []) no_catalogs (Some 1) (Some approve_ship) ship_files ?crash"
    by (rule crashes_more [OF crashes_none])
  from approval_exactly_once [OF ship_open _ crashed, of 7] obtain run started f' now where
    "?resume (?crash\<lparr>rf_writes := 7\<rparr>) = (Inr (run, started), f')"
    "map_of (rf_nodes f') (ra_node_id approve_ship) = Some (decided_node ship_node approve_ship now)"
    "ws_state_version (disk_run f') = ws_state_version (disk_run ship_files) + 1"
    by (auto simp: version)
  then show ?thesis using fails version by (simp add: Let_def decided_node_def approve_ship_def)
qed

subsection \<open>Planned actions\<close>

text \<open>
  C25. An action whose plan is durable and survives its own file (\<open>replayable\<close>: distinct
  nodes, valid snapshots and no raw answer in them) is completed from wherever its handlings
  stopped, in the middle of its mutations (of a retry: the node and its skipped descendants)
  too. A handling with two successful steps per mutation and four more returns; then every
  planned node is in its planned state, no other node file has changed, the receipt is
  recorded and the intent is gone. The plan of an answer holds the raw answer and is
  excluded: the next property shows that its replay fails.
\<close>

theorem planned_action_exactly_once:
  assumes r: "replayable action plan" and l: "loadable f0"
    and new: "map_of (ws_receipts (disk_run f0)) (ra_action_id action) = None"
    and planned: "recoverable action plan f0 f1"
    and crashed: "crashes hashf catalogs v (Some action) f1 f"
    and enough: "2 * length (ai_mutations plan) + 4 \<le> w"
  shows "\<exists>result f'. Resume hashf catalogs v (Some action) (f\<lparr>rf_writes := w\<rparr>) = (Inr result, f')
    \<and> (\<forall>m \<in> set (ai_mutations plan). map_of (rf_nodes f') (ns_id (am_after m)) = Some (am_after m))
    \<and> (\<forall>i. i \<notin> mutated_ids plan \<longrightarrow> map_of (rf_nodes f') i = map_of (rf_nodes f0) i)
    \<and> (\<exists>r. map_of (ws_receipts (disk_run f')) (ra_action_id action) = Some r \<and> rp_request_hash r = ra_request_hash action)
    \<and> map_of (rf_intents f') (ra_action_id action) = None"
proof -
  define I where "I f \<longleftrightarrow> recoverable action plan f0 f \<or> committed action plan f0 f" for f
  have "I f"
  proof (rule crashes_invariant [OF crashed])
    show "I f1" using planned by (simp add: I_def)
    show "\<And>f n. I f \<Longrightarrow> I (f\<lparr>rf_writes := n\<rparr>)" by (simp add: I_def)
    show "\<And>f. I f \<Longrightarrow> wp (Resume hashf catalogs v (Some action)) (\<lambda>_ _. True) (\<lambda>_. I) f"
      unfolding I_def by (rule wp_mono [OF Resume_planned [OF r l new]]) auto
  qed
  then have "recoverable action plan f0 (f\<lparr>rf_writes := w\<rparr>) \<or> committed action plan f0 (f\<lparr>rf_writes := w\<rparr>)"
    by (simp add: I_def)
  from Resume_planned [OF r l new this, of hashf catalogs v] enough
  obtain result f' where f': "Resume hashf catalogs v (Some action) (f\<lparr>rf_writes := w\<rparr>) = (Inr result, f')"
    "committed action plan f0 f'" "map_of (rf_intents f') (ra_action_id action) = None"
    unfolding wp_result by auto
  then have "\<forall>m \<in> set (ai_mutations plan). map_of (rf_nodes f') (ns_id (am_after m)) = Some (am_after m)"
    by (auto simp: committed_def between_def Let_def in_set_conv_nth)
  with f' show ?thesis by (auto simp: committed_def between_def)
qed

definition failed_node :: NodeSnapshot where
  "failed_node = (fresh_node ''lint'' ''agent'' ''completed'' ''failed'')\<lparr>ns_current_attempt := 1\<rparr>"

definition skipped_node :: NodeSnapshot where
  "skipped_node = (fresh_node ''ship'' ''approval'' ''skipped'' '''')\<lparr>ns_reason := ReasonUpstreamFailed\<rparr>"

definition retry_files :: RunFiles where
  "retry_files = files_of (sample_run\<lparr>ws_phase := PhaseCompleted, ws_conclusion := ConclusionFailed\<rparr>)
     (map (\<lambda>i. fresh_node i ''agent'' ''completed'' ''succeeded'') [''plan'', ''docs'', ''test''] @ [failed_node, skipped_node])"

definition retry_lint :: ResumeAction where
  "retry_lint = \<lparr>ra_action_id = ''action-3'', ra_request_hash = ''hash-3'', ra_type = ''retry'', ra_node_id = ''lint'',
     ra_expected_attempt = None, ra_reason = '''', ra_answers = None, ra_acknowledge = False\<rparr>"

definition retry_plan :: ActionIntent where
  "retry_plan = \<lparr>ai_version = 2, ai_action_id = ''action-3'', ai_request_hash = ''hash-3'', ai_type = ''retry'',
     ai_node_id = ''lint'', ai_phase = actionIntentApplying, ai_applied = 1, ai_event_type = ''node.retry_requested'',
     ai_summary = ''explicit retry requested'', ai_action = retry_lint,
     ai_mutations = [\<lparr>am_before = failed_node, am_after = failed_node\<lparr>ns_phase := NodePhaseReady, ns_conclusion := '''',
         ns_updated_at := 5\<rparr>\<rparr>,
       \<lparr>am_before = skipped_node, am_after = skipped_node\<lparr>ns_phase := NodePhasePending, ns_reason := '''', ns_updated_at := 6\<rparr>\<rparr>]\<rparr>"

text \<open>The first of the two nodes of the retry has been written, and its marker.\<close>

definition retry_half :: RunFiles where
  "retry_half = retry_files\<lparr>rf_intents := [(''action-3'', retry_plan)],
     rf_nodes := AList.update ''lint'' (am_after (hd (ai_mutations retry_plan))) (rf_nodes retry_files)\<rparr>"

lemma retry_loadable: "loadable retry_files"
  by (rule sample_loadable) code_simp+

lemma retry_replayable: "replayable retry_lint retry_plan"
proof -
  have "list_all (\<lambda>m. safeID (ns_id (am_after m)) \<and> ns_id (am_before m) = ns_id (am_after m)
      \<and> stable_node (am_before m) \<and> stable_node (am_after m)
      \<and> ValidateNodeSnapshot (am_before m) = Inr () \<and> ValidateNodeSnapshot (am_after m) = Inr ()) (ai_mutations retry_plan)"
    by code_simp
  moreover have "distinct (map (ns_id \<circ> am_after) (ai_mutations retry_plan))" by code_simp
  ultimately show ?thesis
    by (simp add: replayable_def list_all_iff) (simp add: retry_plan_def retry_lint_def same_action_def)
qed

lemma retry_recoverable: "recoverable retry_lint retry_plan retry_files retry_half"
proof -
  have "retry_plan = retry_plan\<lparr>ai_phase := actionIntentApplying, ai_applied := 1\<rparr>" by (simp add: retry_plan_def)
  moreover have "between retry_plan 1 retry_files retry_half"
  proof -
    have "map_of (rf_nodes retry_files) ''lint'' = Some failed_node" "map_of (rf_nodes retry_files) ''ship'' = Some skipped_node"
      by code_simp+
    then show ?thesis
      by (auto simp: between_def retry_half_def retry_plan_def mutated_ids_def AList.update_conv' failed_node_def
          skipped_node_def fresh_node_def less_Suc_eq numeral_2_eq_2)
  qed
  ultimately show ?thesis
    unfolding recoverable_def
    by (intro conjI exI [of _ "1::nat"] exI [of _ actionIntentApplying])
      (simp_all add: retry_half_def retry_lint_def retry_plan_def)
qed

lemma planned_action_exactly_once_witness:
  "map_option ns_phase (map_of (rf_nodes (snd (Resume (\<lambda>_. []) no_catalogs None (Some retry_lint)
     (retry_half\<lparr>rf_writes := 8\<rparr>)))) ''ship'') = Some NodePhasePending"
proof -
  have "ws_receipts (disk_run retry_files) = []" by code_simp
  then have new: "map_of (ws_receipts (disk_run retry_files)) (ra_action_id retry_lint) = None" by simp
  have "2 * length (ai_mutations retry_plan) + 4 \<le> 8" by (simp add: retry_plan_def)
  from planned_action_exactly_once [OF retry_replayable retry_loadable new retry_recoverable crashes_none this]
  obtain result f' where f': "Resume (\<lambda>_. []) no_catalogs None (Some retry_lint) (retry_half\<lparr>rf_writes := 8\<rparr>) = (Inr result, f')"
    "\<forall>m \<in> set (ai_mutations retry_plan). map_of (rf_nodes f') (ns_id (am_after m)) = Some (am_after m)" by blast
  then have "map_of (rf_nodes f') ''ship'' = Some (am_after (ai_mutations retry_plan ! 1))"
    by (simp add: retry_plan_def skipped_node_def fresh_node_def zero_node_def)
  then show ?thesis by (simp add: f'(1) retry_plan_def)
qed

subsection \<open>Answers\<close>

text \<open>An encoded answer starts with a brace and a quote, whose distance the indentation sets.\<close>

lemma encoded_answer_head:
  assumes "validateAndEncodeAnswers attempt questions answers = Inr encoded"
  shows "\<exists>t. encoded = CHR ''{'' # CHR 0x22 # t"
proof -
  have "\<exists>v ms. encoded = json_object ((''attempt'', v) # ms)"
    using assms unfolding validateAndEncodeAnswers_def Let_def
    by (cases "check_questions (items answers) questions"; cases "check_answers questions (items answers)";
        cases "json_answers (items answers)"; simp) blast
  then obtain v ms where "encoded = json_object ((''attempt'', v) # ms)" by blast
  moreover obtain q where "json_string ''attempt'' = CHR 0x22 # q" using json_string_head by blast
  ultimately show ?thesis by (cases ms) (simp_all add: json_object_def)
qed

lemma answer_indentation:
  assumes "validateAndEncodeAnswers attempt questions answers = Inr encoded"
  shows "raw_file 1 encoded \<noteq> raw_file 4 encoded"
proof -
  obtain t where t: "encoded = CHR ''{'' # CHR 0x22 # t" using encoded_answer_head [OF assms] by blast
  have raw: "\<exists>u. raw_file d encoded = CHR ''{'' # json_newline e @ CHR 0x22 # u" if "e = d + 1" for d e
    using that by (simp add: t raw_file_def json_space_def Let_def)
  obtain u where u: "raw_file 1 encoded = CHR ''{'' # json_newline 2 @ CHR 0x22 # u" using raw [of 2 1] by auto
  obtain u' where u': "raw_file 4 encoded = CHR ''{'' # json_newline 5 @ CHR 0x22 # u'" using raw [of 5 4] by auto
  have "raw_file 1 encoded ! 6 = CHR 0x22" "raw_file 4 encoded ! 6 = CHR 0x20"
    unfolding u u' by (simp_all add: json_newline_def nth_append nth_Cons')
  then show ?thesis by auto
qed

text \<open>
  C26. The intent of an answer cannot be replayed once its node is written. The node file and
  the intent file indent the encoded answer differently and reading keeps the indentation,
  so the node on disk is neither the planned state nor the earlier one: every later handling
  of the same request is a conflict that changes no file, however many steps would succeed,
  the abort keeps the intent, and no other action on the run can write its plan.
\<close>

theorem answer_replay_conflicts:
  assumes l: "loadable f" and new: "map_of (ws_receipts (disk_run f)) (ra_action_id action) = None"
    and enc: "validateAndEncodeAnswers attempt questions answers = Inr (ns_pending_answer (am_after m))"
    and plan: "ai_mutations plan = m # rest" "ai_action plan = action" "ra_answers action \<noteq> Some []"
      "ai_action_id plan = ra_action_id action" "ai_request_hash plan = ra_request_hash action"
      "ai_type plan = ra_type action" "ai_node_id plan = ra_node_id action" "ai_version plan = actionIntentVersion"
      "ai_phase plan = actionIntentApplying" "ai_applied plan = 0" "ra_action_id action \<noteq> []"
    and m: "ns_phase (am_before m) = NodePhaseWaiting" "ns_phase (am_after m) = NodePhaseReady" "safeID (ns_id (am_after m))"
    and files: "rf_intents f = [(ra_action_id action, intent_file plan)]"
      "map_of (rf_nodes f) (ns_id (am_after m)) = Some (node_file 1 (am_after m))"
  shows "Resume hashf catalogs v (Some action) f = (Inl (IntentConflict (ra_action_id action) (ns_id (am_after m))), f)
    \<and> AbortActionIntent (ra_action_id action) (ra_request_hash action) f = (Inr (), f)
    \<and> (ai_action_id other = ra_action_id action
       \<or> prepareActionIntent other f = (Inl (OtherActionPending (ra_action_id action)), f))"
proof -
  let ?aid = "ra_action_id action" and ?id = "ns_id (am_after m)" and ?plan = "intent_file plan"
  obtain nodes where nodes: "loadRun f = (Inr (disk_run f, nodes), f)" using loadRun_ok [OF l] by blast
  obtain k where k: "resetEventSequence f = (Inr k, f)" using l by (auto simp: loadable_def resetEventSequence_def)
  have fp: "ai_action_id ?plan = ?aid" "ai_request_hash ?plan = ra_request_hash action" "ai_type ?plan = ra_type action"
    "ai_node_id ?plan = ra_node_id action" "ai_version ?plan = actionIntentVersion" "ai_phase ?plan = actionIntentApplying"
    "ai_applied ?plan = 0" "ai_mutations ?plan = mutation_file m # map mutation_file rest" "same_action (ai_action ?plan) action"
    using plan by (simp_all add: intent_file_def same_action_def empty_omitted_def)
  have "raw_file 1 (ns_pending_answer (am_after m)) \<noteq> raw_file 4 (ns_pending_answer (am_after m))"
    using answer_indentation [OF enc] .
  then have ne: "node_file 1 (am_after m) \<noteq> am_after (mutation_file m)"
    by (auto simp: mutation_file_def dest: arg_cong [of _ _ ns_pending_answer])
  have ne': "node_file 1 (am_after m) \<noteq> am_before (mutation_file m)"
    using m by (auto simp: mutation_file_def dest: arg_cong [of _ _ ns_phase])
  have "ReadNode ?id f = (Inr (node_file 1 (am_after m)), f)"
    using m(3) files(2) by (simp add: ReadNode_def validateID_ok next_step_def ret_def look_def)
  then have "apply_mutations ?aid ?plan 0 (disk_run f) (ai_mutations ?plan) f = (Inl (IntentConflict ?aid ?id), f)"
    using ne ne' by (simp add: fp(1,7,8) next_step_def mutation_file_def fail_def)
  then have "resumeActionIntent (disk_run f) action ?plan f = (Inl (IntentConflict ?aid ?id), f)"
    by (simp add: resumeActionIntent_def fp(5,6,8) applyActionIntent_def next_step_def)
  then have "resume_loaded hashf catalogs v (Some action) (disk_run f) nodes f = (Inl (IntentConflict ?aid ?id), f)"
    using plan(11) new files(1) fp by (simp add: resume_loaded_def next_step_def)
  then have "Resume hashf catalogs v (Some action) f = (Inl (IntentConflict ?aid ?id), f)"
    by (simp add: Resume_def next_step_ok [where m = resetEventSequence, OF k] next_step_ok [where m = loadRun, OF nodes])
  moreover have "AbortActionIntent ?aid (ra_request_hash action) f = (Inr (), f)"
    using plan(11) files(1) fp by (simp add: AbortActionIntent_def ReadActionIntent_def look_def)
  moreover have "prepareActionIntent other f = (Inl (OtherActionPending ?aid), f)" if "ai_action_id other \<noteq> ?aid"
    using that plan(11) files(1) fp(1)
    by (simp add: prepareActionIntent_def ListActionIntentIDs_def next_step_def fail_def)
  ultimately show ?thesis by blast
qed

definition sample_question :: InputQuestion where
  "sample_question = \<lparr>iq_id = ''q1'', iq_prompt = ''Go?'', iq_choices = [''yes'', ''no''], iq_required = True\<rparr>"

definition asking_node :: NodeSnapshot where
  "asking_node = (fresh_node ''docs'' ''agent'' ''waiting'' '''')\<lparr>ns_reason := ReasonAgentWaitingInput,
     ns_current_attempt := 1, ns_result := Some ((approval_result '''' '''')\<lparr>res_questions := [sample_question]\<rparr>)\<rparr>"

definition answer_docs :: ResumeAction where
  "answer_docs = \<lparr>ra_action_id = ''action-2'', ra_request_hash = ''hash-2'', ra_type = ''answer'', ra_node_id = ''docs'',
     ra_expected_attempt = Some 1, ra_reason = '''', ra_answers = Some [(''q1'', GString ''yes'')], ra_acknowledge = False\<rparr>"

definition answer_text :: string where
  "answer_text = (case validateAndEncodeAnswers 1 [sample_question] (ra_answers answer_docs) of Inr e \<Rightarrow> e | Inl _ \<Rightarrow> '''')"

definition answer_mutation :: ActionNodeMutation where
  "answer_mutation = \<lparr>am_before = asking_node, am_after = asking_node\<lparr>ns_phase := NodePhaseReady, ns_reason := '''',
     ns_pending_answer := answer_text, ns_result := None, ns_updated_at := 5\<rparr>\<rparr>"

definition answer_plan :: ActionIntent where
  "answer_plan = \<lparr>ai_version = 2, ai_action_id = ''action-2'', ai_request_hash = ''hash-2'', ai_type = ''answer'',
     ai_node_id = ''docs'', ai_phase = actionIntentApplying, ai_applied = 0, ai_event_type = ''node.answer_submitted'',
     ai_summary = ''input answer submitted'', ai_action = answer_docs, ai_mutations = [answer_mutation]\<rparr>"

text \<open>The files after the plan, its second phase and the node of the answer have been written.\<close>

definition asking_run :: WorkflowSnapshot where
  "asking_run = sample_run\<lparr>ws_phase := PhaseWaiting, ws_reason := ReasonAgentWaitingInput\<rparr>"

definition answer_files :: RunFiles where
  "answer_files = (files_of asking_run
     (map (\<lambda>i. fresh_node i ''agent'' ''completed'' ''succeeded'') [''plan'', ''lint'', ''test'']
       @ [node_file 1 (am_after answer_mutation), fresh_node ''ship'' ''approval'' ''pending'' '''']))
     \<lparr>rf_intents := [(''action-2'', intent_file answer_plan)]\<rparr>"

lemma answer_text: "validateAndEncodeAnswers 1 [sample_question] (ra_answers answer_docs) = Inr answer_text"
proof -
  have "check_questions (items (ra_answers answer_docs)) [sample_question] = Inr ()" by code_simp
  moreover have "check_answers [sample_question] (items (ra_answers answer_docs)) = Inr ()" by code_simp
  moreover have "json_answers (items (ra_answers answer_docs)) \<noteq> None"
    by (simp add: answer_docs_def json_answers_def items_def Let_def json_scalar_def)
  ultimately have "\<exists>e. validateAndEncodeAnswers 1 [sample_question] (ra_answers answer_docs) = Inr e"
    by (auto simp: validateAndEncodeAnswers_def Let_def)
  then show ?thesis by (auto simp: answer_text_def)
qed

lemma answer_files_run: "disk_run answer_files = disk_run (files_of asking_run [])"
  by (simp add: disk_run_def answer_files_def files_of_def)

lemma answer_files_loadable: "loadable answer_files"
proof (rule sample_loadable)
  show "ValidateWorkflowSnapshot (disk_run answer_files) = Inr ()" "ws_receipts (disk_run answer_files) = []"
    unfolding answer_files_run by code_simp+
  have order: "ws_order (disk_run answer_files) = [''plan'', ''docs'', ''lint'', ''test'', ''ship'']"
    unfolding answer_files_run by code_simp
  have "ValidateNodeSnapshot (node_file 1 (am_after answer_mutation)) = Inr ()"
    by (simp add: ValidateNodeSnapshot_iff answer_mutation_def asking_node_def fresh_node_def zero_node_def validNodePhase_def)
  moreover have "ValidateNodeSnapshot (fresh_node i ''agent'' ''completed'' ''succeeded'') = Inr ()" for i
    by (simp add: ValidateNodeSnapshot_iff fresh_node_def zero_node_def validNodePhase_def validConclusion_def)
  moreover have "ValidateNodeSnapshot (fresh_node ''ship'' ''approval'' ''pending'' []) = Inr ()" by code_simp
  moreover have "safeID ''plan''" "safeID ''docs''" "safeID ''lint''" "safeID ''test''" "safeID ''ship''" by code_simp+
  moreover have "ns_id (node_file 1 (am_after answer_mutation)) = ''docs''" "ns_id (fresh_node i t p c) = i" for i t p c
    by (simp_all add: answer_mutation_def asking_node_def fresh_node_def)
  ultimately show "list_all (\<lambda>i. safeID i \<and> (case map_of (rf_nodes answer_files) i of None \<Rightarrow> False
      | Some node \<Rightarrow> ValidateNodeSnapshot node = Inr ())) (ws_order (disk_run answer_files))"
    unfolding order by (simp add: answer_files_def files_of_def)
qed (simp_all add: answer_files_def files_of_def)

lemma answer_replay_conflicts_witness:
  "Resume (\<lambda>_. []) no_catalogs (Some 1) (Some answer_docs) (answer_files\<lparr>rf_writes := 1000\<rparr>)
     = (Inl (IntentConflict ''action-2'' ''docs''), answer_files\<lparr>rf_writes := 1000\<rparr>)"
proof -
  let ?f = "answer_files\<lparr>rf_writes := 1000\<rparr>"
  have l: "loadable ?f" unfolding states_ignore_budget by (rule answer_files_loadable)
  have "ws_receipts (disk_run ?f) = []" unfolding disk_run_writes answer_files_run by code_simp
  then have new: "map_of (ws_receipts (disk_run ?f)) (ra_action_id answer_docs) = None" by simp
  have enc: "validateAndEncodeAnswers 1 [sample_question] (ra_answers answer_docs)
      = Inr (ns_pending_answer (am_after answer_mutation))"
    using answer_text by (simp add: answer_mutation_def)
  have "safeID ''docs''" by code_simp
  then have m: "ns_phase (am_before answer_mutation) = NodePhaseWaiting" "ns_phase (am_after answer_mutation) = NodePhaseReady"
    "safeID (ns_id (am_after answer_mutation))"
    by (simp_all add: answer_mutation_def asking_node_def fresh_node_def)
  have files: "rf_intents ?f = [(ra_action_id answer_docs, intent_file answer_plan)]"
    by (simp add: answer_files_def answer_docs_def)
  have node: "map_of (rf_nodes ?f) (ns_id (am_after answer_mutation)) = Some (node_file 1 (am_after answer_mutation))"
    by (simp add: answer_files_def files_of_def answer_mutation_def asking_node_def fresh_node_def)
  have plan: "ai_mutations answer_plan = answer_mutation # []" "ai_action answer_plan = answer_docs"
    "ra_answers answer_docs \<noteq> Some []" "ai_action_id answer_plan = ra_action_id answer_docs"
    "ai_request_hash answer_plan = ra_request_hash answer_docs" "ai_type answer_plan = ra_type answer_docs"
    "ai_node_id answer_plan = ra_node_id answer_docs" "ai_version answer_plan = actionIntentVersion"
    "ai_phase answer_plan = actionIntentApplying" "ai_applied answer_plan = 0" "ra_action_id answer_docs \<noteq> []"
    by (simp_all add: answer_plan_def answer_docs_def)
  from answer_replay_conflicts [OF l new enc plan m files node, of "\<lambda>_. []" no_catalogs "Some 1" answer_plan]
  have "Resume (\<lambda>_. []) no_catalogs (Some 1) (Some answer_docs) ?f
      = (Inl (IntentConflict (ra_action_id answer_docs) (ns_id (am_after answer_mutation))), ?f)" by (rule conjunct1)
  moreover have "ns_id (am_after answer_mutation) = ''docs''"
    by (simp add: answer_mutation_def asking_node_def fresh_node_def)
  ultimately show ?thesis by (simp add: answer_docs_def)
qed

subsection \<open>Receipts\<close>

text \<open>
  Recording a receipt keeps at most 256 receipts: the new one is always among them,
  each action has one, the others are untouched, and a receipt is dropped only when the
  map is full and no kept receipt is older.
\<close>

theorem receipts_bounded_newest_kept:
  fixes hash :: string
  assumes "ValidateWorkflowSnapshot run = Inr ()" "wf_map (ws_receipts run)" "i \<noteq> []"
  defines "receipts \<equiv> ws_receipts (recordActionReceipt run i hash)"
  shows "length receipts \<le> 256 \<and> wf_map receipts
    \<and> map_of receipts i = Some \<lparr>rp_action_id = i, rp_request_hash = hash, rp_state_version = ws_state_version run + 1,
        rp_phase = ws_phase run, rp_conclusion = ws_conclusion run\<rparr>
    \<and> (\<forall>e \<in> set receipts. fst e = i \<or> e \<in> set (ws_receipts run))
    \<and> (\<forall>e \<in> set (ws_receipts run) - set receipts. fst e = i \<or> length receipts = 256
         \<and> (\<forall>e' \<in> set receipts. rp_state_version (snd e) \<le> rp_state_version (snd e')))"
proof -
  define r where "r = \<lparr>rp_action_id = i, rp_request_hash = hash, rp_state_version = ws_state_version run + 1,
    rp_phase = ws_phase run, rp_conclusion = ws_conclusion run\<rparr>"
  let ?u = "AList.update i r (ws_receipts run)"
  have receipts: "receipts = evict_receipts ?u" using assms(3) by (simp add: receipts_def recordActionReceipt_def r_def)
  have version: "rp_state_version r = ws_state_version run + 1" by (simp add: r_def)
  note u = update_receipts [OF assms(1-3) version refl]
  note spec = evict_receipts_spec [OF u(1,4)]
  have kept: "e \<in> set ?u" if "e \<in> set (ws_receipts run)" "fst e \<noteq> i" for e
  proof -
    have "map_of (ws_receipts run) (fst e) = Some (snd e)" using assms(2) that(1) by (simp add: wf_map_def)
    then have "map_of ?u (fst e) = Some (snd e)" using that(2) by (simp add: AList.update_conv')
    from map_of_SomeD [OF this] show ?thesis by simp
  qed
  have old: "\<forall>e \<in> set receipts. fst e = i \<or> e \<in> set (ws_receipts run)"
  proof
    fix e
    assume "e \<in> set receipts"
    then have "e \<in> set ?u" using evict_receipts_subset [of ?u] by (auto simp: receipts)
    with u(5) have "e = (i, r) \<or> e \<in> set (ws_receipts run)" by blast
    then show "fst e = i \<or> e \<in> set (ws_receipts run)" by auto
  qed
  have dropped: "fst e = i \<or> length receipts = 256 \<and> (\<forall>e' \<in> set receipts. rp_state_version (snd e) \<le> rp_state_version (snd e'))"
    if e: "e \<in> set (ws_receipts run) - set receipts" for e
  proof (cases "fst e = i")
    case False
    with e have u_e: "e \<in> set ?u - set (evict_receipts ?u)" using kept receipts by auto
    then have "\<not> length ?u \<le> maxActionReceipts" using evict_receipts_short by auto
    then have "length receipts = 256" using spec by (simp add: receipts min_def)
    then show ?thesis using spec u_e by (auto simp: receipts)
  qed simp
  show ?thesis
    using u(2,3) old dropped evict_receipts_length [of ?u] by (auto simp: receipts r_def)
qed

lemma receipts_bounded_newest_kept_witness:
  "length (ws_receipts (recordActionReceipt sample_run ''action-1'' ''hash-1'')) \<le> 256
    \<and> map_of (ws_receipts (recordActionReceipt sample_run ''action-1'' ''hash-1'')) ''action-1'' \<noteq> None"
  using receipts_bounded_newest_kept [OF sample_run_valid, of "''action-1''" "''hash-1''"]
  by (simp add: sample_run_def wf_map_def)

end
