(* ===== verification/Json_Decode.thy ===== *)
theory Json_Decode
  imports Json_Valid "HOL-Library.AList"
begin

section \<open>Decoding JSON into values and encoding it canonically\<close>

text \<open>
  \<^verbatim>\<open>json.Decoder\<close> with \<^verbatim>\<open>UseNumber\<close> into an \<^verbatim>\<open>any\<close>, and the encoding of the value
  with its map keys in byte order. A text that the scanner accepts is read by descent; the
  fuel is the length of the text, and every call consumes a byte. Strings are unquoted as
  \<^verbatim>\<open>unquote\<close> does: escapes become runes, surrogate pairs one rune, a lone surrogate or an
  invalid byte the replacement character.
\<close>

datatype jval = JNull | JBool bool | JNum string | JStr string | JArr "jval list" | JObj "(string \<times> jval) list"

subsection \<open>Strings\<close>

definition utf8_encode :: "nat \<Rightarrow> string" where
  "utf8_encode r =
     (let r = (if 1114111 < r \<or> 55296 \<le> r \<and> r \<le> 57343 then rune_error else r)
      in if r < 128 then [chr r]
         else if r < 2048 then [chr (192 + r div 64), chr (128 + r mod 64)]
         else if r < 65536 then [chr (224 + r div 4096), chr (128 + r div 64 mod 64), chr (128 + r mod 64)]
         else [chr (240 + r div 262144), chr (128 + r div 4096 mod 64), chr (128 + r div 64 mod 64), chr (128 + r mod 64)])"

definition hex_value :: "char \<Rightarrow> nat" where
  "hex_value c =
     (let b = byte c in if b < 58 then b - 48 else if b < 97 then b - 55 else b - 87)"

definition hex4 :: "string \<Rightarrow> nat" where
  "hex4 s = foldl (\<lambda>n c. 16 * n + hex_value c) 0 (take 4 s)"

definition escaped :: "char \<Rightarrow> char" where
  "escaped c =
     (if c = CHR ''b'' then chr 8 else if c = CHR ''f'' then chr 12 else if c = CHR ''n'' then chr 10
      else if c = CHR ''r'' then chr 13 else if c = CHR ''t'' then chr 9 else c)"

text \<open>The string up to the closing quote, and the rest of the text.\<close>

fun unquote :: "nat \<Rightarrow> string \<Rightarrow> string \<times> string" where
  "unquote 0 s = ([], s)"
| "unquote (Suc n) [] = ([], [])"
| "unquote (Suc n) (c # cs) =
     (if c = CHR 0x22 then ([], cs)
      else if c = CHR 0x5C then
        (case cs of
           [] \<Rightarrow> ([], [])
         | e # es \<Rightarrow>
             if e \<noteq> CHR ''u'' then (let (s, rest) = unquote n es in (escaped e # s, rest))
             else let r = hex4 es; es' = drop 4 es;
                      low = (if take 2 es' = [CHR 0x5C, CHR ''u''] then hex4 (drop 2 es') else 0)
               in if 55296 \<le> r \<and> r \<le> 56319 \<and> 56320 \<le> low \<and> low \<le> 57343
                  then (let (s, rest) = unquote n (drop 6 es')
                    in (utf8_encode (65536 + (r - 55296) * 1024 + (low - 56320)) @ s, rest))
                  else (let (s, rest) = unquote n es' in (utf8_encode r @ s, rest)))
      else let (r, k) = decode_rune (map byte (c # cs)); (s, rest) = unquote n (drop k (c # cs))
        in ((if r = rune_error \<and> k = 1 then utf8_encode rune_error else take k (c # cs)) @ s, rest))"

subsection \<open>Values\<close>

definition skip_spaces :: "string \<Rightarrow> string" where
  "skip_spaces s = dropWhile json_space s"

definition number_char :: "char \<Rightarrow> bool" where
  "number_char c \<longleftrightarrow> is_digit c \<or> c \<in> set ''+-.eE''"

fun read_value :: "nat \<Rightarrow> string \<Rightarrow> jval \<times> string"
and read_items :: "nat \<Rightarrow> string \<Rightarrow> jval list \<times> string"
and read_members :: "nat \<Rightarrow> string \<Rightarrow> (string \<times> jval) list \<times> string" where
  "read_value 0 s = (JNull, s)"
| "read_value (Suc n) s =
     (case skip_spaces s of
        [] \<Rightarrow> (JNull, [])
      | c # cs \<Rightarrow>
          if c = CHR 0x7B then (let (ms, rest) = read_members n cs in (JObj ms, rest))
          else if c = CHR ''['' then (let (xs, rest) = read_items n cs in (JArr xs, rest))
          else if c = CHR 0x22 then (let (x, rest) = unquote (length cs) cs in (JStr x, rest))
          else if c = CHR ''t'' then (JBool True, drop 3 cs)
          else if c = CHR ''f'' then (JBool False, drop 4 cs)
          else if c = CHR ''n'' then (JNull, drop 3 cs)
          else (JNum (takeWhile number_char (c # cs)), dropWhile number_char (c # cs)))"
| "read_items 0 s = ([], s)"
| "read_items (Suc n) s =
     (case skip_spaces s of
        [] \<Rightarrow> ([], [])
      | c # cs \<Rightarrow>
          if c = CHR '']'' then ([], cs)
          else let (x, rest) = read_value n (if c = CHR '','' then cs else c # cs); (xs, rest) = read_items n rest
            in (x # xs, rest))"
| "read_members 0 s = ([], s)"
| "read_members (Suc n) s =
     (case skip_spaces s of
        [] \<Rightarrow> ([], [])
      | c # cs \<Rightarrow>
          if c = CHR 0x7D then ([], cs)
          else let open_key = (if c = CHR '','' then skip_spaces cs else c # cs);
                   (k, rest) = unquote (length open_key) (drop 1 open_key);
                   (x, rest) = read_value n (drop 1 (skip_spaces rest)); (ms, rest) = read_members n rest
            in ((k, x) # ms, rest))"

definition decode_json :: "string \<Rightarrow> jval option" where
  "decode_json s = (if json_valid s then Some (fst (read_value (Suc (length s)) s)) else None)"

text \<open>A member that occurs again replaces the earlier one; keys are encoded in byte order.\<close>

definition last_members :: "(string \<times> 'a) list \<Rightarrow> (string \<times> 'a) list" where
  "last_members ms = fold (\<lambda>(k, v) m. AList.update k v m) ms []"

fun encode_json :: "(string \<Rightarrow> string) \<Rightarrow> jval \<Rightarrow> string" where
  "encode_json enc JNull = ''null''"
| "encode_json enc (JBool b) = (if b then ''true'' else ''false'')"
| "encode_json enc (JNum s) = s"
| "encode_json enc (JStr s) = enc s"
| "encode_json enc (JArr xs) = json_array (map (encode_json enc) xs)"
| "encode_json enc (JObj ms) =
     ''{'' @ join_with '','' (map (\<lambda>(k, x). enc k @ '':'' @ x)
       (sort_by (\<lambda>a b. fst a < fst b) (last_members (map (\<lambda>(k, x). (k, encode_json enc x)) ms)))) @ ''}''"

end
