(* ===== verification/Context_Sources.thy ===== *)
theory Context_Sources
  imports Context_Compiler Workflow_Validate Json_Decode
begin

section \<open>Memory records and context sources (internal/contextcompiler/source\_registry\_v2.go)\<close>

text \<open>
  The resolution of the sources a caller selects for one Attempt: project instruction
  files, the workflow policy, the node's task, the user's answer, the results of
  dependencies and Memory records, each turned into a component with the hash of the bytes
  it was resolved from, in the order of their kinds and IDs. The file system is the record
  \<open>ProjectAccess\<close>, \<^verbatim>\<open>sha256\<close> the function \<open>sha\<close>, and \<^verbatim>\<open>time.Parse\<close> of an RFC 3339 text the
  function \<open>parse\<close> to an instant.
\<close>

subsection \<open>Memory records (contract\_v2.go)\<close>

abbreviation "MemoryRecordV1Version \<equiv> ''fishyume.memory/v1''"
abbreviation "MaxMemoryContentBytes \<equiv> (16384 :: nat)"
abbreviation "MaxMemorySupersedes \<equiv> (16 :: nat)"

abbreviation "MemoryActive \<equiv> ''active''"
abbreviation "MemorySuperseded \<equiv> ''superseded''"
abbreviation "MemoryDeleted \<equiv> ''deleted''"

record MemoryProvenanceV1 =
  mp_writer :: string
  mp_source :: string
  mp_source_version :: string
  mp_source_hash :: string
  mp_reason :: string

record MemoryRetentionV1 =
  mt_expires_at :: string
  mt_max_uses :: int

record MemoryRecordV1 =
  mr_schema_version :: string
  mr_id :: string
  mr_project :: string
  mr_type :: string
  mr_scope :: string
  mr_content :: string
  mr_content_hash :: string
  mr_sensitivity :: string
  mr_provenance :: MemoryProvenanceV1
  mr_created_at :: string
  mr_updated_at :: string
  mr_supersedes :: "string list"
  mr_state :: string
  mr_state_reason :: string
  mr_use_count :: int
  mr_retention :: MemoryRetentionV1

definition validMemoryType :: "string \<Rightarrow> bool" where
  "validMemoryType value \<longleftrightarrow> value \<in> set [''decision'', ''constraint'', ''fact'', ''procedure'', ''preference'']"

definition validMemoryState :: "string \<Rightarrow> bool" where
  "validMemoryState value \<longleftrightarrow> value \<in> set [MemoryActive, MemorySuperseded, MemoryDeleted]"

definition validMemoryWriter :: "string \<Rightarrow> bool" where
  "validMemoryWriter value \<longleftrightarrow> value \<in> set [''user'', ''host_agent'', ''migration'']"

abbreviation untrimmed :: "string \<Rightarrow> bool" where
  "untrimmed s \<equiv> blank s \<or> s \<noteq> trim_space s"

fun check_supersedes :: "string \<Rightarrow> string list \<Rightarrow> string list \<Rightarrow> ContextError + unit" where
  "check_supersedes recordID seen [] = Inr ()"
| "check_supersedes recordID seen (superseded # rest) =
     (if \<not> contractIDPattern superseded \<or> superseded = recordID
      then Inl (ContextError CodeMemoryConflict ''Memory supersedes contains an invalid identity'' recordID)
      else if superseded \<in> set seen
      then Inl (ContextError CodeMemoryConflict ''Memory supersedes contains a duplicate identity'' recordID)
      else check_supersedes recordID (superseded # seen) rest)"

definition ValidateMemoryRecordV1 ::
  "(string \<Rightarrow> string) \<Rightarrow> (string \<Rightarrow> int option) \<Rightarrow> MemoryRecordV1 \<Rightarrow> ContextError + unit" where
  "ValidateMemoryRecordV1 sha parse m =
     (let bad = (\<lambda>message. Inl (ContextError CodeMemoryInvalidRecord message (mr_id m)));
          p = mr_provenance m; uses = mt_max_uses (mr_retention m); expires = mt_expires_at (mr_retention m) in
      if mr_schema_version m \<noteq> MemoryRecordV1Version
      then Inl (ContextError CodeContextVersionUnsupported ''unsupported Memory record version'' (mr_id m))
      else if \<not> contractIDPattern (mr_id m) \<or> untrimmed (mr_project m) \<or> length (mr_project m) > 4096
           \<or> untrimmed (mr_scope m) \<or> length (mr_scope m) > 256
      then bad ''Memory identity, project, or scope is invalid''
      else if \<not> validMemoryType (mr_type m) \<or> \<not> validMemoryState (mr_state m) \<or> \<not> validMemoryWriter (mp_writer p)
      then bad ''Memory type, state, or writer is invalid''
      else if mr_sensitivity m \<noteq> SensitivityPublic \<and> mr_sensitivity m \<noteq> SensitivityProject
      then bad ''sensitive content cannot be stored as long-term Memory''
      else if \<not> validateProvenance (mp_source p) (mp_source_version p) (mp_source_hash p)
           \<or> untrimmed (mp_reason p) \<or> length (mp_reason p) > 1024
      then bad ''Memory provenance is invalid''
      else case parse (mr_created_at m) of
        None \<Rightarrow> bad ''Memory creation time must be RFC3339''
      | Some created \<Rightarrow>
          (if (case parse (mr_updated_at m) of None \<Rightarrow> True | Some updated \<Rightarrow> updated < created)
           then bad ''Memory update time must be RFC3339 and not precede creation''
           else if mr_state m \<noteq> MemoryActive \<and> blank (mr_state_reason m)
           then bad ''non-active Memory requires a state reason''
           else if mr_state_reason m \<noteq> trim_space (mr_state_reason m) \<or> length (mr_state_reason m) > 1024
           then bad ''Memory state reason exceeds its bound''
           else if mr_state m = MemoryDeleted \<and> (mr_content m \<noteq> '''' \<or> \<not> validHash (mr_content_hash m))
           then bad ''deleted Memory must retain only a valid content hash''
           else if mr_state m \<noteq> MemoryDeleted \<and> (blank (mr_content m) \<or> length (mr_content m) > MaxMemoryContentBytes
             \<or> mr_content_hash m \<noteq> sha (mr_content m))
           then Inl (ContextError CodeContextHashMismatch
             ''Memory content is empty, oversized, or does not match its hash'' (mr_id m))
           else if length (mr_supersedes m) > MaxMemorySupersedes \<or> \<not> sorted (mr_supersedes m)
           then bad ''Memory supersedes must be bounded and sorted''
           else case check_supersedes (mr_id m) [] (mr_supersedes m) of Inl e \<Rightarrow> Inl e | Inr _ \<Rightarrow>
             (if uses < 0 \<or> uses > 10000 \<or> mr_use_count m < 0 \<or> uses > 0 \<and> mr_use_count m > uses
              then bad ''Memory maxUses is outside its bound''
              else if expires \<noteq> '''' \<and> (case parse expires of None \<Rightarrow> True | Some at \<Rightarrow> at \<le> created)
              then bad ''Memory expiry must be RFC3339 and after creation''
              else Inr ())))"

subsection \<open>Declared sources\<close>

record SourceDeclarationV2 =
  dl_id :: string
  dl_source_version :: string
  dl_reason :: string
  dl_tier :: string
  dl_sensitivity :: string
  dl_unavailable :: bool

record ProjectInstructionSourceV2 =
  pi_declaration :: SourceDeclarationV2
  pi_content :: string
  pi_relative_path :: string

record WorkflowPolicySourceV2 =
  wp_declaration :: SourceDeclarationV2
  wp_content :: string

record NodeTaskSourceV2 =
  nt_declaration :: SourceDeclarationV2
  nt_node_id :: string
  nt_content :: string

record DependencyResultSourceV2 =
  dr_declaration :: SourceDeclarationV2
  dr_upstream_node :: string
  dr_result :: "Result option"

record UserAnswerSourceV2 =
  us_declaration :: SourceDeclarationV2
  us_answer :: string

record SelectedMemorySourceV2 =
  sel_record :: MemoryRecordV1
  sel_reason :: string

record ContextSourceResolutionInputV2 =
  si_project_root :: string
  si_as_of :: "int option"
  si_allowed_upstream_nodes :: "string list"
  si_project_instructions :: "ProjectInstructionSourceV2 list"
  si_workflow_policies :: "WorkflowPolicySourceV2 list"
  si_node_tasks :: "NodeTaskSourceV2 list"
  si_dependency_results :: "DependencyResultSourceV2 list"
  si_user_answers :: "UserAnswerSourceV2 list"
  si_selected_memory :: "SelectedMemorySourceV2 list"

text \<open>
  The file system: the canonical form of a path (absolute, symbolic links resolved), whether
  a path is a directory, whether a name exists below a project, and a file below a canonical
  root: its canonical path if it can be resolved, with whether it is regular and its
  bytes if it can be opened and read.
\<close>

record ProjectAccess =
  pa_canonical :: "string \<Rightarrow> string option"
  pa_is_dir :: "string \<Rightarrow> bool"
  pa_exists :: "string \<Rightarrow> string \<Rightarrow> bool"
  pa_open :: "string \<Rightarrow> string \<Rightarrow> (string \<times> (bool \<times> string) option) option"

definition contextSourceNodeIDPatternV2 :: "string \<Rightarrow> bool" where
  "contextSourceNodeIDPatternV2 s =
     (case s of
        [] \<Rightarrow> False
      | c # cs \<Rightarrow> is_alpha c \<and> length cs \<le> 63
          \<and> list_all (\<lambda>d. is_alpha d \<or> is_digit d \<or> d = CHR ''_'' \<or> d = CHR ''-'') cs)"

definition sourceDeclarationCount :: "ContextSourceResolutionInputV2 \<Rightarrow> nat" where
  "sourceDeclarationCount input =
     length (si_project_instructions input) + length (si_workflow_policies input) + length (si_node_tasks input)
     + length (si_dependency_results input) + length (si_user_answers input) + length (si_selected_memory input)"

text \<open>The identities: every declared ID has the form of a component ID, and none occurs twice.\<close>

definition declared_identities :: "ContextSourceResolutionInputV2 \<Rightarrow> (string \<times> string) list" where
  "declared_identities input =
     map (\<lambda>s. (dl_id (pi_declaration s), KindProjectInstructions)) (si_project_instructions input)
     @ map (\<lambda>s. (dl_id (wp_declaration s), KindWorkflowPolicy)) (si_workflow_policies input)
     @ map (\<lambda>s. (dl_id (nt_declaration s), KindNodeTask)) (si_node_tasks input)
     @ map (\<lambda>s. (dl_id (dr_declaration s), KindDependencyResult)) (si_dependency_results input)
     @ map (\<lambda>s. (dl_id (us_declaration s), KindUserAnswer)) (si_user_answers input)"

definition identity_less :: "string \<times> string \<Rightarrow> string \<times> string \<Rightarrow> bool" where
  "identity_less a b \<longleftrightarrow> fst a < fst b \<or> fst a = fst b \<and> componentRank (snd a) < componentRank (snd b)"

fun first_repeated :: "string list \<Rightarrow> string option" where
  "first_repeated (a # b # rest) = (if a = b then Some b else first_repeated (b # rest))"
| "first_repeated xs = None"

definition validateSourceIdentitiesV2 :: "ContextSourceResolutionInputV2 \<Rightarrow> ContextError + unit" where
  "validateSourceIdentitiesV2 input =
     (let bad = (\<lambda>message subject. Inl (ContextError CodeContextInvalidComponent message subject));
          memory = map (\<lambda>s. (mr_id (sel_record s), KindMemory)) (si_selected_memory input) in
      case each_ok (\<lambda>(i, kind). if contractIDPattern i then Inr () else bad ''Context source ID is invalid'' i)
        (declared_identities input) of Inl e \<Rightarrow> Inl e | Inr _ \<Rightarrow>
      (case each_ok (\<lambda>(i, kind). if contractIDPattern i then Inr ()
          else Inl (ContextError CodeMemoryInvalidRecord ''Memory identity is invalid'' i)) memory of Inl e \<Rightarrow> Inl e | Inr _ \<Rightarrow>
      (case first_repeated (map fst (sort_by identity_less (declared_identities input @ memory))) of
         Some i \<Rightarrow> bad ''Context source ID is duplicated or conflicts across source kinds'' i
       | None \<Rightarrow>
          (case first_repeated (sort_by (<) (filter (\<lambda>n. \<not> blank n) (map dr_upstream_node (si_dependency_results input)))) of
             Some n \<Rightarrow> bad ''upstream dependency Result is declared more than once'' n
           | None \<Rightarrow> Inr ()))))"

definition validateDeclaredAvailability :: "SourceDeclarationV2 \<Rightarrow> ContextError + unit" where
  "validateDeclaredAvailability d =
     (if dl_unavailable d
      then Inl (ContextError CodeContextSourceUnavailable ''declared Context source is unavailable'' (dl_id d))
      else if \<not> valid_utf8 (dl_source_version d) \<or> \<not> valid_utf8 (dl_reason d)
      then Inl (ContextError CodeContextInvalidComponent ''Context source metadata contains invalid UTF-8'' (dl_id d))
      else Inr ())"

fun check_allowlist :: "string \<Rightarrow> string list \<Rightarrow> string list \<Rightarrow> ContextError + string list" where
  "check_allowlist currentNodeID allowed [] = Inr allowed"
| "check_allowlist currentNodeID allowed (nodeID # rest) =
     (let bad = (\<lambda>message. Inl (ContextError CodeContextInvalidComponent message nodeID)) in
      if \<not> contextSourceNodeIDPatternV2 nodeID
      then bad ''explicit upstream allowlist contains an invalid Workflow Node ID''
      else if nodeID = currentNodeID then bad ''explicit upstream allowlist cannot contain the current Node''
      else if nodeID \<in> set allowed then bad ''explicit upstream allowlist contains a duplicate Workflow Node ID''
      else check_allowlist currentNodeID (nodeID # allowed) rest)"

definition validateAllowedUpstreamNodesV2 :: "string list \<Rightarrow> string \<Rightarrow> ContextError + string list" where
  "validateAllowedUpstreamNodesV2 source currentNodeID =
     (if length source > MaxContextComponents
      then Inl (ContextError CodeContextInvalidComponent ''explicit upstream allowlist count exceeds its bound'' '''')
      else check_allowlist currentNodeID [] (sort_by (<) source))"

definition missingSourceError :: "SourceDeclarationV2 \<Rightarrow> string \<Rightarrow> ContextError" where
  "missingSourceError d message =
     ContextError (if dl_tier d = TierRequired then CodeContextRequiredMissing else CodeContextInvalidComponent)
       message (dl_id d)"

definition resolvedComponentV2 ::
  "(string \<Rightarrow> string) \<Rightarrow> SourceDeclarationV2 \<Rightarrow> string \<Rightarrow> string \<Rightarrow> string \<Rightarrow> ContextError + ContextComponentV2" where
  "resolvedComponentV2 sha d kind sourceRef content =
     (if \<not> valid_utf8 content
      then Inl (ContextError CodeContextInvalidComponent ''resolved Context source content is not valid UTF-8'' (dl_id d))
      else if blank content then Inl (missingSourceError d ''resolved Context source content is missing'')
      else
        let c = \<lparr>cc_id = dl_id d, cc_kind = kind, cc_tier = dl_tier d, cc_sensitivity = dl_sensitivity d,
              cc_provenance = \<lparr>pv_source = sourceRef, pv_source_version = dl_source_version d,
                pv_source_hash = sha content, pv_reason = dl_reason d\<rparr>,
              cc_content = content, cc_content_hash = sha content, cc_original_bytes = int (length content),
              cc_included_bytes = int (length content), cc_truncation = TruncationNone\<rparr>
        in (case validateComponentV2 sha c of Inl e \<Rightarrow> Inl e | Inr _ \<Rightarrow> Inr c))"

subsection \<open>Contents\<close>

definition resolutionProjectRoot :: "ProjectAccess \<Rightarrow> ContextSourceResolutionInputV2 \<Rightarrow> ContextError + string" where
  "resolutionProjectRoot access input =
     (let unavailable = (\<lambda>message. Inl (ContextError CodeContextSourceUnavailable message '''')) in
      if si_selected_memory input = [] \<and> list_all (\<lambda>s. pi_relative_path s = '''') (si_project_instructions input)
      then Inr ''''
      else if blank (si_project_root input) then unavailable ''canonical project root is required''
      else case pa_canonical access (si_project_root input) of
        None \<Rightarrow> unavailable ''canonical project root cannot be resolved''
      | Some canonical \<Rightarrow>
          if \<not> pa_is_dir access canonical then unavailable ''canonical project root is not a directory''
          else Inr (path_clean canonical))"

text \<open>
  \<^verbatim>\<open>filepath.Rel\<close> of two canonical paths: the path below the root, or none when it
  would start with \<^verbatim>\<open>..\<close>, which is what \<^verbatim>\<open>pathWithinRootV2\<close> refuses.
\<close>

definition pathWithinRootV2 :: "string \<Rightarrow> string \<Rightarrow> string option" where
  "pathWithinRootV2 root candidate =
     (if candidate = root then Some ''.''
      else let below = (if root = ''/'' then root else root @ ''/'') in
        if has_prefix candidate below then Some (drop (length below) candidate) else None)"

definition resolveProjectInstructionsV2 ::
  "ProjectAccess \<Rightarrow> string \<Rightarrow> ProjectInstructionSourceV2 \<Rightarrow> ContextError + (string \<times> string)" where
  "resolveProjectInstructionsV2 access root source =
     (let d = pi_declaration source; relative = pi_relative_path source;
          unavailable = (\<lambda>message. Inl (ContextError CodeContextSourceUnavailable message (dl_id d)));
          bad = (\<lambda>message. Inl (ContextError CodeContextInvalidComponent message (dl_id d))) in
      if pi_content source = '''' \<and> relative = ''''
      then Inl (missingSourceError d ''project instruction content or file is missing'')
      else if pi_content source \<noteq> '''' \<and> relative \<noteq> ''''
      then bad ''project instruction must select exactly one inline or file source''
      else if pi_content source \<noteq> '''' then Inr (pi_content source, ''project:instructions/'' @ dl_id d)
      else if \<not> valid_utf8 relative \<or> path_is_abs relative \<or> path_clean relative = ''.''
           \<or> length relative > MaxProvenanceRefBytes - length ''project:file/''
      then bad ''project instruction file must be a relative file path''
      else case pa_open access root relative of
        None \<Rightarrow> unavailable ''project instruction file is unavailable''
      | Some (candidate, opened) \<Rightarrow>
          (case pathWithinRootV2 root (path_clean candidate) of
             None \<Rightarrow> unavailable ''project instruction file resolves outside the canonical project root''
           | Some below \<Rightarrow>
               (case opened of
                  None \<Rightarrow> unavailable ''project instruction file is unavailable''
                | Some (regular, data) \<Rightarrow>
                    if \<not> regular \<or> length data > MaxComponentContentBytes
                    then unavailable ''project instruction file is not a bounded regular file''
                    else Inr (data, ''project:file/'' @ below))))"

definition canonicalAnswerV2 :: "string \<Rightarrow> string \<Rightarrow> ContextError + string" where
  "canonicalAnswerV2 answer subject =
     (let bad = (\<lambda>message. Inl (ContextError CodeContextInvalidComponent message subject)) in
      if answer = '''' then Inl (ContextError CodeContextRequiredMissing ''user answer content is missing'' subject)
      else if \<not> valid_utf8 answer then bad ''user answer is not valid UTF-8''
      else if length answer > MaxComponentContentBytes then bad ''user answer exceeds its source bound''
      else case decode_json answer of
        None \<Rightarrow> bad ''user answer is not valid JSON''
      | Some v \<Rightarrow>
          if length (encode_json json_text v) > MaxComponentContentBytes
          then bad ''user answer cannot be canonically encoded within its bound''
          else Inr (encode_json json_text v))"

definition memoryExpiredV2 :: "(string \<Rightarrow> int option) \<Rightarrow> MemoryRecordV1 \<Rightarrow> int \<Rightarrow> bool" where
  "memoryExpiredV2 parse m asOf \<longleftrightarrow>
     mt_max_uses (mr_retention m) > 0 \<and> mr_use_count m \<ge> mt_max_uses (mr_retention m)
     \<or> mt_expires_at (mr_retention m) \<noteq> ''''
       \<and> (case parse (mt_expires_at (mr_retention m)) of None \<Rightarrow> True | Some expires \<Rightarrow> expires \<le> asOf)"

definition memoryOmissionV2 :: "MemoryRecordV1 \<Rightarrow> string \<Rightarrow> ContextOmissionV2" where
  "memoryOmissionV2 m reason =
     \<lparr>om_component_id = mr_id m, om_kind = KindMemory, om_tier = TierOptional, om_reason = reason,
      om_source_hash = mr_content_hash m, om_original_bytes = int (length (mr_content m))\<rparr>"

definition validWorkflowResultUTF8V2 :: "Result \<Rightarrow> bool" where
  "validWorkflowResultUTF8V2 r \<longleftrightarrow>
     list_all valid_utf8 ([res_summary r, res_decision r, res_reason r] @ items (res_artifacts r) @ items (res_warnings r)
       @ items (res_checks r) @ concat (map (\<lambda>q. iq_id q # iq_prompt q # iq_choices q) (res_questions r)))"

definition validSelectedMemoryUTF8V2 :: "SelectedMemorySourceV2 \<Rightarrow> bool" where
  "validSelectedMemoryUTF8V2 s \<longleftrightarrow>
     (let m = sel_record s; p = mr_provenance m in
      list_all valid_utf8 ([sel_reason s, mr_schema_version m, mr_id m, mr_project m, mr_scope m, mr_content m,
        mr_content_hash m, mr_type m, mr_sensitivity m, mp_writer p, mp_source p, mp_source_version p,
        mp_source_hash p, mp_reason p, mr_created_at m, mr_updated_at m, mr_state m, mr_state_reason m,
        mt_expires_at (mr_retention m)] @ mr_supersedes m))"

definition sameCanonicalProjectV2 :: "ProjectAccess \<Rightarrow> string \<Rightarrow> string \<Rightarrow> bool" where
  "sameCanonicalProjectV2 access root recordProject =
     (case pa_canonical access recordProject of
        None \<Rightarrow> False
      | Some canonical \<Rightarrow> path_clean root = path_clean canonical)"

text \<open>The canonical encoding of a result (no HTML escaping), with the fields of \<^verbatim>\<open>json_result\<close>.\<close>

definition canonical_strings :: "string \<Rightarrow> string list \<Rightarrow> (string \<times> string) list" where
  "canonical_strings k xs = (if xs = [] then [] else [(k, json_array (map json_text xs))])"

definition canonical_text :: "string \<Rightarrow> string \<Rightarrow> (string \<times> string) list" where
  "canonical_text k s = (if s = '''' then [] else [(k, json_text s)])"

definition canonical_result :: "Result \<Rightarrow> string" where
  "canonical_result r = json_object
     (canonical_text ''summary'' (res_summary r)
      @ canonical_strings ''artifacts'' (items (res_artifacts r))
      @ canonical_strings ''warnings'' (items (res_warnings r))
      @ canonical_strings ''checks'' (items (res_checks r))
      @ (if res_questions r = [] then []
         else [(''questions'', json_array (map (\<lambda>q. json_object
           ([(''id'', json_text (iq_id q)), (''prompt'', json_text (iq_prompt q))]
            @ canonical_strings ''choices'' (iq_choices q) @ [(''required'', json_bool (iq_required q))])) (res_questions r)))])
      @ [(''usage'', json_usage (res_usage r))]
      @ canonical_text ''decision'' (res_decision r)
      @ canonical_text ''reason'' (res_reason r))"

subsection \<open>Resolution\<close>

text \<open>One function for each kind of source, in the order of the code; a list is resolved in the order of its IDs.\<close>

fun each_result :: "('a \<Rightarrow> 'e + 'b) \<Rightarrow> 'a list \<Rightarrow> 'e + 'b list" where
  "each_result f [] = Inr []"
| "each_result f (x # xs) =
     (case f x of Inl e \<Rightarrow> Inl e | Inr y \<Rightarrow> (case each_result f xs of Inl e \<Rightarrow> Inl e | Inr ys \<Rightarrow> Inr (y # ys)))"

definition resolve_instruction ::
  "(string \<Rightarrow> string) \<Rightarrow> ProjectAccess \<Rightarrow> string \<Rightarrow> ProjectInstructionSourceV2 \<Rightarrow> ContextError + ContextComponentV2" where
  "resolve_instruction sha access root source =
     (let d = pi_declaration source in
      case validateDeclaredAvailability d of Inl e \<Rightarrow> Inl e | Inr _ \<Rightarrow>
      if dl_tier d \<noteq> TierRequired
      then Inl (ContextError CodeContextInvalidComponent ''project instructions must use the required tier'' (dl_id d))
      else case resolveProjectInstructionsV2 access root source of Inl e \<Rightarrow> Inl e | Inr (content, sourceRef) \<Rightarrow>
        resolvedComponentV2 sha d KindProjectInstructions sourceRef content)"

definition resolve_policy ::
  "(string \<Rightarrow> string) \<Rightarrow> WorkflowPolicySourceV2 \<Rightarrow> ContextError + ContextComponentV2" where
  "resolve_policy sha source =
     (let d = wp_declaration source in
      case validateDeclaredAvailability d of Inl e \<Rightarrow> Inl e | Inr _ \<Rightarrow>
      resolvedComponentV2 sha d KindWorkflowPolicy (''workflow:policy/'' @ dl_id d) (wp_content source))"

definition resolve_answer :: "(string \<Rightarrow> string) \<Rightarrow> UserAnswerSourceV2 \<Rightarrow> ContextError + ContextComponentV2" where
  "resolve_answer sha source =
     (let d = us_declaration source in
      case validateDeclaredAvailability d of Inl e \<Rightarrow> Inl e | Inr _ \<Rightarrow>
      if dl_tier d \<noteq> TierRequired
      then Inl (ContextError CodeContextInvalidComponent ''user answers must use the required tier'' (dl_id d))
      else case canonicalAnswerV2 (us_answer source) (dl_id d) of Inl e \<Rightarrow> Inl e | Inr content \<Rightarrow>
        resolvedComponentV2 sha d KindUserAnswer (''run:answer/'' @ dl_id d) content)"

definition resolve_dependency ::
  "(string \<Rightarrow> string) \<Rightarrow> string \<Rightarrow> string list \<Rightarrow> DependencyResultSourceV2 \<Rightarrow> ContextError + ContextComponentV2" where
  "resolve_dependency sha currentNodeID allowed source =
     (let d = dr_declaration source;
          bad = (\<lambda>message. Inl (ContextError CodeContextInvalidComponent message (dl_id d))) in
      case validateDeclaredAvailability d of Inl e \<Rightarrow> Inl e | Inr _ \<Rightarrow>
      if \<not> contextSourceNodeIDPatternV2 (dr_upstream_node source)
      then bad ''declared dependency Result has an invalid upstream Workflow Node ID''
      else case dr_result source of
        None \<Rightarrow> Inl (missingSourceError d ''declared dependency Result is missing'')
      | Some result \<Rightarrow>
          if dr_upstream_node source = currentNodeID
          then bad ''current Node cannot be its own dependency Result source''
          else if dr_upstream_node source \<notin> set allowed
          then bad ''dependency Result source is not in the explicit upstream allowlist''
          else if \<not> validWorkflowResultUTF8V2 result
          then bad ''declared dependency Result contains invalid UTF-8''
          else (case ValidateResult result of
              Inl _ \<Rightarrow> bad ''declared dependency Result is invalid''
            | Inr _ \<Rightarrow> resolvedComponentV2 sha d KindDependencyResult
                (''run:node/'' @ dr_upstream_node source @ ''/result'') (canonical_result result)))"

text \<open>A Memory record is a component, or an omission when it is not active or has expired.\<close>

definition resolve_memory ::
  "(string \<Rightarrow> string) \<Rightarrow> (string \<Rightarrow> int option) \<Rightarrow> ProjectAccess \<Rightarrow> string \<Rightarrow> int option \<Rightarrow> SelectedMemorySourceV2
     \<Rightarrow> ContextError + (ContextComponentV2 + ContextOmissionV2)" where
  "resolve_memory sha parse access root asOf selected =
     (let m = sel_record selected in
      if \<not> validSelectedMemoryUTF8V2 selected
      then Inl (ContextError CodeContextInvalidComponent ''selected Memory contains invalid UTF-8'' (mr_id m))
      else case ValidateMemoryRecordV1 sha parse m of Inl e \<Rightarrow> Inl e | Inr _ \<Rightarrow>
      if untrimmed (sel_reason selected) \<or> length (sel_reason selected) > 1024
      then Inl (ContextError CodeMemoryInvalidRecord ''Memory selection reason is invalid'' (mr_id m))
      else if root = '''' \<or> \<not> sameCanonicalProjectV2 access root (mr_project m)
      then Inl (ContextError CodeMemoryConflict ''selected Memory belongs to a different project'' (mr_id m))
      else if mr_state m \<noteq> MemoryActive
      then Inr (Inr (memoryOmissionV2 m (if mr_state m = MemoryDeleted then ''unavailable'' else ''superseded'')))
      else if (case asOf of None \<Rightarrow> False | Some now \<Rightarrow> memoryExpiredV2 parse m now)
      then Inr (Inr (memoryOmissionV2 m ''expired''))
      else
        let d = \<lparr>dl_id = mr_id m, dl_source_version = mr_schema_version m, dl_reason = sel_reason selected,
              dl_tier = TierOptional, dl_sensitivity = mr_sensitivity m, dl_unavailable = False\<rparr>
        in (case resolvedComponentV2 sha d KindMemory (''memory:'' @ mr_id m) (mr_content m) of Inl e \<Rightarrow> Inl e | Inr c \<Rightarrow>
            if pv_source_hash (cc_provenance c) \<noteq> mr_content_hash m
            then Inl (ContextError CodeContextHashMismatch ''selected Memory source hash does not match its record'' (mr_id m))
            else Inr (Inl c)))"

fun included :: "('a + 'b) list \<Rightarrow> 'a list" where
  "included [] = []"
| "included (x # xs) = (case x of Inl c \<Rightarrow> c # included xs | Inr _ \<Rightarrow> included xs)"

fun left_out :: "('a + 'b) list \<Rightarrow> 'b list" where
  "left_out [] = []"
| "left_out (x # xs) = (case x of Inl _ \<Rightarrow> left_out xs | Inr om \<Rightarrow> om # left_out xs)"

text \<open>The checks before any source is resolved; the value is the node task.\<close>

definition resolve_checks :: "ContextSourceResolutionInputV2 \<Rightarrow> ContextError + NodeTaskSourceV2" where
  "resolve_checks input =
     (let bad = (\<lambda>message subject. Inl (ContextError CodeContextInvalidComponent message subject)) in
      case si_node_tasks input of
        [] \<Rightarrow> Inl (ContextError CodeContextRequiredMissing ''current Node task source is missing'' '''')
      | task # more_tasks \<Rightarrow>
          if more_tasks \<noteq> [] then bad ''exactly one current Node task source is required'' ''''
          else if length (si_selected_memory input) > MaxSelectedMemoryRecords
          then Inl (ContextError CodeContextBudgetUnsatisfiable ''selected Memory record count exceeds its bound'' '''')
          else if sourceDeclarationCount input - length (si_selected_memory input) > MaxContextComponents
          then bad ''declared non-Memory Context source count exceeds its bound'' ''''
          else if si_selected_memory input \<noteq> [] \<and> si_as_of input = None
          then bad ''Memory resolution requires an explicit reference time'' ''''
          else case validateSourceIdentitiesV2 input of Inl e \<Rightarrow> Inl e | Inr _ \<Rightarrow>
          (case validateDeclaredAvailability (nt_declaration task) of Inl e \<Rightarrow> Inl e | Inr _ \<Rightarrow>
           if dl_tier (nt_declaration task) \<noteq> TierRequired
           then bad ''current Node task must use the required tier'' (dl_id (nt_declaration task))
           else if \<not> contextSourceNodeIDPatternV2 (nt_node_id task)
           then bad ''current Node task source has an invalid Workflow Node ID'' (dl_id (nt_declaration task))
           else Inr task))"

definition resolved_less :: "ContextComponentV2 \<Rightarrow> ContextComponentV2 \<Rightarrow> bool" where
  "resolved_less a b \<longleftrightarrow>
     componentRank (cc_kind a) < componentRank (cc_kind b)
     \<or> componentRank (cc_kind a) = componentRank (cc_kind b) \<and> cc_id a < cc_id b"

definition ResolveSources ::
  "(string \<Rightarrow> string) \<Rightarrow> (string \<Rightarrow> int option) \<Rightarrow> ProjectAccess \<Rightarrow> ContextSourceResolutionInputV2
     \<Rightarrow> ContextError + ContextSourceResolutionV2" where
  "ResolveSources sha parse access input =
     (case resolve_checks input of Inl e \<Rightarrow> Inl e | Inr task \<Rightarrow>
     (case validateAllowedUpstreamNodesV2 (si_allowed_upstream_nodes input) (nt_node_id task) of Inl e \<Rightarrow> Inl e | Inr allowed \<Rightarrow>
     (case resolutionProjectRoot access input of Inl e \<Rightarrow> Inl e | Inr root \<Rightarrow>
     (case each_result (resolve_instruction sha access root)
         (sort_by (\<lambda>a b. dl_id (pi_declaration a) < dl_id (pi_declaration b)) (si_project_instructions input)) of
        Inl e \<Rightarrow> Inl e | Inr instructions \<Rightarrow>
     (case each_result (resolve_policy sha)
         (sort_by (\<lambda>a b. dl_id (wp_declaration a) < dl_id (wp_declaration b)) (si_workflow_policies input)) of
        Inl e \<Rightarrow> Inl e | Inr policies \<Rightarrow>
     (case resolvedComponentV2 sha (nt_declaration task) KindNodeTask (''workflow:node/'' @ nt_node_id task) (nt_content task) of
        Inl e \<Rightarrow> Inl e | Inr node_task \<Rightarrow>
     (case each_result (resolve_answer sha)
         (sort_by (\<lambda>a b. dl_id (us_declaration a) < dl_id (us_declaration b)) (si_user_answers input)) of
        Inl e \<Rightarrow> Inl e | Inr answers \<Rightarrow>
     (case each_result (resolve_dependency sha (nt_node_id task) allowed)
         (sort_by (\<lambda>a b. dl_id (dr_declaration a) < dl_id (dr_declaration b)) (si_dependency_results input)) of
        Inl e \<Rightarrow> Inl e | Inr dependencies \<Rightarrow>
     (case each_result (resolve_memory sha parse access root (si_as_of input))
         (sort_by (\<lambda>a b. mr_id (sel_record a) < mr_id (sel_record b)) (si_selected_memory input)) of
        Inl e \<Rightarrow> Inl e | Inr memory \<Rightarrow>
      let components = sort_by resolved_less
            (instructions @ policies @ node_task # answers @ dependencies @ included memory);
          omissions = sort_by by_component_id (left_out memory)
      in if length components > MaxContextComponents \<or> length omissions > MaxContextOmissions
         then Inl (ContextError CodeContextInvalidComponent ''resolved Context source count exceeds its bound'' '''')
         else (case each_ok validateOmissionV2 omissions of Inl e \<Rightarrow> Inl e | Inr _ \<Rightarrow>
           Inr \<lparr>sr_components = components, sr_omissions = omissions\<rparr>))))))))))"

end
