(* ===== verification/Context_Adapter.thy ===== *)
theory Context_Adapter
  imports Context_Sources Agent_Contract
begin

section \<open>The envelope a driver receives (internal/contextcompiler/adapter\_v2.go)\<close>

text \<open>
  \<^verbatim>\<open>AdaptEnvelopeV2WithSkills\<close> projects a compiled context onto the wire contract of the
  agents: the task, the upstream results and the user's answer become fields, and the
  prompt holds all components and the wire form of the envelope. Raw JSON members are
  compacted and HTML-escaped by \<^verbatim>\<open>json.Marshal\<close>.
\<close>

datatype AdaptError =
    AdaptContext ContextError | AdaptWorkspace | AdaptDependency string | AdaptAgent AgentContractError

subsection \<open>The wire form\<close>

text \<open>
  \<^verbatim>\<open>json.Marshal\<close> of raw JSON: white space outside of strings is dropped, the
  HTML characters and the two line separators are escaped.
\<close>

fun raw_compact :: "bool \<Rightarrow> bool \<Rightarrow> string \<Rightarrow> string" where
  "raw_compact quoted esc [] = []"
| "raw_compact quoted esc (c # cs) =
     (if \<not> quoted \<and> json_space c then raw_compact False False cs
      else
        let quoted' = (if quoted then esc \<or> c \<noteq> CHR 0x22 else c = CHR 0x22);
            esc' = (quoted \<and> \<not> esc \<and> c = CHR 0x5C)
        in if byte c \<in> set [60, 62, 38]
           then CHR 0x5C # ''u00'' @ [hex_digit (byte c div 16), hex_digit (byte c mod 16)] @ raw_compact quoted' esc' cs
           else case cs of
             b1 # b2 # rest \<Rightarrow>
               if byte c = 226 \<and> byte b1 = 128 \<and> (byte b2 = 168 \<or> byte b2 = 169)
               then CHR 0x5C # ''u202'' @ [hex_digit (byte b2 mod 16)] @ raw_compact quoted' esc' rest
               else c # raw_compact quoted' esc' cs
           | _ \<Rightarrow> c # raw_compact quoted' esc' cs)"

definition raw_member :: "string \<Rightarrow> string \<Rightarrow> (string \<times> string) list" where
  "raw_member k raw = (if raw = '''' then [] else [(k, raw_compact False False raw)])"

definition json_attempt_envelope :: "AttemptEnvelope \<Rightarrow> string" where
  "json_attempt_envelope e = json_object
     [(''protocolVersion'', show_int (ae_protocol_version e)),
      (''identity'', json_object
         [(''runId'', json_string (ai_run_id (ae_identity e))), (''nodeId'', json_string (ai_node_id (ae_identity e))),
          (''attempt'', show_int (ai_attempt (ae_identity e)))]),
      (''workspace'', json_string (ae_workspace e)), (''target'', json_string (ae_target e)),
      (''task'', json_string (ae_task e)),
      (''context'', json_object
         ([(''upstreamResults'', json_array (map (\<lambda>u. json_object
             [(''nodeId'', json_string (ur_node_id u)), (''result'', raw_compact False False (ur_result u))])
             (items (ac_upstream_results (ae_context e))))),
           (''requiredSkills'', json_array (map json_string (items (ac_required_skills (ae_context e)))))]
          @ raw_member ''inputAnswer'' (ac_input_answer (ae_context e)))),
      (''constraints'', json_object (map (\<lambda>(k, v). (k, json_string v)) (items (ae_constraints e)))),
      (''budget'', json_object (map (\<lambda>(k, v). (k, show_int v)) (items (ae_budget e)))),
      (''resultContract'', json_object
         (raw_member ''schema'' (rc_schema (ae_result_contract e))
          @ [(''maxBytes'', show_int (rc_max_bytes (ae_result_contract e)))]))]"

subsection \<open>The user's answer on the wire\<close>

text \<open>
  Decoding into a map of raw members keeps the text of every value; the wire has the three
  known members in their order.
\<close>

fun raw_members :: "nat \<Rightarrow> string \<Rightarrow> (string \<times> string) list" where
  "raw_members 0 s = []"
| "raw_members (Suc n) s =
     (case skip_spaces s of
        [] \<Rightarrow> []
      | c # cs \<Rightarrow>
          if c = CHR 0x7D then []
          else let open_key = (if c = CHR '','' then skip_spaces cs else c # cs);
                   (k, rest) = unquote (length open_key) (drop 1 open_key);
                   start = skip_spaces (drop 1 (skip_spaces rest));
                   rest' = snd (read_value (Suc (length start)) start)
            in (k, take (length start - length rest') start) # raw_members n rest')"

definition answer_members :: "string \<Rightarrow> (string \<times> string) list option" where
  "answer_members answer =
     (if \<not> json_valid answer then None
      else if json_head answer = Some (CHR ''n'') then Some []
      else if json_head answer = Some (CHR 0x7B)
      then Some (raw_members (length answer) (drop 1 (skip_spaces answer)))
      else None)"

definition ordered_answer :: "string \<Rightarrow> string" where
  "ordered_answer answer =
     (case answer_members answer of
        None \<Rightarrow> answer
      | Some ms \<Rightarrow>
          let raw = (\<lambda>k. case map_of (rev ms) k of None \<Rightarrow> '''' | Some v \<Rightarrow> v)
          in json_object (raw_member ''attempt'' (raw ''attempt'') @ raw_member ''questions'' (raw ''questions'')
               @ raw_member ''answers'' (raw ''answers'')))"

subsection \<open>The projection\<close>

fun drop_repeated :: "string list \<Rightarrow> string list" where
  "drop_repeated (a # b # rest) = (if a = b then drop_repeated (b # rest) else a # drop_repeated (b # rest))"
| "drop_repeated xs = xs"

definition upstream_id :: "ContextComponentV2 \<Rightarrow> string" where
  "upstream_id c =
     (let source = pv_source (cc_provenance c); prefix = ''run:node/'';
          trimmed = (if has_prefix source prefix
            then (let rest = drop (length prefix) source; suffix = ''/result''
              in if drop (length rest - length suffix) rest = suffix then take (length rest - length suffix) rest else rest)
            else source)
      in if trimmed = '''' then cc_id c else trimmed)"

fun project_components :: "AttemptEnvelope \<Rightarrow> ContextComponentV2 list \<Rightarrow> AdaptError + AttemptEnvelope" where
  "project_components e [] = Inr e"
| "project_components e (c # cs) =
     (if cc_kind c = KindNodeTask then project_components (e\<lparr>ae_task := cc_content c\<rparr>) cs
      else if cc_kind c = KindDependencyResult
      then (if \<not> json_valid (cc_content c) then Inl (AdaptDependency (cc_id c))
        else project_components (e\<lparr>ae_context := (ae_context e)\<lparr>ac_upstream_results :=
            Some (items (ac_upstream_results (ae_context e)) @ [\<lparr>ur_node_id = upstream_id c, ur_result = cc_content c\<rparr>])\<rparr>\<rparr>) cs)
      else if cc_kind c = KindUserAnswer
      then project_components (if json_valid (cc_content c)
          then e\<lparr>ae_context := (ae_context e)\<lparr>ac_input_answer := cc_content c\<rparr>\<rparr> else e) cs
      else if cc_kind c = KindOutputContract
      then project_components (if json_valid (cc_content c)
          then e\<lparr>ae_result_contract := (ae_result_contract e)\<lparr>rc_schema := cc_content c\<rparr>\<rparr> else e) cs
      else project_components e cs)"

definition attempt_prompt :: "(string \<Rightarrow> string) \<Rightarrow> ContextEnvelopeV2 \<Rightarrow> AttemptEnvelope \<Rightarrow> string" where
  "attempt_prompt sha context e =
     (let hash = (case CanonicalEnvelopeHashV2 sha context of Inl _ \<Rightarrow> '''' | Inr h \<Rightarrow> h);
          parts = map (\<lambda>c. json_object [(''id'', json_string (cc_id c)), (''kind'', json_string (cc_kind c)),
            (''content'', json_string (cc_content c))]) (ce_components context);
          wire = (if ac_input_answer (ae_context e) = '''' then e
            else e\<lparr>ae_context := (ae_context e)\<lparr>ac_input_answer := ordered_answer (ac_input_answer (ae_context e))\<rparr>\<rparr>)
      in ''Fishyume headless Attempt envelope (context-compiler/v2):'' @ [CHR 0x0A]
         @ json_object [(''compiler'', json_string (ce_compiler_version context)), (''hash'', json_string hash),
             (''components'', if parts = [] then ''null'' else json_array parts)]
         @ [CHR 0x0A] @ ''wire='' @ json_attempt_envelope wire @ [CHR 0x0A, CHR 0x0A]
         @ ''Execute the task with the declared constraints. Return exactly one structured result matching resultContract.'')"

definition AdaptEnvelopeV2WithSkills ::
  "(string \<Rightarrow> string) \<Rightarrow> ContextEnvelopeV2 \<Rightarrow> string \<Rightarrow> string \<Rightarrow> string list \<Rightarrow> AdaptError + AttemptEnvelope" where
  "AdaptEnvelopeV2WithSkills sha context workspace target requiredSkills =
     (case ValidateContextEnvelopeV2 sha context of Inl e \<Rightarrow> Inl (AdaptContext e) | Inr _ \<Rightarrow>
      if blank workspace then Inl AdaptWorkspace
      else
        let target = (if blank target then ''local'' else target);
            skills = drop_repeated (sort_by (<) requiredSkills);
            start = \<lparr>ae_protocol_version = AgentProtocolVersion, ae_identity = ce_identity context,
              ae_workspace = workspace, ae_target = target, ae_task = '''',
              ae_context = \<lparr>ac_upstream_results = Some [], ac_required_skills = Some skills, ac_input_answer = ''''\<rparr>,
              ae_constraints = Some [], ae_budget = Some [],
              ae_result_contract = \<lparr>rc_schema = '''', rc_max_bytes = 64 * 1024\<rparr>,
              ae_routing_decision = None, ae_execution_profile = None, ae_prompt = ''''\<rparr>
        in (case project_components start (ce_components context) of Inl e \<Rightarrow> Inl e | Inr projected \<Rightarrow>
          let budget = ce_budget context;
              e = projected\<lparr>
                ae_context := (ae_context projected)\<lparr>ac_upstream_results :=
                  Some (sort_by (\<lambda>a b. ur_node_id a < ur_node_id b) (items (ac_upstream_results (ae_context projected))))\<rparr>,
                ae_constraints := Some [(''interaction'', ''none''), (''processMode'', ''one-shot''), (''pty'', ''disabled'')],
                ae_budget := Some [(''importantBytes'', ab_important budget), (''optionalBytes'', ab_optional budget),
                  (''requiredBytes'', ab_required budget), (''totalBytes'', ab_total budget)]\<rparr>;
              e = e\<lparr>ae_prompt := attempt_prompt sha context e\<rparr>
          in (case ValidateAttemptEnvelope e of Inl x \<Rightarrow> Inl (AdaptAgent x) | Inr _ \<Rightarrow> Inr e)))"

definition AdaptEnvelopeV2 ::
  "(string \<Rightarrow> string) \<Rightarrow> ContextEnvelopeV2 \<Rightarrow> string \<Rightarrow> string \<Rightarrow> AdaptError + AttemptEnvelope" where
  "AdaptEnvelopeV2 sha context workspace target = AdaptEnvelopeV2WithSkills sha context workspace target []"

end
