(* ===== verification/Memory_Catalog.thy ===== *)
theory Memory_Catalog
  imports Context_Sources Workflow_Validate
begin

section \<open>The Memory catalog of a project (internal/store/memory\_catalog.go)\<close>

text \<open>
  The durable catalog of long-term Memory: its records, the receipts of its mutations and
  the validator that every read and every write goes through. A catalog file is the
  catalog it decodes to, absent before the first mutation. \<open>MemoryAccess\<close> collects what is
  not the repository's code: \<^verbatim>\<open>sha256\<close> in hexadecimal, \<^verbatim>\<open>time.Parse\<close> and
  \<^verbatim>\<open>Format\<close>, the resolution of a project path to a directory, and the size of the indented
  encoding. A revision counts durable writes, so the \<^verbatim>\<open>uint64\<close> cannot wrap.
\<close>

abbreviation "MemoryCatalogVersion \<equiv> ''fishyume.memory-catalog/v1''"
abbreviation "MaxMemoryReceipts \<equiv> (4096 :: nat)"
abbreviation "MaxMemoryCatalogBytes \<equiv> (64 * 1024 * 1024 :: nat)"
abbreviation "DefaultMemoryListLimit \<equiv> (50 :: int)"
abbreviation "MaxMemoryListLimit \<equiv> (100 :: int)"
abbreviation "MaxProjectMemoryRecords \<equiv> (2048 :: nat)"
abbreviation "memorySourceVersion \<equiv> ''fishyume.application/v1''"
abbreviation "MemoryWriterEngine \<equiv> ''engine''"

datatype MemoryStoreErrorCode =
    MemoryStoreInvalid | MemoryStoreConflict | MemoryStoreNotFound | MemoryStoreCorrupt
  | MemoryStoreUnsupported | MemoryStoreUnavailable

datatype MemoryStoreError = MemoryStoreError MemoryStoreErrorCode string

abbreviation memoryError :: "MemoryStoreErrorCode \<Rightarrow> string \<Rightarrow> MemoryStoreError + 'a" where
  "memoryError code message \<equiv> Inl (MemoryStoreError code message)"

record MemoryMutationReceiptV1 =
  rcp_mutation_id :: string
  rcp_request_hash :: string
  rcp_operation :: string
  rcp_writer :: string
  rcp_reason :: string
  rcp_revision :: nat
  rcp_record_id :: string
  rcp_affected_ids :: "string list"
  rcp_created_at :: string

record MemoryCatalogV1 =
  mcat_schema_version :: string
  mcat_project :: string
  mcat_project_hash :: string
  mcat_revision :: nat
  mcat_records :: "MemoryRecordV1 list"
  mcat_receipts :: "MemoryMutationReceiptV1 list"

record memoryProjectIdentity =
  pid_canonical :: string
  pid_normalized :: string
  pid_hash :: string

record MemoryAccess =
  ma_sha :: "string \<Rightarrow> string"
  ma_parse :: "string \<Rightarrow> int option"
  ma_format :: "int \<Rightarrow> string"
  ma_directory :: "string \<Rightarrow> string option"
  ma_size :: "MemoryCatalogV1 \<Rightarrow> nat"

type_synonym MemoryFiles = "(string, MemoryCatalogV1) gomap"

subsection \<open>Identities\<close>

definition validateMutationIdentity :: "string \<Rightarrow> MemoryStoreError + unit" where
  "validateMutationIdentity value =
     (if \<not> valid_utf8 value \<or> untrimmed value \<or> length value > 256
      then memoryError MemoryStoreInvalid ''mutationId must be non-empty valid UTF-8 within 256 bytes''
      else Inr ())"

definition validAuditReason :: "string \<Rightarrow> bool" where
  "validAuditReason value \<longleftrightarrow> valid_utf8 value \<and> \<not> untrimmed value \<and> length value \<le> 1024"

definition validMemoryReceiptWriter :: "string \<Rightarrow> bool" where
  "validMemoryReceiptWriter value \<longleftrightarrow> validMemoryWriter value \<or> value = MemoryWriterEngine"

text \<open>The loop is over runes; one that is not ASCII has a byte that is refused.\<close>

definition validMemoryRecordID :: "string \<Rightarrow> bool" where
  "validMemoryRecordID value \<longleftrightarrow>
     1 \<le> length value \<and> length value \<le> 128 \<and> is_lower (value ! 0)
     \<and> list_all (\<lambda>c. is_lower c \<or> is_digit c \<or> c \<in> set ''._:-'') value"

definition validReceiptOperation :: "string \<Rightarrow> bool" where
  "validReceiptOperation value \<longleftrightarrow> value \<in> set [''create'', ''supersede'', ''delete'', ''consume'']"

fun hasDuplicateStrings :: "string list \<Rightarrow> bool" where
  "hasDuplicateStrings (a # b # rest) \<longleftrightarrow> b = a \<or> hasDuplicateStrings (b # rest)"
| "hasDuplicateStrings xs \<longleftrightarrow> False"

definition validHashString :: "string \<Rightarrow> bool" where
  "validHashString value \<longleftrightarrow> length value = 64 \<and> list_all (\<lambda>c. is_hex c \<and> \<not> is_upper c) value"

definition memoryRecordID :: "MemoryAccess \<Rightarrow> string \<Rightarrow> string \<Rightarrow> string \<Rightarrow> string" where
  "memoryRecordID access projectHash operation mutationID =
     ''memory-'' @ take 32 (ma_sha access (projectHash @ [CHR 0x00] @ operation @ [CHR 0x00] @ mutationID))"

subsection \<open>Lookup\<close>

text \<open>\<^verbatim>\<open>sort.Search\<close>: the least index from \<open>i\<close> on below \<open>j\<close> at which \<open>p\<close> holds, if \<open>p\<close> is monotone.\<close>

function sort_search :: "(nat \<Rightarrow> bool) \<Rightarrow> nat \<Rightarrow> nat \<Rightarrow> nat" where
  "sort_search p i j =
     (if i < j then
        let h = (i + j) div 2 in if \<not> p h then sort_search p (h + 1) j else sort_search p i h
      else i)"
  by pat_completeness auto
termination
  by (relation "measure (\<lambda>(p, i, j). j - i)") auto

declare sort_search.simps [simp del]

definition findMemoryRecord :: "MemoryRecordV1 list \<Rightarrow> string \<Rightarrow> nat option" where
  "findMemoryRecord records i =
     (let index = sort_search (\<lambda>k. mr_id (records ! k) \<ge> i) 0 (length records) in
      if index < length records \<and> mr_id (records ! index) = i then Some index else None)"

definition findMemoryReceipt :: "MemoryMutationReceiptV1 list \<Rightarrow> string \<Rightarrow> MemoryMutationReceiptV1 option" where
  "findMemoryReceipt receipts mutationID = List.find (\<lambda>r. rcp_mutation_id r = mutationID) receipts"

subsection \<open>Projects\<close>

text \<open>Paths are those of Unix: the separator is a slash and case counts.\<close>

definition normalizeMemoryProject :: "string \<Rightarrow> string" where
  "normalizeMemoryProject project = path_clean project"

definition resolveMemoryProject :: "MemoryAccess \<Rightarrow> string \<Rightarrow> MemoryStoreError + memoryProjectIdentity" where
  "resolveMemoryProject access project =
     (if \<not> valid_utf8 project \<or> untrimmed project \<or> length project > 4096
      then memoryError MemoryStoreInvalid ''project must be a bounded canonicalizable directory path''
      else case ma_directory access project of
        None \<Rightarrow> memoryError MemoryStoreInvalid ''project path is not a directory''
      | Some directory \<Rightarrow>
          let canonical = path_clean directory; normalized = normalizeMemoryProject canonical
          in Inr \<lparr>pid_canonical = canonical, pid_normalized = normalized, pid_hash = ma_sha access normalized\<rparr>)"

subsection \<open>The validator\<close>

definition check_record :: "MemoryAccess \<Rightarrow> memoryProjectIdentity \<Rightarrow> MemoryRecordV1 \<Rightarrow> MemoryStoreError + unit" where
  "check_record access identity m =
     (if normalizeMemoryProject (mr_project m) \<noteq> pid_normalized identity \<or> mr_scope m \<noteq> ''project''
         \<or> \<not> valid_utf8 (mr_content m)
      then memoryError MemoryStoreCorrupt ''Memory record project, scope, or content encoding is invalid''
      else case ValidateMemoryRecordV1 (ma_sha access) (ma_parse access) m of
        Inl _ \<Rightarrow> memoryError MemoryStoreCorrupt ''Memory catalog contains an invalid record''
      | Inr _ \<Rightarrow> Inr ())"

fun check_records :: "MemoryAccess \<Rightarrow> memoryProjectIdentity \<Rightarrow> string \<Rightarrow> MemoryRecordV1 list \<Rightarrow> MemoryStoreError + unit" where
  "check_records access identity lastID [] = Inr ()"
| "check_records access identity lastID (m # ms) =
     (if mr_id m \<le> lastID
      then memoryError MemoryStoreCorrupt ''Memory catalog records are duplicated or not in canonical order''
      else case check_record access identity m of Inl e \<Rightarrow> Inl e | Inr _ \<Rightarrow> check_records access identity (mr_id m) ms)"

definition check_operation :: "MemoryRecordV1 list \<Rightarrow> MemoryMutationReceiptV1 \<Rightarrow> MemoryStoreError + unit" where
  "check_operation records r =
     (let affected = rcp_affected_ids r; op = rcp_operation r in
      if op = ''create''
      then (if length affected \<noteq> 0
        then memoryError MemoryStoreCorrupt ''Memory create receipt has affected records'' else Inr ())
      else if op = ''supersede''
      then (if length affected < 1 \<or> length affected > MaxMemorySupersedes
             \<or> (case findMemoryRecord records (rcp_record_id r) of
                  None \<Rightarrow> True | Some k \<Rightarrow> mr_supersedes (records ! k) \<noteq> affected)
        then memoryError MemoryStoreCorrupt ''Memory supersede receipt does not match its replacement'' else Inr ())
      else if op = ''delete''
      then (if affected \<noteq> [rcp_record_id r]
        then memoryError MemoryStoreCorrupt ''Memory delete receipt does not match its tombstone'' else Inr ())
      else if op = ''consume''
      then (if rcp_writer r \<noteq> MemoryWriterEngine \<or> length affected > MaxSelectedMemoryRecords - 1
             \<or> affected \<noteq> [] \<and> rcp_record_id r \<ge> hd affected
        then memoryError MemoryStoreCorrupt ''Memory consume receipt exceeds its bound'' else Inr ())
      else if rcp_writer r = MemoryWriterEngine
      then memoryError MemoryStoreCorrupt ''Memory engine writer is only valid for consume receipts''
      else Inr ())"

definition check_affected :: "MemoryRecordV1 list \<Rightarrow> string \<Rightarrow> MemoryStoreError + unit" where
  "check_affected records i =
     (if \<not> validMemoryRecordID i
      then memoryError MemoryStoreCorrupt ''Memory receipt contains an invalid affected record ID''
      else if i \<notin> mr_id ` set records
      then memoryError MemoryStoreCorrupt ''Memory receipt references a missing affected record''
      else Inr ())"

definition check_memory_receipt ::
  "MemoryAccess \<Rightarrow> nat \<Rightarrow> MemoryRecordV1 list \<Rightarrow> string list \<Rightarrow> nat \<Rightarrow> MemoryMutationReceiptV1 \<Rightarrow> MemoryStoreError + unit" where
  "check_memory_receipt access revision records seen lastRevision r =
     (if validateMutationIdentity (rcp_mutation_id r) \<noteq> Inr () \<or> \<not> validHashString (rcp_request_hash r)
         \<or> \<not> validMemoryReceiptWriter (rcp_writer r) \<or> \<not> validAuditReason (rcp_reason r) \<or> rcp_revision r = 0
         \<or> rcp_revision r > revision \<or> rcp_revision r \<le> lastRevision \<or> \<not> validReceiptOperation (rcp_operation r)
         \<or> \<not> validMemoryRecordID (rcp_record_id r) \<or> \<not> sorted (rcp_affected_ids r)
         \<or> hasDuplicateStrings (rcp_affected_ids r)
      then memoryError MemoryStoreCorrupt ''Memory catalog contains an invalid receipt''
      else if rcp_mutation_id r \<in> set seen
      then memoryError MemoryStoreCorrupt ''Memory catalog contains duplicate mutation receipts''
      else if rcp_record_id r \<notin> mr_id ` set records
      then memoryError MemoryStoreCorrupt ''Memory receipt references a missing record''
      else case each_ok (check_affected records) (rcp_affected_ids r) of Inl e \<Rightarrow> Inl e | Inr _ \<Rightarrow>
      (case check_operation records r of Inl e \<Rightarrow> Inl e | Inr _ \<Rightarrow>
       if ma_parse access (rcp_created_at r) = None
       then memoryError MemoryStoreCorrupt ''Memory receipt timestamp is invalid'' else Inr ()))"

fun check_receipts ::
  "MemoryAccess \<Rightarrow> nat \<Rightarrow> MemoryRecordV1 list \<Rightarrow> string list \<Rightarrow> nat \<Rightarrow> MemoryMutationReceiptV1 list \<Rightarrow> MemoryStoreError + nat" where
  "check_receipts access revision records seen lastRevision [] = Inr lastRevision"
| "check_receipts access revision records seen lastRevision (r # rs) =
     (case check_memory_receipt access revision records seen lastRevision r of
        Inl e \<Rightarrow> Inl e
      | Inr _ \<Rightarrow> check_receipts access revision records (rcp_mutation_id r # seen) (rcp_revision r) rs)"

definition validateMemoryCatalog :: "MemoryAccess \<Rightarrow> MemoryCatalogV1 \<Rightarrow> memoryProjectIdentity \<Rightarrow> MemoryStoreError + unit" where
  "validateMemoryCatalog access catalog identity =
     (if mcat_schema_version catalog \<noteq> MemoryCatalogVersion
      then memoryError MemoryStoreUnsupported ''Memory catalog schema version is unsupported''
      else if \<not> valid_utf8 (mcat_project catalog) \<or> normalizeMemoryProject (mcat_project catalog) \<noteq> pid_normalized identity
           \<or> mcat_project_hash catalog \<noteq> pid_hash identity
      then memoryError MemoryStoreCorrupt ''Memory catalog project identity does not match its directory''
      else if length (mcat_records catalog) > MaxProjectMemoryRecords \<or> length (mcat_receipts catalog) > MaxMemoryReceipts
      then memoryError MemoryStoreCorrupt ''Memory catalog collections are missing or exceed their bounds''
      else case check_records access identity '''' (mcat_records catalog) of Inl e \<Rightarrow> Inl e | Inr _ \<Rightarrow>
      (case check_receipts access (mcat_revision catalog) (mcat_records catalog) [] 0 (mcat_receipts catalog) of
         Inl e \<Rightarrow> Inl e
       | Inr lastRevision \<Rightarrow>
           if mcat_revision catalog = 0 \<and> (mcat_records catalog \<noteq> [] \<or> mcat_receipts catalog \<noteq> [])
              \<or> mcat_revision catalog > 0 \<and> (mcat_receipts catalog = [] \<or> lastRevision \<noteq> mcat_revision catalog)
           then memoryError MemoryStoreCorrupt ''Memory catalog revision does not match its durable receipts''
           else Inr ()))"

subsection \<open>Reading and writing\<close>

text \<open>
  Where an operation is cut off: before the catalog is open (directory, lock, stale
  temporary files, reading), before the file is replaced, or after it. In the last case
  the caller sees an error, too.
\<close>

datatype StoreFault = NoFault | NotOpened | NotReplaced | NotSynced

definition new_catalog :: "memoryProjectIdentity \<Rightarrow> MemoryCatalogV1" where
  "new_catalog identity =
     \<lparr>mcat_schema_version = MemoryCatalogVersion, mcat_project = pid_canonical identity,
      mcat_project_hash = pid_hash identity, mcat_revision = 0, mcat_records = [], mcat_receipts = []\<rparr>"

definition readMemoryCatalog :: "MemoryAccess \<Rightarrow> memoryProjectIdentity \<Rightarrow> MemoryFiles \<Rightarrow> MemoryStoreError + MemoryCatalogV1" where
  "readMemoryCatalog access identity files =
     (case map_of files (pid_hash identity) of
        None \<Rightarrow> Inr (new_catalog identity)
      | Some catalog \<Rightarrow>
          (case validateMemoryCatalog access catalog identity of Inl e \<Rightarrow> Inl e | Inr _ \<Rightarrow> Inr catalog))"

definition writeMemoryCatalog ::
  "MemoryAccess \<Rightarrow> StoreFault \<Rightarrow> memoryProjectIdentity \<Rightarrow> MemoryCatalogV1 \<Rightarrow> MemoryFiles \<Rightarrow> (MemoryStoreError + unit) \<times> MemoryFiles" where
  "writeMemoryCatalog access fault identity catalog files =
     (if ma_size access catalog + 1 > MaxMemoryCatalogBytes
      then (memoryError MemoryStoreUnavailable ''Memory catalog cannot be encoded within its bound'', files)
      else if fault = NotReplaced
      then (memoryError MemoryStoreUnavailable ''Memory catalog cannot be atomically replaced'', files)
      else let files' = AList.update (pid_hash identity) catalog files in
        if fault = NotSynced
        then (memoryError MemoryStoreUnavailable ''Memory catalog directory cannot be synchronized'', files')
        else (Inr (), files'))"

definition withMemoryCatalog ::
  "MemoryAccess \<Rightarrow> StoreFault \<Rightarrow> memoryProjectIdentity \<Rightarrow> MemoryFiles
     \<Rightarrow> (MemoryCatalogV1 \<Rightarrow> (MemoryStoreError + 'a) \<times> MemoryFiles) \<Rightarrow> (MemoryStoreError + 'a) \<times> MemoryFiles" where
  "withMemoryCatalog access fault identity files action =
     (if fault = NotOpened then (memoryError MemoryStoreUnavailable ''Memory catalog lock cannot be acquired'', files)
      else case readMemoryCatalog access identity files of Inl e \<Rightarrow> (Inl e, files) | Inr catalog \<Rightarrow> action catalog)"

end
