(* ===== verification/Memory_Operations.thy ===== *)
theory Memory_Operations
  imports Memory_Catalog
begin

section \<open>Operations on the Memory catalog (internal/store/memory\_catalog.go)\<close>

text \<open>
  Each mutation is a change of the catalog in memory, run by \<open>mutateMemory\<close>: a receipt of
  the same mutation answers without running it; otherwise the changed catalog is validated
  and replaces the file. \<open>now\<close> is what the clock of the store returns, in nanoseconds.
\<close>

record MemoryCreateInput =
  cin_project :: string
  cin_mutation_id :: string
  cin_type :: string
  cin_content :: string
  cin_sensitivity :: string
  cin_writer :: string
  cin_reason :: string
  cin_expires_at :: string
  cin_max_uses :: int

record MemorySupersedeInput = MemoryCreateInput +
  sin_supersedes :: "string list"

record MemoryDeleteInput =
  din_project :: string
  din_mutation_id :: string
  din_record_id :: string
  din_writer :: string
  din_reason :: string

record MemoryConsumeInput =
  mc_project :: string
  mc_mutation_id :: string
  mc_record_ids :: "string list"
  mc_reason :: string

record MemoryMutationResult =
  mmr_revision :: nat
  mmr_record_id :: string
  mmr_affected_ids :: "string list"
  mmr_replayed :: bool

type_synonym memory_change =
  "MemoryCatalogV1 \<Rightarrow> memoryProjectIdentity \<Rightarrow> int \<Rightarrow> MemoryStoreError + (MemoryCatalogV1 \<times> string \<times> string list)"

subsection \<open>One mutation\<close>

definition record_receipt :: "MemoryMutationReceiptV1 list \<Rightarrow> MemoryMutationReceiptV1 \<Rightarrow> MemoryMutationReceiptV1 list" where
  "record_receipt receipts r =
     (let rs = receipts @ [r] in if length rs > MaxMemoryReceipts then drop (length rs - MaxMemoryReceipts) rs else rs)"

definition commit_change ::
  "MemoryAccess \<Rightarrow> int \<Rightarrow> string \<Rightarrow> string \<Rightarrow> string \<Rightarrow> string \<Rightarrow> string \<Rightarrow> string \<Rightarrow> string list
     \<Rightarrow> MemoryCatalogV1 \<Rightarrow> MemoryCatalogV1" where
  "commit_change access now mutationID operation writer reason requestHash recordID affectedIDs changed =
     (let revision = mcat_revision changed + 1;
          receipt = \<lparr>rcp_mutation_id = mutationID, rcp_request_hash = requestHash, rcp_operation = operation,
            rcp_writer = writer, rcp_reason = reason, rcp_revision = revision, rcp_record_id = recordID,
            rcp_affected_ids = affectedIDs, rcp_created_at = ma_format access now\<rparr>
      in changed\<lparr>mcat_revision := revision, mcat_receipts := record_receipt (mcat_receipts changed) receipt\<rparr>)"

definition mutateMemory ::
  "MemoryAccess \<Rightarrow> StoreFault \<Rightarrow> int \<Rightarrow> string \<Rightarrow> string \<Rightarrow> string \<Rightarrow> string \<Rightarrow> string \<Rightarrow> string
     \<Rightarrow> memory_change \<Rightarrow> MemoryFiles \<Rightarrow> (MemoryStoreError + MemoryMutationResult) \<times> MemoryFiles" where
  "mutateMemory access fault now project mutationID operation writer reason request apply files =
     (case resolveMemoryProject access project of Inl e \<Rightarrow> (Inl e, files) | Inr identity \<Rightarrow>
      let requestHash = ma_sha access request in
      withMemoryCatalog access fault identity files (\<lambda>catalog.
        case findMemoryReceipt (mcat_receipts catalog) mutationID of
          Some receipt \<Rightarrow>
            (if rcp_operation receipt \<noteq> operation \<or> rcp_request_hash receipt \<noteq> requestHash
             then memoryError MemoryStoreConflict ''mutationId is already bound to a different canonical request''
             else Inr \<lparr>mmr_revision = rcp_revision receipt, mmr_record_id = rcp_record_id receipt,
               mmr_affected_ids = rcp_affected_ids receipt, mmr_replayed = True\<rparr>, files)
        | None \<Rightarrow>
            (case apply catalog identity now of Inl e \<Rightarrow> (Inl e, files) | Inr (changed, recordID, affectedIDs) \<Rightarrow>
             let revision = mcat_revision changed + 1;
                 catalog = commit_change access now mutationID operation writer reason requestHash recordID affectedIDs changed
             in case validateMemoryCatalog access catalog identity of Inl e \<Rightarrow> (Inl e, files) | Inr _ \<Rightarrow>
                (case writeMemoryCatalog access fault identity catalog files of
                   (Inl e, files') \<Rightarrow> (Inl e, files')
                 | (Inr _, files') \<Rightarrow> (Inr \<lparr>mmr_revision = revision, mmr_record_id = recordID,
                     mmr_affected_ids = affectedIDs, mmr_replayed = False\<rparr>, files')))))"

subsection \<open>Create\<close>

definition memory_source :: "string \<Rightarrow> string" where
  "memory_source writer =
     (if writer = ''host_agent'' then ''fishyume.mcp'' else if writer = ''migration'' then ''fishyume.migration''
      else ''fishyume.cli'')"

definition buildMemoryRecord ::
  "MemoryAccess \<Rightarrow> string \<Rightarrow> string \<Rightarrow> string list \<Rightarrow> MemoryCreateInput \<Rightarrow> int \<Rightarrow> MemoryRecordV1" where
  "buildMemoryRecord access project i supersedes request now =
     (let source = memory_source (cin_writer request); stamp = ma_format access now in
      \<lparr>mr_schema_version = MemoryRecordV1Version, mr_id = i, mr_project = project, mr_type = cin_type request,
       mr_scope = ''project'', mr_content = cin_content request, mr_content_hash = ma_sha access (cin_content request),
       mr_sensitivity = cin_sensitivity request,
       mr_provenance = \<lparr>mp_writer = cin_writer request, mp_source = source, mp_source_version = memorySourceVersion,
         mp_source_hash = ma_sha access (source @ [CHR 0x00] @ memorySourceVersion), mp_reason = cin_reason request\<rparr>,
       mr_created_at = stamp, mr_updated_at = stamp, mr_supersedes = supersedes, mr_state = MemoryActive,
       mr_state_reason = '''', mr_use_count = 0,
       mr_retention = \<lparr>mt_expires_at = cin_expires_at request, mt_max_uses = cin_max_uses request\<rparr>\<rparr>)"

definition validateMemoryCreateRequest :: "MemoryAccess \<Rightarrow> string \<Rightarrow> MemoryCreateInput \<Rightarrow> MemoryStoreError + unit" where
  "validateMemoryCreateRequest access mutationID request =
     (case validateMutationIdentity mutationID of Inl e \<Rightarrow> Inl e | Inr _ \<Rightarrow>
      if \<not> valid_utf8 (cin_content request) \<or> blank (cin_content request)
         \<or> length (cin_content request) > MaxMemoryContentBytes
      then memoryError MemoryStoreInvalid ''Memory content must be non-empty valid UTF-8 within 16 KiB''
      else if \<not> validMemoryType (cin_type request)
           \<or> cin_sensitivity request \<noteq> SensitivityPublic \<and> cin_sensitivity request \<noteq> SensitivityProject
           \<or> \<not> validMemoryWriter (cin_writer request) \<or> \<not> validAuditReason (cin_reason request)
           \<or> cin_max_uses request < 0 \<or> cin_max_uses request > 10000
      then memoryError MemoryStoreInvalid ''Memory type, sensitivity, writer, reason, or retention is invalid''
      else if cin_expires_at request \<noteq> '''' \<and> ma_parse access (cin_expires_at request) = None
      then memoryError MemoryStoreInvalid ''Memory expiry must be RFC3339''
      else Inr ())"

definition create_members :: "MemoryCreateInput \<Rightarrow> (string \<times> string) list" where
  "create_members request =
     [(''type'', json_string (cin_type request)), (''content'', json_string (cin_content request)),
      (''sensitivity'', json_string (cin_sensitivity request)), (''writer'', json_string (cin_writer request)),
      (''reason'', json_string (cin_reason request))]
     @ omit_empty ''expiresAt'' (cin_expires_at request) @ omit_zero ''maxUses'' (cin_max_uses request)"

definition add_record :: "MemoryRecordV1 list \<Rightarrow> MemoryRecordV1 \<Rightarrow> MemoryRecordV1 list" where
  "add_record records m = sort_by (\<lambda>a b. mr_id a < mr_id b) (records @ [m])"

definition create_change :: "MemoryAccess \<Rightarrow> MemoryCreateInput \<Rightarrow> memory_change" where
  "create_change access input catalog identity now =
     (if length (mcat_records catalog) \<ge> MaxProjectMemoryRecords
      then memoryError MemoryStoreConflict ''project Memory record limit reached''
      else
        let i = memoryRecordID access (pid_hash identity) ''create'' (cin_mutation_id input) in
        if findMemoryRecord (mcat_records catalog) i \<noteq> None
        then memoryError MemoryStoreConflict ''computed Memory record identity already exists''
        else
          let m = buildMemoryRecord access (mcat_project catalog) i [] input now in
          (case ValidateMemoryRecordV1 (ma_sha access) (ma_parse access) m of
             Inl _ \<Rightarrow> memoryError MemoryStoreInvalid ''invalid record''
           | Inr _ \<Rightarrow> Inr (catalog\<lparr>mcat_records := add_record (mcat_records catalog) m\<rparr>, i, [])))"

definition CreateMemory ::
  "MemoryAccess \<Rightarrow> StoreFault \<Rightarrow> int \<Rightarrow> MemoryCreateInput \<Rightarrow> MemoryFiles \<Rightarrow> (MemoryStoreError + MemoryMutationResult) \<times> MemoryFiles" where
  "CreateMemory access fault now input files =
     (case validateMemoryCreateRequest access (cin_mutation_id input) input of Inl e \<Rightarrow> (Inl e, files) | Inr _ \<Rightarrow>
      mutateMemory access fault now (cin_project input) (cin_mutation_id input) ''create'' (cin_writer input)
        (cin_reason input) (json_object (create_members input)) (create_change access input) files)"

subsection \<open>Supersede\<close>

text \<open>The indexes of the targets: each is there and active.\<close>

fun active_targets :: "MemoryRecordV1 list \<Rightarrow> string list \<Rightarrow> MemoryStoreError + nat list" where
  "active_targets records [] = Inr []"
| "active_targets records (i # ids) =
     (case findMemoryRecord records i of
        None \<Rightarrow> memoryError MemoryStoreNotFound ''Memory record to supersede was not found''
      | Some k \<Rightarrow>
          if mr_state (records ! k) \<noteq> MemoryActive
          then memoryError MemoryStoreConflict ''only active Memory records may be superseded''
          else (case active_targets records ids of Inl e \<Rightarrow> Inl e | Inr ks \<Rightarrow> Inr (k # ks)))"

fun supersede_records ::
  "MemoryAccess \<Rightarrow> string \<Rightarrow> string \<Rightarrow> nat list \<Rightarrow> MemoryRecordV1 list \<Rightarrow> MemoryStoreError + MemoryRecordV1 list" where
  "supersede_records access reason stamp [] records = Inr records"
| "supersede_records access reason stamp (k # ks) records =
     (let m = (records ! k)\<lparr>mr_state := MemorySuperseded, mr_state_reason := reason, mr_updated_at := stamp\<rparr> in
      case ValidateMemoryRecordV1 (ma_sha access) (ma_parse access) m of
        Inl _ \<Rightarrow> memoryError MemoryStoreInvalid ''invalid record''
      | Inr _ \<Rightarrow> supersede_records access reason stamp ks (records[k := m]))"

definition supersede_change :: "MemoryAccess \<Rightarrow> MemorySupersedeInput \<Rightarrow> string list \<Rightarrow> memory_change" where
  "supersede_change access input targets catalog identity now =
     (if length (mcat_records catalog) \<ge> MaxProjectMemoryRecords
      then memoryError MemoryStoreConflict ''project Memory record limit reached''
      else case active_targets (mcat_records catalog) targets of Inl e \<Rightarrow> Inl e | Inr indexes \<Rightarrow>
      (let i = memoryRecordID access (pid_hash identity) ''supersede'' (cin_mutation_id input) in
       if findMemoryRecord (mcat_records catalog) i \<noteq> None
       then memoryError MemoryStoreConflict ''computed Memory record identity already exists''
       else
         let replacement = buildMemoryRecord access (mcat_project catalog) i targets (MemoryCreateInput.truncate input) now in
         (case ValidateMemoryRecordV1 (ma_sha access) (ma_parse access) replacement of
            Inl _ \<Rightarrow> memoryError MemoryStoreInvalid ''invalid record''
          | Inr _ \<Rightarrow>
            (case supersede_records access (cin_reason input) (ma_format access now) indexes (mcat_records catalog) of
               Inl e \<Rightarrow> Inl e
             | Inr records \<Rightarrow> Inr (catalog\<lparr>mcat_records := add_record records replacement\<rparr>, i, targets)))))"

definition SupersedeMemory ::
  "MemoryAccess \<Rightarrow> StoreFault \<Rightarrow> int \<Rightarrow> MemorySupersedeInput \<Rightarrow> MemoryFiles \<Rightarrow> (MemoryStoreError + MemoryMutationResult) \<times> MemoryFiles" where
  "SupersedeMemory access fault now input files =
     (let targets = sort_strings (sin_supersedes input); create = MemoryCreateInput.truncate input in
      case validateMemoryCreateRequest access (cin_mutation_id input) create of Inl e \<Rightarrow> (Inl e, files) | Inr _ \<Rightarrow>
      if length targets < 1 \<or> length targets > MaxMemorySupersedes \<or> hasDuplicateStrings targets
      then (memoryError MemoryStoreInvalid ''supersedes must contain 1..16 unique record IDs'', files)
      else if \<not> list_all validMemoryRecordID targets
      then (memoryError MemoryStoreInvalid ''supersedes contains an invalid record ID'', files)
      else mutateMemory access fault now (cin_project input) (cin_mutation_id input) ''supersede'' (cin_writer input)
        (cin_reason input)
        (json_object [(''supersedes'', json_array (map json_string targets)), (''create'', json_object (create_members create))])
        (supersede_change access input targets) files)"

subsection \<open>Delete\<close>

definition delete_change :: "MemoryAccess \<Rightarrow> MemoryDeleteInput \<Rightarrow> memory_change" where
  "delete_change access input catalog identity now =
     (case findMemoryRecord (mcat_records catalog) (din_record_id input) of
        None \<Rightarrow> memoryError MemoryStoreNotFound ''Memory record was not found''
      | Some k \<Rightarrow>
          let m = mcat_records catalog ! k in
          if mr_state m = MemoryDeleted then memoryError MemoryStoreConflict ''Memory record is already deleted''
          else
            let m = m\<lparr>mr_content := '''', mr_state := MemoryDeleted, mr_state_reason := din_reason input,
                  mr_updated_at := ma_format access now\<rparr> in
            (case ValidateMemoryRecordV1 (ma_sha access) (ma_parse access) m of
               Inl _ \<Rightarrow> memoryError MemoryStoreInvalid ''invalid record''
             | Inr _ \<Rightarrow> Inr (catalog\<lparr>mcat_records := (mcat_records catalog)[k := m]\<rparr>, din_record_id input, [din_record_id input])))"

definition DeleteMemory ::
  "MemoryAccess \<Rightarrow> StoreFault \<Rightarrow> int \<Rightarrow> MemoryDeleteInput \<Rightarrow> MemoryFiles \<Rightarrow> (MemoryStoreError + MemoryMutationResult) \<times> MemoryFiles" where
  "DeleteMemory access fault now input files =
     (case validateMutationIdentity (din_mutation_id input) of Inl e \<Rightarrow> (Inl e, files) | Inr _ \<Rightarrow>
      if \<not> validMemoryRecordID (din_record_id input) \<or> \<not> validMemoryWriter (din_writer input)
         \<or> \<not> validAuditReason (din_reason input)
      then (memoryError MemoryStoreInvalid ''delete request is invalid'', files)
      else mutateMemory access fault now (din_project input) (din_mutation_id input) ''delete'' (din_writer input)
        (din_reason input)
        (json_object [(''recordId'', json_string (din_record_id input)), (''writer'', json_string (din_writer input)),
          (''reason'', json_string (din_reason input))])
        (delete_change access input) files)"

subsection \<open>Consume\<close>

definition usable :: "MemoryAccess \<Rightarrow> MemoryRecordV1 list \<Rightarrow> int \<Rightarrow> string \<Rightarrow> MemoryStoreError + unit" where
  "usable access records now i =
     (case findMemoryRecord records i of
        None \<Rightarrow> memoryError MemoryStoreNotFound ''Memory record was not found''
      | Some k \<Rightarrow>
          let m = records ! k; retention = mr_retention m in
          if mr_state m \<noteq> MemoryActive then memoryError MemoryStoreConflict ''selected Memory record is not active''
          else if mt_expires_at retention \<noteq> ''''
             \<and> (case ma_parse access (mt_expires_at retention) of None \<Rightarrow> True | Some expiry \<Rightarrow> expiry \<le> now)
          then memoryError MemoryStoreConflict ''selected Memory record is expired''
          else if mt_max_uses retention > 0 \<and> mr_use_count m \<ge> mt_max_uses retention
          then memoryError MemoryStoreConflict ''selected Memory record has reached maxUses''
          else Inr ())"

fun count_uses :: "string \<Rightarrow> string list \<Rightarrow> MemoryRecordV1 list \<Rightarrow> MemoryRecordV1 list" where
  "count_uses stamp [] records = records"
| "count_uses stamp (i # ids) records =
     (let k = the (findMemoryRecord records i)
      in count_uses stamp ids
        (records[k := (records ! k)\<lparr>mr_use_count := mr_use_count (records ! k) + 1, mr_updated_at := stamp\<rparr>]))"

definition consume_change :: "MemoryAccess \<Rightarrow> string list \<Rightarrow> memory_change" where
  "consume_change access ids catalog identity now =
     (case each_ok (usable access (mcat_records catalog) now) ids of Inl e \<Rightarrow> Inl e | Inr _ \<Rightarrow>
      Inr (catalog\<lparr>mcat_records := count_uses (ma_format access now) ids (mcat_records catalog)\<rparr>, hd ids, tl ids))"

definition ConsumeMemory ::
  "MemoryAccess \<Rightarrow> StoreFault \<Rightarrow> int \<Rightarrow> MemoryConsumeInput \<Rightarrow> MemoryFiles \<Rightarrow> (MemoryStoreError + MemoryMutationResult) \<times> MemoryFiles" where
  "ConsumeMemory access fault now input files =
     (let ids = sort_strings (mc_record_ids input) in
      if length ids = 0 \<or> length ids > MaxSelectedMemoryRecords \<or> hasDuplicateStrings ids
         \<or> validateMutationIdentity (mc_mutation_id input) \<noteq> Inr () \<or> \<not> validAuditReason (mc_reason input)
      then (memoryError MemoryStoreInvalid ''Memory consume request is invalid'', files)
      else if \<not> list_all validMemoryRecordID ids
      then (memoryError MemoryStoreInvalid ''Memory consume contains an invalid record ID'', files)
      else mutateMemory access fault now (mc_project input) (mc_mutation_id input) ''consume'' MemoryWriterEngine
        (mc_reason input)
        (json_object [(''recordIds'', json_array (map json_string ids)), (''reason'', json_string (mc_reason input))])
        (consume_change access ids) files)"

subsection \<open>Get\<close>

definition GetMemory ::
  "MemoryAccess \<Rightarrow> StoreFault \<Rightarrow> string \<Rightarrow> string \<Rightarrow> MemoryFiles \<Rightarrow> MemoryStoreError + (MemoryRecordV1 \<times> nat)" where
  "GetMemory access fault project recordID files =
     (if \<not> validMemoryRecordID recordID then memoryError MemoryStoreInvalid ''Memory record ID is invalid''
      else case resolveMemoryProject access project of Inl e \<Rightarrow> Inl e | Inr identity \<Rightarrow>
      fst (withMemoryCatalog access fault identity files (\<lambda>catalog.
        (case findMemoryRecord (mcat_records catalog) recordID of
           None \<Rightarrow> memoryError MemoryStoreNotFound ''Memory record was not found''
         | Some k \<Rightarrow> Inr (mcat_records catalog ! k, mcat_revision catalog), files))))"

subsection \<open>List\<close>

record MemoryListFilter =
  flt_type :: string
  flt_state :: string
  flt_sensitivity :: string
  flt_writer :: string

text \<open>A cursor is the decoded one; its text is base64 of JSON.\<close>

record memoryListCursor =
  cur_version :: int
  cur_revision :: nat
  cur_last_id :: string
  cur_filter_hash :: string

record MemoryListInput =
  lin_project :: string
  lin_filter :: MemoryListFilter
  lin_cursor :: "memoryListCursor option"
  lin_limit :: int

text \<open>The metadata of a record are the record without its content.\<close>

record MemoryRecordMetadata =
  md_schema_version :: string
  md_id :: string
  md_project :: string
  md_type :: string
  md_scope :: string
  md_content_hash :: string
  md_sensitivity :: string
  md_provenance :: MemoryProvenanceV1
  md_created_at :: string
  md_updated_at :: string
  md_supersedes :: "string list"
  md_state :: string
  md_state_reason :: string
  md_use_count :: int
  md_retention :: MemoryRetentionV1

record MemoryListResult =
  lst_revision :: nat
  lst_items :: "MemoryRecordMetadata list"
  lst_next_cursor :: "memoryListCursor option"

definition memoryMetadata :: "MemoryRecordV1 \<Rightarrow> MemoryRecordMetadata" where
  "memoryMetadata m =
     \<lparr>md_schema_version = mr_schema_version m, md_id = mr_id m, md_project = mr_project m, md_type = mr_type m,
      md_scope = mr_scope m, md_content_hash = mr_content_hash m, md_sensitivity = mr_sensitivity m,
      md_provenance = mr_provenance m, md_created_at = mr_created_at m, md_updated_at = mr_updated_at m,
      md_supersedes = mr_supersedes m, md_state = mr_state m, md_state_reason = mr_state_reason m,
      md_use_count = mr_use_count m, md_retention = mr_retention m\<rparr>"

definition validateMemoryFilter :: "MemoryListFilter \<Rightarrow> MemoryStoreError + unit" where
  "validateMemoryFilter f =
     (if flt_type f \<noteq> '''' \<and> \<not> validMemoryType (flt_type f)
      then memoryError MemoryStoreInvalid ''Memory type filter is invalid''
      else if flt_state f \<noteq> '''' \<and> \<not> validMemoryState (flt_state f)
      then memoryError MemoryStoreInvalid ''Memory state filter is invalid''
      else if flt_sensitivity f \<noteq> '''' \<and> flt_sensitivity f \<noteq> SensitivityPublic \<and> flt_sensitivity f \<noteq> SensitivityProject
      then memoryError MemoryStoreInvalid ''Memory sensitivity filter is invalid''
      else if flt_writer f \<noteq> '''' \<and> \<not> validMemoryWriter (flt_writer f)
      then memoryError MemoryStoreInvalid ''Memory writer filter is invalid''
      else Inr ())"

definition memoryMatches :: "MemoryRecordV1 \<Rightarrow> MemoryListFilter \<Rightarrow> bool" where
  "memoryMatches m f \<longleftrightarrow>
     (flt_type f = '''' \<or> mr_type m = flt_type f) \<and> (flt_state f = '''' \<or> mr_state m = flt_state f)
     \<and> (flt_sensitivity f = '''' \<or> mr_sensitivity m = flt_sensitivity f)
     \<and> (flt_writer f = '''' \<or> mp_writer (mr_provenance m) = flt_writer f)"

definition filter_hash :: "MemoryAccess \<Rightarrow> MemoryListFilter \<Rightarrow> string" where
  "filter_hash access f = ma_sha access (json_object
     (omit_empty ''type'' (flt_type f) @ omit_empty ''state'' (flt_state f)
      @ omit_empty ''sensitivity'' (flt_sensitivity f) @ omit_empty ''writer'' (flt_writer f)))"

definition check_cursor :: "memoryListCursor option \<Rightarrow> MemoryStoreError + memoryListCursor" where
  "check_cursor cursor =
     (case cursor of
        None \<Rightarrow> Inr \<lparr>cur_version = 1, cur_revision = 0, cur_last_id = '''', cur_filter_hash = ''''\<rparr>
      | Some c \<Rightarrow>
          if cur_version c \<noteq> 1 \<or> cur_revision c = 0 \<or> \<not> validMemoryRecordID (cur_last_id c)
             \<or> \<not> validHashString (cur_filter_hash c)
          then memoryError MemoryStoreInvalid ''Memory list cursor is invalid'' else Inr c)"

definition ListMemory ::
  "MemoryAccess \<Rightarrow> StoreFault \<Rightarrow> MemoryListInput \<Rightarrow> MemoryFiles \<Rightarrow> MemoryStoreError + MemoryListResult" where
  "ListMemory access fault input files =
     (let limit = (if lin_limit input = 0 then DefaultMemoryListLimit else lin_limit input) in
      if limit < 1 \<or> limit > MaxMemoryListLimit
      then memoryError MemoryStoreInvalid ''Memory list limit must be between 1 and 100''
      else case validateMemoryFilter (lin_filter input) of Inl e \<Rightarrow> Inl e | Inr _ \<Rightarrow>
      (case check_cursor (lin_cursor input) of Inl e \<Rightarrow> Inl e | Inr cursor \<Rightarrow>
      (case resolveMemoryProject access (lin_project input) of Inl e \<Rightarrow> Inl e | Inr identity \<Rightarrow>
       let filterHash = filter_hash access (lin_filter input) in
       fst (withMemoryCatalog access fault identity files (\<lambda>catalog.
         (if lin_cursor input \<noteq> None \<and> (cur_revision cursor \<noteq> mcat_revision catalog \<or> cur_filter_hash cursor \<noteq> filterHash)
          then memoryError MemoryStoreConflict ''Memory list cursor no longer matches the catalog revision or filter''
          else
            let matches = filter (\<lambda>m. mr_id m > cur_last_id cursor \<and> memoryMatches m (lin_filter input)) (mcat_records catalog);
                count = min (nat limit) (length matches)
            in Inr \<lparr>lst_revision = mcat_revision catalog, lst_items = map memoryMetadata (take count matches),
                 lst_next_cursor = (if length matches > count
                   then Some \<lparr>cur_version = 1, cur_revision = mcat_revision catalog, cur_last_id = mr_id (matches ! (count - 1)),
                     cur_filter_hash = filterHash\<rparr>
                   else None)\<rparr>, files))))))"

end
