(* ===== verification/Run_Context.thy ===== *)
theory Run_Context
  imports Context_Adapter Run_Lifecycle Memory_Operations
begin

section \<open>The context of an Attempt (internal/run/context\_assembly.go)\<close>

text \<open>
  \<^verbatim>\<open>compileRunContext\<close>: from the assembly the scheduler builds for a node to the
  compiled context, the driver's envelope and the legacy manifest. \<open>ContextAccess\<close> collects
  what it calls: \<^verbatim>\<open>sha256\<close> in hexadecimal, \<^verbatim>\<open>time.Parse\<close>, the file system and the
  Memory store's \<^verbatim>\<open>GetMemory\<close> and \<^verbatim>\<open>ConsumeMemory\<close>; a failure of the store is its
  text.
\<close>

record ContextAccess =
  xa_sha :: "string \<Rightarrow> string"
  xa_parse :: "string \<Rightarrow> int option"
  xa_files :: ProjectAccess
  xa_get_memory :: "string \<Rightarrow> string \<Rightarrow> string + MemoryRecordV1"
  xa_consume_memory :: "MemoryConsumeInput \<Rightarrow> string + unit"

datatype RunContextError = RcMemory string | RcContext ContextError | RcAdapt AdaptError

record ContextAssembly =
  cx_identity :: AttemptIdentity
  cx_project :: string
  cx_target :: string
  cx_node_id :: string
  cx_node_task :: string
  cx_required_skills :: "string list"
  cx_workflow_policy :: string
  cx_policy_version :: string
  cx_project_instructions :: "string list"
  cx_dependency_results :: "(string, Result) gomap"
  cx_user_answer :: string
  cx_selected_memory :: "SelectedMemorySourceV2 list"
  cx_selected_memory_ids :: "string list"
  cx_memory_bindings :: "MemoryBinding list"

record compiledRunContext =
  crc_compilation :: CompilationV2
  crc_envelope :: AttemptEnvelope
  crc_legacy_manifest :: Manifest

subsection \<open>Contents the engine provides\<close>

text \<open>
  \<^verbatim>\<open>workflowPolicy\<close>: the execution and the defaults of the document with the fixed
  constraints, keys in order. A requirement of a validated document has capabilities.
\<close>

definition json_requirement :: "RoutingRequirementV1 \<Rightarrow> string" where
  "json_requirement r = json_object
     ([(''schemaVersion'', json_string (rr_schema_version r)),
       (''capabilities'', if rr_capabilities r = [] then ''null'' else json_array (map json_string (rr_capabilities r))),
       (''complexity'', json_string (rr_complexity r)), (''quality'', json_string (rr_quality r)),
       (''latency'', json_string (rr_latency r)), (''maxCostUnits'', show_int (rr_max_cost r)),
       (''maxContextBytes'', show_int (rr_max_context r)), (''maxOutputBytes'', show_int (rr_max_output r))]
      @ omit_empty_list ''candidates'' (rr_candidates r) @ omit_empty ''promptProfile'' (rr_prompt_profile r)
      @ [(''allowModelFallback'', json_bool (rr_allow_fallback r))])"

definition json_selection :: "AgentSelection \<Rightarrow> string" where
  "json_selection a = json_object
     (omit_empty ''driver'' (as_driver a) @ omit_empty ''target'' (as_target a)
      @ (case as_routing a of None \<Rightarrow> [] | Some r \<Rightarrow> [(''routing'', json_requirement r)]))"

definition engine_constraints :: "(string \<times> string) list" where
  "engine_constraints =
     [(''interaction'', json_string ''none''), (''processMode'', json_string ''one-shot''), (''pty'', json_string ''disabled'')]"

definition workflowPolicy :: "Document \<Rightarrow> string" where
  "workflowPolicy doc = json_object
     [(''constraints'', json_object engine_constraints),
      (''defaults'', json_object
         ([(''agent'', json_selection (df_agent (doc_defaults doc)))]
          @ omit_empty ''backend'' (df_backend (doc_defaults doc)) @ omit_empty ''tool'' (df_tool (doc_defaults doc))
          @ omit_empty ''runtime'' (df_runtime (doc_defaults doc)))),
      (''execution'', json_object [(''maxConcurrency'', show_int (doc_max_concurrency doc))])]"

definition schema_strings :: string where
  "schema_strings = json_object
     [(''type'', json_string ''array''), (''items'', json_object [(''type'', json_string ''string'')]), (''maxItems'', ''256'')]"

definition schema_question :: string where
  "schema_question = json_object
     [(''type'', json_string ''object''), (''additionalProperties'', ''false''),
      (''required'', json_array (map json_string [''id'', ''prompt'', ''choices'', ''required''])),
      (''properties'', json_object
         [(''id'', json_object [(''type'', json_string ''string'')]), (''prompt'', json_object [(''type'', json_string ''string'')]),
          (''choices'', schema_strings), (''required'', json_object [(''type'', json_string ''boolean'')])])]"

definition agentResultContractSchema :: string where
  "agentResultContractSchema = json_object
     [(''type'', json_string ''object''), (''additionalProperties'', ''false''),
      (''required'', json_array (map json_string [''status'', ''summary'', ''artifacts'', ''warnings'', ''checks'', ''questions''])),
      (''properties'', json_object
         [(''status'', json_object [(''type'', json_string ''string''),
             (''enum'', json_array (map json_string [''succeeded'', ''failed'', ''needs_input'', ''indeterminate'']))]),
          (''summary'', json_object [(''type'', json_string ''string''), (''minLength'', ''1''), (''maxLength'', ''16384'')]),
          (''artifacts'', schema_strings), (''warnings'', schema_strings), (''checks'', schema_strings),
          (''questions'', json_object [(''type'', json_string ''array''), (''maxItems'', ''32''), (''items'', schema_question)])])]"

definition engine_contract :: "(string \<Rightarrow> string) \<Rightarrow> string \<Rightarrow> string \<Rightarrow> string \<Rightarrow> string \<Rightarrow> string \<Rightarrow> ContextComponentV2" where
  "engine_contract sha i kind source reason content =
     \<lparr>cc_id = i, cc_kind = kind, cc_tier = TierRequired, cc_sensitivity = SensitivityPublic,
      cc_provenance = \<lparr>pv_source = source, pv_source_version = ''v1'', pv_source_hash = sha content, pv_reason = reason\<rparr>,
      cc_content = content, cc_content_hash = sha content, cc_original_bytes = int (length content),
      cc_included_bytes = int (length content), cc_truncation = TruncationNone\<rparr>"

definition execution_contract :: "(string \<Rightarrow> string) \<Rightarrow> string \<Rightarrow> ContextComponentV2" where
  "execution_contract sha target = engine_contract sha ''execution-contract'' KindExecutionContract ''engine:execution''
     ''engine execution contract'' (json_object (engine_constraints @ [(''target'', json_string target)]))"

definition output_contract :: "(string \<Rightarrow> string) \<Rightarrow> ContextComponentV2" where
  "output_contract sha = engine_contract sha ''output-contract'' KindOutputContract ''engine:output''
     ''engine output contract''
     (json_object [(''maxBytes'', show_int (int MaxResultBytes)), (''schema'', agentResultContractSchema)])"

subsection \<open>Selected Memory\<close>

fun load_memory ::
  "ContextAccess \<Rightarrow> string \<Rightarrow> MemoryBinding list \<Rightarrow> string list \<Rightarrow> RunContextError + SelectedMemorySourceV2 list" where
  "load_memory access project bindings [] = Inr []"
| "load_memory access project bindings (i # ids) =
     (case xa_get_memory access project i of
        Inl e \<Rightarrow> Inl (RcMemory e)
      | Inr m \<Rightarrow>
          let reason = (case List.find (\<lambda>b. mb_id b = i) bindings of
                None \<Rightarrow> ''explicitly selected Memory ID'' | Some b \<Rightarrow> mb_reason b)
          in (case load_memory access project bindings ids of
                Inl e \<Rightarrow> Inl e
              | Inr selected \<Rightarrow> Inr (\<lparr>sel_record = m, sel_reason = reason\<rparr> # selected)))"

definition selected_memory :: "ContextAccess \<Rightarrow> ContextAssembly \<Rightarrow> RunContextError + SelectedMemorySourceV2 list" where
  "selected_memory access a =
     (if cx_selected_memory a = [] \<and> (cx_selected_memory_ids a \<noteq> [] \<or> cx_memory_bindings a \<noteq> [])
      then load_memory access (cx_project a) (cx_memory_bindings a)
        (sort_by (<) (if cx_memory_bindings a \<noteq> [] then map mb_id (cx_memory_bindings a) else cx_selected_memory_ids a))
      else Inr (cx_selected_memory a))"

subsection \<open>The sources of an assembly\<close>

definition declare_source :: "string \<Rightarrow> string \<Rightarrow> string \<Rightarrow> SourceDeclarationV2" where
  "declare_source i reason tier =
     \<lparr>dl_id = i, dl_source_version = ''v1'', dl_reason = reason, dl_tier = tier, dl_sensitivity = SensitivityProject,
      dl_unavailable = False\<rparr>"

text \<open>\<^verbatim>\<open>strings.ToLower\<close> on ASCII.\<close>

definition to_lower :: "string \<Rightarrow> string" where
  "to_lower = map (\<lambda>c. if is_upper c then char_of ((of_char c :: nat) + 32) else c)"

definition base_name :: "string \<Rightarrow> string" where
  "base_name path = last (split_on CHR ''/'' path)"

definition instruction_source :: "ContextAccess \<Rightarrow> bool \<Rightarrow> string \<Rightarrow> ProjectInstructionSourceV2" where
  "instruction_source access selective name =
     \<lparr>pi_declaration = declare_source
        (if selective then ''project-instruction-'' @ take 16 (xa_sha access name)
         else ''project-'' @ to_lower (map (\<lambda>c. if c = CHR ''.'' then CHR ''-'' else c) (base_name name)))
        ''project instructions'' TierRequired,
      pi_content = '''', pi_relative_path = name\<rparr>"

definition instruction_sources :: "ContextAccess \<Rightarrow> ContextAssembly \<Rightarrow> ProjectInstructionSourceV2 list" where
  "instruction_sources access a =
     (if cx_policy_version a = ''context-policy/v1''
      then map (instruction_source access True) (cx_project_instructions a)
      else map (instruction_source access False)
        (filter (pa_exists (xa_files access) (cx_project a))
          [''AGENTS.md'', ''CLAUDE.md'', ''.fishyume/instructions.md'']))"

definition summarized_result :: "Result \<Rightarrow> Result" where
  "summarized_result r =
     (if blank (res_summary r) \<and> res_decision r \<noteq> ''''
      then r\<lparr>res_summary := ''approval decision: '' @ res_decision r\<rparr> else r)"

definition dependency_source :: "string \<Rightarrow> Result \<Rightarrow> DependencyResultSourceV2" where
  "dependency_source nodeID r =
     \<lparr>dr_declaration = declare_source (''dependency-'' @ nodeID) ''explicitly allowed dependency result'' TierImportant,
      dr_upstream_node = nodeID, dr_result = Some (summarized_result r)\<rparr>"

definition sortedKeys :: "(string, 'a) gomap \<Rightarrow> string list" where
  "sortedKeys m = sort_by (<) (map fst m)"

definition resolution_input ::
  "ContextAccess \<Rightarrow> ContextAssembly \<Rightarrow> int \<Rightarrow> SelectedMemorySourceV2 list \<Rightarrow> ContextSourceResolutionInputV2" where
  "resolution_input access a now selected =
     \<lparr>si_project_root = cx_project a, si_as_of = Some now,
      si_allowed_upstream_nodes = sortedKeys (cx_dependency_results a),
      si_project_instructions = instruction_sources access a,
      si_workflow_policies = [\<lparr>wp_declaration = declare_source ''workflow-policy'' ''engine workflow policy/defaults'' TierImportant,
        wp_content = cx_workflow_policy a\<rparr>],
      si_node_tasks = [\<lparr>nt_declaration = declare_source ''node-task'' ''current Workflow Node task'' TierRequired,
        nt_node_id = cx_node_id a, nt_content = cx_node_task a\<rparr>],
      si_dependency_results = map (\<lambda>i. dependency_source i (the (map_of (cx_dependency_results a) i)))
        (sortedKeys (cx_dependency_results a)),
      si_user_answers = (if cx_user_answer a = '''' then []
        else [\<lparr>us_declaration = declare_source ''user-answer'' ''current user answer'' TierRequired, us_answer = cx_user_answer a\<rparr>]),
      si_selected_memory = selected\<rparr>"

subsection \<open>Compilation\<close>

fun replace_answer :: "Component list \<Rightarrow> Component list option" where
  "replace_answer [] = None"
| "replace_answer (c # cs) =
     (if cp_source c = ''run:answer/user-answer'' then Some cs else map_option ((#) c) (replace_answer cs))"

definition legacy_manifest :: "ContextManifestV2 \<Rightarrow> Manifest" where
  "legacy_manifest m =
     (let cs = map (\<lambda>c. \<lparr>cp_name = cm_id c, cp_source = pv_source (cm_provenance c),
            cp_version = pv_source_version (cm_provenance c)\<rparr>) (mf_components m)
      in \<lparr>mv_compiler_version = mf_compiler_version m,
          mv_components = (case replace_answer cs of
             None \<Rightarrow> cs
           | Some rest \<Rightarrow> rest @ [\<lparr>cp_name = ''input-answer'', cp_source = ''run.action.answer'', cp_version = ''v1''\<rparr>])\<rparr>)"

definition compileRunContext ::
  "ContextAccess \<Rightarrow> ContextAssembly \<Rightarrow> int \<Rightarrow> RunContextError + compiledRunContext" where
  "compileRunContext access a now =
     (let sha = xa_sha access in
      case selected_memory access a of Inl e \<Rightarrow> Inl e | Inr selected \<Rightarrow>
      (case ResolveSources sha (xa_parse access) (xa_files access) (resolution_input access a now selected) of
         Inl e \<Rightarrow> Inl (RcContext e) | Inr resolution \<Rightarrow>
      (case AttentionBudget DefaultBudgetPolicyV1 of Inl e \<Rightarrow> Inl (RcContext e) | Inr budget \<Rightarrow>
      (case CompileContextV2 sha \<lparr>ci_identity = cx_identity a, ci_resolution = resolution,
          ci_execution_contract = execution_contract sha (cx_target a), ci_output_contract = output_contract sha,
          ci_budget = budget\<rparr> of
         Inl e \<Rightarrow> Inl (RcContext e) | Inr compiled \<Rightarrow>
      (case AdaptEnvelopeV2WithSkills sha (cv_envelope compiled) (cx_project a) (cx_target a) (cx_required_skills a) of
         Inl e \<Rightarrow> Inl (RcAdapt e) | Inr envelope \<Rightarrow>
       Inr \<lparr>crc_compilation = compiled, crc_envelope = envelope,
            crc_legacy_manifest = legacy_manifest (cv_manifest compiled)\<rparr>)))))"

definition consumeCompiledMemory ::
  "ContextAccess \<Rightarrow> string \<Rightarrow> AttemptIdentity \<Rightarrow> CompilationV2 \<Rightarrow> string + MemoryUsageReceipt option" where
  "consumeCompiledMemory access project identity compilation =
     (let ids = sort_by (<) (map cm_id (filter (\<lambda>c. cm_kind c = KindMemory) (mf_components (cv_manifest compilation))));
          mutationID = ''context-use:'' @ ai_run_id identity @ '':'' @ ai_node_id identity @ '':''
            @ show_int (ai_attempt identity) @ '':'' @ cv_hash compilation
      in if ids = [] then Inr None
         else case xa_consume_memory access \<lparr>mc_project = project, mc_mutation_id = mutationID, mc_record_ids = ids,
             mc_reason = ''Memory included in compiled Attempt context''\<rparr> of
           Inl e \<Rightarrow> Inl e
         | Inr _ \<Rightarrow> Inr (Some \<lparr>mu_schema_version = ''fishyume.memory-usage/v1'', mu_mutation_id = mutationID,
             mu_record_ids = ids, mu_committed = True\<rparr>))"

end
