(* ===== verification/Run_Controller.thy ===== *)
theory Run_Controller
  imports Run_Actions Run_Context
begin

section \<open>The controller of a run (internal/run/service.go, parallel\_launch.go, reconcile.go)\<close>

text \<open>
  The commits of the goroutine that drives a run: scheduling a batch (skips, approvals,
  new Attempts), the durable states of a launch, and what an observation or a result of a
  back end does to the node, its Attempt and the run. Every commit holds the service's
  lock, so it is one step; \<open>active\<close> tells whether its controller still owns the run.
  \<open>Engine\<close> collects what the code calls outside the files of the run: the catalogs, the
  registered back ends with their capabilities, the accesses of the context assembly, the
  \<^verbatim>\<open>%q\<close> of \<^verbatim>\<open>fmt\<close>, and the wording of errors.
\<close>

record Engine =
  en_hash :: "CapabilityCatalogV1 \<Rightarrow> string"
  en_catalogs :: CatalogAccess
  en_backends :: "string \<Rightarrow> Capabilities option"
  en_context :: ContextAccess
  en_quote :: "string \<Rightarrow> string"
  en_explain_context :: "RunContextError \<Rightarrow> string"
  en_explain :: "RunError \<Rightarrow> string"
  en_explain_result :: "ResultError \<Rightarrow> string"
  en_explain_observation :: "BackendError \<Rightarrow> string"

record pendingLaunch =
  pl_node_id :: string
  pl_attempt :: int
  pl_backend :: string
  pl_launch_spec :: AgentExecutionSpec

subsection \<open>Nodes in memory\<close>

text \<open>\<^verbatim>\<open>findNode\<close> returns a pointer: a change of the node changes the list.\<close>

fun set_node :: "string \<Rightarrow> NodeSnapshot \<Rightarrow> NodeSnapshot list \<Rightarrow> NodeSnapshot list" where
  "set_node i node [] = []"
| "set_node i node (n # nodes) = (if ns_id n = i then node # nodes else n # set_node i node nodes)"

definition with_node :: "NodeSnapshot list \<Rightarrow> string \<Rightarrow> (NodeSnapshot \<Rightarrow> 'a run_step) \<Rightarrow> 'a run_step" where
  "with_node nodes nodeID k =
     (case findNode nodes nodeID of None \<Rightarrow> fail (NodeMissing nodeID) | Some node \<Rightarrow> k node)"

definition summarized :: "NodeSnapshot \<Rightarrow> WorkflowSnapshot \<Rightarrow> WorkflowSnapshot" where
  "summarized node run = run\<lparr>ws_nodes := AList.update (ns_id node) (summarizeNode node) (ws_nodes run)\<rparr>"

definition update_attempt :: "Engine \<Rightarrow> AttemptSnapshot \<Rightarrow> unit run_step" where
  "update_attempt engine attempt =
     writeAttempt (en_hash engine) (ca_by_hash (en_catalogs engine)) attempt False"

subsection \<open>Waiting\<close>

definition waitingIfChanged ::
  "Engine \<Rightarrow> bool \<Rightarrow> string \<Rightarrow> int \<Rightarrow> string \<Rightarrow> string \<Rightarrow> bool run_step" where
  "waitingIfChanged engine active nodeID number reason message =
     next_step ReadWorkflow (\<lambda>normalized.
     controllerMutation active (\<lambda>run nodes.
     with_node nodes nodeID (\<lambda>node.
     next_step (ReadAttempt nodeID number) (\<lambda>attempt.
     let nodeChanged = (as_phase attempt \<noteq> NodePhaseWaiting \<or> as_reason attempt \<noteq> reason
           \<or> ns_phase node \<noteq> NodePhaseWaiting \<or> ns_reason node \<noteq> reason \<or> ns_diagnostic node \<noteq> message);
         before = run
     in next_step clock_now (\<lambda>now.
     let attempt = attempt\<lparr>as_phase := NodePhaseWaiting, as_reason := reason, as_updated_at := now\<rparr>;
         node = node\<lparr>ns_phase := NodePhaseWaiting, ns_reason := reason, ns_diagnostic := message, ns_updated_at := now\<rparr>;
         run = fst (aggregateRunState run (set_node nodeID node nodes) (nz_document normalized) now)
     in if \<not> nodeChanged \<and> \<not> aggregateRunStateChanged before run then ret False
        else next_step
          (if nodeChanged
           then next_step (WriteNode (ns_id node) node) (\<lambda>_.
                next_step (update_attempt engine attempt) (\<lambda>_. ret (summarized node run)))
           else ret run) (\<lambda>run.
        next_step (persistRun run (Some node) ''node.waiting'' message) (\<lambda>_. ret True)))))))"

definition waiting :: "Engine \<Rightarrow> bool \<Rightarrow> string \<Rightarrow> int \<Rightarrow> string \<Rightarrow> string \<Rightarrow> unit run_step" where
  "waiting engine active nodeID number reason message =
     next_step (waitingIfChanged engine active nodeID number reason message) (\<lambda>_. ret ())"

definition workflowResultsEqual :: "Result \<Rightarrow> Result \<Rightarrow> bool" where
  "workflowResultsEqual left right \<longleftrightarrow> json_result left = json_result right"

definition waitingWithResult ::
  "Engine \<Rightarrow> bool \<Rightarrow> string \<Rightarrow> int \<Rightarrow> string \<Rightarrow> string \<Rightarrow> Result \<Rightarrow> unit run_step" where
  "waitingWithResult engine active nodeID number reason message result =
     next_step ReadWorkflow (\<lambda>normalized.
     controllerMutation active (\<lambda>run nodes.
     with_node nodes nodeID (\<lambda>node.
     next_step (ReadAttempt nodeID number) (\<lambda>attempt.
     let resultChanged = (case ns_result node of None \<Rightarrow> True | Some r \<Rightarrow> \<not> workflowResultsEqual r result);
         nodeChanged = (resultChanged \<or> \<not> as_result_consumed attempt
           \<or> as_phase attempt \<noteq> NodePhaseWaiting \<or> as_reason attempt \<noteq> reason
           \<or> ns_phase node \<noteq> NodePhaseWaiting \<or> ns_reason node \<noteq> reason \<or> ns_diagnostic node \<noteq> message);
         before = run
     in next_step clock_now (\<lambda>now.
     let attempt = attempt\<lparr>as_phase := NodePhaseWaiting, as_reason := reason, as_result_consumed := True,
           as_updated_at := now\<rparr>;
         node = node\<lparr>ns_phase := NodePhaseWaiting, ns_reason := reason, ns_diagnostic := message,
           ns_result := Some result, ns_updated_at := now\<rparr>;
         run = fst (aggregateRunState run (set_node nodeID node nodes) (nz_document normalized) now)
     in if \<not> nodeChanged \<and> \<not> aggregateRunStateChanged before run then ret ()
        else next_step
          (if nodeChanged
           then next_step (WriteResult (ns_id node) number result) (\<lambda>_.
                next_step (WriteNode (ns_id node) node) (\<lambda>_.
                next_step (update_attempt engine attempt) (\<lambda>_. ret (summarized node run, ''node.waiting''))))
           else ret (run, ''run.waiting'')) (\<lambda>(run, eventType).
        next_step (persistRun run (Some node) eventType message) (\<lambda>_. ret ())))))))"

subsection \<open>The end of an Attempt\<close>

definition finishIndeterminate :: "Engine \<Rightarrow> bool \<Rightarrow> string \<Rightarrow> int \<Rightarrow> string \<Rightarrow> unit run_step" where
  "finishIndeterminate engine active nodeID number message =
     controllerMutation active (\<lambda>run nodes.
     with_node nodes nodeID (\<lambda>node.
     next_step (ReadAttempt nodeID number) (\<lambda>attempt.
     next_step clock_now (\<lambda>now.
     let attempt = attempt\<lparr>as_phase := NodePhaseCompleted, as_conclusion := ConclusionIndeterminate,
           as_updated_at := now, as_completed_at := Some now, as_side_effect := SideEffectUnknown\<rparr>;
         node = node\<lparr>ns_phase := NodePhaseCompleted, ns_conclusion := ConclusionIndeterminate, ns_reason := '''',
           ns_diagnostic := message, ns_updated_at := now\<rparr>;
         run = run\<lparr>ws_phase := PhaseRunning, ws_conclusion := '''', ws_reason := '''', ws_active_node := '''',
           ws_summary := message, ws_updated_at := now\<rparr>
     in next_step (update_attempt engine attempt) (\<lambda>_.
        next_step (WriteNode (ns_id node) node) (\<lambda>_.
        next_step (persistRun (summarized node run) (Some node) ''node.completed'' message) (\<lambda>_. ret ())))))))"

definition finish_succeeded ::
  "Engine \<Rightarrow> bool \<Rightarrow> string \<Rightarrow> int \<Rightarrow> BackendResult \<Rightarrow> Result \<Rightarrow> unit run_step" where
  "finish_succeeded engine active nodeID number result normalized =
     controllerMutation active (\<lambda>run nodes.
     with_node nodes nodeID (\<lambda>node.
     next_step (ReadAttempt nodeID number) (\<lambda>attempt.
     next_step clock_now (\<lambda>now.
     let attempt = attempt\<lparr>as_phase := NodePhaseCompleted, as_conclusion := ConclusionSucceeded,
           as_result_consumed := True, as_updated_at := now, as_completed_at := Some now,
           as_side_effect := br_side_effect result\<rparr>;
         node = node\<lparr>ns_phase := NodePhaseCompleted, ns_conclusion := ConclusionSucceeded, ns_reason := '''',
           ns_diagnostic := '''', ns_result := Some normalized, ns_updated_at := now\<rparr>
     in next_step (WriteResult nodeID number normalized) (\<lambda>_.
        next_step (WriteNode nodeID node) (\<lambda>_.
        next_step (update_attempt engine attempt) (\<lambda>_.
        let run = run\<lparr>ws_nodes := AList.update nodeID (summarizeNode node) (ws_nodes run), ws_active_node := '''',
              ws_phase := PhaseRunning, ws_reason := '''', ws_summary := res_summary normalized, ws_updated_at := now\<rparr>
        in next_step (persistRun run (Some node) ''node.completed'' (res_summary normalized)) (\<lambda>_. ret ()))))))))"

definition finish_failed ::
  "Engine \<Rightarrow> bool \<Rightarrow> string \<Rightarrow> int \<Rightarrow> BackendResult \<Rightarrow> Result \<Rightarrow> unit run_step" where
  "finish_failed engine active nodeID number result normalized =
     controllerMutation active (\<lambda>run nodes.
     with_node nodes nodeID (\<lambda>node.
     next_step (ReadAttempt nodeID number) (\<lambda>attempt.
     next_step clock_now (\<lambda>now.
     let attempt = attempt\<lparr>as_phase := NodePhaseCompleted, as_conclusion := ConclusionFailed,
           as_result_consumed := True, as_updated_at := now, as_completed_at := Some now,
           as_side_effect := (if br_side_effect result = '''' then SideEffectUnknown else br_side_effect result),
           as_failure_class := br_failure_class result\<rparr>;
         node = node\<lparr>ns_phase := NodePhaseCompleted, ns_conclusion := ConclusionFailed, ns_reason := '''',
           ns_diagnostic := br_summary result, ns_result := Some normalized, ns_updated_at := now\<rparr>
     in next_step (WriteResult nodeID number normalized) (\<lambda>_.
        next_step (WriteNode nodeID node) (\<lambda>_.
        next_step (update_attempt engine attempt) (\<lambda>_.
        let run = run\<lparr>ws_nodes := AList.update nodeID (summarizeNode node) (ws_nodes run),
              ws_phase := PhaseRunning, ws_conclusion := '''', ws_reason := '''', ws_active_node := '''',
              ws_summary := br_summary result, ws_updated_at := now\<rparr>
        in next_step (persistRun run (Some node) ''node.completed'' (ws_summary run)) (\<lambda>_. ret ()))))))))"

definition nil_empty :: "'a list \<Rightarrow> 'a list option" where
  "nil_empty xs = (if xs = [] then None else Some xs)"

definition workflow_result :: "BackendResult \<Rightarrow> Result" where
  "workflow_result result =
     \<lparr>res_summary = br_summary result, res_artifacts = nil_empty (br_artifacts result),
      res_warnings = nil_empty (br_warnings result), res_checks = nil_empty (br_checks result),
      res_questions = br_questions result, res_usage = br_usage result, res_decision = '''', res_reason = ''''\<rparr>"

definition finishResult ::
  "Engine \<Rightarrow> bool \<Rightarrow> string \<Rightarrow> int \<Rightarrow> BackendResult option \<Rightarrow> bool run_step" where
  "finishResult engine active nodeID number result0 =
     (let wait = (\<lambda>reason message. next_step (waiting engine active nodeID number reason message) (\<lambda>_. ret False))
      in case result0 of
        None \<Rightarrow> wait ReasonCompletionMissing ''Backend returned no result''
      | Some result \<Rightarrow>
          let normalized = workflow_result result; status = to_lower (br_status result)
          in if status \<in> set [''succeeded'', ''completed'']
          then (case ValidateResult normalized of
              Inl e \<Rightarrow> wait ReasonInvalidResult (en_explain_result engine e)
            | Inr _ \<Rightarrow> next_step (finish_succeeded engine active nodeID number result normalized) (\<lambda>_. ret True))
          else if status \<in> set [''failed'', ''error'']
          then (case ValidateResult normalized of
              Inl e \<Rightarrow> wait ReasonInvalidResult (en_explain_result engine e)
            | Inr _ \<Rightarrow> next_step (finish_failed engine active nodeID number result normalized) (\<lambda>_. ret True))
          else if status \<in> set [''needs_input'', ''waiting_input'', ''blocked'', ''waitinginput'']
          then (if res_questions normalized = []
            then wait ReasonInvalidResult ''needs_input result requires at least one question''
            else case ValidateResult normalized of
              Inl e \<Rightarrow> wait ReasonInvalidResult (en_explain_result engine e)
            | Inr _ \<Rightarrow> next_step
                (waitingWithResult engine active nodeID number ReasonAgentWaitingInput (br_summary result) normalized)
                (\<lambda>_. ret False))
          else if status \<in> set [''completion_missing'', ''idle''] then wait ReasonCompletionMissing (br_summary result)
          else if status = ''invalid_result'' then wait ReasonInvalidResult (br_summary result)
          else if status \<in> set [''indeterminate'', ''exited'', ''lost'']
          then next_step (finishIndeterminate engine active nodeID number (br_summary result)) (\<lambda>_. ret True)
          else wait ReasonCompletionMissing (''unrecognized Backend result status '' @ br_status result))"

definition pauseControllerOnError :: "bool \<Rightarrow> string \<Rightarrow> unit run_step" where
  "pauseControllerOnError active cause =
     controllerMutation active (\<lambda>run nodes.
     next_step clock_now (\<lambda>now.
     next_step (persistRun (run\<lparr>ws_phase := PhaseWaiting, ws_reason := ReasonCompletionMissing, ws_summary := cause,
         ws_updated_at := now\<rparr>) None ''run.waiting'' cause) (\<lambda>_. ret ())))"

subsection \<open>Launches\<close>

definition beginBackendLaunch :: "Engine \<Rightarrow> bool \<Rightarrow> pendingLaunch \<Rightarrow> unit run_step" where
  "beginBackendLaunch engine active launch =
     (if \<not> active then fail ControllerInactive
      else next_step loadRun (\<lambda>(run, nodes).
        if ws_cancel_requested run \<or> ws_phase run = PhaseCancelling \<or> ws_phase run = PhaseCompleted
        then fail ControllerInactive
        else next_step (ReadAttempt (pl_node_id launch) (pl_attempt launch)) (\<lambda>attempt.
          next_step clock_now (\<lambda>now.
          update_attempt engine (attempt\<lparr>as_launch_state := LaunchDispatching, as_updated_at := now\<rparr>)))))"

definition owns_execution :: "AttemptSnapshot \<Rightarrow> bool" where
  "owns_execution attempt \<longleftrightarrow> (case as_execution attempt of None \<Rightarrow> False | Some handle \<Rightarrow> eh_id handle \<noteq> '''')"

definition markLaunchFinishedWithoutHandle :: "Engine \<Rightarrow> pendingLaunch \<Rightarrow> unit run_step" where
  "markLaunchFinishedWithoutHandle engine launch =
     next_step (ReadAttempt (pl_node_id launch) (pl_attempt launch)) (\<lambda>attempt.
       if owns_execution attempt then ret ()
       else next_step clock_now (\<lambda>now.
         update_attempt engine (attempt\<lparr>as_launch_state := LaunchFinishedWithoutHandle, as_updated_at := now\<rparr>)))"

definition persistExecutionHandle :: "Engine \<Rightarrow> pendingLaunch \<Rightarrow> ExecutionHandle \<Rightarrow> unit run_step" where
  "persistExecutionHandle engine launch handle =
     (case ValidateExecutionHandle handle of
        Inl e \<Rightarrow> fail (LaunchFailed (BadHandle e))
      | Inr _ \<Rightarrow>
          if DriverName handle \<noteq> pl_backend launch
          then fail (LaunchFailed (OtherDriver (pl_backend launch) (DriverName handle)))
          else next_step (ReadAttempt (pl_node_id launch) (pl_attempt launch)) (\<lambda>attempt.
            if owns_execution attempt \<and> eh_id (the (as_execution attempt)) \<noteq> eh_id handle
            then fail (LaunchFailed (Owned (as_number attempt) (eh_id (the (as_execution attempt)))))
            else next_step clock_now (\<lambda>now.
              update_attempt engine (attempt\<lparr>as_launch_state := LaunchHandlePersisted, as_execution := Some handle,
                as_updated_at := now\<rparr>))))"

definition executionHandle :: "AttemptSnapshot \<Rightarrow> LaunchError + ExecutionHandle option" where
  "executionHandle attempt =
     (case as_execution attempt of
        None \<Rightarrow> Inr None
      | Some handle \<Rightarrow>
          (case ValidateExecutionHandle handle of
             Inl e \<Rightarrow> Inl (BadHandle e)
           | Inr _ \<Rightarrow>
               if DriverName handle \<noteq> attemptDriver attempt
               then Inl (OtherDriver (attemptDriver attempt) (DriverName handle))
               else if executionTarget handle \<noteq> attemptTarget attempt
               then Inl (OtherTarget (attemptTarget attempt) (executionTarget handle))
               else Inr (Some handle)))"

text \<open>
  What a launch leaves behind: \<open>started\<close> is what the back end's \<^verbatim>\<open>Start\<close> returned,
  a handle or none and possibly an error.
\<close>

definition launched :: "ExecutionHandle option \<Rightarrow> bool" where
  "launched handle \<longleftrightarrow> (case handle of None \<Rightarrow> False | Some h \<Rightarrow> eh_id h \<noteq> '''')"

definition startPendingLaunch ::
  "Engine \<Rightarrow> bool \<Rightarrow> (AgentExecutionSpec \<Rightarrow> ExecutionHandle option \<times> string option) \<Rightarrow> pendingLaunch \<Rightarrow>
     (ExecutionHandle option \<times> string option) run_step" where
  "startPendingLaunch engine active start launch files =
     (case beginBackendLaunch engine active launch files of
        (Inl e, files') \<Rightarrow> (Inr (None, Some (en_explain engine e)), files')
      | (Inr _, files') \<Rightarrow>
          if en_backends engine (pl_backend launch) = None
          then (Inr (None, Some (en_explain engine (LaunchFailed (NoBackend (pl_backend launch))))), files')
          else let (handle, err) = start (pl_launch_spec launch)
            in (case (if launched handle then persistExecutionHandle engine launch (the handle)
                      else markLaunchFinishedWithoutHandle engine launch) files' of
                  (Inl e, files'') \<Rightarrow>
                    (Inr (handle, Some (case err of None \<Rightarrow> en_explain engine e
                       | Some text \<Rightarrow> text @ ''; '' @ en_explain engine e)), files'')
                | (Inr _, files'') \<Rightarrow> (Inr (handle, err), files'')))"

definition settleLaunch ::
  "Engine \<Rightarrow> bool \<Rightarrow> pendingLaunch \<Rightarrow> ExecutionHandle option \<times> string option \<Rightarrow> unit run_step" where
  "settleLaunch engine active launch outcome =
     (case outcome of
        (handle, Some text) \<Rightarrow>
          if launched handle
          then waiting engine active (pl_node_id launch) (pl_attempt launch) ReasonCompletionMissing
            (''Agent execution started but Backend post-start setup failed: '' @ text)
          else finishIndeterminate engine active (pl_node_id launch) (pl_attempt launch)
            (''Backend launch outcome is unknown: '' @ text)
      | (handle, None) \<Rightarrow>
          if launched handle then ret ()
          else finishIndeterminate engine active (pl_node_id launch) (pl_attempt launch)
            ''Backend launch returned no execution handle'')"

subsection \<open>Observations\<close>

text \<open>
  \<^verbatim>\<open>observeAttempt\<close> up to the call of the back end: an Attempt whose answer is awaited
  is settled; without a handle it counts as lost. \<open>observe\<close> is what the back end finally
  reported, after the bounded polling of a pending result.
\<close>

datatype Observed = Settled | ObserveError string | Observation "ExecutionObservation option"

definition observeAttempt ::
  "Engine \<Rightarrow> (string \<Rightarrow> ExecutionHandle \<Rightarrow> string + ExecutionObservation option) \<Rightarrow> string \<Rightarrow> int \<Rightarrow> Observed run_step" where
  "observeAttempt engine observe nodeID number files =
     (case ReadAttempt nodeID number files of
        (Inl e, files') \<Rightarrow> (Inr (ObserveError (en_explain engine e)), files')
      | (Inr attempt, files') \<Rightarrow>
          if as_result_consumed attempt \<and> as_phase attempt = NodePhaseWaiting
             \<and> as_reason attempt = ReasonAgentWaitingInput
          then (Inr Settled, files')
          else if en_backends engine (attemptDriver attempt) = None
          then (Inr (ObserveError (''select persisted Backend: ''
                 @ en_explain engine (LaunchFailed (NoBackend (attemptDriver attempt))))), files')
          else case executionHandle attempt of
            Inl e \<Rightarrow> (Inr (ObserveError (''decode persisted execution handle: '' @ en_explain engine (LaunchFailed e))), files')
          | Inr None \<Rightarrow>
              (Inr (Observation (Some \<lparr>eo_state = ObservationLost, eo_result = None,
                 eo_diagnostic = ''Attempt exists without a persisted execution handle''\<rparr>)), files')
          | Inr (Some handle) \<Rightarrow>
              (case observe nodeID handle of
                 Inl e \<Rightarrow> (Inr (ObserveError e), files')
               | Inr observation \<Rightarrow> (Inr (Observation observation), files')))"

text \<open>What the controller does with one observation; the value tells whether it progressed.\<close>

definition applyObservation :: "Engine \<Rightarrow> bool \<Rightarrow> string \<Rightarrow> int \<Rightarrow> Observed \<Rightarrow> bool run_step" where
  "applyObservation engine active nodeID number observed =
     (let record_waiting = waitingIfChanged engine active nodeID number;
          worded = (\<lambda>d text. if d = '''' then text else d)
      in case observed of
        Settled \<Rightarrow> ret False
      | ObserveError e \<Rightarrow> record_waiting ReasonCompletionMissing e
      | Observation None \<Rightarrow> record_waiting ReasonCompletionMissing ''Backend returned no execution observation''
      | Observation (Some observation) \<Rightarrow>
          if eo_state observation = ObservationTerminal
          then (case ValidateExecutionObservation observation of
              Inl e \<Rightarrow> record_waiting ReasonInvalidResult (en_explain_observation engine e)
            | Inr _ \<Rightarrow> next_step (finishResult engine active nodeID number (eo_result observation)) (\<lambda>_. ret True))
          else if eo_state observation = ObservationWaitingInput
          then record_waiting ReasonAgentWaitingInput (worded (eo_diagnostic observation) ''Agent is waiting for input'')
          else if eo_state observation = ObservationResultPending
          then record_waiting ReasonCompletionMissing
            (worded (eo_diagnostic observation) ''Agent result remained unavailable after bounded reconciliation'')
          else if eo_state observation = ObservationLost
          then next_step (finishIndeterminate engine active nodeID number
              ''Agent execution was lost without a valid terminal result'') (\<lambda>_. ret True)
          else if eo_state observation = ObservationActive then ret False
          else record_waiting ReasonCompletionMissing
            (''Backend returned unsupported observation state '' @ en_quote engine (eo_state observation)))"

fun apply_observations :: "Engine \<Rightarrow> bool \<Rightarrow> bool \<Rightarrow> ((string \<times> int) \<times> Observed) list \<Rightarrow> bool run_step" where
  "apply_observations engine active progressed [] = ret progressed"
| "apply_observations engine active progressed (((nodeID, number), observed) # results) =
     next_step (applyObservation engine active nodeID number observed) (\<lambda>changed.
       apply_observations engine active (progressed \<or> changed) results)"

fun observe_all ::
  "Engine \<Rightarrow> (string \<Rightarrow> ExecutionHandle \<Rightarrow> string + ExecutionObservation option) \<Rightarrow> (string \<times> int) list
     \<Rightarrow> ((string \<times> int) \<times> Observed) list run_step" where
  "observe_all engine observe [] = ret []"
| "observe_all engine observe ((nodeID, number) # refs) =
     next_step (observeAttempt engine observe nodeID number) (\<lambda>observed.
     next_step (observe_all engine observe refs) (\<lambda>results. ret (((nodeID, number), observed) # results)))"

fun all_waiting :: "NodeSnapshot list \<Rightarrow> (string \<times> int) list \<Rightarrow> bool run_step" where
  "all_waiting nodes [] = ret True"
| "all_waiting nodes ((i, number) # refs) =
     with_node nodes i (\<lambda>node. if ns_phase node \<noteq> NodePhaseWaiting then ret False else all_waiting nodes refs)"

definition reconcileAttempts ::
  "Engine \<Rightarrow> bool \<Rightarrow> (string \<Rightarrow> ExecutionHandle \<Rightarrow> string + ExecutionObservation option) \<Rightarrow> (string \<times> int) list
     \<Rightarrow> (bool \<times> bool) run_step" where
  "reconcileAttempts engine active observe refs =
     next_step (observe_all engine observe refs) (\<lambda>results.
     next_step (apply_observations engine active False results) (\<lambda>progressed.
     next_step loadRun (\<lambda>(run, nodes).
     let others = findActiveAttempts nodes
     in next_step (all_waiting nodes others) (\<lambda>waits. ret (progressed, others \<noteq> [] \<and> waits)))))"

subsection \<open>Scheduling\<close>

fun skip_scheduled ::
  "string \<Rightarrow> string \<Rightarrow> WorkflowSnapshot \<Rightarrow> NodeSnapshot list \<Rightarrow> string list \<Rightarrow> (WorkflowSnapshot \<times> NodeSnapshot list) run_step" where
  "skip_scheduled reason message run nodes [] = ret (run, nodes)"
| "skip_scheduled reason message run nodes (nodeID # ids) =
     with_node nodes nodeID (\<lambda>node.
     next_step clock_now (\<lambda>now.
     let node = node\<lparr>ns_phase := NodePhaseSkipped, ns_reason := reason, ns_diagnostic := message, ns_updated_at := now\<rparr>
     in next_step (WriteNode (ns_id node) node) (\<lambda>_.
        next_step (persistRun (summarized node run) (Some node) ''node.skipped'' (ns_diagnostic node)) (\<lambda>run.
        skip_scheduled reason message run (set_node nodeID node nodes) ids))))"

definition render_text ::
  "Normalized \<Rightarrow> (string, Result) gomap \<Rightarrow> string \<Rightarrow> string \<Rightarrow> string run_step" where
  "render_text normalized results nodeID source =
     next_step (check (\<lambda>e. LaunchFailed (TemplateError e))
       (ParseTemplate source (doc_inputs (nz_document normalized)) (ancestorSet (nz_document normalized) nodeID)))
       (\<lambda>template. check (\<lambda>e. LaunchFailed (RenderError e)) (Render template (nz_inputs normalized) results))"

fun hold_approvals ::
  "Normalized \<Rightarrow> (string, Result) gomap \<Rightarrow> WorkflowSnapshot \<Rightarrow> NodeSnapshot list \<Rightarrow> string list
     \<Rightarrow> (WorkflowSnapshot \<times> NodeSnapshot list) run_step" where
  "hold_approvals normalized results run nodes [] = ret (run, nodes)"
| "hold_approvals normalized results run nodes (nodeID # ids) =
     with_node nodes nodeID (\<lambda>node.
     next_step (render_text normalized results (ns_id node) (n_prompt (get_node (nz_document normalized) nodeID))) (\<lambda>prompt.
     next_step clock_now (\<lambda>now.
     let node = node\<lparr>ns_phase := NodePhaseWaiting, ns_reason := ReasonApprovalRequired, ns_diagnostic := prompt,
           ns_updated_at := now\<rparr>;
         run = run\<lparr>ws_summary := prompt\<rparr>
     in next_step (WriteNode (ns_id node) node) (\<lambda>_.
        next_step (persistRun (summarized node run) (Some node) ''node.approval_required'' prompt) (\<lambda>run.
        hold_approvals normalized results run (set_node nodeID node nodes) ids)))))"

definition legacyToolForDriver :: "Engine \<Rightarrow> string \<Rightarrow> string" where
  "legacyToolForDriver engine driver =
     (case en_backends engine driver of
        None \<Rightarrow> driver
      | Some capabilities \<Rightarrow>
          (case cap_tools capabilities of
             tool # _ \<Rightarrow> if \<not> blank tool then tool else driver
           | [] \<Rightarrow> driver))"

definition context_assembly ::
  "Normalized \<Rightarrow> (string, Result) gomap \<Rightarrow> WorkflowSnapshot \<Rightarrow> NodeSnapshot \<Rightarrow> string \<Rightarrow> string \<Rightarrow> int \<Rightarrow> ContextAssembly" where
  "context_assembly normalized results run node target renderedTask number =
     (let definition = get_node (nz_document normalized) (ns_id node);
          dependencies = contextDependencySet normalized (ns_id node)
      in \<lparr>cx_identity = \<lparr>ai_run_id = ws_id run, ai_node_id = ns_id node, ai_attempt = number\<rparr>,
          cx_project = ws_project run, cx_target = target, cx_node_id = ns_id node, cx_node_task = renderedTask,
          cx_required_skills = n_required_skills definition,
          cx_workflow_policy = workflowPolicy (nz_document normalized), cx_policy_version = nz_policy_version normalized,
          cx_project_instructions = cp_project_instructions (EffectiveContextPolicy (nz_document normalized) definition),
          cx_dependency_results = filter (\<lambda>(i, _). i \<in> set dependencies) results,
          cx_user_answer = ns_pending_answer node, cx_selected_memory = [], cx_selected_memory_ids = [],
          cx_memory_bindings = (case map_of (nz_memory_bindings normalized) (ns_id node) of
             None \<Rightarrow> [] | Some bindings \<Rightarrow> bindings)\<rparr>)"

definition new_attempt ::
  "WorkflowSnapshot \<Rightarrow> NodeSnapshot \<Rightarrow> string \<Rightarrow> string \<Rightarrow> (RoutingDecisionV1 \<times> RoutingUsageV1) option
     \<Rightarrow> ExecutionProfileV1 option \<Rightarrow> compiledRunContext \<Rightarrow> MemoryUsageReceipt option \<Rightarrow> int \<Rightarrow> instant \<Rightarrow> AttemptSnapshot" where
  "new_attempt run node driver target route profile compiled memoryUsage number now =
     \<lparr>as_protocol_version = protocolVersion, as_schema_version = stateSchemaVersion, as_run_id = ws_id run,
      as_node_id = ns_id node, as_number = number, as_phase = NodePhaseRunning, as_conclusion = '''', as_reason = '''',
      as_resolved_driver = driver, as_resolved_target = target, as_backend = driver, as_launch_state = LaunchPrepared,
      as_execution = None, as_result_consumed = False, as_compiler_version = ''context-compiler/v1'',
      as_compiler_version_v2 = mf_compiler_version (cv_manifest (crc_compilation compiled)),
      as_manifest = crc_legacy_manifest compiled, as_manifest_v2 = Some (cv_manifest (crc_compilation compiled)),
      as_context_hash = cv_hash (crc_compilation compiled), as_routing_decision = map_option fst route,
      as_execution_profile = profile, as_routing_usage = map_option snd route, as_side_effect = '''',
      as_failure_class = '''', as_memory_usage = memoryUsage, as_prompt_hash = '''', as_started_at = now,
      as_updated_at = now, as_completed_at = None\<rparr>"

definition launch_spec ::
  "Engine \<Rightarrow> WorkflowSnapshot \<Rightarrow> NodeSnapshot \<Rightarrow> string \<Rightarrow> string \<Rightarrow> RoutingDecisionV1 option \<Rightarrow> ExecutionProfileV1 option
     \<Rightarrow> AttemptEnvelope \<Rightarrow> string list \<Rightarrow> int \<Rightarrow> pendingLaunch" where
  "launch_spec engine run node driver target decision profile envelope skills number =
     \<lparr>pl_node_id = ns_id node, pl_attempt = number, pl_backend = driver,
      pl_launch_spec =
        \<lparr>xs_run_id = ws_id run, xs_node_id = ns_id node, xs_attempt = number, xs_workspace = ws_project run,
         xs_tool = legacyToolForDriver engine driver, xs_runtime = target, xs_model = routingModel decision,
         xs_reasoning_effort = routingReasoningEffort profile, xs_instructions = ae_prompt envelope,
         xs_required_skills = skills,
         xs_result_contract = \<lparr>brc_schema = rc_schema (ae_result_contract envelope), brc_max_bytes = int MaxResultBytes\<rparr>,
         xs_envelope = Some envelope\<rparr>\<rparr>"

fun launch_agents ::
  "Engine \<Rightarrow> Normalized \<Rightarrow> (string, Result) gomap \<Rightarrow> WorkflowSnapshot \<Rightarrow> NodeSnapshot list \<Rightarrow> string list
     \<Rightarrow> (WorkflowSnapshot \<times> NodeSnapshot list \<times> pendingLaunch list) run_step" where
  "launch_agents engine normalized results run nodes [] = ret (run, nodes, [])"
| "launch_agents engine normalized results run nodes (nodeID # ids) =
     with_node nodes nodeID (\<lambda>node.
     let definition = get_node (nz_document normalized) nodeID
     in next_step (render_text normalized results (ns_id node) (n_task definition)) (\<lambda>renderedTask.
     if length renderedTask > MaxPromptBytes then fail (LaunchFailed TooLarge)
     else next_step (check RouteAgent (ResolveAgent (doc_defaults (nz_document normalized)) definition)) (\<lambda>(driver, target).
     next_step (prepareAttemptRouting (en_hash engine) (en_catalogs engine) node driver
       (EffectiveRoutingRequirement (nz_document normalized) definition)) (\<lambda>route.
     let decision = map_option fst route
     in next_step (check id (routingExecutionProfile decision)) (\<lambda>profile.
     next_step clock_now (\<lambda>now.
     let number = ns_current_attempt node + 1;
         assembly = context_assembly normalized results run node target renderedTask number
     in next_step clock_now (\<lambda>asOf.
     next_step (check (\<lambda>e. LaunchFailed (Compile (en_explain_context engine e)))
       (compileRunContext (en_context engine) assembly asOf)) (\<lambda>compiled0.
     let compiled = (case decision of
           None \<Rightarrow> compiled0
         | Some d \<Rightarrow> compiled0\<lparr>crc_envelope := (crc_envelope compiled0)
             \<lparr>ae_routing_decision := Some d, ae_execution_profile := profile\<rparr>\<rparr>)
     in next_step (check (\<lambda>e. LaunchFailed (Memory e))
       (consumeCompiledMemory (en_context engine) (ws_project run) (cx_identity assembly) (crc_compilation compiled))) (\<lambda>memoryUsage.
     next_step (writeAttempt (en_hash engine) (ca_by_hash (en_catalogs engine))
       (new_attempt run node driver target route profile compiled memoryUsage number now) True) (\<lambda>_.
     let node = node\<lparr>ns_phase := NodePhaseRunning, ns_reason := '''', ns_diagnostic := '''', ns_conclusion := '''',
           ns_pending_answer := '''', ns_pending_target := None, ns_current_attempt := number, ns_updated_at := now\<rparr>
     in next_step (WriteNode (ns_id node) node) (\<lambda>_.
     let run = (summarized node run)\<lparr>ws_phase := PhaseRunning, ws_reason := '''', ws_conclusion := '''',
           ws_summary := ''launching Agents'', ws_updated_at := now\<rparr>
     in next_step (persistRun run (Some node) ''node.running'' ''launching Agent attempt'') (\<lambda>run.
     let launch = launch_spec engine run node driver target decision profile (crc_envelope compiled)
           (n_required_skills definition) number
     in next_step (launch_agents engine normalized results run (set_node nodeID node nodes) ids) (\<lambda>(run, nodes, launches).
     ret (run, nodes, launch # launches))))))))))))))"

text \<open>
  One batch under the lock: the skips in the order upstream, condition, policy, then the
  approvals and the agents, and without a launch the aggregated state of the run.
\<close>

definition scheduleBatch ::
  "Engine \<Rightarrow> bool \<Rightarrow> Normalized \<Rightarrow> (bool \<times> bool \<times> pendingLaunch list) run_step" where
  "scheduleBatch engine active normalized =
     controllerMutation active (\<lambda>run nodes.
     case en_backends engine (runDriver run) of
       None \<Rightarrow> fail (LaunchFailed (NoBackend (runDriver run)))
     | Some capabilities \<Rightarrow>
         let limit = cap_max_concurrent capabilities
         in if limit < 0 then fail (LaunchFailed (Schedule BackendConcurrency))
         else next_step (check (\<lambda>e. LaunchFailed (Schedule e))
             (EffectiveConcurrency (doc_max_concurrency (nz_document normalized)) limit)) (\<lambda>effective.
         let run = run\<lparr>ws_effective_concurrency := effective\<rparr>
         in next_step (check (\<lambda>e. LaunchFailed (Schedule e)) (PlanSchedule normalized run nodes limit)) (\<lambda>decision.
         next_step (skip_scheduled ReasonUpstreamFailed ''upstream failed'' run nodes (sd_skip_upstream decision))
           (\<lambda>(run, nodes).
         next_step (skip_scheduled ReasonConditionFalse ''condition evaluated false'' run nodes (sd_skip_conditions decision))
           (\<lambda>(run, nodes).
         next_step (skip_scheduled ReasonFailurePolicy ''not scheduled after workflow failure'' run nodes
             (sd_skip_policy decision)) (\<lambda>(run, nodes).
         let results = node_results nodes
         in next_step (hold_approvals normalized results run nodes (sd_ready_approvals decision)) (\<lambda>(run, nodes).
         next_step (launch_agents engine normalized results run nodes (sd_ready_agents decision)) (\<lambda>(run, nodes, launches).
         let progressed = (sd_skip_upstream decision \<noteq> [] \<or> sd_skip_conditions decision \<noteq> []
               \<or> sd_skip_policy decision \<noteq> [] \<or> sd_ready_approvals decision \<noteq> [] \<or> sd_ready_agents decision \<noteq> [])
         in if launches \<noteq> [] then ret (progressed, False, launches)
            else next_step clock_now (\<lambda>now.
              let (run', eventType, shouldStop) = aggregateRunState run nodes (nz_document normalized) now
              in next_step
                (if eventType \<noteq> '''' \<and> aggregateRunStateChanged run run'
                 then persistRun run' None eventType (ws_summary run') else ret run') (\<lambda>_.
                 ret (progressed, shouldStop, [])))))))))))"

end
