(* ===== verification/Run_Cancellation.thy ===== *)
theory Run_Cancellation
  imports Run_Controller
begin

section \<open>Cancellation (internal/run/cancellation.go, service.go)\<close>

text \<open>
  A cancellation marks its intent on the run, asks the back end of every active Attempt to
  stop, and applies the outcomes: all confirmed, the run is completed as cancelled and what
  has not started is skipped; otherwise the run waits with the nodes that did not stop. The
  answers of back ends are the parameter \<open>cancel\<close>; the polls for a handle end at their
  grace period, so the Attempt they read last is the one \<open>cancelTarget\<close> reads.
\<close>

record CancelRequest =
  cq_expected_version :: "nat option"
  cq_action_id :: string
  cq_action_hash :: string

record cancellationOutcome =
  co_node_id :: string
  co_attempt :: int
  co_confirmed :: bool
  co_diagnostic :: string

text \<open>The two packages declare the type of cancel results with the same fields.\<close>

definition ValidateBackendCancelResult :: "CancelResult \<Rightarrow> BackendError + unit" where
  "ValidateBackendCancelResult result =
     (if cr_state result = CancelConfirmed \<or> cr_state result = CancelNotConfirmed then Inr ()
      else Inl (BkCancelState (cr_state result)))"

subsection \<open>The intent\<close>

fun cancellation_targets ::
  "string \<Rightarrow> (string \<times> int) list \<Rightarrow> NodeSnapshot list \<Rightarrow> (string \<times> (string \<times> int) list) run_step" where
  "cancellation_targets backendName targets [] = ret (backendName, targets)"
| "cancellation_targets backendName targets (node # nodes) =
     (if ns_type node \<noteq> ''agent'' \<or> ns_current_attempt node < 1
         \<or> ns_phase node \<noteq> NodePhaseRunning \<and> ns_phase node \<noteq> NodePhaseWaiting
      then cancellation_targets backendName targets nodes
      else next_step (ReadAttempt (ns_id node) (ns_current_attempt node)) (\<lambda>attempt.
        if as_phase attempt = NodePhaseCompleted \<and> as_conclusion attempt = ConclusionCancelled
        then cancellation_targets backendName targets nodes
        else if backendName \<noteq> '''' \<and> attemptDriver attempt \<noteq> backendName
        then fail (LaunchFailed (Mixed backendName (attemptDriver attempt)))
        else cancellation_targets (if backendName = '''' then attemptDriver attempt else backendName)
          (targets @ [(ns_id node, ns_current_attempt node)]) nodes))"

definition mark_cancelling :: "WorkflowSnapshot \<Rightarrow> instant \<Rightarrow> WorkflowSnapshot" where
  "mark_cancelling run now = run\<lparr>ws_cancel_requested := True, ws_phase := PhaseCancelling, ws_conclusion := '''',
     ws_reason := '''', ws_summary := ''workflow cancellation requested'', ws_updated_at := now\<rparr>"

definition markConcurrentCancellationIntent ::
  "Engine \<Rightarrow> CancelRequest \<Rightarrow> ((string \<times> int) list \<times> bool) run_step" where
  "markConcurrentCancellationIntent engine request =
     next_step loadRun (\<lambda>(run, nodes).
     if (case cq_expected_version request of None \<Rightarrow> False | Some v \<Rightarrow> ws_state_version run \<noteq> v)
     then fail (StateVersionConflict (the (cq_expected_version request)) (ws_state_version run))
     else if ws_phase run = PhaseCompleted then ret ([], False)
     else next_step
       (if \<not> ws_cancel_requested run \<or> ws_phase run \<noteq> PhaseCancelling
        then next_step clock_now (\<lambda>now.
          let run = recordActionReceipt (mark_cancelling run now) (cq_action_id request) (cq_action_hash request)
          in next_step (persistRun run None ''run.cancelling'' (ws_summary run)) (\<lambda>_. ret ()))
        else ret ()) (\<lambda>_.
       next_step (cancellation_targets '''' [] nodes) (\<lambda>(backendName, targets).
       if targets = [] then ret (targets, False)
       else case en_backends engine backendName of
         None \<Rightarrow> fail (LaunchFailed (NoBackend backendName))
       | Some capabilities \<Rightarrow> ret (targets, cap_concurrent_cancel capabilities))))"

subsection \<open>One target\<close>

definition cancellation_handle :: "Engine \<Rightarrow> AttemptSnapshot \<Rightarrow> string + ExecutionHandle option" where
  "cancellation_handle engine attempt =
     (if en_backends engine (attemptDriver attempt) = None
      then Inl (en_explain engine (LaunchFailed (NoBackend (attemptDriver attempt))))
      else case executionHandle attempt of
        Inl e \<Rightarrow> Inl (en_explain engine (LaunchFailed e))
      | Inr (Some handle) \<Rightarrow> Inr (Some handle)
      | Inr None \<Rightarrow>
          if as_launch_state attempt = LaunchPrepared then Inr None
          else if as_launch_state attempt = '''' then Inl
            ''cannot confirm cancellation because the active Attempt predates durable launch-state tracking and has no persisted execution handle''
          else if as_launch_state attempt = LaunchFinishedWithoutHandle then Inl
            ''cannot confirm cancellation because Backend launch finished without a persisted execution handle''
          else if as_launch_state attempt = LaunchHandlePersisted then Inl
            ''cannot confirm cancellation because launch state says the execution handle was persisted but handle data is missing''
          else Inl
            ''cannot confirm cancellation because Backend launch did not persist an execution handle before the cancellation grace expired'')"

definition cancelTarget ::
  "Engine \<Rightarrow> (ExecutionHandle \<Rightarrow> string + CancelResult option) \<Rightarrow> string \<times> int \<Rightarrow> cancellationOutcome run_step" where
  "cancelTarget engine cancel target files =
     (let outcome = (\<lambda>confirmed diagnostic. \<lparr>co_node_id = fst target, co_attempt = snd target,
            co_confirmed = confirmed, co_diagnostic = diagnostic\<rparr>)
      in case ReadAttempt (fst target) (snd target) files of
        (Inl e, files') \<Rightarrow>
          (Inr (outcome False (''read active Attempt while waiting for session persistence: '' @ en_explain engine e)), files')
      | (Inr attempt, files') \<Rightarrow>
          (Inr (case cancellation_handle engine attempt of
             Inl text \<Rightarrow> outcome False text
           | Inr handle \<Rightarrow>
               if as_phase attempt = NodePhaseCompleted then outcome True ''''
               else (case handle of
                 None \<Rightarrow> outcome True ''''
               | Some handle \<Rightarrow>
                   (case cancel handle of
                      Inl text \<Rightarrow> outcome False (''cancel Backend execution: '' @ text)
                    | Inr None \<Rightarrow> outcome False ''Backend returned no cancellation result''
                    | Inr (Some result) \<Rightarrow>
                        (case ValidateBackendCancelResult result of
                           Inl e \<Rightarrow> outcome False (en_explain_observation engine e)
                         | Inr _ \<Rightarrow>
                             if cr_state result \<noteq> CancelConfirmed
                             then outcome False (''Backend did not confirm execution cancellation''
                               @ (if blank (cr_diagnostic result) then '''' else '': '' @ cr_diagnostic result))
                             else outcome True '''')))), files'))"

subsection \<open>The outcomes\<close>

fun apply_outcomes ::
  "Engine \<Rightarrow> string list \<Rightarrow> WorkflowSnapshot \<Rightarrow> NodeSnapshot list \<Rightarrow> cancellationOutcome list
     \<Rightarrow> (string list \<times> WorkflowSnapshot \<times> NodeSnapshot list) run_step" where
  "apply_outcomes engine unresolved run nodes [] = ret (unresolved, run, nodes)"
| "apply_outcomes engine unresolved run nodes (outcome # outcomes) =
     with_node nodes (co_node_id outcome) (\<lambda>node.
     next_step (ReadAttempt (ns_id node) (co_attempt outcome)) (\<lambda>attempt.
     next_step clock_now (\<lambda>now.
     let diagnostic = (if co_confirmed outcome then ''''
           else if co_diagnostic outcome = '''' then ''cancellation was not confirmed'' else co_diagnostic outcome);
         attempt = (if co_confirmed outcome
           then attempt\<lparr>as_phase := NodePhaseCompleted, as_conclusion := ConclusionCancelled,
             as_reason := ReasonUserRequested, as_updated_at := now, as_completed_at := Some now\<rparr>
           else attempt\<lparr>as_phase := NodePhaseWaiting, as_conclusion := '''', as_reason := ReasonCancelFailed,
             as_updated_at := now, as_completed_at := None\<rparr>);
         node = (if co_confirmed outcome
           then node\<lparr>ns_phase := NodePhaseCompleted, ns_conclusion := ConclusionCancelled,
             ns_reason := ReasonUserRequested, ns_diagnostic := diagnostic, ns_updated_at := now\<rparr>
           else node\<lparr>ns_phase := NodePhaseWaiting, ns_conclusion := '''', ns_reason := ReasonCancelFailed,
             ns_diagnostic := diagnostic, ns_updated_at := now\<rparr>);
         unresolved = (if co_confirmed outcome then unresolved else unresolved @ [ns_id node @ '': '' @ diagnostic])
     in next_step (WriteNode (ns_id node) node) (\<lambda>_.
        next_step (update_attempt engine attempt) (\<lambda>_.
        next_step (persistRun (summarized node run) (Some node)
          (if co_confirmed outcome then ''node.cancelled'' else ''node.cancel_failed'') (ns_diagnostic node)) (\<lambda>run.
        apply_outcomes engine unresolved run (set_node (co_node_id outcome) node nodes) outcomes))))))"

definition to_skip :: "NodeSnapshot \<Rightarrow> bool" where
  "to_skip node \<longleftrightarrow> ns_phase node = NodePhasePending \<or> ns_phase node = NodePhaseReady
     \<or> ns_phase node = NodePhaseWaiting \<and> ns_type node = ''approval''"

fun skip_cancelled :: "WorkflowSnapshot \<Rightarrow> NodeSnapshot list \<Rightarrow> WorkflowSnapshot run_step" where
  "skip_cancelled run [] = ret run"
| "skip_cancelled run (node # nodes) =
     (if to_skip node
      then next_step clock_now (\<lambda>now.
        let node = node\<lparr>ns_phase := NodePhaseSkipped, ns_reason := ReasonWorkflowCancelled, ns_diagnostic := '''',
              ns_updated_at := now\<rparr>
        in next_step (WriteNode (ns_id node) node) (\<lambda>_. skip_cancelled (summarized node run) nodes))
      else skip_cancelled run nodes)"

text \<open>The last unconfirmed outcome names the node the summary points to when it is the only one.\<close>

definition unresolved_node :: "string list \<Rightarrow> cancellationOutcome list \<Rightarrow> string" where
  "unresolved_node unresolved outcomes =
     (if length unresolved = 1
      then (case filter (\<lambda>x. \<not> co_confirmed x) outcomes of [] \<Rightarrow> '''' | xs \<Rightarrow> co_node_id (last xs))
      else '''')"

definition applyCancellationOutcomes ::
  "Engine \<Rightarrow> cancellationOutcome list \<Rightarrow> WorkflowSnapshot run_step" where
  "applyCancellationOutcomes engine outcomes =
     next_step loadRun (\<lambda>(run, nodes).
     if ws_phase run = PhaseCompleted then ret run
     else next_step (apply_outcomes engine [] run nodes outcomes) (\<lambda>(unresolved, run, nodes).
       if unresolved \<noteq> []
       then next_step clock_now (\<lambda>now.
         let run = run\<lparr>ws_cancel_requested := True, ws_phase := PhaseWaiting, ws_conclusion := '''',
               ws_reason := ReasonCancelFailed, ws_summary := join_with ''; '' unresolved,
               ws_active_node := unresolved_node unresolved outcomes, ws_updated_at := now\<rparr>
         in next_step (persistRun run None ''run.cancel_failed'' (ws_summary run)) (\<lambda>run.
            fail (LaunchFailed (Unconfirmed (ws_summary run)))))
       else next_step (skip_cancelled run nodes) (\<lambda>run.
         next_step clock_now (\<lambda>now.
         let run = run\<lparr>ws_cancel_requested := True, ws_phase := PhaseCompleted, ws_conclusion := ConclusionCancelled,
               ws_reason := ReasonUserRequested, ws_summary := ''workflow cancelled'', ws_active_node := '''',
               ws_updated_at := now\<rparr>
         in persistRun run None ''run.cancelled'' (ws_summary run)))))"

fun cancel_targets ::
  "Engine \<Rightarrow> (ExecutionHandle \<Rightarrow> string + CancelResult option) \<Rightarrow> (string \<times> int) list
     \<Rightarrow> cancellationOutcome list run_step" where
  "cancel_targets engine cancel [] = ret []"
| "cancel_targets engine cancel (target # targets) =
     next_step (cancelTarget engine cancel target) (\<lambda>outcome.
     next_step (cancel_targets engine cancel targets) (\<lambda>outcomes. ret (outcome # outcomes)))"

definition handleConcurrentCancellationRequest ::
  "Engine \<Rightarrow> (ExecutionHandle \<Rightarrow> string + CancelResult option) \<Rightarrow> CancelRequest \<Rightarrow> WorkflowSnapshot run_step" where
  "handleConcurrentCancellationRequest engine cancel request =
     next_step (markConcurrentCancellationIntent engine request) (\<lambda>(targets, concurrent).
     next_step (cancel_targets engine cancel targets) (\<lambda>outcomes.
     applyCancellationOutcomes engine outcomes))"

end
