(* ===== verification/Run_Soundness.thy ===== *)
theory Run_Soundness
  imports Run_Cancellation Run_Recovery
begin

section \<open>Every commit keeps a run loadable\<close>

text \<open>
  The invariant of the files of a run: they load, every node file carries the ID it is
  filed under, the order has no repetition, and no node waits to be routed to a bound
  target. \<open>keeps run m\<close> says that a step which works on the loaded \<open>run\<close> maintains the
  invariant wherever it stops; it is closed under the operations the commits are made of,
  so that each commit is proved by its structure.
\<close>

definition sound :: "RunFiles \<Rightarrow> bool" where
  "sound f \<longleftrightarrow> loadable f \<and> distinct (ws_order (disk_run f))
     \<and> (\<forall>i node. map_of (rf_nodes f) i = Some node \<longrightarrow> ns_id node = i \<and> ns_pending_target node = None)"

definition sound_node :: "NodeSnapshot \<Rightarrow> bool" where
  "sound_node node \<longleftrightarrow> ValidateNodeSnapshot node = Inr () \<and> ns_pending_target node = None"

definition sound_nodes :: "NodeSnapshot list \<Rightarrow> bool" where
  "sound_nodes nodes \<longleftrightarrow> (\<forall>node \<in> set nodes. sound_node node) \<and> distinct (map ns_id nodes)"

definition run_of :: "WorkflowSnapshot \<Rightarrow> RunFiles \<Rightarrow> bool" where
  "run_of run f \<longleftrightarrow> ws_order run = ws_order (disk_run f) \<and> wf_map (ws_receipts run)"

definition keeps :: "WorkflowSnapshot \<Rightarrow> 'a run_step \<Rightarrow> bool" where
  "keeps run m \<longleftrightarrow> (\<forall>f. sound f \<and> run_of run f \<longrightarrow> wp m (\<lambda>_. sound) (\<lambda>_. sound) f)"

subsection \<open>Steps that touch neither the run, nor its nodes, nor its events\<close>

definition same_files :: "RunFiles \<Rightarrow> RunFiles \<Rightarrow> bool" where
  "same_files f f' \<longleftrightarrow> rf_run f' = rf_run f \<and> rf_nodes f' = rf_nodes f \<and> rf_events f' = rf_events f"

definition aside :: "'a run_step \<Rightarrow> bool" where
  "aside m \<longleftrightarrow> (\<forall>f. same_files f (snd (m f)))"

named_theorems aside_intros \<open>steps that leave the run, the nodes and the events alone\<close>

lemma same_files_refl [simp]: "same_files f f" by (simp add: same_files_def)

lemma same_files_trans: "same_files f g \<Longrightarrow> same_files g h \<Longrightarrow> same_files f h" by (simp add: same_files_def)

lemma sound_same:
  assumes "same_files f f'"
  shows "sound f' \<longleftrightarrow> sound f" "run_of run f' \<longleftrightarrow> run_of run f" "disk_run f' = disk_run f"
  using assms by (simp_all add: same_files_def sound_def loadable_def run_of_def disk_run_def)

lemma aside_ret [aside_intros]: "aside (ret x)" by (simp add: aside_def ret_def)
lemma aside_fail [aside_intros]: "aside (fail e)" by (simp add: aside_def fail_def)
lemma aside_check [aside_intros]: "aside (check w r)" by (simp add: aside_def check_def)
lemma aside_clock [aside_intros]: "aside clock_now" by (simp add: aside_def clock_now_def same_files_def)
lemma aside_look [aside_intros]: "aside (look name sel)" by (simp add: aside_def look_def split: option.split)

lemma aside_next [aside_intros]: "aside m \<Longrightarrow> (\<And>x. aside (k x)) \<Longrightarrow> aside (next_step m k)"
  unfolding aside_def next_step_def
  by (auto split: prod.split sum.split) (metis same_files_trans snd_conv)+

lemma aside_if [aside_intros]: "(c \<Longrightarrow> aside m) \<Longrightarrow> (\<not> c \<Longrightarrow> aside m') \<Longrightarrow> aside (if c then m else m')"
  by simp

lemma aside_option [aside_intros]:
  "(x = None \<Longrightarrow> aside m) \<Longrightarrow> (\<And>y. x = Some y \<Longrightarrow> aside (k y)) \<Longrightarrow> aside (case x of None \<Rightarrow> m | Some y \<Rightarrow> k y)"
  by (simp split: option.split)

lemma aside_sum [aside_intros]:
  "(\<And>e. x = Inl e \<Longrightarrow> aside (k e)) \<Longrightarrow> (\<And>y. x = Inr y \<Longrightarrow> aside (h y)) \<Longrightarrow> aside (case x of Inl e \<Rightarrow> k e | Inr y \<Rightarrow> h y)"
  by (simp split: sum.split)

lemma aside_pair [aside_intros]: "(\<And>a b. x = (a, b) \<Longrightarrow> aside (k a b)) \<Longrightarrow> aside (case x of (a, b) \<Rightarrow> k a b)"
  by (simp split: prod.split)

lemma aside_let [aside_intros]: "aside (k x) \<Longrightarrow> aside (let y = x in k y)" by simp

lemma aside_durable:
  "(\<And>f. same_files f (c f)) \<Longrightarrow> aside (durable c)"
  unfolding aside_def durable_def by (simp add: same_files_def)

lemma aside_validateAttempt [aside_intros]: "aside (validateAttempt i n)"
  unfolding validateAttempt_def validateID_def by (intro aside_intros)

lemma aside_ReadWorkflow [aside_intros]: "aside ReadWorkflow"
  unfolding ReadWorkflow_def by (rule aside_look)

lemma aside_ReadAttempt [aside_intros]: "aside (ReadAttempt i n)"
  unfolding ReadAttempt_def by (intro aside_intros)

lemma aside_ListAttempts [aside_intros]: "aside (ListAttempts i)"
  unfolding ListAttempts_def validateID_def
  by (intro aside_intros) (simp add: aside_def)

lemma aside_WriteResult [aside_intros]: "aside (WriteResult i n r)"
  unfolding WriteResult_def by (intro aside_intros aside_durable) (simp add: same_files_def)

lemma aside_UpdateAttempt [aside_intros]: "aside (UpdateAttempt i n a)"
  unfolding UpdateAttempt_def by (intro aside_intros aside_durable) (simp add: same_files_def)

lemma aside_WriteAttempt [aside_intros]: "aside (WriteAttempt i n a)"
proof -
  let ?w = "next_step (durable (\<lambda>f. f\<lparr>rf_attempts := AList.update (i, n) (marshal_attempt a) (rf_attempts f)\<rparr>))
      (\<lambda>_. durable (\<lambda>f. f))"
  have "aside ?w" by (intro aside_intros aside_durable) (simp_all add: same_files_def)
  then have "aside (\<lambda>files. if map_of (rf_attempts files) (i, n) \<noteq> None then fail (FileExists i) files else ?w files)"
    unfolding aside_def by (auto simp: fail_def)
  then show ?thesis unfolding WriteAttempt_def by (intro aside_intros)
qed

lemma aside_writeAttempt [aside_intros]: "aside (writeAttempt h c a b)"
  unfolding writeAttempt_def by (intro aside_intros)

lemma aside_update_attempt [aside_intros]: "aside (update_attempt engine a)"
  unfolding update_attempt_def by (rule aside_writeAttempt)

lemma aside_add_routing_cost: "aside (add_routing_cost h c i n cost numbers)"
  by (induction h c i n cost numbers rule: add_routing_cost.induct)
    (auto simp: split_def Let_def intro!: aside_intros split: option.split)

lemma aside_prepareAttemptRouting [aside_intros]: "aside (prepareAttemptRouting h c node driver requirement)"
  unfolding prepareAttemptRouting_def continue_route_def routingCostBeforeAttempt_def Let_def
  by (intro aside_intros aside_add_routing_cost)

lemma aside_render_text [aside_intros]: "aside (render_text nz results i source)"
  unfolding render_text_def by (intro aside_intros)

subsection \<open>Steps that keep the invariant\<close>

named_theorems keeps_intros \<open>steps that keep the invariant of the files\<close>

lemma keepsI: "(\<And>f. sound f \<Longrightarrow> run_of run f \<Longrightarrow> wp m (\<lambda>_. sound) (\<lambda>_. sound) f) \<Longrightarrow> keeps run m"
  by (simp add: keeps_def)

lemma keeps_ret [keeps_intros]: "keeps run (ret x)"
  by (rule keepsI) (simp add: wp_simps)

lemma keeps_fail [keeps_intros]: "keeps run (fail e)"
  by (rule keepsI) (simp add: wp_simps)

lemma keeps_aside: assumes "aside m" shows "keeps run m"
proof (rule keepsI)
  fix f
  assume "sound f"
  moreover have "same_files f (snd (m f))" using assms by (simp add: aside_def)
  ultimately have "sound (snd (m f))" by (simp add: sound_same)
  then show "wp m (\<lambda>_. sound) (\<lambda>_. sound) f" by (cases "m f") (auto simp: wp_def split: sum.split)
qed

lemma keeps_next:
  assumes "aside m" "\<And>x. keeps run (k x)"
  shows "keeps run (next_step m k)"
proof (rule keepsI)
  fix f
  assume f: "sound f" "run_of run f"
  obtain r f' where m: "m f = (r, f')" by fastforce
  then have "same_files f f'" using assms(1) by (metis aside_def snd_conv)
  then have "sound f'" "run_of run f'" using f by (simp_all add: sound_same)
  then show "wp (next_step m k) (\<lambda>_. sound) (\<lambda>_. sound) f"
    using assms(2) m by (cases r) (auto simp: wp_simps wp_def [of m] keeps_def)
qed

text \<open>The invariant and the frame of the run after a write of a node.\<close>

lemma loadable_write_node:
  assumes "loadable f" "ValidateNodeSnapshot node = Inr ()"
  shows "loadable (f\<lparr>rf_writes := n, rf_nodes := AList.update i (node_file d node) (rf_nodes f)\<rparr>)"
proof -
  have "ValidateNodeSnapshot (node_file d node) = Inr ()"
    using assms(2) by (simp add: ValidateNodeSnapshot_iff split: option.splits)
  then show ?thesis using assms(1) by (auto simp: loadable_def disk_run_def AList.update_conv')
qed

lemma sound_write_node:
  assumes "sound f" "sound_node node" "i = ns_id node"
  shows "sound (f\<lparr>rf_writes := n, rf_nodes := AList.update i (node_file d node) (rf_nodes f)\<rparr>)"
  using assms loadable_write_node [where f = f and node = node and n = n and i = i and d = d]
  by (auto simp: sound_def sound_node_def disk_run_def AList.update_conv' split: if_splits)

lemma wp_WriteNode_any:
  assumes "E (UnsafeID i) f" "E WriteFailed f"
    and "rf_writes f \<noteq> 0 \<Longrightarrow> Q () (f\<lparr>rf_writes := rf_writes f - 1, rf_nodes := AList.update i (node_file 1 node) (rf_nodes f)\<rparr>)"
  shows "wp (WriteNode i node) Q E f"
  using assms by (simp add: WriteNode_def validateID_def wp_simps)

lemma keeps_WriteNode:
  assumes "sound_node node" "i = ns_id node" "\<And>x. keeps run (k x)"
  shows "keeps run (next_step (WriteNode i node) k)"
proof (rule keepsI)
  fix f
  assume f: "sound f" "run_of run f"
  let ?f = "f\<lparr>rf_writes := rf_writes f - 1, rf_nodes := AList.update i (node_file 1 node) (rf_nodes f)\<rparr>"
  have "sound ?f" using f(1) assms(1,2) by (rule sound_write_node)
  moreover have "run_of run ?f" using f(2) by (simp add: run_of_def disk_run_def)
  ultimately show "wp (next_step (WriteNode i node) k) (\<lambda>_. sound) (\<lambda>_. sound) f"
    unfolding wp_next using f assms(3) by (intro wp_WriteNode_any) (auto simp: keeps_def)
qed

definition frames :: "WorkflowSnapshot \<Rightarrow> WorkflowSnapshot \<Rightarrow> bool" where
  "frames run run' \<longleftrightarrow> ws_order run' = ws_order run \<and> (wf_map (ws_receipts run) \<longrightarrow> wf_map (ws_receipts run'))"

lemma sound_persisted:
  assumes f: "sound f" "run_of run f" and v: "ValidateWorkflowSnapshot run = Inr ()"
    and f': "rf_run f' = Some (marshal_run run)" "rf_nodes f' = rf_nodes f"
      "rf_events f' = rf_events f \<or> (\<exists>e k. scan_events 0 (rf_events f) = Inr k \<and> rf_events f' = rf_events f @ [e] \<and> we_sequence e = k + 1)"
  shows "sound f' \<and> run_of run f'"
proof -
  note d = disk_run_simps [OF f'(1)]
  have "\<exists>k. scan_events 0 (rf_events f') = Inr k"
    using f(1) f'(3) scan_events_snoc by (auto simp: sound_def loadable_def)
  then have "loadable f'"
    using f v f'(1,2) by (simp add: loadable_def d sound_def run_of_def)
  then show ?thesis using f f'(2) by (simp add: sound_def run_of_def d)
qed

lemma keeps_persist:
  assumes "frames run run'" "\<And>v. keeps (run'\<lparr>ws_state_version := v\<rparr>) (k (run'\<lparr>ws_state_version := v\<rparr>))"
  shows "keeps run (next_step (persistRun run' node event message) k)"
proof (rule keepsI)
  fix f
  assume f: "sound f" "run_of run f"
  let ?r = "run'\<lparr>ws_state_version := ws_state_version run' + 1\<rparr>"
  have r: "run_of ?r f" using f(2) assms(1) by (simp add: run_of_def frames_def)
  show "wp (next_step (persistRun run' node event message) k) (\<lambda>_. sound) (\<lambda>_. sound) f"
    unfolding wp_next
  proof (cases "ValidateWorkflowSnapshot ?r")
    case (Inl e)
    then show "wp (persistRun run' node event message) (\<lambda>x. wp (k x) (\<lambda>_. sound) (\<lambda>_. sound)) (\<lambda>_. sound) f"
      using f(1) by (simp add: persistRun_def Let_def wp_simps)
  next
    case (Inr u)
    then have v: "ValidateWorkflowSnapshot ?r = Inr ()" by simp
    obtain n where n: "scan_events 0 (rf_events f) = Inr n" using f(1) by (auto simp: sound_def loadable_def)
    show "wp (persistRun run' node event message) (\<lambda>x. wp (k x) (\<lambda>_. sound) (\<lambda>_. sound)) (\<lambda>_. sound) f"
    proof (rule persistRun_wp [OF v n le0], goal_cases)
      case (1 f')
      then have "same_files f f'" by (simp add: same_files_def)
      then show ?case using f(1) by (simp add: sound_same)
    next
      case (2 f')
      then show ?case using sound_persisted [OF f(1) r v, of f'] by simp
    next
      case (3 f' e)
      then have "sound f' \<and> run_of ?r f'" using sound_persisted [OF f(1) r v, of f'] n by blast
      then show ?case using assms(2) by (simp add: keeps_def)
    qed
  qed
qed

lemma keeps_frame: "keeps run' m \<Longrightarrow> frames run run' \<Longrightarrow> keeps run m"
  by (auto simp: keeps_def run_of_def frames_def)

lemma keeps_if [keeps_intros]: "(c \<Longrightarrow> keeps run m) \<Longrightarrow> (\<not> c \<Longrightarrow> keeps run m') \<Longrightarrow> keeps run (if c then m else m')"
  by simp

lemma keeps_option [keeps_intros]:
  "(x = None \<Longrightarrow> keeps run m) \<Longrightarrow> (\<And>y. x = Some y \<Longrightarrow> keeps run (k y)) \<Longrightarrow>
     keeps run (case x of None \<Rightarrow> m | Some y \<Rightarrow> k y)"
  by (simp split: option.split)

lemma keeps_sum [keeps_intros]:
  "(\<And>e. x = Inl e \<Longrightarrow> keeps run (k e)) \<Longrightarrow> (\<And>y. x = Inr y \<Longrightarrow> keeps run (h y)) \<Longrightarrow>
     keeps run (case x of Inl e \<Rightarrow> k e | Inr y \<Rightarrow> h y)"
  by (simp split: sum.split)

text \<open>How intermediate steps are taken apart.\<close>

lemma next_step_if: "next_step (if c then m else m') k = (if c then next_step m k else next_step m' k)"
  by simp

lemmas step_simps = next_step_assoc next_step_ret next_step_fail next_step_if

subsection \<open>Loading\<close>

lemma load_nodes_result:
  "load_nodes ids f = (Inr nodes, f') \<Longrightarrow> f' = f \<and>
     list_all2 (\<lambda>i node. \<exists>n. map_of (rf_nodes f) i = Some n \<and> ValidateNodeSnapshot n = Inr ()
       \<and> node = n\<lparr>ns_schema_version := (if ns_schema_version n = 0 then 1 else ns_schema_version n)\<rparr>) ids nodes"
proof (induction ids arbitrary: nodes)
  case Nil
  then show ?case by (simp add: ret_def)
next
  case (Cons i ids)
  obtain n where n: "ReadNode i f = (Inr n, f)" "map_of (rf_nodes f) i = Some n" "safeID i"
    using Cons.prems
    by (cases "safeID i"; cases "map_of (rf_nodes f) i")
      (auto simp: next_step_def ReadNode_def validateID_def ret_def fail_def look_def)
  then obtain rest where r: "load_nodes ids f = (Inr rest, f')" "ValidateNodeSnapshot n = Inr ()"
    "nodes = n\<lparr>ns_schema_version := (if ns_schema_version n = 0 then 1 else ns_schema_version n)\<rparr> # rest"
    using Cons.prems by (cases "load_nodes ids f"; cases "fst (load_nodes ids f)"; cases "ValidateNodeSnapshot n")
      (auto simp: next_step_def check_def ret_def)
  from Cons.IH [OF r(1)] show ?case using n(2) r(2,3) by (simp only: list_all2_Cons simp_thms) blast
qed

lemma sound_loadable: "sound f \<Longrightarrow> loadable f" by (simp add: sound_def)

lemma loadable_loaded:
  assumes "loadable f" "loadRun f = (Inr (run, nodes), f')"
  shows "f' = f" "run = disk_run f"
    "list_all2 (\<lambda>i node. \<exists>n. map_of (rf_nodes f) i = Some n \<and> ValidateNodeSnapshot n = Inr ()
       \<and> node = n\<lparr>ns_schema_version := (if ns_schema_version n = 0 then 1 else ns_schema_version n)\<rparr>)
       (ws_order (disk_run f)) nodes"
proof -
  obtain ns where l: "loadRun f = (Inr (disk_run f, ns), f)"
    using loadRun_ok [OF assms(1)] by blast
  then show eqs: "f' = f" "run = disk_run f" using assms(2) by auto
  have ns: "ns = nodes" using l assms(2) by auto
  obtain w where w: "rf_run f = Some w" using assms(1) by (auto simp: loadable_def)
  let ?r = "unmarshal_run [] [] w"
  have v: "ValidateWorkflowSnapshot ?r = Inr ()"
    using assms(1) by (simp add: loadable_def disk_run_def w Let_def validate_schema_one)
  have "load_nodes (ws_order (disk_run f)) f = (Inr nodes, f)"
  proof -
    have "fst (load_nodes (ws_order (disk_run f)) f) = Inr nodes \<and> snd (load_nodes (ws_order (disk_run f)) f) = f"
      using l v unfolding ns loadRun_def ReadSnapshot_def
      by (auto simp: next_step_def look_def w check_def ret_def disk_run_def Let_def
          split: prod.splits sum.splits)
    then show ?thesis by (simp add: prod_eq_iff)
  qed
  from conjunct2 [OF load_nodes_result [OF this]] show "list_all2 (\<lambda>i node. \<exists>n. map_of (rf_nodes f) i = Some n
       \<and> ValidateNodeSnapshot n = Inr ()
       \<and> node = n\<lparr>ns_schema_version := (if ns_schema_version n = 0 then 1 else ns_schema_version n)\<rparr>)
       (ws_order (disk_run f)) nodes" .
qed

lemma sound_loaded:
  assumes "sound f" "loadRun f = (Inr (run, nodes), f')"
  shows "f' = f" "run = disk_run f" "run_of run f" "sound_nodes nodes" "map ns_id nodes = ws_order (disk_run f)"
    "\<forall>node \<in> set nodes. \<exists>n. map_of (rf_nodes f) (ns_id node) = Some n \<and> ns_conclusion n = ns_conclusion node"
proof -
  note l = loadable_loaded [OF sound_loadable [OF assms(1)] assms(2)]
  from l show "f' = f" "run = disk_run f" by simp_all
  show "run_of run f" using assms(1) l(2) by (simp add: run_of_def sound_def loadable_def)
  from l(3) have
    all2: "list_all2 (\<lambda>i node. ns_id node = i \<and> sound_node node
       \<and> (\<exists>n. map_of (rf_nodes f) i = Some n \<and> ns_conclusion n = ns_conclusion node)) (ws_order (disk_run f)) nodes"
  proof (rule list_all2_mono)
    fix i node
    assume "\<exists>n. map_of (rf_nodes f) i = Some n \<and> ValidateNodeSnapshot n = Inr ()
       \<and> node = n\<lparr>ns_schema_version := (if ns_schema_version n = 0 then 1 else ns_schema_version n)\<rparr>"
    then obtain n where n: "map_of (rf_nodes f) i = Some n" "ValidateNodeSnapshot n = Inr ()"
      "node = n\<lparr>ns_schema_version := (if ns_schema_version n = 0 then 1 else ns_schema_version n)\<rparr>" by blast
    moreover have "ns_id n = i" "ns_pending_target n = None" using assms(1) n(1) by (auto simp: sound_def)
    ultimately show "ns_id node = i \<and> sound_node node
        \<and> (\<exists>n. map_of (rf_nodes f) i = Some n \<and> ns_conclusion n = ns_conclusion node)"
      by (auto simp: sound_node_def ValidateNodeSnapshot_iff)
  qed
  then show ids: "map ns_id nodes = ws_order (disk_run f)"
    by (auto simp: list_all2_conv_all_nth intro: nth_equalityI)
  show "\<forall>node \<in> set nodes. \<exists>n. map_of (rf_nodes f) (ns_id node) = Some n \<and> ns_conclusion n = ns_conclusion node"
    using all2 by (auto simp: list_all2_conv_all_nth in_set_conv_nth)
  have "\<forall>node \<in> set nodes. sound_node node" using all2 by (auto simp: list_all2_conv_all_nth in_set_conv_nth)
  then show "sound_nodes nodes" using ids assms(1) by (simp add: sound_nodes_def sound_def)
qed

lemma wp_load:
  assumes "sound f" "\<And>nodes. run_of (disk_run f) f \<Longrightarrow> sound_nodes nodes \<Longrightarrow> map ns_id nodes = ws_order (disk_run f) \<Longrightarrow>
      \<forall>node \<in> set nodes. \<exists>n. map_of (rf_nodes f) (ns_id node) = Some n \<and> ns_conclusion n = ns_conclusion node \<Longrightarrow>
      wp (k (disk_run f, nodes)) Q E f"
  shows "wp (next_step loadRun k) Q E f"
proof -
  obtain nodes where l: "loadRun f = (Inr (disk_run f, nodes), f)"
    using loadRun_ok [OF sound_loadable [OF assms(1)]] by blast
  show ?thesis unfolding wp_next using assms(2) sound_loaded [OF assms(1) l] by (simp add: wp_def [of loadRun] l)
qed

end
