(* ===== verification/Run_Commits.thy ===== *)
theory Run_Commits
  imports Run_Soundness
begin

section \<open>The commits of the controller and of a cancellation keep a run loadable\<close>

text \<open>
  One lemma for each commit: wherever its writes stop, the files stay sound. The loops over
  the nodes of a batch are handled with their continuations, so that the run they hand on
  is known to have the order and the receipts of the loaded one.
\<close>

definition preserves :: "'a run_step \<Rightarrow> bool" where
  "preserves m \<longleftrightarrow> (\<forall>f. sound f \<longrightarrow> wp m (\<lambda>_. sound) (\<lambda>_. sound) f)"

named_theorems preserves_intros \<open>steps after which the files are sound again\<close>

lemma preservesI: "(\<And>f. sound f \<Longrightarrow> wp m (\<lambda>_. sound) (\<lambda>_. sound) f) \<Longrightarrow> preserves m"
  by (simp add: preserves_def)

lemma preserves_aside: "aside m \<Longrightarrow> preserves m"
  unfolding preserves_def aside_def by (metis (no_types, lifting) prod.collapse sound_same(1) wp_eq sum.exhaust)

lemma preserves_next: "preserves m \<Longrightarrow> (\<And>x. preserves (k x)) \<Longrightarrow> preserves (next_step m k)"
  unfolding preserves_def by (auto simp: wp_simps intro: wp_mono)

lemma preserves_load_valid:
  assumes "\<And>run nodes. sound_nodes nodes \<Longrightarrow> ValidateWorkflowSnapshot run = Inr () \<Longrightarrow> keeps run (k (run, nodes))"
  shows "preserves (next_step loadRun k)"
  using assms by (intro preservesI wp_load) (auto simp: keeps_def sound_def loadable_def)

lemma preserves_load:
  "(\<And>run nodes. sound_nodes nodes \<Longrightarrow> keeps run (k (run, nodes))) \<Longrightarrow> preserves (next_step loadRun k)"
  by (rule preserves_load_valid) blast

text \<open>A step on the loaded run, possibly one that relies on the node \<open>i\<close> having no conclusion.\<close>

definition open_file :: "RunFiles \<Rightarrow> string \<Rightarrow> bool" where
  "open_file f i \<longleftrightarrow> (\<forall>node. map_of (rf_nodes f) i = Some node \<longrightarrow> ns_conclusion node = [])"

definition preserves_open :: "string \<Rightarrow> 'a run_step \<Rightarrow> bool" where
  "preserves_open i m \<longleftrightarrow> (\<forall>f. sound f \<and> open_file f i \<longrightarrow> wp m (\<lambda>_. sound) (\<lambda>_. sound) f)"

lemma preserves_open: "preserves m \<Longrightarrow> preserves_open i m"
  by (simp add: preserves_def preserves_open_def)

lemma preserves_open_next: "preserves_open i m \<Longrightarrow> (\<And>x. preserves (k x)) \<Longrightarrow> preserves_open i (next_step m k)"
  unfolding preserves_open_def preserves_def by (auto simp: wp_simps intro: wp_mono)

lemma preserves_open_aside:
  assumes "aside m" "\<And>x. preserves_open i (k x)"
  shows "preserves_open i (next_step m k)"
  unfolding preserves_open_def
proof (intro allI impI)
  fix f
  assume f: "sound f \<and> open_file f i"
  obtain r f' where m: "m f = (r, f')" by fastforce
  then have "same_files f f'" using assms(1) by (metis aside_def snd_conv)
  then have "sound f'" "open_file f' i" using f by (simp_all add: sound_same) (simp add: open_file_def same_files_def)
  then show "wp (next_step m k) (\<lambda>_. sound) (\<lambda>_. sound) f"
    using assms(2) m by (cases r) (auto simp: wp_simps wp_def [of m] preserves_open_def)
qed

lemma preserves_mutation:
  assumes "\<And>run nodes. sound_nodes nodes \<Longrightarrow> keeps run (action run nodes)"
  shows "preserves (controllerMutation active action)"
proof (cases active)
  case True
  then show ?thesis
    unfolding controllerMutation_def using assms by (auto intro!: preserves_load keeps_intros)
next
  case False
  then show ?thesis by (simp add: controllerMutation_def preserves_aside aside_fail)
qed

subsection \<open>Nodes of a list\<close>

definition open_in :: "NodeSnapshot list \<Rightarrow> string \<Rightarrow> bool" where
  "open_in nodes i \<longleftrightarrow> (\<forall>node. findNode nodes i = Some node \<longrightarrow> ns_conclusion node = '''')"

lemma findNode_mem: "findNode nodes i = Some node \<Longrightarrow> node \<in> set nodes \<and> ns_id node = i"
  by (auto simp: findNode_def find_Some_iff)

lemma findNode_sound: "sound_nodes nodes \<Longrightarrow> findNode nodes i = Some node \<Longrightarrow> sound_node node \<and> ns_id node = i"
  by (auto simp: sound_nodes_def dest: findNode_mem)

lemma ids_set_node: "ns_id node = i \<Longrightarrow> map ns_id (set_node i node nodes) = map ns_id nodes"
  by (induction nodes) auto

lemma set_set_node: "set (set_node i node nodes) \<subseteq> insert node (set nodes)"
  by (induction nodes) auto

lemma sound_set_node: "sound_nodes nodes \<Longrightarrow> sound_node node \<Longrightarrow> ns_id node = i \<Longrightarrow> sound_nodes (set_node i node nodes)"
  using set_set_node [of i node nodes] ids_set_node [of node i nodes] by (auto simp: sound_nodes_def)

lemma findNode_set_node:
  "ns_id node = i \<Longrightarrow> findNode (set_node i node nodes) j = (if j = i \<and> findNode nodes i \<noteq> None then Some node else findNode nodes j)"
  by (induction nodes) (auto simp: findNode_def)

lemma open_set_node: "ns_id node = i \<Longrightarrow> ns_conclusion node = '''' \<Longrightarrow> open_in nodes j \<Longrightarrow> open_in (set_node i node nodes) j"
  by (auto simp: open_in_def findNode_set_node split: if_splits)

lemma keeps_with_node:
  assumes "sound_nodes nodes"
    "\<And>node. findNode nodes i = Some node \<Longrightarrow> sound_node node \<Longrightarrow> ns_id node = i \<Longrightarrow> keeps run (k node)"
  shows "keeps run (with_node nodes i k)"
  using assms findNode_sound unfolding with_node_def by (intro keeps_intros) auto

lemma keeps_next_with_node:
  assumes "sound_nodes nodes"
    "\<And>node. findNode nodes i = Some node \<Longrightarrow> sound_node node \<Longrightarrow> ns_id node = i \<Longrightarrow> keeps run (next_step (k node) h)"
  shows "keeps run (next_step (with_node nodes i k) h)"
  using assms findNode_sound unfolding with_node_def by (auto simp: step_simps split: option.split intro: keeps_intros)

lemma preserves_open_mutation:
  assumes "\<And>run nodes. sound_nodes nodes \<Longrightarrow> open_in nodes i \<Longrightarrow> keeps run (action run nodes)"
  shows "preserves_open i (controllerMutation active action)"
  unfolding preserves_open_def
proof (intro allI impI)
  fix f
  assume f: "sound f \<and> open_file f i"
  have "wp (action (disk_run f) nodes) (\<lambda>_. sound) (\<lambda>_. sound) f"
    if "run_of (disk_run f) f" "sound_nodes nodes"
      "\<forall>node \<in> set nodes. \<exists>n. map_of (rf_nodes f) (ns_id node) = Some n \<and> ns_conclusion n = ns_conclusion node" for nodes
  proof -
    have "open_in nodes i" using that(3) f by (fastforce simp: open_in_def open_file_def dest: findNode_mem)
    then show ?thesis using assms that f by (simp add: keeps_def)
  qed
  then show "wp (controllerMutation active action) (\<lambda>_. sound) (\<lambda>_. sound) f"
    using f unfolding controllerMutation_def by (auto simp: wp_simps intro!: wp_load [unfolded wp_next])
qed

lemmas sound_node_iff = sound_node_def ValidateNodeSnapshot_iff

subsection \<open>Frames of the run\<close>

lemma frames_refl [simp]: "frames run run" by (simp add: frames_def)

lemma frames_trans: "frames run run' \<Longrightarrow> frames run' run'' \<Longrightarrow> frames run run''" by (simp add: frames_def)

lemma frames_same: "ws_order run' = ws_order run \<Longrightarrow> ws_receipts run' = ws_receipts run \<Longrightarrow> frames run run'"
  by (simp add: frames_def)

lemma keeps_persist_end: "frames run run' \<Longrightarrow> keeps run (next_step (persistRun run' node event message) (\<lambda>_. ret x))"
  by (rule keeps_persist) (auto intro: keeps_ret)

lemma keeps_persist_last: "frames run run' \<Longrightarrow> keeps run (persistRun run' node event message)"
  using keeps_persist_end [of run run' node event message "()"]
  unfolding keeps_def by (auto simp: wp_simps intro: wp_mono)

subsection \<open>Waiting and the end of an Attempt\<close>

lemma frames_aggregate:
  "frames run (summarized node (fst (aggregateRunState run nodes doc now)))"
  "frames run (fst (aggregateRunState run nodes doc now))"
  by (simp_all add: frames_def summarized_def)

lemma preserves_waitingIfChanged:
  assumes "validReason reason"
  shows "preserves_open i (waitingIfChanged engine active i number reason message)"
  unfolding waitingIfChanged_def
proof (rule preserves_open_aside [OF aside_ReadWorkflow], rule preserves_open_mutation, rule keeps_with_node, assumption,
    rule keeps_next [OF aside_ReadAttempt], unfold Let_def, rule keeps_next [OF aside_clock], goal_cases)
  case (1 normalized run nodes node attempt now)
  have s: "sound_node (node\<lparr>ns_phase := NodePhaseWaiting, ns_reason := reason, ns_diagnostic := message, ns_updated_at := now\<rparr>)"
    using 1 assms by (auto simp: sound_node_iff open_in_def validNodePhase_def)
  show ?case
    unfolding step_simps
    by (intro keeps_if keeps_ret keeps_WriteNode s keeps_next [OF aside_update_attempt] keeps_persist_end frames_aggregate)
      simp
qed

lemma preserves_waitingWithResult:
  assumes "validReason reason"
  shows "preserves_open i (waitingWithResult engine active i number reason message result)"
  unfolding waitingWithResult_def
proof (rule preserves_open_aside [OF aside_ReadWorkflow], rule preserves_open_mutation, rule keeps_with_node, assumption,
    rule keeps_next [OF aside_ReadAttempt], unfold Let_def, rule keeps_next [OF aside_clock], goal_cases)
  case (1 normalized run nodes node attempt now)
  have s: "sound_node (node\<lparr>ns_phase := NodePhaseWaiting, ns_reason := reason, ns_diagnostic := message,
      ns_result := Some result, ns_updated_at := now\<rparr>)"
    using 1 assms by (auto simp: sound_node_iff open_in_def validNodePhase_def)
  show ?case
    unfolding step_simps prod.case
    by (intro keeps_if keeps_ret keeps_WriteNode s keeps_next [OF aside_WriteResult] keeps_next [OF aside_update_attempt]
        keeps_persist_end frames_aggregate) simp
qed

lemma preserves_finishIndeterminate:
  "preserves (finishIndeterminate engine active i number message)"
  unfolding finishIndeterminate_def
proof (rule preserves_mutation, rule keeps_with_node, assumption, rule keeps_next [OF aside_ReadAttempt],
    rule keeps_next [OF aside_clock], unfold Let_def, goal_cases)
  case (1 run nodes node attempt now)
  have s: "sound_node (node\<lparr>ns_phase := NodePhaseCompleted, ns_conclusion := ConclusionIndeterminate, ns_reason := [],
      ns_diagnostic := message, ns_updated_at := now\<rparr>)"
    using 1 by (auto simp: sound_node_iff validNodePhase_def validConclusion_def)
  show ?case
    by (intro keeps_WriteNode s keeps_next [OF aside_update_attempt] keeps_persist_end)
      (simp_all add: frames_def summarized_def)
qed

lemma preserves_finish_succeeded:
  "preserves (finish_succeeded engine active i number result normalized)"
  unfolding finish_succeeded_def
proof (rule preserves_mutation, rule keeps_with_node, assumption, rule keeps_next [OF aside_ReadAttempt],
    rule keeps_next [OF aside_clock], unfold Let_def, goal_cases)
  case (1 run nodes node attempt now)
  have s: "sound_node (node\<lparr>ns_phase := NodePhaseCompleted, ns_conclusion := ConclusionSucceeded, ns_reason := [],
      ns_diagnostic := [], ns_result := Some normalized, ns_updated_at := now\<rparr>)"
    using 1 by (auto simp: sound_node_iff validNodePhase_def validConclusion_def)
  show ?case
    by (intro keeps_next [OF aside_WriteResult] keeps_WriteNode s keeps_next [OF aside_update_attempt] keeps_persist_end)
      (simp_all add: frames_def 1)
qed

lemma preserves_finish_failed:
  "preserves (finish_failed engine active i number result normalized)"
  unfolding finish_failed_def
proof (rule preserves_mutation, rule keeps_with_node, assumption, rule keeps_next [OF aside_ReadAttempt],
    rule keeps_next [OF aside_clock], unfold Let_def, goal_cases)
  case (1 run nodes node attempt now)
  have s: "sound_node (node\<lparr>ns_phase := NodePhaseCompleted, ns_conclusion := ConclusionFailed, ns_reason := [],
      ns_diagnostic := br_summary result, ns_result := Some normalized, ns_updated_at := now\<rparr>)"
    using 1 by (auto simp: sound_node_iff validNodePhase_def validConclusion_def)
  show ?case
    by (intro keeps_next [OF aside_WriteResult] keeps_WriteNode s keeps_next [OF aside_update_attempt] keeps_persist_end)
      (simp_all add: frames_def 1)
qed

lemma preserves_pause: "preserves (pauseControllerOnError active cause)"
  unfolding pauseControllerOnError_def
  by (rule preserves_mutation, rule keeps_next [OF aside_clock], rule keeps_persist_end) (simp add: frames_def)

lemma waiting_reasons [simp]:
  "validReason ReasonCompletionMissing" "validReason ReasonInvalidResult" "validReason ReasonAgentWaitingInput"
  by (simp_all add: validReason_def)

lemma preserves_ret: "preserves (ret x)" by (simp add: preserves_aside aside_ret)

lemma preserves_waiting: "validReason reason \<Longrightarrow> preserves_open i (waiting engine active i number reason message)"
  unfolding waiting_def by (intro preserves_open_next preserves_waitingIfChanged preserves_ret)

lemma preserves_finishResult: "preserves_open i (finishResult engine active i number result)"
  unfolding finishResult_def Let_def
  by (auto intro!: preserves_open_next preserves_waiting preserves_waitingWithResult preserves_ret
      preserves_open [OF preserves_finish_succeeded] preserves_open [OF preserves_finish_failed]
      preserves_open [OF preserves_finishIndeterminate] split: option.split sum.split)

lemma preserves_applyObservation: "preserves_open i (applyObservation engine active i number observed)"
  unfolding applyObservation_def Let_def
  by (auto intro!: preserves_open_next preserves_waitingIfChanged preserves_finishResult preserves_ret preserves_open [OF preserves_ret]
      preserves_open [OF preserves_finishIndeterminate] split: Observed.split option.split sum.split)

lemma preserves_settleLaunch: "preserves_open (pl_node_id launch) (settleLaunch engine active launch outcome)"
  unfolding settleLaunch_def
  by (auto intro!: preserves_waiting preserves_open [OF preserves_ret] preserves_open [OF preserves_finishIndeterminate]
      split: prod.split option.split)

subsection \<open>Launches and observations leave run and nodes alone\<close>

lemma aside_load: "aside loadRun"
proof -
  have "aside (load_nodes ids)" for ids
    by (induction ids) (auto simp: ReadNode_def validateID_def intro!: aside_intros)
  then show ?thesis
    unfolding loadRun_def ReadSnapshot_def Let_def by (intro aside_intros)
qed

lemma aside_beginBackendLaunch: "aside (beginBackendLaunch engine active launch)"
  unfolding beginBackendLaunch_def by (intro aside_intros aside_load)

lemma aside_persistExecutionHandle: "aside (persistExecutionHandle engine launch handle)"
  unfolding persistExecutionHandle_def by (intro aside_intros)

lemma aside_markLaunchFinishedWithoutHandle: "aside (markLaunchFinishedWithoutHandle engine launch)"
  unfolding markLaunchFinishedWithoutHandle_def by (intro aside_intros)

lemma asideD: "aside m \<Longrightarrow> m f = (r, f') \<Longrightarrow> same_files f f'"
  by (metis aside_def snd_conv)

lemma aside_startPendingLaunch: "aside (startPendingLaunch engine active start launch)"
  unfolding aside_def startPendingLaunch_def Let_def
  by (auto split: prod.split sum.split option.split
      dest!: asideD [OF aside_beginBackendLaunch] asideD [OF aside_persistExecutionHandle]
        asideD [OF aside_markLaunchFinishedWithoutHandle] intro: same_files_trans)

lemma aside_observeAttempt: "aside (observeAttempt engine observe i number)"
  unfolding aside_def observeAttempt_def
  by (auto split: prod.split sum.split option.split dest!: asideD [OF aside_ReadAttempt])

lemma aside_cancelTarget: "aside (cancelTarget engine cancel target)"
  unfolding aside_def cancelTarget_def Let_def
  by (auto split: prod.split sum.split option.split dest!: asideD [OF aside_ReadAttempt])

subsection \<open>A batch\<close>

text \<open>
  What the loops over the nodes of a batch hand on: the run with the order and receipts of
  the loaded one, sound nodes, and no new conclusion.
\<close>

definition handed :: "WorkflowSnapshot \<Rightarrow> NodeSnapshot list \<Rightarrow> WorkflowSnapshot \<Rightarrow> NodeSnapshot list \<Rightarrow> bool" where
  "handed run nodes run' nodes' \<longleftrightarrow> frames run run' \<and> sound_nodes nodes' \<and> (\<forall>i. open_in nodes i \<longrightarrow> open_in nodes' i)"

lemma handed_refl: "sound_nodes nodes \<Longrightarrow> handed run nodes run nodes"
  by (simp add: handed_def)

lemma handed_trans: "handed run nodes run' nodes' \<Longrightarrow> handed run' nodes' run'' nodes'' \<Longrightarrow> handed run nodes run'' nodes''"
  by (auto simp: handed_def intro: frames_trans)

lemma handed_set_node:
  assumes "sound_nodes nodes" "sound_node node" "ns_id node = i" "ns_conclusion node = []" "frames run run'"
  shows "handed run nodes run' (set_node i node nodes)"
  using assms by (simp add: handed_def sound_set_node open_set_node)

lemma frames_summarized: "frames run (summarized node run)" "frames run run' \<Longrightarrow> frames run (run'\<lparr>ws_state_version := v\<rparr>)"
  by (simp_all add: frames_def summarized_def)

lemma keeps_skip_scheduled:
  assumes "sound_nodes nodes" "\<forall>i \<in> set ids. open_in nodes i" "validReason reason" "reason \<noteq> []"
    "\<And>run' nodes'. handed run nodes run' nodes' \<Longrightarrow> keeps run' (k (run', nodes'))"
  shows "keeps run (next_step (skip_scheduled reason message run nodes ids) k)"
  using assms
proof (induction ids arbitrary: run nodes)
  case Nil
  then show ?case by (simp add: step_simps handed_refl)
next
  case (Cons i ids)
  show ?case
    unfolding skip_scheduled.simps Let_def
  proof (rule keeps_next_with_node [OF Cons.prems(1)], unfold step_simps, rule keeps_next [OF aside_clock], goal_cases)
    case (1 node now)
    let ?n = "node\<lparr>ns_phase := NodePhaseSkipped, ns_reason := reason, ns_diagnostic := message, ns_updated_at := now\<rparr>"
    have c: "ns_conclusion node = []" using 1(1) Cons.prems(2) by (simp add: open_in_def)
    have s: "sound_node ?n" using 1(2) c Cons.prems(3,4) by (auto simp: sound_node_iff validNodePhase_def)
    have id: "ns_id ?n = i" "ns_conclusion ?n = []" using 1(3) c by simp_all
    let ?r = "\<lambda>v. (summarized ?n run)\<lparr>ws_state_version := v\<rparr>"
    have h: "handed run nodes (?r v) (set_node i ?n nodes)" for v
      by (rule handed_set_node [OF Cons.prems(1) s id]) (simp add: frames_summarized)
    have "keeps (?r v) (next_step (skip_scheduled reason message (?r v) (set_node i ?n nodes) ids) k)" for v
    proof (rule Cons.IH)
      show "sound_nodes (set_node i ?n nodes)" using h [of v] by (simp add: handed_def)
      show "\<forall>j \<in> set ids. open_in (set_node i ?n nodes) j" using h [of v] Cons.prems(2) by (simp add: handed_def)
      show "keeps run' (k (run', nodes'))" if "handed (?r v) (set_node i ?n nodes) run' nodes'" for run' nodes'
        using Cons.prems(5) handed_trans [OF h that] by blast
    qed (use Cons.prems in simp_all)
    then show ?case
      by (intro keeps_WriteNode s refl keeps_persist frames_summarized)
  qed
qed

lemma keeps_hold_approvals:
  assumes "sound_nodes nodes" "\<forall>i \<in> set ids. open_in nodes i"
    "\<And>run' nodes'. handed run nodes run' nodes' \<Longrightarrow> keeps run' (k (run', nodes'))"
  shows "keeps run (next_step (hold_approvals normalized results run nodes ids) k)"
  using assms
proof (induction ids arbitrary: run nodes)
  case Nil
  then show ?case by (simp add: step_simps handed_refl)
next
  case (Cons i ids)
  show ?case
    unfolding hold_approvals.simps Let_def
  proof (rule keeps_next_with_node [OF Cons.prems(1)], unfold step_simps, rule keeps_next [OF aside_render_text],
      rule keeps_next [OF aside_clock], goal_cases)
    case (1 node prompt now)
    let ?n = "node\<lparr>ns_phase := NodePhaseWaiting, ns_reason := ReasonApprovalRequired, ns_diagnostic := prompt, ns_updated_at := now\<rparr>"
    have c: "ns_conclusion node = []" using 1(1) Cons.prems(2) by (simp add: open_in_def)
    have s: "sound_node ?n" using 1(2) c by (auto simp: sound_node_iff validNodePhase_def validReason_def)
    have id: "ns_id ?n = i" "ns_conclusion ?n = []" using 1(3) c by simp_all
    let ?r = "\<lambda>v. (summarized ?n (run\<lparr>ws_summary := prompt\<rparr>))\<lparr>ws_state_version := v\<rparr>"
    have fr: "frames run (summarized ?n (run\<lparr>ws_summary := prompt\<rparr>))" by (simp add: frames_def summarized_def)
    have h: "handed run nodes (?r v) (set_node i ?n nodes)" for v
      by (rule handed_set_node [OF Cons.prems(1) s id]) (rule frames_summarized(2) [OF fr])
    have "keeps (?r v) (next_step (hold_approvals normalized results (?r v) (set_node i ?n nodes) ids) k)" for v
    proof (rule Cons.IH)
      show "sound_nodes (set_node i ?n nodes)" using h [of v] by (simp add: handed_def)
      show "\<forall>j \<in> set ids. open_in (set_node i ?n nodes) j" using h [of v] Cons.prems(2) by (simp add: handed_def)
      show "keeps run' (k (run', nodes'))" if "handed (?r v) (set_node i ?n nodes) run' nodes'" for run' nodes'
        using Cons.prems(3) handed_trans [OF h that] by blast
    qed
    then show ?case
      by (intro keeps_WriteNode s refl keeps_persist fr)
  qed
qed

lemma keeps_launch_agents:
  fixes k :: "WorkflowSnapshot \<times> NodeSnapshot list \<times> pendingLaunch list \<Rightarrow> 'a run_step"
  assumes "sound_nodes nodes"
    "\<And>run' nodes' launches. handed run nodes run' nodes' \<Longrightarrow> keeps run' (k (run', nodes', launches))"
  shows "keeps run (next_step (launch_agents engine normalized results run nodes ids) k)"
  using assms
proof (induction ids arbitrary: run nodes k)
  case Nil
  then show ?case by (simp add: step_simps handed_refl)
next
  case (Cons i ids)
  show ?case
    unfolding launch_agents.simps Let_def
  proof (rule keeps_next_with_node [OF Cons.prems(1)], unfold step_simps split_def,
      rule keeps_next [OF aside_render_text], rule keeps_if, rule keeps_fail,
      intro keeps_next [OF aside_check] keeps_next [OF aside_prepareAttemptRouting] keeps_next [OF aside_clock]
        keeps_next [OF aside_writeAttempt], goal_cases)
    case (1 node task agent route profile now compiled usage)
    let ?n = "node\<lparr>ns_phase := NodePhaseRunning, ns_reason := [], ns_diagnostic := [], ns_conclusion := [],
        ns_pending_answer := [], ns_pending_target := None, ns_current_attempt := ns_current_attempt node + 1, ns_updated_at := now\<rparr>"
    have s: "sound_node ?n" using 1(2) by (auto simp: sound_node_iff validNodePhase_def)
    have id: "ns_id ?n = i" "ns_conclusion ?n = []" using 1(3) by simp_all
    let ?r' = "(summarized ?n run)\<lparr>ws_phase := PhaseRunning, ws_reason := [], ws_conclusion := [],
        ws_summary := ''launching Agents'', ws_updated_at := now\<rparr>"
    let ?r = "\<lambda>v. ?r'\<lparr>ws_state_version := v\<rparr>"
    have fr: "frames run ?r'" by (simp add: frames_def summarized_def)
    have h: "handed run nodes (?r v) (set_node i ?n nodes)" for v
      by (rule handed_set_node [OF Cons.prems(1) s id]) (rule frames_summarized(2) [OF fr])
    have "keeps (?r v) (next_step (launch_agents engine normalized results (?r v) (set_node i ?n nodes) ids) q)"
      if "\<And>run' nodes' launches. handed run nodes run' nodes' \<Longrightarrow> keeps run' (q (run', nodes', launches))"
      for v and q :: "WorkflowSnapshot \<times> NodeSnapshot list \<times> pendingLaunch list \<Rightarrow> 'a run_step"
    proof (rule Cons.IH)
      show "sound_nodes (set_node i ?n nodes)" using h [of v] by (simp add: handed_def)
      show "keeps run' (q (run', nodes', launches))" if "handed (?r v) (set_node i ?n nodes) run' nodes'" for run' nodes' launches
        using \<open>\<And>run' nodes' launches. handed run nodes run' nodes' \<Longrightarrow> keeps run' (q (run', nodes', launches))\<close>
          handed_trans [OF h that] by blast
    qed
    then show ?case
      by (intro keeps_WriteNode s refl keeps_persist fr) (simp add: Cons.prems(2) split_def)
  qed
qed

text \<open>A node the scheduler names has not started or waits, so it has no conclusion.\<close>

lemma verdict_unstarted:
  "node_verdict doc byID results stop i = Inr v \<Longrightarrow> v \<noteq> Idle \<Longrightarrow>
     unstarted (node_of byID i) \<or> ns_phase (node_of byID i) = NodePhaseWaiting"
  by (auto simp: node_verdict_def Let_def ready_verdict_iff split: if_splits option.splits sum.splits)

lemma scheduled_open:
  assumes "sound_nodes nodes" "verdict_of doc run nodes i = Inr v" "v \<noteq> Idle"
  shows "open_in nodes i"
  unfolding open_in_def
proof (intro allI impI)
  fix node
  assume f: "findNode nodes i = Some node"
  then have "node_of (index_nodes nodes) i = node"
    using assms(1) findNode_mem [OF f] node_of_index [of nodes node] by (simp add: sound_nodes_def)
  then have "unstarted node \<or> ns_phase node = NodePhaseWaiting"
    using assms(2,3) verdict_unstarted [of doc "index_nodes nodes"] unfolding verdict_of_def by blast
  then show "ns_conclusion node = []"
    using findNode_sound [OF assms(1) f] by (auto simp: unstarted_def sound_node_iff)
qed

lemma planned_open:
  assumes "sound_nodes nodes" "PlanSchedule normalized run nodes limit = Inr d"
    "i \<in> set (sd_skip_upstream d) \<union> set (sd_skip_conditions d) \<union> set (sd_skip_policy d) \<union> set (sd_ready_approvals d)"
  shows "open_in nodes i"
  using assms(3) scheduled_open [OF assms(1), of "nz_document normalized" run i]
  by - (rule PlanSchedule_ok [OF assms(2)], auto)

lemma keeps_next_check:
  "(\<And>x. r = Inr x \<Longrightarrow> keeps run (k x)) \<Longrightarrow> keeps run (next_step (check w r) k)"
  by (cases r) (auto simp: keeps_def wp_simps)

lemma preserves_scheduleBatch: "preserves (scheduleBatch engine active normalized)"
  unfolding scheduleBatch_def
proof (rule preserves_mutation, rule keeps_option, rule keeps_fail, unfold Let_def, rule keeps_if, rule keeps_fail,
    rule keeps_next_check, goal_cases)
  case (1 run nodes capabilities effective)
  note nodes = 1(1)
  have fr: "frames run (run\<lparr>ws_effective_concurrency := effective\<rparr>)" by (simp add: frames_def)
  show ?case
  proof (rule keeps_frame [OF _ fr], rule keeps_next_check, rule keeps_skip_scheduled [OF nodes], goal_cases)
    case (4 d run1 nodes1)
    note op = planned_open [OF nodes 4(1)]
    from 4(2) show ?case
      unfolding prod.case
    proof (rule_tac keeps_skip_scheduled, goal_cases)
      case (5 run2 nodes2)
      then show ?case
        unfolding prod.case
      proof (rule_tac keeps_skip_scheduled, goal_cases)
        case (5 run3 nodes3)
        then show ?case
          unfolding prod.case
        proof (rule_tac keeps_hold_approvals, goal_cases)
          case (3 run4 nodes4)
          then show ?case
            unfolding prod.case
          proof (rule_tac keeps_launch_agents, goal_cases)
            case (2 run5 nodes5 launches)
            show ?case unfolding prod.case split_def step_simps fst_conv snd_conv
              by (intro keeps_if keeps_ret keeps_next [OF aside_clock] keeps_persist_end frames_aggregate)
          qed (simp add: handed_def)
        qed (use op in \<open>auto simp: handed_def\<close>)
      qed (use op in \<open>auto simp: handed_def validReason_def\<close>)
    qed (use op in \<open>auto simp: handed_def validReason_def\<close>)
  qed (use planned_open [OF nodes] in \<open>auto simp: validReason_def\<close>)
qed

subsection \<open>Cancellation\<close>

lemma aside_cancellation_targets: "aside (cancellation_targets b ts nodes)"
  by (induction b ts nodes rule: cancellation_targets.induct) (auto intro!: aside_intros)

lemma frames_receipt:
  assumes "ValidateWorkflowSnapshot run = Inr ()" "i \<noteq> []" "ws_order run' = ws_order run"
    "ws_receipts run' = ws_receipts run" "ws_state_version run' = ws_state_version run"
  shows "frames run (recordActionReceipt run' i h)"
  using assms update_receipts(2) [OF assms(1) _ assms(2)]
  by (auto simp: frames_def recordActionReceipt_def)

lemma keeps_apply_outcomes:
  assumes "sound_nodes nodes"
    "\<And>u run' nodes'. frames run run' \<Longrightarrow> sound_nodes nodes' \<Longrightarrow> keeps run' (k (u, run', nodes'))"
  shows "keeps run (next_step (apply_outcomes engine unresolved run nodes outcomes) k)"
  using assms
proof (induction outcomes arbitrary: unresolved run nodes)
  case Nil
  then show ?case by (simp add: step_simps)
next
  case (Cons outcome outcomes)
  show ?case
    unfolding apply_outcomes.simps Let_def
  proof (rule keeps_next_with_node [OF Cons.prems(1)], unfold step_simps, rule keeps_next [OF aside_ReadAttempt],
      rule keeps_next [OF aside_clock], goal_cases)
    case (1 node attempt now)
    let ?d = "if co_confirmed outcome then [] else if co_diagnostic outcome = [] then ''cancellation was not confirmed''
        else co_diagnostic outcome"
    let ?n = "if co_confirmed outcome
        then node\<lparr>ns_phase := NodePhaseCompleted, ns_conclusion := ConclusionCancelled, ns_reason := ReasonUserRequested,
            ns_diagnostic := ?d, ns_updated_at := now\<rparr>
        else node\<lparr>ns_phase := NodePhaseWaiting, ns_conclusion := [], ns_reason := ReasonCancelFailed,
            ns_diagnostic := ?d, ns_updated_at := now\<rparr>"
    have s: "sound_node ?n"
      using 1(2) by (auto simp: sound_node_iff validNodePhase_def validReason_def validConclusion_def)
    have id: "ns_id ?n = co_node_id outcome" using 1(3) by simp
    let ?r = "\<lambda>v. (summarized ?n run)\<lparr>ws_state_version := v\<rparr>"
    have fr: "frames run (?r v)" for v by (rule frames_summarized(2) [OF frames_summarized(1)])
    have "keeps (?r v) (next_step (apply_outcomes engine u (?r v) (set_node (co_node_id outcome) ?n nodes) outcomes) k)" for v u
    proof (rule Cons.IH)
      show "sound_nodes (set_node (co_node_id outcome) ?n nodes)" by (rule sound_set_node [OF Cons.prems(1) s id])
      show "keeps run' (k (u, run', nodes'))" if "frames (?r v) run'" "sound_nodes nodes'" for u run' nodes'
        using Cons.prems(2) frames_trans [OF fr that(1)] that(2) by blast
    qed
    then show ?case
      by (intro keeps_WriteNode s refl keeps_next [OF aside_update_attempt] keeps_persist frames_summarized)
  qed
qed

lemma keeps_skip_cancelled:
  assumes "\<forall>node \<in> set nodes. sound_node node"
    "\<And>run'. frames run run' \<Longrightarrow> keeps run' (k run')"
  shows "keeps run (next_step (skip_cancelled run nodes) k)"
  using assms
proof (induction nodes arbitrary: run)
  case Nil
  then show ?case by (simp add: step_simps)
next
  case (Cons node nodes)
  have rest: "keeps run' (next_step (skip_cancelled run' nodes) k)" if "frames run run'" for run'
    using Cons.prems(1) Cons.prems(2) frames_trans [OF that] by (intro Cons.IH) auto
  show ?case
  proof (cases "to_skip node")
    case False
    then show ?thesis using rest [OF frames_refl] by simp
  next
    case True
    let ?n = "\<lambda>now. node\<lparr>ns_phase := NodePhaseSkipped, ns_reason := ReasonWorkflowCancelled, ns_diagnostic := [],
        ns_updated_at := now\<rparr>"
    have "sound_node node" using Cons.prems(1) by simp
    moreover have "ns_phase node \<noteq> NodePhaseCompleted" using True by (auto simp: to_skip_def)
    ultimately have s: "sound_node (?n now)" for now
      by (auto simp: sound_node_iff validNodePhase_def validReason_def)
    have "keeps run (next_step (skip_cancelled (summarized (?n now) run) nodes) k)" for now
      by (rule keeps_frame [OF rest]) (rule frames_summarized)+
    then show ?thesis
      unfolding skip_cancelled.simps if_P [OF True] Let_def step_simps
      by (intro keeps_next [OF aside_clock] keeps_WriteNode s refl)
  qed
qed

lemma preserves_applyCancellationOutcomes: "preserves (applyCancellationOutcomes engine outcomes)"
  unfolding applyCancellationOutcomes_def
proof (rule preserves_load, unfold prod.case, rule keeps_if, rule keeps_ret, rule keeps_apply_outcomes, assumption, goal_cases)
  case (1 run nodes u run' nodes')
  show ?case
    unfolding prod.case Let_def
  proof (rule keeps_if, goal_cases)
    case 1
    show ?case
      by (rule keeps_next [OF aside_clock], rule keeps_persist) (auto simp: frames_def intro: keeps_fail)
  next
    case 2
    have "keeps run'' (next_step clock_now (\<lambda>now.
        persistRun (run''\<lparr>ws_cancel_requested := True, ws_phase := PhaseCompleted, ws_conclusion := ConclusionCancelled,
          ws_reason := ReasonUserRequested, ws_summary := ''workflow cancelled'', ws_active_node := [],
          ws_updated_at := now\<rparr>) None ''run.cancelled'' ''workflow cancelled''))" for run''
      by (rule keeps_next [OF aside_clock], rule keeps_persist_last) (simp add: frames_def)
    then show ?case
      using 1 by (intro keeps_skip_cancelled) (auto simp: sound_nodes_def)
  qed
qed

lemma frames_mark:
  assumes "ValidateWorkflowSnapshot run = Inr ()"
  shows "frames run (recordActionReceipt (mark_cancelling run now) i h)"
  using frames_receipt [OF assms, of i "mark_cancelling run now" h]
  by (cases "i = []") (simp_all add: recordActionReceipt_def mark_cancelling_def frames_def)

lemma preserves_markIntent: "preserves (markConcurrentCancellationIntent engine request)"
  unfolding markConcurrentCancellationIntent_def
proof (rule preserves_load_valid, unfold prod.case, rule keeps_if, rule keeps_fail, rule keeps_if, rule keeps_ret, goal_cases)
  case (1 run nodes)
  have rest: "keeps run' (next_step (cancellation_targets [] [] nodes) (\<lambda>(backendName, targets).
       if targets = [] then ret (targets, False)
       else case en_backends engine backendName of
         None \<Rightarrow> fail (LaunchFailed (NoBackend backendName))
       | Some capabilities \<Rightarrow> ret (targets, cap_concurrent_cancel capabilities)))" for run'
    by (rule keeps_next [OF aside_cancellation_targets])
      (auto intro: keeps_ret keeps_fail split: option.split)
  show ?case
    unfolding step_simps Let_def
    by (intro keeps_if keeps_next [OF aside_clock] keeps_persist frames_mark 1 rest)
qed

lemma preserves_cancel_targets: "aside (cancel_targets engine cancel targets)"
  by (induction targets) (auto intro!: aside_intros aside_cancelTarget)

lemma preserves_handleConcurrentCancellationRequest:
  "preserves (handleConcurrentCancellationRequest engine cancel request)"
  unfolding handleConcurrentCancellationRequest_def split_def
  by (intro preserves_next preserves_markIntent preserves_applyCancellationOutcomes
      preserves_aside [OF preserves_cancel_targets])

subsection \<open>Steps that read\<close>

text \<open>\<open>reads m\<close>: the step leaves the Attempts alone, too. \<open>stuck m f\<close>: from \<open>f\<close> it fails and changes nothing.\<close>

definition unchanged :: "RunFiles \<Rightarrow> RunFiles \<Rightarrow> bool" where
  "unchanged f f' \<longleftrightarrow> same_files f f' \<and> rf_attempts f' = rf_attempts f \<and> rf_workflow f' = rf_workflow f"

definition reads :: "'a run_step \<Rightarrow> bool" where
  "reads m \<longleftrightarrow> (\<forall>f. unchanged f (snd (m f)))"

definition stuck :: "'a run_step \<Rightarrow> RunFiles \<Rightarrow> bool" where
  "stuck m f \<longleftrightarrow> (\<exists>e g. m f = (Inl e, g) \<and> unchanged f g)"

named_theorems reads_intros \<open>steps that only read\<close>

lemma unchanged_trans: "unchanged f g \<Longrightarrow> unchanged g h \<Longrightarrow> unchanged f h"
  by (auto simp: unchanged_def intro: same_files_trans)

lemma reads_basic [reads_intros]:
  "reads (ret x)" "reads (fail e)" "reads (check w r)" "reads clock_now" "reads (look name sel)"
  by (simp_all add: reads_def unchanged_def ret_def fail_def check_def clock_now_def look_def same_files_def split: option.split)

lemma reads_next [reads_intros]: "reads m \<Longrightarrow> (\<And>x. reads (k x)) \<Longrightarrow> reads (next_step m k)"
  unfolding reads_def next_step_def
  by (auto split: prod.split sum.split) (metis unchanged_trans snd_conv)+

lemma reads_if [reads_intros]: "(c \<Longrightarrow> reads m) \<Longrightarrow> (\<not> c \<Longrightarrow> reads m') \<Longrightarrow> reads (if c then m else m')"
  by simp

lemma reads_option [reads_intros]:
  "(x = None \<Longrightarrow> reads m) \<Longrightarrow> (\<And>y. x = Some y \<Longrightarrow> reads (k y)) \<Longrightarrow> reads (case x of None \<Rightarrow> m | Some y \<Rightarrow> k y)"
  by (simp split: option.split)

lemma reads_pair [reads_intros]: "(\<And>a b. x = (a, b) \<Longrightarrow> reads (k a b)) \<Longrightarrow> reads (case x of (a, b) \<Rightarrow> k a b)"
  by (simp split: prod.split)

lemma reads_ReadAttempt [reads_intros]: "reads (ReadAttempt i n)"
  unfolding ReadAttempt_def validateAttempt_def validateID_def by (intro reads_intros)

lemma reads_add_routing_cost: "reads (add_routing_cost h c i n cost numbers)"
  by (induction h c i n cost numbers rule: add_routing_cost.induct)
    (auto simp: split_def Let_def intro!: reads_intros split: option.split)

lemma reads_ListAttempts: "reads (ListAttempts i)"
  unfolding ListAttempts_def validateID_def
  by (intro reads_intros) (simp add: reads_def unchanged_def)

lemma reads_prepareAttemptRouting: "reads (prepareAttemptRouting h c node driver requirement)"
  unfolding prepareAttemptRouting_def continue_route_def routingCostBeforeAttempt_def Let_def
  by (intro reads_intros reads_add_routing_cost reads_ListAttempts)

lemma reads_render_text: "reads (render_text nz results i source)"
  unfolding render_text_def by (intro reads_intros)

lemma stuck_fail: "stuck (fail e) f"
  by (simp add: stuck_def fail_def unchanged_def)

lemma stuck_next:
  assumes "reads m" "\<And>x f'. unchanged f f' \<Longrightarrow> stuck (k x) f'"
  shows "stuck (next_step m k) f"
proof -
  obtain r f' where m: "m f = (r, f')" by fastforce
  then have u: "unchanged f f'" using assms(1) by (metis reads_def snd_conv)
  show ?thesis
  proof (cases r)
    case (Inl e)
    then show ?thesis using m u by (simp add: stuck_def next_step_def)
  next
    case (Inr x)
    then have "stuck (k x) f'" using assms(2) u by blast
    then show ?thesis using m u Inr by (auto simp: stuck_def next_step_def intro: unchanged_trans)
  qed
qed

lemma stuck_now: "stuck m f \<Longrightarrow> stuck (next_step m k) f"
  by (auto simp: stuck_def next_step_def)

text \<open>An Attempt file of the next number stops the launch before any write.\<close>

lemma stuck_writeAttempt:
  assumes "map_of (rf_attempts f) (as_node_id a, as_number a) \<noteq> None"
  shows "stuck (writeAttempt h c a True) f"
  unfolding writeAttempt_def WriteAttempt_def validateAttempt_def validateID_def
proof (rule stuck_next [OF reads_basic(3)], unfold if_True, rule stuck_next, (intro reads_intros)[1], goal_cases)
  case (1 x f1 y f2)
  then have "map_of (rf_attempts f2) (as_node_id a, as_number a) \<noteq> None"
    using assms by (simp add: unchanged_def)
  then show ?case by (simp add: stuck_def fail_def unchanged_def)
qed

lemma stuck_launch_agents:
  assumes "findNode nodes i = Some node"
    "map_of (rf_attempts f) (ns_id node, ns_current_attempt node + 1) \<noteq> None"
  shows "stuck (launch_agents engine normalized results run nodes (i # ids)) f"
  unfolding launch_agents.simps with_node_def assms(1) option.case Let_def split_def
proof (rule stuck_next [OF reads_render_text], goal_cases)
  case (1 task f1)
  show ?case
  proof (cases "MaxPromptBytes < length task")
    case True
    then show ?thesis by (simp add: stuck_fail)
  next
    case False
    show ?thesis
      unfolding if_not_P [OF False]
      by (intro stuck_next [OF reads_basic(3)] stuck_next [OF reads_basic(4)] stuck_next [OF reads_prepareAttemptRouting]
          stuck_now stuck_writeAttempt) (use assms(2) 1 in \<open>simp add: new_attempt_def unchanged_def\<close>)
  qed
qed

end
