(* ===== verification/Run_Control_Properties.thy ===== *)
theory Run_Control_Properties
  imports Run_Commits Run_Action_Properties
begin

section \<open>Properties of the controller of a run and of its cancellation\<close>

text \<open>
  The commits of the controller as a transition system on the files of a run. Every commit
  works on the files the last one left behind and may be cut off after any number of
  durable steps; an observation and the settlement of a launch are for a node that has no
  conclusion yet, as the Attempts the controller works on.
\<close>

inductive commits :: "Engine \<Rightarrow> RunFiles \<Rightarrow> RunFiles \<Rightarrow> bool" for engine f0 where
  commits_start: "commits engine f0 f0"
| commits_observe: "commits engine f0 f \<Longrightarrow> open_file f i \<Longrightarrow>
    commits engine f0 (snd (applyObservation engine active i number observed (f\<lparr>rf_writes := w\<rparr>)))"
| commits_settle: "commits engine f0 f \<Longrightarrow> open_file f (pl_node_id launch) \<Longrightarrow>
    commits engine f0 (snd (settleLaunch engine active launch outcome (f\<lparr>rf_writes := w\<rparr>)))"
| commits_launch: "commits engine f0 f \<Longrightarrow>
    commits engine f0 (snd (startPendingLaunch engine active start launch (f\<lparr>rf_writes := w\<rparr>)))"
| commits_schedule: "commits engine f0 f \<Longrightarrow>
    commits engine f0 (snd (scheduleBatch engine active normalized (f\<lparr>rf_writes := w\<rparr>)))"
| commits_pause: "commits engine f0 f \<Longrightarrow>
    commits engine f0 (snd (pauseControllerOnError active cause (f\<lparr>rf_writes := w\<rparr>)))"
| commits_intent: "commits engine f0 f \<Longrightarrow>
    commits engine f0 (snd (markConcurrentCancellationIntent engine request (f\<lparr>rf_writes := w\<rparr>)))"
| commits_outcomes: "commits engine f0 f \<Longrightarrow>
    commits engine f0 (snd (applyCancellationOutcomes engine outcomes (f\<lparr>rf_writes := w\<rparr>)))"

lemma sound_budget: "sound (f\<lparr>rf_writes := w\<rparr>) \<longleftrightarrow> sound f" "open_file (f\<lparr>rf_writes := w\<rparr>) i \<longleftrightarrow> open_file f i"
  by (simp_all add: sound_def loadable_def disk_run_def open_file_def)

lemma wp_snd: "wp m (\<lambda>_. P) (\<lambda>_. P) f \<Longrightarrow> P (snd (m f))"
  by (cases "m f") (auto simp: wp_def split: sum.splits)

lemma sound_after: "preserves m \<Longrightarrow> sound f \<Longrightarrow> sound (snd (m (f\<lparr>rf_writes := w\<rparr>)))"
  by (rule wp_snd) (simp add: preserves_def sound_budget)

lemma sound_after_open: "preserves_open i m \<Longrightarrow> sound f \<Longrightarrow> open_file f i \<Longrightarrow> sound (snd (m (f\<lparr>rf_writes := w\<rparr>)))"
  by (rule wp_snd) (simp add: preserves_open_def sound_budget)

lemma commits_sound: "commits engine f0 f \<Longrightarrow> sound f0 \<Longrightarrow> sound f"
proof (induction rule: commits.induct)
  case commits_observe
  then show ?case by (intro sound_after_open [OF preserves_applyObservation])
next
  case commits_settle
  then show ?case by (intro sound_after_open [OF preserves_settleLaunch])
next
  case commits_launch
  then show ?case by (intro sound_after [OF preserves_aside [OF aside_startPendingLaunch]])
next
  case commits_schedule
  then show ?case by (intro sound_after [OF preserves_scheduleBatch])
next
  case commits_pause
  then show ?case by (intro sound_after [OF preserves_pause])
next
  case commits_intent
  then show ?case by (intro sound_after [OF preserves_markIntent])
next
  case commits_outcomes
  then show ?case by (intro sound_after [OF preserves_applyCancellationOutcomes])
qed

text \<open>
  C27. The files of a run stay loadable. From files that load, whose node files carry their
  own IDs and in which no node waits for a bound target, let the controller and a
  cancellation commit observations, launches, batches, pauses, the intent and the outcomes
  in any order, each cut off after any number of durable steps: the run still loads, with a
  valid snapshot, one valid node for each ID of the order, and a readable event log.
\<close>

theorem commits_stay_loadable:
  assumes "sound f0" "commits engine f0 f"
  shows "\<exists>nodes k. loadRun f = (Inr (disk_run f, nodes), f)
    \<and> ValidateWorkflowSnapshot (disk_run f) = Inr ()
    \<and> map ns_id nodes = ws_order (disk_run f) \<and> (\<forall>node \<in> set nodes. ValidateNodeSnapshot node = Inr ())
    \<and> scan_events 0 (rf_events f) = Inr k"
proof -
  have s: "sound f" using commits_sound assms by blast
  then obtain k where k: "scan_events 0 (rf_events f) = Inr k" "ValidateWorkflowSnapshot (disk_run f) = Inr ()"
    by (auto simp: sound_def loadable_def)
  obtain nodes where l: "loadRun f = (Inr (disk_run f, nodes), f)"
    using loadRun_ok [OF sound_loadable [OF s]] by blast
  from sound_loaded(4,5) [OF s l] show ?thesis
    using l k by (auto simp: sound_nodes_def sound_node_def)
qed

lemma sound_listed:
  assumes "loadable f" "distinct (ws_order (disk_run f))"
    "list_all (\<lambda>(i, node). ns_id node = i \<and> ns_pending_target node = None) (rf_nodes f)"
  shows "sound f"
  using assms by (auto simp: sound_def list_all_iff dest: map_of_SomeD)

lemma ship_sound: "sound ship_files"
proof (rule sound_listed [OF ship_loadable])
  show "distinct (ws_order (disk_run ship_files))" by code_simp
  show "list_all (\<lambda>(i, node). ns_id node = i \<and> ns_pending_target node = None) (rf_nodes ship_files)" by code_simp
qed

definition no_context :: ContextAccess where
  "no_context = \<lparr>xa_sha = (\<lambda>_. []), xa_parse = (\<lambda>_. None),
     xa_files = \<lparr>pa_canonical = (\<lambda>_. None), pa_is_dir = (\<lambda>_. False), pa_exists = (\<lambda>_ _. False), pa_open = (\<lambda>_ _. None)\<rparr>,
     xa_get_memory = (\<lambda>_ _. Inl ''no memory''), xa_consume_memory = (\<lambda>_. Inl ''no memory'')\<rparr>"

definition local_engine :: Engine where
  "local_engine = \<lparr>en_hash = (\<lambda>_. []), en_catalogs = no_catalogs, en_backends = (\<lambda>_. None),
     en_context = no_context, en_quote = (\<lambda>s. s), en_explain_context = (\<lambda>_. ''no context''), en_explain = (\<lambda>_. ''failed''),
     en_explain_result = (\<lambda>_. ''bad result''), en_explain_observation = (\<lambda>_. ''bad observation'')\<rparr>"

definition paused_files :: RunFiles where
  "paused_files = snd (pauseControllerOnError True ''lost'' (ship_files\<lparr>rf_writes := 1\<rparr>))"

lemma commits_stay_loadable_witness:
  "let f = snd (applyCancellationOutcomes local_engine [] (paused_files\<lparr>rf_writes := 2\<rparr>))
   in fst (loadRun f) \<in> range Inr \<and> ValidateWorkflowSnapshot (disk_run f) = Inr ()"
proof -
  have "commits local_engine ship_files (snd (applyCancellationOutcomes local_engine [] (paused_files\<lparr>rf_writes := 2\<rparr>)))"
    unfolding paused_files_def by (intro commits_outcomes commits_pause commits_start)
  from commits_stay_loadable [OF ship_sound this] show ?thesis by (auto simp: Let_def)
qed

text \<open>The nodes a confirmed cancellation skips.\<close>

definition skipped :: "NodeSnapshot \<Rightarrow> instant \<Rightarrow> NodeSnapshot" where
  "skipped node now = node\<lparr>ns_phase := NodePhaseSkipped, ns_reason := ReasonWorkflowCancelled, ns_diagnostic := '''',
     ns_updated_at := now\<rparr>"

lemma skipped_pending_invalid:
  "ns_pending_target node \<noteq> None \<Longrightarrow> ValidateNodeSnapshot (node_file d (skipped node now)) \<noteq> Inr ()"
  by (auto simp: ValidateNodeSnapshot_iff skipped_def split: option.splits)

lemma skip_cancelled_wp:
  assumes "\<forall>node \<in> set nodes. safeID (ns_id node)" "distinct (map ns_id nodes)" "length nodes + b \<le> rf_writes f"
    and "\<And>run' f'. rf_run f' = rf_run f \<Longrightarrow> rf_events f' = rf_events f \<Longrightarrow> b \<le> rf_writes f' \<Longrightarrow>
      ws_order run' = ws_order run \<Longrightarrow> ws_receipts run' = ws_receipts run \<Longrightarrow> ws_state_version run' = ws_state_version run \<Longrightarrow>
      ws_schema_version run' = ws_schema_version run \<Longrightarrow>
      (\<forall>node \<in> set nodes. to_skip node \<longrightarrow> (\<exists>now. map_of (rf_nodes f') (ns_id node) = Some (node_file 1 (skipped node now)))) \<Longrightarrow>
      (\<forall>i. i \<notin> ns_id ` set nodes \<longrightarrow> map_of (rf_nodes f') i = map_of (rf_nodes f) i) \<Longrightarrow> Q run' f'"
  shows "wp (skip_cancelled run nodes) Q E f"
  using assms
proof (induction nodes arbitrary: run f Q)
  case Nil
  then show ?case by (simp add: wp_simps)
next
  case (Cons node nodes)
  show ?case
  proof (cases "to_skip node")
    case False
    have "wp (skip_cancelled run nodes) Q E f"
      using Cons.prems False by (intro Cons.IH) auto
    then show ?thesis using False by simp
  next
    case True
    let ?now = "rf_clock f (rf_ticks f)"
    let ?n = "skipped node ?now"
    let ?f = "f\<lparr>rf_ticks := rf_ticks f + 1, rf_writes := rf_writes f - 1,
        rf_nodes := AList.update (ns_id node) (node_file 1 ?n) (rf_nodes f)\<rparr>"
    have "wp (skip_cancelled (summarized ?n run) nodes) Q E ?f"
    proof (rule Cons.IH, goal_cases)
      case (4 f' run')
      have "map_of (rf_nodes f') (ns_id node) = Some (node_file 1 ?n)"
        using 4(9) Cons.prems(2) by (simp add: AList.update_conv')
      then show ?case
        using 4 by (intro Cons.prems(4)) (auto simp: summarized_def AList.update_conv')
    qed (use Cons.prems in auto)
    then show ?thesis
      using True Cons.prems(1,3) by (simp add: wp_simps Let_def skipped_def)
  qed
qed

lemma load_nodes_invalid:
  "i \<in> set ids \<Longrightarrow> map_of (rf_nodes f) i = Some node \<Longrightarrow> ValidateNodeSnapshot node \<noteq> Inr () \<Longrightarrow>
     \<exists>e. load_nodes ids f = (Inl e, f)"
proof (induction ids)
  case (Cons j ids)
  have rest: "\<exists>e. load_nodes ids f = (Inl e, f)" if "j \<noteq> i" using Cons that by simp
  show ?case
  proof (cases "safeID j \<and> map_of (rf_nodes f) j \<noteq> None \<and> ValidateNodeSnapshot (the (map_of (rf_nodes f) j)) = Inr ()")
    case True
    then have "j \<noteq> i" using Cons.prems by auto
    with rest True show ?thesis
      by (auto simp: next_step_def ReadNode_def validateID_ok ret_def look_def check_def)
  next
    case False
    then show ?thesis
      by (cases "safeID j"; cases "map_of (rf_nodes f) j"; cases "ValidateNodeSnapshot (the (map_of (rf_nodes f) j))")
        (auto simp: next_step_def ReadNode_def validateID_def ret_def fail_def look_def check_def)
  qed
qed simp

lemma loadRun_invalid_node:
  assumes "rf_run f = Some (marshal_run run)" "i \<in> set (ws_order run)"
    "map_of (rf_nodes f) i = Some node" "ValidateNodeSnapshot node \<noteq> Inr ()"
  shows "\<exists>e. loadRun f = (Inl e, f)"
proof -
  have "\<exists>e. load_nodes (ws_order run) f = (Inl e, f)" using load_nodes_invalid assms(2-4) by blast
  then show ?thesis
    unfolding loadRun_def ReadSnapshot_def
    by (auto simp: next_step_def look_def assms(1) check_def ret_def Let_def split: prod.split sum.split)
qed

lemma loaded_views:
  assumes "loadable f" "\<forall>i node. map_of (rf_nodes f) i = Some node \<longrightarrow> ns_id node = i"
    "loadRun f = (Inr (run, nodes), f')"
  shows "map ns_id nodes = ws_order (disk_run f)" "\<forall>n \<in> set nodes. safeID (ns_id n)"
    "i \<in> set (ws_order (disk_run f)) \<Longrightarrow> map_of (rf_nodes f) i = Some d \<Longrightarrow>
       \<exists>n \<in> set nodes. ns_id n = i \<and> ns_phase n = ns_phase d \<and> ns_pending_target n = ns_pending_target d"
proof -
  have same: "list_all2 (\<lambda>i n. ns_id n = i \<and> (\<exists>d. map_of (rf_nodes f) i = Some d
      \<and> ns_phase n = ns_phase d \<and> ns_pending_target n = ns_pending_target d)) (ws_order (disk_run f)) nodes"
    by (rule list_all2_mono [OF loadable_loaded(3) [OF assms(1,3)]]) (use assms(2) in auto)
  then show names: "map ns_id nodes = ws_order (disk_run f)"
    by (auto simp: list_all2_conv_all_nth intro: nth_equalityI)
  have "\<forall>i \<in> set (ws_order (disk_run f)). safeID i" using assms(1) by (simp add: loadable_def)
  then show "\<forall>n \<in> set nodes. safeID (ns_id n)" unfolding names [symmetric] by simp
  show "\<exists>n \<in> set nodes. ns_id n = i \<and> ns_phase n = ns_phase d \<and> ns_pending_target n = ns_pending_target d"
    if "i \<in> set (ws_order (disk_run f))" "map_of (rf_nodes f) i = Some d"
    using same that by (fastforce simp: list_all2_conv_all_nth in_set_conv_nth)
qed

lemma check_receipt_later: "check_receipt v e = Inr () \<Longrightarrow> check_receipt (v + 1) e = Inr ()"
  by (cases e) (auto simp: check_receipt_iff)

text \<open>
  C28. A cancellation destroys a run that waits to be routed. If a node of the order waits
  for a bound target (a retry planned a fallback and the node has not been launched yet)
  and no Attempt is active, a cancellation with enough durable steps returns the run as
  completed and cancelled, but the node it has skipped keeps its bound target, so the run
  can never be loaded again.
\<close>

theorem cancelled_pending_route_unloadable:
  assumes l: "loadable f" and order: "distinct (ws_order (disk_run f))"
    and ids: "\<forall>i node. map_of (rf_nodes f) i = Some node \<longrightarrow> ns_id node = i"
    and running: "ws_phase (disk_run f) \<noteq> PhaseCompleted"
    and node: "i \<in> set (ws_order (disk_run f))" "map_of (rf_nodes f) i = Some node" "ns_pending_target node \<noteq> None"
    and writes: "length (ws_order (disk_run f)) + 2 \<le> rf_writes f"
  shows "\<exists>run f'. applyCancellationOutcomes engine [] f = (Inr run, f')
    \<and> ws_phase run = PhaseCompleted \<and> ws_conclusion run = ConclusionCancelled
    \<and> (\<forall>w. \<exists>e. loadRun (f'\<lparr>rf_writes := w\<rparr>) = (Inl e, f'\<lparr>rf_writes := w\<rparr>))"
proof -
  let ?run = "disk_run f"
  obtain nodes where load: "loadRun f = (Inr (?run, nodes), f)" using loadRun_ok [OF l] by blast
  note view = loaded_views [OF l ids load]
  have ready: "ns_phase node = NodePhaseReady"
    using l node by (auto simp: loadable_def ValidateNodeSnapshot_iff split: option.splits)
  obtain n where n: "n \<in> set nodes" "ns_id n = i" "ns_pending_target n \<noteq> None" "to_skip n"
    using view(3) [OF node(1,2)] node(3) ready by (auto simp: to_skip_def)
  obtain k where k: "scan_events 0 (rf_events f) = Inr k" using l by (auto simp: loadable_def)
  define cancelled :: "WorkflowSnapshot \<Rightarrow> instant \<Rightarrow> WorkflowSnapshot" where "cancelled = (\<lambda>run' now. run'\<lparr>ws_cancel_requested := True, ws_phase := PhaseCompleted,
     ws_conclusion := ConclusionCancelled, ws_reason := ReasonUserRequested, ws_summary := ''workflow cancelled'',
     ws_active_node := '''', ws_updated_at := now\<rparr>)"
  let ?Q = "\<lambda>run f'. ws_phase run = PhaseCompleted \<and> ws_conclusion run = ConclusionCancelled
      \<and> (\<forall>w. \<exists>e. loadRun (f'\<lparr>rf_writes := w\<rparr>) = (Inl e, f'\<lparr>rf_writes := w\<rparr>))"
  have last: "wp (persistRun (cancelled run' now) None ''run.cancelled'' m) ?Q (\<lambda>_ _. False) g"
    if run': "ws_order run' = ws_order ?run" "ws_receipts run' = ws_receipts ?run"
        "ws_state_version run' = ws_state_version ?run" "ws_schema_version run' = ws_schema_version ?run"
      and g: "rf_events g = rf_events f" "2 \<le> rf_writes g"
        "\<exists>now. map_of (rf_nodes g) i = Some (node_file 1 (skipped n now))" for run' now m g
  proof -
    let ?r = "(cancelled run' now)\<lparr>ws_state_version := ws_state_version (cancelled run' now) + 1\<rparr>"
    have ok: "ValidateWorkflowSnapshot ?run = Inr ()" using l by (simp add: loadable_def)
    have "\<forall>e \<in> set (ws_receipts ?run). check_receipt (ws_state_version ?run + 1) e = Inr ()"
      using ok check_receipt_later by (simp add: ValidateWorkflowSnapshot_iff)
    moreover have "validReason ReasonUserRequested" "validConclusion ConclusionCancelled"
      by (simp_all add: validReason_def validConclusion_def)
    ultimately have v: "ValidateWorkflowSnapshot ?r = Inr ()"
      using ok by (simp add: ValidateWorkflowSnapshot_iff cancelled_def run')
    have s: "scan_events 0 (rf_events g) = Inr k" using k g by simp
    show ?thesis
    proof (rule persistRun_wp [OF v s g(2)], goal_cases)
      case (3 f' e)
      obtain now' where at: "map_of (rf_nodes g) i = Some (node_file 1 (skipped n now'))" using g(3) by blast
      have "\<exists>e. loadRun (f'\<lparr>rf_writes := w\<rparr>) = (Inl e, f'\<lparr>rf_writes := w\<rparr>)" for w
      proof (rule loadRun_invalid_node [where run = ?r and i = i])
        show "rf_run (f'\<lparr>rf_writes := w\<rparr>) = Some (marshal_run ?r)" using 3(1) by simp
        show "i \<in> set (ws_order ?r)" using node(1) by (simp add: cancelled_def run')
        show "map_of (rf_nodes (f'\<lparr>rf_writes := w\<rparr>)) i = Some (node_file 1 (skipped n now'))" using 3(4) at by simp
        show "ValidateNodeSnapshot (node_file 1 (skipped n now')) \<noteq> Inr ()" by (rule skipped_pending_invalid [OF n(3)])
      qed
      then show ?case by (simp add: cancelled_def)
    qed simp_all
  qed
  have len: "length nodes = length (ws_order ?run)" using arg_cong [OF view(1), of length] by simp
  have "wp (skip_cancelled ?run nodes) (\<lambda>run'. wp (next_step clock_now (\<lambda>now.
      persistRun (cancelled run' now) None ''run.cancelled'' (ws_summary (cancelled run' now)))) ?Q (\<lambda>_ _. False))
      (\<lambda>_ _. False) f"
  proof (rule skip_cancelled_wp [where b = 2, OF view(2)], goal_cases)
    case (3 f' run')
    show ?case
      unfolding wp_simps by (rule last) (use 3 n in auto)
  qed (use order view(1) writes len in auto)
  then have "wp (applyCancellationOutcomes engine []) ?Q (\<lambda>_ _. False) f"
    using running unfolding applyCancellationOutcomes_def
    by (simp add: wp_simps wp_eq(1) [where m = loadRun, OF load] Let_def cancelled_def)
  then show ?thesis by (auto simp: wp_result)
qed

text \<open>A route that a retry has planned and no Attempt has taken yet.\<close>

definition rerouted_files :: RunFiles where
  "rerouted_files = files_of sample_run
     (map (\<lambda>i. fresh_node i ''agent'' ''completed'' ''succeeded'') [''plan'', ''docs''] @
      [(fresh_node ''lint'' ''agent'' ''ready'' '''')\<lparr>ns_current_attempt := 1,
         ns_pending_target := Some \<lparr>tgt_driver = ''codex'', tgt_provider = ''openai'', tgt_model = ''gpt-5''\<rparr>\<rparr>,
       fresh_node ''test'' ''agent'' ''pending'' '''', fresh_node ''ship'' ''approval'' ''pending'' ''''])"

lemma cancelled_pending_route_unloadable_witness:
  "\<exists>run f'. applyCancellationOutcomes local_engine [] (rerouted_files\<lparr>rf_writes := 7\<rparr>) = (Inr run, f')
    \<and> ws_phase run = PhaseCompleted \<and> ws_conclusion run = ConclusionCancelled
    \<and> (\<forall>w. \<exists>e. loadRun (f'\<lparr>rf_writes := w\<rparr>) = (Inl e, f'\<lparr>rf_writes := w\<rparr>))"
proof (rule cancelled_pending_route_unloadable [where i = "''lint''"])
  have run: "disk_run (rerouted_files\<lparr>rf_writes := 7\<rparr>) = disk_run rerouted_files" by (simp add: disk_run_def)
  show "loadable (rerouted_files\<lparr>rf_writes := 7\<rparr>)"
    unfolding states_ignore_budget by (rule sample_loadable) code_simp+
  show "distinct (ws_order (disk_run (rerouted_files\<lparr>rf_writes := 7\<rparr>)))"
    "ws_phase (disk_run (rerouted_files\<lparr>rf_writes := 7\<rparr>)) \<noteq> PhaseCompleted"
    "''lint'' \<in> set (ws_order (disk_run (rerouted_files\<lparr>rf_writes := 7\<rparr>)))"
    "length (ws_order (disk_run (rerouted_files\<lparr>rf_writes := 7\<rparr>))) + 2 \<le> rf_writes (rerouted_files\<lparr>rf_writes := 7\<rparr>)"
    unfolding run by code_simp+
  show "\<forall>i node. map_of (rf_nodes (rerouted_files\<lparr>rf_writes := 7\<rparr>)) i = Some node \<longrightarrow> ns_id node = i"
    by (auto simp: rerouted_files_def files_of_def fresh_node_def split: if_splits)
  show "map_of (rf_nodes (rerouted_files\<lparr>rf_writes := 7\<rparr>)) ''lint'' = Some ((fresh_node ''lint'' ''agent'' ''ready'' '''')
      \<lparr>ns_current_attempt := 1,
       ns_pending_target := Some \<lparr>tgt_driver = ''codex'', tgt_provider = ''openai'', tgt_model = ''gpt-5''\<rparr>\<rparr>)"
    by (simp add: rerouted_files_def files_of_def fresh_node_def)
qed simp

subsection \<open>Interrupted launches\<close>

lemma load_nodes_frame: "rf_nodes g = rf_nodes f \<Longrightarrow> load_nodes ids g = (fst (load_nodes ids f), g)"
proof (induction ids)
  case (Cons i ids)
  show ?case
  proof (cases "safeID i")
    case True
    then show ?thesis
      using Cons by (cases "map_of (rf_nodes f) i"; cases "load_nodes ids f"; cases "fst (load_nodes ids f)";
        cases "ValidateNodeSnapshot (the (map_of (rf_nodes f) i))")
        (auto simp: next_step_def ReadNode_def validateID_def ret_def fail_def look_def check_def)
  qed (simp add: next_step_def ReadNode_def validateID_def fail_def)
qed (simp add: ret_def)

lemma loadRun_frame:
  assumes "rf_run g = rf_run f" "rf_nodes g = rf_nodes f"
  shows "loadRun g = (fst (loadRun f), g)"
proof (cases "rf_run f")
  case None
  then show ?thesis using assms(1) by (simp add: loadRun_def ReadSnapshot_def next_step_def look_def)
next
  case (Some w)
  let ?r = "unmarshal_run [] [] w"
  show ?thesis
  proof (cases "ValidateWorkflowSnapshot ?r")
    case (Inl e)
    then show ?thesis
      using assms(1) Some by (simp add: loadRun_def ReadSnapshot_def next_step_def look_def check_def ret_def)
  next
    case (Inr u)
    obtain r f' where n: "load_nodes (ws_order ?r) f = (r, f')" by fastforce
    have "load_nodes (ws_order ?r) g = (r, g)" using load_nodes_frame [OF assms(2)] n by simp
    then show ?thesis
      using assms(1) Some Inr n
      by (cases r) (simp_all add: loadRun_def ReadSnapshot_def next_step_def look_def check_def ret_def Let_def)
  qed
qed

lemma stuck_result: "m f = (Inr x, f) \<Longrightarrow> stuck (next_step m k) f \<longleftrightarrow> stuck (k x) f"
  by (simp add: stuck_def next_step_def)

text \<open>
  C29. A launch that is interrupted between the new Attempt and its node blocks the run. If
  the process stops after it has created the Attempt of a node and before it has written
  the node as running, the node file is unchanged, and from then on every batch whose first
  step is to launch that node fails, with any budget of durable steps and any back end or
  compiler, and changes neither the run, nor a node, an Attempt or the event log.
\<close>

theorem interrupted_launch_blocks_run:
  assumes load: "fst (loadRun f) = Inr (run, nodes)"
    and node: "findNode nodes i = Some node" "safeID i" "0 \<le> ns_current_attempt node"
    and attempt: "as_node_id attempt = i" "as_number attempt = ns_current_attempt node + 1"
      "ValidateAttemptSnapshotWithCatalogs h c attempt = Inr ()" "map_of (rf_attempts f) (i, as_number attempt) = None"
    and crash: "g = snd (next_step (writeAttempt h c attempt True) (\<lambda>_. WriteNode i running) (f\<lparr>rf_writes := 2\<rparr>))"
    and caps: "en_backends engine (runDriver run) = Some capabilities"
      "EffectiveConcurrency (doc_max_concurrency (nz_document normalized)) (cap_max_concurrent capabilities) = Inr effective"
    and batch: "PlanSchedule normalized (run\<lparr>ws_effective_concurrency := effective\<rparr>) nodes (cap_max_concurrent capabilities) = Inr d"
      "sd_skip_upstream d = []" "sd_skip_conditions d = []" "sd_skip_policy d = []" "sd_ready_approvals d = []"
      "sd_ready_agents d = i # ids"
  shows "rf_nodes g = rf_nodes f \<and> (\<exists>e g'. scheduleBatch engine active normalized (g\<lparr>rf_writes := w\<rparr>) = (Inl e, g')
    \<and> rf_run g' = rf_run g \<and> rf_nodes g' = rf_nodes g \<and> rf_attempts g' = rf_attempts g \<and> rf_events g' = rf_events g)"
proof -
  have g: "rf_run g = rf_run f" "rf_nodes g = rf_nodes f" "map_of (rf_attempts g) (i, ns_current_attempt node + 1) \<noteq> None"
    unfolding crash using node attempt
    by (simp_all add: next_step_def writeAttempt_def check_def WriteAttempt_def validateAttempt_def validateID_def ret_def
        durable_def WriteNode_def AList.update_conv')
  let ?g = "g\<lparr>rf_writes := w\<rparr>"
  have "loadRun ?g = (Inr (run, nodes), ?g)" using loadRun_frame [of ?g f] g(1,2) load by simp
  moreover have "stuck (launch_agents engine normalized results run' nodes (i # ids)) ?g" for results run'
    by (rule stuck_launch_agents [OF node(1)]) (simp add: findNode_mem [OF node(1)] g(3) del: not_None_eq)
  ultimately have "stuck (scheduleBatch engine active normalized) ?g"
    unfolding scheduleBatch_def controllerMutation_def
    by (simp add: stuck_fail stuck_result caps batch Let_def check_def step_simps stuck_now)
  then show ?thesis using g(2) by (auto simp: stuck_def unchanged_def same_files_def)
qed

definition pending_files :: RunFiles where
  "pending_files = files_of sample_run after_plan"

definition codex_engine :: Engine where
  "codex_engine = local_engine\<lparr>en_backends := (\<lambda>_. Some \<lparr>cap_tools = [], cap_runtimes = [], cap_output = True,
     cap_waiting_input = True, cap_max_concurrent = 1, cap_concurrent_cancel = False\<rparr>)\<rparr>"

definition docs_attempt :: AttemptSnapshot where
  "docs_attempt = \<lparr>as_protocol_version = 2, as_schema_version = 3, as_run_id = ''run-1'', as_node_id = ''docs'',
     as_number = 1, as_phase = NodePhaseRunning, as_conclusion = '''', as_reason = '''', as_resolved_driver = ''codex'',
     as_resolved_target = ''local'', as_backend = ''codex'', as_launch_state = LaunchPrepared, as_execution = None,
     as_result_consumed = False, as_compiler_version = '''', as_compiler_version_v2 = '''',
     as_manifest = \<lparr>mv_compiler_version = '''', mv_components = []\<rparr>, as_manifest_v2 = None, as_context_hash = '''',
     as_routing_decision = None, as_execution_profile = None, as_routing_usage = None, as_side_effect = '''',
     as_failure_class = '''', as_memory_usage = None, as_prompt_hash = '''', as_started_at = 0, as_updated_at = 0,
     as_completed_at = None\<rparr>"

definition crashed_files :: RunFiles where
  "crashed_files = snd (next_step (writeAttempt (\<lambda>_. []) (\<lambda>_. None) docs_attempt True)
     (\<lambda>_. WriteNode ''docs'' (fresh_node ''docs'' ''agent'' ''running'' '''')) (pending_files\<lparr>rf_writes := 2\<rparr>))"

lemma interrupted_launch_blocks_run_witness:
  "rf_nodes crashed_files = rf_nodes pending_files
   \<and> (\<exists>e g'. scheduleBatch codex_engine True diamond (crashed_files\<lparr>rf_writes := 100\<rparr>) = (Inl e, g')
    \<and> rf_run g' = rf_run crashed_files \<and> rf_nodes g' = rf_nodes crashed_files
    \<and> rf_attempts g' = rf_attempts crashed_files \<and> rf_events g' = rf_events crashed_files)"
proof (rule interrupted_launch_blocks_run [where attempt = docs_attempt and effective = 1 and ids = "[]"])
  show "fst (loadRun pending_files) = Inr (disk_run pending_files, after_plan)" by code_simp
  show "findNode after_plan ''docs'' = Some (fresh_node ''docs'' ''agent'' ''pending'' '''')" "safeID ''docs''"
    "0 \<le> ns_current_attempt (fresh_node ''docs'' ''agent'' ''pending'' '''')"
    "as_node_id docs_attempt = ''docs''"
    "as_number docs_attempt = ns_current_attempt (fresh_node ''docs'' ''agent'' ''pending'' '''') + 1"
    "ValidateAttemptSnapshotWithCatalogs (\<lambda>_. []) (\<lambda>_. None) docs_attempt = Inr ()"
    "map_of (rf_attempts pending_files) (''docs'', as_number docs_attempt) = None" by code_simp+
  show "crashed_files = snd (next_step (writeAttempt (\<lambda>_. []) (\<lambda>_. None) docs_attempt True)
     (\<lambda>_. WriteNode ''docs'' (fresh_node ''docs'' ''agent'' ''running'' '''')) (pending_files\<lparr>rf_writes := 2\<rparr>))"
    by (rule crashed_files_def)
  show "en_backends codex_engine (runDriver (disk_run pending_files)) = Some (the (en_backends codex_engine []))" by code_simp
  show "EffectiveConcurrency (doc_max_concurrency (nz_document diamond))
      (cap_max_concurrent (the (en_backends codex_engine []))) = Inr 1" by code_simp
  show "PlanSchedule diamond (disk_run pending_files\<lparr>ws_effective_concurrency := 1\<rparr>) after_plan
      (cap_max_concurrent (the (en_backends codex_engine [])))
      = Inr \<lparr>sd_ready_agents = [''docs''], sd_ready_approvals = [], sd_skip_upstream = [], sd_skip_conditions = [],
          sd_skip_policy = [], sd_limit = 1, sd_active = 0, sd_available = 0, sd_stop = False, sd_complete = False\<rparr>" by code_simp
qed simp_all

end
