(* ===== verification/Run_Context_Properties.thy ===== *)
theory Run_Context_Properties
  imports Run_Control_Properties
begin

section \<open>Properties of the context of an Attempt\<close>

text \<open>
  What the identities of the sources mean for a launch: the ID of a dependency source is
  built from the name of the upstream node, and the names of nodes are wider than the
  names of sources.
\<close>

lemma upper_other: "is_upper c \<Longrightarrow> \<not> is_lower c \<and> \<not> is_digit c \<and> c \<notin> set ''._:-''"
  by (auto simp: is_upper_def is_lower_def is_digit_def)

lemma contract_id_no_upper: "contractIDPattern s \<Longrightarrow> c \<in> set s \<Longrightarrow> \<not> is_upper c"
  using upper_other [of c] by (cases s) (auto simp: contractIDPattern_def list_all_iff simp del: list.set dest!: set_ConsD)

lemma declared_ids_checked:
  assumes "validateSourceIdentitiesV2 input = Inr ()" "(i, kind) \<in> set (declared_identities input)"
  shows "contractIDPattern i"
  using assms by (fastforce simp: validateSourceIdentitiesV2_def Let_def each_ok_iff split: sum.splits if_splits)

lemma ResolveSources_ids:
  assumes "ResolveSources sha parse access input = Inr r"
  shows "validateSourceIdentitiesV2 input = Inr ()"
  using assms
  by (auto simp: ResolveSources_def resolve_checks_def Let_def split: sum.splits list.splits if_splits)

lemma sortedKeys_set [simp]: "set (sortedKeys m) = fst ` set m"
  by (simp add: sortedKeys_def)

lemma compileRunContext_dependency_ids:
  assumes "compileRunContext access a now = Inr out" "d \<in> fst ` set (cx_dependency_results a)"
  shows "contractIDPattern (''dependency-'' @ d)"
proof -
  obtain selected r where "ResolveSources (xa_sha access) (xa_parse access) (xa_files access)
      (resolution_input access a now selected) = Inr r"
    using assms(1) by (auto simp: compileRunContext_def Let_def split: sum.splits)
  note ids = declared_ids_checked [OF ResolveSources_ids [OF this]]
  have "(''dependency-'' @ d, KindDependencyResult) \<in> set (declared_identities (resolution_input access a now selected))"
    using assms(2) by (auto simp: declared_identities_def resolution_input_def dependency_source_def declare_source_def)
  then show ?thesis by (rule ids)
qed

lemma stuck_launch_uncompiled:
  assumes "findNode nodes i = Some node"
    and "\<And>node target task number now. ns_id node = i \<Longrightarrow>
      \<exists>e. compileRunContext (en_context engine) (context_assembly normalized results run node target task number) now = Inl e"
  shows "stuck (launch_agents engine normalized results run nodes (i # ids)) f"
proof -
  have i: "ns_id node = i" using assms(1) by (auto simp: findNode_def find_Some_iff)
  show ?thesis
    unfolding launch_agents.simps with_node_def assms(1) option.case Let_def split_def
  proof (rule stuck_next [OF reads_render_text], goal_cases)
    case (1 task f1)
    show ?case
    proof (cases "MaxPromptBytes < length task")
      case True
      then show ?thesis by (simp add: stuck_fail)
    next
      case False
      have "stuck (next_step (check w (compileRunContext (en_context engine)
          (context_assembly normalized results run node target task number) now)) k) f" for w target number now k f
        using assms(2) [OF i, of target task number now]
        by (auto simp: stuck_def next_step_def check_def unchanged_def)
      note failing = this
      show ?thesis
        unfolding if_not_P [OF False]
        by (rule stuck_next [OF reads_basic(3)], rule stuck_next [OF reads_prepareAttemptRouting],
            rule stuck_next [OF reads_basic(3)], rule stuck_next [OF reads_basic(4)], rule stuck_next [OF reads_basic(4)], rule failing)
    qed
  qed
qed

text \<open>
  C30. An upstream node whose name has an upper-case letter blocks the nodes below it. Names of
  nodes may have such letters, but the name of a Context source may not, and the source of
  an upstream result is named after its node. So once the upstream node has a result, every
  batch whose first step is to launch a node that depends on it fails, with any engine, file
  system, Memory and budget of durable steps, and changes neither the run, nor a node, an
  Attempt or the event log.
\<close>

theorem upper_case_dependency_blocks_node:
  assumes load: "fst (loadRun f) = Inr (run, nodes)"
    and node: "findNode nodes i = Some node"
    and upstream: "d \<in> set (contextDependencySet normalized i)" "d \<in> fst ` set (node_results nodes)"
      "c \<in> set d" "is_upper c"
    and caps: "en_backends engine (runDriver run) = Some capabilities"
      "EffectiveConcurrency (doc_max_concurrency (nz_document normalized)) (cap_max_concurrent capabilities) = Inr effective"
    and batch: "PlanSchedule normalized (run\<lparr>ws_effective_concurrency := effective\<rparr>) nodes (cap_max_concurrent capabilities) = Inr e"
      "sd_skip_upstream e = []" "sd_skip_conditions e = []" "sd_skip_policy e = []" "sd_ready_approvals e = []"
      "sd_ready_agents e = i # ids"
  shows "\<exists>x g. scheduleBatch engine active normalized (f\<lparr>rf_writes := w\<rparr>) = (Inl x, g)
    \<and> rf_run g = rf_run f \<and> rf_nodes g = rf_nodes f \<and> rf_attempts g = rf_attempts f \<and> rf_events g = rf_events f"
proof -
  let ?f = "f\<lparr>rf_writes := w\<rparr>"
  have "loadRun ?f = (Inr (run, nodes), ?f)" using loadRun_frame [of ?f f] load by simp
  moreover have "stuck (launch_agents engine normalized (node_results nodes) run' nodes (i # ids)) ?f" for run'
  proof (rule stuck_launch_uncompiled [OF node])
    fix node :: NodeSnapshot and target task number now
    assume i: "ns_id node = i"
    have "\<not> contractIDPattern (''dependency-'' @ d)"
      using contract_id_no_upper [of "''dependency-'' @ d" c] upstream(3,4) by auto
    moreover have "d \<in> fst ` set (cx_dependency_results
        (context_assembly normalized (node_results nodes) run' node target task number))"
      using upstream(1,2) i by (force simp: context_assembly_def Let_def)
    ultimately show "\<exists>x. compileRunContext (en_context engine)
        (context_assembly normalized (node_results nodes) run' node target task number) now = Inl x"
      using compileRunContext_dependency_ids
      by (cases "compileRunContext (en_context engine)
        (context_assembly normalized (node_results nodes) run' node target task number) now") blast+
  qed
  ultimately have "stuck (scheduleBatch engine active normalized) ?f"
    unfolding scheduleBatch_def controllerMutation_def
    by (simp add: stuck_fail stuck_result caps batch Let_def check_def step_simps stuck_now)
  then show ?thesis by (auto simp: stuck_def unchanged_def same_files_def)
qed

text \<open>Two nodes, the first of which is called \<^verbatim>\<open>Plan\<close> and has succeeded with a result.\<close>

definition capital_workflow :: Normalized where
  "capital_workflow = diamond\<lparr>nz_document := diamond_doc\<lparr>doc_nodes :=
       [(''Plan'', empty_node\<lparr>n_type := ''agent''\<rparr>), (''docs'', empty_node\<lparr>n_type := ''agent'', n_depends_on := [''Plan'']\<rparr>)]\<rparr>,
     nz_order := [''Plan'', ''docs'']\<rparr>"

definition capital_nodes :: "NodeSnapshot list" where
  "capital_nodes =
     [(fresh_node ''Plan'' ''agent'' ''completed'' ''succeeded'')\<lparr>ns_result := Some \<lparr>res_summary = ''done'', res_artifacts = None,
        res_warnings = None, res_checks = None, res_questions = [], res_usage = \<lparr>us_input_tokens = 0, us_output_tokens = 0\<rparr>,
        res_decision = '''', res_reason = ''''\<rparr>\<rparr>,
      fresh_node ''docs'' ''agent'' ''pending'' '''']"

definition capital_files :: RunFiles where
  "capital_files = files_of (sample_run\<lparr>ws_order := [''Plan'', ''docs'']\<rparr>) capital_nodes"

lemma upper_case_dependency_blocks_node_witness:
  "\<exists>x g. scheduleBatch codex_engine True capital_workflow (capital_files\<lparr>rf_writes := 100\<rparr>) = (Inl x, g)
    \<and> rf_run g = rf_run capital_files \<and> rf_nodes g = rf_nodes capital_files
    \<and> rf_attempts g = rf_attempts capital_files \<and> rf_events g = rf_events capital_files"
proof (rule upper_case_dependency_blocks_node [where i = "''docs''" and d = "''Plan''" and c = "CHR ''P''"
      and effective = 1 and ids = "[]" and nodes = capital_nodes and run = "disk_run capital_files"
      and capabilities = "the (en_backends codex_engine [])"])
  show "fst (loadRun capital_files) = Inr (disk_run capital_files, capital_nodes)" by code_simp
  show "findNode capital_nodes ''docs'' = Some (capital_nodes ! 1)" by code_simp
  show "''Plan'' \<in> set (contextDependencySet capital_workflow ''docs'')" by code_simp
  show "''Plan'' \<in> fst ` set (node_results capital_nodes)" by code_simp
  show "is_upper CHR ''P''" by (simp add: is_upper_def)
  show "en_backends codex_engine (runDriver (disk_run capital_files)) = Some (the (en_backends codex_engine []))" by code_simp
  show "EffectiveConcurrency (doc_max_concurrency (nz_document capital_workflow))
      (cap_max_concurrent (the (en_backends codex_engine []))) = Inr 1" by code_simp
  show "PlanSchedule capital_workflow (disk_run capital_files\<lparr>ws_effective_concurrency := 1\<rparr>) capital_nodes
      (cap_max_concurrent (the (en_backends codex_engine [])))
      = Inr \<lparr>sd_ready_agents = [''docs''], sd_ready_approvals = [], sd_skip_upstream = [], sd_skip_conditions = [],
          sd_skip_policy = [], sd_limit = 1, sd_active = 0, sd_available = 0, sd_stop = False, sd_complete = False\<rparr>" by code_simp
qed simp_all

end
