(* ===== verification/Json_Emit.thy ===== *)
theory Json_Emit
  imports Json_Valid
begin

section \<open>The texts that the encoders write are JSON\<close>

text \<open>
  \<open>json_item d x\<close>: within an object or an array, and with \<open>d\<close> more levels of nesting
  allowed, the scanner reads the text \<open>x\<close> as one value: the byte after it is handled as
  one that ends a value. The encoders of \<^verbatim>\<open>Json_Text\<close> make such items from items.
\<close>

definition json_item :: "nat \<Rightarrow> string \<Rightarrow> bool" where
  "json_item d x \<longleftrightarrow> x \<noteq> [] \<and> \<not> json_space (hd x) \<and> hd x \<noteq> CHR '']''
     \<and> (\<forall>K c. K \<noteq> [] \<longrightarrow> length K + d \<le> max_nesting \<longrightarrow> c \<in> {CHR '','', CHR 0x7D, CHR '']''}
          \<longrightarrow> jstep (jrun (BeginValue, K) x) c = end_value c K)"

lemma json_itemI:
  assumes "x \<noteq> []" "\<not> json_space (hd x)" "hd x \<noteq> CHR '']''"
    "\<And>K. K \<noteq> [] \<Longrightarrow> length K + d \<le> max_nesting \<Longrightarrow> jrun (BeginValue, K) x = (EndValue, K)"
  shows "json_item d x"
  using assms by (auto simp: json_item_def)

lemma json_item_step:
  "json_item d x \<Longrightarrow> K \<noteq> [] \<Longrightarrow> length K + d \<le> max_nesting \<Longrightarrow> c \<in> {CHR '','', CHR 0x7D, CHR '']''} \<Longrightarrow>
     jstep (jrun (BeginValue, K) x) c = end_value c K"
  unfolding json_item_def by blast

lemma json_item_deeper: "json_item d x \<Longrightarrow> d \<le> d' \<Longrightarrow> json_item d' x"
  by (auto simp: json_item_def)

subsection \<open>Strings\<close>

text \<open>A rune as it is decoded: one ASCII byte, an invalid byte, or a sequence of high bytes.\<close>

lemma decode_rune_cases:
  assumes "t \<noteq> []" "decode_rune (map byte t) = (r, k)"
  obtains c where "take k t = [c]" "r = byte c" "byte c < 128"
  | "r = rune_error" "length (take k t) = 1"
  | "128 \<le> r" "list_all (\<lambda>c. 128 \<le> byte c) (take k t)"
  using assms
  by (cases t) (auto simp: cont_byte_def split: if_splits list.splits)

lemma runes_piece:
  "rb \<in> set (runes s) \<Longrightarrow> \<exists>t k. t \<noteq> [] \<and> decode_rune (map byte t) = (fst rb, k) \<and> snd rb = take k t"
proof (induction s rule: runes.induct)
  case (1 s)
  obtain r k where d: "decode_rune (map byte s) = (r, k)" by fastforce
  show ?case
  proof (cases "s = []")
    case False
    then have "rb = (r, take k s) \<or> rb \<in> set (runes (drop k s))"
      using "1.prems" d by (subst (asm) runes.simps) simp
    then show ?thesis
      using "1.IH" [OF False refl d [symmetric]] False d by auto
  qed (use 1 in simp)
qed

lemma high_plain: "list_all (\<lambda>c. 128 \<le> byte c) s \<Longrightarrow> jrun (InStr, K) s = (InStr, K)"
  by (rule jrun_plain) (auto simp: list_all_iff byte_def dest: bspec)

lemma hex_digit_is_hex: "n < 16 \<Longrightarrow> is_hex (hex_digit n)"
proof -
  have "list_all is_hex ''0123456789abcdef''"
    by (simp add: is_hex_def is_digit_def)
  then show "n < 16 \<Longrightarrow> is_hex (hex_digit n)"
    unfolding list_all_length hex_digit_def by simp
qed

lemma rune_stays:
  assumes "rb \<in> set (runes s)"
  shows "jrun (InStr, K) (json_rune rb) = (InStr, K)"
proof -
  obtain t k where t: "t \<noteq> []" "decode_rune (map byte t) = (fst rb, k)" "snd rb = take k t"
    using runes_piece [OF assms] by blast
  have rb: "rb = (fst rb, take k t)" using t(3) by (metis prod.collapse)
  from t(1,2) show ?thesis
  proof (cases rule: decode_rune_cases)
    case (1 c)
    have plain: "jrun (InStr, K) [c] = (InStr, K)" if "byte c \<noteq> 34" "byte c \<noteq> 92" "\<not> byte c < 32"
      using that by (auto simp: byte_def)
    have zero: "is_hex CHR ''0''" by (simp add: is_hex_def is_digit_def)
    show ?thesis
      using 1 plain by (subst rb) (auto simp: json_rune_def hex_digit_is_hex zero)
  next
    case 2
    then show ?thesis
      by (subst rb) (simp add: json_rune_def is_hex_def is_digit_def)
  next
    case 3
    then show ?thesis
      by (subst rb) (auto simp: json_rune_def is_hex_def is_digit_def high_plain)
  qed
qed

lemma raw_stays:
  assumes "rb \<in> set (runes s)" "fst rb \<in> {60, 62, 38}"
  shows "jrun (InStr, K) (snd rb) = (InStr, K)"
proof -
  obtain t k where t: "t \<noteq> []" "decode_rune (map byte t) = (fst rb, k)" "snd rb = take k t"
    using runes_piece [OF assms(1)] by blast
  from t(1,2) show ?thesis
  proof (cases rule: decode_rune_cases)
    case (1 c)
    then show ?thesis using assms(2) by (auto simp: t(3) byte_def)
  next
    case 3
    then show ?thesis using assms(2) by auto
  qed (use assms(2) in auto)
qed

lemma body_stays:
  "(\<And>b. b \<in> set bs \<Longrightarrow> jrun (InStr, K) (f b) = (InStr, K)) \<Longrightarrow> jrun (InStr, K) (concat (map f bs)) = (InStr, K)"
  by (induction bs) auto

lemma quoted_item:
  assumes "\<And>K. jrun (InStr, K) s = (InStr, K)"
  shows "json_item d (CHR 0x22 # s @ [CHR 0x22])"
  by (rule json_itemI) (simp_all add: assms begin_value_def json_space_def)

lemma json_string_item [simp]: "json_item d (json_string s)"
  unfolding json_string_def by (intro quoted_item body_stays rune_stays)

text \<open>A string in the place of a key.\<close>

lemma json_string_key:
  "jrun (BeginString, K) (json_string s) = (EndValue, K)"
  "jrun (BeginStringOrEmpty, K) (json_string s) = (EndValue, K)"
  unfolding json_string_def by (simp_all add: json_space_def body_stays rune_stays)

subsection \<open>Numbers and literals\<close>

lemma digit_run:
  assumes "\<forall>c \<in> set s. is_digit c"
  shows "jrun (NumInt, K) s = (NumInt, K)"
  using assms by (induction s) auto

lemma show_nat_item: "jrun (st, K) (show_nat n) \<in> {(NumInt, K), (NumZero, K)}" if "st = NumNeg \<or> st = BeginValue"
proof (cases "n = 0")
  case True
  have "show_nat 0 = ''0''" by (subst show_nat.simps) (simp add: chr_zero)
  then show ?thesis using that True by (auto simp: begin_value_def json_space_def)
next
  case False
  obtain c cs where s: "show_nat n = c # cs" by (cases "show_nat n") auto
  have d: "is_digit c" "\<forall>x \<in> set cs. is_digit x" using show_nat_digits [of _ n] s by auto
  have "c \<noteq> CHR ''0''" using show_nat_head [OF False] s by simp
  moreover have "\<not> json_space c" "c \<noteq> CHR ''-''" "c \<noteq> CHR 0x22" "c \<noteq> CHR 0x7B" "c \<noteq> CHR ''[''"
      "c \<noteq> CHR ''t''" "c \<noteq> CHR ''f''" "c \<noteq> CHR ''n''"
    using d(1) by (auto simp: is_digit_def json_space_def)
  ultimately show ?thesis
    using that d by (auto simp: s begin_value_def digit_run)
qed

lemma digit_space: "is_digit c \<Longrightarrow> \<not> json_space c \<and> c \<noteq> CHR '']''"
  by (auto simp: is_digit_def json_space_def)

lemma number_end: "st \<in> {NumInt, NumZero} \<Longrightarrow> c \<in> {CHR '','', CHR 0x7D, CHR '']''} \<Longrightarrow> jstep (st, K) c = end_value c K"
  by (elim insertE emptyE) (simp_all add: is_digit_def)

lemma show_int_item [simp]: "json_item d (show_int i)"
proof -
  have run: "jrun (BeginValue, K) (show_int i) \<in> {(NumInt, K), (NumZero, K)}" for K
    using show_nat_item [of BeginValue K "nat i"] show_nat_item [of NumNeg K "nat (- i)"]
    by (simp add: show_int_def begin_value_def json_space_def)
  have "\<not> json_space (hd (show_int i)) \<and> hd (show_int i) \<noteq> CHR '']'' \<and> show_int i \<noteq> []"
  proof -
    have "is_digit (hd (show_nat n))" for n using show_nat_digits [of "hd (show_nat n)" n] by simp
    then have "\<not> json_space (hd (show_nat n)) \<and> hd (show_nat n) \<noteq> CHR '']''" for n
      by (metis (mono_tags, lifting) digit_space)
    then show ?thesis by (simp add: show_int_def json_space_def)
  qed
  moreover have "jstep (jrun (BeginValue, K) (show_int i)) c = end_value c K"
    if "c \<in> {CHR '','', CHR 0x7D, CHR '']''}" for K c
    using run [of K] number_end [OF _ that, of NumInt K] number_end [OF _ that, of NumZero K] by auto
  ultimately show ?thesis by (simp add: json_item_def)
qed

lemma json_literal_item:
  "json_item d ''true''" "json_item d ''false''" "json_item d ''null''"
  by (rule json_itemI; simp add: begin_value_def json_space_def)+

subsection \<open>Arrays and objects\<close>

lemma begin_first: "json_item d x \<Longrightarrow> jrun (BeginValueOrEmpty, K) (x @ r) = jrun (BeginValue, K) (x @ r)"
  by (cases x) (auto simp: json_item_def begin_value_def)

lemma items_run:
  "list_all (json_item d) (x # xs) \<Longrightarrow> length K + Suc d \<le> max_nesting \<Longrightarrow>
     jstep (jrun (BeginValue, ArrVal # K) (join_with '','' (x # xs))) (CHR '']'') = pop_ctx (ArrVal # K)"
proof (induction xs arbitrary: x)
  case Nil
  then show ?case
    by (simp add: json_item_step end_value_def json_space_def)
next
  case (Cons y ys)
  then have "jstep (jrun (BeginValue, ArrVal # K) x) (CHR '','') = (BeginValue, ArrVal # K)"
    using json_item_step [of d x "ArrVal # K" "CHR '',''"] by (simp add: end_value_def json_space_def)
  then show ?case using Cons by simp
qed

lemma json_array_run:
  assumes "list_all (json_item d) xs" "length K + Suc d \<le> max_nesting"
  shows "jrun (BeginValue, K) (json_array xs) = pop_ctx (ArrVal # K)"
proof -
  have open_array: "begin_value (CHR ''['') K = (BeginValueOrEmpty, ArrVal # K)"
    using assms(2) by (simp add: begin_value_def json_space_def push_ctx_def)
  show ?thesis
  proof (cases xs)
    case Nil
    then show ?thesis
      by (simp add: json_array_def open_array end_value_def json_space_def)
  next
    case (Cons x ys)
    obtain r where r: "join_with '','' (x # ys) = x @ r" by (cases ys) auto
    have "jrun (BeginValueOrEmpty, ArrVal # K) (join_with '','' xs) = jrun (BeginValue, ArrVal # K) (join_with '','' xs)"
      using assms(1) begin_first [of d x] unfolding Cons r by simp
    then show ?thesis
      using items_run [of d x ys K] assms by (simp add: json_array_def open_array Cons)
  qed
qed

lemma json_array_item: "list_all (json_item d) xs \<Longrightarrow> json_item (Suc d) (json_array xs)"
  using json_array_run [of d xs]
  by (intro json_itemI) (auto simp: json_array_def json_space_def pop_ctx_def)

abbreviation member_text :: "string \<times> string \<Rightarrow> string" where
  "member_text m \<equiv> json_string (fst m) @ '':'' @ snd m"

lemma member_run:
  assumes "st \<in> {BeginString, BeginStringOrEmpty}" "json_item d (snd m)" "length K + Suc d \<le> max_nesting"
    "c \<in> {CHR '','', CHR 0x7D}"
  shows "jstep (jrun (st, ObjKey # K) (member_text m)) c = end_value c (ObjVal # K)"
proof -
  have "jrun (st, ObjKey # K) (member_text m) = jrun (BeginValue, ObjVal # K) (snd m)"
    using assms(1) by (auto simp: json_string_key end_value_def json_space_def)
  then show ?thesis using json_item_step [OF assms(2), of "ObjVal # K" c] assms(3,4) by auto
qed

lemma members_run:
  "st \<in> {BeginString, BeginStringOrEmpty} \<Longrightarrow> list_all (\<lambda>m. json_item d (snd m)) (m # ms) \<Longrightarrow>
     length K + Suc d \<le> max_nesting \<Longrightarrow>
     jstep (jrun (st, ObjKey # K) (join_with '','' (map member_text (m # ms)))) (CHR 0x7D) = pop_ctx (ObjVal # K)"
proof (induction ms arbitrary: m st)
  case Nil
  then show ?case
    using member_run [of st d m K "CHR 0x7D"] by (simp add: end_value_def json_space_def)
next
  case (Cons y ys)
  have "jstep (jrun (st, ObjKey # K) (member_text m)) (CHR '','') = (BeginString, ObjKey # K)"
    using member_run [of st d m K "CHR '',''"] Cons.prems by (simp add: end_value_def json_space_def)
  then show ?case using Cons.IH [of BeginString y] Cons.prems by simp
qed

lemma json_object_run:
  assumes "list_all (\<lambda>m. json_item d (snd m)) ms" "length K + Suc d \<le> max_nesting"
  shows "jrun (BeginValue, K) (json_object ms) = pop_ctx (ObjVal # K)"
proof -
  have members: "json_object ms = ''{'' @ join_with '','' (map member_text ms) @ ''}''"
    by (simp add: json_object_def split_beta')
  have open_object: "begin_value (CHR 0x7B) K = (BeginStringOrEmpty, ObjKey # K)"
    using assms(2) by (simp add: begin_value_def json_space_def push_ctx_def)
  show ?thesis
  proof (cases ms)
    case Nil
    then show ?thesis
      unfolding members by (simp add: open_object end_value_def json_space_def)
  next
    case (Cons m ms')
    then show ?thesis
      using members_run [of BeginStringOrEmpty d m ms' K] assms
      unfolding members by (simp add: open_object)
  qed
qed

lemma json_object_item: "list_all (\<lambda>m. json_item d (snd m)) ms \<Longrightarrow> json_item (Suc d) (json_object ms)"
  using json_object_run [of d ms]
  by (intro json_itemI) (auto simp: json_object_def json_space_def pop_ctx_def)

theorem json_object_valid:
  assumes "list_all (\<lambda>m. json_item d (snd m)) ms" "d < max_nesting"
  shows "json_valid (json_object ms)"
  using json_object_run [OF assms(1), of "[]"] assms(2)
  by (simp add: json_valid_def pop_ctx_def json_space_def)

lemma json_object_shape: "\<exists>body. json_object ms = CHR 0x7B # body @ [CHR 0x7D]"
  by (simp add: json_object_def)

end
