(* ===== verification/Json_Suffix.thy ===== *)
theory Json_Suffix
  imports Json_Valid
begin

section \<open>A part of a JSON object that was cut off at its front is not JSON\<close>

text \<open>
  Two runs of the scanner over the same bytes, one inside a text and one that starts with
  them, are compared by whether they are within a string and by their nesting depth. Both
  change in a way that depends on the byte only, as long as there is no error.
\<close>

datatype mode = Out | Str | Esc | Hex nat

fun mode_of :: "jstate \<Rightarrow> mode" where
  "mode_of InStr = Str"
| "mode_of InEsc = Esc"
| "mode_of (InHex n) = Hex n"
| "mode_of _ = Out"

fun next_mode :: "mode \<Rightarrow> char \<Rightarrow> mode" where
  "next_mode Out c = (if c = CHR 0x22 then Str else Out)"
| "next_mode Str c = (if c = CHR 0x22 then Out else if c = CHR 0x5C then Esc else Str)"
| "next_mode Esc c = (if c = CHR ''u'' then Hex 3 else Str)"
| "next_mode (Hex n) c = (case n of 0 \<Rightarrow> Str | Suc k \<Rightarrow> Hex k)"

definition depth_change :: "mode \<Rightarrow> char \<Rightarrow> int" where
  "depth_change m c =
     (if m \<noteq> Out then 0 else if c = CHR 0x7B \<or> c = CHR ''['' then 1
      else if c = CHR 0x7D \<or> c = CHR '']'' then - 1 else 0)"

text \<open>A state in which the scanner can be: the context fits the state.\<close>

definition brackets :: "char set" where
  "brackets = {CHR 0x22, CHR 0x5C, CHR 0x7B, CHR ''['', CHR 0x7D, CHR '']''}"

fun scanning :: "jscan \<Rightarrow> bool" where
  "scanning (ScanError, K) \<longleftrightarrow> False"
| "scanning (BeginStringOrEmpty, K) \<longleftrightarrow> K \<noteq> []"
| "scanning (BeginString, K) \<longleftrightarrow> K \<noteq> []"
| "scanning (BeginValueOrEmpty, K) \<longleftrightarrow> K \<noteq> []"
| "scanning (EndTop, K) \<longleftrightarrow> K = []"
| "scanning (InLit w, K) \<longleftrightarrow> set w \<inter> brackets = {}"
| "scanning (_, K) \<longleftrightarrow> True"

text \<open>
  What a step from a state of mode \<open>m\<close> and context \<open>K\<close> on byte \<open>c\<close> leads to: the mode and the
  change of depth depend on \<open>m\<close> and \<open>c\<close> only, unless it is an error.
\<close>

definition tracks :: "mode \<Rightarrow> jctx list \<Rightarrow> char \<Rightarrow> jscan \<Rightarrow> bool" where
  "tracks m K c s \<longleftrightarrow> fst s = ScanError \<or>
     mode_of (fst s) = next_mode m c \<and> int (length (snd s)) = int (length K) + depth_change m c
     \<and> scanning s \<and> (m = Out \<longrightarrow> c \<noteq> CHR 0x5C) \<and> (\<forall>n. m = Hex n \<longrightarrow> c \<noteq> CHR 0x22)"

lemma digit_plain:
  assumes "is_digit c"
  shows "c \<noteq> CHR 0x22" "c \<noteq> CHR 0x5C" "c \<noteq> CHR 0x7B" "c \<noteq> CHR ''[''" "c \<noteq> CHR 0x7D" "c \<noteq> CHR '']''"
  using assms by (auto simp: is_digit_def)

lemma begin_value_tracks: "tracks Out K c (begin_value c K)"
  using digit_plain [of c]
  by (simp add: tracks_def begin_value_def push_ctx_def json_space_def depth_change_def brackets_def)

lemma end_value_tracks: "tracks Out K c (end_value c K)"
  by (cases K) (auto simp: tracks_def end_value_def pop_ctx_def json_space_def depth_change_def split: jctx.split)

lemma scan_step:
  assumes "scanning (st, K)"
  shows "tracks (mode_of st) K c (jstep (st, K) c)"
proof -
  have number: "is_digit c \<Longrightarrow> tracks Out K c (NumInt, K) \<and> tracks Out K c (NumFrac, K) \<and> tracks Out K c (NumExp, K)"
    using digit_plain by (auto simp: tracks_def depth_change_def)
  have tail: "K \<noteq> [] \<Longrightarrow> tracks Out K c (end_value c (ObjVal # tl K))"
    using end_value_tracks [of "ObjVal # tl K" c] by (cases K) (auto simp: tracks_def)
  have plain: "tracks Out K c (s, K)" if "mode_of s = Out" "scanning (s, K)" "c \<notin> brackets" for s
    using that by (auto simp: tracks_def depth_change_def brackets_def)
  show ?thesis
  proof (cases st)
    case (InLit w)
    then show ?thesis
      using assms plain by (cases w) (auto simp: tracks_def depth_change_def brackets_def)
  next
    case EndTop
    then show ?thesis
      using assms end_value_tracks [of "[]" c] by (simp add: end_value_def)
  next
    case (InHex n)
    then show ?thesis
      by (cases n) (auto simp: tracks_def depth_change_def is_hex_def is_digit_def)
  qed (use assms number tail begin_value_tracks [of K c] end_value_tracks [of K c] in
      \<open>auto simp: tracks_def [of _ _ _ "(_, K)"] depth_change_def json_space_def\<close>)
qed

subsection \<open>Whole runs\<close>

fun mode_run :: "mode \<Rightarrow> string \<Rightarrow> mode" where
  "mode_run m [] = m"
| "mode_run m (c # cs) = mode_run (next_mode m c) cs"

fun depth_run :: "mode \<Rightarrow> string \<Rightarrow> int" where
  "depth_run m [] = 0"
| "depth_run m (c # cs) = depth_change m c + depth_run (next_mode m c) cs"

definition clean_run :: "jscan \<Rightarrow> string \<Rightarrow> bool" where
  "clean_run s cs \<longleftrightarrow> fst (jrun s cs) \<noteq> ScanError"

lemma clean_run_Cons: "clean_run s (c # cs) \<longleftrightarrow> clean_run (jstep s c) cs"
  by (simp add: clean_run_def)

lemma clean_run_head: "clean_run s cs \<Longrightarrow> fst s \<noteq> ScanError"
  unfolding clean_run_def by (cases s) auto

lemma clean_run_append: "clean_run s (xs @ ys) \<Longrightarrow> clean_run s xs \<and> clean_run (jrun s xs) ys"
  using clean_run_head [of "jrun s xs" ys] by (simp add: clean_run_def)

lemma clean_step:
  assumes "scanning s" "clean_run s (c # cs)"
  shows "mode_of (fst (jstep s c)) = next_mode (mode_of (fst s)) c"
    and "int (length (snd (jstep s c))) = int (length (snd s)) + depth_change (mode_of (fst s)) c"
    and "scanning (jstep s c)" "clean_run (jstep s c) cs"
    and "mode_of (fst s) = Out \<Longrightarrow> c \<noteq> CHR 0x5C" "mode_of (fst s) = Hex n \<Longrightarrow> c \<noteq> CHR 0x22"
  using assms scan_step [of "fst s" "snd s" c] clean_run_head [of "jstep s c" cs]
  by (auto simp: tracks_def clean_run_Cons)

lemma run_tracks:
  "scanning s \<Longrightarrow> clean_run s cs \<Longrightarrow>
     mode_of (fst (jrun s cs)) = mode_run (mode_of (fst s)) cs
     \<and> int (length (snd (jrun s cs))) = int (length (snd s)) + depth_run (mode_of (fst s)) cs
     \<and> scanning (jrun s cs)"
proof (induction cs arbitrary: s)
  case (Cons c cs)
  show ?case
    using Cons.IH [of "jstep s c"] clean_step [OF Cons.prems] by simp
qed simp

lemma end_top_spaces: "clean_run (EndTop, []) cs \<Longrightarrow> list_all json_space cs"
  by (induction cs) (auto simp: clean_run_def split: if_splits)

text \<open>Once a value has been opened, an empty context means that it has been closed.\<close>

definition closed_when_empty :: "jscan \<Rightarrow> bool" where
  "closed_when_empty s \<longleftrightarrow> (snd s = [] \<longrightarrow> fst s = EndTop)"

lemma closed_step:
  assumes "scanning s" "closed_when_empty s" "fst (jstep s c) \<noteq> ScanError"
  shows "closed_when_empty (jstep s c)"
proof (cases "snd s")
  case Nil
  then have "s = (EndTop, [])"
    using assms(2) by (cases s) (simp add: closed_when_empty_def)
  then show ?thesis
    using assms(3) by (auto simp: closed_when_empty_def split: if_splits)
next
  case (Cons k K)
  obtain st where s: "s = (st, k # K)" using Cons by (cases s) simp
  have ends: "fst (end_value c L) \<noteq> ScanError \<Longrightarrow> L \<noteq> [] \<Longrightarrow> closed_when_empty (end_value c L)" for L
    by (cases L) (auto simp: end_value_def pop_ctx_def closed_when_empty_def split: jctx.split)
  have begins: "closed_when_empty (begin_value c (k # K))"
    by (auto simp: begin_value_def push_ctx_def closed_when_empty_def)
  show ?thesis
    using assms(1,3) ends [of "k # K"] ends [of "ObjVal # K"] begins unfolding s
    by (cases st) (auto simp: closed_when_empty_def split: list.splits nat.splits if_splits)
qed

lemma closed_run:
  "scanning s \<Longrightarrow> closed_when_empty s \<Longrightarrow> clean_run s cs \<Longrightarrow> closed_when_empty (jrun s cs)"
proof (induction cs arbitrary: s)
  case (Cons c cs)
  then show ?case
    using clean_step [OF Cons.prems(1,3)] closed_step [OF Cons.prems(1,2)] clean_run_head [of "jstep s c" cs] by simp
qed simp

subsection \<open>Two runs over the same bytes\<close>

text \<open>The modes of two runs of which exactly one is within a string.\<close>

definition flipped :: "mode \<Rightarrow> mode \<Rightarrow> bool" where
  "flipped m m' \<longleftrightarrow> (m = Str \<and> m' = Out) \<or> (m = Out \<and> m' = Str) \<or> (\<exists>n. m = Hex n \<and> m' = Out)"

lemma flipped_step:
  assumes "flipped m m'" "m = Out \<or> m' = Out \<Longrightarrow> c \<noteq> CHR 0x5C" "\<And>n. m = Hex n \<Longrightarrow> c \<noteq> CHR 0x22"
  shows "flipped (next_mode m c) (next_mode m' c)"
  using assms by (auto simp: flipped_def split: nat.splits if_splits)

lemma flipped_runs:
  "scanning s \<Longrightarrow> clean_run s cs \<Longrightarrow> scanning s' \<Longrightarrow> clean_run s' cs
   \<Longrightarrow> flipped (mode_of (fst s)) (mode_of (fst s'))
   \<Longrightarrow> flipped (mode_of (fst (jrun s cs))) (mode_of (fst (jrun s' cs)))"
proof (induction cs arbitrary: s s')
  case (Cons c cs)
  note one = clean_step [OF Cons.prems(1,2)] and two = clean_step [OF Cons.prems(3,4)]
  have "flipped (mode_of (fst (jstep s c))) (mode_of (fst (jstep s' c)))"
    using flipped_step [OF Cons.prems(5)] one two by auto
  then show ?case
    using Cons.IH one two by simp
qed simp

text \<open>The end of a valid text: outside a string and with no value left open.\<close>

lemma valid_ends:
  assumes "scanning s" "fst (jstep (jrun s cs) (CHR '' '')) = EndTop"
  shows "clean_run s cs" "mode_of (fst (jrun s cs)) = Out" "snd (jrun s cs) = []"
proof -
  have clean: "clean_run s (cs @ [CHR '' ''])"
    using assms(2) by (simp add: clean_run_def)
  then show cs: "clean_run s cs"
    using clean_run_append by blast
  have sc: "scanning (jrun s cs)"
    using run_tracks [OF assms(1) cs] by simp
  have step: "clean_run (jrun s cs) [CHR '' '']"
    using clean_run_append [OF clean] by simp
  show "mode_of (fst (jrun s cs)) = Out"
    using clean_step(1) [OF sc step] assms(2)
    by (cases "mode_of (fst (jrun s cs))") (auto split: if_splits nat.splits)
  then have "int (length (snd (jrun s cs))) = int (length (snd (jstep (jrun s cs) (CHR '' ''))))"
    using clean_step(2) [OF sc step] by (simp add: depth_change_def)
  moreover have "snd (jstep (jrun s cs) (CHR '' '')) = []"
    using clean_step(3) [OF sc step] assms(2) by (cases "jstep (jrun s cs) (CHR '' '')") auto
  ultimately show "snd (jrun s cs) = []" by simp
qed

text \<open>A byte that may follow a backslash and may begin a value.\<close>

lemma escaped_start:
  assumes "fst (jstep (InEsc, K) c) \<noteq> ScanError" "fst (begin_value c []) \<noteq> ScanError"
  shows "c \<in> {CHR 0x22, CHR ''f'', CHR ''n'', CHR ''t''}"
proof -
  have "c \<in> {CHR ''b'', CHR ''f'', CHR ''n'', CHR ''r'', CHR ''t'', CHR 0x5C, CHR ''/'', CHR 0x22, CHR ''u''}"
    using assms(1) by (simp split: if_splits) blast
  moreover have "fst (begin_value b []) = ScanError" if "b \<in> {CHR ''b'', CHR ''r'', CHR 0x5C, CHR ''/'', CHR ''u''}" for b
    using that by (elim insertE emptyE) (simp_all add: begin_value_def json_space_def is_digit_def)
  ultimately show ?thesis
    using assms(2) by blast
qed

theorem object_suffix_invalid:
  assumes whole: "json_valid (CHR 0x7B # P @ S)"
    and closing: "S = S' @ [CHR 0x7D]"
  shows "\<not> json_valid S"
proof
  assume part: "json_valid S"
  let ?b = "(BeginValue, [])"
  let ?o = "jstep ?b (CHR 0x7B)"
  let ?p = "jrun ?o P"
  have o: "scanning ?o" "closed_when_empty ?o" "mode_of (fst ?o) = Out"
    by (simp_all add: begin_value_def json_space_def push_ctx_def closed_when_empty_def)
  have whole': "fst (jstep (jrun ?o (P @ S)) (CHR '' '')) = EndTop"
    using whole by (simp only: json_valid_def jrun.simps)
  note ends = valid_ends [OF o(1) whole']
  have part': "fst (jstep (jrun ?b S) (CHR '' '')) = EndTop"
    using part by (simp only: json_valid_def)
  have b: "scanning ?b" "mode_of (fst ?b) = Out" by simp_all
  note pends = valid_ends [OF b(1) part']
  have clean: "clean_run ?o P" "clean_run ?p S"
    using clean_run_append [OF ends(1)] by auto
  have p: "scanning ?p" "closed_when_empty ?p"
    using run_tracks [OF o(1) clean(1)] closed_run [OF o(1,2) clean(1)] by auto
  have not_end: "snd ?p \<noteq> []"
  proof
    assume "snd ?p = []"
    then have "?p = (EndTop, [])"
      using p(2) by (cases ?p) (simp add: closed_when_empty_def)
    then have "list_all json_space S"
      using end_top_spaces clean(2) by simp
    then show False
      by (simp add: closing json_space_def)
  qed
  then have "0 < int (length (snd ?p))" by (simp only: length_greater_0_conv of_nat_0_less_iff not_False_eq_True)
  moreover have "int (length (snd ?p)) + depth_run (mode_of (fst ?p)) S = 0" "depth_run Out S = 0"
    using run_tracks [OF p(1) clean(2)] ends(3) run_tracks [OF b(1) pends(1)] pends(3) by auto
  ultimately have depth: "depth_run (mode_of (fst ?p)) S < 0" "depth_run Out S = 0"
    by linarith+
  have not_flipped: "\<not> flipped (mode_of (fst ?p)) Out"
    using flipped_runs [OF p(1) clean(2) b(1) pends(1)] ends(2) pends(2) b(2)
    by (auto simp: flipped_def)
  obtain c cs where S: "S = c # cs" by (cases S) (auto simp: closing)
  note cp = clean_step [OF p(1) clean(2) [unfolded S]] and cb = clean_step [OF b(1) pends(1) [unfolded S]]
  show False
  proof (cases "mode_of (fst ?p)")
    case Esc
    then obtain K where pK: "?p = (InEsc, K)"
      by (cases "fst ?p"; cases ?p) auto
    have "fst (jstep ?p c) \<noteq> ScanError" "fst (begin_value c []) \<noteq> ScanError"
      using clean_run_head cp(4) cb(4) by auto
    then have escaped: "c \<in> {CHR 0x22, CHR ''f'', CHR ''n'', CHR ''t''}"
      unfolding pK by (rule escaped_start)
    show False
    proof (cases "c = CHR 0x22")
      case True
      then show False
        using depth Esc by (simp add: S depth_change_def)
    next
      case False
      then have "flipped (mode_of (fst (jstep ?p c))) (mode_of (fst (jstep ?b c)))"
        unfolding cp(1) cb(1) using Esc escaped by (auto simp: flipped_def)
      then have "flipped (mode_of (fst (jrun ?p S))) (mode_of (fst (jrun ?b S)))"
        using flipped_runs [OF cp(3,4) cb(3,4)] by (simp add: S)
      then show False
        using ends(2) pends(2) by (auto simp: flipped_def)
    qed
  qed (use depth not_flipped in \<open>auto simp: flipped_def\<close>)
qed

end
