(* ===== verification/Context_Delivery.thy ===== *)
theory Context_Delivery
  imports Context_Adapter Context_Properties Json_Emit Json_Suffix
begin

section \<open>From the sources to the driver's envelope\<close>

text \<open>
  The canonical text of a result is a JSON object, so what is left of it after the
  allocation has cut it is not JSON. The adapter demands JSON.
\<close>

lemma json_text_item [simp]: "json_item d (json_text s)"
  unfolding json_text_def
proof (rule quoted_item, rule body_stays)
  fix K rb
  assume "rb \<in> set (runes s)"
  then show "jrun (InStr, K) (case rb of (r, bs) \<Rightarrow> if r \<in> set [60, 62, 38] then bs else json_rune (r, bs)) = (InStr, K)"
    using rune_stays [of rb s K] raw_stays [of rb s K] by (cases rb rule: prod.exhaust) simp
qed

lemma json_bool_item [simp]: "json_item d (json_bool b)"
  by (simp add: json_bool_def json_literal_item)

lemma canonical_strings_items: "list_all (\<lambda>m. json_item (Suc d) (snd m)) (canonical_strings k xs)"
  by (auto simp: canonical_strings_def list_all_iff intro!: json_array_item)

lemma canonical_text_items: "list_all (\<lambda>m. json_item d (snd m)) (canonical_text k s)"
  by (simp add: canonical_text_def)

lemma usage_item: "json_item (Suc d) (json_usage u)"
  unfolding json_usage_def by (rule json_object_item) (simp add: omit_zero_def)

lemma canonical_question_item:
  "json_item 2 (json_object ([(''id'', json_text (iq_id q)), (''prompt'', json_text (iq_prompt q))]
      @ canonical_strings ''choices'' (iq_choices q) @ [(''required'', json_bool (iq_required q))]))"
  using json_object_item [of 1] canonical_strings_items [of 0] by (simp add: numeral_2_eq_2)

lemma canonical_result_valid: "json_valid (canonical_result r)"
  unfolding canonical_result_def
proof (rule json_object_valid [where d = 3])
  have "list_all (\<lambda>m. json_item 3 (snd m)) (canonical_strings k xs)" for k xs
    using canonical_strings_items [of 2 k xs] by (simp add: eval_nat_numeral)
  moreover have "json_item 3 (json_usage u)" for u
    using usage_item [of 2 u] by (simp add: eval_nat_numeral)
  moreover have "json_item 3 (json_array (map (\<lambda>q. json_object ([(''id'', json_text (iq_id q)),
      (''prompt'', json_text (iq_prompt q))] @ canonical_strings ''choices'' (iq_choices q)
      @ [(''required'', json_bool (iq_required q))])) qs))" for qs :: "InputQuestion list"
    by (rule json_item_deeper [OF json_array_item [of 2]]) (simp_all add: list_all_iff canonical_question_item del: append_Cons)
  ultimately show "list_all (\<lambda>m. json_item 3 (snd m)) (canonical_text ''summary'' (res_summary r)
      @ canonical_strings ''artifacts'' (items (res_artifacts r))
      @ canonical_strings ''warnings'' (items (res_warnings r))
      @ canonical_strings ''checks'' (items (res_checks r))
      @ (if res_questions r = [] then []
         else [(''questions'', json_array (map (\<lambda>q. json_object
           ([(''id'', json_text (iq_id q)), (''prompt'', json_text (iq_prompt q))]
            @ canonical_strings ''choices'' (iq_choices q) @ [(''required'', json_bool (iq_required q))])) (res_questions r)))])
      @ [(''usage'', json_usage (res_usage r))]
      @ canonical_text ''decision'' (res_decision r) @ canonical_text ''reason'' (res_reason r))"
    by (simp only: list_all_append list.pred_inject snd_conv canonical_text_items simp_thms split: if_split)
qed simp

lemma object_cut_invalid:
  assumes "json_valid (json_object ms)" "strict_suffix t (json_object ms)" "t \<noteq> []"
  shows "\<not> json_valid t"
proof -
  obtain body where o: "json_object ms = CHR 0x7B # body @ [CHR 0x7D]" using json_object_shape by blast
  obtain p where p: "json_object ms = p @ t" "p \<noteq> []"
    using assms(2) by (auto simp: strict_suffix_def suffix_def)
  obtain p' where p': "p = CHR 0x7B # p'" using p o by (cases p) auto
  have "last t = CHR 0x7D" using p(1) o assms(3) by (metis last_appendR last_snoc append_Cons)
  then obtain t' where "t = t' @ [CHR 0x7D]" using assms(3) by (metis append_butlast_last_id)
  moreover have "json_valid (CHR 0x7B # p' @ t)" using assms(1) p(1) p' by simp
  ultimately show ?thesis using object_suffix_invalid by blast
qed

lemma project_components_stops:
  "c \<in> set cs \<Longrightarrow> cc_kind c = KindDependencyResult \<Longrightarrow> \<not> json_valid (cc_content c) \<Longrightarrow>
     \<exists>c' \<in> set cs. cc_kind c' = KindDependencyResult \<and> \<not> json_valid (cc_content c')
       \<and> project_components e cs = Inl (AdaptDependency (cc_id c'))"
  by (induction e cs rule: project_components.induct) auto

lemma project_components_ok:
  "(\<And>c. c \<in> set cs \<Longrightarrow> cc_kind c = KindDependencyResult \<Longrightarrow> json_valid (cc_content c)) \<Longrightarrow>
     \<exists>e'. project_components e cs = Inr e'"
  by (induction e cs rule: project_components.induct) auto

text \<open>The adapter fails on a dependency result only in the projection of the components.\<close>

lemma adapt_start:
  assumes "ValidateContextEnvelopeV2 sha env = Inr ()" "\<not> blank workspace"
  shows "\<exists>start. (\<forall>e. project_components start (ce_components env) = Inl e \<longrightarrow>
        AdaptEnvelopeV2WithSkills sha env workspace target skills = Inl e)
     \<and> (\<forall>p i. project_components start (ce_components env) = Inr p \<longrightarrow>
        AdaptEnvelopeV2WithSkills sha env workspace target skills \<noteq> Inl (AdaptDependency i))"
  unfolding AdaptEnvelopeV2WithSkills_def Let_def
  by (rule exI [of _ "\<lparr>ae_protocol_version = AgentProtocolVersion, ae_identity = ce_identity env,
      ae_workspace = workspace, ae_target = if blank target then ''local'' else target, ae_task = '''',
      ae_context = \<lparr>ac_upstream_results = Some [], ac_required_skills = Some (drop_repeated (sort_by (<) skills)),
        ac_input_answer = ''''\<rparr>,
      ae_constraints = Some [], ae_budget = Some [], ae_result_contract = \<lparr>rc_schema = '''', rc_max_bytes = 64 * 1024\<rparr>,
      ae_routing_decision = None, ae_execution_profile = None, ae_prompt = ''''\<rparr>"])
    (use assms in \<open>simp split: sum.split\<close>)

lemma adapt_stops_iff:
  assumes "ValidateContextEnvelopeV2 sha env = Inr ()" "\<not> blank workspace"
  shows "(\<exists>i. AdaptEnvelopeV2WithSkills sha env workspace target skills = Inl (AdaptDependency i)) \<longleftrightarrow>
     (\<exists>c \<in> set (ce_components env). cc_kind c = KindDependencyResult \<and> \<not> json_valid (cc_content c))"
    (is "?l \<longleftrightarrow> ?r")
proof -
  obtain start where start:
      "\<And>e. project_components start (ce_components env) = Inl e \<Longrightarrow>
        AdaptEnvelopeV2WithSkills sha env workspace target skills = Inl e"
      "\<And>p i. project_components start (ce_components env) = Inr p \<Longrightarrow>
        AdaptEnvelopeV2WithSkills sha env workspace target skills \<noteq> Inl (AdaptDependency i)"
    using adapt_start [OF assms] by blast
  have "?r" if l: ?l
  proof (rule ccontr)
    assume "\<not> ?r"
    then have "\<exists>p. project_components start (ce_components env) = Inr p"
      by (intro project_components_ok) blast
    then show False using l start(2) by blast
  qed
  moreover have "?l" if ?r
    using that project_components_stops [of _ "ce_components env" start] start(1) by blast
  ultimately show ?thesis by blast
qed

text \<open>
  C31. The adapter refuses a context exactly when the allocation has cut a dependency result.
  The result of an upstream node is in the important tier, which is cut to suffixes when it does not fit;
  what is left of a canonical result is never JSON, and the adapter demands JSON. So no
  driver receives a part of a result, and a node whose upstream results do not fit the tier
  cannot be launched.
\<close>

theorem truncated_result_refused:
  assumes compiled: "CompileContextV2 sha input = Inr out"
    and results: "\<forall>c \<in> set (sr_components (ci_resolution input)). cc_kind c = KindDependencyResult
      \<longrightarrow> cc_content c \<in> range canonical_result"
    and workspace: "\<not> blank workspace"
  shows "(\<exists>i. AdaptEnvelopeV2WithSkills sha (cv_envelope out) workspace target skills = Inl (AdaptDependency i)) \<longleftrightarrow>
     (\<exists>c \<in> set (ce_components (cv_envelope out)). cc_kind c = KindDependencyResult \<and> cc_truncation c \<noteq> TruncationNone)"
proof -
  obtain cs oms where c: "compile_checks sha input = Inr (all_sources input)"
      "allocateV2 sha (all_sources input) (ci_budget input) = Inr (cs, oms)"
      "cv_envelope out = compiled_envelope input cs oms" "ValidateContextEnvelopeV2 sha (cv_envelope out) = Inr ()"
    using compiled by (auto simp: CompileContextV2_iff)
  have chk: "validateBudgetV2 (ci_budget input) = Inr ()"
    "cc_kind (ci_execution_contract input) = KindExecutionContract"
    "cc_kind (ci_output_contract input) = KindOutputContract"
    using c(1) by (auto simp: compile_checks_iff validateEngineContract_iff)
  note valid = compile_checks_sources(1,2) [OF c(1)]
  have kept: "\<forall>c' \<in> set cs. \<exists>s \<in> set (all_sources input). kept sha s c'"
    using allocateV2_spec(2) [OF c(2) valid chk(1)] .
  have "json_valid (cc_content d) \<longleftrightarrow> cc_truncation d = TruncationNone"
    if d: "d \<in> set cs" "cc_kind d = KindDependencyResult" for d
  proof -
    obtain s where s: "s \<in> set (all_sources input)" "kept sha s d" using kept d(1) by blast
    then have "s \<in> set (sr_components (ci_resolution input))"
      using kept_same [OF s(2)] d(2) chk(2,3) by auto
    then obtain r where r: "cc_content s = canonical_result r"
      using results kept_same [OF s(2)] d(2) by auto
    have whole: "json_valid (cc_content s)" unfolding r by (rule canonical_result_valid)
    have none: "cc_truncation s = TruncationNone" using valid s(1) by blast
    show ?thesis
    proof (cases "d = s")
      case False
      then obtain t where "strict_suffix t (cc_content s)" "t \<noteq> []" "d = truncate_to sha s t"
        using s(2) by (auto simp: kept_def)
      then show ?thesis
        using object_cut_invalid [of _ t] whole unfolding r canonical_result_def by simp
    qed (use whole none in simp)
  qed
  then show ?thesis
    unfolding adapt_stops_iff [OF c(4) workspace] by (auto simp: c(3))
qed

text \<open>A dependency result of 26 bytes in a tier of six: what is left of it ends an object.\<close>

definition short_result :: Result where
  "short_result = \<lparr>res_summary = ''x'', res_artifacts = None, res_warnings = None, res_checks = None, res_questions = [],
     res_usage = \<lparr>us_input_tokens = 0, us_output_tokens = 0\<rparr>, res_decision = '''', res_reason = ''''\<rparr>"

definition short_text :: string where
  "short_text = [CHR 0x7B, CHR 0x22] @ ''summary'' @ [CHR 0x22] @ '':'' @ [CHR 0x22] @ ''x'' @ [CHR 0x22] @ '',''
     @ [CHR 0x22] @ ''usage'' @ [CHR 0x22] @ '':'' @ [CHR 0x7B, CHR 0x7D, CHR 0x7D]"

lemma runes_ascii: "list_all (\<lambda>c. byte c < 128) s \<Longrightarrow> runes s = map (\<lambda>c. (byte c, [c])) s"
proof (induction s)
  case (Cons c s)
  then have "decode_rune (map byte (c # s)) = (byte c, 1)" by simp
  then have "runes (c # s) = (byte c, [c]) # runes s" by (subst runes.simps) simp
  with Cons show ?case by simp
qed simp

lemma short_result_text: "canonical_result short_result = short_text"
  by (simp add: canonical_result_def canonical_text_def canonical_strings_def short_result_def items_def json_usage_def
      omit_zero_def json_object_def json_string_def json_text_def json_rune_def runes_ascii byte_def short_text_def)

definition result_components :: "ContextComponentV2 list" where
  "result_components = [sample_component ''dep'' KindDependencyResult TierImportant short_text,
     sample_component ''task'' KindNodeTask TierRequired ''do'']"

definition result_input :: ContextCompilerInputV2 where
  "result_input = sample_input\<lparr>ci_resolution := \<lparr>sr_components = result_components, sr_omissions = []\<rparr>\<rparr>"

definition result_included :: "ContextComponentV2 list" where
  "result_included = [sample_component ''exec'' KindExecutionContract TierRequired ''e'',
     sample_component ''task'' KindNodeTask TierRequired ''do'',
     truncate_to zero_sha (sample_component ''dep'' KindDependencyResult TierImportant short_text)
       ([CHR 0x65, CHR 0x22] @ '':'' @ [CHR 0x7B, CHR 0x7D, CHR 0x7D]),
     sample_component ''out'' KindOutputContract TierRequired ''o'']"

lemma result_allocation:
  "allocateV2 zero_sha (all_sources result_input) (ci_budget result_input) = Inr (result_included, [])"
  by code_simp

lemma result_checks: "compile_checks zero_sha result_input = Inr (all_sources result_input)"
proof -
  have trim: "stringsTrim ''r'' \<noteq> []" "stringsTrim ''n'' \<noteq> []" by (simp_all add: stringsTrim_def trim_byte_def)
  have "valid_utf8 short_text" "length short_text = 26"
    by (simp_all add: short_text_def valid_utf8_ascii byte_def)
  moreover have "contractIDPattern ''dep''" by code_simp
  ultimately have dep: "validateComponentV2 zero_sha (sample_component ''dep'' KindDependencyResult TierImportant short_text) = Inr ()"
    by (intro sample_component_valid) (auto simp: componentRank_def tierAllowed_def validTier_def)
  have task: "validateComponentV2 zero_sha (sample_component ''task'' KindNodeTask TierRequired ''do'') = Inr ()"
    "validateComponentV2 zero_sha (ci_execution_contract sample_input) = Inr ()"
    "validateComponentV2 zero_sha (ci_output_contract sample_input) = Inr ()"
    by (rule sample_sources_valid; simp add: sample_input_def sample_components_def)+
  show ?thesis
    using trim dep task
    by (simp add: compile_checks_iff validateEngineContract_iff validateBudgetV2_iff result_input_def result_components_def)
      (simp add: sample_input_def)
qed

lemma result_compiles: "\<exists>out. CompileContextV2 zero_sha result_input = Inr out \<and> ce_components (cv_envelope out) = result_included"
proof -
  let ?out = "compiled_envelope result_input result_included []"
  have few: "length (sr_omissions (ci_resolution result_input)) + length ([] :: ContextOmissionV2 list) \<le> MaxContextOmissions"
    by (simp add: result_input_def)
  have "ValidateContextEnvelopeV2 zero_sha ?out = Inr ()"
    using compiled_valid_iff [OF result_checks result_allocation few]
    by (simp add: result_input_def sample_input_def result_components_def result_included_def context_sample_trims)
  moreover from this obtain m where "BuildContextManifestV2 zero_sha ?out = Inr m"
    by (auto simp: BuildContextManifestV2_def CanonicalEnvelopeHashV2_def)
  ultimately have "CompileContextV2 zero_sha result_input =
      Inr \<lparr>cv_envelope = ?out, cv_manifest = m, cv_hash = zero_sha (json_envelope ?out)\<rparr>"
    unfolding CompileContextV2_iff
    using result_checks result_allocation few by (intro exI conjI) simp_all
  then show ?thesis by auto
qed

lemma truncated_result_refused_witness:
  "\<exists>out i. CompileContextV2 zero_sha result_input = Inr out
     \<and> AdaptEnvelopeV2WithSkills zero_sha (cv_envelope out) ''/p'' ''local'' [] = Inl (AdaptDependency i)"
proof -
  obtain out where out: "CompileContextV2 zero_sha result_input = Inr out" "ce_components (cv_envelope out) = result_included"
    using result_compiles by blast
  have "\<forall>c \<in> set (sr_components (ci_resolution result_input)). cc_kind c = KindDependencyResult
      \<longrightarrow> cc_content c \<in> range canonical_result"
    using short_result_text [symmetric] by (auto simp: result_input_def result_components_def sample_component_def)
  moreover have "\<not> blank ''/p''" by (simp add: trim_space_def space_strings_def)
  ultimately show ?thesis
    using truncated_result_refused [OF out(1), of "''/p''" "''local''" "[]"] out
    by (auto simp: result_included_def)
qed

end
