(* ===== verification/Memory_Facts.thy ===== *)
theory Memory_Facts
  imports Memory_Operations
begin

section \<open>Facts about the Memory catalog\<close>

subsection \<open>Lookup in a sorted catalog\<close>

abbreviation sorted_ids :: "MemoryRecordV1 list \<Rightarrow> bool" where
  "sorted_ids records \<equiv> sorted_wrt (<) (map mr_id records)"

lemma sort_search_least:
  assumes "\<And>x y. x \<le> y \<Longrightarrow> p x \<Longrightarrow> p y" "i \<le> j"
  shows "i \<le> sort_search p i j \<and> sort_search p i j \<le> j
    \<and> (\<forall>k. i \<le> k \<and> k < sort_search p i j \<longrightarrow> \<not> p k) \<and> (sort_search p i j < j \<longrightarrow> p (sort_search p i j))"
  using assms
proof (induction p i j rule: sort_search.induct)
  case (1 p i j)
  let ?P = "\<lambda>i j. i \<le> sort_search p i j \<and> sort_search p i j \<le> j
    \<and> (\<forall>k. i \<le> k \<and> k < sort_search p i j \<longrightarrow> \<not> p k) \<and> (sort_search p i j < j \<longrightarrow> p (sort_search p i j))"
  let ?h = "(i + j) div 2"
  show ?case
  proof (cases "i < j")
    case True
    then have mid: "?h + 1 \<le> j" "i \<le> ?h" "?h \<le> j" by auto
    show ?thesis
    proof (cases "p ?h")
      case False
      have below: "\<not> p k" if "k \<le> ?h" for k using 1(3) that False by blast
      have IH: "?P (?h + 1) j" by (rule "1.IH"(1) [OF True refl False _ mid(1)]) (rule 1(3))
      have "sort_search p i j = sort_search p (?h + 1) j"
        using True False by (subst sort_search.simps) simp
      moreover have "\<not> p k" if "k < sort_search p (?h + 1) j" for k
        using below IH that by (cases "k \<le> ?h") auto
      ultimately show ?thesis
        using IH mid by auto
    next
      case h: True
      then have "\<not> \<not> p ?h" by simp
      from "1.IH"(2) [OF True refl this _ mid(2)] have IH: "?P i ?h" using 1(3) by blast
      have "sort_search p i j = sort_search p i ?h"
        using True h by (subst sort_search.simps) simp
      then show ?thesis
        using IH h mid by (cases "sort_search p i ?h = ?h") auto
    qed
  next
    case False
    then show ?thesis using 1(4) by (subst (1 2 3 4 5) sort_search.simps) auto
  qed
qed

lemma findMemoryRecord_iff:
  assumes s: "sorted_ids records"
  shows "findMemoryRecord records i = Some k \<longleftrightarrow> k < length records \<and> mr_id (records ! k) = i"
proof -
  let ?n = "length records"
  let ?p = "\<lambda>k. mr_id (records ! k) \<ge> i"
  define q where "q = (\<lambda>k. ?n \<le> k \<or> ?p k)"
  have mono: "x \<le> y \<Longrightarrow> q x \<Longrightarrow> q y" for x y
  proof -
    assume xy: "x \<le> y" and x: "q x"
    show "q y"
    proof (cases "x < y \<and> y < ?n")
      case True
      then have "mr_id (records ! x) < mr_id (records ! y)" "\<not> ?n \<le> x"
        using s unfolding sorted_wrt_iff_nth_less by auto
      then show ?thesis using x unfolding q_def by (meson le_less_trans less_imp_le)
    next
      case False
      then show ?thesis using x xy unfolding q_def by (metis le_neq_implies_less not_less)
    qed
  qed
  have same: "sort_search ?p a b = sort_search q a b" if "b \<le> ?n" for a b
    using that
  proof (induction ?p a b rule: sort_search.induct)
    case (1 a b)
    show ?case
      using 1 by (subst (1 2) sort_search.simps) (auto simp: q_def Let_def)
  qed
  define r where "r = sort_search ?p 0 ?n"
  have r: "r \<le> ?n" "\<And>k. k < r \<Longrightarrow> \<not> q k" "r < ?n \<Longrightarrow> q r"
    using sort_search_least [of q 0 ?n, OF mono] unfolding r_def same [OF order.refl] by auto
  have inj: "a = b" if "a < ?n" "b < ?n" "mr_id (records ! a) = mr_id (records ! b)" for a b
    using s that unfolding sorted_wrt_iff_nth_less by (metis length_map less_irrefl linorder_neqE_nat nth_map)
  have "k = r" if k: "k < ?n" "mr_id (records ! k) = i"
  proof -
    have "q k" using k by (simp add: q_def)
    then have "r \<le> k" using r(2) by (meson not_less)
    moreover have "i \<le> mr_id (records ! r)" if "r < k" using r(3) that k by (auto simp: q_def)
    moreover have "mr_id (records ! r) < mr_id (records ! k)" if "r < k"
      using s that k unfolding sorted_wrt_iff_nth_less by auto
    ultimately show ?thesis using k(2) by (metis le_neq_implies_less not_less)
  qed
  then show ?thesis
    unfolding findMemoryRecord_def Let_def r_def [symmetric] by auto
qed

lemma findMemoryRecord_None:
  assumes "sorted_ids records"
  shows "findMemoryRecord records i = None \<longleftrightarrow> i \<notin> mr_id ` set records"
proof -
  have "findMemoryRecord records i = None \<longleftrightarrow> (\<forall>k. findMemoryRecord records i \<noteq> Some k)" by simp
  also have "\<dots> \<longleftrightarrow> i \<notin> mr_id ` set records"
    unfolding findMemoryRecord_iff [OF assms] by (metis (no_types, lifting) imageE image_eqI in_set_conv_nth)
  finally show ?thesis .
qed

subsection \<open>The validator\<close>

lemma check_records_iff:
  "check_records access identity lastID records = Inr () \<longleftrightarrow>
     sorted_wrt (<) (lastID # map mr_id records) \<and> (\<forall>m \<in> set records. check_record access identity m = Inr ())"
proof (induction records arbitrary: lastID)
  case (Cons m ms)
  show ?case
    by (simp only: check_records.simps res_simps ex_simps Cons.IH) (auto simp: not_le intro: less_trans)
qed simp

lemma check_record_iff:
  "check_record access identity m = Inr () \<longleftrightarrow>
     normalizeMemoryProject (mr_project m) = pid_normalized identity \<and> mr_scope m = ''project''
     \<and> valid_utf8 (mr_content m) \<and> ValidateMemoryRecordV1 (ma_sha access) (ma_parse access) m = Inr ()"
  by (auto simp: check_record_def split: sum.splits)

text \<open>What is demanded of a receipt besides its place among the others.\<close>

definition receipt_ok :: "MemoryAccess \<Rightarrow> nat \<Rightarrow> MemoryRecordV1 list \<Rightarrow> MemoryMutationReceiptV1 \<Rightarrow> bool" where
  "receipt_ok access revision records r \<longleftrightarrow>
     validateMutationIdentity (rcp_mutation_id r) = Inr () \<and> validHashString (rcp_request_hash r)
     \<and> validMemoryReceiptWriter (rcp_writer r) \<and> validAuditReason (rcp_reason r) \<and> rcp_revision r \<le> revision
     \<and> validReceiptOperation (rcp_operation r) \<and> validMemoryRecordID (rcp_record_id r) \<and> sorted (rcp_affected_ids r)
     \<and> \<not> hasDuplicateStrings (rcp_affected_ids r) \<and> rcp_record_id r \<in> mr_id ` set records
     \<and> (\<forall>i \<in> set (rcp_affected_ids r). validMemoryRecordID i \<and> i \<in> mr_id ` set records)
     \<and> check_operation records r = Inr () \<and> ma_parse access (rcp_created_at r) \<noteq> None"

lemma check_memory_receipt_iff:
  "check_memory_receipt access revision records seen lastRevision r = Inr () \<longleftrightarrow>
     receipt_ok access revision records r \<and> lastRevision < rcp_revision r \<and> rcp_mutation_id r \<notin> set seen"
  by (simp only: check_memory_receipt_def res_simps ex_simps receipt_ok_def each_ok_iff)
    (auto simp: check_affected_def split: if_splits)

lemma check_receipts_iff:
  "check_receipts access revision records seen lastRevision rs = Inr n \<longleftrightarrow>
     (\<forall>r \<in> set rs. receipt_ok access revision records r)
     \<and> sorted_wrt (<) (lastRevision # map rcp_revision rs) \<and> distinct (map rcp_mutation_id rs)
     \<and> set (map rcp_mutation_id rs) \<inter> set seen = {} \<and> n = last (lastRevision # map rcp_revision rs)"
proof (induction rs arbitrary: seen lastRevision)
  case (Cons r rs)
  show ?case
    by (simp only: check_receipts.simps res_simps ex_simps check_memory_receipt_iff Cons.IH)
      (auto intro: less_trans)
qed auto

definition catalog_ok :: "MemoryAccess \<Rightarrow> memoryProjectIdentity \<Rightarrow> MemoryCatalogV1 \<Rightarrow> bool" where
  "catalog_ok access identity catalog \<longleftrightarrow> validateMemoryCatalog access catalog identity = Inr ()"

lemma catalog_ok_iff:
  "catalog_ok access identity c \<longleftrightarrow>
     mcat_schema_version c = MemoryCatalogVersion \<and> valid_utf8 (mcat_project c)
     \<and> normalizeMemoryProject (mcat_project c) = pid_normalized identity \<and> mcat_project_hash c = pid_hash identity
     \<and> length (mcat_records c) \<le> MaxProjectMemoryRecords \<and> length (mcat_receipts c) \<le> MaxMemoryReceipts
     \<and> sorted_wrt (<) ('''' # map mr_id (mcat_records c))
     \<and> (\<forall>m \<in> set (mcat_records c). check_record access identity m = Inr ())
     \<and> (\<forall>r \<in> set (mcat_receipts c). receipt_ok access (mcat_revision c) (mcat_records c) r)
     \<and> sorted_wrt (<) (0 # map rcp_revision (mcat_receipts c)) \<and> distinct (map rcp_mutation_id (mcat_receipts c))
     \<and> (mcat_revision c = 0 \<longrightarrow> mcat_records c = [] \<and> mcat_receipts c = [])
     \<and> (0 < mcat_revision c \<longrightarrow> mcat_receipts c \<noteq> [] \<and> rcp_revision (last (mcat_receipts c)) = mcat_revision c)"
  by (simp only: catalog_ok_def validateMemoryCatalog_def res_simps ex_simps check_records_iff check_receipts_iff)
    (auto simp: last_map split: if_splits)

lemma catalog_sorted: "catalog_ok access identity c \<Longrightarrow> sorted_ids (mcat_records c)"
  by (simp add: catalog_ok_iff)

lemma new_catalog_ok:
  assumes "valid_utf8 (pid_canonical identity)" "normalizeMemoryProject (pid_canonical identity) = pid_normalized identity"
  shows "catalog_ok access identity (new_catalog identity)"
  using assms by (simp add: catalog_ok_iff new_catalog_def)

end
