(* ===== verification/Memory_Mutation.thy ===== *)
theory Memory_Mutation
  imports Memory_Facts
begin

section \<open>What every mutation of the Memory catalog promises\<close>

text \<open>
  The interface between \<open>mutateMemory\<close> and the four changes it runs: how the records may
  change, and that a change which has been accepted passes the validation that follows it.
\<close>

subsection \<open>Records over time\<close>

text \<open>
  A record keeps its identity and origin. It goes from active to superseded or deleted and
  from superseded to deleted, loses its content only with the latter, and its uses grow
  only while it is active.
\<close>

definition evolves :: "MemoryRecordV1 \<Rightarrow> MemoryRecordV1 \<Rightarrow> bool" where
  "evolves m m' \<longleftrightarrow>
     mr_schema_version m' = mr_schema_version m \<and> mr_id m' = mr_id m \<and> mr_project m' = mr_project m
     \<and> mr_type m' = mr_type m \<and> mr_scope m' = mr_scope m \<and> mr_content_hash m' = mr_content_hash m
     \<and> mr_sensitivity m' = mr_sensitivity m \<and> mr_provenance m' = mr_provenance m
     \<and> mr_created_at m' = mr_created_at m \<and> mr_supersedes m' = mr_supersedes m \<and> mr_retention m' = mr_retention m
     \<and> mr_use_count m \<le> mr_use_count m' \<and> (mr_state m \<noteq> MemoryActive \<longrightarrow> mr_use_count m' = mr_use_count m)
     \<and> (mr_state m' = mr_state m \<and> mr_content m' = mr_content m
        \<or> mr_state m = MemoryActive \<and> mr_state m' = MemorySuperseded \<and> mr_content m' = mr_content m
        \<or> mr_state m \<noteq> MemoryDeleted \<and> mr_state m' = MemoryDeleted \<and> mr_content m' = '''')"

lemma evolves_refl: "evolves m m"
  by (simp add: evolves_def)

lemma evolves_trans: "evolves m m' \<Longrightarrow> evolves m' m'' \<Longrightarrow> evolves m m''"
  unfolding evolves_def by (elim conjE disjE; simp)

text \<open>The records of a catalog after a change: none is lost, a new one is active and unused.\<close>

definition follows :: "MemoryRecordV1 list \<Rightarrow> MemoryRecordV1 list \<Rightarrow> bool" where
  "follows ms ms' \<longleftrightarrow>
     (\<forall>m \<in> set ms. \<exists>m' \<in> set ms'. evolves m m')
     \<and> (\<forall>m' \<in> set ms'. (\<exists>m \<in> set ms. evolves m m')
          \<or> mr_id m' \<notin> mr_id ` set ms \<and> mr_state m' = MemoryActive \<and> mr_use_count m' = 0)"

lemma follows_ids: "follows ms ms' \<Longrightarrow> mr_id ` set ms \<subseteq> mr_id ` set ms'"
  unfolding follows_def by (auto simp: evolves_def image_iff) metis

lemma follows_map:
  assumes "\<And>m. m \<in> set ms \<Longrightarrow> evolves m (g m)"
  shows "follows ms (map g ms)"
  using assms by (auto simp: follows_def)

lemma set_add_record [simp]: "set (add_record ms m) = insert m (set ms)"
  by (simp add: add_record_def)

lemma length_add_record [simp]: "length (add_record ms m) = length ms + 1"
  by (simp add: add_record_def)

lemma follows_add:
  assumes "follows ms ms'" "mr_id ` set ms' = mr_id ` set ms" "mr_id m \<notin> mr_id ` set ms"
    "mr_state m = MemoryActive" "mr_use_count m = 0"
  shows "follows ms (add_record ms' m)"
  using assms by (auto simp: follows_def)

interpretation memory_id: go_less "\<lambda>a b. mr_id a < mr_id b"
  by unfold_locales auto

lemma sorted_add_record:
  assumes "sorted_ids ms" "mr_id m \<notin> mr_id ` set ms"
  shows "sorted_ids (add_record ms m)"
proof -
  have "distinct (map mr_id ms)" using assms(1) by (simp add: strict_sorted_iff)
  then have "distinct (map mr_id (add_record ms m))" using assms(2) by (simp add: add_record_def)
  moreover have "sorted (map mr_id (add_record ms m))"
    using memory_id.sorted_sort_by [of "ms @ [m]"] by (simp add: add_record_def sorted_wrt_map not_less)
  ultimately show ?thesis by (simp add: strict_sorted_iff)
qed

subsection \<open>Updates in place\<close>

lemma update_found:
  assumes "sorted_ids ms" "findMemoryRecord ms i = Some k"
  shows "ms[k := f (ms ! k)] = map (\<lambda>m. if mr_id m = i then f m else m) ms"
proof -
  have k: "k < length ms" "mr_id (ms ! k) = i"
    using assms(2) findMemoryRecord_iff [OF assms(1)] by auto
  have unique: "j = k" if "j < length ms" "mr_id (ms ! j) = i" for j
    using assms that findMemoryRecord_iff [OF assms(1), of i j] by simp
  show ?thesis
  proof (rule nth_equalityI)
    fix j
    assume j: "j < length (ms[k := f (ms ! k)])"
    show "ms[k := f (ms ! k)] ! j = map (\<lambda>m. if mr_id m = i then f m else m) ms ! j"
    proof (cases "j = k")
      case False
      then have "mr_id (ms ! j) \<noteq> i" using unique j by auto
      with False j show ?thesis by simp
    qed (use k in simp)
  qed simp
qed

lemma sorted_ids_map: "(\<And>m. mr_id (g m) = mr_id m) \<Longrightarrow> sorted_ids (map g ms) \<longleftrightarrow> sorted_ids ms"
proof -
  assume "\<And>m. mr_id (g m) = mr_id m"
  then have "map mr_id (map g ms) = map mr_id ms" by simp
  then show ?thesis by (simp only:)
qed

lemma find_map:
  assumes "sorted_ids ms" "\<And>m. mr_id (g m) = mr_id m"
  shows "findMemoryRecord (map g ms) i = findMemoryRecord ms i"
proof (rule option.expand)
  have s: "sorted_ids (map g ms)" using sorted_ids_map [of g ms, OF assms(2)] assms(1) by blast
  have iff: "findMemoryRecord (map g ms) i = Some k \<longleftrightarrow> findMemoryRecord ms i = Some k" for k
    unfolding findMemoryRecord_iff [OF s] findMemoryRecord_iff [OF assms(1)] by (auto simp: assms(2))
  then show "(findMemoryRecord (map g ms) i = None) = (findMemoryRecord ms i = None)"
    by (metis option.exhaust)
  show "the (findMemoryRecord (map g ms) i) = the (findMemoryRecord ms i)"
    if "findMemoryRecord (map g ms) i \<noteq> None" "findMemoryRecord ms i \<noteq> None"
    using iff that by (metis option.exhaust_sel)
qed

definition used :: "string \<Rightarrow> MemoryRecordV1 \<Rightarrow> MemoryRecordV1" where
  "used stamp m = m\<lparr>mr_use_count := mr_use_count m + 1, mr_updated_at := stamp\<rparr>"

lemma used_simps [simp]:
  "mr_id (used stamp m) = mr_id m" "mr_state (used stamp m) = mr_state m" "mr_supersedes (used stamp m) = mr_supersedes m"
  by (simp_all add: used_def)

lemma count_uses_map:
  assumes "sorted_ids ms" "distinct ids" "set ids \<subseteq> mr_id ` set ms"
  shows "count_uses stamp ids ms = map (\<lambda>m. if mr_id m \<in> set ids then used stamp m else m) ms"
  using assms
proof (induction ids arbitrary: ms)
  case (Cons i ids)
  obtain k where k: "findMemoryRecord ms i = Some k"
    using Cons.prems findMemoryRecord_None by fastforce
  let ?g = "\<lambda>m. if mr_id m = i then used stamp m else m"
  have g: "mr_id (?g m) = mr_id m" for m by simp
  have s: "sorted_ids (map ?g ms)" using sorted_ids_map [of ?g ms, OF g] Cons.prems(1) by blast
  have "map mr_id (map ?g ms) = map mr_id ms" by simp
  then have "mr_id ` set (map ?g ms) = mr_id ` set ms" by (metis list.set_map)
  then have IH: "count_uses stamp ids (map ?g ms) = map (\<lambda>m. if mr_id m \<in> set ids then used stamp m else m) (map ?g ms)"
    by (intro Cons.IH [OF s]) (use Cons.prems in auto)
  have "count_uses stamp (i # ids) ms = count_uses stamp ids (map ?g ms)"
    using update_found [OF Cons.prems(1) k, of "used stamp"] by (simp add: k used_def)
  also have "\<dots> = map (\<lambda>m. if mr_id m \<in> set (i # ids) then used stamp m else m) ms"
    unfolding IH using Cons.prems(2) by auto
  finally show ?case .
qed simp

definition retired :: "string \<Rightarrow> string \<Rightarrow> MemoryRecordV1 \<Rightarrow> MemoryRecordV1" where
  "retired reason stamp m = m\<lparr>mr_state := MemorySuperseded, mr_state_reason := reason, mr_updated_at := stamp\<rparr>"

lemma retired_simps [simp]:
  "mr_id (retired reason stamp m) = mr_id m" "mr_supersedes (retired reason stamp m) = mr_supersedes m"
  by (simp_all add: retired_def)

lemma supersede_records_map:
  assumes "supersede_records access reason stamp ks ms = Inr ms'" "sorted_ids ms"
    "\<forall>k \<in> set ks. k < length ms" "distinct ks"
  shows "ms' = map (\<lambda>m. if mr_id m \<in> (\<lambda>k. mr_id (ms ! k)) ` set ks then retired reason stamp m else m) ms
    \<and> (\<forall>k \<in> set ks. ValidateMemoryRecordV1 (ma_sha access) (ma_parse access) (retired reason stamp (ms ! k)) = Inr ())"
  using assms
proof (induction ks arbitrary: ms)
  case (Cons k ks)
  let ?i = "mr_id (ms ! k)"
  let ?g = "\<lambda>m. if mr_id m = ?i then retired reason stamp m else m"
  have k: "k < length ms" using Cons.prems(3) by simp
  have f: "findMemoryRecord ms ?i = Some k" using findMemoryRecord_iff [OF Cons.prems(2)] k by blast
  have upd: "ms[k := retired reason stamp (ms ! k)] = map ?g ms"
    by (rule update_found [OF Cons.prems(2) f])
  have "mr_id (?g m) = mr_id m" for m by simp
  then have s: "sorted_ids (map ?g ms)" using sorted_ids_map [of ?g ms] Cons.prems(2) by blast
  have v: "ValidateMemoryRecordV1 (ma_sha access) (ma_parse access) (retired reason stamp (ms ! k)) = Inr ()"
    and rest: "supersede_records access reason stamp ks (map ?g ms) = Inr ms'"
    using Cons.prems(1) upd by (auto simp: Let_def retired_def split: sum.splits)
  have other: "map ?g ms ! j = ms ! j" if "j \<in> set ks" for j
  proof -
    have j: "j < length ms" "j \<noteq> k" using Cons.prems(3,4) that by auto
    then have "mr_id (ms ! j) \<noteq> ?i"
      using findMemoryRecord_iff [OF Cons.prems(2), of ?i j] f by auto
    then show ?thesis using j by simp
  qed
  have "ms' = map (\<lambda>m. if mr_id m \<in> (\<lambda>k. mr_id (map ?g ms ! k)) ` set ks then retired reason stamp m else m) (map ?g ms)
    \<and> (\<forall>j \<in> set ks. ValidateMemoryRecordV1 (ma_sha access) (ma_parse access) (retired reason stamp (map ?g ms ! j)) = Inr ())"
    by (rule Cons.IH [OF rest s]) (use Cons.prems in auto)
  moreover have same: "(\<lambda>k. mr_id (map ?g ms ! k)) ` set ks = (\<lambda>k. mr_id (ms ! k)) ` set ks"
    using other by (intro image_cong) simp_all
  moreover have "map (\<lambda>m. if mr_id m \<in> (\<lambda>k. mr_id (ms ! k)) ` set ks then retired reason stamp m else m) (map ?g ms)
      = map (\<lambda>m. if mr_id m \<in> (\<lambda>k. mr_id (ms ! k)) ` set (k # ks) then retired reason stamp m else m) ms"
    by (simp add: retired_def)
  ultimately show ?case
    using v other by simp
qed simp

end
