(* ===== verification/Memory_Laws.thy ===== *)
theory Memory_Laws
  imports Memory_Mutation
begin

section \<open>The mutations as one interface\<close>

text \<open>
  What the standard library promises of the clock's format and of the digest: a formatted
  instant parses to the instant, and a digest is 64 lower-case hexadecimal digits.
\<close>

definition library_laws :: "MemoryAccess \<Rightarrow> bool" where
  "library_laws access \<longleftrightarrow>
     (\<forall>t. ma_parse access (ma_format access t) = Some t) \<and> (\<forall>s. validHashString (ma_sha access s))"

text \<open>The clock has not gone back behind the creation of a record.\<close>

definition not_before :: "MemoryAccess \<Rightarrow> int \<Rightarrow> MemoryRecordV1 list \<Rightarrow> bool" where
  "not_before access now records \<longleftrightarrow> (\<forall>m \<in> set records. \<forall>t. ma_parse access (mr_created_at m) = Some t \<longrightarrow> t \<le> now)"

definition records_ok :: "MemoryAccess \<Rightarrow> memoryProjectIdentity \<Rightarrow> MemoryRecordV1 list \<Rightarrow> bool" where
  "records_ok access identity records \<longleftrightarrow>
     length records \<le> MaxProjectMemoryRecords \<and> sorted_wrt (<) ('''' # map mr_id records)
     \<and> (\<forall>m \<in> set records. check_record access identity m = Inr ())"

definition receipt_fits :: "MemoryRecordV1 list \<Rightarrow> MemoryMutationReceiptV1 \<Rightarrow> bool" where
  "receipt_fits records r \<longleftrightarrow>
     validMemoryRecordID (rcp_record_id r) \<and> sorted (rcp_affected_ids r) \<and> \<not> hasDuplicateStrings (rcp_affected_ids r)
     \<and> rcp_record_id r \<in> mr_id ` set records
     \<and> (\<forall>i \<in> set (rcp_affected_ids r). validMemoryRecordID i \<and> i \<in> mr_id ` set records)
     \<and> check_operation records r = Inr ()"

definition corrupt :: "MemoryStoreError \<Rightarrow> bool" where
  "corrupt e \<longleftrightarrow> (\<exists>message. e = MemoryStoreError MemoryStoreCorrupt message)"

locale memory_mutation =
  fixes operation :: string
    and accepted :: "MemoryAccess \<Rightarrow> 'i \<Rightarrow> bool"
    and project mutation writer reason request :: "'i \<Rightarrow> string"
    and change :: "MemoryAccess \<Rightarrow> 'i \<Rightarrow> memory_change"
    and perform :: "MemoryAccess \<Rightarrow> StoreFault \<Rightarrow> int \<Rightarrow> 'i \<Rightarrow> MemoryFiles \<Rightarrow> (MemoryStoreError + MemoryMutationResult) \<times> MemoryFiles"
  assumes refused: "\<not> accepted access input \<Longrightarrow> \<exists>e. \<not> corrupt e \<and> (\<forall>fault now files. perform access fault now input files = (Inl e, files))"
    and performed: "accepted access input \<Longrightarrow> perform access fault now input files
      = mutateMemory access fault now (project input) (mutation input) operation (writer input) (reason input)
          (request input) (change access input) files"
    and keeps: "accepted access input \<Longrightarrow> sorted_ids (mcat_records catalog) \<Longrightarrow>
      change access input catalog identity now = Inr (changed, i, affected) \<Longrightarrow>
      changed = catalog\<lparr>mcat_records := mcat_records changed\<rparr> \<and> follows (mcat_records catalog) (mcat_records changed)"
    and unfit: "change access input catalog identity now = Inl e \<Longrightarrow> \<not> corrupt e"
    and operation_valid: "validReceiptOperation operation"
    and audited: "accepted access input \<Longrightarrow> validateMutationIdentity (mutation input) = Inr ()
      \<and> validMemoryReceiptWriter (writer input) \<and> validAuditReason (reason input)"
    and fits: "library_laws access \<Longrightarrow> accepted access input \<Longrightarrow> catalog_ok access identity catalog \<Longrightarrow>
      not_before access now (mcat_records catalog) \<Longrightarrow>
      change access input catalog identity now = Inr (changed, i, affected) \<Longrightarrow>
      records_ok access identity (mcat_records changed)
      \<and> (\<forall>r. rcp_operation r = operation \<longrightarrow> rcp_writer r = writer input \<longrightarrow> rcp_record_id r = i \<longrightarrow>
           rcp_affected_ids r = affected \<longrightarrow> receipt_fits (mcat_records changed) r)"

lemma resolve_path: "resolveMemoryProject access p = Inr identity \<Longrightarrow>
    pid_normalized identity = normalizeMemoryProject (pid_canonical identity)"
  by (auto simp: resolveMemoryProject_def Let_def split: if_splits option.splits)

text \<open>A mutation that changes the files replaces the catalog of one project by a committed one.\<close>

lemma mutateMemory_writes:
  assumes "mutateMemory access fault now p mid op w why req change files = (r, files')" "files' \<noteq> files"
  obtains identity catalog changed i affected where
    "resolveMemoryProject access p = Inr identity" "readMemoryCatalog access identity files = Inr catalog"
    "findMemoryReceipt (mcat_receipts catalog) mid = None" "change catalog identity now = Inr (changed, i, affected)"
    "catalog_ok access identity (commit_change access now mid op w why (ma_sha access req) i affected changed)"
    "files' = AList.update (pid_hash identity) (commit_change access now mid op w why (ma_sha access req) i affected changed) files"
    "r = (if fault = NotSynced then memoryError MemoryStoreUnavailable ''Memory catalog directory cannot be synchronized''
      else Inr \<lparr>mmr_revision = mcat_revision changed + 1, mmr_record_id = i, mmr_affected_ids = affected, mmr_replayed = False\<rparr>)"
proof -
  obtain identity where id: "resolveMemoryProject access p = Inr identity"
    using assms by (cases "resolveMemoryProject access p") (auto simp: mutateMemory_def)
  obtain catalog where cat: "readMemoryCatalog access identity files = Inr catalog"
    using assms id by (cases "readMemoryCatalog access identity files")
      (auto simp: mutateMemory_def withMemoryCatalog_def Let_def split: if_splits)
  have open_file: "fault \<noteq> NotOpened" and none: "findMemoryReceipt (mcat_receipts catalog) mid = None"
    using assms id cat by (auto simp: mutateMemory_def withMemoryCatalog_def Let_def split: if_splits option.splits)
  obtain changed i affected where ch: "change catalog identity now = Inr (changed, i, affected)"
    using assms id cat none open_file
    by (cases "change catalog identity now") (auto simp: mutateMemory_def withMemoryCatalog_def Let_def)
  let ?c = "commit_change access now mid op w why (ma_sha access req) i affected changed"
  have ok: "catalog_ok access identity ?c"
    using assms id cat none open_file ch
    by (cases "validateMemoryCatalog access ?c identity") (auto simp: mutateMemory_def withMemoryCatalog_def Let_def catalog_ok_def)
  then have "mutateMemory access fault now p mid op w why req change files =
      (case writeMemoryCatalog access fault identity ?c files of
         (Inl e, files') \<Rightarrow> (Inl e, files')
       | (Inr _, files') \<Rightarrow> (Inr \<lparr>mmr_revision = mcat_revision changed + 1, mmr_record_id = i, mmr_affected_ids = affected,
           mmr_replayed = False\<rparr>, files'))"
    using id cat none open_file ch by (simp add: mutateMemory_def withMemoryCatalog_def Let_def catalog_ok_def split: prod.split sum.split)
  then show thesis
    using assms by (intro that [OF id cat none ch ok]) (auto simp: writeMemoryCatalog_def Let_def split: if_splits)
qed

lemma commit_change_simps [simp]:
  "mcat_records (commit_change access now mid op w why h i affected c) = mcat_records c"
  "mcat_revision (commit_change access now mid op w why h i affected c) = mcat_revision c + 1"
  "mcat_schema_version (commit_change access now mid op w why h i affected c) = mcat_schema_version c"
  "mcat_project (commit_change access now mid op w why h i affected c) = mcat_project c"
  "mcat_project_hash (commit_change access now mid op w why h i affected c) = mcat_project_hash c"
  by (simp_all add: commit_change_def Let_def)

lemma record_receipt_suffix: "\<exists>k. record_receipt rs r = drop k (rs @ [r]) \<and> k \<le> length rs"
proof -
  show ?thesis
  proof (cases "MaxMemoryReceipts < length (rs @ [r])")
    case True
    then show ?thesis
      unfolding record_receipt_def Let_def by (intro exI [of _ "length (rs @ [r]) - MaxMemoryReceipts"]) simp
  next
    case False
    then show ?thesis
      unfolding record_receipt_def Let_def by (intro exI [of _ 0]) simp
  qed
qed

lemma record_receipt_mem: "r \<in> set (record_receipt rs r)" "set (record_receipt rs r) \<subseteq> insert r (set rs)"
  "last (record_receipt rs r) = r" "record_receipt rs r \<noteq> []"
proof -
  obtain k where k: "record_receipt rs r = drop k (rs @ [r])" "k \<le> length rs" using record_receipt_suffix by blast
  then have "record_receipt rs r = drop k rs @ [r]" by simp
  then show "r \<in> set (record_receipt rs r)" "last (record_receipt rs r) = r" "record_receipt rs r \<noteq> []"
    "set (record_receipt rs r) \<subseteq> insert r (set rs)"
    by (auto dest: in_set_dropD)
qed

subsection \<open>Validity of a committed catalog\<close>

lemma follows_supersedes:
  assumes "follows ms ms'" "sorted_ids ms" "sorted_ids ms'" "findMemoryRecord ms i = Some k"
  shows "\<exists>k'. findMemoryRecord ms' i = Some k' \<and> mr_supersedes (ms' ! k') = mr_supersedes (ms ! k)"
proof -
  have k: "k < length ms" "mr_id (ms ! k) = i" using assms(4) findMemoryRecord_iff [OF assms(2)] by auto
  then obtain m' where m': "m' \<in> set ms'" "evolves (ms ! k) m'"
    using assms(1) unfolding follows_def by (meson nth_mem)
  then obtain k' where k': "k' < length ms'" "m' = ms' ! k'" by (metis in_set_conv_nth)
  then have "findMemoryRecord ms' i = Some k'"
    using m'(2) k(2) findMemoryRecord_iff [OF assms(3)] by (simp add: evolves_def)
  then show ?thesis using m'(2) k'(2) by (auto simp: evolves_def)
qed

lemma receipt_ok_follows:
  assumes "receipt_ok access n ms r" "n \<le> n'" "follows ms ms'" "sorted_ids ms" "sorted_ids ms'"
  shows "receipt_ok access n' ms' r"
proof -
  have op: "check_operation ms r = Inr ()" and mem: "rcp_record_id r \<in> mr_id ` set ms"
    using assms(1) by (simp_all add: receipt_ok_def)
  then obtain k where k: "findMemoryRecord ms (rcp_record_id r) = Some k"
    using findMemoryRecord_None [OF assms(4)] by blast
  obtain k' where k': "findMemoryRecord ms' (rcp_record_id r) = Some k'" "mr_supersedes (ms' ! k') = mr_supersedes (ms ! k)"
    using follows_supersedes [OF assms(3-5) k] by blast
  have "check_operation ms' r = Inr ()"
    using op k k' by (auto simp: check_operation_def Let_def split: if_splits)
  then show ?thesis
    using assms(1,2) follows_ids [OF assms(3)] unfolding receipt_ok_def by auto
qed

lemma only_records:
  assumes "changed = c\<lparr>mcat_records := records\<rparr>"
  shows "mcat_receipts changed = mcat_receipts c" "mcat_revision changed = mcat_revision c"
    "mcat_schema_version changed = mcat_schema_version c" "mcat_project changed = mcat_project c"
    "mcat_project_hash changed = mcat_project_hash c"
  using assms by simp_all

lemma committed_valid:
  assumes laws: "library_laws access" and ok: "catalog_ok access identity c"
    and new: "findMemoryReceipt (mcat_receipts c) mid = None"
    and changed: "changed = c\<lparr>mcat_records := mcat_records changed\<rparr>" "follows (mcat_records c) (mcat_records changed)"
    and recs: "records_ok access identity (mcat_records changed)"
    and audit: "validateMutationIdentity mid = Inr ()" "validMemoryReceiptWriter w" "validAuditReason why"
      "validReceiptOperation op"
    and fit: "\<And>r. rcp_operation r = op \<Longrightarrow> rcp_writer r = w \<Longrightarrow> rcp_record_id r = i \<Longrightarrow> rcp_affected_ids r = affected \<Longrightarrow>
      receipt_fits (mcat_records changed) r"
  shows "catalog_ok access identity (commit_change access now mid op w why (ma_sha access req) i affected changed)"
proof -
  have same: "mcat_receipts changed = mcat_receipts c" "mcat_revision changed = mcat_revision c"
    "mcat_schema_version changed = mcat_schema_version c" "mcat_project changed = mcat_project c"
    "mcat_project_hash changed = mcat_project_hash c"
    by (rule only_records [OF changed(1)])+
  define r where "r = \<lparr>rcp_mutation_id = mid, rcp_request_hash = ma_sha access req, rcp_operation = op, rcp_writer = w,
    rcp_reason = why, rcp_revision = mcat_revision c + 1, rcp_record_id = i, rcp_affected_ids = affected,
    rcp_created_at = ma_format access now\<rparr>"
  let ?c = "commit_change access now mid op w why (ma_sha access req) i affected changed"
  have receipts: "mcat_receipts ?c = record_receipt (mcat_receipts c) r"
    by (simp add: commit_change_def Let_def r_def same)
  obtain k where k: "mcat_receipts ?c = drop k (mcat_receipts c) @ [r]"
    using record_receipt_suffix [of "mcat_receipts c" r] receipts by auto
  have sorted: "sorted_ids (mcat_records c)" "sorted_ids (mcat_records changed)"
    using ok recs by (simp_all add: catalog_ok_iff records_ok_def)
  have fits: "receipt_fits (mcat_records changed) r" by (rule fit) (simp_all add: r_def)
  have r_ok: "receipt_ok access (mcat_revision c + 1) (mcat_records changed) r"
    using fits audit laws unfolding receipt_ok_def receipt_fits_def library_laws_def by (simp add: r_def)
  have old_ok: "receipt_ok access (mcat_revision c + 1) (mcat_records changed) x" if "x \<in> set (mcat_receipts c)" for x
  proof -
    have "receipt_ok access (mcat_revision c) (mcat_records c) x" using that ok unfolding catalog_ok_iff by blast
    then show ?thesis by (rule receipt_ok_follows [OF _ _ changed(2) sorted]) simp
  qed
  have bound: "rcp_revision x \<le> mcat_revision c" if "x \<in> set (mcat_receipts c)" for x
    using that ok unfolding catalog_ok_iff receipt_ok_def by blast
  have "length (mcat_receipts ?c) \<le> MaxMemoryReceipts"
    unfolding receipts record_receipt_def Let_def by simp
  moreover have "\<forall>x \<in> set (mcat_receipts ?c). receipt_ok access (mcat_revision c + 1) (mcat_records changed) x"
    unfolding k using r_ok old_ok by (auto dest: in_set_dropD)
  moreover have "sorted_wrt (<) (0 # map rcp_revision (mcat_receipts ?c))"
  proof -
    have s: "sorted_wrt (<) (map rcp_revision (mcat_receipts c))" "\<forall>x \<in> set (mcat_receipts c). 0 < rcp_revision x"
      using ok unfolding catalog_ok_iff by auto
    have "sorted_wrt (<) (map rcp_revision (drop k (mcat_receipts c)))"
      using sorted_wrt_drop [OF s(1), of k] by (simp add: drop_map)
    then show ?thesis
      unfolding k using s(2) bound by (auto simp: sorted_wrt_append r_def le_imp_less_Suc dest: in_set_dropD)
  qed
  moreover have "distinct (map rcp_mutation_id (mcat_receipts ?c))"
  proof -
    have d: "distinct (map rcp_mutation_id (mcat_receipts c))" using ok unfolding catalog_ok_iff by blast
    have "distinct (map rcp_mutation_id (drop k (mcat_receipts c)))" using distinct_drop [OF d, of k] by (simp add: drop_map)
    then show ?thesis
      unfolding k using new by (auto simp: findMemoryReceipt_def find_None_iff r_def dest: in_set_dropD)
  qed
  ultimately show ?thesis
    using ok recs unfolding catalog_ok_iff records_ok_def by (simp add: same k) (simp add: r_def)
qed

lemma read_ok:
  assumes "readMemoryCatalog access identity files = Inr c"
  shows "sorted_ids (mcat_records c)" "map_of files (pid_hash identity) = Some c' \<Longrightarrow> c' = c \<and> catalog_ok access identity c"
  using assms by (auto simp: readMemoryCatalog_def catalog_ok_def new_catalog_def
      split: option.splits sum.splits intro: catalog_sorted)

lemma read_iff:
  "map_of files (pid_hash identity) = Some c \<Longrightarrow> catalog_ok access identity c \<Longrightarrow> readMemoryCatalog access identity files = Inr c"
  by (simp add: readMemoryCatalog_def catalog_ok_def)

subsection \<open>What a mutation does to the files\<close>

definition answer :: "MemoryMutationReceiptV1 \<Rightarrow> bool \<Rightarrow> MemoryMutationResult" where
  "answer r replayed = \<lparr>mmr_revision = rcp_revision r, mmr_record_id = rcp_record_id r,
     mmr_affected_ids = rcp_affected_ids r, mmr_replayed = replayed\<rparr>"

text \<open>The catalog \<open>c'\<close> follows \<open>c\<close> with the receipt \<open>r\<close>.\<close>

definition committed ::
  "MemoryAccess \<Rightarrow> memoryProjectIdentity \<Rightarrow> MemoryCatalogV1 \<Rightarrow> MemoryMutationReceiptV1 \<Rightarrow> MemoryCatalogV1 \<Rightarrow> bool" where
  "committed access identity c r c' \<longleftrightarrow>
     catalog_ok access identity c' \<and> mcat_revision c' = mcat_revision c + 1
     \<and> mcat_receipts c' = record_receipt (mcat_receipts c) r \<and> follows (mcat_records c) (mcat_records c')"

lemma find_receipt:
  assumes "distinct (map rcp_mutation_id rs)" "r \<in> set rs"
  shows "findMemoryReceipt rs (rcp_mutation_id r) = Some r"
  using assms by (induction rs) (auto simp: findMemoryReceipt_def)

context memory_mutation
begin

lemma writes:
  assumes "perform access fault now input files = (res, files')" "files' \<noteq> files"
  shows "accepted access input \<and> (\<exists>identity c r c'. resolveMemoryProject access (project input) = Inr identity
     \<and> readMemoryCatalog access identity files = Inr c \<and> committed access identity c r c'
     \<and> files' = AList.update (pid_hash identity) c' files \<and> rcp_mutation_id r = mutation input
     \<and> rcp_operation r = operation \<and> rcp_request_hash r = ma_sha access (request input)
     \<and> (res = Inr (answer r False) \<or> (\<exists>message. res = memoryError MemoryStoreUnavailable message)))"
proof -
  have acc: "accepted access input" using refused assms by (metis prod.inject)
  have "mutateMemory access fault now (project input) (mutation input) operation (writer input) (reason input)
      (request input) (change access input) files = (res, files')"
    using performed [OF acc] assms(1) by simp
  then obtain identity c changed i affected where w:
    "resolveMemoryProject access (project input) = Inr identity" "readMemoryCatalog access identity files = Inr c"
    "findMemoryReceipt (mcat_receipts c) (mutation input) = None"
    "change access input c identity now = Inr (changed, i, affected)"
    "catalog_ok access identity (commit_change access now (mutation input) operation (writer input) (reason input)
        (ma_sha access (request input)) i affected changed)"
    "files' = AList.update (pid_hash identity) (commit_change access now (mutation input) operation (writer input) (reason input)
        (ma_sha access (request input)) i affected changed) files"
    "res = (if fault = NotSynced then memoryError MemoryStoreUnavailable ''Memory catalog directory cannot be synchronized''
      else Inr \<lparr>mmr_revision = mcat_revision changed + 1, mmr_record_id = i, mmr_affected_ids = affected, mmr_replayed = False\<rparr>)"
    by (rule mutateMemory_writes [OF _ assms(2)]) (rule that)
  note k = conjunct1 [OF keeps [OF acc read_ok(1) [OF w(2)] w(4)]] conjunct2 [OF keeps [OF acc read_ok(1) [OF w(2)] w(4)]]
  have same: "mcat_receipts changed = mcat_receipts c" "mcat_revision changed = mcat_revision c"
    by (rule only_records [OF k(1)])+
  let ?c = "commit_change access now (mutation input) operation (writer input) (reason input)
        (ma_sha access (request input)) i affected changed"
  let ?r = "\<lparr>rcp_mutation_id = mutation input, rcp_request_hash = ma_sha access (request input), rcp_operation = operation,
    rcp_writer = writer input, rcp_reason = reason input, rcp_revision = mcat_revision c + 1, rcp_record_id = i,
    rcp_affected_ids = affected, rcp_created_at = ma_format access now\<rparr>"
  have "mcat_receipts ?c = record_receipt (mcat_receipts c) ?r"
    by (simp add: commit_change_def Let_def same)
  then have "committed access identity c ?r ?c"
    using w(5) k(2) same by (simp add: committed_def)
  moreover have "res = Inr (answer ?r False) \<or> (\<exists>message. res = memoryError MemoryStoreUnavailable message)"
    using w(7) same(2) by (simp add: answer_def)
  ultimately show ?thesis
    using acc w(1,2,6) by (intro conjI exI [of _ identity] exI [of _ c] exI [of _ ?r] exI [of _ ?c]) simp_all
qed

lemma replay:
  assumes "accepted access input" "resolveMemoryProject access (project input) = Inr identity"
    "map_of files (pid_hash identity) = Some c" "catalog_ok access identity c" "r \<in> set (mcat_receipts c)"
    "rcp_mutation_id r = mutation input" "rcp_operation r = operation"
    "rcp_request_hash r = ma_sha access (request input)" "fault \<noteq> NotOpened"
  shows "perform access fault now input files = (Inr (answer r True), files)"
proof -
  have "distinct (map rcp_mutation_id (mcat_receipts c))" using assms(4) unfolding catalog_ok_iff by blast
  from find_receipt [OF this assms(5)] have "findMemoryReceipt (mcat_receipts c) (mutation input) = Some r"
    using assms(6) by simp
  then show ?thesis
    using assms(2,7-9) read_iff [OF assms(3,4)] unfolding performed [OF assms(1)] mutateMemory_def
    by (simp add: withMemoryCatalog_def Let_def answer_def)
qed

lemma never_corrupt:
  assumes "library_laws access" "resolveMemoryProject access (project input) = Inr identity"
    "readMemoryCatalog access identity files = Inr c" "catalog_ok access identity c"
    "not_before access now (mcat_records c)" "fst (perform access fault now input files) = Inl e"
  shows "\<not> corrupt e"
proof (cases "accepted access input")
  case False
  then show ?thesis using refused assms(6) by fastforce
next
  case acc: True
  show ?thesis
  proof (cases "change access input c identity now")
    case (Inl e')
    then show ?thesis
      using assms unfolding performed [OF acc] mutateMemory_def
      by (auto simp: withMemoryCatalog_def Let_def corrupt_def dest: unfit split: option.splits if_splits)
  next
    case (Inr out)
    obtain changed i affected where out: "change access input c identity now = Inr (changed, i, affected)"
      using Inr by (cases out) auto
    note k = conjunct1 [OF keeps [OF acc read_ok(1) [OF assms(3)] out]] conjunct2 [OF keeps [OF acc read_ok(1) [OF assms(3)] out]]
    have fit: "records_ok access identity (mcat_records changed)"
      "\<And>r. rcp_operation r = operation \<Longrightarrow> rcp_writer r = writer input \<Longrightarrow> rcp_record_id r = i \<Longrightarrow>
         rcp_affected_ids r = affected \<Longrightarrow> receipt_fits (mcat_records changed) r"
      using fits [OF assms(1) acc assms(4,5) out] by blast+
    have "catalog_ok access identity (commit_change access now (mutation input) operation (writer input) (reason input)
        (ma_sha access (request input)) i affected changed)" if "findMemoryReceipt (mcat_receipts c) (mutation input) = None"
      using committed_valid [OF assms(1,4) that k fit(1) _ _ _ operation_valid fit(2)] audited [OF acc] by blast
    then show ?thesis
      using assms(2,3,6) out unfolding performed [OF acc] mutateMemory_def
      by (auto simp: withMemoryCatalog_def Let_def corrupt_def catalog_ok_def writeMemoryCatalog_def
          split: option.splits if_splits)
  qed
qed

end

end
