(* ===== verification/Memory_Requests.thy ===== *)
theory Memory_Requests
  imports Memory_Laws
begin

section \<open>The four mutations as instances of the interface\<close>

text \<open>
  What each change of Memory\_Operations makes of the records, the interpretations of
  \<open>memory_mutation\<close> on the four operations, and \<open>handle\<close>, which takes any of the requests.
\<close>

subsection \<open>Identities\<close>

lemma unique_sorted: "sorted ids \<Longrightarrow> \<not> hasDuplicateStrings ids \<longleftrightarrow> distinct ids"
  by (induction ids rule: hasDuplicateStrings.induct) (auto dest: order_antisym)

lemma hash_chars: "is_hex c \<Longrightarrow> \<not> is_upper c \<Longrightarrow> is_lower c \<or> is_digit c"
  unfolding is_hex_def is_upper_def is_lower_def is_digit_def by linarith

lemma memoryRecordID_valid:
  assumes "library_laws access"
  shows "validMemoryRecordID (memoryRecordID access h op mid)"
proof -
  let ?d = "ma_sha access (h @ [CHR 0x00] @ op @ [CHR 0x00] @ mid)"
  have d: "length ?d = 64" "list_all (\<lambda>c. is_hex c \<and> \<not> is_upper c) ?d"
    using assms unfolding library_laws_def validHashString_def by blast+
  have "list_all (\<lambda>c. is_lower c \<or> is_digit c \<or> c \<in> set ''._:-'') (take 32 ?d)"
    using d(2) hash_chars unfolding list_all_iff by (auto dest!: in_set_takeD)
  moreover have "list_all (\<lambda>c. is_lower c \<or> is_digit c \<or> c \<in> set ''._:-'') ''memory-''"
    by (simp add: is_lower_def)
  ultimately show ?thesis
    using d(1) unfolding validMemoryRecordID_def memoryRecordID_def by (simp add: is_lower_def)
qed

lemma record_id_positive: "validMemoryRecordID i \<Longrightarrow> '''' < i"
  by (cases i) (auto simp: validMemoryRecordID_def)

subsection \<open>Valid records\<close>

abbreviation record_valid :: "MemoryAccess \<Rightarrow> MemoryRecordV1 \<Rightarrow> bool" where
  "record_valid access m \<equiv> ValidateMemoryRecordV1 (ma_sha access) (ma_parse access) m = Inr ()"

lemma unit_result: "(\<exists>u. r = Inr u) \<longleftrightarrow> r = Inr ()"
  by auto

lemma records_ok_iff:
  "records_ok access identity ms \<longleftrightarrow>
     length ms \<le> MaxProjectMemoryRecords \<and> sorted_ids ms
     \<and> (\<forall>m \<in> set ms. '''' < mr_id m \<and> check_record access identity m = Inr ())"
  by (auto simp: records_ok_def)

lemma catalog_records_ok: "catalog_ok access identity c \<Longrightarrow> records_ok access identity (mcat_records c)"
  by (simp add: catalog_ok_iff records_ok_def)

lemma records_ok_map:
  assumes "records_ok access identity ms" "\<And>m. mr_id (g m) = mr_id m"
    "\<And>m. m \<in> set ms \<Longrightarrow> check_record access identity (g m) = Inr ()"
  shows "records_ok access identity (map g ms)"
  using assms sorted_ids_map [of g ms, OF assms(2)] unfolding records_ok_iff by auto

lemma records_ok_add:
  assumes "records_ok access identity ms" "length ms < MaxProjectMemoryRecords" "mr_id m \<notin> mr_id ` set ms"
    "'''' < mr_id m" "check_record access identity m = Inr ()"
  shows "records_ok access identity (add_record ms m)"
  using assms sorted_add_record [of ms m] unfolding records_ok_iff by auto

lemma check_record_same:
  assumes "check_record access identity m = Inr ()" "mr_project m' = mr_project m" "mr_scope m' = mr_scope m"
    "valid_utf8 (mr_content m')" "record_valid access m'"
  shows "check_record access identity m' = Inr ()"
  using assms unfolding check_record_iff by simp

lemma check_record_built:
  assumes "catalog_ok access identity c" "valid_utf8 (cin_content input)"
    "record_valid access (buildMemoryRecord access (mcat_project c) i targets input now)"
  shows "check_record access identity (buildMemoryRecord access (mcat_project c) i targets input now) = Inr ()"
  using assms unfolding check_record_iff catalog_ok_iff by (simp add: buildMemoryRecord_def Let_def)

lemma built_simps [simp]:
  "mr_id (buildMemoryRecord access project i targets input now) = i"
  "mr_state (buildMemoryRecord access project i targets input now) = MemoryActive"
  "mr_use_count (buildMemoryRecord access project i targets input now) = 0"
  "mr_supersedes (buildMemoryRecord access project i targets input now) = targets"
  by (simp_all add: buildMemoryRecord_def Let_def)

lemma parse_Inr_iff: "(case p of None \<Rightarrow> Inl e | Some a \<Rightarrow> k a) = Inr x \<longleftrightarrow> (\<exists>a. p = Some a \<and> k a = Inr x)"
  by (cases p) auto

text \<open>Counting one more use below the bound and not before the creation.\<close>

lemma used_valid:
  assumes "record_valid access m" "ma_parse access (ma_format access now) = Some now"
    "\<forall>t. ma_parse access (mr_created_at m) = Some t \<longrightarrow> t \<le> now"
    "mt_max_uses (mr_retention m) > 0 \<longrightarrow> mr_use_count m < mt_max_uses (mr_retention m)"
  shows "record_valid access (used (ma_format access now) m)"
proof -
  have updated: "mr_updated_at (used (ma_format access now) m) = ma_format access now"
    "mr_use_count (used (ma_format access now) m) = mr_use_count m + 1" by (simp_all add: used_def)
  have same: "mr_schema_version (used s m) = mr_schema_version m" "mr_project (used s m) = mr_project m"
    "mr_type (used s m) = mr_type m" "mr_scope (used s m) = mr_scope m" "mr_content (used s m) = mr_content m"
    "mr_content_hash (used s m) = mr_content_hash m" "mr_sensitivity (used s m) = mr_sensitivity m"
    "mr_provenance (used s m) = mr_provenance m" "mr_created_at (used s m) = mr_created_at m"
    "mr_state_reason (used s m) = mr_state_reason m" "mr_retention (used s m) = mr_retention m" for s
    by (simp_all add: used_def)
  obtain created where c: "ma_parse access (mr_created_at m) = Some created"
    using assms(1) unfolding ValidateMemoryRecordV1_def Let_def res_simps parse_Inr_iff by blast
  note parts = ValidateMemoryRecordV1_def Let_def same updated used_simps res_simps parse_Inr_iff assms(2) c
    option.case option.inject simp_thms
  show ?thesis
    using assms(1) by (simp only: parts, intro conjI; (elim conjE, assumption)?) (use assms(3,4) c in auto)
qed

subsection \<open>Create\<close>

definition create_accepted :: "MemoryAccess \<Rightarrow> MemoryCreateInput \<Rightarrow> bool" where
  "create_accepted access input \<longleftrightarrow> validateMemoryCreateRequest access (cin_mutation_id input) input = Inr ()"

lemma create_request_parts:
  "validateMemoryCreateRequest access mid input = Inr () \<Longrightarrow>
     validateMutationIdentity mid = Inr () \<and> valid_utf8 (cin_content input) \<and> validMemoryReceiptWriter (cin_writer input)
     \<and> validAuditReason (cin_reason input)"
  by (simp only: validateMemoryCreateRequest_def validMemoryReceiptWriter_def res_simps ex_simps) blast

lemma create_request_error: "validateMemoryCreateRequest access mid input = Inl e \<Longrightarrow> \<not> corrupt e"
  by (auto simp: validateMemoryCreateRequest_def validateMutationIdentity_def corrupt_def split: if_splits)

lemma create_change_result:
  assumes "create_change access input catalog identity now = Inr (changed, i, affected)" "sorted_ids (mcat_records catalog)"
  shows "changed = catalog\<lparr>mcat_records := add_record (mcat_records catalog)
        (buildMemoryRecord access (mcat_project catalog) i [] input now)\<rparr>
    \<and> i = memoryRecordID access (pid_hash identity) ''create'' (cin_mutation_id input) \<and> affected = []
    \<and> i \<notin> mr_id ` set (mcat_records catalog) \<and> length (mcat_records catalog) < MaxProjectMemoryRecords
    \<and> record_valid access (buildMemoryRecord access (mcat_project catalog) i [] input now)"
  using assms(1) findMemoryRecord_None [OF assms(2)]
  by (auto simp: create_change_def Let_def split: if_splits sum.splits)

lemma create_fits:
  assumes "library_laws access" "create_accepted access input" "catalog_ok access identity catalog"
    "create_change access input catalog identity now = Inr (changed, i, affected)"
  shows "records_ok access identity (mcat_records changed)
    \<and> (\<forall>r. rcp_operation r = ''create'' \<longrightarrow> rcp_writer r = cin_writer input \<longrightarrow> rcp_record_id r = i \<longrightarrow>
         rcp_affected_ids r = affected \<longrightarrow> receipt_fits (mcat_records changed) r)"
proof -
  note c = create_change_result [OF assms(4) catalog_sorted [OF assms(3)]]
  have i: "validMemoryRecordID i" using c memoryRecordID_valid [OF assms(1)] by simp
  let ?m = "buildMemoryRecord access (mcat_project catalog) i [] input now"
  have "valid_utf8 (cin_content input)" using assms(2) create_request_parts unfolding create_accepted_def by blast
  then have "check_record access identity ?m = Inr ()" using check_record_built [OF assms(3)] c by blast
  then have "records_ok access identity (add_record (mcat_records catalog) ?m)"
    using c record_id_positive [OF i] by (intro records_ok_add catalog_records_ok [OF assms(3)]) auto
  then show ?thesis
    using c i by (auto simp: receipt_fits_def check_operation_def Let_def)
qed

lemma follows_refl: "follows ms ms"
  by (auto simp: follows_def intro: evolves_refl)

interpretation create: memory_mutation "''create''" create_accepted cin_project cin_mutation_id cin_writer cin_reason
  "\<lambda>input. json_object (create_members input)" create_change CreateMemory
proof (unfold_locales, goal_cases)
  case (1 access input)
  then obtain e where "validateMemoryCreateRequest access (cin_mutation_id input) input = Inl e"
    unfolding create_accepted_def by (cases "validateMemoryCreateRequest access (cin_mutation_id input) input") auto
  then show ?case using create_request_error by (auto simp: CreateMemory_def)
next
  case (2 access input fault now files)
  then show ?case by (simp add: CreateMemory_def create_accepted_def)
next
  case (3 access input catalog identity now changed i affected)
  from create_change_result [OF 3(3,2)] show ?case
    by (auto intro!: follows_add [OF follows_refl refl])
next
  case (4 access input catalog identity now e)
  then show ?case by (auto simp: create_change_def Let_def corrupt_def split: if_splits sum.splits)
next
  case 5
  show ?case by (simp add: validReceiptOperation_def)
next
  case (6 access input)
  then show ?case using create_request_parts unfolding create_accepted_def by blast
next
  case (7 access input identity catalog now changed i affected)
  then show ?case by (intro create_fits)
qed

subsection \<open>Delete\<close>

definition delete_accepted :: "MemoryAccess \<Rightarrow> MemoryDeleteInput \<Rightarrow> bool" where
  "delete_accepted access input \<longleftrightarrow>
     validateMutationIdentity (din_mutation_id input) = Inr () \<and> validMemoryRecordID (din_record_id input)
     \<and> validMemoryWriter (din_writer input) \<and> validAuditReason (din_reason input)"

definition deleted :: "string \<Rightarrow> string \<Rightarrow> MemoryRecordV1 \<Rightarrow> MemoryRecordV1" where
  "deleted reason stamp m =
     m\<lparr>mr_content := '''', mr_state := MemoryDeleted, mr_state_reason := reason, mr_updated_at := stamp\<rparr>"

lemma deleted_simps [simp]:
  "mr_id (deleted reason stamp m) = mr_id m" "mr_project (deleted reason stamp m) = mr_project m"
  "mr_scope (deleted reason stamp m) = mr_scope m" "mr_content (deleted reason stamp m) = ''''"
  "mr_state (deleted reason stamp m) = MemoryDeleted" "mr_supersedes (deleted reason stamp m) = mr_supersedes m"
  by (simp_all add: deleted_def)

lemma identity_error: "validateMutationIdentity mid = Inl e \<Longrightarrow> \<not> corrupt e"
  by (auto simp: validateMutationIdentity_def corrupt_def split: if_splits)

lemma delete_change_result:
  assumes "delete_change access input catalog identity now = Inr (changed, i, affected)" "sorted_ids (mcat_records catalog)"
  shows "changed = catalog\<lparr>mcat_records := map (\<lambda>m. if mr_id m = i
        then deleted (din_reason input) (ma_format access now) m else m) (mcat_records catalog)\<rparr>
    \<and> i = din_record_id input \<and> affected = [i] \<and> i \<in> mr_id ` set (mcat_records catalog)
    \<and> (\<forall>m \<in> set (mcat_records catalog). mr_id m = i \<longrightarrow> mr_state m \<noteq> MemoryDeleted
         \<and> record_valid access (deleted (din_reason input) (ma_format access now) m))"
proof -
  let ?ms = "mcat_records catalog"
  let ?d = "deleted (din_reason input) (ma_format access now)"
  obtain k where k: "findMemoryRecord ?ms (din_record_id input) = Some k"
    using assms(1) by (auto simp: delete_change_def split: option.splits)
  have at: "k < length ?ms" "mr_id (?ms ! k) = din_record_id input"
    using k findMemoryRecord_iff [OF assms(2)] by auto
  have d: "mr_state (?ms ! k) \<noteq> MemoryDeleted" "record_valid access (?d (?ms ! k))"
    "changed = catalog\<lparr>mcat_records := ?ms[k := ?d (?ms ! k)]\<rparr>" "i = din_record_id input" "affected = [i]"
    using assms(1) k by (auto simp: delete_change_def deleted_def Let_def split: if_splits sum.splits)
  have "m = ?ms ! k" if m: "m \<in> set ?ms" "mr_id m = i" for m
  proof -
    obtain j where j: "j < length ?ms" "m = ?ms ! j" using m(1) by (metis in_set_conv_nth)
    then have "findMemoryRecord ?ms (din_record_id input) = Some j"
      using findMemoryRecord_iff [OF assms(2)] m(2) d(4) by simp
    then show ?thesis using j k by simp
  qed
  moreover have "i \<in> mr_id ` set ?ms" using at d(4) by (metis image_eqI nth_mem)
  ultimately show ?thesis
    using d update_found [OF assms(2) k, of ?d] by auto
qed

lemma evolves_deleted: "mr_state m \<noteq> MemoryDeleted \<Longrightarrow> evolves m (deleted reason stamp m)"
  by (simp add: evolves_def deleted_def)

lemma valid_utf8_empty [simp]: "valid_utf8 ''''"
  by (simp add: valid_utf8_def)

lemma delete_fits:
  assumes "delete_accepted access input" "catalog_ok access identity catalog"
    "delete_change access input catalog identity now = Inr (changed, i, affected)"
  shows "records_ok access identity (mcat_records changed)
    \<and> (\<forall>r. rcp_operation r = ''delete'' \<longrightarrow> rcp_writer r = din_writer input \<longrightarrow> rcp_record_id r = i \<longrightarrow>
         rcp_affected_ids r = affected \<longrightarrow> receipt_fits (mcat_records changed) r)"
proof -
  note c = delete_change_result [OF assms(3) catalog_sorted [OF assms(2)]]
  let ?g = "\<lambda>m. if mr_id m = i then deleted (din_reason input) (ma_format access now) m else m"
  have ok: "check_record access identity (?g m) = Inr ()" if m: "m \<in> set (mcat_records catalog)" for m
  proof -
    have old: "check_record access identity m = Inr ()" using m catalog_records_ok [OF assms(2)] by (simp add: records_ok_iff)
    show ?thesis
    proof (cases "mr_id m = i")
      case True
      then have "record_valid access (deleted (din_reason input) (ma_format access now) m)" using m c by blast
      then show ?thesis using True check_record_same [OF old] by simp
    qed (use old in simp)
  qed
  then have "records_ok access identity (map ?g (mcat_records catalog))"
    using ok by (intro records_ok_map catalog_records_ok [OF assms(2)]) auto
  moreover have "mcat_records changed = map ?g (mcat_records catalog)" using conjunct1 [OF c] by simp
  moreover have "receipt_fits (map ?g (mcat_records catalog)) r"
    if "rcp_operation r = ''delete''" "rcp_record_id r = i" "rcp_affected_ids r = affected" for r
  proof -
    have i: "validMemoryRecordID i" "affected = [i]" "i \<in> mr_id ` set (mcat_records catalog)"
      using c assms(1) unfolding delete_accepted_def by blast+
    have "map mr_id (map ?g (mcat_records catalog)) = map mr_id (mcat_records catalog)" by simp
    then have "mr_id ` set (map ?g (mcat_records catalog)) = mr_id ` set (mcat_records catalog)" by (metis list.set_map)
    moreover have "check_operation (map ?g (mcat_records catalog)) r = Inr ()"
      using that i(2) by (simp add: check_operation_def Let_def)
    ultimately show ?thesis using that i by (simp add: receipt_fits_def)
  qed
  ultimately show ?thesis by metis
qed

interpretation delete: memory_mutation "''delete''" delete_accepted din_project din_mutation_id din_writer din_reason
  "\<lambda>input. json_object [(''recordId'', json_string (din_record_id input)), (''writer'', json_string (din_writer input)),
    (''reason'', json_string (din_reason input))]" delete_change DeleteMemory
proof (unfold_locales, goal_cases)
  case (1 access input)
  then show ?case
    by (cases "validateMutationIdentity (din_mutation_id input)")
      (auto simp: DeleteMemory_def delete_accepted_def corrupt_def dest: identity_error)
next
  case (2 access input fault now files)
  then show ?case by (simp add: DeleteMemory_def delete_accepted_def)
next
  case (3 access input catalog identity now changed i affected)
  from delete_change_result [OF 3(3,2)] show ?case
    by (auto intro!: follows_map simp: evolves_refl evolves_deleted)
next
  case (4 access input catalog identity now e)
  then show ?case by (auto simp: delete_change_def Let_def corrupt_def split: if_splits sum.splits option.splits)
next
  case 5
  show ?case by (simp add: validReceiptOperation_def)
next
  case (6 access input)
  then show ?case by (simp add: delete_accepted_def validMemoryReceiptWriter_def)
next
  case (7 access input identity catalog now changed i affected)
  then show ?case by (intro delete_fits)
qed

subsection \<open>Consume\<close>

definition consume_accepted :: "MemoryAccess \<Rightarrow> MemoryConsumeInput \<Rightarrow> bool" where
  "consume_accepted access input \<longleftrightarrow>
     (let ids = sort_strings (mc_record_ids input) in
      ids \<noteq> [] \<and> length ids \<le> MaxSelectedMemoryRecords \<and> \<not> hasDuplicateStrings ids
      \<and> validateMutationIdentity (mc_mutation_id input) = Inr () \<and> validAuditReason (mc_reason input)
      \<and> list_all validMemoryRecordID ids)"

definition usable_record :: "int \<Rightarrow> MemoryRecordV1 \<Rightarrow> bool" where
  "usable_record now m \<longleftrightarrow> mr_state m = MemoryActive
     \<and> (mt_max_uses (mr_retention m) > 0 \<longrightarrow> mr_use_count m < mt_max_uses (mr_retention m))"

lemma usable_result:
  assumes "usable access records now i = Inr ()" "sorted_ids records"
  shows "i \<in> mr_id ` set records \<and> (\<forall>m \<in> set records. mr_id m = i \<longrightarrow> usable_record now m)"
proof -
  obtain k where k: "findMemoryRecord records i = Some k"
    using assms(1) by (auto simp: usable_def split: option.splits)
  have u: "usable_record now (records ! k)"
    using assms(1) k by (auto simp: usable_def usable_record_def Let_def not_le split: if_splits)
  have "m = records ! k" if m: "m \<in> set records" "mr_id m = i" for m
  proof -
    obtain j where j: "j < length records" "m = records ! j" using m(1) by (metis in_set_conv_nth)
    then show ?thesis using findMemoryRecord_iff [OF assms(2), of i j] m(2) k by simp
  qed
  then show ?thesis
    using u k findMemoryRecord_iff [OF assms(2), of i k] by (auto simp: image_iff)
qed

lemma consume_change_result:
  assumes "consume_change access ids catalog identity now = Inr (changed, i, affected)" "sorted_ids (mcat_records catalog)"
    "distinct ids" "ids \<noteq> []"
  shows "changed = catalog\<lparr>mcat_records := map (\<lambda>m. if mr_id m \<in> set ids then used (ma_format access now) m else m)
        (mcat_records catalog)\<rparr>
    \<and> ids = i # affected \<and> set ids \<subseteq> mr_id ` set (mcat_records catalog)
    \<and> (\<forall>m \<in> set (mcat_records catalog). mr_id m \<in> set ids \<longrightarrow> usable_record now m)"
proof -
  have "each_ok (usable access (mcat_records catalog) now) ids = Inr ()"
    using assms(1) by (auto simp: consume_change_def split: sum.splits)
  then have "\<forall>i \<in> set ids. usable access (mcat_records catalog) now i = Inr ()" by (simp add: each_ok_iff)
  then have u: "set ids \<subseteq> mr_id ` set (mcat_records catalog)"
    "\<forall>m \<in> set (mcat_records catalog). mr_id m \<in> set ids \<longrightarrow> usable_record now m"
    using usable_result [OF _ assms(2)] by blast+
  then show ?thesis
    using assms(1,4) count_uses_map [OF assms(2,3) u(1)] by (auto simp: consume_change_def split: sum.splits)
qed

lemma evolves_used: "usable_record now m \<Longrightarrow> evolves m (used stamp m)"
  by (simp add: evolves_def used_def usable_record_def)

lemma consume_refused:
  assumes "\<not> consume_accepted access input"
  shows "\<exists>message. \<forall>fault now files. ConsumeMemory access fault now input files = (memoryError MemoryStoreInvalid message, files)"
proof -
  let ?ids = "sort_strings (mc_record_ids input)"
  let ?bad = "length ?ids = 0 \<or> length ?ids > MaxSelectedMemoryRecords \<or> hasDuplicateStrings ?ids
    \<or> validateMutationIdentity (mc_mutation_id input) \<noteq> Inr () \<or> \<not> validAuditReason (mc_reason input)"
  show ?thesis
  proof (cases ?bad)
    case True
    then show ?thesis unfolding ConsumeMemory_def Let_def by simp
  next
    case False
    then have "\<not> list_all validMemoryRecordID ?ids" using assms unfolding consume_accepted_def Let_def by auto
    with False show ?thesis unfolding ConsumeMemory_def Let_def by simp
  qed
qed

lemma each_ok_Inl: "each_ok f xs = Inl e \<Longrightarrow> \<exists>x \<in> set xs. f x = Inl e"
  by (induction xs) (auto split: sum.splits)

lemma consume_receipt:
  assumes "distinct (i # affected)" "sorted (i # affected)" "length (i # affected) \<le> MaxSelectedMemoryRecords"
    "list_all validMemoryRecordID (i # affected)" "set (i # affected) \<subseteq> mr_id ` set records"
    "rcp_operation r = ''consume''" "rcp_writer r = MemoryWriterEngine" "rcp_record_id r = i" "rcp_affected_ids r = affected"
  shows "receipt_fits records r"
proof -
  have "i < hd affected" if "affected \<noteq> []" using assms(1,2) that by (cases affected) auto
  then have "check_operation records r = Inr ()"
    using assms(3,6-9) by (auto simp: check_operation_def Let_def not_le)
  moreover have "\<not> hasDuplicateStrings affected" using unique_sorted [of affected] assms(1,2) by simp
  ultimately show ?thesis
    using assms by (auto simp: receipt_fits_def list_all_iff)
qed

lemma consume_fits:
  assumes "library_laws access" "consume_accepted access input" "catalog_ok access identity catalog"
    "not_before access now (mcat_records catalog)"
    "consume_change access (sort_strings (mc_record_ids input)) catalog identity now = Inr (changed, i, affected)"
  shows "records_ok access identity (mcat_records changed)
    \<and> (\<forall>r. rcp_operation r = ''consume'' \<longrightarrow> rcp_writer r = MemoryWriterEngine \<longrightarrow> rcp_record_id r = i \<longrightarrow>
         rcp_affected_ids r = affected \<longrightarrow> receipt_fits (mcat_records changed) r)"
proof -
  let ?ids = "sort_strings (mc_record_ids input)"
  let ?g = "\<lambda>m. if mr_id m \<in> set ?ids then used (ma_format access now) m else m"
  have acc: "distinct ?ids" "?ids \<noteq> []" "length ?ids \<le> MaxSelectedMemoryRecords" "list_all validMemoryRecordID ?ids"
    using assms(2) unique_sorted [of ?ids] unfolding consume_accepted_def Let_def by auto
  note c = consume_change_result [OF assms(5) catalog_sorted [OF assms(3)] acc(1,2)]
  have fmt: "ma_parse access (ma_format access now) = Some now" using assms(1) unfolding library_laws_def by blast
  have ok: "check_record access identity (?g m) = Inr ()" if m: "m \<in> set (mcat_records catalog)" for m
  proof (cases "mr_id m \<in> set ?ids")
    case True
    have old: "check_record access identity m = Inr ()"
      using m catalog_records_ok [OF assms(3)] by (simp add: records_ok_iff)
    have "record_valid access (used (ma_format access now) m)"
    proof (intro used_valid fmt)
      show "record_valid access m" using old by (simp add: check_record_iff)
      show "\<forall>t. ma_parse access (mr_created_at m) = Some t \<longrightarrow> t \<le> now" using m assms(4) unfolding not_before_def by blast
      show "0 < mt_max_uses (mr_retention m) \<longrightarrow> mr_use_count m < mt_max_uses (mr_retention m)"
        using m c True unfolding usable_record_def by blast
    qed
    then show ?thesis
      using check_record_same [OF old, of "used (ma_format access now) m"] old True
      by (simp add: used_def check_record_iff)
  next
    case False
    then show ?thesis using m catalog_records_ok [OF assms(3)] by (simp add: records_ok_iff)
  qed
  have "records_ok access identity (map ?g (mcat_records catalog))"
    using ok by (intro records_ok_map catalog_records_ok [OF assms(3)]) auto
  moreover have "map mr_id (map ?g (mcat_records catalog)) = map mr_id (mcat_records catalog)" by simp
  then have "mr_id ` set (map ?g (mcat_records catalog)) = mr_id ` set (mcat_records catalog)" by (metis list.set_map)
  then have "set ?ids \<subseteq> mr_id ` set (map ?g (mcat_records catalog))" using c by blast
  then have "receipt_fits (map ?g (mcat_records catalog)) r"
    if "rcp_operation r = ''consume''" "rcp_writer r = MemoryWriterEngine" "rcp_record_id r = i" "rcp_affected_ids r = affected" for r
    using that c acc sorted_sort_strings [of "mc_record_ids input"] by (intro consume_receipt [of i affected]) simp_all
  moreover have "mcat_records changed = map ?g (mcat_records catalog)" using conjunct1 [OF c] by simp
  ultimately show ?thesis by metis
qed

interpretation consume: memory_mutation "''consume''" consume_accepted mc_project mc_mutation_id
  "\<lambda>input. MemoryWriterEngine" mc_reason
  "\<lambda>input. json_object [(''recordIds'', json_array (map json_string (sort_strings (mc_record_ids input)))),
    (''reason'', json_string (mc_reason input))]"
  "\<lambda>access input. consume_change access (sort_strings (mc_record_ids input))" ConsumeMemory
proof (unfold_locales, goal_cases)
  case (1 access input)
  then show ?case using consume_refused [of access input] by (auto simp: corrupt_def)
next
  case (2 access input fault now files)
  then show ?case by (simp add: ConsumeMemory_def consume_accepted_def Let_def)
next
  case (3 access input catalog identity now changed i affected)
  let ?ids = "sort_strings (mc_record_ids input)"
  have "distinct ?ids" "?ids \<noteq> []"
    using 3(1) unique_sorted [of ?ids] unfolding consume_accepted_def Let_def by auto
  from consume_change_result [OF 3(3,2) this] show ?case
    by (auto intro!: follows_map simp: evolves_refl evolves_used)
next
  case (4 access input catalog identity now e)
  then obtain i where "usable access (mcat_records catalog) now i = Inl e"
    using each_ok_Inl [of "usable access (mcat_records catalog) now" "sort_strings (mc_record_ids input)" e]
    by (auto simp: consume_change_def split: sum.splits)
  then show ?case by (auto simp: usable_def Let_def corrupt_def split: if_splits option.splits)
next
  case 5
  show ?case by (simp add: validReceiptOperation_def)
next
  case (6 access input)
  then show ?case by (simp add: consume_accepted_def validMemoryReceiptWriter_def Let_def)
next
  case (7 access input identity catalog now changed i affected)
  then show ?case by (intro consume_fits)
qed

subsection \<open>Supersede\<close>

definition supersede_targets :: "MemorySupersedeInput \<Rightarrow> string list" where
  "supersede_targets input = sort_strings (sin_supersedes input)"

definition supersede_accepted :: "MemoryAccess \<Rightarrow> MemorySupersedeInput \<Rightarrow> bool" where
  "supersede_accepted access input \<longleftrightarrow>
     validateMemoryCreateRequest access (cin_mutation_id input) (MemoryCreateInput.truncate input) = Inr ()
     \<and> supersede_targets input \<noteq> [] \<and> length (supersede_targets input) \<le> MaxMemorySupersedes
     \<and> \<not> hasDuplicateStrings (supersede_targets input) \<and> list_all validMemoryRecordID (supersede_targets input)"

lemma active_targets_result:
  "active_targets records ids = Inr ks \<Longrightarrow> sorted_ids records \<Longrightarrow>
     map (\<lambda>k. mr_id (records ! k)) ks = ids \<and> (\<forall>k \<in> set ks. k < length records \<and> mr_state (records ! k) = MemoryActive)"
proof (induction ids arbitrary: ks)
  case (Cons i ids)
  from Cons.prems(1) obtain k ks' where k: "findMemoryRecord records i = Some k" "mr_state (records ! k) = MemoryActive"
    "active_targets records ids = Inr ks'" "ks = k # ks'"
    by (auto split: option.splits if_splits sum.splits)
  then show ?case using Cons.IH [OF k(3) Cons.prems(2)] findMemoryRecord_iff [OF Cons.prems(2), of i k] by simp
qed simp

lemma supersede_change_parts:
  assumes "supersede_change access input targets catalog identity now = Inr (changed, i, affected)"
    "sorted_ids (mcat_records catalog)"
  obtains ks records where "active_targets (mcat_records catalog) targets = Inr ks"
    "supersede_records access (cin_reason input) (ma_format access now) ks (mcat_records catalog) = Inr records"
    "changed = catalog\<lparr>mcat_records := add_record records
        (buildMemoryRecord access (mcat_project catalog) i targets (MemoryCreateInput.truncate input) now)\<rparr>"
    "i = memoryRecordID access (pid_hash identity) ''supersede'' (cin_mutation_id input)" "affected = targets"
    "i \<notin> mr_id ` set (mcat_records catalog)" "length (mcat_records catalog) < MaxProjectMemoryRecords"
    "record_valid access (buildMemoryRecord access (mcat_project catalog) i targets (MemoryCreateInput.truncate input) now)"
proof -
  let ?i = "memoryRecordID access (pid_hash identity) ''supersede'' (cin_mutation_id input)"
  note c = assms(1) [unfolded supersede_change_def Let_def]
  have room: "\<not> MaxProjectMemoryRecords \<le> length (mcat_records catalog)"
    using c by (rule contrapos_pn) simp
  obtain ks where ks: "active_targets (mcat_records catalog) targets = Inr ks"
    using c room by (cases "active_targets (mcat_records catalog) targets") simp_all
  have fresh: "findMemoryRecord (mcat_records catalog) ?i = None"
    using c room ks by (cases "findMemoryRecord (mcat_records catalog) ?i") simp_all
  have new: "record_valid access (buildMemoryRecord access (mcat_project catalog) ?i targets (MemoryCreateInput.truncate input) now)"
    using c room ks fresh by (cases "ValidateMemoryRecordV1 (ma_sha access) (ma_parse access)
      (buildMemoryRecord access (mcat_project catalog) ?i targets (MemoryCreateInput.truncate input) now)") simp_all
  obtain records where records: "supersede_records access (cin_reason input) (ma_format access now) ks (mcat_records catalog) = Inr records"
    using c room ks fresh new
    by (cases "supersede_records access (cin_reason input) (ma_format access now) ks (mcat_records catalog)") simp_all
  have "supersede_change access input targets catalog identity now = Inr (catalog\<lparr>mcat_records := add_record records
        (buildMemoryRecord access (mcat_project catalog) ?i targets (MemoryCreateInput.truncate input) now)\<rparr>, ?i, targets)"
    using room ks fresh new records by (simp add: supersede_change_def Let_def)
  then have out: "changed = catalog\<lparr>mcat_records := add_record records
        (buildMemoryRecord access (mcat_project catalog) ?i targets (MemoryCreateInput.truncate input) now)\<rparr>"
    "?i = i" "targets = affected"
    using assms(1) by (metis Inr_inject prod.inject)+
  show thesis
    using ks records out(1) room new fresh findMemoryRecord_None [OF assms(2), of ?i] out(2,3) by (intro that) simp_all
qed

lemma supersede_change_result:
  assumes "supersede_change access input targets catalog identity now = Inr (changed, i, affected)"
    "sorted_ids (mcat_records catalog)" "distinct targets"
  shows "mcat_records changed = add_record (map (\<lambda>m. if mr_id m \<in> set targets
          then retired (cin_reason input) (ma_format access now) m else m) (mcat_records catalog))
        (buildMemoryRecord access (mcat_project catalog) i targets (MemoryCreateInput.truncate input) now)
    \<and> changed = catalog\<lparr>mcat_records := mcat_records changed\<rparr>
    \<and> (i = memoryRecordID access (pid_hash identity) ''supersede'' (cin_mutation_id input) \<and> affected = targets
       \<and> i \<notin> mr_id ` set (mcat_records catalog) \<and> length (mcat_records catalog) < MaxProjectMemoryRecords
       \<and> set targets \<subseteq> mr_id ` set (mcat_records catalog))
    \<and> record_valid access (buildMemoryRecord access (mcat_project catalog) i targets (MemoryCreateInput.truncate input) now)
    \<and> (\<forall>m \<in> set (mcat_records catalog). mr_id m \<in> set targets \<longrightarrow> mr_state m = MemoryActive
         \<and> record_valid access (retired (cin_reason input) (ma_format access now) m))"
proof -
  let ?ms = "mcat_records catalog"
  let ?r = "retired (cin_reason input) (ma_format access now)"
  from assms(1,2) obtain ks records where p: "active_targets ?ms targets = Inr ks"
    "supersede_records access (cin_reason input) (ma_format access now) ks ?ms = Inr records"
    "changed = catalog\<lparr>mcat_records := add_record records
        (buildMemoryRecord access (mcat_project catalog) i targets (MemoryCreateInput.truncate input) now)\<rparr>"
    "i = memoryRecordID access (pid_hash identity) ''supersede'' (cin_mutation_id input)" "affected = targets"
    "i \<notin> mr_id ` set ?ms" "length ?ms < MaxProjectMemoryRecords"
    "record_valid access (buildMemoryRecord access (mcat_project catalog) i targets (MemoryCreateInput.truncate input) now)"
    by (rule supersede_change_parts) (rule that)
  have t: "map (\<lambda>k. mr_id (?ms ! k)) ks = targets" "\<forall>k \<in> set ks. k < length ?ms \<and> mr_state (?ms ! k) = MemoryActive"
    using active_targets_result [OF p(1) assms(2)] by blast+
  have dk: "distinct ks" using t(1) assms(3) by (metis distinct_map)
  have st: "(\<lambda>k. mr_id (?ms ! k)) ` set ks = set targets" using t(1) by (metis list.set_map)
  have bounds: "\<forall>k \<in> set ks. k < length ?ms" using t(2) by blast
  have r: "records = map (\<lambda>m. if mr_id m \<in> set targets then ?r m else m) ?ms"
    "\<forall>k \<in> set ks. record_valid access (?r (?ms ! k))"
    using supersede_records_map [OF p(2) assms(2) bounds dk] unfolding st by blast+
  have "\<forall>m \<in> set ?ms. mr_id m \<in> set targets \<longrightarrow> mr_state m = MemoryActive \<and> record_valid access (?r m)"
  proof (intro ballI impI)
    fix m
    assume m: "m \<in> set ?ms" "mr_id m \<in> set targets"
    have "mr_id m \<in> (\<lambda>k. mr_id (?ms ! k)) ` set ks" by (simp only: st m(2))
    then obtain k where k: "k \<in> set ks" "mr_id m = mr_id (?ms ! k)" by blast
    obtain j where j: "j < length ?ms" "m = ?ms ! j" using m(1) by (metis in_set_conv_nth)
    have "findMemoryRecord ?ms (mr_id m) = Some j" "findMemoryRecord ?ms (mr_id m) = Some k"
      using findMemoryRecord_iff [OF assms(2), of "mr_id m"] j k bounds by simp_all
    then have "j = k" by simp
    then show "mr_state m = MemoryActive \<and> record_valid access (?r m)" using t(2) r(2) k(1) j(2) by simp
  qed
  moreover have "set targets \<subseteq> mr_id ` set ?ms" unfolding st [symmetric] using bounds by auto
  moreover have "mcat_records changed = add_record (map (\<lambda>m. if mr_id m \<in> set targets then ?r m else m) ?ms)
      (buildMemoryRecord access (mcat_project catalog) i targets (MemoryCreateInput.truncate input) now)"
    using arg_cong [OF p(3), of mcat_records] r(1) by simp
  moreover have "changed = catalog\<lparr>mcat_records := mcat_records changed\<rparr>"
    unfolding p(3) by simp
  ultimately show ?thesis using p(4-8) by (intro conjI)
qed

lemma evolves_retired: "mr_state m = MemoryActive \<Longrightarrow> evolves m (retired reason stamp m)"
  by (simp add: evolves_def retired_def)

lemma supersede_receipt:
  assumes "library_laws access" "supersede_accepted access input" "sorted_ids (add_record ms m)" "set (supersede_targets input) \<subseteq> mr_id ` set ms"
    "mr_id m = memoryRecordID access h op mid" "mr_supersedes m = supersede_targets input"
    "rcp_operation r = ''supersede''" "rcp_record_id r = mr_id m" "rcp_affected_ids r = supersede_targets input"
  shows "receipt_fits (add_record ms m) r"
proof -
  obtain k where k: "k < length (add_record ms m)" "add_record ms m ! k = m"
    by (metis in_set_conv_nth insertI1 set_add_record)
  then have "findMemoryRecord (add_record ms m) (mr_id m) = Some k"
    using findMemoryRecord_iff [OF assms(3), of "mr_id m"] by simp
  then have "check_operation (add_record ms m) r = Inr ()"
    using assms(2,6-9) k by (simp add: check_operation_def supersede_accepted_def Let_def not_le not_less)
  then show ?thesis
    using assms memoryRecordID_valid [OF assms(1)]
    by (auto simp: receipt_fits_def supersede_accepted_def supersede_targets_def list_all_iff)
qed

lemma supersede_fits:
  assumes "library_laws access" "supersede_accepted access input" "catalog_ok access identity catalog"
    "supersede_change access input (supersede_targets input) catalog identity now = Inr (changed, i, affected)"
  shows "records_ok access identity (mcat_records changed)
    \<and> (\<forall>r. rcp_operation r = ''supersede'' \<longrightarrow> rcp_writer r = cin_writer input \<longrightarrow> rcp_record_id r = i \<longrightarrow>
         rcp_affected_ids r = affected \<longrightarrow> receipt_fits (mcat_records changed) r)"
proof -
  let ?ts = "supersede_targets input"
  let ?g = "\<lambda>m. if mr_id m \<in> set ?ts then retired (cin_reason input) (ma_format access now) m else m"
  let ?m = "buildMemoryRecord access (mcat_project catalog) i ?ts (MemoryCreateInput.truncate input) now"
  have "distinct ?ts" using assms(2) unique_sorted [of ?ts] unfolding supersede_accepted_def supersede_targets_def by simp
  note c = supersede_change_result [OF assms(4) catalog_sorted [OF assms(3)] this]
  have i: "i = memoryRecordID access (pid_hash identity) ''supersede'' (cin_mutation_id input)" using c by blast
  have old: "check_record access identity m = Inr ()" if "m \<in> set (mcat_records catalog)" for m
    using that catalog_records_ok [OF assms(3)] by (simp add: records_ok_iff)
  have ok: "check_record access identity (?g m) = Inr ()" if m: "m \<in> set (mcat_records catalog)" for m
  proof (cases "mr_id m \<in> set ?ts")
    case True
    then have "record_valid access (retired (cin_reason input) (ma_format access now) m)" using m c by blast
    then have "check_record access identity (retired (cin_reason input) (ma_format access now) m) = Inr ()"
      using old [OF m] by (intro check_record_same [OF old [OF m]]) (simp_all add: retired_def check_record_iff)
    then show ?thesis using True by simp
  qed (use old [OF m] in simp)
  have mapped: "records_ok access identity (map ?g (mcat_records catalog))"
    using ok by (intro records_ok_map catalog_records_ok [OF assms(3)]) auto
  have "valid_utf8 (cin_content (MemoryCreateInput.truncate input))"
    using assms(2) create_request_parts unfolding supersede_accepted_def by blast
  then have "check_record access identity ?m = Inr ()" using check_record_built [OF assms(3)] c by blast
  moreover have "map mr_id (map ?g (mcat_records catalog)) = map mr_id (mcat_records catalog)" by simp
  then have ids: "mr_id ` set (map ?g (mcat_records catalog)) = mr_id ` set (mcat_records catalog)" by (metis list.set_map)
  moreover have "'''' < i" using i record_id_positive [OF memoryRecordID_valid [OF assms(1)]] by blast
  moreover have "i \<notin> mr_id ` set (mcat_records catalog)" "length (mcat_records catalog) < MaxProjectMemoryRecords"
    using c by blast+
  ultimately have all_ok: "records_ok access identity (add_record (map ?g (mcat_records catalog)) ?m)"
    by (intro records_ok_add [OF mapped]) (simp_all only: ids built_simps length_map not_False_eq_True)
  have "receipt_fits (add_record (map ?g (mcat_records catalog)) ?m) r"
    if "rcp_operation r = ''supersede''" "rcp_record_id r = i" "rcp_affected_ids r = affected" for r
  proof (rule supersede_receipt [OF assms(1,2)])
    show "sorted_ids (add_record (map ?g (mcat_records catalog)) ?m)" using all_ok unfolding records_ok_iff by blast
    show "set ?ts \<subseteq> mr_id ` set (map ?g (mcat_records catalog))" unfolding ids using c by blast
    show "mr_id ?m = memoryRecordID access (pid_hash identity) ''supersede'' (cin_mutation_id input)" using i by (simp only: built_simps)
  qed (use that c in \<open>simp_all only: built_simps\<close>)
  then show ?thesis using all_ok c by metis
qed

lemma supersede_refused:
  assumes "\<not> supersede_accepted access input"
  shows "\<exists>e. \<not> corrupt e \<and> (\<forall>fault now files. SupersedeMemory access fault now input files = (Inl e, files))"
proof (cases "validateMemoryCreateRequest access (cin_mutation_id input) (MemoryCreateInput.truncate input)")
  case (Inl e)
  then show ?thesis using create_request_error [OF Inl] by (simp add: SupersedeMemory_def Let_def)
next
  case (Inr u)
  let ?ts = "sort_strings (sin_supersedes input)"
  let ?bad = "length ?ts < 1 \<or> length ?ts > MaxMemorySupersedes \<or> hasDuplicateStrings ?ts"
  show ?thesis
  proof (cases ?bad)
    case True
    then show ?thesis unfolding SupersedeMemory_def Let_def by (simp add: Inr corrupt_def)
  next
    case False
    then have "\<not> list_all validMemoryRecordID ?ts"
      using assms Inr unfolding supersede_accepted_def supersede_targets_def by auto
    with False show ?thesis unfolding SupersedeMemory_def Let_def by (simp add: Inr corrupt_def)
  qed
qed

lemma supersede_records_Inl: "supersede_records access reason stamp ks ms = Inl e \<Longrightarrow> \<not> corrupt e"
  by (induction ks arbitrary: ms) (auto simp: Let_def corrupt_def split: sum.splits)

lemma active_targets_Inl: "active_targets ms ids = Inl e \<Longrightarrow> \<not> corrupt e"
  by (induction ids) (auto simp: corrupt_def split: sum.splits option.splits if_splits)

lemma supersede_change_Inl: "supersede_change access input targets catalog identity now = Inl e \<Longrightarrow> \<not> corrupt e"
  by (auto simp: supersede_change_def Let_def dest: active_targets_Inl supersede_records_Inl split: sum.splits if_splits)
    (auto simp: corrupt_def)

interpretation supersede: memory_mutation "''supersede''" supersede_accepted cin_project cin_mutation_id cin_writer cin_reason
  "\<lambda>input. json_object [(''supersedes'', json_array (map json_string (supersede_targets input))),
    (''create'', json_object (create_members (MemoryCreateInput.truncate input)))]"
  "\<lambda>access input. supersede_change access input (supersede_targets input)" SupersedeMemory
proof (unfold_locales, goal_cases)
  case (1 access input)
  then show ?case by (rule supersede_refused)
next
  case (2 access input fault now files)
  then show ?case by (simp add: SupersedeMemory_def supersede_accepted_def supersede_targets_def Let_def not_le not_less)
next
  case (3 access input catalog identity now changed i affected)
  let ?g = "\<lambda>m. if mr_id m \<in> set (supersede_targets input) then retired (cin_reason input) (ma_format access now) m else m"
  have "distinct (supersede_targets input)"
    using 3(1) unique_sorted [of "supersede_targets input"] unfolding supersede_accepted_def supersede_targets_def by simp
  note c = supersede_change_result [OF 3(3,2) this]
  have "follows (mcat_records catalog) (map ?g (mcat_records catalog))"
    by (rule follows_map) (use c evolves_retired evolves_refl in auto)
  moreover have "map mr_id (map ?g (mcat_records catalog)) = map mr_id (mcat_records catalog)" by simp
  then have "mr_id ` set (map ?g (mcat_records catalog)) = mr_id ` set (mcat_records catalog)" by (metis list.set_map)
  moreover have "i \<notin> mr_id ` set (mcat_records catalog)" using c by blast
  ultimately have "follows (mcat_records catalog) (add_record (map ?g (mcat_records catalog))
      (buildMemoryRecord access (mcat_project catalog) i (supersede_targets input) (MemoryCreateInput.truncate input) now))"
    by (intro follows_add) simp_all
  with c show ?case by metis
next
  case (4 access input catalog identity now e)
  then show ?case by (rule supersede_change_Inl)
next
  case 5
  show ?case by (simp add: validReceiptOperation_def)
next
  case (6 access input)
  then show ?case using create_request_parts [of access "cin_mutation_id input" "MemoryCreateInput.truncate input"]
    unfolding supersede_accepted_def by (simp add: MemoryCreateInput.defs)
next
  case (7 access input identity catalog now changed i affected)
  then show ?case by (intro supersede_fits)
qed

subsection \<open>Requests\<close>

datatype MemoryRequest =
    CreateRequest MemoryCreateInput
  | SupersedeRequest MemorySupersedeInput
  | DeleteRequest MemoryDeleteInput
  | ConsumeRequest MemoryConsumeInput

fun handle ::
  "MemoryAccess \<Rightarrow> StoreFault \<Rightarrow> int \<Rightarrow> MemoryRequest \<Rightarrow> MemoryFiles \<Rightarrow> (MemoryStoreError + MemoryMutationResult) \<times> MemoryFiles" where
  "handle access fault now (CreateRequest input) files = CreateMemory access fault now input files"
| "handle access fault now (SupersedeRequest input) files = SupersedeMemory access fault now input files"
| "handle access fault now (DeleteRequest input) files = DeleteMemory access fault now input files"
| "handle access fault now (ConsumeRequest input) files = ConsumeMemory access fault now input files"

fun request_project :: "MemoryRequest \<Rightarrow> string" where
  "request_project (CreateRequest input) = cin_project input"
| "request_project (SupersedeRequest input) = cin_project input"
| "request_project (DeleteRequest input) = din_project input"
| "request_project (ConsumeRequest input) = mc_project input"

text \<open>The receipt is one that the request leaves.\<close>

fun receipt_of :: "MemoryAccess \<Rightarrow> MemoryRequest \<Rightarrow> MemoryMutationReceiptV1 \<Rightarrow> bool" where
  "receipt_of access (CreateRequest input) r \<longleftrightarrow> create_accepted access input \<and> rcp_mutation_id r = cin_mutation_id input
     \<and> rcp_operation r = ''create'' \<and> rcp_request_hash r = ma_sha access (json_object (create_members input))"
| "receipt_of access (SupersedeRequest input) r \<longleftrightarrow> supersede_accepted access input
     \<and> rcp_mutation_id r = cin_mutation_id input \<and> rcp_operation r = ''supersede''
     \<and> rcp_request_hash r = ma_sha access (json_object
         [(''supersedes'', json_array (map json_string (supersede_targets input))),
          (''create'', json_object (create_members (MemoryCreateInput.truncate input)))])"
| "receipt_of access (DeleteRequest input) r \<longleftrightarrow> delete_accepted access input \<and> rcp_mutation_id r = din_mutation_id input
     \<and> rcp_operation r = ''delete'' \<and> rcp_request_hash r = ma_sha access (json_object
         [(''recordId'', json_string (din_record_id input)), (''writer'', json_string (din_writer input)),
          (''reason'', json_string (din_reason input))])"
| "receipt_of access (ConsumeRequest input) r \<longleftrightarrow> consume_accepted access input \<and> rcp_mutation_id r = mc_mutation_id input
     \<and> rcp_operation r = ''consume'' \<and> rcp_request_hash r = ma_sha access (json_object
         [(''recordIds'', json_array (map json_string (sort_strings (mc_record_ids input)))),
          (''reason'', json_string (mc_reason input))])"

lemma handle_writes:
  assumes "handle access fault now request files = (res, files')" "files' \<noteq> files"
  obtains identity c r c' where "resolveMemoryProject access (request_project request) = Inr identity"
    "readMemoryCatalog access identity files = Inr c" "committed access identity c r c'"
    "files' = AList.update (pid_hash identity) c' files" "receipt_of access request r"
    "res = Inr (answer r False) \<or> (\<exists>message. res = memoryError MemoryStoreUnavailable message)"
proof (cases request)
  case (CreateRequest input)
  show thesis using create.writes [of access fault now input files res files'] assms that unfolding CreateRequest by auto
next
  case (SupersedeRequest input)
  show thesis using supersede.writes [of access fault now input files res files'] assms that unfolding SupersedeRequest by auto
next
  case (DeleteRequest input)
  show thesis using delete.writes [of access fault now input files res files'] assms that unfolding DeleteRequest by auto
next
  case (ConsumeRequest input)
  show thesis using consume.writes [of access fault now input files res files'] assms that unfolding ConsumeRequest by auto
qed

lemma handle_replay:
  assumes "receipt_of access request r" "resolveMemoryProject access (request_project request) = Inr identity"
    "map_of files (pid_hash identity) = Some c" "catalog_ok access identity c" "r \<in> set (mcat_receipts c)" "fault \<noteq> NotOpened"
  shows "handle access fault now request files = (Inr (answer r True), files)"
  using assms
  by (cases request) (auto intro: create.replay supersede.replay delete.replay consume.replay)

lemma handle_never_corrupt:
  assumes "library_laws access" "resolveMemoryProject access (request_project request) = Inr identity"
    "readMemoryCatalog access identity files = Inr c" "catalog_ok access identity c"
    "not_before access now (mcat_records c)" "fst (handle access fault now request files) = Inl e"
  shows "\<not> corrupt e"
proof (cases request)
  case (CreateRequest input)
  show ?thesis using create.never_corrupt [of access input identity files c now fault e] assms unfolding CreateRequest by simp
next
  case (SupersedeRequest input)
  show ?thesis using supersede.never_corrupt [of access input identity files c now fault e] assms unfolding SupersedeRequest by simp
next
  case (DeleteRequest input)
  show ?thesis using delete.never_corrupt [of access input identity files c now fault e] assms unfolding DeleteRequest by simp
next
  case (ConsumeRequest input)
  show ?thesis using consume.never_corrupt [of access input identity files c now fault e] assms unfolding ConsumeRequest by simp
qed

end
