(* ===== verification/Memory_History.thy ===== *)
theory Memory_History
  imports Memory_Requests
begin

section \<open>Histories of Memory requests\<close>

text \<open>
  What a sequence of handled requests preserves: a receipt while fewer than
  \<^verbatim>\<open>MaxMemoryReceipts\<close> mutations follow it, and every record up to the legal steps of its life.
\<close>

fun handle_all :: "MemoryAccess \<Rightarrow> (StoreFault \<times> int \<times> MemoryRequest) list \<Rightarrow> MemoryFiles \<Rightarrow> MemoryFiles" where
  "handle_all access [] files = files"
| "handle_all access ((fault, now, request) # events) files =
     handle_all access events (snd (handle access fault now request files))"

lemma catalog_ok_same:
  assumes "pid_hash i = pid_hash j" "pid_normalized i = pid_normalized j"
  shows "catalog_ok access i c \<longleftrightarrow> catalog_ok access j c"
  using assms by (simp add: catalog_ok_iff check_record_iff)

lemma record_receipt_kept:
  assumes "length post < MaxMemoryReceipts - 1"
  shows "\<exists>pre'. record_receipt (pre @ r # post) new = pre' @ r # post @ [new]"
proof -
  have "drop k (pre @ r # post @ [new]) = drop k pre @ r # post @ [new]" if "k \<le> length pre" for k
    using that by simp
  then show ?thesis using assms unfolding record_receipt_def Let_def by (cases "length (pre @ r # post @ [new]) \<le> MaxMemoryReceipts") auto
qed

text \<open>The catalog of the project holds the receipt, at most \<open>n\<close> places from its end.\<close>

definition held :: "MemoryAccess \<Rightarrow> memoryProjectIdentity \<Rightarrow> MemoryFiles \<Rightarrow> MemoryMutationReceiptV1 \<Rightarrow> nat \<Rightarrow> bool" where
  "held access identity files r n \<longleftrightarrow>
     (\<exists>c pre post. map_of files (pid_hash identity) = Some c \<and> catalog_ok access identity c
        \<and> mcat_receipts c = pre @ r # post \<and> length post \<le> n)"

lemma held_step:
  assumes "held access identity files r n" "n < MaxMemoryReceipts - 1"
  shows "held access identity (snd (handle access fault now request files)) r (Suc n)"
proof -
  obtain res files' where h: "handle access fault now request files = (res, files')" by fastforce
  obtain c pre post where c: "map_of files (pid_hash identity) = Some c" "catalog_ok access identity c"
    "mcat_receipts c = pre @ r # post" "length post \<le> n"
    using assms(1) unfolding held_def by blast
  show ?thesis
  proof (cases "files' = files")
    case True
    then show ?thesis using c h unfolding held_def by (auto intro: le_SucI)
  next
    case False
    obtain id2 c2 r2 c' where w: "readMemoryCatalog access id2 files = Inr c2" "committed access id2 c2 r2 c'"
      "files' = AList.update (pid_hash id2) c' files"
      by (rule handle_writes [OF h False]) (rule that)
    show ?thesis
    proof (cases "pid_hash id2 = pid_hash identity")
      case True
      then have c2: "c2 = c" "catalog_ok access id2 c" using read_ok(2) [OF w(1)] c(1) by auto
      then have "pid_normalized id2 = pid_normalized identity" using c(2) unfolding catalog_ok_iff by metis
      then have "catalog_ok access identity c'"
        using w(2) True catalog_ok_same [of id2 identity access c'] unfolding committed_def by blast
      moreover obtain pre' where "record_receipt (pre @ r # post) r2 = pre' @ r # post @ [r2]"
        using record_receipt_kept [of post pre r r2] c(4) assms(2) by auto
      then have "mcat_receipts c' = pre' @ r # (post @ [r2])" using w(2) c(3) c2(1) unfolding committed_def by simp
      moreover have "map_of files' (pid_hash identity) = Some c'" using w(3) True by (simp add: update_conv')
      ultimately show ?thesis using c(4) h unfolding held_def by fastforce
    next
      case False
      then have "map_of files' (pid_hash identity) = Some c" using w(3) c(1) by (simp add: update_conv')
      then show ?thesis using c(2-4) h unfolding held_def by (auto intro: le_SucI)
    qed
  qed
qed

lemma held_all:
  "held access identity files r n \<Longrightarrow> n + length events < MaxMemoryReceipts \<Longrightarrow>
     held access identity (handle_all access events files) r (n + length events)"
proof (induction events arbitrary: files n)
  case (Cons e events)
  obtain fault now request where e: "e = (fault, now, request)" by (cases e)
  have "held access identity (snd (handle access fault now request files)) r (Suc n)"
    by (rule held_step [OF Cons.prems(1)]) (use Cons.prems(2) in simp)
  from Cons.IH [OF this] Cons.prems(2) show ?case by (simp add: e)
qed simp

lemma committed_held:
  assumes "committed access identity c r c'"
  shows "held access identity (AList.update (pid_hash identity) c' files) r 0"
proof -
  have "mcat_receipts c' = butlast (mcat_receipts c') @ r # []"
    using assms record_receipt_mem(3,4) [of "mcat_receipts c" r] append_butlast_last_id unfolding committed_def by metis
  then show ?thesis using assms unfolding held_def committed_def by (force simp: update_conv')
qed

subsection \<open>The life of a record\<close>

definition outlives :: "MemoryCatalogV1 \<Rightarrow> MemoryCatalogV1 \<Rightarrow> bool" where
  "outlives c c' \<longleftrightarrow> mcat_revision c \<le> mcat_revision c' \<and> (\<forall>m \<in> set (mcat_records c). \<exists>m' \<in> set (mcat_records c'). evolves m m')"

lemma outlives_refl: "outlives c c"
  by (auto simp: outlives_def intro: evolves_refl)

lemma outlives_trans: "outlives c c' \<Longrightarrow> outlives c' c'' \<Longrightarrow> outlives c c''"
  unfolding outlives_def by (meson evolves_trans le_trans)

lemma handle_outlives:
  assumes "map_of files h = Some c"
  shows "\<exists>c'. map_of (snd (handle access fault now request files)) h = Some c' \<and> outlives c c'"
proof -
  obtain res files' where hd: "handle access fault now request files = (res, files')" by fastforce
  show ?thesis
  proof (cases "files' = files")
    case True
    then show ?thesis using assms hd outlives_refl by auto
  next
    case False
    obtain id2 c2 r2 c' where w: "readMemoryCatalog access id2 files = Inr c2" "committed access id2 c2 r2 c'"
      "files' = AList.update (pid_hash id2) c' files"
      by (rule handle_writes [OF hd False]) (rule that)
    show ?thesis
    proof (cases "pid_hash id2 = h")
      case True
      then have "c2 = c" using read_ok(2) [OF w(1)] assms by auto
      then have "outlives c c'" using w(2) unfolding committed_def outlives_def follows_def by simp
      then show ?thesis using hd w(3) True by (simp add: update_conv')
    next
      case False
      then show ?thesis using hd w(3) assms outlives_refl by (simp add: update_conv')
    qed
  qed
qed

lemma handle_all_outlives:
  "map_of files h = Some c \<Longrightarrow> \<exists>c'. map_of (handle_all access events files) h = Some c' \<and> outlives c c'"
proof (induction events arbitrary: files c)
  case Nil
  then show ?case by (simp add: outlives_refl)
next
  case (Cons e events)
  obtain fault now request where e: "e = (fault, now, request)" by (cases e)
  obtain c1 where c1: "map_of (snd (handle access fault now request files)) h = Some c1" "outlives c c1"
    using handle_outlives [OF Cons.prems] by blast
  from Cons.IH [OF c1(1)] obtain c' where c': "map_of (handle_all access events (snd (handle access fault now request files))) h = Some c'"
    "outlives c1 c'" by blast
  then show ?case using outlives_trans [OF c1(2) c'(2)] by (simp add: e)
qed

end
