(* ===== verification/Memory_Listing.thy ===== *)
theory Memory_Listing
  imports Memory_Requests
begin

section \<open>Listing the Memory of a project page by page\<close>

text \<open>
  \<open>list_pages\<close> calls \<open>ListMemory\<close> with the cursor of the page before, as the callers of the
  store do. Its fuel bounds the number of pages; \<open>None\<close> means that it was not enough.
\<close>

fun list_pages ::
  "MemoryAccess \<Rightarrow> MemoryListInput \<Rightarrow> MemoryFiles \<Rightarrow> nat \<Rightarrow> (MemoryStoreError + MemoryRecordMetadata list list) option" where
  "list_pages access input files 0 = None"
| "list_pages access input files (Suc n) =
     (case ListMemory access NoFault input files of
        Inl e \<Rightarrow> Some (Inl e)
      | Inr page \<Rightarrow>
          (case lst_next_cursor page of
             None \<Rightarrow> Some (Inr [lst_items page])
           | Some cursor \<Rightarrow>
               (case list_pages access (input\<lparr>lin_cursor := Some cursor\<rparr>) files n of
                  Some (Inr pages) \<Rightarrow> Some (Inr (lst_items page # pages))
                | result \<Rightarrow> result)))"

definition page_limit :: "MemoryListInput \<Rightarrow> int" where
  "page_limit input = (if lin_limit input = 0 then DefaultMemoryListLimit else lin_limit input)"

lemma page_limit_cursor [simp]: "page_limit (input\<lparr>lin_cursor := cursor\<rparr>) = page_limit input"
  by (cases "lin_limit input = 0") (simp_all add: page_limit_def)

lemma filter_after:
  assumes "sorted_wrt (<) (map k xs)" "n < length xs"
  shows "filter (\<lambda>x. (k (xs ! n) :: 'b :: linorder) < k x) xs = drop (Suc n) xs"
  using assms
proof (induction xs arbitrary: n)
  case (Cons a xs)
  show ?case
  proof (cases n)
    case 0
    then show ?thesis using Cons.prems(1) by (simp add: filter_id_conv)
  next
    case (Suc m)
    have "k a < k (xs ! m)" using Cons.prems Suc by simp
    then have "\<not> k (xs ! m) < k a" by (rule less_not_sym)
    then show ?thesis using Cons.IH [of m] Cons.prems Suc by simp
  qed
qed simp

definition remaining :: "MemoryRecordV1 list \<Rightarrow> MemoryListFilter \<Rightarrow> string \<Rightarrow> MemoryRecordV1 list" where
  "remaining records f lastID = filter (\<lambda>m. mr_id m > lastID \<and> memoryMatches m f) records"

lemma remaining_after:
  assumes "sorted_ids records" "n < length (remaining records f lastID)"
  shows "remaining records f (mr_id (remaining records f lastID ! n)) = drop (Suc n) (remaining records f lastID)"
proof -
  let ?r = "remaining records f lastID"
  have "sorted_ids ?r" using assms(1) by (simp add: remaining_def sorted_wrt_map sorted_wrt_filter)
  then have "filter (\<lambda>m. mr_id (?r ! n) < mr_id m) ?r = drop (Suc n) ?r" by (rule filter_after [OF _ assms(2)])
  moreover have "?r ! n \<in> set ?r" using assms(2) by simp
  then have "lastID < mr_id (?r ! n)" unfolding remaining_def by simp
  then have "remaining records f (mr_id (?r ! n)) = filter (\<lambda>m. mr_id (?r ! n) < mr_id m) ?r"
    unfolding remaining_def by (auto intro!: filter_cong)
  ultimately show ?thesis by simp
qed

lemma contract_id_valid: "contractIDPattern i \<Longrightarrow> validMemoryRecordID i"
  by (cases i) (auto simp: contractIDPattern_def validMemoryRecordID_def)

lemma catalog_id_valid:
  assumes "catalog_ok access identity c" "m \<in> set (mcat_records c)"
  shows "validMemoryRecordID (mr_id m)"
proof -
  have "record_valid access m" using assms by (simp add: catalog_ok_iff check_record_iff)
  then show ?thesis
    by (intro contract_id_valid) (simp only: ValidateMemoryRecordV1_def Let_def res_simps ex_simps, blast)
qed

text \<open>The cursor is one that continues a listing after \<open>lastID\<close>.\<close>

definition cursor_after :: "MemoryAccess \<Rightarrow> MemoryCatalogV1 \<Rightarrow> MemoryListFilter \<Rightarrow> memoryListCursor option \<Rightarrow> string \<Rightarrow> bool" where
  "cursor_after access c f cursor lastID \<longleftrightarrow>
     (case cursor of
        None \<Rightarrow> lastID = ''''
      | Some k \<Rightarrow> cur_version k = 1 \<and> 0 < cur_revision k \<and> validMemoryRecordID lastID
          \<and> validHashString (cur_filter_hash k) \<and> cur_revision k = mcat_revision c
          \<and> cur_filter_hash k = filter_hash access f \<and> cur_last_id k = lastID)"

lemma ListMemory_page:
  assumes "resolveMemoryProject access (lin_project input) = Inr identity"
    "readMemoryCatalog access identity files = Inr c" "validateMemoryFilter (lin_filter input) = Inr ()"
    "1 \<le> page_limit input" "page_limit input \<le> MaxMemoryListLimit"
    "cursor_after access c (lin_filter input) (lin_cursor input) lastID"
  shows "ListMemory access NoFault input files =
    (let rest = remaining (mcat_records c) (lin_filter input) lastID; count = min (nat (page_limit input)) (length rest) in
     Inr \<lparr>lst_revision = mcat_revision c, lst_items = map memoryMetadata (take count rest),
       lst_next_cursor = (if length rest > count
         then Some \<lparr>cur_version = 1, cur_revision = mcat_revision c, cur_last_id = mr_id (rest ! (count - 1)),
           cur_filter_hash = filter_hash access (lin_filter input)\<rparr>
         else None)\<rparr>)"
proof -
  obtain k where k: "check_cursor (lin_cursor input) = Inr k" "cur_last_id k = lastID"
    "lin_cursor input \<noteq> None \<longrightarrow> cur_revision k = mcat_revision c \<and> cur_filter_hash k = filter_hash access (lin_filter input)"
    using assms(6) by (cases "lin_cursor input") (auto simp: cursor_after_def check_cursor_def)
  show ?thesis
    using assms(1-5) k
    unfolding ListMemory_def page_limit_def [symmetric] withMemoryCatalog_def Let_def remaining_def by (auto simp: not_less)
qed

lemma list_pages_all:
  assumes "library_laws access" "resolveMemoryProject access (lin_project input) = Inr identity"
    "readMemoryCatalog access identity files = Inr c" "validateMemoryFilter (lin_filter input) = Inr ()"
    "1 \<le> page_limit input" "page_limit input \<le> MaxMemoryListLimit" "mcat_records c = [] \<or> catalog_ok access identity c"
  shows "cursor_after access c (lin_filter input) cursor lastID \<Longrightarrow>
    length (remaining (mcat_records c) (lin_filter input) lastID) < n \<Longrightarrow>
    \<exists>pages. list_pages access (input\<lparr>lin_cursor := cursor\<rparr>) files n = Some (Inr pages)
      \<and> concat pages = map memoryMetadata (remaining (mcat_records c) (lin_filter input) lastID)
      \<and> (\<forall>page \<in> set pages. int (length page) \<le> page_limit input)"
proof (induction n arbitrary: cursor lastID)
  case (Suc n)
  let ?rest = "remaining (mcat_records c) (lin_filter input) lastID"
  let ?count = "min (nat (page_limit input)) (length ?rest)"
  let ?input = "input\<lparr>lin_cursor := cursor\<rparr>"
  have page: "ListMemory access NoFault ?input files = Inr \<lparr>lst_revision = mcat_revision c,
      lst_items = map memoryMetadata (take ?count ?rest),
      lst_next_cursor = (if length ?rest > ?count
         then Some \<lparr>cur_version = 1, cur_revision = mcat_revision c, cur_last_id = mr_id (?rest ! (?count - 1)),
           cur_filter_hash = filter_hash access (lin_filter input)\<rparr>
         else None)\<rparr>"
    using ListMemory_page [of access ?input identity files c lastID] assms(2-6) Suc.prems(1) by (simp add: Let_def)
  have bound: "int (length (map memoryMetadata (take ?count ?rest))) \<le> page_limit input" using assms(5) by simp
  show ?case
  proof (cases "length ?rest > ?count")
    case False
    then show ?thesis using page bound by simp
  next
    case True
    let ?m = "?rest ! (?count - 1)"
    let ?k = "\<lparr>cur_version = 1, cur_revision = mcat_revision c, cur_last_id = mr_id ?m,
      cur_filter_hash = filter_hash access (lin_filter input)\<rparr>"
    have count: "0 < ?count" "?count - 1 < length ?rest" using True assms(5) by auto
    have m: "?m \<in> set ?rest" using count(2) by simp
    then have in_c: "?m \<in> set (mcat_records c)" unfolding remaining_def by simp
    then have c_ok: "catalog_ok access identity c" using assms(7) by auto
    have "mcat_revision c \<noteq> 0" using in_c c_ok unfolding catalog_ok_iff by (metis empty_iff list.set(1))
    then have ok: "catalog_ok access identity c" "0 < mcat_revision c" "validMemoryRecordID (mr_id ?m)"
      using c_ok catalog_id_valid [OF c_ok in_c] by simp_all
    have drop: "remaining (mcat_records c) (lin_filter input) (mr_id ?m) = drop ?count ?rest"
      using remaining_after [OF catalog_sorted [OF ok(1)] count(2)] count(1) by simp
    have "validHashString (filter_hash access (lin_filter input))"
      using assms(1) unfolding library_laws_def filter_hash_def by blast
    then have "cursor_after access c (lin_filter input) (Some ?k) (mr_id ?m)" using ok by (simp add: cursor_after_def)
    moreover have "length (remaining (mcat_records c) (lin_filter input) (mr_id ?m)) < n"
      unfolding drop length_drop using Suc.prems(2) count(1) True by linarith
    ultimately obtain pages where pages: "list_pages access (input\<lparr>lin_cursor := Some ?k\<rparr>) files n = Some (Inr pages)"
      "concat pages = map memoryMetadata (drop ?count ?rest)" "\<forall>page \<in> set pages. int (length page) \<le> page_limit input"
      using Suc.IH [of "Some ?k" "mr_id ?m"] unfolding drop by blast
    have again: "?input\<lparr>lin_cursor := cursor'\<rparr> = input\<lparr>lin_cursor := cursor'\<rparr>" for cursor' by simp
    have "list_pages access ?input files (Suc n) = Some (Inr (map memoryMetadata (take ?count ?rest) # pages))"
      using page unfolding if_P [OF True]
      by (simp only: list_pages.simps sum.case option.case pages(1) MemoryListResult.select_convs again)
    moreover have "concat (map memoryMetadata (take ?count ?rest) # pages) = map memoryMetadata ?rest"
      by (simp add: pages(2) flip: map_append)
    ultimately show ?thesis using pages(3) bound by auto
  qed
qed simp

lemma remaining_first:
  assumes "mcat_records c = [] \<or> catalog_ok access identity c"
  shows "remaining (mcat_records c) f '''' = filter (\<lambda>m. memoryMatches m f) (mcat_records c)"
  using assms unfolding remaining_def catalog_ok_iff by (auto intro!: filter_cong)

lemma read_records: "readMemoryCatalog access identity files = Inr c \<Longrightarrow> mcat_records c = [] \<or> catalog_ok access identity c"
  by (auto simp: readMemoryCatalog_def new_catalog_def catalog_ok_def split: option.splits sum.splits)

end
