(* ===== verification/Memory_Properties.thy ===== *)
theory Memory_Properties
  imports Memory_History Memory_Listing
begin

section \<open>Properties of the Memory catalog\<close>

text \<open>
  The promises of the store to its callers: a mutation takes effect once, a record only
  moves forward, a listing is complete, and no mutation leaves a catalog that reads as corrupt.
\<close>

subsection \<open>A catalog with one record\<close>

definition demo_access :: MemoryAccess where
  "demo_access =
     \<lparr>ma_sha = (\<lambda>s. replicate 64 (CHR ''0'')),
      ma_parse = (\<lambda>s. Some (if s = [] then 0 else if hd s = CHR ''+'' then int (length s) else 1 - int (length s))),
      ma_format = (\<lambda>t. if t > 0 then replicate (nat t) (CHR ''+'') else replicate (nat (1 - t)) (CHR ''-'')),
      ma_directory = (\<lambda>p. Some ''p''), ma_size = (\<lambda>c. 1000)\<rparr>"

definition demo_create :: MemoryCreateInput where
  "demo_create =
     \<lparr>cin_project = ''p'', cin_mutation_id = ''m'', cin_type = ''fact'', cin_content = ''x'', cin_sensitivity = ''public'',
      cin_writer = ''user'', cin_reason = ''r'', cin_expires_at = '''', cin_max_uses = 2\<rparr>"

definition demo_identity :: memoryProjectIdentity where
  "demo_identity = \<lparr>pid_canonical = ''p'', pid_normalized = ''p'', pid_hash = replicate 64 (CHR ''0'')\<rparr>"

definition demo_id :: string where
  "demo_id = ''memory-'' @ replicate 32 (CHR ''0'')"

definition demo_record :: MemoryRecordV1 where
  "demo_record = buildMemoryRecord demo_access ''p'' demo_id [] demo_create 5"

definition demo_catalog :: MemoryCatalogV1 where
  "demo_catalog = commit_change demo_access 5 ''m'' ''create'' ''user'' ''r'' (replicate 64 (CHR ''0''))
     demo_id [] ((new_catalog demo_identity)\<lparr>mcat_records := [demo_record]\<rparr>)"

definition demo_files :: MemoryFiles where
  "demo_files = [(replicate 64 (CHR ''0''), demo_catalog)]"

lemma demo_sha: "ma_sha demo_access s = replicate 64 (CHR ''0'')"
  by (simp add: demo_access_def)

lemma demo_hash: "validHashString (replicate 64 (CHR ''0''))"
  by code_simp

lemma demo_laws: "library_laws demo_access"
  using demo_hash by (auto simp: library_laws_def demo_access_def)

lemma demo_utf8: "valid_utf8 ''p''" "valid_utf8 ''x''" "valid_utf8 ''m''" "valid_utf8 ''r''"
  by (simp_all add: valid_utf8_def runes.simps byte_def)

lemma demo_trim: "trim_space ''p'' = ''p''" "trim_space ''x'' = ''x''" "trim_space ''m'' = ''m''" "trim_space ''r'' = ''r''"
  by code_simp+

lemma demo_clean: "path_clean ''p'' = ''p''"
  by code_simp

lemma demo_resolve: "resolveMemoryProject demo_access ''p'' = Inr demo_identity"
  by (simp add: resolveMemoryProject_def demo_access_def demo_identity_def normalizeMemoryProject_def Let_def demo_utf8 demo_trim demo_clean)

lemma demo_new_ok: "catalog_ok demo_access demo_identity (new_catalog demo_identity)"
  by (rule new_catalog_ok) (simp_all add: demo_identity_def normalizeMemoryProject_def demo_utf8 demo_clean)

lemma demo_accepted: "create_accepted demo_access demo_create"
  by (simp add: create_accepted_def validateMemoryCreateRequest_def validateMutationIdentity_def demo_create_def validMemoryType_def
    validMemoryWriter_def validAuditReason_def demo_utf8 demo_trim)

lemma demo_change: "create_change demo_access demo_create (new_catalog demo_identity) demo_identity 5
    = Inr ((new_catalog demo_identity)\<lparr>mcat_records := [demo_record]\<rparr>, demo_id, [])"
  by code_simp

lemma demo_ok: "catalog_ok demo_access demo_identity demo_catalog"
proof -
  let ?changed = "(new_catalog demo_identity)\<lparr>mcat_records := [demo_record]\<rparr>"
  have input: "cin_mutation_id demo_create = ''m''" "cin_writer demo_create = ''user''" "cin_reason demo_create = ''r''"
    by (simp_all add: demo_create_def)
  have none: "findMemoryReceipt (mcat_receipts (new_catalog demo_identity)) ''m'' = None"
    by (simp add: new_catalog_def findMemoryReceipt_def)
  have old: "sorted_ids (mcat_records (new_catalog demo_identity))" "not_before demo_access 5 (mcat_records (new_catalog demo_identity))"
    by (simp_all add: new_catalog_def not_before_def)
  note keeps = create.keeps [OF demo_accepted old(1) demo_change]
  note fits = create.fits [OF demo_laws demo_accepted demo_new_ok old(2) demo_change]
  have "catalog_ok demo_access demo_identity (commit_change demo_access 5 ''m'' ''create'' ''user'' ''r''
      (ma_sha demo_access ''x'') demo_id [] ?changed)"
    by (rule committed_valid [OF demo_laws demo_new_ok none _ _ _ _ _ _ create.operation_valid])
      (use keeps fits create.audited [OF demo_accepted] in \<open>simp_all add: input\<close>)
  then show ?thesis by (simp only: demo_sha demo_catalog_def)
qed

lemma demo_read: "readMemoryCatalog demo_access demo_identity demo_files = Inr demo_catalog"
  by (rule read_iff [OF _ demo_ok]) (simp add: demo_files_def demo_identity_def)

lemma demo_created: "snd (handle demo_access NoFault 5 (CreateRequest demo_create) []) = demo_files"
proof -
  have "validateMemoryCatalog demo_access demo_catalog demo_identity = Inr ()" using demo_ok by (simp add: catalog_ok_def)
  moreover have "readMemoryCatalog demo_access demo_identity [] = Inr (new_catalog demo_identity)" by (simp add: readMemoryCatalog_def)
  moreover have "ma_size demo_access demo_catalog = 1000" by (simp add: demo_access_def)
  moreover have "cin_project demo_create = ''p''" "cin_mutation_id demo_create = ''m''" "cin_writer demo_create = ''user''"
    "cin_reason demo_create = ''r''" by (simp_all add: demo_create_def)
  moreover have "pid_hash demo_identity = replicate 64 (CHR ''0'')" by (simp add: demo_identity_def)
  moreover have "mcat_receipts (new_catalog demo_identity) = []" by (simp add: new_catalog_def)
  ultimately show ?thesis
    using create.performed [OF demo_accepted, of NoFault 5 "[]"]
    by (simp add: mutateMemory_def demo_resolve withMemoryCatalog_def findMemoryReceipt_def demo_change demo_sha
      demo_catalog_def [symmetric] writeMemoryCatalog_def demo_files_def Let_def del: replicate.simps)
qed

subsection \<open>Mutations take effect once\<close>

text \<open>
  C32. A mutation takes effect once. When handling a request has changed the files, every later
  handling of the same request that gets to open the catalog, even after up to 4095 other
  requests, cut off or not, changes nothing and answers with the result of the first, marked as
  replayed. This holds also when the first answer was an error, because the directory could not
  be synchronised after the file had been replaced.
\<close>

theorem mutation_exactly_once:
  assumes first: "handle access fault now request files = (result, files')" "files' \<noteq> files"
    and few: "length later < MaxMemoryReceipts" and opened: "fault' \<noteq> NotOpened"
  shows "\<exists>replayed. mmr_replayed replayed
    \<and> handle access fault' now' request (handle_all access later files') = (Inr replayed, handle_all access later files')
    \<and> (result = Inr (replayed\<lparr>mmr_replayed := False\<rparr>) \<or> (\<exists>message. result = memoryError MemoryStoreUnavailable message))"
proof -
  obtain identity c r c' where w: "resolveMemoryProject access (request_project request) = Inr identity"
    "readMemoryCatalog access identity files = Inr c" "committed access identity c r c'"
    "files' = AList.update (pid_hash identity) c' files" "receipt_of access request r"
    "result = Inr (answer r False) \<or> (\<exists>message. result = memoryError MemoryStoreUnavailable message)"
    by (rule handle_writes [OF first]) (rule that)
  have "held access identity files' r 0" using committed_held [OF w(3)] w(4) by simp
  then have "held access identity (handle_all access later files') r (0 + length later)"
    by (rule held_all) (use few in simp)
  then obtain k where k: "map_of (handle_all access later files') (pid_hash identity) = Some k" "catalog_ok access identity k"
    "r \<in> set (mcat_receipts k)" unfolding held_def by force
  have "handle access fault' now' request (handle_all access later files') = (Inr (answer r True), handle_all access later files')"
    by (rule handle_replay [OF w(5,1) k opened])
  moreover have "(answer r True)\<lparr>mmr_replayed := False\<rparr> = answer r False" by (simp add: answer_def)
  moreover have "mmr_replayed (answer r True)" by (simp add: answer_def)
  ultimately show ?thesis using w(6) by metis
qed

definition demo_delete :: MemoryDeleteInput where
  "demo_delete = \<lparr>din_project = ''p'', din_mutation_id = ''d'', din_record_id = demo_id,
     din_writer = ''user'', din_reason = ''r''\<rparr>"

theorem mutation_exactly_once_witness:
  "\<exists>replayed. mmr_replayed replayed
     \<and> handle demo_access NoFault 7 (CreateRequest demo_create)
         (handle_all demo_access [(NoFault, 6, DeleteRequest demo_delete)] demo_files)
       = (Inr replayed, handle_all demo_access [(NoFault, 6, DeleteRequest demo_delete)] demo_files)"
proof -
  obtain result where first: "handle demo_access NoFault 5 (CreateRequest demo_create) [] = (result, demo_files)"
    using demo_created by (metis prod.collapse)
  have "demo_files \<noteq> []" by (simp add: demo_files_def)
  from mutation_exactly_once [OF first this, of "[(NoFault, 6, DeleteRequest demo_delete)]" NoFault 7] show ?thesis by auto
qed

subsection \<open>The life of a record\<close>

text \<open>
  C33. Over any sequence of handled requests, stopped at whatever point, the catalog of a project
  stays, its revision does not go back, and every record of it is still there with the same
  identity, origin, content hash and retention. A record only goes from active to superseded or
  deleted and from superseded to deleted, its content is kept until the deletion and then gone,
  and its uses grow only while it is active.
\<close>

theorem record_lifecycle:
  assumes "map_of files project = Some c"
  shows "\<exists>c'. map_of (handle_all access events files) project = Some c' \<and> mcat_revision c \<le> mcat_revision c'
    \<and> (\<forall>m \<in> set (mcat_records c). \<exists>m' \<in> set (mcat_records c'). evolves m m')"
  using handle_all_outlives [OF assms, of access events] unfolding outlives_def .

theorem record_lifecycle_witness:
  "\<exists>c'. map_of (handle_all demo_access [(NoFault, 6, DeleteRequest demo_delete)] demo_files) (replicate 64 (CHR ''0'')) = Some c'
     \<and> (\<exists>m' \<in> set (mcat_records c'). evolves demo_record m')"
proof -
  have "map_of demo_files (replicate 64 (CHR ''0'')) = Some demo_catalog" by (simp add: demo_files_def del: replicate.simps)
  from record_lifecycle [OF this, of demo_access "[(NoFault, 6, DeleteRequest demo_delete)]"] show ?thesis
    by (auto simp: demo_catalog_def)
qed

subsection \<open>Listings are complete\<close>

text \<open>
  C34. Following the cursors of \<open>ListMemory\<close> from the first page on ends, without an error, after
  at most one page more than the catalog has records. The pages hold the metadata of exactly the
  records that match the filter, each once and in the order of their identities, and none is
  longer than the limit.
\<close>

theorem listing_complete:
  assumes "library_laws access" "resolveMemoryProject access (lin_project input) = Inr identity"
    "readMemoryCatalog access identity files = Inr c" "validateMemoryFilter (lin_filter input) = Inr ()"
    "1 \<le> page_limit input" "page_limit input \<le> MaxMemoryListLimit" "lin_cursor input = None"
  shows "\<exists>pages. list_pages access input files (length (mcat_records c) + 1) = Some (Inr pages)
    \<and> concat pages = map memoryMetadata (filter (\<lambda>m. memoryMatches m (lin_filter input)) (mcat_records c))
    \<and> (\<forall>page \<in> set pages. int (length page) \<le> page_limit input)"
proof -
  note ok = read_records [OF assms(3)]
  have start: "cursor_after access c (lin_filter input) None ''''" by (simp add: cursor_after_def)
  have fuel: "length (remaining (mcat_records c) (lin_filter input) '''') < length (mcat_records c) + 1"
    by (simp add: remaining_def less_Suc_eq_le)
  have same: "input\<lparr>lin_cursor := None\<rparr> = input" using assms(7) by simp
  show ?thesis
    using list_pages_all [OF assms(1-6) ok start fuel] unfolding same remaining_first [OF ok] .
qed

definition demo_list :: MemoryListInput where
  "demo_list = \<lparr>lin_project = ''p'', lin_filter = \<lparr>flt_type = ''fact'', flt_state = '''', flt_sensitivity = '''', flt_writer = ''''\<rparr>,
     lin_cursor = None, lin_limit = 1\<rparr>"

theorem listing_complete_witness:
  "\<exists>pages. list_pages demo_access demo_list demo_files 2 = Some (Inr pages) \<and> concat pages = [memoryMetadata demo_record]"
proof -
  have "mcat_records demo_catalog = [demo_record]" by (simp add: demo_catalog_def)
  moreover have "memoryMatches demo_record (lin_filter demo_list)"
    by (simp add: memoryMatches_def demo_list_def demo_record_def buildMemoryRecord_def demo_create_def Let_def)
  moreover have "resolveMemoryProject demo_access (lin_project demo_list) = Inr demo_identity"
    using demo_resolve by (simp add: demo_list_def)
  moreover have "validateMemoryFilter (lin_filter demo_list) = Inr ()" by code_simp
  moreover have "1 \<le> page_limit demo_list" "page_limit demo_list \<le> MaxMemoryListLimit" "lin_cursor demo_list = None"
    by (simp_all add: page_limit_def demo_list_def)
  ultimately show ?thesis
    using listing_complete [OF demo_laws, of demo_list demo_identity demo_files demo_catalog] demo_read by (auto simp: numeral_2_eq_2)
qed

subsection \<open>No mutation corrupts the catalog\<close>

text \<open>
  C35. On a catalog that reads as valid no request is answered with corruption, and the catalog
  reads as valid afterwards: what a mutation has accepted always passes the validation of the
  changed catalog, as long as the clock is not behind the creation of a record of the catalog.
\<close>

theorem mutation_never_corrupts:
  assumes "library_laws access" "resolveMemoryProject access (request_project request) = Inr identity"
    "readMemoryCatalog access identity files = Inr c" "catalog_ok access identity c" "not_before access now (mcat_records c)"
  shows "fst (handle access fault now request files) \<noteq> memoryError MemoryStoreCorrupt message
    \<and> (\<exists>c'. readMemoryCatalog access identity (snd (handle access fault now request files)) = Inr c')"
proof
  show "fst (handle access fault now request files) \<noteq> memoryError MemoryStoreCorrupt message"
    using handle_never_corrupt [OF assms] by (auto simp: corrupt_def)
  obtain result files' where h: "handle access fault now request files = (result, files')" by fastforce
  show "\<exists>c'. readMemoryCatalog access identity (snd (handle access fault now request files)) = Inr c'"
  proof (cases "files' = files")
    case True
    then show ?thesis using h assms(3) by simp
  next
    case False
    obtain id2 c2 r c' where w: "resolveMemoryProject access (request_project request) = Inr id2"
      "committed access id2 c2 r c'" "files' = AList.update (pid_hash id2) c' files"
      by (rule handle_writes [OF h False]) (rule that)
    then have "readMemoryCatalog access identity files' = Inr c'"
      using assms(2) by (intro read_iff) (auto simp: update_conv' committed_def)
    then show ?thesis using h by simp
  qed
qed

theorem mutation_never_corrupts_witness:
  "\<exists>c'. readMemoryCatalog demo_access demo_identity
     (snd (handle demo_access NoFault 6 (DeleteRequest demo_delete) demo_files)) = Inr c'"
proof -
  have "resolveMemoryProject demo_access (request_project (DeleteRequest demo_delete)) = Inr demo_identity"
    using demo_resolve by (simp add: demo_delete_def)
  moreover have "not_before demo_access 6 (mcat_records demo_catalog)"
    by (simp add: demo_catalog_def not_before_def demo_record_def buildMemoryRecord_def demo_access_def Let_def)
  ultimately show ?thesis
    using mutation_never_corrupts [OF demo_laws _ demo_read demo_ok] by blast
qed

end
