(* ===== verification/Team_Contract.thy ===== *)
theory Team_Contract
  imports Workflow_Model Routing_Contract Json_Indent
begin

section \<open>The Team contract (internal/teamcontract/contract.go)\<close>

text \<open>
  Sessions of several agents: the records that the Team service keeps in its files and
  their validators. Enumerations are the strings of the source, times are integers
  (instants), \<^verbatim>\<open>json.RawMessage\<close> is its bytes. The loops over
  \<^verbatim>\<open>map[string]string\<close> only choose which of several errors is reported; they are
  loops over the lists of their entries. \<open>fmt\<close> is the text of a time.
\<close>

subsection \<open>Bounds and states\<close>

abbreviation "TeamSchemaVersion \<equiv> ''fishyume.team/v1''"
abbreviation "MinParticipants \<equiv> (2 :: nat)"
abbreviation "MaxParticipants \<equiv> (4 :: nat)"
abbreviation "MaxProjectBytes \<equiv> (4 * 1024 :: nat)"
abbreviation "MaxTopicBytes \<equiv> (16 * 1024 :: nat)"
abbreviation "MaxInstructionsBytes \<equiv> (16 * 1024 :: nat)"
abbreviation "MaxParticipantLabelBytes \<equiv> (64 :: nat)"
abbreviation "MaxParticipantRoleBytes \<equiv> (2 * 1024 :: nat)"
abbreviation "MaxMessageBytes \<equiv> (32 * 1024 :: nat)"
abbreviation "MaxRetainedMessages \<equiv> (256 :: nat)"
abbreviation "MaxRetainedMessageBytes \<equiv> (2 * 1024 * 1024 :: nat)"
abbreviation "MaxParticipantTurns \<equiv> (64 :: int)"
abbreviation "MaxMutationReceipts \<equiv> (256 :: nat)"
abbreviation "DefaultCostGrant \<equiv> (1000 :: int)"
abbreviation "MaxCostGrant \<equiv> (6400 :: int)"
abbreviation "MaxHandoffSelectedMessages \<equiv> (32 :: nat)"
abbreviation "MaxHandoffBytes \<equiv> (128 * 1024 :: nat)"
abbreviation "MaxWarningBytes \<equiv> (2 * 1024 :: nat)"
abbreviation "MaxOpenQuestionBytes \<equiv> (2 * 1024 :: nat)"
abbreviation "MaxParticipantTemplates \<equiv> (4 :: nat)"
abbreviation "MaxExecutionHandleBytes \<equiv> (64 * 1024 :: nat)"

abbreviation "ModePanel \<equiv> ''panel''"
abbreviation "ModeSession \<equiv> ''session''"

abbreviation "LifecycleCreated \<equiv> ''created''"
abbreviation "LifecycleRunning \<equiv> ''running''"
abbreviation "LifecycleOpen \<equiv> ''open''"
abbreviation "LifecycleClosing \<equiv> ''closing''"
abbreviation "LifecycleCancelling \<equiv> ''cancelling''"
abbreviation "LifecycleClosed \<equiv> ''closed''"

abbreviation "ClosePanelSettled \<equiv> ''panel_settled''"
abbreviation "CloseHostClosed \<equiv> ''host_closed''"
abbreviation "CloseCancelled \<equiv> ''cancelled''"

abbreviation "ParticipantPending \<equiv> ''pending''"
abbreviation "ParticipantRunning \<equiv> ''running''"
abbreviation "ParticipantResponded \<equiv> ''responded''"
abbreviation "ParticipantFailed \<equiv> ''failed''"
abbreviation "ParticipantIndeterminate \<equiv> ''indeterminate''"
abbreviation "ParticipantCancelled \<equiv> ''cancelled''"

abbreviation "TurnPrepared \<equiv> ''prepared''"
abbreviation "TurnDispatching \<equiv> ''dispatching''"
abbreviation "TurnActive \<equiv> ''active''"
abbreviation "TurnResponded \<equiv> ''responded''"
abbreviation "TurnFailed \<equiv> ''failed''"
abbreviation "TurnIndeterminate \<equiv> ''indeterminate''"
abbreviation "TurnCancelling \<equiv> ''cancelling''"
abbreviation "TurnCancelled \<equiv> ''cancelled''"

abbreviation "MessageHost \<equiv> ''host_message''"
abbreviation "MessageContribution \<equiv> ''participant_contribution''"

abbreviation "ActionFollowUp \<equiv> ''follow_up''"
abbreviation "ActionCancelTurn \<equiv> ''cancel_turn''"
abbreviation "ActionClose \<equiv> ''close''"
abbreviation "ActionCancel \<equiv> ''cancel''"

abbreviation "EventTeamCreated \<equiv> ''team.created''"
abbreviation "EventParticipantPrepared \<equiv> ''participant.prepared''"
abbreviation "EventParticipantActive \<equiv> ''participant.active''"
abbreviation "EventParticipantEvent \<equiv> ''participant.event''"
abbreviation "EventMessageCommitted \<equiv> ''message.committed''"
abbreviation "EventTeamClosed \<equiv> ''team.closed''"
abbreviation "EventTeamCancelled \<equiv> ''team.cancelled''"
abbreviation "EventHandoffCreated \<equiv> ''handoff.created''"
abbreviation "EventHandoffBound \<equiv> ''handoff.bound''"

subsection \<open>Records\<close>

record ParticipantV1 =
  pt_id :: string
  pt_label :: string
  pt_role :: string
  pt_model_id :: string
  pt_driver :: string
  pt_target :: string
  pt_state :: string
  pt_current_turn :: string

record TeamSessionV1 =
  ts_schema_version :: string
  ts_team_id :: string
  ts_client_request_id :: string
  ts_request_hash :: string
  ts_project :: string
  ts_mode :: string
  ts_topic :: string
  ts_instructions :: string
  ts_catalog_hash :: string
  ts_participants :: "ParticipantV1 list"
  ts_state :: string
  ts_state_version :: nat
  ts_cost_grant :: int
  ts_cost_used :: int
  ts_close_reason :: string
  ts_created_at :: int
  ts_updated_at :: int

record ParticipantSpecV1 =
  sp_label :: string
  sp_role :: string
  sp_model_id :: string

record TeamStartRequestV1 =
  sr_schema_version :: string
  sr_client_request_id :: string
  sr_project :: string
  sr_mode :: string
  sr_topic :: string
  sr_instructions :: string
  sr_participants :: "ParticipantSpecV1 list"
  sr_cost_grant :: int

record UsageEstimateV1 =
  ue_input :: int
  ue_output :: int
  ue_total :: int

record TeamTurnUsageV1 =
  tus_target :: string
  tus_catalog_hash :: string
  tus_cost :: int
  tus_cumulative :: int
  tus_estimate :: "UsageEstimateV1 option"

record ParticipantTurnV1 =
  tu_schema_version :: string
  tu_team_id :: string
  tu_participant_id :: string
  tu_id :: string
  tu_number :: int
  tu_state :: string
  tu_driver :: string
  tu_target :: string
  tu_model_id :: string
  tu_usage :: TeamTurnUsageV1
  tu_handle :: string
  tu_contribution :: string
  tu_diagnostic :: string
  tu_created_at :: int
  tu_updated_at :: int
  tu_completed_at :: "int option"

record TeamMessageV1 =
  tm_schema_version :: string
  tm_id :: string
  tm_team_id :: string
  tm_sequence :: nat
  tm_kind :: string
  tm_actor :: string
  tm_recipients :: "string list"
  tm_turn_id :: string
  tm_content :: string
  tm_references :: "string list"
  tm_created_at :: int
  tm_content_hash :: string

record TeamEventV1 =
  te_schema_version :: string
  te_team_id :: string
  te_sequence :: nat
  te_type :: string
  te_state_version :: nat
  te_message_id :: string
  te_turn_id :: string
  te_summary :: string
  te_created_at :: int

record ContributionV1 =
  cb_schema_version :: string
  cb_status :: string
  cb_result_type :: string
  cb_output :: string
  cb_markdown :: string
  cb_warnings :: "string list"
  cb_questions :: "string list"
  cb_estimates :: "UsageEstimateV1 option"

record ParticipantTemplateV1 =
  tpl_label :: string
  tpl_role :: string
  tpl_model_id :: string
  tpl_driver :: string
  tpl_target :: string

text \<open>The feature flags and limits of the capabilities are constants that no validator reads.\<close>

record TeamCapabilitiesV1 =
  tcap_schema_version :: string
  tcap_modes :: "string list"
  tcap_templates :: "ParticipantTemplateV1 list"
  tcap_catalog_hash :: string

record FollowUpActionV1 =
  fu_content :: string
  fu_participants :: "string list"
  fu_references :: "string list"

record TeamActionV1 =
  ta_schema_version :: string
  ta_action_id :: string
  ta_team_id :: string
  ta_expected_version :: nat
  ta_type :: string
  ta_follow_up :: "FollowUpActionV1 option"
  ta_cancel_turn :: "string option"
  ta_close :: "string option"

record HandoffArtifactV1 =
  ho_schema_version :: string
  ho_id :: string
  ho_team_id :: string
  ho_source_version :: nat
  ho_goal :: string
  ho_decisions :: "string list"
  ho_constraints :: "string list"
  ho_questions :: "string list"
  ho_expectations :: "string list"
  ho_messages :: "string list"
  ho_hashes :: "string list"
  ho_content_hash :: string
  ho_created_at :: int

record HandoffBindingV1 =
  hb_team_id :: string
  hb_handoff_id :: string
  hb_run_id :: string
  hb_project :: string
  hb_bound_at :: int


subsection \<open>Validators\<close>

text \<open>
  A refusal is its message without the quoted values. \<^verbatim>\<open>int\<close> has 64 bits, and
  the sum of two token counts wraps.
\<close>

definition wrap64 :: "int \<Rightarrow> int" where
  "wrap64 i = (i + 2 ^ 63) mod 2 ^ 64 - 2 ^ 63"

definition validateID_tc :: "string \<Rightarrow> string \<Rightarrow> string + unit" where
  "validateID_tc name value =
     (if blank value then Inl (name @ '' is required'')
      else if value \<noteq> trim_space value then Inl (name @ '' contains surrounding whitespace'')
      else Inr ())"

definition validateBounded :: "string \<Rightarrow> nat \<Rightarrow> string \<Rightarrow> string + unit" where
  "validateBounded value limit name = (if length value > limit then Inl (name @ '' exceeds its bound'') else Inr ())"

definition validateHashOrEmpty :: "string \<Rightarrow> string \<Rightarrow> string + unit" where
  "validateHashOrEmpty value name =
     (if value \<noteq> '''' \<and> \<not> validHash value then Inl (name @ '' must be a SHA-256 hex digest'') else Inr ())"

definition validateMode :: "string \<Rightarrow> string + unit" where
  "validateMode mode = (if mode \<noteq> ModePanel \<and> mode \<noteq> ModeSession then Inl ''unsupported team mode'' else Inr ())"

definition validLifecycle :: "string \<Rightarrow> bool" where
  "validLifecycle v \<longleftrightarrow> v \<in> set [LifecycleCreated, LifecycleRunning, LifecycleOpen, LifecycleClosing, LifecycleCancelling,
     LifecycleClosed]"

definition validParticipantState :: "string \<Rightarrow> bool" where
  "validParticipantState v \<longleftrightarrow> v \<in> set [ParticipantPending, ParticipantRunning, ParticipantResponded, ParticipantFailed,
     ParticipantIndeterminate, ParticipantCancelled]"

definition validTurnState :: "string \<Rightarrow> bool" where
  "validTurnState v \<longleftrightarrow> v \<in> set [TurnPrepared, TurnDispatching, TurnActive, TurnResponded, TurnFailed, TurnIndeterminate,
     TurnCancelling, TurnCancelled]"

definition validCloseReason :: "string \<Rightarrow> bool" where
  "validCloseReason v \<longleftrightarrow> v = ClosePanelSettled \<or> v = CloseHostClosed \<or> v = CloseCancelled"

definition ValidateUsageEstimate :: "UsageEstimateV1 \<Rightarrow> string + unit" where
  "ValidateUsageEstimate v =
     (if ue_input v < 0 \<or> ue_output v < 0 \<or> ue_total v < 0 then Inl ''usage estimates cannot be negative''
      else if ue_total v \<noteq> 0 \<and> ue_total v < wrap64 (ue_input v + ue_output v)
      then Inl ''total token estimate is inconsistent''
      else Inr ())"

definition ValidateUsage :: "TeamTurnUsageV1 \<Rightarrow> string + unit" where
  "ValidateUsage v =
     (case validateID_tc ''usage target'' (tus_target v) of Inl e \<Rightarrow> Inl e | Inr _ \<Rightarrow>
      if \<not> validHash (tus_catalog_hash v) then Inl ''usage catalogHash must be a SHA-256 hex digest''
      else if tus_cost v < 0 \<or> tus_cumulative v < tus_cost v then Inl ''usage cost accounting is invalid''
      else case tus_estimate v of None \<Rightarrow> Inr () | Some estimate \<Rightarrow> ValidateUsageEstimate estimate)"

definition ValidateParticipant :: "ParticipantV1 \<Rightarrow> string + unit" where
  "ValidateParticipant v =
     (case validateID_tc ''participantId'' (pt_id v) of Inl e \<Rightarrow> Inl e | Inr _ \<Rightarrow>
      case validateBounded (pt_label v) MaxParticipantLabelBytes ''participant label'' of Inl e \<Rightarrow> Inl e | Inr _ \<Rightarrow>
      case validateBounded (pt_role v) MaxParticipantRoleBytes ''participant role'' of Inl e \<Rightarrow> Inl e | Inr _ \<Rightarrow>
      case each_ok (\<lambda>(name, field). validateID_tc name field)
        [(''modelId'', pt_model_id v), (''driver'', pt_driver v), (''target'', pt_target v)] of Inl e \<Rightarrow> Inl e | Inr _ \<Rightarrow>
      if \<not> validParticipantState (pt_state v) then Inl ''unsupported participant state''
      else if pt_current_turn v \<noteq> '''' then validateID_tc ''currentTurnId'' (pt_current_turn v)
      else Inr ())"

fun check_participants :: "string list \<Rightarrow> string list \<Rightarrow> ParticipantV1 list \<Rightarrow> string + unit" where
  "check_participants ids models [] = Inr ()"
| "check_participants ids models (p # ps) =
     (case ValidateParticipant p of Inl e \<Rightarrow> Inl e | Inr _ \<Rightarrow>
      if pt_id p \<in> set ids then Inl ''duplicate participantId''
      else if pt_model_id p \<in> set models then Inl ''duplicate participant modelId''
      else check_participants (pt_id p # ids) (pt_model_id p # models) ps)"

definition ValidateTeamSession :: "TeamSessionV1 \<Rightarrow> string + unit" where
  "ValidateTeamSession v =
     (if ts_schema_version v \<noteq> TeamSchemaVersion then Inl ''unsupported team schema version''
      else case validateID_tc ''teamId'' (ts_team_id v) of Inl e \<Rightarrow> Inl e | Inr _ \<Rightarrow>
      case validateID_tc ''clientRequestId'' (ts_client_request_id v) of Inl e \<Rightarrow> Inl e | Inr _ \<Rightarrow>
      if \<not> validHash (ts_request_hash v) then Inl ''requestHash must be a SHA-256 hex digest''
      else case validateBounded (ts_project v) MaxProjectBytes ''project'' of Inl e \<Rightarrow> Inl e | Inr _ \<Rightarrow>
      case validateMode (ts_mode v) of Inl e \<Rightarrow> Inl e | Inr _ \<Rightarrow>
      case validateBounded (ts_topic v) MaxTopicBytes ''topic'' of Inl e \<Rightarrow> Inl e | Inr _ \<Rightarrow>
      case validateBounded (ts_instructions v) MaxInstructionsBytes ''instructions'' of Inl e \<Rightarrow> Inl e | Inr _ \<Rightarrow>
      if \<not> validHash (ts_catalog_hash v) then Inl ''catalogHash must be a SHA-256 hex digest''
      else if length (ts_participants v) < MinParticipants \<or> length (ts_participants v) > MaxParticipants
      then Inl ''participants must contain 2-4 entries''
      else if ts_state_version v = 0 then Inl ''stateVersion must be positive''
      else if ts_cost_grant v < 1 \<or> ts_cost_grant v > MaxCostGrant \<or> ts_cost_used v < 0 \<or> ts_cost_used v > ts_cost_grant v
      then Inl ''team cost accounting is invalid''
      else if \<not> validLifecycle (ts_state v) then Inl ''unsupported team lifecycle''
      else if ts_state v = LifecycleClosed \<and> \<not> validCloseReason (ts_close_reason v)
      then Inl ''closed team requires a valid close reason''
      else if ts_state v \<noteq> LifecycleClosed \<and> ts_close_reason v \<noteq> '''' then Inl ''open team cannot have a close reason''
      else check_participants [] [] (ts_participants v))"

definition check_spec :: "ParticipantSpecV1 \<Rightarrow> string + unit" where
  "check_spec p =
     (case validateBounded (sp_label p) MaxParticipantLabelBytes ''participant label'' of Inl e \<Rightarrow> Inl e | Inr _ \<Rightarrow>
      case validateBounded (sp_role p) MaxParticipantRoleBytes ''participant role'' of Inl e \<Rightarrow> Inl e | Inr _ \<Rightarrow>
      if blank (sp_label p) \<or> blank (sp_role p) \<or> blank (sp_model_id p)
      then Inl ''participant label, role, and modelId are required''
      else if sp_label p \<noteq> trim_space (sp_label p) \<or> sp_role p \<noteq> trim_space (sp_role p)
        \<or> sp_model_id p \<noteq> trim_space (sp_model_id p)
      then Inl ''participant fields cannot contain surrounding whitespace''
      else Inr ())"

definition ValidateStartRequest_tc :: "TeamStartRequestV1 \<Rightarrow> string + unit" where
  "ValidateStartRequest_tc v =
     (if sr_schema_version v \<noteq> TeamSchemaVersion then Inl ''unsupported team schema version''
      else case validateID_tc ''clientRequestId'' (sr_client_request_id v) of Inl e \<Rightarrow> Inl e | Inr _ \<Rightarrow>
      case validateBounded (sr_project v) MaxProjectBytes ''project'' of Inl e \<Rightarrow> Inl e | Inr _ \<Rightarrow>
      if blank (sr_project v) then Inl ''project is required''
      else case validateMode (sr_mode v) of Inl e \<Rightarrow> Inl e | Inr _ \<Rightarrow>
      if blank (sr_topic v) then Inl ''topic is required''
      else case validateBounded (sr_topic v) MaxTopicBytes ''topic'' of Inl e \<Rightarrow> Inl e | Inr _ \<Rightarrow>
      case validateBounded (sr_instructions v) MaxInstructionsBytes ''instructions'' of Inl e \<Rightarrow> Inl e | Inr _ \<Rightarrow>
      if length (sr_participants v) \<noteq> 0
         \<and> (length (sr_participants v) < MinParticipants \<or> length (sr_participants v) > MaxParticipants)
      then Inl ''explicit participants must contain 2-4 entries''
      else case each_ok check_spec (sr_participants v) of Inl e \<Rightarrow> Inl e | Inr _ \<Rightarrow>
      if sr_cost_grant v < 0 \<or> sr_cost_grant v > MaxCostGrant then Inl ''costGrant is out of bounds'' else Inr ())"

definition ValidateParticipantTurn :: "ParticipantTurnV1 \<Rightarrow> string + unit" where
  "ValidateParticipantTurn v =
     (if tu_schema_version v \<noteq> TeamSchemaVersion then Inl ''unsupported team schema version''
      else case each_ok (\<lambda>(name, field). validateID_tc name field)
        [(''teamId'', tu_team_id v), (''participantId'', tu_participant_id v), (''turnId'', tu_id v),
         (''driver'', tu_driver v), (''target'', tu_target v), (''modelId'', tu_model_id v)] of Inl e \<Rightarrow> Inl e | Inr _ \<Rightarrow>
      if tu_number v < 1 \<or> tu_number v > MaxParticipantTurns then Inl ''turn number is out of bounds''
      else if \<not> validTurnState (tu_state v) then Inl ''unsupported turn state''
      else case ValidateUsage (tu_usage v) of Inl e \<Rightarrow> Inl e | Inr _ \<Rightarrow>
      if length (tu_handle v) > 0 \<and> \<not> json_valid (tu_handle v) then Inl ''executionHandle must be valid JSON''
      else if length (tu_handle v) > MaxExecutionHandleBytes then Inl ''executionHandle exceeds its bound''
      else case (if tu_contribution v \<noteq> '''' then validateID_tc ''contributionMessageId'' (tu_contribution v) else Inr ()) of
        Inl e \<Rightarrow> Inl e | Inr _ \<Rightarrow>
      if length (tu_diagnostic v) > MaxWarningBytes then Inl ''turn diagnostic exceeds its bound'' else Inr ())"


definition ValidateMessage :: "TeamMessageV1 \<Rightarrow> string + unit" where
  "ValidateMessage v =
     (if tm_schema_version v \<noteq> TeamSchemaVersion then Inl ''unsupported team schema version''
      else case each_ok (\<lambda>(name, field). validateID_tc name field)
        [(''messageId'', tm_id v), (''teamId'', tm_team_id v), (''actor'', tm_actor v)] of Inl e \<Rightarrow> Inl e | Inr _ \<Rightarrow>
      if tm_sequence v = 0 then Inl ''message sequence must be positive''
      else if tm_kind v \<noteq> MessageHost \<and> tm_kind v \<noteq> MessageContribution then Inl ''unsupported message kind''
      else case validateBounded (tm_content v) MaxMessageBytes ''message content'' of Inl e \<Rightarrow> Inl e | Inr _ \<Rightarrow>
      if tm_kind v = MessageContribution \<and> tm_turn_id v = '''' then Inl ''contribution message requires turnId''
      else if tm_kind v = MessageHost \<and> tm_turn_id v \<noteq> '''' then Inl ''host message cannot have turnId''
      else case each_ok (validateID_tc ''message reference'') (tm_recipients v @ tm_references v) of Inl e \<Rightarrow> Inl e | Inr _ \<Rightarrow>
      if \<not> validHash (tm_content_hash v) then Inl ''message contentHash must be a SHA-256 hex digest'' else Inr ())"

definition ValidateEvent :: "TeamEventV1 \<Rightarrow> string + unit" where
  "ValidateEvent v =
     (if te_schema_version v \<noteq> TeamSchemaVersion then Inl ''unsupported team schema version''
      else case validateID_tc ''teamId'' (te_team_id v) of Inl e \<Rightarrow> Inl e | Inr _ \<Rightarrow>
      if te_sequence v = 0 \<or> te_state_version v = 0 then Inl ''event sequence and stateVersion must be positive''
      else if te_type v \<notin> set [EventTeamCreated, EventParticipantPrepared, EventParticipantActive, EventParticipantEvent,
          EventMessageCommitted, EventTeamClosed, EventTeamCancelled, EventHandoffCreated, EventHandoffBound]
      then Inl ''unsupported team event type''
      else case (if te_message_id v \<noteq> '''' then validateID_tc ''messageId'' (te_message_id v) else Inr ()) of
        Inl e \<Rightarrow> Inl e | Inr _ \<Rightarrow>
      case (if te_turn_id v \<noteq> '''' then validateID_tc ''turnId'' (te_turn_id v) else Inr ()) of Inl e \<Rightarrow> Inl e | Inr _ \<Rightarrow>
      validateBounded (te_summary v) MaxWarningBytes ''event summary'')"

text \<open>
  \<^verbatim>\<open>bytes.TrimSpace\<close> trims as \<^verbatim>\<open>strings.TrimSpace\<close> does.
\<close>

definition ValidateContribution :: "ContributionV1 \<Rightarrow> string + unit" where
  "ValidateContribution v =
     (if cb_schema_version v \<noteq> TeamSchemaVersion then Inl ''unsupported team schema version''
      else if cb_status v \<notin> set [''completed'', ''partial'', ''unable''] then Inl ''unsupported contribution status''
      else if cb_markdown v = '''' \<and> length (trim_space (cb_output v)) = 0
      then Inl ''contribution must include contentMarkdown or output''
      else case (if cb_markdown v \<noteq> '''' then validateBounded (cb_markdown v) MaxMessageBytes ''contribution content''
          else Inr ()) of Inl e \<Rightarrow> Inl e | Inr _ \<Rightarrow>
      case (if length (cb_output v) > 0
          then (if cb_result_type v \<notin> set [''report'', ''decision'', ''artifact'', ''data'', ''question'']
            then Inl ''unsupported contribution resultType''
            else if length (cb_output v) > MaxMessageBytes \<or> \<not> json_valid (cb_output v)
              \<or> trim_space (cb_output v) = ''null''
            then Inl ''contribution output must be valid JSON within its bound'' else Inr ())
          else if cb_result_type v \<noteq> '''' then Inl ''contribution resultType requires output'' else Inr ()) of
        Inl e \<Rightarrow> Inl e | Inr _ \<Rightarrow>
      case each_ok (\<lambda>w. validateBounded w MaxWarningBytes ''warning'') (cb_warnings v) of Inl e \<Rightarrow> Inl e | Inr _ \<Rightarrow>
      case each_ok (\<lambda>q. validateBounded q MaxOpenQuestionBytes ''open question'') (cb_questions v) of Inl e \<Rightarrow> Inl e | Inr _ \<Rightarrow>
      case cb_estimates v of None \<Rightarrow> Inr () | Some estimate \<Rightarrow> ValidateUsageEstimate estimate)"

definition ValidateCapabilities_tc :: "TeamCapabilitiesV1 \<Rightarrow> string + unit" where
  "ValidateCapabilities_tc v =
     (if tcap_schema_version v \<noteq> TeamSchemaVersion then Inl ''unsupported team schema version''
      else if length (tcap_modes v) = 0 then Inl ''supportedModes cannot be empty''
      else case each_ok validateMode (tcap_modes v) of Inl e \<Rightarrow> Inl e | Inr _ \<Rightarrow>
      case validateHashOrEmpty (tcap_catalog_hash v) ''catalogHash'' of Inl e \<Rightarrow> Inl e | Inr _ \<Rightarrow>
      if length (tcap_templates v) = 0 \<or> length (tcap_templates v) > MaxParticipantTemplates
      then Inl ''participantTemplates count is out of bounds''
      else each_ok (\<lambda>t.
        case validateBounded (tpl_label t) MaxParticipantLabelBytes ''template label'' of Inl e \<Rightarrow> Inl e | Inr _ \<Rightarrow>
        case validateBounded (tpl_role t) MaxParticipantRoleBytes ''template role'' of Inl e \<Rightarrow> Inl e | Inr _ \<Rightarrow>
        each_ok (\<lambda>(name, field). validateID_tc name field)
          [(''template modelId'', tpl_model_id t), (''template driver'', tpl_driver t), (''template target'', tpl_target t)])
        (tcap_templates v))"

text \<open>The payloads a request carries, in the order in which they are looked at.\<close>

definition check_follow_up :: "string \<Rightarrow> FollowUpActionV1 \<Rightarrow> string + unit" where
  "check_follow_up kind v =
     (if kind \<noteq> ActionFollowUp then Inl ''followUp payload does not match action type''
      else case validateBounded (fu_content v) MaxMessageBytes ''follow-up content'' of Inl e \<Rightarrow> Inl e | Inr _ \<Rightarrow>
      if length (fu_participants v) = 0 then Inl ''follow-up requires participants''
      else case each_ok (validateID_tc ''follow-up participant'') (fu_participants v) of Inl e \<Rightarrow> Inl e | Inr _ \<Rightarrow>
      each_ok (validateID_tc ''follow-up reference'') (fu_references v))"

definition ValidateAction :: "TeamActionV1 \<Rightarrow> string + unit" where
  "ValidateAction v =
     (if ta_schema_version v \<noteq> TeamSchemaVersion then Inl ''unsupported team schema version''
      else case validateID_tc ''actionId'' (ta_action_id v) of Inl e \<Rightarrow> Inl e | Inr _ \<Rightarrow>
      case validateID_tc ''teamId'' (ta_team_id v) of Inl e \<Rightarrow> Inl e | Inr _ \<Rightarrow>
      if ta_expected_version v = 0 then Inl ''expectedStateVersion must be positive''
      else if ta_type v \<notin> set [ActionFollowUp, ActionCancelTurn, ActionClose, ActionCancel]
      then Inl ''unsupported action type''
      else case (case ta_follow_up v of None \<Rightarrow> Inr () | Some f \<Rightarrow> check_follow_up (ta_type v) f) of Inl e \<Rightarrow> Inl e | Inr _ \<Rightarrow>
      case (case ta_cancel_turn v of None \<Rightarrow> Inr () | Some turn \<Rightarrow>
          if ta_type v \<noteq> ActionCancelTurn then Inl ''cancelTurn payload does not match action type''
          else validateID_tc ''turnId'' turn) of Inl e \<Rightarrow> Inl e | Inr _ \<Rightarrow>
      case (case ta_close v of None \<Rightarrow> Inr () | Some reason \<Rightarrow>
          if ta_type v \<noteq> ActionClose then Inl ''close payload does not match action type''
          else if reason \<noteq> CloseHostClosed \<and> reason \<noteq> CloseCancelled then Inl ''invalid close reason''
          else Inr ()) of Inl e \<Rightarrow> Inl e | Inr _ \<Rightarrow>
      let count = length (filter id [ta_follow_up v \<noteq> None, ta_cancel_turn v \<noteq> None, ta_close v \<noteq> None]) in
      if ta_type v = ActionCancel
      then (if count \<noteq> 0 then Inl ''cancel action cannot carry another payload'' else Inr ())
      else if count \<noteq> 1 then Inl ''action requires exactly one matching payload'' else Inr ())"

definition ValidateHandoffBinding :: "HandoffBindingV1 \<Rightarrow> string + unit" where
  "ValidateHandoffBinding v =
     (case validateID_tc ''teamId'' (hb_team_id v) of Inl e \<Rightarrow> Inl e | Inr _ \<Rightarrow>
      case validateID_tc ''handoffId'' (hb_handoff_id v) of Inl e \<Rightarrow> Inl e | Inr _ \<Rightarrow>
      case validateID_tc ''runId'' (hb_run_id v) of Inl e \<Rightarrow> Inl e | Inr _ \<Rightarrow>
      if blank (hb_project v) \<or> hb_project v \<noteq> trim_space (hb_project v)
      then Inl ''project is required without surrounding whitespace''
      else validateBounded (hb_project v) MaxProjectBytes ''project'')"

definition ValidateError :: "string \<Rightarrow> string \<Rightarrow> string + unit" where
  "ValidateError code message =
     (if code \<notin> set [''invalid_argument'', ''not_found'', ''conflict'', ''capability_unavailable'', ''quota_exceeded'',
        ''not_ready'', ''session_lost'', ''protocol_mismatch'', ''internal''] then Inl ''unsupported team error code''
      else validateBounded message MaxMessageBytes ''error message'')"


subsection \<open>Encodings\<close>

text \<open>
  \<^verbatim>\<open>json.Marshal\<close> compacts a raw message and escapes what HTML would read:
  \<open><\<close>, \<open>>\<close>, \<open>&\<close> and the line separators U+2028 and U+2029.
\<close>

fun html_escape :: "string \<Rightarrow> string" where
  "html_escape (a # b # c # cs) =
     (if a = CHR 0xE2 \<and> b = CHR 0x80 \<and> (c = CHR 0xA8 \<or> c = CHR 0xA9)
      then (if c = CHR 0xA8 then CHR 0x5C # ''u2028'' else CHR 0x5C # ''u2029'') @ html_escape cs
      else (if a = CHR ''<'' then CHR 0x5C # ''u003c'' else if a = CHR ''>'' then CHR 0x5C # ''u003e''
            else if a = CHR ''&'' then CHR 0x5C # ''u0026'' else [a]) @ html_escape (b # c # cs))"
| "html_escape cs =
     concat (map (\<lambda>a. if a = CHR ''<'' then CHR 0x5C # ''u003c'' else if a = CHR ''>'' then CHR 0x5C # ''u003e''
            else if a = CHR ''&'' then CHR 0x5C # ''u0026'' else [a]) cs)"

definition json_raw :: "string \<Rightarrow> string" where
  "json_raw raw = html_escape (json_compact False False raw)"

definition omit_raw :: "string \<Rightarrow> string \<Rightarrow> (string \<times> string) list" where
  "omit_raw k raw = (if raw = [] then [] else [(k, json_raw raw)])"

definition json_estimate :: "UsageEstimateV1 \<Rightarrow> string" where
  "json_estimate v = json_object
     (omit_zero ''inputTokens'' (ue_input v) @ omit_zero ''outputTokens'' (ue_output v) @ omit_zero ''totalTokens'' (ue_total v))"

definition json_participant :: "ParticipantV1 \<Rightarrow> string" where
  "json_participant v = json_object
     ([(''participantId'', json_string (pt_id v)), (''label'', json_string (pt_label v)), (''role'', json_string (pt_role v)),
       (''modelId'', json_string (pt_model_id v)), (''driver'', json_string (pt_driver v)),
       (''target'', json_string (pt_target v)), (''state'', json_string (pt_state v))]
      @ omit_empty ''currentTurnId'' (pt_current_turn v))"

definition json_session :: "(int \<Rightarrow> string) \<Rightarrow> TeamSessionV1 \<Rightarrow> string" where
  "json_session fmt v = json_object
     ([(''schemaVersion'', json_string (ts_schema_version v)), (''teamId'', json_string (ts_team_id v)),
       (''clientRequestId'', json_string (ts_client_request_id v)), (''requestHash'', json_string (ts_request_hash v)),
       (''project'', json_string (ts_project v)), (''mode'', json_string (ts_mode v)), (''topic'', json_string (ts_topic v))]
      @ omit_empty ''instructions'' (ts_instructions v)
      @ [(''catalogHash'', json_string (ts_catalog_hash v)),
         (''participants'', json_array (map json_participant (ts_participants v))),
         (''state'', json_string (ts_state v)), (''stateVersion'', show_nat (ts_state_version v)),
         (''costGrant'', show_int (ts_cost_grant v)), (''costUsed'', show_int (ts_cost_used v))]
      @ omit_empty ''closeReason'' (ts_close_reason v)
      @ [(''createdAt'', json_string (fmt (ts_created_at v))), (''updatedAt'', json_string (fmt (ts_updated_at v)))])"

definition json_usage_tc :: "TeamTurnUsageV1 \<Rightarrow> string" where
  "json_usage_tc v = json_object
     ([(''target'', json_string (tus_target v)), (''catalogHash'', json_string (tus_catalog_hash v)),
       (''costUnits'', show_int (tus_cost v)), (''cumulativeCostUnits'', show_int (tus_cumulative v))]
      @ (case tus_estimate v of None \<Rightarrow> [] | Some e \<Rightarrow> [(''tokenEstimate'', json_estimate e)]))"

definition json_turn :: "(int \<Rightarrow> string) \<Rightarrow> ParticipantTurnV1 \<Rightarrow> string" where
  "json_turn fmt v = json_object
     ([(''schemaVersion'', json_string (tu_schema_version v)), (''teamId'', json_string (tu_team_id v)),
       (''participantId'', json_string (tu_participant_id v)), (''turnId'', json_string (tu_id v)),
       (''number'', show_int (tu_number v)), (''state'', json_string (tu_state v)), (''driver'', json_string (tu_driver v)),
       (''target'', json_string (tu_target v)), (''modelId'', json_string (tu_model_id v)),
       (''usage'', json_usage_tc (tu_usage v))]
      @ omit_raw ''executionHandle'' (tu_handle v) @ omit_empty ''contributionMessageId'' (tu_contribution v)
      @ omit_empty ''diagnostic'' (tu_diagnostic v)
      @ [(''createdAt'', json_string (fmt (tu_created_at v))), (''updatedAt'', json_string (fmt (tu_updated_at v)))]
      @ (case tu_completed_at v of None \<Rightarrow> [] | Some t \<Rightarrow> [(''completedAt'', json_string (fmt t))]))"

definition json_message :: "(int \<Rightarrow> string) \<Rightarrow> TeamMessageV1 \<Rightarrow> string" where
  "json_message fmt v = json_object
     ([(''schemaVersion'', json_string (tm_schema_version v)), (''messageId'', json_string (tm_id v)),
       (''teamId'', json_string (tm_team_id v)), (''sequence'', show_nat (tm_sequence v)), (''kind'', json_string (tm_kind v)),
       (''actor'', json_string (tm_actor v))]
      @ omit_empty_list ''recipients'' (tm_recipients v) @ omit_empty ''turnId'' (tm_turn_id v)
      @ [(''content'', json_string (tm_content v))] @ omit_empty_list ''referencedMessageIds'' (tm_references v)
      @ [(''createdAt'', json_string (fmt (tm_created_at v))), (''contentHash'', json_string (tm_content_hash v))])"

definition json_team_event :: "(int \<Rightarrow> string) \<Rightarrow> TeamEventV1 \<Rightarrow> string" where
  "json_team_event fmt v = json_object
     ([(''schemaVersion'', json_string (te_schema_version v)), (''teamId'', json_string (te_team_id v)),
       (''sequence'', show_nat (te_sequence v)), (''type'', json_string (te_type v)),
       (''stateVersion'', show_nat (te_state_version v))]
      @ omit_empty ''messageId'' (te_message_id v) @ omit_empty ''turnId'' (te_turn_id v)
      @ omit_empty ''summary'' (te_summary v) @ [(''createdAt'', json_string (fmt (te_created_at v)))])"

definition json_contribution :: "ContributionV1 \<Rightarrow> string" where
  "json_contribution v = json_object
     ([(''schemaVersion'', json_string (cb_schema_version v)), (''status'', json_string (cb_status v))]
      @ omit_empty ''resultType'' (cb_result_type v) @ omit_raw ''output'' (cb_output v)
      @ omit_empty ''contentMarkdown'' (cb_markdown v) @ omit_empty_list ''warnings'' (cb_warnings v)
      @ omit_empty_list ''openQuestions'' (cb_questions v)
      @ (case cb_estimates v of None \<Rightarrow> [] | Some e \<Rightarrow> [(''usageEstimates'', json_estimate e)]))"

definition json_spec :: "ParticipantSpecV1 \<Rightarrow> string" where
  "json_spec v = json_object
     [(''label'', json_string (sp_label v)), (''role'', json_string (sp_role v)), (''modelId'', json_string (sp_model_id v))]"

definition json_start_request :: "TeamStartRequestV1 \<Rightarrow> string" where
  "json_start_request v = json_object
     ([(''schemaVersion'', json_string (sr_schema_version v)), (''clientRequestId'', json_string (sr_client_request_id v)),
       (''project'', json_string (sr_project v)), (''mode'', json_string (sr_mode v)), (''topic'', json_string (sr_topic v))]
      @ omit_empty ''instructions'' (sr_instructions v)
      @ (if sr_participants v = [] then [] else [(''participants'', json_array (map json_spec (sr_participants v)))])
      @ omit_zero ''costGrant'' (sr_cost_grant v))"

definition json_handoff :: "(int \<Rightarrow> string) \<Rightarrow> HandoffArtifactV1 \<Rightarrow> string" where
  "json_handoff fmt v = json_object
     ([(''schemaVersion'', json_string (ho_schema_version v)), (''handoffId'', json_string (ho_id v)),
       (''teamId'', json_string (ho_team_id v)), (''sourceTeamVersion'', show_nat (ho_source_version v)),
       (''goal'', json_string (ho_goal v))]
      @ omit_empty_list ''decisions'' (ho_decisions v) @ omit_empty_list ''constraints'' (ho_constraints v)
      @ omit_empty_list ''openQuestions'' (ho_questions v) @ omit_empty_list ''acceptanceExpectations'' (ho_expectations v)
      @ [(''selectedMessageIds'', json_array (map json_string (ho_messages v))),
         (''sourceMessageHashes'', json_array (map json_string (ho_hashes v))),
         (''contentHash'', json_string (ho_content_hash v)), (''createdAt'', json_string (fmt (ho_created_at v)))])"

text \<open>The file that \<^verbatim>\<open>writeJSON\<close> writes: the indented text and a line feed.\<close>

definition json_file :: "string \<Rightarrow> string" where
  "json_file text = json_indent 0 False False False text @ [CHR 0x0A]"

definition ValidateHandoff :: "(int \<Rightarrow> string) \<Rightarrow> HandoffArtifactV1 \<Rightarrow> string + unit" where
  "ValidateHandoff fmt v =
     (if ho_schema_version v \<noteq> TeamSchemaVersion then Inl ''unsupported team schema version''
      else case validateID_tc ''handoffId'' (ho_id v) of Inl e \<Rightarrow> Inl e | Inr _ \<Rightarrow>
      case validateID_tc ''teamId'' (ho_team_id v) of Inl e \<Rightarrow> Inl e | Inr _ \<Rightarrow>
      if ho_source_version v = 0 then Inl ''sourceTeamVersion must be positive''
      else if blank (ho_goal v) \<or> ho_goal v \<noteq> trim_space (ho_goal v)
      then Inl ''handoff goal is required without surrounding whitespace''
      else case validateBounded (ho_goal v) MaxMessageBytes ''handoff goal'' of Inl e \<Rightarrow> Inl e | Inr _ \<Rightarrow>
      case each_ok (\<lambda>(name, values). each_ok (\<lambda>item. validateBounded item MaxMessageBytes name) values)
        [(''decisions'', ho_decisions v), (''constraints'', ho_constraints v), (''openQuestions'', ho_questions v),
         (''acceptanceExpectations'', ho_expectations v)] of Inl e \<Rightarrow> Inl e | Inr _ \<Rightarrow>
      if length (ho_messages v) = 0 \<or> length (ho_messages v) > MaxHandoffSelectedMessages
      then Inl ''selected message count is out of bounds''
      else if length (ho_messages v) \<noteq> length (ho_hashes v)
      then Inl ''selected message IDs and hashes must have equal length''
      else case each_unique
          (\<lambda>i. case validateID_tc ''selected message'' i of Inl e \<Rightarrow> Some e | Inr _ \<Rightarrow> None) id
          (\<lambda>_. ''selected message IDs must be unique'') [] (ho_messages v) of Inl e \<Rightarrow> Inl e | Inr _ \<Rightarrow>
      case each_ok (\<lambda>h. if \<not> validHash h then Inl ''source message hash must be a SHA-256 hex digest'' else Inr ())
        (ho_hashes v) of Inl e \<Rightarrow> Inl e | Inr _ \<Rightarrow>
      if \<not> validHash (ho_content_hash v) then Inl ''handoff contentHash must be a SHA-256 hex digest''
      else if length (json_handoff fmt v) > MaxHandoffBytes then Inl ''handoff exceeds its bound''
      else Inr ())"

end
