(* ===== verification/Exploration_Contract.thy ===== *)
theory Exploration_Contract
  imports Json_Valid
begin

section \<open>The exploration driver port (internal/explorationdriver/contract.go)\<close>

text \<open>
  The records that cross the one-shot execution port of a Team turn, with their validators
  (suffix \<open>_xd\<close>). A refusal is its message without the quoted values.
\<close>

abbreviation "ProtocolVersion_xd \<equiv> (1 :: int)"
abbreviation "MaxExecutionHandleDataSize_xd \<equiv> (64 * 1024 :: nat)"
abbreviation "MaxPromptBytes_xd \<equiv> (64 * 1024 :: nat)"
abbreviation "MaxOutputBytes_xd \<equiv> (64 * 1024 :: int)"
abbreviation "MaxDiagnosticBytes_xd \<equiv> (16 * 1024 :: nat)"
abbreviation "SandboxReadOnly \<equiv> ''read-only''"
abbreviation "ObservationActive \<equiv> ''active''"
abbreviation "ObservationTerminal \<equiv> ''terminal''"
abbreviation "ObservationLost \<equiv> ''lost''"
abbreviation "CancelConfirmed \<equiv> ''confirmed''"
abbreviation "CancelNotConfirmed \<equiv> ''not_confirmed''"

record ExplorationIdentity =
  xi_team_id :: string
  xi_participant_id :: string
  xi_turn_id :: string

record ExplorationRequest =
  xr_protocol_version :: int
  xr_identity :: ExplorationIdentity
  xr_workspace :: string
  xr_target :: string
  xr_model_id :: string
  xr_prompt :: string
  xr_sandbox :: string
  xr_max_bytes :: int

record ExplorationHandle =
  xh_driver :: string
  xh_target :: string
  xh_schema_version :: int
  xh_id :: string
  xh_data :: string

record ExplorationCapabilities =
  xc_targets :: "string list"
  xc_output :: bool
  xc_recovery :: bool
  xc_confirmed_cancel :: bool
  xc_concurrent_cancel :: bool
  xc_max_turns :: int

record ExplorationObservation =
  xo_state :: string
  xo_diagnostic :: string

definition ValidateIdentity_xd :: "ExplorationIdentity \<Rightarrow> string + unit" where
  "ValidateIdentity_xd v =
     (if blank (xi_team_id v) \<or> blank (xi_participant_id v) \<or> blank (xi_turn_id v)
      then Inl ''exploration execution identity is incomplete''
      else if xi_team_id v \<noteq> trim_space (xi_team_id v) \<or> xi_participant_id v \<noteq> trim_space (xi_participant_id v)
        \<or> xi_turn_id v \<noteq> trim_space (xi_turn_id v)
      then Inl ''exploration execution identity contains surrounding whitespace''
      else Inr ())"

definition ValidateStartRequest_xd :: "ExplorationRequest \<Rightarrow> string + unit" where
  "ValidateStartRequest_xd v =
     (if xr_protocol_version v \<noteq> ProtocolVersion_xd then Inl ''unsupported exploration protocol version''
      else case ValidateIdentity_xd (xr_identity v) of Inl e \<Rightarrow> Inl e | Inr _ \<Rightarrow>
      case each_ok (\<lambda>(name, value). if blank value then Inl (name @ '' is required'') else Inr ())
        [(''workspace'', xr_workspace v), (''target'', xr_target v), (''modelId'', xr_model_id v), (''prompt'', xr_prompt v)] of
        Inl e \<Rightarrow> Inl e | Inr _ \<Rightarrow>
      if xr_target v \<noteq> trim_space (xr_target v) \<or> xr_model_id v \<noteq> trim_space (xr_model_id v)
      then Inl ''target and modelId cannot contain surrounding whitespace''
      else if xr_sandbox v \<noteq> SandboxReadOnly then Inl ''exploration sandbox must be read-only''
      else if xr_max_bytes v < 1 \<or> xr_max_bytes v > MaxOutputBytes_xd then Inl ''result max bytes must be between 1 and 65536''
      else if length (xr_prompt v) > MaxPromptBytes_xd then Inl ''exploration prompt exceeds its bound''
      else Inr ())"

definition ValidateCapabilities_xd :: "ExplorationCapabilities \<Rightarrow> string + unit" where
  "ValidateCapabilities_xd v =
     (if length (xc_targets v) = 0 then Inl ''exploration Driver must declare at least one target''
      else case each_unique
          (\<lambda>t. if blank t \<or> t \<noteq> trim_space t
            then Some ''exploration Driver target is empty or contains surrounding whitespace'' else None) id
          (\<lambda>_. ''exploration Driver target is duplicated'') [] (xc_targets v) of Inl e \<Rightarrow> Inl e | Inr _ \<Rightarrow>
      if xc_max_turns v < 0 then Inl ''max concurrent exploration turns cannot be negative''
      else if \<not> xc_confirmed_cancel v \<and> xc_concurrent_cancel v
      then Inl ''concurrent exploration cancellation requires confirmed cancellation''
      else Inr ())"

definition ValidateExecutionHandle_xd :: "ExplorationHandle \<Rightarrow> string + unit" where
  "ValidateExecutionHandle_xd v =
     (if blank (xh_driver v) \<or> blank (xh_target v) \<or> blank (xh_id v)
      then Inl ''exploration execution handle identity is incomplete''
      else if xh_schema_version v < 1 then Inl ''exploration handle schema version must be positive''
      else if length (xh_data v) > MaxExecutionHandleDataSize_xd then Inl ''exploration handle data exceeds its bound''
      else if length (xh_data v) > 0 \<and> \<not> json_valid (xh_data v) then Inl ''exploration handle data is not valid JSON''
      else Inr ())"

definition ValidateObservation_xd :: "ExplorationObservation \<Rightarrow> string + unit" where
  "ValidateObservation_xd v =
     (if xo_state v \<notin> set [ObservationActive, ObservationTerminal, ObservationLost]
      then Inl ''unsupported exploration observation state''
      else if length (xo_diagnostic v) > MaxDiagnosticBytes_xd then Inl ''exploration diagnostic exceeds its bound''
      else Inr ())"

definition ValidateCancelResult_xd :: "string \<Rightarrow> string \<Rightarrow> string + unit" where
  "ValidateCancelResult_xd state diagnostic =
     (if state \<noteq> CancelConfirmed \<and> state \<noteq> CancelNotConfirmed then Inl ''unsupported exploration cancel state''
      else if length diagnostic > MaxDiagnosticBytes_xd then Inl ''exploration cancellation diagnostic exceeds its bound''
      else Inr ())"

end
