(* ===== verification/Team_Store.thy ===== *)
theory Team_Store
  imports Team_Contract Exploration_Contract Run_Store
begin

section \<open>The files of the teams (internal/store/team\_store.go)\<close>

text \<open>
  \<open>TeamFiles\<close> is what the directory of one team holds, \<open>TeamDisk\<close> the directories of all
  teams. A file that \<^verbatim>\<open>writeJSON\<close> replaces is the value it was written from (the strings
  are valid UTF-8, so that decoding gives them back); its size is that of the indented
  encoding. A log is the list of its records, one line each. A replaced file, an appended
  line and a created directory take effect entirely or not at all: \<open>td_writes\<close> counts the
  durable steps that still succeed. \<open>TeamAccess\<close> has what the code takes from elsewhere:
  the SHA-256 digest, the text of a time, the digest of a catalog, the canonical directory
  of a project, and the strict decoding of an agent's answer (an error or a contribution).
\<close>

record TeamActionResponseV1 =
  ar_schema_version :: string
  ar_action_id :: string
  ar_team_id :: string
  ar_type :: string
  ar_state_version :: nat
  ar_state :: string
  ar_replayed :: bool

record actionIntentV1 =
  in_schema_version :: string
  in_request_hash :: string
  in_action :: TeamActionV1
  in_response :: "TeamActionResponseV1 option"

record TeamFiles =
  tf_snapshot :: "TeamSessionV1 option"
  tf_participants :: "(string, ParticipantV1) gomap"
  tf_turns :: "(string, ParticipantTurnV1) gomap"
  tf_executions :: "(string, ExplorationHandle) gomap"
  tf_messages :: "TeamMessageV1 list"
  tf_events :: "TeamEventV1 list"
  tf_intents :: "(string, actionIntentV1) gomap"
  tf_handoff_intents :: nat
  tf_binding_intents :: nat
  tf_handoffs :: "(string, HandoffArtifactV1) gomap"
  tf_bindings :: "HandoffBindingV1 list option"

record TeamDisk =
  td_teams :: "(string, TeamFiles) gomap"
  td_writes :: nat
  td_clock :: "nat \<Rightarrow> int"
  td_ticks :: nat

record TeamAccess =
  tx_sha :: "string \<Rightarrow> string"
  tx_format :: "int \<Rightarrow> string"
  tx_hash :: "CapabilityCatalogV1 \<Rightarrow> string"
  tx_project :: "string \<Rightarrow> string option"
  tx_decode :: "string \<Rightarrow> string + ContributionV1"

datatype TeamError =
    TeamInvalid string | TeamUnsafeID string string | TeamMissing string | TeamWriteFailed | TeamTooLarge string
  | TeamIdentity string | TeamMismatch string | TeamSequence | TeamQuota string | TeamLineTooLong | TeamUnreadable string
  | ErrInvalidArgument string | ErrConflict | ErrCapabilityUnavailable | ErrQuotaExceeded
  | TeamCatalogUnavailable string | TeamRoute ContractError | TeamModelAbsent string | TeamJournal string | TeamDriver string

type_synonym 'a team_step = "(TeamDisk, TeamError, 'a) step"

subsection \<open>Steps\<close>

definition no_files :: TeamFiles where
  "no_files = \<lparr>tf_snapshot = None, tf_participants = [], tf_turns = [], tf_executions = [], tf_messages = [],
     tf_events = [], tf_intents = [], tf_handoff_intents = 0, tf_binding_intents = 0, tf_handoffs = [], tf_bindings = None\<rparr>"

definition team_files :: "TeamDisk \<Rightarrow> string \<Rightarrow> TeamFiles" where
  "team_files d i = (case map_of (td_teams d) i of None \<Rightarrow> no_files | Some f \<Rightarrow> f)"

definition team_durable :: "string \<Rightarrow> (TeamFiles \<Rightarrow> TeamFiles) \<Rightarrow> unit team_step" where
  "team_durable i change d =
     (if td_writes d = 0 then (Inl TeamWriteFailed, d)
      else (Inr (), d\<lparr>td_teams := AList.update i (change (team_files d i)) (td_teams d), td_writes := td_writes d - 1\<rparr>))"

definition team_look :: "string \<Rightarrow> string \<Rightarrow> (TeamFiles \<Rightarrow> 'a option) \<Rightarrow> 'a team_step" where
  "team_look i name sel d = (case sel (team_files d i) of None \<Rightarrow> (Inl (TeamMissing name), d) | Some v \<Rightarrow> (Inr v, d))"

definition team_get :: "string \<Rightarrow> (TeamFiles \<Rightarrow> 'a) \<Rightarrow> 'a team_step" where
  "team_get i sel d = (Inr (sel (team_files d i)), d)"

definition team_now :: "int team_step" where
  "team_now d = (Inr (td_clock d (td_ticks d)), d\<lparr>td_ticks := td_ticks d + 1\<rparr>)"

definition team_require :: "TeamError \<Rightarrow> bool \<Rightarrow> unit team_step" where
  "team_require e ok = (if ok then ret () else fail e)"

definition validateID_store :: "string \<Rightarrow> string \<Rightarrow> unit team_step" where
  "validateID_store kind value = (if \<not> safeID value then fail (TeamUnsafeID kind value) else ret ())"

definition attempt :: "'a team_step \<Rightarrow> (TeamError + 'a) team_step" where
  "attempt m d = (Inr (fst (m d)), snd (m d))"

definition InitTeam :: "string \<Rightarrow> unit team_step" where
  "InitTeam i = next_step (validateID_store ''team'' i) (\<lambda>_. team_durable i (\<lambda>f. f))"

definition ListTeamIDs :: "string list team_step" where
  "ListTeamIDs d = (Inr (sort_strings (filter safeID (map fst (td_teams d)))), d)"

subsection \<open>Contract files\<close>

text \<open>\<^verbatim>\<open>readTeamContractJSON\<close>, of a file with the given encoding.\<close>

definition read_contract :: "string \<Rightarrow> string \<Rightarrow> ('a \<Rightarrow> string) \<Rightarrow> (TeamFiles \<Rightarrow> 'a option) \<Rightarrow> nat \<Rightarrow> 'a team_step" where
  "read_contract i name encode sel limit = next_step (team_look i name sel) (\<lambda>v.
     next_step (team_require (TeamTooLarge name) (length (json_file (encode v)) \<le> limit)) (\<lambda>_. ret v))"

definition WriteTeamSnapshot :: "TeamSessionV1 \<Rightarrow> unit team_step" where
  "WriteTeamSnapshot v = next_step (check TeamInvalid (ValidateTeamSession v)) (\<lambda>_.
     team_durable (ts_team_id v) (\<lambda>f. f\<lparr>tf_snapshot := Some v\<rparr>))"

definition EnsureTeamSnapshot :: "TeamSessionV1 \<Rightarrow> unit team_step" where
  "EnsureTeamSnapshot v = next_step (check TeamInvalid (ValidateTeamSession v)) (\<lambda>_.
     next_step (team_get (ts_team_id v) tf_snapshot) (\<lambda>existing.
     case existing of
       Some w \<Rightarrow> if w \<noteq> v then fail (TeamMismatch ''initial Team snapshot'') else ret ()
     | None \<Rightarrow> team_durable (ts_team_id v) (\<lambda>f. f\<lparr>tf_snapshot := Some v\<rparr>)))"

definition ReadTeamSnapshot :: "TeamAccess \<Rightarrow> string \<Rightarrow> TeamSessionV1 team_step" where
  "ReadTeamSnapshot tx i = next_step (validateID_store ''team'' i) (\<lambda>_.
     next_step (read_contract i ''team.json'' (json_session (tx_format tx)) tf_snapshot MaxHandoffBytes) (\<lambda>v.
     next_step (team_require (TeamIdentity ''team'') (ts_team_id v = i)) (\<lambda>_.
     next_step (check TeamInvalid (ValidateTeamSession v)) (\<lambda>_. ret v))))"

definition WriteTeamParticipant :: "ParticipantV1 \<Rightarrow> string \<Rightarrow> unit team_step" where
  "WriteTeamParticipant v i = next_step (validateID_store ''team'' i) (\<lambda>_.
     next_step (check TeamInvalid (ValidateParticipant v)) (\<lambda>_.
     team_durable i (\<lambda>f. f\<lparr>tf_participants := AList.update (pt_id v) v (tf_participants f)\<rparr>)))"

definition ReadTeamParticipant :: "string \<Rightarrow> string \<Rightarrow> ParticipantV1 team_step" where
  "ReadTeamParticipant i participantID = next_step (validateID_store ''team'' i) (\<lambda>_.
     next_step (validateID_store ''participant'' participantID) (\<lambda>_.
     next_step (read_contract i participantID json_participant (\<lambda>f. map_of (tf_participants f) participantID) MaxHandoffBytes)
       (\<lambda>v.
     next_step (team_require (TeamIdentity ''participant'') (pt_id v = participantID)) (\<lambda>_.
     next_step (check TeamInvalid (ValidateParticipant v)) (\<lambda>_. ret v)))))"

definition ListTeamParticipantIDs :: "string \<Rightarrow> string list team_step" where
  "ListTeamParticipantIDs i = next_step (validateID_store ''team'' i) (\<lambda>_.
     team_get i (\<lambda>f. sort_strings (filter safeID (map fst (tf_participants f)))))"

definition WriteTeamTurn :: "ParticipantTurnV1 \<Rightarrow> unit team_step" where
  "WriteTeamTurn v = next_step (check TeamInvalid (ValidateParticipantTurn v)) (\<lambda>_.
     team_durable (tu_team_id v) (\<lambda>f. f\<lparr>tf_turns := AList.update (tu_id v) v (tf_turns f)\<rparr>))"

definition ReadTeamTurn :: "TeamAccess \<Rightarrow> string \<Rightarrow> string \<Rightarrow> ParticipantTurnV1 team_step" where
  "ReadTeamTurn tx i turnID = next_step (validateID_store ''team'' i) (\<lambda>_.
     next_step (validateID_store ''turn'' turnID) (\<lambda>_.
     next_step (read_contract i turnID (json_turn (tx_format tx)) (\<lambda>f. map_of (tf_turns f) turnID) MaxHandoffBytes) (\<lambda>v.
     next_step (team_require (TeamIdentity ''turn'') (tu_team_id v = i \<and> tu_id v = turnID)) (\<lambda>_.
     next_step (check TeamInvalid (ValidateParticipantTurn v)) (\<lambda>_. ret v)))))"

definition ListTeamTurnIDs :: "string \<Rightarrow> string list team_step" where
  "ListTeamTurnIDs i = next_step (validateID_store ''team'' i) (\<lambda>_.
     team_get i (\<lambda>f. sort_strings (filter safeID (map fst (tf_turns f)))))"

text \<open>
  The handle of an execution is kept as a raw message: what is read back has the spaces
  of the file in it, those of its data too.
\<close>

definition json_exploration_handle :: "ExplorationHandle \<Rightarrow> string" where
  "json_exploration_handle h = json_object
     ([(''driver'', json_string (xh_driver h)), (''target'', json_string (xh_target h)),
       (''schemaVersion'', show_int (xh_schema_version h)), (''id'', json_string (xh_id h))] @ omit_raw ''data'' (xh_data h))"

definition valid_execution :: "string \<Rightarrow> bool" where
  "valid_execution text \<longleftrightarrow> \<not> (length text = 0 \<or> length text > MaxExecutionHandleBytes \<or> \<not> json_valid text)"

definition WriteTeamExecution :: "string \<Rightarrow> string \<Rightarrow> ExplorationHandle \<Rightarrow> unit team_step" where
  "WriteTeamExecution i turnID h = next_step (validateID_store ''team'' i) (\<lambda>_.
     next_step (validateID_store ''turn'' turnID) (\<lambda>_.
     next_step (team_require (TeamInvalid ''team execution handle'') (valid_execution (json_exploration_handle h))) (\<lambda>_.
     team_durable i (\<lambda>f. f\<lparr>tf_executions := AList.update turnID h (tf_executions f)\<rparr>))))"

definition ReadTeamExecution :: "string \<Rightarrow> string \<Rightarrow> ExplorationHandle team_step" where
  "ReadTeamExecution i turnID = next_step (validateID_store ''team'' i) (\<lambda>_.
     next_step (validateID_store ''turn'' turnID) (\<lambda>_.
     next_step (team_look i ''execution.json'' (\<lambda>f. map_of (tf_executions f) turnID)) (\<lambda>h.
     next_step (team_require (TeamInvalid ''persisted team execution handle'')
       (valid_execution (json_indent 0 False False False (json_exploration_handle h)))) (\<lambda>_.
     ret (h\<lparr>xh_data := raw_file 1 (xh_data h)\<rparr>)))))"

subsection \<open>Logs\<close>

text \<open>
  The scanner of both functions has a buffer of \<open>MaxHandoffBytes\<close>: a line that does not
  fit with its line feed ends the scan with an error.
\<close>

fun scanTeamLog :: "('i \<Rightarrow> string) \<Rightarrow> ('i \<Rightarrow> string + nat) \<Rightarrow> nat \<Rightarrow> nat \<Rightarrow> nat \<Rightarrow> 'i list \<Rightarrow> TeamError + nat \<times> nat \<times> nat"
where
  "scanTeamLog encode parse seq lines bytesUsed [] = Inr (seq, lines, bytesUsed)"
| "scanTeamLog encode parse seq lines bytesUsed (v # vs) =
     (if length (encode v) \<ge> MaxHandoffBytes then Inl TeamLineTooLong
      else case parse v of Inl e \<Rightarrow> Inl (TeamInvalid e) | Inr sequence \<Rightarrow>
        if sequence \<noteq> seq + 1 then Inl TeamSequence
        else scanTeamLog encode parse sequence (lines + 1) (bytesUsed + length (encode v) + 1) vs)"

fun readTeamLog :: "('i \<Rightarrow> string) \<Rightarrow> (nat \<Rightarrow> 'i \<Rightarrow> TeamError + unit) \<Rightarrow> nat \<Rightarrow> 'i list \<Rightarrow> TeamError + unit" where
  "readTeamLog encode vis expected [] = Inr ()"
| "readTeamLog encode vis expected (v # vs) =
     (if length (encode v) \<ge> MaxHandoffBytes then Inl TeamLineTooLong
      else case vis expected v of Inl e \<Rightarrow> Inl e | Inr _ \<Rightarrow> readTeamLog encode vis (expected + 1) vs)"

definition appendTeamRecordWithQuota ::
  "string \<Rightarrow> (TeamFiles \<Rightarrow> 'i list) \<Rightarrow> ('i \<Rightarrow> TeamFiles \<Rightarrow> TeamFiles) \<Rightarrow> ('i \<Rightarrow> string) \<Rightarrow> ('i \<Rightarrow> string + nat)
     \<Rightarrow> nat \<Rightarrow> nat \<Rightarrow> nat \<Rightarrow> 'i \<Rightarrow> unit team_step" where
  "appendTeamRecordWithQuota i log app encode parse sequence maxRecords maxBytes v =
     next_step (team_get i log) (\<lambda>records.
     next_step (check id (scanTeamLog encode parse 0 0 0 records)) (\<lambda>(seq, lines, bytesUsed).
     if sequence \<noteq> seq + 1 then fail TeamSequence
     else if maxRecords > 0 \<and> lines \<ge> maxRecords then fail (TeamQuota ''records'')
     else if maxBytes > 0 \<and> bytesUsed + length (encode v) + 1 > maxBytes then fail (TeamQuota ''bytes'')
     else team_durable i (app v)))"

definition parse_event :: "TeamEventV1 \<Rightarrow> string + nat" where
  "parse_event v = (case ValidateEvent v of Inl e \<Rightarrow> Inl e | Inr _ \<Rightarrow> Inr (te_sequence v))"

definition parse_message :: "TeamMessageV1 \<Rightarrow> string + nat" where
  "parse_message v = (case ValidateMessage v of Inl e \<Rightarrow> Inl e | Inr _ \<Rightarrow> Inr (tm_sequence v))"

definition AppendTeamEvent :: "TeamAccess \<Rightarrow> TeamEventV1 \<Rightarrow> unit team_step" where
  "AppendTeamEvent tx v = next_step (check TeamInvalid (ValidateEvent v)) (\<lambda>_.
     appendTeamRecordWithQuota (te_team_id v) tf_events (\<lambda>v f. f\<lparr>tf_events := tf_events f @ [v]\<rparr>)
       (json_team_event (tx_format tx)) parse_event (te_sequence v) 0 0 v)"

definition AppendTeamMessage :: "TeamAccess \<Rightarrow> TeamMessageV1 \<Rightarrow> unit team_step" where
  "AppendTeamMessage tx v = next_step (check TeamInvalid (ValidateMessage v)) (\<lambda>_.
     appendTeamRecordWithQuota (tm_team_id v) tf_messages (\<lambda>v f. f\<lparr>tf_messages := tf_messages f @ [v]\<rparr>)
       (json_message (tx_format tx)) parse_message (tm_sequence v) MaxRetainedMessages MaxRetainedMessageBytes v)"

definition visit_event :: "string \<Rightarrow> nat \<Rightarrow> TeamEventV1 \<Rightarrow> TeamError + unit" where
  "visit_event i expected v =
     (if te_team_id v \<noteq> i \<or> te_sequence v \<noteq> expected then Inl TeamSequence else wrap_err TeamInvalid (ValidateEvent v))"

definition visit_message :: "string \<Rightarrow> nat \<Rightarrow> TeamMessageV1 \<Rightarrow> TeamError + unit" where
  "visit_message i expected v =
     (if tm_team_id v \<noteq> i \<or> tm_sequence v \<noteq> expected then Inl TeamSequence else wrap_err TeamInvalid (ValidateMessage v))"

definition ReadTeamEvents :: "TeamAccess \<Rightarrow> string \<Rightarrow> TeamEventV1 list team_step" where
  "ReadTeamEvents tx i = next_step (validateID_store ''team'' i) (\<lambda>_. next_step (team_get i tf_events) (\<lambda>vs.
     next_step (check id (readTeamLog (json_team_event (tx_format tx)) (visit_event i) 1 vs)) (\<lambda>_. ret vs)))"

definition ReadTeamMessages :: "TeamAccess \<Rightarrow> string \<Rightarrow> TeamMessageV1 list team_step" where
  "ReadTeamMessages tx i = next_step (validateID_store ''team'' i) (\<lambda>_. next_step (team_get i tf_messages) (\<lambda>vs.
     next_step (check id (readTeamLog (json_message (tx_format tx)) (visit_message i) 1 vs)) (\<lambda>_. ret vs)))"


subsection \<open>Handoffs and their bindings\<close>

definition WriteTeamHandoff :: "TeamAccess \<Rightarrow> HandoffArtifactV1 \<Rightarrow> unit team_step" where
  "WriteTeamHandoff tx v = next_step (check TeamInvalid (ValidateHandoff (tx_format tx) v)) (\<lambda>_.
     next_step (team_get (ho_team_id v) (\<lambda>f. map_of (tf_handoffs f) (ho_id v))) (\<lambda>existing.
     case existing of
       Some w \<Rightarrow> if w \<noteq> v then fail (TeamMismatch ''handoff'') else ret ()
     | None \<Rightarrow> team_durable (ho_team_id v) (\<lambda>f. f\<lparr>tf_handoffs := AList.update (ho_id v) v (tf_handoffs f)\<rparr>)))"

definition ReadTeamHandoff :: "TeamAccess \<Rightarrow> string \<Rightarrow> string \<Rightarrow> HandoffArtifactV1 team_step" where
  "ReadTeamHandoff tx i handoffID = next_step (validateID_store ''team'' i) (\<lambda>_.
     next_step (validateID_store ''handoff'' handoffID) (\<lambda>_.
     next_step (read_contract i handoffID (json_handoff (tx_format tx)) (\<lambda>f. map_of (tf_handoffs f) handoffID)
       MaxHandoffBytes) (\<lambda>v.
     next_step (team_require (TeamIdentity ''handoff'') (ho_team_id v = i \<and> ho_id v = handoffID)) (\<lambda>_.
     next_step (check TeamInvalid (ValidateHandoff (tx_format tx) v)) (\<lambda>_. ret v)))))"

definition ListTeamHandoffIDs :: "string \<Rightarrow> string list team_step" where
  "ListTeamHandoffIDs i = next_step (validateID_store ''team'' i) (\<lambda>_.
     team_get i (\<lambda>f. sort_strings (filter safeID (map fst (tf_handoffs f)))))"

definition json_binding :: "(int \<Rightarrow> string) \<Rightarrow> HandoffBindingV1 \<Rightarrow> string" where
  "json_binding fmt v = json_object
     [(''teamId'', json_string (hb_team_id v)), (''handoffId'', json_string (hb_handoff_id v)),
      (''runId'', json_string (hb_run_id v)), (''project'', json_string (hb_project v)),
      (''boundAt'', json_string (fmt (hb_bound_at v)))]"

definition json_bindings :: "(int \<Rightarrow> string) \<Rightarrow> HandoffBindingV1 list \<Rightarrow> string" where
  "json_bindings fmt vs = json_object
     [(''schemaVersion'', json_string TeamSchemaVersion), (''items'', json_array (map (json_binding fmt) vs))]"

fun check_bindings :: "string \<Rightarrow> string list \<Rightarrow> HandoffBindingV1 list \<Rightarrow> TeamError + unit" where
  "check_bindings i seen [] = Inr ()"
| "check_bindings i seen (b # bs) =
     (case ValidateHandoffBinding b of Inl e \<Rightarrow> Inl (TeamInvalid e) | Inr _ \<Rightarrow>
      if hb_team_id b \<noteq> i then Inl (TeamIdentity ''binding'')
      else if hb_handoff_id b \<in> set seen then Inl (TeamMismatch ''duplicate binding'')
      else check_bindings i (hb_handoff_id b # seen) bs)"

definition ReadTeamBindings :: "TeamAccess \<Rightarrow> string \<Rightarrow> HandoffBindingV1 list team_step" where
  "ReadTeamBindings tx i = next_step (validateID_store ''team'' i) (\<lambda>_.
     next_step (team_get i tf_bindings) (\<lambda>stored.
     case stored of None \<Rightarrow> ret [] | Some _ \<Rightarrow>
     next_step (read_contract i ''handoff-bindings.json'' (json_bindings (tx_format tx)) tf_bindings MaxRetainedMessageBytes)
       (\<lambda>bindings.
     if length bindings > MaxMutationReceipts then fail (TeamQuota ''bindings'')
     else next_step (check id (check_bindings i [] bindings)) (\<lambda>_. ret bindings))))"

definition ReadTeamBinding :: "TeamAccess \<Rightarrow> string \<Rightarrow> string \<Rightarrow> HandoffBindingV1 team_step" where
  "ReadTeamBinding tx i handoffID = next_step (validateID_store ''team'' i) (\<lambda>_.
     next_step (validateID_store ''handoff'' handoffID) (\<lambda>_.
     next_step (ReadTeamBindings tx i) (\<lambda>bindings.
     case List.find (\<lambda>b. hb_handoff_id b = handoffID) bindings of
       Some b \<Rightarrow> ret b | None \<Rightarrow> fail (TeamMissing handoffID))))"

definition WriteTeamBinding :: "TeamAccess \<Rightarrow> HandoffBindingV1 \<Rightarrow> unit team_step" where
  "WriteTeamBinding tx v = next_step (check TeamInvalid (ValidateHandoffBinding v)) (\<lambda>_.
     next_step (ReadTeamBindings tx (hb_team_id v)) (\<lambda>bindings.
     case List.find (\<lambda>b. hb_handoff_id b = hb_handoff_id v) bindings of
       Some b \<Rightarrow> if b = v then ret () else fail (TeamMismatch ''binding'')
     | None \<Rightarrow>
         if length (bindings @ [v]) > MaxMutationReceipts then fail (TeamQuota ''bindings'')
         else let collection = sort_by (\<lambda>a b. hb_handoff_id a < hb_handoff_id b) (bindings @ [v]) in
           if length (json_bindings (tx_format tx) collection) > MaxRetainedMessageBytes then fail (TeamQuota ''bytes'')
           else team_durable (hb_team_id v) (\<lambda>f. f\<lparr>tf_bindings := Some collection\<rparr>)))"

subsection \<open>Intents of actions\<close>

text \<open>The file of an intent is named by the digest of its ID; the map is keyed by the ID.\<close>

definition json_action_tc :: "TeamActionV1 \<Rightarrow> string" where
  "json_action_tc v = json_object
     ([(''schemaVersion'', json_string (ta_schema_version v)), (''actionId'', json_string (ta_action_id v)),
       (''teamId'', json_string (ta_team_id v)), (''expectedStateVersion'', show_nat (ta_expected_version v)),
       (''type'', json_string (ta_type v))]
      @ (case ta_follow_up v of None \<Rightarrow> [] | Some f \<Rightarrow> [(''followUp'', json_object
           ([(''content'', json_string (fu_content f)), (''participantIds'', json_array (map json_string (fu_participants f)))]
            @ omit_empty_list ''referencedMessageIds'' (fu_references f)))])
      @ (case ta_cancel_turn v of None \<Rightarrow> [] | Some turn \<Rightarrow> [(''cancelTurn'', json_object [(''turnId'', json_string turn)])])
      @ (case ta_close v of None \<Rightarrow> [] | Some reason \<Rightarrow> [(''close'', json_object [(''reason'', json_string reason)])]))"

definition json_response_tc :: "TeamActionResponseV1 \<Rightarrow> string" where
  "json_response_tc v = json_object
     [(''schemaVersion'', json_string (ar_schema_version v)), (''actionId'', json_string (ar_action_id v)),
      (''teamId'', json_string (ar_team_id v)), (''type'', json_string (ar_type v)),
      (''stateVersion'', show_nat (ar_state_version v)), (''state'', json_string (ar_state v)),
      (''replayed'', json_bool (ar_replayed v))]"

definition json_intent :: "actionIntentV1 \<Rightarrow> string" where
  "json_intent v = json_object
     ([(''schemaVersion'', json_string (in_schema_version v)), (''requestHash'', json_string (in_request_hash v)),
       (''action'', json_action_tc (in_action v))]
      @ (case in_response v of None \<Rightarrow> [] | Some r \<Rightarrow> [(''response'', json_response_tc r)]))"

definition WriteTeamActionIntent :: "string \<Rightarrow> string \<Rightarrow> actionIntentV1 \<Rightarrow> unit team_step" where
  "WriteTeamActionIntent i actionID v = next_step (validateID_store ''team'' i) (\<lambda>_.
     next_step (validateID_store ''action'' actionID) (\<lambda>_.
     team_durable i (\<lambda>f. f\<lparr>tf_intents := AList.update actionID v (tf_intents f)\<rparr>)))"

definition ReadTeamActionIntent :: "string \<Rightarrow> string \<Rightarrow> actionIntentV1 team_step" where
  "ReadTeamActionIntent i actionID = next_step (validateID_store ''team'' i) (\<lambda>_.
     next_step (validateID_store ''action'' actionID) (\<lambda>_.
     read_contract i ''action-intents'' json_intent (\<lambda>f. map_of (tf_intents f) actionID) MaxHandoffBytes))"

definition intent_count :: "nat \<Rightarrow> nat team_step" where
  "intent_count n = (if n > MaxMutationReceipts then fail (TeamQuota ''intents'') else ret n)"

definition TeamMutationIntentCount :: "string \<Rightarrow> nat team_step" where
  "TeamMutationIntentCount i = next_step (validateID_store ''team'' i) (\<lambda>_.
     next_step (team_get i id) (\<lambda>f.
     next_step (intent_count (length (tf_intents f))) (\<lambda>a.
     next_step (intent_count (tf_handoff_intents f)) (\<lambda>b.
     next_step (intent_count (tf_binding_intents f)) (\<lambda>c. ret (a + b + c))))))"

end
