(* ===== verification/Team_Panel.thy ===== *)
theory Team_Panel
  imports Team_Store Routing_Catalog
begin

section \<open>The Team service in panel mode (internal/team/service.go, public.go)\<close>

text \<open>
  The parts of the service that it runs under its mutex, one definition each, and the
  request it builds for a driver. What a driver answers is an argument. The turns of a
  panel are one per participant; the errors of \<^verbatim>\<open>markTurnFailureLocked\<close> are dropped
  where the code drops them. Cancellation of a \<^verbatim>\<open>context\<close> and the sessions' mode are
  not modelled.
\<close>

record TeamService =
  sv_access :: TeamAccess
  sv_catalog :: CapabilityCatalogV1
  sv_catalogs :: "(string, CapabilityCatalogV1) gomap"
  sv_drivers :: "string list"
  sv_sessions :: "(string, string list) gomap"

subsection \<open>Starting a team\<close>

definition supportsSessionParticipants :: "TeamService \<Rightarrow> ParticipantV1 list \<Rightarrow> bool" where
  "supportsSessionParticipants svc ps \<longleftrightarrow> list_all (\<lambda>p.
     case map_of (sv_sessions svc) (pt_driver p) of None \<Rightarrow> False | Some targets \<Rightarrow> pt_target p \<in> set targets) ps"

definition defaultParticipantModels :: "CapabilityCatalogV1 \<Rightarrow> string list" where
  "defaultParticipantModels catalog =
     (let ids = map mc_id (cat_models catalog);
          selected = filter (\<lambda>i. i \<in> set ids) [''codex/architect/gpt-5.6-sol'', ''codex/reviewer/gpt-5.6-sol'']
      in if length selected = MinParticipants then selected else take MinParticipants ids)"

fun participants_of ::
  "CapabilityCatalogV1 \<Rightarrow> nat \<Rightarrow> string list \<Rightarrow> ParticipantSpecV1 list \<Rightarrow> TeamError + ParticipantV1 list" where
  "participants_of catalog index seen [] = Inr []"
| "participants_of catalog index seen (spec # specs) =
     (case List.find (\<lambda>m. mc_id m = sp_model_id spec) (cat_models catalog) of
        None \<Rightarrow> Inl (ErrInvalidArgument ''participant model is absent from trusted catalog'')
      | Some m \<Rightarrow>
          if mc_id m \<in> set seen then Inl (ErrInvalidArgument ''participant model is duplicated'')
          else case participants_of catalog (index + 1) (mc_id m # seen) specs of Inl e \<Rightarrow> Inl e | Inr ps \<Rightarrow>
            Inr (\<lparr>pt_id = ''participant-'' @ show_nat (index + 1), pt_label = sp_label spec, pt_role = sp_role spec,
                  pt_model_id = mc_id m, pt_driver = tgt_driver (mc_target m), pt_target = tgt_provider (mc_target m),
                  pt_state = ParticipantPending, pt_current_turn = ''''\<rparr> # ps))"

definition normalizeStart ::
  "TeamService \<Rightarrow> TeamStartRequestV1 \<Rightarrow> string \<Rightarrow> TeamError + TeamStartRequestV1 \<times> ParticipantV1 list \<times> string" where
  "normalizeStart svc request project =
     (let catalog = CanonicalCatalogV1 (sv_catalog svc) in
      case ValidateCatalog catalog of Inl e \<Rightarrow> Inl (TeamRoute e) | Inr _ \<Rightarrow>
      case CatalogHash (tx_hash (sv_access svc)) catalog of Inl e \<Rightarrow> Inl (TeamRoute e) | Inr catalogHash \<Rightarrow>
      let grant = (if sr_cost_grant request = 0 then DefaultCostGrant else sr_cost_grant request);
          defaults = defaultParticipantModels catalog
      in if length (sr_participants request) = 0 \<and> length defaults < MinParticipants then Inl ErrCapabilityUnavailable
      else let specs = (if length (sr_participants request) = 0
          then [\<lparr>sp_label = ''architect'', sp_role = ''propose a coherent architecture and tradeoffs'', sp_model_id = defaults ! 0\<rparr>,
                \<lparr>sp_label = ''reviewer'', sp_role = ''challenge assumptions and identify failure modes'', sp_model_id = defaults ! 1\<rparr>]
          else sr_participants request)
        in case participants_of catalog 0 [] specs of Inl e \<Rightarrow> Inl e | Inr ps \<Rightarrow>
          Inr (request\<lparr>sr_project := project, sr_cost_grant := grant, sr_participants := specs\<rparr>, ps, catalogHash))"

definition participantCost :: "TeamService \<Rightarrow> ParticipantV1 list \<Rightarrow> string \<Rightarrow> int" where
  "participantCost svc ps catalogHash =
     (case map_of (sv_catalogs svc) catalogHash of
        None \<Rightarrow> MaxCostGrant + 1
      | Some catalog \<Rightarrow>
          let costs = concat (map (\<lambda>p. map (\<lambda>m. CostUnitsForTarget catalog (mc_target m))
                (filter (\<lambda>m. mc_id m = pt_model_id p) (cat_models catalog))) ps)
          in if list_ex (\<lambda>c. case c of Inl _ \<Rightarrow> True | Inr _ \<Rightarrow> False) costs then MaxCostGrant + 1
             else sum_list (map (\<lambda>c. case c of Inl _ \<Rightarrow> 0 | Inr k \<Rightarrow> k) costs))"

fun write_participants :: "string \<Rightarrow> ParticipantV1 list \<Rightarrow> unit team_step" where
  "write_participants i [] = ret ()"
| "write_participants i (p # ps) = next_step (WriteTeamParticipant p i) (\<lambda>_. write_participants i ps)"

definition repairPreparedTeamLocked :: "TeamAccess \<Rightarrow> TeamSessionV1 \<Rightarrow> unit team_step" where
  "repairPreparedTeamLocked tx snapshot =
     (let i = ts_team_id snapshot in
      next_step (InitTeam i) (\<lambda>_.
      next_step (write_participants i (ts_participants snapshot)) (\<lambda>_.
      next_step (ReadTeamEvents tx i) (\<lambda>events.
      case events of
        [] \<Rightarrow> AppendTeamEvent tx \<lparr>te_schema_version = TeamSchemaVersion, te_team_id = i, te_sequence = 1,
               te_type = EventTeamCreated, te_state_version = ts_state_version snapshot, te_message_id = '''',
               te_turn_id = '''', te_summary = ''team prepared'', te_created_at = ts_created_at snapshot\<rparr>
      | e # _ \<Rightarrow> if te_type e \<noteq> EventTeamCreated then fail (TeamJournal i) else ret ()))))"

text \<open>The teams that already exist, in the order of their IDs, up to the one of the request.\<close>

fun find_request :: "TeamAccess \<Rightarrow> string \<Rightarrow> string list \<Rightarrow> TeamSessionV1 option team_step" where
  "find_request tx clientRequestID [] = ret None"
| "find_request tx clientRequestID (i # ids) = next_step (ReadTeamSnapshot tx i) (\<lambda>existing.
     if ts_client_request_id existing \<noteq> clientRequestID then find_request tx clientRequestID ids else ret (Some existing))"

definition create_team ::
  "TeamService \<Rightarrow> string \<Rightarrow> TeamStartRequestV1 \<Rightarrow> string \<Rightarrow> string \<Rightarrow> ParticipantV1 list \<Rightarrow> string \<Rightarrow> TeamSessionV1 team_step" where
  "create_team svc fresh normalized project requestHash ps catalogHash = next_step team_now (\<lambda>now.
     let cost = participantCost svc ps catalogHash;
         snapshot = \<lparr>ts_schema_version = TeamSchemaVersion, ts_team_id = fresh,
           ts_client_request_id = sr_client_request_id normalized, ts_request_hash = requestHash, ts_project = project,
           ts_mode = sr_mode normalized, ts_topic = sr_topic normalized, ts_instructions = sr_instructions normalized,
           ts_catalog_hash = catalogHash, ts_participants = ps, ts_state = LifecycleCreated, ts_state_version = 1,
           ts_cost_grant = sr_cost_grant normalized, ts_cost_used = cost, ts_close_reason = '''', ts_created_at = now,
           ts_updated_at = now\<rparr>
     in if cost > sr_cost_grant normalized then fail ErrQuotaExceeded
        else next_step (InitTeam fresh) (\<lambda>_.
             next_step (EnsureTeamSnapshot snapshot) (\<lambda>_.
             next_step (repairPreparedTeamLocked (sv_access svc) snapshot) (\<lambda>_. ret snapshot))))"

text \<open>\<open>fresh\<close> is the random ID. The result is the team and whether it was replayed.\<close>

definition Start :: "TeamService \<Rightarrow> string \<Rightarrow> TeamStartRequestV1 \<Rightarrow> (TeamSessionV1 \<times> bool) team_step" where
  "Start svc fresh request = next_step (check TeamInvalid (ValidateStartRequest_tc request)) (\<lambda>_.
     if sr_mode request \<noteq> ModePanel \<and> sr_mode request \<noteq> ModeSession then fail ErrCapabilityUnavailable
     else case tx_project (sv_access svc) (sr_project request) of
       None \<Rightarrow> fail (ErrInvalidArgument ''project'')
     | Some project \<Rightarrow>
         next_step (check id (normalizeStart svc request project)) (\<lambda>(normalized, ps, catalogHash).
         if sr_mode request = ModeSession \<and> \<not> supportsSessionParticipants svc ps then fail ErrCapabilityUnavailable
         else let requestHash = tx_sha (sv_access svc) (json_start_request normalized) in
           next_step ListTeamIDs (\<lambda>ids.
           next_step (find_request (sv_access svc) (sr_client_request_id request) ids) (\<lambda>found.
           case found of
             Some existing \<Rightarrow>
               if ts_request_hash existing \<noteq> requestHash then fail ErrConflict
               else next_step (repairPreparedTeamLocked (sv_access svc) existing) (\<lambda>_. ret (existing, True))
           | None \<Rightarrow> next_step (create_team svc fresh normalized project requestHash ps catalogHash)
               (\<lambda>snapshot. ret (snapshot, False))))))"

subsection \<open>Events and failures\<close>

text \<open>Bytes are cut off until what is left is valid UTF-8.\<close>

function cut_invalid :: "string \<Rightarrow> string" where
  "cut_invalid s = (if valid_utf8 s then s else cut_invalid (butlast s))"
  by pat_completeness auto
termination
proof (relation "measure length", simp)
  fix s :: string assume "\<not> valid_utf8 s"
  then have "s \<noteq> []" by (auto simp: valid_utf8_def)
  then show "(butlast s, s) \<in> measure length" by (simp add: length_butlast)
qed

declare cut_invalid.simps [simp del]

definition boundedDiagnostic :: "string \<Rightarrow> string" where
  "boundedDiagnostic value =
     (if length value > MaxWarningBytes then cut_invalid (take MaxWarningBytes value) else value)"

definition appendTeamEventLocked :: "TeamAccess \<Rightarrow> TeamSessionV1 \<Rightarrow> string \<Rightarrow> string \<Rightarrow> string \<Rightarrow> string \<Rightarrow> unit team_step" where
  "appendTeamEventLocked tx snapshot eventType summary messageID turnID =
     next_step (ReadTeamEvents tx (ts_team_id snapshot)) (\<lambda>events.
     if list_ex (\<lambda>e. te_type e = eventType \<and> te_turn_id e = turnID \<and> te_message_id e = messageID) events then ret ()
     else next_step team_now (\<lambda>now.
       AppendTeamEvent tx \<lparr>te_schema_version = TeamSchemaVersion, te_team_id = ts_team_id snapshot,
         te_sequence = length events + 1, te_type = eventType, te_state_version = ts_state_version snapshot,
         te_message_id = messageID, te_turn_id = turnID, te_summary = boundedDiagnostic summary, te_created_at = now\<rparr>))"

definition appendTeamEventLockedFromTurn :: "TeamAccess \<Rightarrow> string \<Rightarrow> ParticipantTurnV1 \<Rightarrow> string \<Rightarrow> string \<Rightarrow> unit team_step" where
  "appendTeamEventLockedFromTurn tx i turn eventType summary = next_step (ReadTeamSnapshot tx i) (\<lambda>snapshot.
     appendTeamEventLocked tx snapshot eventType summary (tu_contribution turn) (tu_id turn))"

definition settleTerminalRound :: "TeamSessionV1 \<Rightarrow> bool \<Rightarrow> TeamSessionV1 \<times> bool \<times> string" where
  "settleTerminalRound snapshot allTerminal =
     (if \<not> allTerminal then (snapshot, False, '''')
      else if ts_mode snapshot = ModePanel
      then (snapshot\<lparr>ts_state := LifecycleClosed, ts_close_reason := ClosePanelSettled\<rparr>, True, ''panel settled'')
      else if ts_state snapshot = LifecycleClosing then (snapshot, False, '''')
      else if ts_state snapshot \<noteq> LifecycleCancelling
      then (snapshot\<lparr>ts_state := LifecycleOpen, ts_close_reason := ''''\<rparr>, False, '''')
      else (snapshot, False, ''''))"

definition unsettled :: "ParticipantV1 \<Rightarrow> bool" where
  "unsettled p \<longleftrightarrow> pt_state p = ParticipantPending \<or> pt_state p = ParticipantRunning"

text \<open>The participants whose entry \<open>change\<close> rewrites, each written to its file.\<close>

fun update_participants ::
  "string \<Rightarrow> (ParticipantV1 \<Rightarrow> bool) \<Rightarrow> (ParticipantV1 \<Rightarrow> ParticipantV1) \<Rightarrow> ParticipantV1 list \<Rightarrow> ParticipantV1 list team_step" where
  "update_participants i which change [] = ret []"
| "update_participants i which change (p # ps) =
     (if which p
      then next_step (WriteTeamParticipant (change p) i) (\<lambda>_.
           next_step (update_participants i which change ps) (\<lambda>qs. ret (change p # qs)))
      else next_step (update_participants i which change ps) (\<lambda>qs. ret (p # qs)))"

text \<open>What both ends of a turn do once the turn is written.\<close>

definition settle_turn :: "TeamAccess \<Rightarrow> string \<Rightarrow> ParticipantTurnV1 \<Rightarrow> (ParticipantV1 \<Rightarrow> ParticipantV1) \<Rightarrow> string \<Rightarrow> unit team_step" where
  "settle_turn tx i turn change summary = next_step (ReadTeamSnapshot tx i) (\<lambda>snapshot.
     next_step (update_participants i (\<lambda>p. pt_id p = tu_participant_id turn) change (ts_participants snapshot)) (\<lambda>ps.
     next_step team_now (\<lambda>now.
     let (settled, closed, closeSummary) = settleTerminalRound
           (snapshot\<lparr>ts_participants := ps, ts_state_version := ts_state_version snapshot + 1, ts_updated_at := now\<rparr>)
           (\<not> list_ex unsettled ps)
     in next_step (WriteTeamSnapshot settled) (\<lambda>_.
        next_step (appendTeamEventLockedFromTurn tx i turn EventParticipantEvent summary) (\<lambda>_.
        if closed then appendTeamEventLocked tx settled EventTeamClosed closeSummary '''' '''' else ret ())))))"

definition failed_participant :: "string \<Rightarrow> string" where
  "failed_participant state =
     (if state = TurnCancelled then ParticipantCancelled
      else if state = TurnIndeterminate then ParticipantIndeterminate else ParticipantFailed)"

definition markTurnFailureLocked :: "TeamAccess \<Rightarrow> string \<Rightarrow> string \<Rightarrow> string \<Rightarrow> string \<Rightarrow> unit team_step" where
  "markTurnFailureLocked tx i turnID state diagnostic = next_step (ReadTeamTurn tx i turnID) (\<lambda>current.
     if tu_state current \<notin> set [TurnPrepared, TurnDispatching, TurnActive] then ret ()
     else next_step team_now (\<lambda>now.
       let turn = current\<lparr>tu_state := state, tu_diagnostic := boundedDiagnostic diagnostic, tu_updated_at := now\<rparr>
       in next_step (WriteTeamTurn turn) (\<lambda>_.
          settle_turn tx i turn (\<lambda>p. p\<lparr>pt_state := failed_participant state\<rparr>) (tu_diagnostic turn))))"

end
