(* ===== verification/Team_Dispatch.thy ===== *)
theory Team_Dispatch
  imports Team_Panel
begin

section \<open>The turns of a panel and its cancellation (internal/team/service.go, public.go)\<close>

text \<open>
  \<^verbatim>\<open>DispatchInitial\<close> prepares the turns and starts one goroutine per turn;
  \<^verbatim>\<open>dispatchTurn\<close>, \<^verbatim>\<open>observeTurn\<close> and \<^verbatim>\<open>commitContribution\<close>
  are cut at the places where they leave the mutex and wait for a driver. \<open>TurnNext\<close> says
  where a goroutine goes on.
\<close>

subsection \<open>Preparing the turns\<close>

definition prepare_turn ::
  "TeamAccess \<Rightarrow> CapabilityCatalogV1 \<Rightarrow> int \<Rightarrow> TeamSessionV1 \<Rightarrow> int \<Rightarrow> ParticipantV1 \<Rightarrow> (ParticipantV1 \<times> int) team_step" where
  "prepare_turn tx catalog now snapshot cumulative p =
     (case List.find (\<lambda>m. mc_id m = pt_model_id p) (cat_models catalog) of
        None \<Rightarrow> fail (TeamModelAbsent (pt_model_id p))
      | Some m \<Rightarrow> next_step (check TeamRoute (CostUnitsForTarget catalog (mc_target m))) (\<lambda>cost.
          let i = ts_team_id snapshot; turnID = ''turn-'' @ pt_id p @ ''-1'';
              q = p\<lparr>pt_current_turn := turnID, pt_state := ParticipantRunning\<rparr>
          in next_step (WriteTeamTurn \<lparr>tu_schema_version = TeamSchemaVersion, tu_team_id = i, tu_participant_id = pt_id p,
               tu_id = turnID, tu_number = 1, tu_state = TurnPrepared, tu_driver = pt_driver p, tu_target = pt_target p,
               tu_model_id = pt_model_id p,
               tu_usage = \<lparr>tus_target = pt_target p, tus_catalog_hash = ts_catalog_hash snapshot, tus_cost = cost,
                 tus_cumulative = cumulative + cost, tus_estimate = None\<rparr>,
               tu_handle = '''', tu_contribution = '''', tu_diagnostic = '''', tu_created_at = now, tu_updated_at = now,
               tu_completed_at = None\<rparr>) (\<lambda>_.
             next_step (WriteTeamParticipant q i) (\<lambda>_.
             next_step (appendTeamEventLocked tx snapshot EventParticipantPrepared ''turn prepared'' '''' turnID) (\<lambda>_.
             ret (q, cumulative + cost))))))"

fun prepare_turns ::
  "TeamAccess \<Rightarrow> CapabilityCatalogV1 \<Rightarrow> int \<Rightarrow> TeamSessionV1 \<Rightarrow> int \<Rightarrow> ParticipantV1 list \<Rightarrow> (ParticipantV1 list \<times> bool) team_step" where
  "prepare_turns tx catalog now snapshot cumulative [] = ret ([], False)"
| "prepare_turns tx catalog now snapshot cumulative (p # ps) =
     (if pt_current_turn p \<noteq> ''''
      then next_step (ReadTeamTurn tx (ts_team_id snapshot) (pt_current_turn p)) (\<lambda>existing.
           next_step (prepare_turns tx catalog now snapshot (tus_cumulative (tu_usage existing)) ps) (\<lambda>(qs, changed).
           ret (p # qs, changed)))
      else next_step (prepare_turn tx catalog now snapshot cumulative p) (\<lambda>(q, total).
           next_step (prepare_turns tx catalog now snapshot total ps) (\<lambda>(qs, changed). ret (q # qs, True))))"

definition prepareInitialTurnsLocked :: "TeamService \<Rightarrow> string \<Rightarrow> TeamSessionV1 team_step" where
  "prepareInitialTurnsLocked svc i = next_step (ReadTeamSnapshot (sv_access svc) i) (\<lambda>snapshot.
     if ts_state snapshot = LifecycleClosed then ret snapshot
     else case map_of (sv_catalogs svc) (ts_catalog_hash snapshot) of
       None \<Rightarrow> fail (TeamCatalogUnavailable (ts_catalog_hash snapshot))
     | Some catalog \<Rightarrow> next_step team_now (\<lambda>now.
         next_step (prepare_turns (sv_access svc) catalog now snapshot 0 (ts_participants snapshot)) (\<lambda>(ps, changed).
         if \<not> changed then ret snapshot
         else let prepared = snapshot\<lparr>ts_participants := ps, ts_state := LifecycleRunning,
                ts_state_version := ts_state_version snapshot + 1, ts_updated_at := now\<rparr>
              in next_step (WriteTeamSnapshot prepared) (\<lambda>_. ret prepared))))"

subsection \<open>One turn\<close>

datatype TurnNext = Finished | Launch ParticipantTurnV1 | Observe ParticipantTurnV1 ExplorationHandle | CancelLate ExplorationHandle

text \<open>The error of the failed turn's bookkeeping is dropped, its cause is returned.\<close>

definition fail_turn :: "TeamAccess \<Rightarrow> string \<Rightarrow> string \<Rightarrow> string \<Rightarrow> string \<Rightarrow> TeamError \<Rightarrow> 'a team_step" where
  "fail_turn tx i turnID state diagnostic cause =
     next_step (ignore_error (markTurnFailureLocked tx i turnID state diagnostic)) (\<lambda>_. fail cause)"

text \<open>\<^verbatim>\<open>dispatchTurn\<close> up to the launch.\<close>

definition dispatch_begin :: "TeamService \<Rightarrow> string \<Rightarrow> string \<Rightarrow> TurnNext team_step" where
  "dispatch_begin svc i turnID = (let tx = sv_access svc in next_step (ReadTeamTurn tx i turnID) (\<lambda>turn.
     if tu_driver turn \<notin> set (sv_drivers svc)
     then fail_turn tx i turnID TurnFailed ''exploration driver is unavailable'' ErrCapabilityUnavailable
     else if tu_state turn = TurnActive
     then next_step (attempt (ReadTeamExecution i turnID)) (\<lambda>handle.
       case handle of
         Inl e \<Rightarrow> fail_turn tx i turnID TurnIndeterminate ''active turn handle is unavailable'' e
       | Inr h \<Rightarrow> ret (Observe turn h))
     else if tu_state turn = TurnDispatching
     then next_step (ignore_error (markTurnFailureLocked tx i turnID TurnIndeterminate
            ''dispatching turn has no confirmed execution handle'')) (\<lambda>_. ret Finished)
     else if tu_state turn \<noteq> TurnPrepared then ret Finished
     else next_step team_now (\<lambda>now.
       let dispatching = turn\<lparr>tu_state := TurnDispatching, tu_updated_at := now\<rparr> in
       next_step (WriteTeamTurn dispatching) (\<lambda>_.
       next_step (appendTeamEventLockedFromTurn tx i dispatching EventParticipantEvent ''turn dispatching'') (\<lambda>_.
       ret (Launch dispatching))))))"

text \<open>The request for the driver. What it reads of the snapshot never changes.\<close>

definition turnPrompt :: "TeamAccess \<Rightarrow> string \<Rightarrow> string \<Rightarrow> string team_step" where
  "turnPrompt tx i participantID = next_step (attempt (ReadTeamSnapshot tx i)) (\<lambda>r.
     case r of
       Inl _ \<Rightarrow> ret ''''
     | Inr snapshot \<Rightarrow> ret (case List.find (\<lambda>p. pt_id p = participantID) (ts_participants snapshot) of
         Some p \<Rightarrow> ts_topic snapshot @ [CHR 0x0A, CHR 0x0A] @ ts_instructions snapshot @ [CHR 0x0A, CHR 0x0A]
           @ ''Role: '' @ pt_role p
       | None \<Rightarrow> ts_topic snapshot))"

definition launch_request :: "TeamAccess \<Rightarrow> string \<Rightarrow> ParticipantTurnV1 \<Rightarrow> ExplorationRequest team_step" where
  "launch_request tx i turn = next_step (turnPrompt tx i (tu_participant_id turn)) (\<lambda>prompt.
     next_step (ReadTeamSnapshot tx i) (\<lambda>snapshot.
     let request = \<lparr>xr_protocol_version = ProtocolVersion_xd,
           xr_identity = \<lparr>xi_team_id = i, xi_participant_id = tu_participant_id turn, xi_turn_id = tu_id turn\<rparr>,
           xr_workspace = ts_project snapshot, xr_target = tu_target turn, xr_model_id = tu_model_id turn,
           xr_prompt = prompt, xr_sandbox = SandboxReadOnly, xr_max_bytes = int MaxMessageBytes\<rparr>
     in next_step (check TeamInvalid (ValidateStartRequest_xd request)) (\<lambda>_. ret request)))"

text \<open>What \<^verbatim>\<open>driver.Start\<close> answers, and \<^verbatim>\<open>dispatchTurn\<close> after it.\<close>

datatype StartAnswer = StartFailed string | Started "ExplorationHandle option"

definition dispatch_settle :: "TeamAccess \<Rightarrow> string \<Rightarrow> ParticipantTurnV1 \<Rightarrow> StartAnswer \<Rightarrow> TurnNext team_step" where
  "dispatch_settle tx i turn answer =
     (let invalid = fail_turn tx i (tu_id turn) TurnIndeterminate ''driver returned an invalid execution handle''
            (TeamDriver ''invalid exploration execution handle'') in
      case answer of
        StartFailed e \<Rightarrow> fail_turn tx i (tu_id turn) TurnFailed (boundedDiagnostic e) (TeamDriver e)
      | Started None \<Rightarrow> invalid
      | Started (Some h) \<Rightarrow>
          if xh_driver h \<noteq> tu_driver turn then invalid
          else case ValidateExecutionHandle_xd h of
            Inl e \<Rightarrow> fail_turn tx i (tu_id turn) TurnIndeterminate (boundedDiagnostic e) (TeamDriver e)
          | Inr _ \<Rightarrow> next_step (ReadTeamTurn tx i (tu_id turn)) (\<lambda>current.
              next_step (WriteTeamExecution i (tu_id turn) h) (\<lambda>_.
              if tu_state current \<noteq> TurnDispatching then ret (CancelLate h)
              else next_step team_now (\<lambda>now.
                let active = current\<lparr>tu_state := TurnActive, tu_updated_at := now\<rparr> in
                next_step (WriteTeamTurn active) (\<lambda>_.
                next_step (appendTeamEventLockedFromTurn tx i active EventParticipantActive ''turn active'') (\<lambda>_.
                ret (Observe active h)))))))"

text \<open>\<^verbatim>\<open>observeTurn\<close>: whether the turn goes on and, at the end, the output.\<close>

datatype ObserveAnswer = ObserveFailed string | Observed "ExplorationObservation option"

definition observe_answer :: "TeamAccess \<Rightarrow> string \<Rightarrow> ParticipantTurnV1 \<Rightarrow> ObserveAnswer \<Rightarrow> bool team_step" where
  "observe_answer tx i turn answer =
     (let lost = (\<lambda>diagnostic. fail_turn tx i (tu_id turn) TurnIndeterminate diagnostic (TeamDriver diagnostic)) in
      case answer of
        ObserveFailed e \<Rightarrow> lost (boundedDiagnostic e)
      | Observed None \<Rightarrow> lost ''driver returned no observation''
      | Observed (Some ob) \<Rightarrow>
          (case ValidateObservation_xd ob of
             Inl e \<Rightarrow> lost (boundedDiagnostic e)
           | Inr _ \<Rightarrow> if xo_state ob = ObservationLost then lost (xo_diagnostic ob)
               else ret (xo_state ob = ObservationActive)))"

definition commitContribution :: "TeamAccess \<Rightarrow> string \<Rightarrow> ParticipantTurnV1 \<Rightarrow> string \<Rightarrow> unit team_step" where
  "commitContribution tx i turn output =
     (let refuse = (\<lambda>e. fail_turn tx i (tu_id turn) TurnFailed (boundedDiagnostic e) (TeamInvalid e)) in
      case tx_decode tx output of Inl e \<Rightarrow> refuse e | Inr contribution \<Rightarrow>
      case ValidateContribution contribution of Inl e \<Rightarrow> refuse e | Inr _ \<Rightarrow>
      let canonical = json_contribution contribution; hash = tx_sha tx canonical in
      next_step (ReadTeamTurn tx i (tu_id turn)) (\<lambda>current.
      if tu_state current \<noteq> TurnActive then ret ()
      else next_step (ReadTeamMessages tx i) (\<lambda>messages.
      let found = List.find (\<lambda>m. tm_turn_id m = tu_id current) messages;
          messageID = (case found of Some m \<Rightarrow> tm_id m | None \<Rightarrow> ''message-'' @ tu_id current) in
      next_step (case found of Some _ \<Rightarrow> ret () | None \<Rightarrow> next_step team_now (\<lambda>now.
        AppendTeamMessage tx \<lparr>tm_schema_version = TeamSchemaVersion, tm_id = messageID, tm_team_id = i,
          tm_sequence = length messages + 1, tm_kind = MessageContribution, tm_actor = tu_participant_id current,
          tm_recipients = [], tm_turn_id = tu_id current, tm_content = canonical, tm_references = [],
          tm_created_at = now, tm_content_hash = hash\<rparr>)) (\<lambda>_.
      next_step team_now (\<lambda>completed. next_step team_now (\<lambda>now.
      let responded = current\<lparr>tu_state := TurnResponded, tu_contribution := messageID, tu_completed_at := Some completed,
            tu_updated_at := now\<rparr> in
      next_step (WriteTeamTurn responded) (\<lambda>_.
      settle_turn tx i responded (\<lambda>p. p\<lparr>pt_state := ParticipantResponded, pt_current_turn := tu_id current\<rparr>)
        ''turn responded'')))))))"

text \<open>The answer of \<^verbatim>\<open>driver.Output\<close>.\<close>

definition collect_output :: "TeamAccess \<Rightarrow> string \<Rightarrow> ParticipantTurnV1 \<Rightarrow> string + string \<Rightarrow> unit team_step" where
  "collect_output tx i turn answer =
     (case answer of
        Inl e \<Rightarrow> fail_turn tx i (tu_id turn) TurnFailed (boundedDiagnostic e) (TeamDriver e)
      | Inr output \<Rightarrow> commitContribution tx i turn output)"


subsection \<open>Cancelling a panel\<close>

text \<open>
  \<^verbatim>\<open>Action\<close> for a panel accepts only a cancellation. Its first part records the
  intent, marks the turns and the team as cancelling and collects the executions to cancel;
  its second part, after every driver has confirmed, ends the turns and closes the team.
  The check of the mode before the mutex is taken reads a field that never changes.
\<close>

definition validateAPIID :: "string \<Rightarrow> string \<Rightarrow> string + unit" where
  "validateAPIID value name = (if \<not> safeID value then Inl (name @ '' is invalid'') else Inr ())"

definition ValidateActionRequest :: "TeamActionV1 \<Rightarrow> string + unit" where
  "ValidateActionRequest v =
     (case ValidateAction v of Inl e \<Rightarrow> Inl e | Inr _ \<Rightarrow>
      case validateAPIID (ta_action_id v) ''actionId'' of Inl e \<Rightarrow> Inl e | Inr _ \<Rightarrow>
      case validateAPIID (ta_team_id v) ''teamId'' of Inl e \<Rightarrow> Inl e | Inr _ \<Rightarrow>
      case (case ta_follow_up v of None \<Rightarrow> Inr () | Some f \<Rightarrow>
          (case each_ok (\<lambda>i. validateAPIID i ''participantId'') (fu_participants f) of Inl e \<Rightarrow> Inl e | Inr _ \<Rightarrow>
           each_ok (\<lambda>i. validateAPIID i ''messageId'') (fu_references f))) of Inl e \<Rightarrow> Inl e | Inr _ \<Rightarrow>
      case ta_cancel_turn v of None \<Rightarrow> Inr () | Some turn \<Rightarrow> validateAPIID turn ''turnId'')"

record CancelPlan =
  cp_turns :: "string list"
  cp_intent :: actionIntentV1
  cp_active :: "(ParticipantTurnV1 \<times> ExplorationHandle) list"

definition action_response :: "TeamActionV1 \<Rightarrow> TeamSessionV1 \<Rightarrow> TeamActionResponseV1" where
  "action_response action snapshot =
     \<lparr>ar_schema_version = TeamSchemaVersion, ar_action_id = ta_action_id action, ar_team_id = ta_team_id action,
      ar_type = ta_type action, ar_state_version = ts_state_version snapshot, ar_state = ts_state snapshot, ar_replayed = False\<rparr>"

text \<open>The loop over the turns, with the participants as it leaves them.\<close>

definition cancel_turn ::
  "TeamService \<Rightarrow> string \<Rightarrow> ParticipantV1 list \<Rightarrow> string \<Rightarrow> (ParticipantV1 list \<times> (ParticipantTurnV1 \<times> ExplorationHandle) list) team_step" where
  "cancel_turn svc i ps turnID = next_step (ReadTeamTurn (sv_access svc) i turnID) (\<lambda>turn.
     if tu_state turn = TurnActive \<or> tu_state turn = TurnCancelling
     then next_step (attempt (ReadTeamExecution i turnID)) (\<lambda>handle.
       case handle of
         Inl e \<Rightarrow> if tu_state turn = TurnCancelling \<and> e = TeamMissing ''execution.json'' then ret (ps, []) else fail e
       | Inr h \<Rightarrow>
           if tu_driver turn \<notin> set (sv_drivers svc) then fail ErrCapabilityUnavailable
           else if tu_state turn = TurnActive
           then next_step team_now (\<lambda>now.
             let cancelling = turn\<lparr>tu_state := TurnCancelling, tu_updated_at := now\<rparr> in
             next_step (WriteTeamTurn cancelling) (\<lambda>_. ret (ps, [(cancelling, h)])))
           else ret (ps, [(turn, h)]))
     else if tu_state turn = TurnPrepared
     then next_step team_now (\<lambda>now.
       next_step (WriteTeamTurn (turn\<lparr>tu_state := TurnCancelling, tu_updated_at := now\<rparr>)) (\<lambda>_. ret (ps, [])))
     else if tu_state turn = TurnDispatching
     then next_step team_now (\<lambda>now.
       next_step (WriteTeamTurn (turn\<lparr>tu_state := TurnIndeterminate,
         tu_diagnostic := ''dispatching turn has no confirmed execution handle'', tu_updated_at := now\<rparr>)) (\<lambda>_.
       next_step (update_participants i (\<lambda>p. pt_id p = tu_participant_id turn)
         (\<lambda>p. p\<lparr>pt_state := ParticipantIndeterminate\<rparr>) ps) (\<lambda>qs. ret (qs, []))))
     else ret (ps, []))"

fun cancel_turns ::
  "TeamService \<Rightarrow> string \<Rightarrow> ParticipantV1 list \<Rightarrow> string list \<Rightarrow> (ParticipantV1 list \<times> (ParticipantTurnV1 \<times> ExplorationHandle) list) team_step" where
  "cancel_turns svc i ps [] = ret (ps, [])"
| "cancel_turns svc i ps (turnID # ids) = next_step (cancel_turn svc i ps turnID) (\<lambda>(qs, active).
     next_step (cancel_turns svc i qs ids) (\<lambda>(rs, more). ret (rs, active @ more)))"

text \<open>The intent of the request, recorded before anything is cancelled.\<close>

definition record_intent ::
  "TeamActionV1 \<Rightarrow> string \<Rightarrow> TeamSessionV1 \<Rightarrow> actionIntentV1 option \<Rightarrow> actionIntentV1 team_step" where
  "record_intent action hash snapshot known =
     (case known of
        Some existing \<Rightarrow> ret existing
      | None \<Rightarrow>
          if ts_state_version snapshot \<noteq> ta_expected_version action then fail ErrConflict
          else if ts_state snapshot = LifecycleClosed \<and> ts_close_reason snapshot \<noteq> CloseCancelled then fail ErrConflict
          else next_step (TeamMutationIntentCount (ta_team_id action)) (\<lambda>intentCount.
            if intentCount \<ge> MaxMutationReceipts then fail ErrQuotaExceeded
            else let existing = \<lparr>in_schema_version = TeamSchemaVersion, in_request_hash = hash, in_action = action,
                       in_response = None\<rparr>
                 in next_step (WriteTeamActionIntent (ta_team_id action) (ta_action_id action) existing) (\<lambda>_. ret existing)))"

definition cancel_recorded ::
  "TeamService \<Rightarrow> TeamActionV1 \<Rightarrow> TeamSessionV1 \<Rightarrow> actionIntentV1 \<Rightarrow> (TeamActionResponseV1 + CancelPlan) team_step" where
  "cancel_recorded svc action snapshot existing =
     (let i = ta_team_id action in
      if ts_state snapshot = LifecycleClosed
      then (if ts_close_reason snapshot \<noteq> CloseCancelled then fail ErrConflict
            else let response = action_response action snapshot in
              next_step (WriteTeamActionIntent i (ta_action_id action) (existing\<lparr>in_response := Some response\<rparr>)) (\<lambda>_.
              ret (Inl response)))
      else next_step (ListTeamTurnIDs i) (\<lambda>turnIDs.
        next_step (cancel_turns svc i (ts_participants snapshot) turnIDs) (\<lambda>(ps, active).
        let plan = \<lparr>cp_turns = turnIDs, cp_intent = existing, cp_active = active\<rparr> in
        if ts_state snapshot = LifecycleCancelling then ret (Inr plan)
        else next_step team_now (\<lambda>now.
          next_step (WriteTeamSnapshot (snapshot\<lparr>ts_participants := ps, ts_state := LifecycleCancelling,
            ts_state_version := ts_state_version snapshot + 1, ts_updated_at := now\<rparr>)) (\<lambda>_. ret (Inr plan))))))"

definition cancel_begin :: "TeamService \<Rightarrow> TeamActionV1 \<Rightarrow> (TeamActionResponseV1 + CancelPlan) team_step" where
  "cancel_begin svc action = next_step (check TeamInvalid (ValidateActionRequest action)) (\<lambda>_.
     if ta_type action \<noteq> ActionCancel then fail ErrCapabilityUnavailable
     else let i = ta_team_id action; hash = tx_sha (sv_access svc) (json_action_tc action) in
       next_step (attempt (ReadTeamActionIntent i (ta_action_id action))) (\<lambda>known.
       case known of
         Inl e \<Rightarrow> if e \<noteq> TeamMissing ''action-intents'' then fail e
           else next_step (ReadTeamSnapshot (sv_access svc) i) (\<lambda>snapshot.
                next_step (record_intent action hash snapshot None) (\<lambda>existing.
                cancel_recorded svc action snapshot existing))
       | Inr existing \<Rightarrow>
           if in_request_hash existing \<noteq> hash then fail ErrConflict
           else case in_response existing of
             Some response \<Rightarrow> ret (Inl (response\<lparr>ar_replayed := True\<rparr>))
           | None \<Rightarrow> next_step (ReadTeamSnapshot (sv_access svc) i) (\<lambda>snapshot.
               next_step (record_intent action hash snapshot (Some existing)) (\<lambda>existing.
               cancel_recorded svc action snapshot existing))))"

fun finish_turns :: "TeamAccess \<Rightarrow> string \<Rightarrow> string list \<Rightarrow> unit team_step" where
  "finish_turns tx i [] = ret ()"
| "finish_turns tx i (turnID # ids) = next_step (ReadTeamTurn tx i turnID) (\<lambda>turn.
     next_step (if tu_state turn = TurnCancelling
       then next_step team_now (\<lambda>now. WriteTeamTurn (turn\<lparr>tu_state := TurnCancelled,
         tu_diagnostic := ''cancelled by Team action'', tu_completed_at := Some now, tu_updated_at := now\<rparr>))
       else ret ()) (\<lambda>_. finish_turns tx i ids))"

definition cancel_finish :: "TeamService \<Rightarrow> TeamActionV1 \<Rightarrow> CancelPlan \<Rightarrow> TeamActionResponseV1 team_step" where
  "cancel_finish svc action plan = (let i = ta_team_id action; tx = sv_access svc in
     next_step (ReadTeamSnapshot tx i) (\<lambda>snapshot.
     next_step (finish_turns tx i (cp_turns plan)) (\<lambda>_.
     next_step (update_participants i unsettled (\<lambda>p. p\<lparr>pt_state := ParticipantCancelled\<rparr>) (ts_participants snapshot)) (\<lambda>ps.
     next_step team_now (\<lambda>now.
     let closed = snapshot\<lparr>ts_participants := ps, ts_state := LifecycleClosed, ts_close_reason := CloseCancelled,
           ts_state_version := ts_state_version snapshot + 1, ts_updated_at := now\<rparr>;
         response = action_response action closed in
     next_step (WriteTeamSnapshot closed) (\<lambda>_.
     next_step (appendTeamEventLocked tx closed EventTeamCancelled ''Team cancelled'' '''' '''') (\<lambda>_.
     next_step (WriteTeamActionIntent i (ta_action_id action) ((cp_intent plan)\<lparr>in_response := Some response\<rparr>)) (\<lambda>_.
     ret response))))))))"

end
