(* ===== verification/Team_Spec.thy ===== *)
theory Team_Spec
  imports Team_Dispatch
begin

section \<open>What the parts of the panel service may change\<close>

text \<open>
  The abstract state of one panel is its snapshot, its turns and its messages. \<open>panel_spec\<close>
  lists the durable steps that the service is meant to take: the life of a turn, one
  message for an active turn that has none, and the snapshot following the turns. Every
  part of the service that runs under the mutex refines a sequence of these steps, wherever
  it is cut off, whatever else happens to the files before it.
\<close>

record PanelCore =
  pc_snapshot :: "TeamSessionV1 option"
  pc_turns :: "string \<Rightarrow> ParticipantTurnV1 option"
  pc_messages :: "TeamMessageV1 list"

definition core :: "string \<Rightarrow> TeamDisk \<Rightarrow> PanelCore" where
  "core i d = (let f = team_files d i in
     \<lparr>pc_snapshot = tf_snapshot f, pc_turns = map_of (tf_turns f), pc_messages = tf_messages f\<rparr>)"

subsection \<open>The abstract steps\<close>

definition turn_name :: "ParticipantV1 \<Rightarrow> string" where
  "turn_name p = ''turn-'' @ pt_id p @ ''-1''"

definition assigned :: "ParticipantV1 \<Rightarrow> ParticipantV1" where
  "assigned p = (if pt_current_turn p \<noteq> '''' then p
     else p\<lparr>pt_current_turn := turn_name p, pt_state := ParticipantRunning\<rparr>)"

text \<open>The states a turn may go to from each state.\<close>

definition turn_moves :: "string \<Rightarrow> string \<Rightarrow> bool" where
  "turn_moves a b \<longleftrightarrow>
     a = TurnPrepared \<and> b \<in> {TurnDispatching, TurnFailed, TurnIndeterminate, TurnCancelling}
   \<or> a = TurnDispatching \<and> b \<in> {TurnActive, TurnFailed, TurnIndeterminate}
   \<or> a = TurnActive \<and> b \<in> {TurnResponded, TurnFailed, TurnIndeterminate, TurnCancelling}
   \<or> a = TurnCancelling \<and> b = TurnCancelled"

definition outcome :: "ParticipantTurnV1 \<Rightarrow> ParticipantV1 \<Rightarrow> ParticipantV1" where
  "outcome u p = (if tu_state u = TurnResponded then p\<lparr>pt_state := ParticipantResponded, pt_current_turn := tu_id u\<rparr>
     else p\<lparr>pt_state := failed_participant (tu_state u)\<rparr>)"

definition change_where :: "('a \<Rightarrow> bool) \<Rightarrow> ('a \<Rightarrow> 'a) \<Rightarrow> 'a list \<Rightarrow> 'a list" where
  "change_where which change = map (\<lambda>p. if which p then change p else p)"

inductive panel_spec :: "PanelCore \<Rightarrow> PanelCore \<Rightarrow> bool" where
  spec_prepare: "pc_snapshot c = Some s \<Longrightarrow> ts_state s \<noteq> LifecycleClosed \<Longrightarrow> p \<in> set (ts_participants s) \<Longrightarrow>
    pt_current_turn p = '''' \<Longrightarrow> tu_id v = turn_name p \<Longrightarrow> tu_participant_id v = pt_id p \<Longrightarrow> tu_state v = TurnPrepared \<Longrightarrow>
    panel_spec c (c\<lparr>pc_turns := (pc_turns c)(tu_id v \<mapsto> v)\<rparr>)"
| spec_assign: "pc_snapshot c = Some s \<Longrightarrow> ts_state s \<noteq> LifecycleClosed \<Longrightarrow> \<exists>p \<in> set (ts_participants s). pt_current_turn p = '''' \<Longrightarrow>
    panel_spec c (c\<lparr>pc_snapshot := Some (s\<lparr>ts_participants := map assigned (ts_participants s), ts_state := LifecycleRunning,
      ts_state_version := ts_state_version s + 1, ts_updated_at := now\<rparr>)\<rparr>)"
| spec_turn: "pc_turns c (tu_id v) = Some u \<Longrightarrow> tu_participant_id v = tu_participant_id u \<Longrightarrow> turn_moves (tu_state u) (tu_state v) \<Longrightarrow>
    (tu_state v = TurnResponded \<Longrightarrow> \<exists>m \<in> set (pc_messages c). tm_turn_id m = tu_id v \<and> tm_id m = tu_contribution v) \<Longrightarrow>
    panel_spec c (c\<lparr>pc_turns := (pc_turns c)(tu_id v \<mapsto> v)\<rparr>)"
| spec_message: "pc_turns c (tm_turn_id m) = Some u \<Longrightarrow> tu_state u = TurnActive \<Longrightarrow> tm_actor m = tu_participant_id u \<Longrightarrow>
    tm_turn_id m \<notin> tm_turn_id ` set (pc_messages c) \<Longrightarrow> tm_sequence m = length (pc_messages c) + 1 \<Longrightarrow>
    panel_spec c (c\<lparr>pc_messages := pc_messages c @ [m]\<rparr>)"
| spec_settle: "pc_snapshot c = Some s \<Longrightarrow> pc_turns c (tu_id u) = Some u \<Longrightarrow> tu_id u \<noteq> [] \<Longrightarrow>
    tu_state u \<in> {TurnResponded, TurnFailed, TurnIndeterminate} \<Longrightarrow>
    ps = change_where (\<lambda>p. pt_id p = tu_participant_id u) (outcome u) (ts_participants s) \<Longrightarrow>
    panel_spec c (c\<lparr>pc_snapshot := Some (fst (settleTerminalRound
      (s\<lparr>ts_participants := ps, ts_state_version := ts_state_version s + 1, ts_updated_at := now\<rparr>) (\<not> list_ex unsettled ps)))\<rparr>)"
| spec_cancelling: "pc_snapshot c = Some s \<Longrightarrow> ts_state s \<notin> {LifecycleClosed, LifecycleCancelling} \<Longrightarrow>
    ps = change_where which (\<lambda>p. p\<lparr>pt_state := ParticipantIndeterminate\<rparr>) (ts_participants s) \<Longrightarrow>
    panel_spec c (c\<lparr>pc_snapshot := Some (s\<lparr>ts_participants := ps, ts_state := LifecycleCancelling,
      ts_state_version := ts_state_version s + 1, ts_updated_at := now\<rparr>)\<rparr>)"
| spec_close: "pc_snapshot c = Some s \<Longrightarrow>
    ps = change_where unsettled (\<lambda>p. p\<lparr>pt_state := ParticipantCancelled\<rparr>) (ts_participants s) \<Longrightarrow>
    panel_spec c (c\<lparr>pc_snapshot := Some (s\<lparr>ts_participants := ps, ts_state := LifecycleClosed, ts_close_reason := CloseCancelled,
      ts_state_version := ts_state_version s + 1, ts_updated_at := now\<rparr>)\<rparr>)"

subsection \<open>Refinement of the specification by a step\<close>

text \<open>
  \<open>refines i P m Q\<close>: from files whose core satisfies \<open>P\<close> the step moves the core of team
  \<open>i\<close> by abstract steps, and if it returns a value then \<open>Q\<close> holds of it and the core.
\<close>

definition refines :: "string \<Rightarrow> (PanelCore \<Rightarrow> bool) \<Rightarrow> 'a team_step \<Rightarrow> ('a \<Rightarrow> PanelCore \<Rightarrow> bool) \<Rightarrow> bool" where
  "refines i P m Q \<longleftrightarrow> (\<forall>d. P (core i d) \<longrightarrow> panel_spec\<^sup>*\<^sup>* (core i d) (core i (snd (m d)))
     \<and> (\<forall>x. fst (m d) = Inr x \<longrightarrow> Q x (core i (snd (m d)))))"

lemma refines_next:
  assumes "refines i P m Q" "\<And>x. refines i (Q x) (k x) R"
  shows "refines i P (next_step m k) R"
  unfolding refines_def
proof (intro allI impI)
  fix d assume P: "P (core i d)"
  obtain r d' where m: "m d = (r, d')" by fastforce
  have spec: "panel_spec\<^sup>*\<^sup>* (core i d) (core i d')" and Q: "\<And>x. r = Inr x \<Longrightarrow> Q x (core i d')"
    using assms(1) P m by (auto simp: refines_def dest: spec [of _ d])
  show "panel_spec\<^sup>*\<^sup>* (core i d) (core i (snd (next_step m k d)))
    \<and> (\<forall>x. fst (next_step m k d) = Inr x \<longrightarrow> R x (core i (snd (next_step m k d))))"
  proof (cases r)
    case (Inl e)
    then show ?thesis using m spec by (simp add: next_step_def)
  next
    case (Inr x)
    then have "panel_spec\<^sup>*\<^sup>* (core i d') (core i (snd (k x d')))" "\<forall>y. fst (k x d') = Inr y \<longrightarrow> R y (core i (snd (k x d')))"
      using assms(2) [of x] Q by (auto simp: refines_def)
    then show ?thesis using m Inr spec by (auto simp: next_step_def intro: rtranclp_trans)
  qed
qed

lemma refines_ret: "(\<And>c. P c \<Longrightarrow> Q x c) \<Longrightarrow> refines i P (ret x) Q"
  by (simp add: refines_def ret_def)

lemma refines_fail: "refines i P (fail e) Q"
  by (simp add: refines_def fail_def)

lemma refines_weaken: "refines i P m Q \<Longrightarrow> (\<And>c. P' c \<Longrightarrow> P c) \<Longrightarrow> (\<And>x c. Q x c \<Longrightarrow> Q' x c) \<Longrightarrow> refines i P' m Q'"
  by (auto simp: refines_def)

lemma refines_pre: "(\<And>c. P c \<Longrightarrow> A) \<Longrightarrow> (A \<Longrightarrow> refines i P m Q) \<Longrightarrow> refines i P m Q"
  by (auto simp: refines_def)

text \<open>A step that leaves the core of every team alone keeps every assertion.\<close>

definition steady :: "'a team_step \<Rightarrow> bool" where
  "steady m \<longleftrightarrow> (\<forall>i d. core i (snd (m d)) = core i d)"

named_theorems steady_intros \<open>steps that leave the cores alone\<close>

lemma refines_steady: "steady m \<Longrightarrow> refines i P m (\<lambda>_. P)"
  by (simp add: refines_def steady_def)

lemma steady_next [steady_intros]: "steady m \<Longrightarrow> (\<And>x. steady (k x)) \<Longrightarrow> steady (next_step m k)"
  unfolding steady_def next_step_def
  by (auto split: prod.split sum.split) (metis snd_conv)+

lemma team_files_update:
  "team_files (d\<lparr>td_teams := AList.update j f (td_teams d), td_writes := w\<rparr>) i = (if i = j then f else team_files d i)"
  by (simp add: team_files_def update_conv')

lemma steady_durable:
  "(\<And>f. tf_snapshot (change f) = tf_snapshot f \<and> tf_turns (change f) = tf_turns f \<and> tf_messages (change f) = tf_messages f) \<Longrightarrow>
     steady (team_durable j change)"
  by (auto simp: steady_def team_durable_def core_def Let_def team_files_update)

lemma steady_basic [steady_intros]:
  "steady (ret x)" "steady (fail e)" "steady (check w r)" "steady team_now" "steady (team_get j sel)" "steady (team_look j name sel')"
  "steady (team_require e b)" "steady (validateID_store kind value)" "steady ListTeamIDs"
  by (auto simp: steady_def ret_def fail_def check_def team_now_def team_get_def team_look_def team_require_def
      validateID_store_def ListTeamIDs_def core_def team_files_def split: option.split)

lemma steady_attempt [steady_intros]: "steady m \<Longrightarrow> steady (attempt m)"
  by (simp add: steady_def attempt_def)

lemma steady_ignore [steady_intros]: "steady m \<Longrightarrow> steady (ignore_error m)"
  by (simp add: steady_def ignore_error_def)


subsection \<open>Reading\<close>

definition only_reads :: "'a team_step \<Rightarrow> bool" where
  "only_reads m \<longleftrightarrow> (\<forall>d. snd (m d) = d)"

named_theorems reading_intros \<open>steps that change nothing\<close>

lemma only_reads_next [reading_intros]: "only_reads m \<Longrightarrow> (\<And>x. only_reads (k x)) \<Longrightarrow> only_reads (next_step m k)"
  unfolding only_reads_def next_step_def
  by (auto split: prod.split sum.split) (metis snd_conv)+

lemma only_reads_basic [reading_intros]:
  "only_reads (ret x)" "only_reads (fail e)" "only_reads (check w r)" "only_reads (team_get j sel)"
  "only_reads (team_look j name sel')" "only_reads (team_require e b)" "only_reads (validateID_store kind value)"
  "only_reads ListTeamIDs"
  by (auto simp: only_reads_def ret_def fail_def check_def team_get_def team_look_def team_require_def
      validateID_store_def ListTeamIDs_def split: option.split)

lemma only_reads_attempt [reading_intros]: "only_reads m \<Longrightarrow> only_reads (attempt m)"
  by (simp add: only_reads_def attempt_def)

lemma only_reads_if [reading_intros]: "only_reads m \<Longrightarrow> only_reads m' \<Longrightarrow> only_reads (if b then m else m')"
  by simp

lemma only_reads_store [reading_intros]:
  "only_reads (ReadTeamSnapshot tx i)" "only_reads (ReadTeamTurn tx i t)" "only_reads (ReadTeamEvents tx i)"
  "only_reads (ReadTeamMessages tx i)" "only_reads (ReadTeamExecution i t)" "only_reads (ListTeamTurnIDs i)"
  "only_reads (ReadTeamActionIntent i a)" "only_reads (TeamMutationIntentCount i)"
  unfolding ReadTeamSnapshot_def ReadTeamTurn_def ReadTeamEvents_def ReadTeamMessages_def ReadTeamExecution_def
    ListTeamTurnIDs_def ReadTeamActionIntent_def TeamMutationIntentCount_def read_contract_def intent_count_def
  by (intro reading_intros)+

lemma only_reads_steady: "only_reads m \<Longrightarrow> steady m"
  by (simp add: only_reads_def steady_def)

lemmas steady_reads [steady_intros] = only_reads_store [THEN only_reads_steady]

lemma only_reads_result: "only_reads m \<Longrightarrow> m d = (r, d') \<Longrightarrow> d' = d"
  by (metis only_reads_def snd_conv)

text \<open>What a successful read says of the files.\<close>

lemma next_Inr: "next_step m k d = (Inr y, d') \<longleftrightarrow> (\<exists>x d1. m d = (Inr x, d1) \<and> k x d1 = (Inr y, d'))"
  by (auto simp: next_step_def split: prod.splits sum.splits)

lemma basic_Inr:
  "ret x d = (Inr y, d') \<longleftrightarrow> y = x \<and> d' = d" "\<not> fail e d = (Inr y, d')"
  "check w r d = (Inr y, d') \<longleftrightarrow> r = Inr y \<and> d' = d"
  "team_require e b d = (Inr u, d') \<longleftrightarrow> b \<and> d' = d"
  "validateID_store kind value d = (Inr u, d') \<longleftrightarrow> safeID value \<and> d' = d"
  "team_look j name sel d = (Inr v, d') \<longleftrightarrow> sel (team_files d j) = Some v \<and> d' = d"
  "team_get j sel'' d = (Inr w', d') \<longleftrightarrow> w' = sel'' (team_files d j) \<and> d' = d"
  by (auto simp: ret_def fail_def check_def team_require_def validateID_store_def team_look_def team_get_def
      wrap_err_def split: option.splits sum.splits)

lemma team_durable_Inr:
  "team_durable i change d = (Inr u, d') \<longleftrightarrow> td_writes d \<noteq> 0
     \<and> d' = d\<lparr>td_teams := AList.update i (change (team_files d i)) (td_teams d), td_writes := td_writes d - 1\<rparr>"
  by (auto simp: team_durable_def)

lemma ReadTeamSnapshot_Inr:
  "ReadTeamSnapshot tx i d = (Inr s, d') \<longleftrightarrow> d' = d \<and> safeID i \<and> tf_snapshot (team_files d i) = Some s
     \<and> length (json_file (json_session (tx_format tx) s)) \<le> MaxHandoffBytes \<and> ts_team_id s = i \<and> ValidateTeamSession s = Inr ()"
  by (auto simp: ReadTeamSnapshot_def read_contract_def next_Inr basic_Inr)

lemma ReadTeamTurn_Inr:
  "ReadTeamTurn tx i t d = (Inr u, d') \<longleftrightarrow> d' = d \<and> safeID i \<and> safeID t \<and> map_of (tf_turns (team_files d i)) t = Some u
     \<and> length (json_file (json_turn (tx_format tx) u)) \<le> MaxHandoffBytes \<and> tu_team_id u = i \<and> tu_id u = t
     \<and> ValidateParticipantTurn u = Inr ()"
  by (auto simp: ReadTeamTurn_def read_contract_def next_Inr basic_Inr)

lemma ReadTeamMessages_Inr:
  "ReadTeamMessages tx i d = (Inr ms, d') \<longleftrightarrow> d' = d \<and> safeID i \<and> ms = tf_messages (team_files d i)
     \<and> readTeamLog (json_message (tx_format tx)) (visit_message i) 1 ms = Inr ()"
  by (auto simp: ReadTeamMessages_def next_Inr basic_Inr)

lemma ReadTeamEvents_Inr:
  "ReadTeamEvents tx i d = (Inr es, d') \<longleftrightarrow> d' = d \<and> safeID i \<and> es = tf_events (team_files d i)
     \<and> readTeamLog (json_team_event (tx_format tx)) (visit_event i) 1 es = Inr ()"
  by (auto simp: ReadTeamEvents_def next_Inr basic_Inr)

lemma refines_read:
  assumes "only_reads m" "\<And>d x. m d = (Inr x, d) \<Longrightarrow> Q x (core i d)"
  shows "refines i P m (\<lambda>x c. P c \<and> Q x c)"
  using assms unfolding refines_def only_reads_def
  by (metis prod.collapse rtranclp.rtrancl_refl)

lemma refines_snapshot:
  "refines i P (ReadTeamSnapshot tx i) (\<lambda>s c. P c \<and> pc_snapshot c = Some s \<and> ts_team_id s = i)"
  by (rule refines_read) (auto intro: reading_intros simp: ReadTeamSnapshot_Inr core_def Let_def)

text \<open>The file of a turn names it.\<close>

definition named :: "string \<Rightarrow> string \<Rightarrow> ParticipantTurnV1 \<Rightarrow> bool" where
  "named i t u \<longleftrightarrow> tu_team_id u = i \<and> tu_id u = t \<and> t \<noteq> []"

lemma refines_turn:
  "refines i P (ReadTeamTurn tx i t) (\<lambda>u c. P c \<and> pc_turns c t = Some u \<and> named i t u)"
  by (rule refines_read) (auto intro: reading_intros simp: ReadTeamTurn_Inr core_def Let_def named_def safeID_def)

lemma refines_messages: "refines i P (ReadTeamMessages tx i) (\<lambda>ms c. P c \<and> pc_messages c = ms)"
  by (rule refines_read) (auto intro: reading_intros simp: ReadTeamMessages_Inr core_def Let_def)

subsection \<open>Writing\<close>

lemma refines_durable:
  assumes "\<And>d. P (core i d) \<Longrightarrow> let c = core i d; c' = core i (snd (team_durable i change (d\<lparr>td_writes := 1\<rparr>)))
     in panel_spec c c' \<and> Q () c'"
  shows "refines i P (team_durable i change) Q"
  using assms unfolding refines_def
  by (fastforce simp: team_durable_def core_def Let_def team_files_def update_conv')

lemma refines_check: "refines i P (check w r) (\<lambda>x c. P c \<and> r = Inr x)"
  by (auto simp: refines_def check_def)

lemma refines_WriteTeamTurn:
  assumes "tu_team_id v = i" "\<And>c. P c \<Longrightarrow> panel_spec c (c\<lparr>pc_turns := (pc_turns c)(tu_id v \<mapsto> v)\<rparr>)"
    "\<And>c. P c \<Longrightarrow> Q () (c\<lparr>pc_turns := (pc_turns c)(tu_id v \<mapsto> v)\<rparr>)"
  shows "refines i P (WriteTeamTurn v) Q"
proof -
  have "refines i P (team_durable (tu_team_id v) (\<lambda>f. f\<lparr>tf_turns := AList.update (tu_id v) v (tf_turns f)\<rparr>)) Q"
    unfolding assms(1)
  proof (rule refines_durable)
    fix d assume "P (core i d)"
    then show "let c = core i d; c' = core i (snd (team_durable i (\<lambda>f. f\<lparr>tf_turns := AList.update (tu_id v) v (tf_turns f)\<rparr>) (d\<lparr>td_writes := 1\<rparr>)))
      in panel_spec c c' \<and> Q () c'"
      using assms(2,3) [of "core i d"]
      by (simp add: team_durable_def core_def Let_def team_files_def update_conv')
  qed
  note weaker = refines_weaken [OF this]
  show ?thesis
    unfolding WriteTeamTurn_def by (rule refines_next [OF refines_check], rule weaker) auto
qed

lemma refines_WriteTeamSnapshot:
  assumes "ts_team_id v = i" "\<And>c. P c \<Longrightarrow> panel_spec c (c\<lparr>pc_snapshot := Some v\<rparr>)"
    "\<And>c. P c \<Longrightarrow> Q () (c\<lparr>pc_snapshot := Some v\<rparr>)"
  shows "refines i P (WriteTeamSnapshot v) Q"
proof -
  have "refines i P (team_durable (ts_team_id v) (\<lambda>f. f\<lparr>tf_snapshot := Some v\<rparr>)) Q"
    unfolding assms(1)
  proof (rule refines_durable)
    fix d assume "P (core i d)"
    then show "let c = core i d; c' = core i (snd (team_durable i (\<lambda>f. f\<lparr>tf_snapshot := Some v\<rparr>) (d\<lparr>td_writes := 1\<rparr>)))
      in panel_spec c c' \<and> Q () c'"
      using assms(2,3) [of "core i d"]
      by (simp add: team_durable_def core_def Let_def team_files_def update_conv')
  qed
  note weaker = refines_weaken [OF this]
  show ?thesis
    unfolding WriteTeamSnapshot_def by (rule refines_next [OF refines_check], rule weaker) auto
qed


lemma steady_writes [steady_intros]:
  "steady (WriteTeamParticipant p j)" "steady (WriteTeamExecution j t h)" "steady (WriteTeamActionIntent j a v)"
  unfolding WriteTeamParticipant_def WriteTeamExecution_def WriteTeamActionIntent_def
  by (intro steady_intros steady_durable; simp)+

lemma steady_AppendTeamEvent [steady_intros]: "steady (AppendTeamEvent tx e)"
  unfolding AppendTeamEvent_def appendTeamRecordWithQuota_def split_def
  by (intro steady_intros steady_durable | simp add: steady_basic steady_durable)+

lemma steady_if [steady_intros]: "(b \<Longrightarrow> steady m) \<Longrightarrow> (\<not> b \<Longrightarrow> steady m') \<Longrightarrow> steady (if b then m else m')"
  by simp

lemma steady_event [steady_intros]:
  "steady (appendTeamEventLocked tx s eventType summary mid t)"
  "steady (appendTeamEventLockedFromTurn tx i u eventType summary)"
  unfolding appendTeamEventLocked_def appendTeamEventLockedFromTurn_def Let_def
  by (intro steady_intros)+

lemma refines_update_participants:
  "(\<And>ps' c. P c \<Longrightarrow> ps' = change_where which change ps \<Longrightarrow> Q ps' c) \<Longrightarrow> refines i P (update_participants i which change ps) Q"
proof (induction ps arbitrary: Q)
  case Nil
  then show ?case by (auto simp: change_where_def intro: refines_ret)
next
  case (Cons p ps)
  have rest: "refines i P (update_participants i which change ps) (\<lambda>qs c. P c \<and> qs = change_where which change ps)"
    by (rule Cons.IH) simp
  show ?case
  proof (cases "which p")
    case True
    then show ?thesis
      using Cons.prems
      by (auto simp: change_where_def intro!: refines_next [OF refines_steady] steady_intros refines_next [OF rest] refines_ret)
  next
    case False
    then show ?thesis
      using Cons.prems by (auto simp: change_where_def intro!: refines_next [OF rest] refines_ret)
  qed
qed

lemma refines_steady_any: "steady m \<Longrightarrow> refines i P m (\<lambda>_ _. True)"
  by (simp add: refines_def steady_def)

subsection \<open>The parts of the service\<close>

lemma settleTerminalRound_id [simp]: "ts_team_id (fst (settleTerminalRound s b)) = ts_team_id s"
  by (simp add: settleTerminalRound_def)

lemma refines_settle_turn:
  assumes "tu_state u \<in> {TurnResponded, TurnFailed, TurnIndeterminate}" "outcome u = change" "tu_id u \<noteq> []"
  shows "refines i (\<lambda>c. pc_turns c (tu_id u) = Some u) (settle_turn tx i u change summary) (\<lambda>_ _. True)"
proof -
  let ?ps = "\<lambda>s. change_where (\<lambda>p. pt_id p = tu_participant_id u) change (ts_participants s)"
  let ?P = "\<lambda>s ps c. (pc_turns c (tu_id u) = Some u \<and> pc_snapshot c = Some s \<and> ts_team_id s = i) \<and> ps = ?ps s"
  let ?s = "\<lambda>s ps now. fst (settleTerminalRound (s\<lparr>ts_participants := ps, ts_state_version := ts_state_version s + 1,
       ts_updated_at := now\<rparr>) (\<not> list_ex unsettled ps))"
  have commit: "refines i (?P s ps) (WriteTeamSnapshot (?s s ps now)) (\<lambda>_ _. True)" for s ps now
  proof (rule refines_pre [where A = "ts_team_id s = i \<and> ps = ?ps s"], simp)
    assume "ts_team_id s = i \<and> ps = ?ps s"
    moreover have "panel_spec c (c\<lparr>pc_snapshot := Some (?s s ps now)\<rparr>)" if "?P s ps c" for c
      by (rule spec_settle) (use that assms in blast)+
    ultimately show "refines i (?P s ps) (WriteTeamSnapshot (?s s ps now)) (\<lambda>_ _. True)"
      by (intro refines_WriteTeamSnapshot) simp_all
  qed
  have change: "refines i (\<lambda>c. pc_turns c (tu_id u) = Some u \<and> pc_snapshot c = Some s \<and> ts_team_id s = i)
      (update_participants i (\<lambda>p. pt_id p = tu_participant_id u) change (ts_participants s)) (?P s)" for s
    by (rule refines_update_participants) simp
  show ?thesis
    unfolding settle_turn_def Let_def split_def
    by (rule refines_next [OF refines_snapshot],
        rule refines_next [OF change],
        rule refines_next [OF refines_steady [OF steady_basic(4)]], rule refines_next [OF commit])
      (intro refines_steady_any steady_intros)
qed


lemma refines_True: "refines i P m Q \<Longrightarrow> refines i P m (\<lambda>_ _. True)"
  by (simp add: refines_def)

lemma refines_move:
  assumes "tu_team_id v = i" "turn_moves (tu_state u) (tu_state v)" "tu_state v \<noteq> TurnResponded" "tu_id v = tu_id u"
    "tu_participant_id v = tu_participant_id u" "\<And>c f. P c \<Longrightarrow> P (c\<lparr>pc_turns := f\<rparr>)"
  shows "refines i (\<lambda>c. P c \<and> pc_turns c (tu_id u) = Some u) (WriteTeamTurn v) (\<lambda>_ c. P c \<and> pc_turns c (tu_id u) = Some v)"
proof (rule refines_WriteTeamTurn)
  fix c assume c: "P c \<and> pc_turns c (tu_id u) = Some u"
  then show "panel_spec c (c\<lparr>pc_turns := (pc_turns c)(tu_id v \<mapsto> v)\<rparr>)"
    using assms by (intro spec_turn [of c v u]) simp_all
  show "P (c\<lparr>pc_turns := (pc_turns c)(tu_id v \<mapsto> v)\<rparr>) \<and> pc_turns (c\<lparr>pc_turns := (pc_turns c)(tu_id v \<mapsto> v)\<rparr>) (tu_id u) = Some v"
    using c assms(4,6) by simp
qed (fact assms)

lemma failure_outcome: "tu_state u \<noteq> TurnResponded \<Longrightarrow> outcome u = (\<lambda>p. p\<lparr>pt_state := failed_participant (tu_state u)\<rparr>)"
  by (auto simp: outcome_def)

lemma refines_mark:
  assumes "state \<in> {TurnFailed, TurnIndeterminate}"
  shows "refines i P (markTurnFailureLocked tx i t state diagnostic) (\<lambda>_ _. True)"
  unfolding markTurnFailureLocked_def Let_def
proof (rule refines_next [OF refines_turn], cases)
  fix u
  let ?P = "\<lambda>c. P c \<and> pc_turns c t = Some u \<and> named i t u"
  let ?v = "\<lambda>now. u\<lparr>tu_state := state, tu_diagnostic := boundedDiagnostic diagnostic, tu_updated_at := now\<rparr>"
  let ?rest = "next_step team_now (\<lambda>now. next_step (WriteTeamTurn (?v now)) (\<lambda>_.
    settle_turn tx i (?v now) (\<lambda>p. p\<lparr>pt_state := failed_participant state\<rparr>) (tu_diagnostic (?v now))))"
  assume moves: "tu_state u \<in> set [TurnPrepared, TurnDispatching, TurnActive]"
  have "refines i ?P ?rest (\<lambda>_ _. True)"
  proof (rule refines_pre [where A = "named i t u"], simp)
    assume ids: "named i t u"
    have "refines i (\<lambda>c. True \<and> pc_turns c (tu_id u) = Some u) (WriteTeamTurn (?v now)) (\<lambda>_ c. True \<and> pc_turns c (tu_id u) = Some (?v now))"
      for now using ids moves assms by (intro refines_move) (auto simp: turn_moves_def named_def)
    then have turn: "refines i ?P (WriteTeamTurn (?v now)) (\<lambda>_ c. pc_turns c (tu_id (?v now)) = Some (?v now))" for now
      by (rule refines_weaken) (use ids in \<open>auto simp: named_def\<close>)
    have "refines i (\<lambda>c. pc_turns c (tu_id (?v now)) = Some (?v now))
        (settle_turn tx i (?v now) (\<lambda>p. p\<lparr>pt_state := failed_participant state\<rparr>) summary) (\<lambda>_ _. True)" for now summary
      by (rule refines_settle_turn) (use assms ids in \<open>auto simp: failure_outcome named_def\<close>)
    then show ?thesis
      by (intro refines_next [OF refines_steady [OF steady_basic(4)]] refines_next [OF turn])
  qed
  then show "refines i ?P (if tu_state u \<notin> set [TurnPrepared, TurnDispatching, TurnActive] then ret () else ?rest) (\<lambda>_ _. True)"
    using moves by simp
qed (simp add: refines_ret)

lemma refines_ignore: "refines i P m (\<lambda>_ _. True) \<Longrightarrow> refines i P (ignore_error m) (\<lambda>_ _. True)"
  by (simp add: refines_def ignore_error_def)

lemma refines_fail_turn:
  "state \<in> {TurnFailed, TurnIndeterminate} \<Longrightarrow> refines i P (fail_turn tx i t state diagnostic cause) Q"
  unfolding fail_turn_def by (rule refines_next [OF refines_ignore [OF refines_mark]]) (auto intro: refines_fail)


lemma refines_prepare_turn:
  assumes "ts_team_id s = i" "ts_state s \<noteq> LifecycleClosed" "p \<in> set (ts_participants s)" "pt_current_turn p = ''''"
  shows "refines i (\<lambda>c. pc_snapshot c = Some s) (prepare_turn tx catalog now s cum p)
    (\<lambda>r c. pc_snapshot c = Some s \<and> fst r = assigned p)"
proof (cases "List.find (\<lambda>m. mc_id m = pt_model_id p) (cat_models catalog)")
  case None
  then show ?thesis by (simp add: prepare_turn_def refines_fail)
next
  case (Some m)
  have turn: "refines i (\<lambda>c. pc_snapshot c = Some s) (WriteTeamTurn v) (\<lambda>_ c. pc_snapshot c = Some s)"
    if v: "tu_team_id v = i" "tu_id v = turn_name p" "tu_participant_id v = pt_id p" "tu_state v = TurnPrepared" for v
  proof (rule refines_WriteTeamTurn [OF v(1)])
    fix c :: PanelCore assume c: "pc_snapshot c = Some s"
    then show "panel_spec c (c\<lparr>pc_turns := (pc_turns c)(tu_id v \<mapsto> v)\<rparr>)"
      by (rule spec_prepare) (use v assms in auto)
    show "pc_snapshot (c\<lparr>pc_turns := (pc_turns c)(tu_id v \<mapsto> v)\<rparr>) = Some s" using c by simp
  qed
  show ?thesis
    unfolding prepare_turn_def Let_def Some option.case
    by (rule refines_next [OF refines_steady [OF steady_basic(3)]], rule refines_next [OF turn], (simp add: assms turn_name_def)+,
        rule refines_next [OF refines_steady [OF steady_writes(1)]], rule refines_next [OF refines_steady [OF steady_event(1)]])
      (auto intro!: refines_ret simp: assigned_def assms turn_name_def)
qed

lemma refines_prepare_turns:
  assumes "ts_team_id s = i" "ts_state s \<noteq> LifecycleClosed" "set ps \<subseteq> set (ts_participants s)"
  shows "refines i (\<lambda>c. pc_snapshot c = Some s) (prepare_turns tx catalog now s cum ps)
    (\<lambda>r c. pc_snapshot c = Some s \<and> r = (map assigned ps, \<exists>p \<in> set ps. pt_current_turn p = ''''))"
  using assms(3)
proof (induction ps arbitrary: cum)
  case Nil
  then show ?case by (auto intro: refines_ret)
next
  case (Cons p ps)
  let ?Q = "\<lambda>ps r c. pc_snapshot c = Some s \<and> r = (map assigned ps, \<exists>p \<in> set ps. pt_current_turn p = '''')"
  have rest: "refines i (\<lambda>c. pc_snapshot c = Some s \<and> q = assigned p) (next_step (prepare_turns tx catalog now s cum ps)
      (\<lambda>(qs, changed). ret (q # qs, b \<or> changed))) (\<lambda>r c. pc_snapshot c = Some s
        \<and> r = (map assigned (p # ps), b \<or> (\<exists>p \<in> set ps. pt_current_turn p = '''')))" for cum q b
  proof (rule refines_pre [where A = "q = assigned p"], simp)
    assume q: "q = assigned p"
    have "refines i (\<lambda>c. pc_snapshot c = Some s \<and> q = assigned p) (prepare_turns tx catalog now s cum ps) (?Q ps)"
      by (rule refines_weaken [OF Cons.IH]) (use Cons.prems in auto)
    then show "refines i (\<lambda>c. pc_snapshot c = Some s \<and> q = assigned p) (next_step (prepare_turns tx catalog now s cum ps)
      (\<lambda>(qs, changed). ret (q # qs, b \<or> changed))) (\<lambda>r c. pc_snapshot c = Some s
        \<and> r = (map assigned (p # ps), b \<or> (\<exists>p \<in> set ps. pt_current_turn p = '''')))"
      by (rule refines_next) (auto intro!: refines_ret simp: q split: prod.split)
  qed
  show ?case
  proof (cases "pt_current_turn p = ''''")
    case True
    have turn: "refines i (\<lambda>c. pc_snapshot c = Some s) (prepare_turn tx catalog now s cum p)
        (\<lambda>r c. pc_snapshot c = Some s \<and> fst r = assigned p)"
      using assms Cons.prems True by (intro refines_prepare_turn) auto
    show ?thesis
      using True rest [of _ _ True] by (auto intro!: refines_next [OF turn] simp: split_def)
  next
    case False
    have read: "refines i (\<lambda>c. pc_snapshot c = Some s) (ReadTeamTurn tx (ts_team_id s) (pt_current_turn p))
        (\<lambda>_ c. pc_snapshot c = Some s \<and> p = assigned p)"
      by (rule refines_weaken [OF refines_steady [OF steady_reads(2)]]) (use False in \<open>auto simp: assigned_def\<close>)
    show ?thesis
      using False rest [of p _ False] by (auto intro!: refines_next [OF read] simp: split_def)
  qed
qed

text \<open>No further turn is prepared in a panel that is closed or whose participants all have one.\<close>

definition all_prepared :: "PanelCore \<Rightarrow> bool" where
  "all_prepared c \<longleftrightarrow> (\<exists>s. pc_snapshot c = Some s
     \<and> (ts_state s = LifecycleClosed \<or> (\<forall>p \<in> set (ts_participants s). pt_current_turn p \<noteq> '''')))"

lemma assigned_current: "pt_current_turn (assigned p) \<noteq> ''''"
  by (simp add: assigned_def turn_name_def)

lemma refines_prepareInitialTurnsLocked:
  "refines i P (prepareInitialTurnsLocked svc i) (\<lambda>_. all_prepared)"
  unfolding prepareInitialTurnsLocked_def Let_def
proof (rule refines_next [OF refines_snapshot], rule refines_pre)
  fix s :: TeamSessionV1
  let ?s = "\<lambda>ps now. s\<lparr>ts_participants := ps, ts_state := LifecycleRunning, ts_state_version := ts_state_version s + 1,
     ts_updated_at := now\<rparr>"
  show "\<And>c. P c \<and> pc_snapshot c = Some s \<and> ts_team_id s = i \<Longrightarrow> ts_team_id s = i" by simp
  assume i: "ts_team_id s = i"
  have commit: "refines i (\<lambda>c. pc_snapshot c = Some s) (WriteTeamSnapshot v) (\<lambda>_. all_prepared)"
    if v: "v = ?s (map assigned (ts_participants s)) now" and live: "ts_state s \<noteq> LifecycleClosed" "\<exists>p \<in> set (ts_participants s). pt_current_turn p = ''''" for v now
  proof (rule refines_WriteTeamSnapshot)
    fix c :: PanelCore assume "pc_snapshot c = Some s"
    then show "panel_spec c (c\<lparr>pc_snapshot := Some v\<rparr>)"
      unfolding v by (rule spec_assign) (use live in auto)
  qed (auto simp: v i all_prepared_def assigned_current)
  have rest: "refines i (\<lambda>c. pc_snapshot c = Some s \<and> r = (map assigned (ts_participants s), \<exists>p \<in> set (ts_participants s). pt_current_turn p = ''''))
      (case r of (ps, changed) \<Rightarrow> if \<not> changed then ret s else next_step (WriteTeamSnapshot (?s ps now)) (\<lambda>_. ret (?s ps now))) (\<lambda>_. all_prepared)"
    if "ts_state s \<noteq> LifecycleClosed" for r now
    by (rule refines_pre, erule conjunct2)
      (auto intro!: refines_ret refines_next [OF commit] simp: that all_prepared_def)
  show "refines i (\<lambda>c. P c \<and> pc_snapshot c = Some s \<and> ts_team_id s = i) (if ts_state s = LifecycleClosed then ret s
     else case map_of (sv_catalogs svc) (ts_catalog_hash s) of
       None \<Rightarrow> fail (TeamCatalogUnavailable (ts_catalog_hash s))
     | Some catalog \<Rightarrow> next_step team_now (\<lambda>now.
         next_step (prepare_turns (sv_access svc) catalog now s 0 (ts_participants s)) (\<lambda>(ps, changed).
         if \<not> changed then ret s else next_step (WriteTeamSnapshot (?s ps now)) (\<lambda>_. ret (?s ps now))))) (\<lambda>_. all_prepared)"
    by (auto intro!: refines_ret refines_fail refines_next [OF refines_steady [OF steady_basic(4)]] refines_next [OF _ rest]
        refines_weaken [OF refines_prepare_turns] simp: all_prepared_def i split: option.split)
qed


lemma refines_if: "(b \<Longrightarrow> refines i P m Q) \<Longrightarrow> (\<not> b \<Longrightarrow> refines i P m' Q) \<Longrightarrow> refines i P (if b then m else m') Q"
  by simp

lemmas refines_now = refines_next [OF refines_steady [OF steady_basic(4)]]
lemmas refines_turn_event = refines_next [OF refines_steady [OF steady_event(2)]]

lemma refines_turn_ids:
  "(tu_team_id u = i \<Longrightarrow> tu_id u = t \<Longrightarrow> refines i (\<lambda>c. P c \<and> pc_turns c t = Some u) m Q) \<Longrightarrow>
     refines i (\<lambda>c. P c \<and> pc_turns c t = Some u \<and> named i t u) m Q"
  by (auto simp: refines_def named_def)

lemma refines_dispatch_begin:
  "refines i P (dispatch_begin svc i t)
     (\<lambda>r c. \<forall>v. r = Launch v \<longrightarrow> tu_id v = t \<and> pc_turns c t = Some v \<and> tu_state v = TurnDispatching)"
  (is "refines i P _ ?Q")
  unfolding dispatch_begin_def Let_def
proof (rule refines_next [OF refines_turn], rule refines_turn_ids)
  fix u :: ParticipantTurnV1
  assume ids: "tu_team_id u = i" "tu_id u = t"
  let ?P = "\<lambda>c. P c \<and> pc_turns c t = Some u"
  let ?v = "\<lambda>now. u\<lparr>tu_state := TurnDispatching, tu_updated_at := now\<rparr>"
  have launch: "refines i ?P (WriteTeamTurn (?v now)) (\<lambda>_ c. pc_turns c t = Some (?v now))" if "tu_state u = TurnPrepared" for now
    using refines_move [of "?v now" i u "\<lambda>_. True"] that ids by (auto simp: turn_moves_def elim: refines_weaken)
  have failed: "refines i P' (fail_turn (sv_access svc) i t state diagnostic cause) ?Q"
    if "state \<in> {TurnFailed, TurnIndeterminate}" for P' state diagnostic and cause
    using that by (rule refines_fail_turn)
  show "refines i ?P (if tu_driver u \<notin> set (sv_drivers svc)
     then fail_turn (sv_access svc) i t TurnFailed ''exploration driver is unavailable'' ErrCapabilityUnavailable
     else if tu_state u = TurnActive
     then next_step (attempt (ReadTeamExecution i t)) (\<lambda>handle. case handle of
         Inl e \<Rightarrow> fail_turn (sv_access svc) i t TurnIndeterminate ''active turn handle is unavailable'' e
       | Inr h \<Rightarrow> ret (Observe u h))
     else if tu_state u = TurnDispatching
     then next_step (ignore_error (markTurnFailureLocked (sv_access svc) i t TurnIndeterminate
            ''dispatching turn has no confirmed execution handle'')) (\<lambda>_. ret Finished)
     else if tu_state u \<noteq> TurnPrepared then ret Finished
     else next_step team_now (\<lambda>now. next_step (WriteTeamTurn (?v now)) (\<lambda>_.
       next_step (appendTeamEventLockedFromTurn (sv_access svc) i (?v now) EventParticipantEvent ''turn dispatching'') (\<lambda>_.
       ret (Launch (?v now)))))) ?Q"
    by (auto intro!: failed refines_ret refines_next [OF refines_steady [OF steady_attempt [OF steady_reads(5)]]]
        refines_next [OF refines_ignore [OF refines_mark]] refines_next [OF refines_steady [OF steady_basic(4)]]
        refines_next [OF launch] refines_next [OF refines_steady [OF steady_event(2)]] simp: ids split: sum.split)
qed

lemma refines_dispatch_settle: "refines i P (dispatch_settle tx i turn answer) (\<lambda>_ _. True)"
proof -
  have failed: "refines i P (fail_turn tx i t state diagnostic cause) Q"
    if "state \<in> {TurnFailed, TurnIndeterminate}" for P t state diagnostic Q and cause :: TeamError
    using that by (rule refines_fail_turn)
  have active: "refines i (\<lambda>c. P c \<and> pc_turns c (tu_id turn) = Some u) (WriteTeamTurn (u\<lparr>tu_state := TurnActive, tu_updated_at := now\<rparr>)) (\<lambda>_ _. True)"
    if "tu_team_id u = i" "tu_id u = tu_id turn" "tu_state u = TurnDispatching" for u now
    using refines_move [of "u\<lparr>tu_state := TurnActive, tu_updated_at := now\<rparr>" i u "\<lambda>_. True"] that
    by (auto simp: turn_moves_def elim!: refines_weaken)
  have bind: "refines i (\<lambda>c. P c \<and> pc_turns c (tu_id turn) = Some u \<and> named i (tu_id turn) u)
      (next_step (WriteTeamExecution i (tu_id turn) h) (\<lambda>_.
        if tu_state u \<noteq> TurnDispatching then ret (CancelLate h)
        else next_step team_now (\<lambda>now. next_step (WriteTeamTurn (u\<lparr>tu_state := TurnActive, tu_updated_at := now\<rparr>)) (\<lambda>_.
          next_step (appendTeamEventLockedFromTurn tx i (u\<lparr>tu_state := TurnActive, tu_updated_at := now\<rparr>) EventParticipantActive ''turn active'')
            (\<lambda>_. ret (Observe (u\<lparr>tu_state := TurnActive, tu_updated_at := now\<rparr>) h)))))) (\<lambda>_ _. True)" for u h
    by (rule refines_turn_ids, rule refines_next [OF refines_steady [OF steady_writes(2)]], rule refines_if, rule refines_ret, simp,
        rule refines_now, rule refines_next [OF active]) (auto intro!: refines_turn_event refines_ret)
  show ?thesis
    unfolding dispatch_settle_def Let_def
    by (auto intro!: failed refines_next [OF refines_turn] bind split: StartAnswer.split option.split sum.split)
qed

lemma refines_observe_answer: "refines i P (observe_answer tx i turn answer) (\<lambda>_ _. True)"
  unfolding observe_answer_def Let_def
  by (auto intro!: refines_fail_turn refines_ret split: ObserveAnswer.split option.split sum.split)


lemma refines_AppendTeamMessage:
  assumes "tm_team_id v = i" "\<And>c. P c \<Longrightarrow> panel_spec c (c\<lparr>pc_messages := pc_messages c @ [v]\<rparr>)"
    "\<And>c. P c \<Longrightarrow> Q () (c\<lparr>pc_messages := pc_messages c @ [v]\<rparr>)"
  shows "refines i P (AppendTeamMessage tx v) Q"
proof -
  have append: "refines i P (team_durable i (\<lambda>f. f\<lparr>tf_messages := tf_messages f @ [v]\<rparr>)) Q"
  proof (rule refines_durable)
    fix d assume "P (core i d)"
    then show "let c = core i d; c' = core i (snd (team_durable i (\<lambda>f. f\<lparr>tf_messages := tf_messages f @ [v]\<rparr>) (d\<lparr>td_writes := 1\<rparr>)))
      in panel_spec c c' \<and> Q () c'"
      using assms(2,3) [of "core i d"]
      by (simp add: team_durable_def core_def Let_def team_files_def update_conv')
  qed
  show ?thesis
    unfolding AppendTeamMessage_def appendTeamRecordWithQuota_def assms(1)
    by (rule refines_next [OF refines_steady [OF steady_basic(3)]], rule refines_next [OF refines_steady [OF steady_basic(5)]],
        rule refines_next [OF refines_steady [OF steady_basic(3)]])
      (auto intro!: refines_if refines_fail append split: prod.split)
qed

lemma refines_commitContribution: "refines i P (commitContribution tx i turn output) (\<lambda>_ _. True)"
proof -
  have failed: "refines i P (fail_turn tx i t TurnFailed diagnostic cause) Q" for P t diagnostic Q and cause :: TeamError
    by (rule refines_fail_turn) simp
  define found where "found u ms = List.find (\<lambda>m. tm_turn_id m = tu_id u) ms" for u :: ParticipantTurnV1 and ms :: "TeamMessageV1 list"
  define mid where "mid u ms = (case found u ms of Some m \<Rightarrow> tm_id m | None \<Rightarrow> ''message-'' @ tu_id u)" for u ms
  have message: "refines i (\<lambda>c. (P c \<and> pc_turns c (tu_id turn) = Some u \<and> named i (tu_id turn) u) \<and> pc_messages c = ms)
      (case found u ms of Some _ \<Rightarrow> ret () | None \<Rightarrow> next_step team_now (\<lambda>now.
        AppendTeamMessage tx \<lparr>tm_schema_version = TeamSchemaVersion, tm_id = mid u ms, tm_team_id = i,
          tm_sequence = length ms + 1, tm_kind = MessageContribution, tm_actor = tu_participant_id u,
          tm_recipients = [], tm_turn_id = tu_id u, tm_content = content, tm_references = [],
          tm_created_at = now, tm_content_hash = digest\<rparr>))
      (\<lambda>_ c. named i (tu_id u) u \<and> pc_turns c (tu_id u) = Some u
        \<and> (\<exists>m \<in> set (pc_messages c). tm_turn_id m = tu_id u \<and> tm_id m = mid u ms))"
    if "tu_state u = TurnActive" for u ms content digest
  proof (cases "found u ms")
    case None
    then have fresh: "tu_id u \<notin> tm_turn_id ` set ms" by (auto simp: found_def find_None_iff)
    show ?thesis
      unfolding None option.case
      by (rule refines_now, rule refines_AppendTeamMessage) (use that fresh in \<open>auto intro!: spec_message simp: named_def\<close>)
  next
    case (Some m)
    then have "m \<in> set ms" "tm_turn_id m = tu_id u" by (auto simp: found_def find_Some_iff)
    with Some show ?thesis by (auto intro!: refines_ret simp: mid_def named_def)
  qed
  let ?v = "\<lambda>u mid done now. u\<lparr>tu_state := TurnResponded, tu_contribution := mid, tu_completed_at := Some done, tu_updated_at := now\<rparr>"
  have respond: "refines i (\<lambda>c. named i (tu_id u) u \<and> pc_turns c (tu_id u) = Some u
        \<and> (\<exists>m \<in> set (pc_messages c). tm_turn_id m = tu_id u \<and> tm_id m = mid))
      (WriteTeamTurn (?v u mid done now)) (\<lambda>_ c. tu_id u \<noteq> [] \<and> pc_turns c (tu_id (?v u mid done now)) = Some (?v u mid done now))"
    (is "refines i ?R _ _") if active: "tu_state u = TurnActive" for u mid "done" now
  proof (rule refines_pre [where A = "named i (tu_id u) u"], simp, rule refines_WriteTeamTurn)
    fix c :: PanelCore assume c: "?R c"
    show "panel_spec c (c\<lparr>pc_turns := (pc_turns c)(tu_id (?v u mid done now) \<mapsto> ?v u mid done now)\<rparr>)"
      by (rule spec_turn [where u = u]) (use c active in \<open>auto simp: turn_moves_def\<close>)
  qed (simp_all add: named_def)
  have settle: "refines i (\<lambda>c. tu_id u \<noteq> [] \<and> pc_turns c (tu_id (?v u mid done now)) = Some (?v u mid done now))
      (settle_turn tx i (?v u mid done now) (\<lambda>p. p\<lparr>pt_state := ParticipantResponded, pt_current_turn := tu_id u\<rparr>) summary) (\<lambda>_ _. True)"
    for u mid "done" now summary
    by (rule refines_pre, erule conjunct1, rule refines_weaken [OF refines_settle_turn]) (auto simp: outcome_def fun_eq_iff)
  note message' = message [unfolded mid_def found_def]
  show ?thesis
  proof (cases "tx_decode tx output")
    case (Inl e)
    then show ?thesis by (simp add: commitContribution_def failed)
  next
    case decoded: (Inr contribution)
    show ?thesis
    proof (cases "ValidateContribution contribution")
      case (Inl e)
      then show ?thesis by (simp add: commitContribution_def decoded failed)
    next
      case (Inr u)
      show ?thesis
        unfolding commitContribution_def decoded Inr sum.case Let_def
        by (rule refines_next [OF refines_turn], rule refines_if, rule refines_ret, simp, rule refines_next [OF refines_messages],
            rule refines_next [OF message'], simp, (rule refines_now)+, rule refines_next [OF respond], simp, rule settle)
    qed
  qed
qed

lemma refines_collect_output: "refines i P (collect_output tx i turn answer) (\<lambda>_ _. True)"
  unfolding collect_output_def
  by (auto intro!: refines_fail_turn refines_commitContribution split: sum.split)


definition lose :: "string set \<Rightarrow> ParticipantV1 list \<Rightarrow> ParticipantV1 list" where
  "lose X = change_where (\<lambda>p. pt_id p \<in> X) (\<lambda>p. p\<lparr>pt_state := ParticipantIndeterminate\<rparr>)"

lemma lose_lose: "lose X (lose Y ps) = lose (X \<union> Y) ps"
  by (auto simp: lose_def change_where_def)

lemma lose_none: "lose {} ps = ps"
  by (simp add: lose_def change_where_def)

lemma refines_cancel_turn:
  "refines i (\<lambda>c. pc_snapshot c = Some s) (cancel_turn svc i ps t) (\<lambda>r c. pc_snapshot c = Some s \<and> (\<exists>X. fst r = lose X ps))"
  (is "refines i ?P _ ?Q")
  unfolding cancel_turn_def Let_def
proof (rule refines_next [OF refines_turn], rule refines_turn_ids)
  fix u :: ParticipantTurnV1
  assume ids: "tu_team_id u = i" "tu_id u = t"
  let ?P' = "\<lambda>c. pc_snapshot c = Some s \<and> pc_turns c t = Some u"
  have move: "refines i ?P' (WriteTeamTurn v) (\<lambda>_. ?P)"
    if "tu_team_id v = i" "turn_moves (tu_state u) (tu_state v)" "tu_state v \<noteq> TurnResponded" "tu_id v = tu_id u"
      "tu_participant_id v = tu_participant_id u" for v
    using refines_move [of v i u ?P] that ids by (auto elim: refines_weaken)
  have same: "refines i P (ret (ps, active)) ?Q" if "\<And>c. P c \<Longrightarrow> ?P c" for P active
    by (rule refines_ret) (use that in \<open>auto intro: exI [of _ "{}"] simp: lose_none\<close>)
  have lost: "refines i ?P (next_step (update_participants i (\<lambda>p. pt_id p = tu_participant_id u)
         (\<lambda>p. p\<lparr>pt_state := ParticipantIndeterminate\<rparr>) ps) (\<lambda>qs. ret (qs, []))) ?Q"
    by (rule refines_next [OF refines_update_participants [where Q = "\<lambda>qs c. ?P c \<and> qs = lose {tu_participant_id u} ps"]])
      (auto intro!: refines_ret exI [of _ "{tu_participant_id u}"] simp: lose_def)
  show "refines i ?P' (if tu_state u = TurnActive \<or> tu_state u = TurnCancelling
     then next_step (attempt (ReadTeamExecution i t)) (\<lambda>handle. case handle of
         Inl e \<Rightarrow> if tu_state u = TurnCancelling \<and> e = TeamMissing ''execution.json'' then ret (ps, []) else fail e
       | Inr h \<Rightarrow>
           if tu_driver u \<notin> set (sv_drivers svc) then fail ErrCapabilityUnavailable
           else if tu_state u = TurnActive
           then next_step team_now (\<lambda>now. next_step (WriteTeamTurn (u\<lparr>tu_state := TurnCancelling, tu_updated_at := now\<rparr>))
             (\<lambda>_. ret (ps, [(u\<lparr>tu_state := TurnCancelling, tu_updated_at := now\<rparr>, h)])))
           else ret (ps, [(u, h)]))
     else if tu_state u = TurnPrepared
     then next_step team_now (\<lambda>now.
       next_step (WriteTeamTurn (u\<lparr>tu_state := TurnCancelling, tu_updated_at := now\<rparr>)) (\<lambda>_. ret (ps, [])))
     else if tu_state u = TurnDispatching
     then next_step team_now (\<lambda>now.
       next_step (WriteTeamTurn (u\<lparr>tu_state := TurnIndeterminate,
         tu_diagnostic := ''dispatching turn has no confirmed execution handle'', tu_updated_at := now\<rparr>)) (\<lambda>_.
       next_step (update_participants i (\<lambda>p. pt_id p = tu_participant_id u)
         (\<lambda>p. p\<lparr>pt_state := ParticipantIndeterminate\<rparr>) ps) (\<lambda>qs. ret (qs, []))))
     else ret (ps, [])) ?Q"
    by (intro refines_if refines_next [OF refines_steady [OF steady_attempt [OF steady_reads(5)]]])
      (auto intro!: same refines_fail refines_if refines_now refines_next [OF move] lost simp: ids turn_moves_def split: sum.split)
qed

lemma refines_cancel_turns:
  "refines i (\<lambda>c. pc_snapshot c = Some s) (cancel_turns svc i ps ids) (\<lambda>r c. pc_snapshot c = Some s \<and> (\<exists>X. fst r = lose X ps))"
proof (induction ids arbitrary: ps)
  case Nil
  show ?case by (auto intro!: refines_ret exI [of _ "{}"] simp: lose_none)
next
  case (Cons t ids)
  show ?case
  proof (simp add: split_def, rule refines_next [OF refines_cancel_turn])
    fix r :: "ParticipantV1 list \<times> (ParticipantTurnV1 \<times> ExplorationHandle) list"
    show "refines i (\<lambda>c. pc_snapshot c = Some s \<and> (\<exists>X. fst r = lose X ps))
       (next_step (cancel_turns svc i (fst r) ids) (\<lambda>p. ret (fst p, snd r @ snd p)))
       (\<lambda>r c. pc_snapshot c = Some s \<and> (\<exists>X. fst r = lose X ps))"
    proof (rule refines_pre [where A = "\<exists>X. fst r = lose X ps"], simp)
      assume "\<exists>X. fst r = lose X ps"
      then show "refines i (\<lambda>c. pc_snapshot c = Some s \<and> (\<exists>X. fst r = lose X ps))
         (next_step (cancel_turns svc i (fst r) ids) (\<lambda>p. ret (fst p, snd r @ snd p)))
         (\<lambda>r c. pc_snapshot c = Some s \<and> (\<exists>X. fst r = lose X ps))"
        by (auto intro!: refines_next [OF Cons.IH] refines_ret simp: lose_lose)
    qed
  qed
qed


lemma refines_cancel_recorded:
  assumes "ts_team_id s = i" "ta_team_id action = i"
  shows "refines i (\<lambda>c. pc_snapshot c = Some s) (cancel_recorded svc action s existing) (\<lambda>_ _. True)"
proof -
  let ?s = "\<lambda>ps now. s\<lparr>ts_participants := ps, ts_state := LifecycleCancelling, ts_state_version := ts_state_version s + 1,
     ts_updated_at := now\<rparr>"
  have commit: "refines i (\<lambda>c. pc_snapshot c = Some s \<and> (\<exists>X. ps = lose X (ts_participants s))) (WriteTeamSnapshot (?s ps now)) (\<lambda>_ _. True)"
    if "ts_state s \<notin> {LifecycleClosed, LifecycleCancelling}" for ps now
  proof (rule refines_WriteTeamSnapshot)
    fix c :: PanelCore assume "pc_snapshot c = Some s \<and> (\<exists>X. ps = lose X (ts_participants s))"
    then obtain X where "pc_snapshot c = Some s" "ps = lose X (ts_participants s)" by blast
    then show "panel_spec c (c\<lparr>pc_snapshot := Some (?s ps now)\<rparr>)"
      using that by (intro spec_cancelling) (auto simp: lose_def)
  qed (simp_all add: assms)
  show ?thesis
    unfolding cancel_recorded_def Let_def assms(2) split_def
    by (rule refines_if, rule refines_if, rule refines_fail, rule refines_steady_any, (intro steady_intros)[1],
        rule refines_next [OF refines_steady [OF steady_reads(6)]], rule refines_next [OF refines_cancel_turns],
        rule refines_if, rule refines_ret, simp, rule refines_now, rule refines_next [OF commit]) (auto intro: refines_ret)
qed

lemma steady_intent_count [steady_intros]: "steady (TeamMutationIntentCount i)"
  by (rule only_reads_steady) (rule only_reads_store)

lemma steady_record_intent: "steady (record_intent action digest snapshot known)"
  unfolding record_intent_def Let_def
  by (cases known) (simp_all only: option.case, (intro steady_intros)+)

lemma refines_cancel_begin:
  assumes "ta_team_id action = i"
  shows "refines i P (cancel_begin svc action) (\<lambda>_ _. True)"
proof -
  have recorded: "refines i P (next_step (ReadTeamSnapshot (sv_access svc) i) (\<lambda>snapshot.
      next_step (record_intent action digest snapshot known) (\<lambda>existing. cancel_recorded svc action snapshot existing))) (\<lambda>_ _. True)"
    for P digest known
  proof (rule refines_next [OF refines_snapshot], rule refines_pre)
    fix s :: TeamSessionV1
    show "\<And>c. P c \<and> pc_snapshot c = Some s \<and> ts_team_id s = i \<Longrightarrow> ts_team_id s = i" by simp
    assume "ts_team_id s = i"
    then have "refines i (\<lambda>c. P c \<and> pc_snapshot c = Some s \<and> ts_team_id s = i) (cancel_recorded svc action s existing) (\<lambda>_ _. True)"
      for existing by (rule refines_weaken [OF refines_cancel_recorded [OF _ assms]]) auto
    then show "refines i (\<lambda>c. P c \<and> pc_snapshot c = Some s \<and> ts_team_id s = i) (next_step (record_intent action digest s known)
        (\<lambda>existing. cancel_recorded svc action s existing)) (\<lambda>_ _. True)"
      by (rule refines_next [OF refines_steady [OF steady_record_intent]])
  qed
  show ?thesis
    unfolding cancel_begin_def Let_def assms
    by (rule refines_next [OF refines_steady [OF steady_basic(3)]], rule refines_if, rule refines_fail,
        rule refines_next [OF refines_steady [OF steady_attempt [OF steady_reads(7)]]])
      (auto intro!: refines_if refines_fail refines_ret recorded split: sum.split option.split)
qed

lemma refines_finish_turns:
  "refines i (\<lambda>c. pc_snapshot c = Some s) (finish_turns tx i ids) (\<lambda>_ c. pc_snapshot c = Some s)"
proof (induction ids)
  case Nil
  show ?case by (simp add: refines_ret)
next
  case (Cons t ids)
  have turn: "refines i (\<lambda>c. pc_snapshot c = Some s \<and> pc_turns c t = Some u \<and> named i t u)
      (if tu_state u = TurnCancelling then next_step team_now (\<lambda>now. WriteTeamTurn (u\<lparr>tu_state := TurnCancelled,
         tu_diagnostic := ''cancelled by Team action'', tu_completed_at := Some now, tu_updated_at := now\<rparr>)) else ret ())
      (\<lambda>_ c. pc_snapshot c = Some s)" for u
  proof (rule refines_turn_ids)
    assume ids: "tu_team_id u = i" "tu_id u = t"
    have "refines i (\<lambda>c. pc_snapshot c = Some s \<and> pc_turns c t = Some u) (WriteTeamTurn v) (\<lambda>_ c. pc_snapshot c = Some s)"
      if "tu_team_id v = i" "turn_moves (tu_state u) (tu_state v)" "tu_state v \<noteq> TurnResponded" "tu_id v = tu_id u"
        "tu_participant_id v = tu_participant_id u" for v
      using refines_move [of v i u "\<lambda>c. pc_snapshot c = Some s"] that ids by (auto elim: refines_weaken)
    then show "refines i (\<lambda>c. pc_snapshot c = Some s \<and> pc_turns c t = Some u)
      (if tu_state u = TurnCancelling then next_step team_now (\<lambda>now. WriteTeamTurn (u\<lparr>tu_state := TurnCancelled,
         tu_diagnostic := ''cancelled by Team action'', tu_completed_at := Some now, tu_updated_at := now\<rparr>)) else ret ())
      (\<lambda>_ c. pc_snapshot c = Some s)"
      by (intro refines_if refines_now) (auto intro!: refines_ret simp: ids turn_moves_def)
  qed
  show ?case
    by simp (rule refines_next [OF refines_turn], rule refines_next [OF turn], rule Cons.IH)
qed

lemma refines_cancel_finish:
  assumes "ta_team_id action = i"
  shows "refines i P (cancel_finish svc action plan) (\<lambda>_ _. True)"
  unfolding cancel_finish_def Let_def assms
proof (rule refines_next [OF refines_snapshot], rule refines_pre)
  fix s :: TeamSessionV1
  let ?P = "\<lambda>c. P c \<and> pc_snapshot c = Some s \<and> ts_team_id s = i"
  let ?ps = "change_where unsettled (\<lambda>p. p\<lparr>pt_state := ParticipantCancelled\<rparr>) (ts_participants s)"
  let ?s = "\<lambda>ps now. s\<lparr>ts_participants := ps, ts_state := LifecycleClosed, ts_close_reason := CloseCancelled,
           ts_state_version := ts_state_version s + 1, ts_updated_at := now\<rparr>"
  show "\<And>c. ?P c \<Longrightarrow> ts_team_id s = i" by simp
  assume i: "ts_team_id s = i"
  have commit: "refines i (\<lambda>c. pc_snapshot c = Some s \<and> ps = ?ps) (WriteTeamSnapshot (?s ps now)) (\<lambda>_ _. True)" for ps now
  proof (rule refines_WriteTeamSnapshot)
    fix c :: PanelCore assume c: "pc_snapshot c = Some s \<and> ps = ?ps"
    show "panel_spec c (c\<lparr>pc_snapshot := Some (?s ps now)\<rparr>)"
      by (rule spec_close) (use c in auto)
  qed (simp_all add: i)
  have participants: "refines i (\<lambda>c. pc_snapshot c = Some s) (update_participants i unsettled (\<lambda>p. p\<lparr>pt_state := ParticipantCancelled\<rparr>)
      (ts_participants s)) (\<lambda>ps c. pc_snapshot c = Some s \<and> ps = ?ps)"
    by (rule refines_update_participants) simp
  have finish: "refines i ?P (finish_turns (sv_access svc) i (cp_turns plan)) (\<lambda>_ c. pc_snapshot c = Some s)"
    by (rule refines_weaken [OF refines_finish_turns]) auto
  show "refines i ?P (next_step (finish_turns (sv_access svc) i (cp_turns plan)) (\<lambda>_.
     next_step (update_participants i unsettled (\<lambda>p. p\<lparr>pt_state := ParticipantCancelled\<rparr>) (ts_participants s)) (\<lambda>ps.
     next_step team_now (\<lambda>now. next_step (WriteTeamSnapshot (?s ps now)) (\<lambda>_.
     next_step (appendTeamEventLocked (sv_access svc) (?s ps now) EventTeamCancelled ''Team cancelled'' '''' '''') (\<lambda>_.
     next_step (WriteTeamActionIntent i (ta_action_id action) ((cp_intent plan)\<lparr>in_response := Some (action_response action (?s ps now))\<rparr>)) (\<lambda>_.
     ret (action_response action (?s ps now))))))))) (\<lambda>_ _. True)"
    by (rule refines_next [OF finish], rule refines_next [OF participants], rule refines_now, rule refines_next [OF commit])
      (intro refines_steady_any steady_intros)
qed

end
