(* ===== verification/Team_Runs.thy ===== *)
theory Team_Runs
  imports Team_Spec
begin

section \<open>Panels as they run: goroutines, stops and restarts\<close>

text \<open>
  The goroutines of one team, in the order in which they leave the mutex: a turn that a
  dispatch has listed, one whose launch has been decided, one whose driver has answered,
  one that is observed, one whose output is wanted, and a cancellation that waits for its
  drivers.
\<close>

datatype Goroutine =
    Listed string | Deciding ParticipantTurnV1 | Answered ParticipantTurnV1 StartAnswer
  | Watching ParticipantTurnV1 ExplorationHandle | Collecting ParticipantTurnV1 | AwaitingCancel TeamActionV1 CancelPlan

record PanelState =
  ps_disk :: TeamDisk
  ps_running :: "Goroutine list"
  ps_launches :: "string list"

definition next_goroutines :: "TurnNext \<Rightarrow> Goroutine list" where
  "next_goroutines r = (case r of
     Launch turn \<Rightarrow> [Deciding turn] | Observe turn h \<Rightarrow> [Watching turn h] | _ \<Rightarrow> [])"

definition spawned :: "('a \<Rightarrow> Goroutine list) \<Rightarrow> TeamError + 'a \<Rightarrow> Goroutine list" where
  "spawned f r = (case r of Inl _ \<Rightarrow> [] | Inr x \<Rightarrow> f x)"

text \<open>The part of \<^verbatim>\<open>DispatchInitial\<close> that holds the mutex.\<close>

definition dispatch_round :: "TeamService \<Rightarrow> string \<Rightarrow> string list team_step" where
  "dispatch_round svc i = next_step (prepareInitialTurnsLocked svc i) (\<lambda>_. ListTeamTurnIDs i)"

text \<open>
  One step runs one part to its end, to an error, or to the point where a durable step
  fails: \<open>w\<close> of them succeed. Any number of dispatches of the team may run; those of other
  teams do not touch its files. A launch calls the driver, which may answer anything.
  A goroutine may wait for ever, and the process may stop, at any time: both lose
  goroutines. \<open>requests\<close> are the cancellations that clients may send.
\<close>

inductive panel_step :: "TeamService \<Rightarrow> string \<Rightarrow> TeamActionV1 set \<Rightarrow> PanelState \<Rightarrow> PanelState \<Rightarrow> bool"
  for svc i requests where
  step_round: "dispatch_round svc i (d\<lparr>td_writes := w\<rparr>) = (r, d') \<Longrightarrow>
    panel_step svc i requests \<lparr>ps_disk = d, ps_running = gs, ps_launches = ls\<rparr>
      \<lparr>ps_disk = d', ps_running = gs @ spawned (map Listed) r, ps_launches = ls\<rparr>"
| step_begin: "dispatch_begin svc i t (d\<lparr>td_writes := w\<rparr>) = (r, d') \<Longrightarrow>
    panel_step svc i requests \<lparr>ps_disk = d, ps_running = gs @ Listed t # hs, ps_launches = ls\<rparr>
      \<lparr>ps_disk = d', ps_running = gs @ spawned next_goroutines r @ hs, ps_launches = ls\<rparr>"
| step_launch: "launch_request (sv_access svc) i turn d = (Inr request, d) \<Longrightarrow>
    panel_step svc i requests \<lparr>ps_disk = d, ps_running = gs @ Deciding turn # hs, ps_launches = ls\<rparr>
      \<lparr>ps_disk = d, ps_running = gs @ Answered turn answer # hs, ps_launches = tu_id turn # ls\<rparr>"
| step_settle: "dispatch_settle (sv_access svc) i turn answer (d\<lparr>td_writes := w\<rparr>) = (r, d') \<Longrightarrow>
    panel_step svc i requests \<lparr>ps_disk = d, ps_running = gs @ Answered turn answer # hs, ps_launches = ls\<rparr>
      \<lparr>ps_disk = d', ps_running = gs @ spawned next_goroutines r @ hs, ps_launches = ls\<rparr>"
| step_observe: "observe_answer (sv_access svc) i turn answer (d\<lparr>td_writes := w\<rparr>) = (r, d') \<Longrightarrow>
    panel_step svc i requests \<lparr>ps_disk = d, ps_running = gs @ Watching turn h # hs, ps_launches = ls\<rparr>
      \<lparr>ps_disk = d', ps_running = gs @ spawned (\<lambda>active. [if active then Watching turn h else Collecting turn]) r @ hs,
       ps_launches = ls\<rparr>"
| step_collect: "collect_output (sv_access svc) i turn output (d\<lparr>td_writes := w\<rparr>) = (r, d') \<Longrightarrow>
    panel_step svc i requests \<lparr>ps_disk = d, ps_running = gs @ Collecting turn # hs, ps_launches = ls\<rparr>
      \<lparr>ps_disk = d', ps_running = gs @ hs, ps_launches = ls\<rparr>"
| step_cancel: "action \<in> requests \<Longrightarrow> ta_team_id action = i \<Longrightarrow> cancel_begin svc action (d\<lparr>td_writes := w\<rparr>) = (r, d') \<Longrightarrow>
    panel_step svc i requests \<lparr>ps_disk = d, ps_running = gs, ps_launches = ls\<rparr>
      \<lparr>ps_disk = d', ps_running = gs @ spawned (\<lambda>x. case x of Inl _ \<Rightarrow> [] | Inr plan \<Rightarrow> [AwaitingCancel action plan]) r,
       ps_launches = ls\<rparr>"
| step_close: "ta_team_id action = i \<Longrightarrow> cancel_finish svc action plan (d\<lparr>td_writes := w\<rparr>) = (r, d') \<Longrightarrow>
    panel_step svc i requests \<lparr>ps_disk = d, ps_running = gs @ AwaitingCancel action plan # hs, ps_launches = ls\<rparr>
      \<lparr>ps_disk = d', ps_running = gs @ hs, ps_launches = ls\<rparr>"
| step_lose: "panel_step svc i requests \<lparr>ps_disk = d, ps_running = gs @ g # hs, ps_launches = ls\<rparr>
      \<lparr>ps_disk = d, ps_running = gs @ hs, ps_launches = ls\<rparr>"
| step_stop: "panel_step svc i requests \<lparr>ps_disk = d, ps_running = gs, ps_launches = ls\<rparr>
      \<lparr>ps_disk = d, ps_running = [], ps_launches = ls\<rparr>"

definition panel_start :: "TeamDisk \<Rightarrow> PanelState" where
  "panel_start d = \<lparr>ps_disk = d, ps_running = [], ps_launches = []\<rparr>"

abbreviation panel_reach :: "TeamService \<Rightarrow> string \<Rightarrow> TeamActionV1 set \<Rightarrow> PanelState \<Rightarrow> PanelState \<Rightarrow> bool" where
  "panel_reach svc i requests \<equiv> (panel_step svc i requests)\<^sup>*\<^sup>*"

subsection \<open>Every step refines the specification\<close>

lemma refines_round: "refines i P (dispatch_round svc i) (\<lambda>_. all_prepared)"
  unfolding dispatch_round_def
  by (rule refines_next [OF refines_prepareInitialTurnsLocked], rule refines_steady [OF steady_reads(6)])

lemma core_writes [simp]: "core i (d\<lparr>td_writes := w\<rparr>) = core i d"
  by (simp add: core_def team_files_def)

lemma refinesD:
  assumes "refines i (\<lambda>_. True) m Q" "m (d\<lparr>td_writes := w\<rparr>) = (r, d')"
  shows "panel_spec\<^sup>*\<^sup>* (core i d) (core i d')" "r = Inr x \<Longrightarrow> Q x (core i d')"
  using assms unfolding refines_def by (metis core_writes fst_conv snd_conv)+

lemma panel_step_refines: "panel_step svc i requests s s' \<Longrightarrow> panel_spec\<^sup>*\<^sup>* (core i (ps_disk s)) (core i (ps_disk s'))"
proof (induction rule: panel_step.induct)
  case step_round then show ?case by (simp add: refinesD(1) [OF refines_round])
next
  case step_begin then show ?case by (simp add: refinesD(1) [OF refines_dispatch_begin])
next
  case step_settle then show ?case by (simp add: refinesD(1) [OF refines_dispatch_settle])
next
  case step_observe then show ?case by (simp add: refinesD(1) [OF refines_observe_answer])
next
  case step_collect then show ?case by (simp add: refinesD(1) [OF refines_collect_output])
next
  case step_cancel then show ?case by (simp add: refinesD(1) [OF refines_cancel_begin])
next
  case step_close then show ?case by (simp add: refinesD(1) [OF refines_cancel_finish])
qed simp_all

lemma panel_reach_refines: "panel_reach svc i requests s s' \<Longrightarrow> panel_spec\<^sup>*\<^sup>* (core i (ps_disk s)) (core i (ps_disk s'))"
  by (induction rule: rtranclp_induct) (auto dest: panel_step_refines intro: rtranclp_trans)

subsection \<open>A turn that has begun\<close>

definition begun :: "PanelCore \<Rightarrow> string \<Rightarrow> bool" where
  "begun c t \<longleftrightarrow> (\<exists>u. pc_turns c t = Some u \<and> tu_state u \<noteq> TurnPrepared)"

lemma settled_state: "ts_state s = LifecycleClosed \<Longrightarrow> ts_mode s = ModePanel \<Longrightarrow> ts_state (fst (settleTerminalRound s b)) = LifecycleClosed"
  by (simp add: settleTerminalRound_def)

lemma settled_participants [simp]: "ts_participants (fst (settleTerminalRound s b)) = ts_participants s"
  by (simp add: settleTerminalRound_def)

lemma settled_mode [simp]: "ts_mode (fst (settleTerminalRound s b)) = ts_mode s"
  by (simp add: settleTerminalRound_def)

definition panel_mode :: "PanelCore \<Rightarrow> bool" where
  "panel_mode c \<longleftrightarrow> (\<forall>s. pc_snapshot c = Some s \<longrightarrow> ts_mode s = ModePanel)"

lemma change_where_set: "p \<in> set (change_where which change ps) \<Longrightarrow> \<exists>q \<in> set ps. p = q \<or> (which q \<and> p = change q)"
  by (auto simp: change_where_def)

lemma spec_keeps:
  assumes "panel_spec c c'" "panel_mode c"
  shows "panel_mode c'" "all_prepared c \<Longrightarrow> all_prepared c'" "all_prepared c \<Longrightarrow> begun c t \<Longrightarrow> begun c' t"
  using assms
proof (induction rule: panel_spec.induct)
  case (spec_settle c s u ps now)
  {
    case 1 then show ?case using spec_settle by (simp add: panel_mode_def)
  next
    case 2
    let ?s = "s\<lparr>ts_participants := ps, ts_state_version := ts_state_version s + 1, ts_updated_at := now\<rparr>"
    from 2 spec_settle(1) consider "ts_state s = LifecycleClosed" | "\<forall>p \<in> set (ts_participants s). pt_current_turn p \<noteq> ''''"
      by (auto simp: all_prepared_def)
    then show ?case
    proof cases
      case 1
      with 2 spec_settle(1) have "ts_state (fst (settleTerminalRound ?s (\<not> list_ex unsettled ps))) = LifecycleClosed"
        by (intro settled_state) (auto simp: panel_mode_def)
      then show ?thesis by (auto simp: all_prepared_def)
    next
      case 2
      then have "\<forall>p \<in> set ps. pt_current_turn p \<noteq> ''''"
        using spec_settle(3,5) by (auto simp: change_where_def outcome_def)
      then show ?thesis by (auto simp: all_prepared_def)
    qed
  next
    case 3 then show ?case by (simp add: begun_def)
  }
qed (auto simp: panel_mode_def all_prepared_def begun_def turn_moves_def assigned_current dest!: change_where_set)

lemma specs_keep:
  assumes "panel_spec\<^sup>*\<^sup>* c c'" "panel_mode c"
  shows "panel_mode c'" "all_prepared c \<Longrightarrow> all_prepared c'" "all_prepared c \<Longrightarrow> begun c t \<Longrightarrow> begun c' t"
  using assms
  by (induction rule: rtranclp_induct) (auto dest: spec_keeps)

subsection \<open>A turn is launched at most once\<close>

definition deciding :: "Goroutine list \<Rightarrow> string list" where
  "deciding gs = concat (map (\<lambda>g. case g of Deciding turn \<Rightarrow> [tu_id turn] | _ \<Rightarrow> []) gs)"

lemma deciding_simps [simp]:
  "deciding [] = []" "deciding (gs @ hs) = deciding gs @ deciding hs"
  "deciding (Deciding turn # gs) = tu_id turn # deciding gs" "deciding (Listed t # gs) = deciding gs"
  "deciding (Answered turn a # gs) = deciding gs" "deciding (Watching turn h # gs) = deciding gs"
  "deciding (Collecting turn # gs) = deciding gs" "deciding (AwaitingCancel action plan # gs) = deciding gs"
  by (simp_all add: deciding_def)

lemma deciding_listed [simp]: "deciding (map Listed ts) = []"
  by (induction ts) simp_all

definition launched_once :: "string \<Rightarrow> PanelState \<Rightarrow> bool" where
  "launched_once i s \<longleftrightarrow> panel_mode (core i (ps_disk s)) \<and> distinct (ps_launches s @ deciding (ps_running s))
     \<and> (\<forall>t \<in> set (ps_launches s) \<union> set (deciding (ps_running s)). all_prepared (core i (ps_disk s)) \<and> begun (core i (ps_disk s)) t)
     \<and> (\<forall>t. Listed t \<in> set (ps_running s) \<longrightarrow> all_prepared (core i (ps_disk s)))"

lemma dispatch_begin_launch:
  assumes "dispatch_begin svc i t d = (Inr (Launch v), d')"
  shows "\<not> begun (core i d) t"
proof -
  obtain u where "map_of (tf_turns (team_files d i)) t = Some u" "tu_state u = TurnPrepared"
    using assms
    by (auto simp: dispatch_begin_def Let_def next_Inr ReadTeamTurn_Inr fail_turn_def basic_Inr split: if_splits sum.splits)
      (metis sum.exhaust)
  then show ?thesis by (simp add: begun_def core_def Let_def)
qed


lemma dispatch_settle_next: "dispatch_settle tx i turn answer d = (Inr r, d') \<Longrightarrow> r \<noteq> Launch v"
  by (auto simp: dispatch_settle_def Let_def next_Inr fail_turn_def basic_Inr split: StartAnswer.splits option.splits if_splits sum.splits)

lemma launched_once_core:
  assumes "launched_once i s" "panel_spec\<^sup>*\<^sup>* (core i (ps_disk s)) (core i d')"
    "distinct (ls @ deciding gs)" "set (ls @ deciding gs) \<subseteq> set (ps_launches s @ deciding (ps_running s)) \<union> {t. all_prepared (core i d') \<and> begun (core i d') t}"
    "\<And>t. Listed t \<in> set gs \<Longrightarrow> Listed t \<in> set (ps_running s) \<or> all_prepared (core i d')"
  shows "launched_once i \<lparr>ps_disk = d', ps_running = gs, ps_launches = ls\<rparr>"
proof -
  have mode: "panel_mode (core i (ps_disk s))" using assms(1) by (simp add: launched_once_def)
  note keep = specs_keep [OF assms(2) mode]
  show ?thesis
    unfolding launched_once_def
    using assms(1,3-5) keep unfolding launched_once_def by (simp; blast)
qed

lemma panel_step_launched_once:
  "panel_step svc i requests s s' \<Longrightarrow> launched_once i s \<Longrightarrow> launched_once i s'"
proof (induction rule: panel_step.induct)
  case (step_round w d r d' gs ls)
  have "all_prepared (core i d')" if "r = Inr ids" for ids
    using refinesD(2) [OF refines_round step_round.hyps that] .
  then show ?case
    by (intro launched_once_core [OF step_round.prems])
      (use step_round refinesD(1) [OF refines_round step_round.hyps] in
        \<open>auto simp: spawned_def launched_once_def split: sum.splits\<close>)
next
  case (step_begin t w d r d' gs hs ls)
  note spec = refinesD [OF refines_dispatch_begin step_begin.hyps]
  have prepared: "all_prepared (core i d)" and mode: "panel_mode (core i d)"
    using step_begin.prems by (auto simp: launched_once_def)
  have new: "tu_id v \<notin> set (ls @ deciding (gs @ hs)) \<and> all_prepared (core i d') \<and> begun (core i d') (tu_id v)" if "r = Inr (Launch v)" for v
  proof -
    have "tu_id v = t" "begun (core i d') t"
      using spec(2) [OF that] by (auto simp: begun_def)
    moreover have "\<not> begun (core i d) t"
      using dispatch_begin_launch [of svc i t "d\<lparr>td_writes := w\<rparr>" v d'] step_begin.hyps that by simp
    ultimately show ?thesis
      using step_begin.prems specs_keep(2) [OF spec(1) mode prepared] by (auto simp: launched_once_def)
  qed
  have gs: "deciding (spawned next_goroutines r) = (case r of Inr (Launch v) \<Rightarrow> [tu_id v] | _ \<Rightarrow> [])"
    by (auto simp: spawned_def next_goroutines_def split: sum.split TurnNext.split)
  have "Listed x \<notin> set (spawned next_goroutines r)" for x
    by (auto simp: spawned_def next_goroutines_def split: sum.split TurnNext.split)
  then show ?case
    by (intro launched_once_core [OF step_begin.prems]) 
      (use step_begin.prems spec(1) new gs in \<open>auto simp: launched_once_def split: sum.splits TurnNext.splits\<close>)
next
  case (step_launch turn d request gs hs ls answer)
  then show ?case
    by (intro launched_once_core [OF step_launch.prems]) (auto simp: launched_once_def)
next
  case (step_settle turn answer w d r d' gs hs ls)
  then have "deciding (spawned next_goroutines r) = []" "Listed t \<notin> set (spawned next_goroutines r)" for t
    using dispatch_settle_next [of "sv_access svc" i turn answer "d\<lparr>td_writes := w\<rparr>" _ d']
    by (auto simp: spawned_def next_goroutines_def split: sum.split TurnNext.split)
  then show ?case
    by (intro launched_once_core [OF step_settle.prems])
      (use step_settle in \<open>auto simp: launched_once_def refinesD(1) [OF refines_dispatch_settle]\<close>)
next
  case (step_observe turn answer w d r d' gs h hs ls)
  then show ?case
    by (intro launched_once_core [OF step_observe.prems])
      (auto simp: launched_once_def spawned_def refinesD(1) [OF refines_observe_answer] split: sum.splits)
next
  case (step_collect turn answer w d r d' gs hs ls)
  then show ?case
    by (intro launched_once_core [OF step_collect.prems])
      (auto simp: launched_once_def refinesD(1) [OF refines_collect_output])
next
  case (step_cancel action w d r d' gs ls)
  then show ?case
    by (intro launched_once_core [OF step_cancel.prems])
      (auto simp: launched_once_def spawned_def refinesD(1) [OF refines_cancel_begin] split: sum.splits)
next
  case (step_close action plan w d r d' gs hs ls)
  then show ?case
    by (intro launched_once_core [OF step_close.prems])
      (auto simp: launched_once_def refinesD(1) [OF refines_cancel_finish])
next
  case (step_lose d gs g hs ls)
  then show ?case
    by (intro launched_once_core [OF step_lose.prems]) (cases g; auto simp: launched_once_def)+
next
  case (step_stop d gs ls)
  then show ?case
    by (intro launched_once_core [OF step_stop.prems]) (auto simp: launched_once_def)
qed


subsection \<open>Contributions and the end of a panel\<close>

definition answered :: "PanelCore \<Rightarrow> string \<Rightarrow> bool" where
  "answered c t \<longleftrightarrow> t \<in> tm_turn_id ` set (pc_messages c)"

definition contributions_ok :: "PanelCore \<Rightarrow> bool" where
  "contributions_ok c \<longleftrightarrow> panel_mode c \<and> distinct (map tm_turn_id (pc_messages c))
     \<and> map tm_sequence (pc_messages c) = [1..<length (pc_messages c) + 1]
     \<and> (\<forall>t u. pc_turns c t = Some u \<longrightarrow> tu_id u = t \<and> (tu_state u = TurnResponded \<longrightarrow> answered c t))
     \<and> (\<forall>s. pc_snapshot c = Some s \<longrightarrow>
          (\<forall>p \<in> set (ts_participants s). pt_state p = ParticipantResponded \<longrightarrow> answered c (pt_current_turn p))
        \<and> (ts_state s = LifecycleClosed \<longrightarrow> \<not> list_ex unsettled (ts_participants s)))"

lemma contributions_snapshot:
  assumes "contributions_ok c" "pc_snapshot c = Some s" "ts_mode s' = ts_mode s"
    "\<And>p. p \<in> set (ts_participants s') \<Longrightarrow> pt_state p = ParticipantResponded \<Longrightarrow> p \<in> set (ts_participants s) \<or> answered c (pt_current_turn p)"
    "ts_state s' = LifecycleClosed \<Longrightarrow> \<not> list_ex unsettled (ts_participants s')"
  shows "contributions_ok (c\<lparr>pc_snapshot := Some s'\<rparr>)"
proof -
  have "answered c (pt_current_turn p)" if "p \<in> set (ts_participants s')" "pt_state p = ParticipantResponded" for p
    using assms(4) [OF that] assms(1,2) that(2) by (auto simp: contributions_ok_def)
  then show ?thesis
    using assms(1-3,5) unfolding contributions_ok_def panel_mode_def answered_def by simp
qed

lemma contributions_turn:
  assumes "contributions_ok c" "tu_state v = TurnResponded \<Longrightarrow> answered c (tu_id v)"
  shows "contributions_ok (c\<lparr>pc_turns := (pc_turns c)(tu_id v \<mapsto> v)\<rparr>)"
  using assms by (auto simp: contributions_ok_def panel_mode_def answered_def)

lemma not_unsettled_change:
  "(\<And>p. which p \<Longrightarrow> \<not> unsettled (change p)) \<Longrightarrow> \<not> list_ex unsettled ps \<Longrightarrow> \<not> list_ex unsettled (change_where which change ps)"
  by (auto simp: change_where_def list_ex_iff)

lemma failed_not_responded: "failed_participant state \<noteq> ParticipantResponded"
  by (simp add: failed_participant_def)

lemma outcome_settled: "\<not> unsettled (outcome u p)"
  by (auto simp: outcome_def unsettled_def failed_participant_def)

lemma settled_closed: "ts_state (fst (settleTerminalRound s b)) = LifecycleClosed \<Longrightarrow> ts_state s = LifecycleClosed \<or> b"
  by (auto simp: settleTerminalRound_def split: if_splits)

lemma spec_contributions: "panel_spec c c' \<Longrightarrow> contributions_ok c \<Longrightarrow> contributions_ok c'"
proof (induction rule: panel_spec.induct)
  case (spec_prepare c s p v)
  then show ?case by (intro contributions_turn) simp_all
next
  case (spec_assign c s now)
  then show ?case
    by (intro contributions_snapshot) (auto simp: assigned_def split: if_splits)
next
  case (spec_turn c v u)
  have "answered c (tu_id v)" if "tu_state v = TurnResponded"
    using spec_turn.hyps(4) [OF that] unfolding answered_def by (metis image_eqI)
  then show ?case using spec_turn.prems by (intro contributions_turn)
next
  case (spec_message c m u)
  then show ?case by (auto simp: contributions_ok_def panel_mode_def answered_def upt_Suc_append)
next
  case (spec_settle c s u ps now)
  have answered: "tu_state u = TurnResponded \<Longrightarrow> answered c (tu_id u)"
    using spec_settle.hyps(2) spec_settle.prems unfolding contributions_ok_def by blast
  show ?case
  proof (rule contributions_snapshot [OF spec_settle.prems spec_settle.hyps(1)])
    fix p assume "p \<in> set (ts_participants (fst (settleTerminalRound (s\<lparr>ts_participants := ps,
        ts_state_version := ts_state_version s + 1, ts_updated_at := now\<rparr>) (\<not> list_ex unsettled ps))))"
      "pt_state p = ParticipantResponded"
    then show "p \<in> set (ts_participants s) \<or> answered c (pt_current_turn p)"
      using answered spec_settle.hyps(5)
      by (auto simp: change_where_def outcome_def failed_not_responded split: if_splits)
  next
    assume "ts_state (fst (settleTerminalRound (s\<lparr>ts_participants := ps, ts_state_version := ts_state_version s + 1,
        ts_updated_at := now\<rparr>) (\<not> list_ex unsettled ps))) = LifecycleClosed"
    then have "ts_state s = LifecycleClosed \<or> \<not> list_ex unsettled ps" by (auto dest: settled_closed)
    moreover have "\<not> list_ex unsettled ps" if "ts_state s = LifecycleClosed"
      unfolding spec_settle.hyps(5)
      by (rule not_unsettled_change) (use that spec_settle.prems spec_settle.hyps(1) in \<open>simp_all add: outcome_settled contributions_ok_def\<close>)
    ultimately show "\<not> list_ex unsettled (ts_participants (fst (settleTerminalRound (s\<lparr>ts_participants := ps,
        ts_state_version := ts_state_version s + 1, ts_updated_at := now\<rparr>) (\<not> list_ex unsettled ps))))"
      by auto
  qed simp
next
  case (spec_cancelling c s ps which now)
  then show ?case by (intro contributions_snapshot) (auto simp: change_where_def)
next
  case (spec_close c s ps now)
  then show ?case
    by (intro contributions_snapshot) (auto simp: change_where_def list_ex_iff unsettled_def)
qed

lemma specs_contributions: "panel_spec\<^sup>*\<^sup>* c c' \<Longrightarrow> contributions_ok c \<Longrightarrow> contributions_ok c'"
  by (induction rule: rtranclp_induct) (auto intro: spec_contributions)

text \<open>What \<^verbatim>\<open>Start\<close> leaves of a panel.\<close>

definition new_panel :: "PanelCore \<Rightarrow> bool" where
  "new_panel c \<longleftrightarrow> pc_turns c = Map.empty \<and> pc_messages c = [] \<and> (\<exists>s. pc_snapshot c = Some s \<and> ts_mode s = ModePanel
     \<and> ts_state s = LifecycleCreated \<and> (\<forall>p \<in> set (ts_participants s). pt_state p = ParticipantPending \<and> pt_current_turn p = ''''))"

lemma new_panel_ok: "new_panel c \<Longrightarrow> contributions_ok c"
  by (auto simp: new_panel_def contributions_ok_def panel_mode_def)


subsection \<open>A panel in which nothing can happen any more\<close>

text \<open>\<open>leaves i c m Q\<close>: on files with the core \<open>c\<close> the step keeps the core and returns only values in \<open>Q\<close>.\<close>

definition leaves :: "string \<Rightarrow> PanelCore \<Rightarrow> 'a team_step \<Rightarrow> ('a \<Rightarrow> bool) \<Rightarrow> bool" where
  "leaves i c m Q \<longleftrightarrow> (\<forall>d. core i d = c \<longrightarrow> core i (snd (m d)) = c \<and> (\<forall>x. fst (m d) = Inr x \<longrightarrow> Q x))"

lemma leaves_next: "leaves i c m Q \<Longrightarrow> (\<And>x. Q x \<Longrightarrow> leaves i c (k x) R) \<Longrightarrow> leaves i c (next_step m k) R"
  unfolding leaves_def next_step_def
  by (auto split: prod.split sum.split)

lemma leaves_ret: "Q x \<Longrightarrow> leaves i c (ret x) Q"
  by (simp add: leaves_def ret_def)

lemma leaves_fail: "leaves i c (fail e) Q"
  by (simp add: leaves_def fail_def)

lemma leaves_steady: "steady m \<Longrightarrow> leaves i c m (\<lambda>_. True)"
  by (simp add: leaves_def steady_def)

lemma leaves_ignore: "leaves i c m Q \<Longrightarrow> leaves i c (ignore_error m) (\<lambda>_. True)"
  by (simp add: leaves_def ignore_error_def)

lemma leaves_read: "only_reads m \<Longrightarrow> (\<And>d x. m d = (Inr x, d) \<Longrightarrow> core i d = c \<Longrightarrow> Q x) \<Longrightarrow> leaves i c m Q"
  unfolding leaves_def only_reads_def by (metis prod.collapse)

lemma leaves_snapshot: "leaves i c (ReadTeamSnapshot tx i) (\<lambda>s. pc_snapshot c = Some s)"
  by (rule leaves_read) (auto intro: reading_intros simp: ReadTeamSnapshot_Inr core_def Let_def)

lemma leaves_turn: "leaves i c (ReadTeamTurn tx i t) (\<lambda>u. pc_turns c t = Some u)"
  by (rule leaves_read) (auto intro: reading_intros simp: ReadTeamTurn_Inr core_def Let_def)

definition turn_ended :: "string \<Rightarrow> bool" where
  "turn_ended state \<longleftrightarrow> state \<in> {TurnResponded, TurnFailed, TurnIndeterminate, TurnCancelled}"

definition idle :: "PanelCore \<Rightarrow> bool" where
  "idle c \<longleftrightarrow> (\<forall>t u. pc_turns c t = Some u \<longrightarrow> turn_ended (tu_state u))
     \<and> (\<forall>s. pc_snapshot c = Some s \<longrightarrow> (\<forall>p \<in> set (ts_participants s). pt_current_turn p \<noteq> ''''))"

lemma idle_turn: "idle c \<Longrightarrow> pc_turns c t = Some u \<Longrightarrow> turn_ended (tu_state u)"
  by (simp add: idle_def)

lemma idle_participants: "idle c \<Longrightarrow> pc_snapshot c = Some s \<Longrightarrow> \<forall>p \<in> set (ts_participants s). pt_current_turn p \<noteq> []"
  by (simp add: idle_def)

lemma leaves_mark: "idle c \<Longrightarrow> leaves i c (markTurnFailureLocked tx i t state diagnostic) (\<lambda>_. True)"
  unfolding markTurnFailureLocked_def
  by (rule leaves_next [OF leaves_turn]) (auto simp: turn_ended_def intro!: leaves_ret dest!: idle_turn)

lemma leaves_fail_turn: "idle c \<Longrightarrow> leaves i c (fail_turn tx i t state diagnostic cause) Q"
  unfolding fail_turn_def by (rule leaves_next [OF leaves_ignore [OF leaves_mark]]) (auto intro: leaves_fail)

lemma leaves_dispatch_begin: "idle c \<Longrightarrow> leaves i c (dispatch_begin svc i t) (\<lambda>r. r = Finished)"
  unfolding dispatch_begin_def Let_def
  by (rule leaves_next [OF leaves_turn])
    (use idle_turn in \<open>fastforce simp: turn_ended_def intro!: leaves_ret leaves_fail_turn\<close>)

lemma leaves_prepare_turns:
  "\<forall>p \<in> set ps. pt_current_turn p \<noteq> '''' \<Longrightarrow> leaves i c (prepare_turns tx catalog now s cum ps) (\<lambda>r. \<not> snd r)"
proof (induction ps arbitrary: cum)
  case Nil
  then show ?case by (simp add: leaves_ret)
next
  case (Cons p ps)
  then have "leaves i c (prepare_turns tx catalog now s cum ps) (\<lambda>r. \<not> snd r)" for cum by simp
  then show ?case
    using Cons.prems by (auto simp: split_def intro!: leaves_next [OF leaves_steady [OF steady_reads(2)]] leaves_next leaves_ret)
qed

lemma leaves_round: "idle c \<Longrightarrow> leaves i c (dispatch_round svc i) (\<lambda>_. True)"
  unfolding dispatch_round_def prepareInitialTurnsLocked_def
  by (rule leaves_next [where Q = "\<lambda>_. True"], rule leaves_next [OF leaves_snapshot])
    (auto simp: split_def dest: idle_participants intro!: leaves_ret leaves_fail leaves_next [OF leaves_steady [OF steady_basic(4)]]
      leaves_next [OF leaves_prepare_turns] leaves_steady [OF steady_reads(6)] split: option.split)

lemma leavesD:
  assumes "leaves i (core i d) m Q" "m (d\<lparr>td_writes := w\<rparr>) = (r, d')"
  shows "core i d' = core i d" "r = Inr x \<Longrightarrow> Q x"
  using assms unfolding leaves_def by (metis core_writes fst_conv snd_conv)+

text \<open>Without a request to cancel it, an idle panel stays as it is.\<close>

definition only_listed :: "PanelState \<Rightarrow> bool" where
  "only_listed s \<longleftrightarrow> (\<forall>g \<in> set (ps_running s). \<exists>t. g = Listed t) \<and> ps_launches s = []"

lemma panel_step_idle:
  "panel_step svc i {} s s' \<Longrightarrow> idle (core i (ps_disk s)) \<Longrightarrow> only_listed s \<Longrightarrow>
     core i (ps_disk s') = core i (ps_disk s) \<and> only_listed s'"
proof (induction rule: panel_step.induct)
  case (step_round w d r d' gs ls)
  then show ?case
    using leavesD(1) [OF leaves_round step_round.hyps]
    by (auto simp: only_listed_def spawned_def split: sum.split)
next
  case (step_begin t w d r d' gs hs ls)
  then have idle: "idle (core i d)" by simp
  have "spawned next_goroutines r = []"
    using leavesD(2) [OF leaves_dispatch_begin [OF idle] step_begin.hyps]
    by (cases r) (auto simp: spawned_def next_goroutines_def)
  then show ?case
    using step_begin leavesD(1) [OF leaves_dispatch_begin [OF idle] step_begin.hyps]
    by (simp add: only_listed_def)
qed (auto simp: only_listed_def)

lemma panel_reach_idle:
  assumes "panel_reach svc i {} (panel_start d) s" "idle (core i d)"
  shows "core i (ps_disk s) = core i d \<and> only_listed s"
  using assms(1)
proof (induction rule: rtranclp_induct)
  case base
  show ?case by (simp add: panel_start_def only_listed_def)
next
  case (step s s')
  then show ?case using panel_step_idle [OF step.hyps(2)] assms(2) by auto
qed

end
