(* ===== verification/Team_Settlement.thy ===== *)
theory Team_Settlement
  imports Team_Runs
begin

section \<open>Settling the last turn of a panel\<close>

text \<open>
  The end of a turn is three durable steps: the turn, its participant and the snapshot.
  The lemmas follow the last turn of a panel through them.
\<close>

subsection \<open>What is written is valid\<close>

lemma cut_invalid_length: "length (cut_invalid s) \<le> length s"
proof (induction s rule: cut_invalid.induct)
  case (1 s)
  then show ?case by (subst cut_invalid.simps) (auto intro: order_trans)
qed

lemma boundedDiagnostic_length: "length (boundedDiagnostic s) \<le> MaxWarningBytes"
  using cut_invalid_length [of "take MaxWarningBytes s"] by (simp add: boundedDiagnostic_def)

lemma validTurnState_all:
  "state \<in> {TurnPrepared, TurnDispatching, TurnActive, TurnResponded, TurnFailed, TurnIndeterminate, TurnCancelling, TurnCancelled}
     \<Longrightarrow> validTurnState state"
  by (auto simp: validTurnState_def)

lemma ex_unit: "(\<exists>u :: unit. P u) \<longleftrightarrow> P ()"
  by (metis (full_types) unit.exhaust)

lemma ValidateParticipantTurn_iff:
  "ValidateParticipantTurn v = Inr () \<longleftrightarrow> tu_schema_version v = TeamSchemaVersion
     \<and> each_ok (\<lambda>(name, field). validateID_tc name field)
        [(''teamId'', tu_team_id v), (''participantId'', tu_participant_id v), (''turnId'', tu_id v),
         (''driver'', tu_driver v), (''target'', tu_target v), (''modelId'', tu_model_id v)] = Inr ()
     \<and> \<not> (tu_number v < 1 \<or> tu_number v > MaxParticipantTurns) \<and> validTurnState (tu_state v)
     \<and> ValidateUsage (tu_usage v) = Inr () \<and> \<not> (length (tu_handle v) > 0 \<and> \<not> json_valid (tu_handle v))
     \<and> \<not> length (tu_handle v) > MaxExecutionHandleBytes
     \<and> (if tu_contribution v \<noteq> '''' then validateID_tc ''contributionMessageId'' (tu_contribution v) else Inr ()) = Inr ()
     \<and> \<not> length (tu_diagnostic v) > MaxWarningBytes"
  unfolding ValidateParticipantTurn_def
  by (simp only: res_simps ex_unit not_not simp_thms)

lemma failed_turn_valid:
  assumes "ValidateParticipantTurn u = Inr ()" "validTurnState state"
  shows "ValidateParticipantTurn (u\<lparr>tu_state := state, tu_diagnostic := boundedDiagnostic diagnostic, tu_updated_at := now\<rparr>) = Inr ()"
proof -
  have "\<not> length (boundedDiagnostic diagnostic) > MaxWarningBytes"
    using boundedDiagnostic_length [of diagnostic] by simp
  then show ?thesis
    using assms by (auto simp: ValidateParticipantTurn_iff simp del: each_ok_iff each_ok.simps split: if_splits)
qed

lemma participant_state_valid:
  assumes "ValidateParticipant p = Inr ()" "validParticipantState state"
  shows "ValidateParticipant (p\<lparr>pt_state := state\<rparr>) = Inr ()"
  using assms unfolding ValidateParticipant_def
  by (auto split: sum.splits if_splits)

lemma failed_participant_valid: "validParticipantState (failed_participant state)"
  by (simp add: failed_participant_def validParticipantState_def)

lemma check_participants_map:
  assumes "\<And>p. p \<in> set ps \<Longrightarrow> pt_id (f p) = pt_id p \<and> pt_model_id (f p) = pt_model_id p"
    "\<And>p. p \<in> set ps \<Longrightarrow> ValidateParticipant p = Inr () \<Longrightarrow> ValidateParticipant (f p) = Inr ()"
    "check_participants ids models ps = Inr ()"
  shows "check_participants ids models (map f ps) = Inr ()"
  using assms by (induction ids models ps rule: check_participants.induct) (auto split: sum.splits if_splits)

lemma check_participants_valid: "check_participants ids models ps = Inr () \<Longrightarrow> p \<in> set ps \<Longrightarrow> ValidateParticipant p = Inr ()"
  by (induction ids models ps rule: check_participants.induct) (auto split: sum.splits if_splits)

lemma check_participants_distinct:
  "check_participants ids models ps = Inr () \<Longrightarrow> distinct (map pt_id ps) \<and> set ids \<inter> pt_id ` set ps = {}"
  by (induction ids models ps rule: check_participants.induct) (auto split: sum.splits if_splits)

lemma ValidateTeamSession_iff:
  "ValidateTeamSession v = Inr () \<longleftrightarrow> ts_schema_version v = TeamSchemaVersion \<and> validateID_tc ''teamId'' (ts_team_id v) = Inr ()
     \<and> validateID_tc ''clientRequestId'' (ts_client_request_id v) = Inr () \<and> validHash (ts_request_hash v)
     \<and> validateBounded (ts_project v) MaxProjectBytes ''project'' = Inr () \<and> validateMode (ts_mode v) = Inr ()
     \<and> validateBounded (ts_topic v) MaxTopicBytes ''topic'' = Inr ()
     \<and> validateBounded (ts_instructions v) MaxInstructionsBytes ''instructions'' = Inr () \<and> validHash (ts_catalog_hash v)
     \<and> \<not> (length (ts_participants v) < MinParticipants \<or> length (ts_participants v) > MaxParticipants)
     \<and> ts_state_version v \<noteq> 0
     \<and> \<not> (ts_cost_grant v < 1 \<or> ts_cost_grant v > MaxCostGrant \<or> ts_cost_used v < 0 \<or> ts_cost_used v > ts_cost_grant v)
     \<and> validLifecycle (ts_state v) \<and> \<not> (ts_state v = LifecycleClosed \<and> \<not> validCloseReason (ts_close_reason v))
     \<and> \<not> (ts_state v \<noteq> LifecycleClosed \<and> ts_close_reason v \<noteq> '''') \<and> check_participants [] [] (ts_participants v) = Inr ()"
  unfolding ValidateTeamSession_def
  by (simp only: res_simps ex_unit not_not simp_thms)

lemma settled_session_valid:
  assumes "ValidateTeamSession s = Inr ()" "ts_mode s = ModePanel" "length ps = length (ts_participants s)"
    "check_participants [] [] ps = Inr ()"
  shows "ValidateTeamSession (fst (settleTerminalRound (s\<lparr>ts_participants := ps, ts_state_version := v + 1, ts_updated_at := now\<rparr>) b)) = Inr ()"
  using assms
  by (cases b) (simp_all add: ValidateTeamSession_iff settleTerminalRound_def validLifecycle_def validCloseReason_def)

subsection \<open>Counting durable steps\<close>

lemma update_participants_writes:
  "update_participants i which change ps d = (Inr qs, d') \<Longrightarrow> td_writes d' + length (filter which ps) = td_writes d"
proof (induction ps arbitrary: d qs d')
  case Nil
  then show ?case by (simp add: basic_Inr)
next
  case (Cons p ps)
  then show ?case
    by (fastforce simp: next_Inr basic_Inr WriteTeamParticipant_def team_durable_Inr split: if_splits)
qed

lemma update_participants_succeed:
  assumes "safeID i" "\<And>p. p \<in> set ps \<Longrightarrow> which p \<Longrightarrow> ValidateParticipant (change p) = Inr ()" "length (filter which ps) \<le> td_writes d"
  obtains d' where "update_participants i which change ps d = (Inr (change_where which change ps), d')"
proof -
  have "\<exists>d'. update_participants i which change ps d = (Inr (change_where which change ps), d')"
    using assms(2,3)
  proof (induction ps arbitrary: d)
    case Nil
    then show ?case by (simp add: ret_def change_where_def)
  next
    case (Cons p ps)
    let ?d = "d\<lparr>td_teams := AList.update i ((team_files d i)\<lparr>tf_participants := AList.update (pt_id (change p)) (change p)
        (tf_participants (team_files d i))\<rparr>) (td_teams d), td_writes := td_writes d - 1\<rparr>"
    show ?case
    proof (cases "which p")
      case True
      then have "WriteTeamParticipant (change p) i d = (Inr (), ?d)"
        using Cons.prems assms(1) by (auto simp: WriteTeamParticipant_def next_Inr basic_Inr team_durable_Inr)
      moreover obtain d' where "update_participants i which change ps ?d = (Inr (change_where which change ps), d')"
        using Cons.IH [of ?d] Cons.prems True by (auto simp: le_diff_conv2 Suc_le_eq)
      ultimately show ?thesis using True by (auto simp: next_step_def change_where_def ret_def)
    next
      case False
      obtain d' where "update_participants i which change ps d = (Inr (change_where which change ps), d')"
        using Cons.IH [of d] Cons.prems False by auto
      then show ?thesis using False by (auto simp: next_step_def change_where_def ret_def)
    qed
  qed
  then show thesis using that by blast
qed

lemma steady_core: "steady m \<Longrightarrow> m d = (r, d') \<Longrightarrow> core i d' = core i d"
  by (metis snd_conv steady_def)

lemma steady_update_participants: "steady (update_participants i which change ps)"
  by (induction ps) (auto intro!: steady_intros)


subsection \<open>The three steps\<close>

lemma mark_writes_turn:
  assumes "ReadTeamTurn tx i t d = (Inr u, d)" "tu_state u \<in> {TurnPrepared, TurnDispatching, TurnActive}"
    "state \<in> {TurnFailed, TurnIndeterminate}" "td_writes d \<noteq> 0"
  obtains v d' where "markTurnFailureLocked tx i t state diagnostic d =
      settle_turn tx i v (\<lambda>p. p\<lparr>pt_state := failed_participant state\<rparr>) (tu_diagnostic v) d'"
    "tu_state v = state" "tu_participant_id v = tu_participant_id u" "tf_snapshot (team_files d' i) = tf_snapshot (team_files d i)"
    "core i d' = (core i d)\<lparr>pc_turns := (pc_turns (core i d))(t \<mapsto> v)\<rparr>" "td_writes d' = td_writes d - 1"
proof -
  define v where "v = u\<lparr>tu_state := state, tu_diagnostic := boundedDiagnostic diagnostic, tu_updated_at := td_clock d (td_ticks d)\<rparr>"
  define d' where "d' = d\<lparr>td_ticks := td_ticks d + 1, td_teams := AList.update i ((team_files d i)\<lparr>tf_turns :=
    AList.update t v (tf_turns (team_files d i))\<rparr>) (td_teams d), td_writes := td_writes d - 1\<rparr>"
  have u: "tu_team_id u = i" "tu_id u = t" "ValidateParticipantTurn u = Inr ()"
    using assms(1) by (simp_all add: ReadTeamTurn_Inr)
  have "validTurnState state" using assms(3) by (intro validTurnState_all) auto
  with u(3) have "ValidateParticipantTurn v = Inr ()" unfolding v_def by (intro failed_turn_valid)
  then have "WriteTeamTurn v (d\<lparr>td_ticks := td_ticks d + 1\<rparr>) = (Inr (), d')"
    using assms(4) u by (simp add: WriteTeamTurn_def next_Inr basic_Inr team_durable_Inr d'_def v_def team_files_def)
  then have "markTurnFailureLocked tx i t state diagnostic d =
      settle_turn tx i v (\<lambda>p. p\<lparr>pt_state := failed_participant state\<rparr>) (tu_diagnostic v) d'"
    using assms(1,2) by (auto simp: markTurnFailureLocked_def next_step_def team_now_def Let_def v_def)
  moreover have "team_files d' i = (team_files d i)\<lparr>tf_turns := AList.update t v (tf_turns (team_files d i))\<rparr>"
    by (simp add: d'_def team_files_def update_conv')
  moreover have "tu_state v = state" "tu_participant_id v = tu_participant_id u" "td_writes d' = td_writes d - 1"
    by (simp_all add: v_def d'_def)
  ultimately show thesis
    by (intro that [of v d']) (simp_all add: core_def Let_def update_conv' fun_upd_def)
qed

text \<open>With at most one durable step left the snapshot is not reached.\<close>

lemma settle_starved:
  assumes "tf_snapshot (team_files d i) = Some s" "\<exists>p \<in> set (ts_participants s). pt_id p = tu_participant_id u" "td_writes d \<le> 1"
  shows "core i (snd (settle_turn tx i u change summary d)) = core i d"
proof (cases "ReadTeamSnapshot tx i d")
  case (Pair r d1)
  then have d1: "d1 = d" by (rule only_reads_result [OF only_reads_store(1)])
  show ?thesis
  proof (cases r)
    case (Inl e)
    then show ?thesis using Pair d1 by (simp add: settle_turn_def next_step_def)
  next
    case (Inr s')
    with Pair d1 have s': "s' = s" using assms(1) by (simp add: ReadTeamSnapshot_Inr)
    obtain q d2 where up: "update_participants i (\<lambda>p. pt_id p = tu_participant_id u) change (ts_participants s) d = (q, d2)"
      by fastforce
    then have core: "core i d2 = core i d" by (rule steady_core [OF steady_update_participants])
    show ?thesis
    proof (cases q)
      case Inl
      then show ?thesis using Pair d1 Inr s' up core by (simp add: settle_turn_def next_step_def)
    next
      case q: (Inr ps)
      have "filter (\<lambda>p. pt_id p = tu_participant_id u) (ts_participants s) \<noteq> []"
        using assms(2) by (simp add: filter_empty_conv)
      then have "td_writes d2 = 0"
        using update_participants_writes [of i "\<lambda>p. pt_id p = tu_participant_id u" change "ts_participants s" d ps d2] up q assms(3)
        by (cases "filter (\<lambda>p. pt_id p = tu_participant_id u) (ts_participants s)") auto
      then have "snd (WriteTeamSnapshot v (d2\<lparr>td_ticks := n\<rparr>)) = d2\<lparr>td_ticks := n\<rparr> \<and> (\<exists>e. fst (WriteTeamSnapshot v (d2\<lparr>td_ticks := n\<rparr>)) = Inl e)" for v n
        by (auto simp: WriteTeamSnapshot_def next_step_def check_def team_durable_def wrap_err_def split: sum.split)
      then obtain e where stop: "\<And>v n. WriteTeamSnapshot v (d2\<lparr>td_ticks := n\<rparr>) = (Inl (e v n), d2\<lparr>td_ticks := n\<rparr>)"
        by (metis prod.collapse)
      have "core i (snd (settle_turn tx i u change summary d)) = core i d2"
        using Pair d1 Inr s' up q unfolding settle_turn_def
        by (simp add: next_step_def team_now_def Let_def split_def stop core_def team_files_def)
      then show ?thesis using core by simp
    qed
  qed
qed

text \<open>With two steps left, those of the participant and of the snapshot, the round is settled.\<close>

lemma settle_completes:
  assumes "ReadTeamSnapshot tx i d = (Inr s, d)" "ts_mode s = ModePanel" "td_writes d \<ge> 2"
    "\<And>p. ValidateParticipant p = Inr () \<Longrightarrow> ValidateParticipant (change p) = Inr ()"
    "\<And>p. pt_id (change p) = pt_id p \<and> pt_model_id (change p) = pt_model_id p"
  shows "\<exists>now. pc_snapshot (core i (snd (settle_turn tx i u change summary d))) =
    Some (let ps = change_where (\<lambda>p. pt_id p = tu_participant_id u) change (ts_participants s) in
      fst (settleTerminalRound (s\<lparr>ts_participants := ps, ts_state_version := ts_state_version s + 1, ts_updated_at := now\<rparr>)
        (\<not> list_ex unsettled ps)))"
proof -
  let ?which = "\<lambda>p. pt_id p = tu_participant_id u"
  let ?ps = "change_where ?which change (ts_participants s)"
  have s: "safeID i" "ts_team_id s = i" "ValidateTeamSession s = Inr ()" "tf_snapshot (team_files d i) = Some s"
    using assms(1) by (simp_all add: ReadTeamSnapshot_Inr)
  then have ok: "check_participants [] [] (ts_participants s) = Inr ()" by (simp add: ValidateTeamSession_iff)
  have "length (filter ?which (ts_participants s)) \<le> 1"
  proof -
    have "distinct (map pt_id (filter ?which (ts_participants s)))"
      using check_participants_distinct [OF ok] by (simp add: distinct_map_filter)
    moreover have "set (map pt_id (filter ?which (ts_participants s))) \<subseteq> {tu_participant_id u}" by auto
    ultimately have "length (map pt_id (filter ?which (ts_participants s))) \<le> card {tu_participant_id u}"
      by (metis card_mono distinct_card finite.emptyI finite_insert)
    then show ?thesis by simp
  qed
  then obtain d2 where up: "update_participants i ?which change (ts_participants s) d = (Inr ?ps, d2)"
    using update_participants_succeed [OF s(1), of "ts_participants s" ?which change d] assms(3,4)
      check_participants_valid [OF ok] by (metis One_nat_def Suc_1 Suc_leD order_trans)
  then have writes: "td_writes d2 \<noteq> 0"
    using update_participants_writes [OF up] \<open>length (filter ?which (ts_participants s)) \<le> 1\<close> assms(3) by simp
  have "check_participants [] [] ?ps = Inr ()"
    unfolding change_where_def by (rule check_participants_map [OF _ _ ok]) (use assms(4,5) in auto)
  then have valid: "ValidateTeamSession (fst (settleTerminalRound (s\<lparr>ts_participants := ?ps, ts_state_version := ts_state_version s + 1,
      ts_updated_at := now\<rparr>) b)) = Inr ()" for now b
    by (intro settled_session_valid) (simp_all add: s assms(2) change_where_def)
  define v where "v = fst (settleTerminalRound (s\<lparr>ts_participants := ?ps, ts_state_version := ts_state_version s + 1,
      ts_updated_at := td_clock d2 (td_ticks d2)\<rparr>) (\<not> list_ex unsettled ?ps))"
  define d3 where "d3 = d2\<lparr>td_ticks := td_ticks d2 + 1, td_teams := AList.update i ((team_files d2 i)\<lparr>tf_snapshot := Some v\<rparr>) (td_teams d2),
      td_writes := td_writes d2 - 1\<rparr>"
  have written: "WriteTeamSnapshot v (d2\<lparr>td_ticks := td_ticks d2 + 1\<rparr>) = (Inr (), d3)"
    using writes valid by (simp add: WriteTeamSnapshot_def next_Inr basic_Inr team_durable_Inr v_def d3_def s team_files_def)
  have d3: "pc_snapshot (core i d3) = Some v" by (simp add: core_def Let_def d3_def team_files_def update_conv')
  obtain closed last where round: "settleTerminalRound (s\<lparr>ts_participants := ?ps, ts_state_version := ts_state_version s + 1,
      ts_updated_at := td_clock d2 (td_ticks d2)\<rparr>) (\<not> list_ex unsettled ?ps) = (v, closed, last)"
    unfolding v_def by (metis prod.collapse)
  obtain m :: "unit team_step" where m: "steady m" "settle_turn tx i u change summary d = m d3"
  proof
    let ?m = "next_step (appendTeamEventLockedFromTurn tx i u EventParticipantEvent summary) (\<lambda>_.
      if closed then appendTeamEventLocked tx v EventTeamClosed last [] [] else ret ())"
    show "steady ?m" by (intro steady_intros)
    show "settle_turn tx i u change summary d = ?m d3"
      using assms(1) up written round unfolding settle_turn_def
      by (simp add: next_step_def team_now_def)
  qed
  then have "core i (snd (settle_turn tx i u change summary d)) = core i d3" by (simp add: steady_def)
  then show ?thesis using d3 unfolding v_def Let_def by metis
qed

end
