(* ===== verification/Team_Events.thy ===== *)
theory Team_Events
  imports Team_Spec
begin

section \<open>The events of one turn\<close>

text \<open>
  \<^verbatim>\<open>appendTeamEventLocked\<close> drops an event whose type, turn and message are already in
  the log. The lemmas follow the events of one turn through its end.
\<close>

definition events_of :: "string \<Rightarrow> string \<Rightarrow> TeamDisk \<Rightarrow> TeamEventV1 list" where
  "events_of i t d = filter (\<lambda>e. te_turn_id e = t) (tf_events (team_files d i))"

text \<open>\<open>quiet i t E m\<close>: where the events of the turn are \<open>E\<close>, the step adds none.\<close>

definition quiet :: "string \<Rightarrow> string \<Rightarrow> TeamEventV1 list \<Rightarrow> 'a team_step \<Rightarrow> bool" where
  "quiet i t E m \<longleftrightarrow> (\<forall>d. events_of i t d = E \<longrightarrow> events_of i t (snd (m d)) = E)"

named_theorems quiet_intros \<open>steps that add no event of the turn\<close>

lemma quiet_next [quiet_intros]: "quiet i t E m \<Longrightarrow> (\<And>x. quiet i t E (k x)) \<Longrightarrow> quiet i t E (next_step m k)"
  unfolding quiet_def next_step_def
  by (auto split: prod.split sum.split)

lemma quiet_reads: "only_reads m \<Longrightarrow> quiet i t E m"
  by (simp add: quiet_def only_reads_def)

lemmas quiet_basic [quiet_intros] = only_reads_basic [THEN quiet_reads] only_reads_store [THEN quiet_reads]

lemma quiet_if [quiet_intros]: "quiet i t E m \<Longrightarrow> quiet i t E m' \<Longrightarrow> quiet i t E (if b then m else m')"
  by simp

lemma quiet_now [quiet_intros]: "quiet i t E team_now"
  by (simp add: quiet_def team_now_def events_of_def team_files_def)

lemma quiet_durable: "(\<And>f. tf_events (change f) = tf_events f) \<Longrightarrow> quiet i t E (team_durable j change)"
  by (auto simp: quiet_def team_durable_def events_of_def team_files_update)

lemma quiet_writes [quiet_intros]:
  "quiet i t E (WriteTeamParticipant p j)" "quiet i t E (WriteTeamSnapshot s)" "quiet i t E (WriteTeamTurn v)"
  unfolding WriteTeamParticipant_def WriteTeamSnapshot_def WriteTeamTurn_def
  by (intro quiet_intros quiet_durable; simp)+

lemma quiet_update_participants [quiet_intros]: "quiet i t E (update_participants j which change ps)"
  by (induction ps) (auto intro!: quiet_intros)

text \<open>An event of another team or turn, or one whose type and message are known, adds nothing.\<close>

lemma quiet_other_event: "te_turn_id e \<noteq> t \<or> te_team_id e \<noteq> i \<Longrightarrow> quiet i t E (AppendTeamEvent tx e)"
proof -
  assume "te_turn_id e \<noteq> t \<or> te_team_id e \<noteq> i"
  then have "quiet i t E (team_durable (te_team_id e) (\<lambda>f. f\<lparr>tf_events := tf_events f @ [e]\<rparr>))"
    by (auto simp: quiet_def team_durable_def events_of_def team_files_update)
  then show ?thesis
    unfolding AppendTeamEvent_def appendTeamRecordWithQuota_def split_def
    by (intro quiet_intros)
qed

lemma quiet_closing_event: "t \<noteq> [] \<Longrightarrow> quiet i t E (appendTeamEventLocked tx s eventType summary mid [])"
  unfolding appendTeamEventLocked_def
  by (intro quiet_intros quiet_other_event) simp

lemma quiet_known_event:
  assumes "e \<in> set E" "te_type e = eventType" "te_message_id e = mid"
  shows "quiet i t E (appendTeamEventLocked tx s eventType summary mid t)"
proof (cases "ts_team_id s = i")
  case False
  then show ?thesis
    unfolding appendTeamEventLocked_def by (intro quiet_intros quiet_other_event) simp
next
  case True
  have "snd (appendTeamEventLocked tx s eventType summary mid t d) = d" if "events_of i t d = E" for d
  proof (cases "ReadTeamEvents tx i d")
    case (Pair r d1)
    then have d1: "d1 = d" by (rule only_reads_result [OF only_reads_store(3)])
    show ?thesis
    proof (cases r)
      case (Inr es)
      have "es = tf_events (team_files d i)" using Pair Inr by (simp add: ReadTeamEvents_Inr)
      then have "list_ex (\<lambda>e. te_type e = eventType \<and> te_turn_id e = t \<and> te_message_id e = mid) es"
        using assms that by (auto simp: list_ex_iff events_of_def)
      then show ?thesis using Pair d1 Inr True by (simp add: appendTeamEventLocked_def next_step_def ret_def)
    qed (use Pair d1 True in \<open>simp add: appendTeamEventLocked_def next_step_def\<close>)
  qed
  then show ?thesis by (auto simp: quiet_def)
qed

lemma quiet_settle_turn:
  assumes "e \<in> set E" "te_type e = EventParticipantEvent" "te_message_id e = tu_contribution u" "tu_id u = t" "t \<noteq> []"
  shows "quiet i t E (settle_turn tx j u change summary)"
proof -
  have "quiet i t E (appendTeamEventLockedFromTurn tx j u EventParticipantEvent summary)"
    unfolding appendTeamEventLockedFromTurn_def assms(4)
    by (intro quiet_intros quiet_known_event [OF assms(1-3)])
  then show ?thesis
    unfolding settle_turn_def split_def Let_def
    by (intro quiet_intros quiet_closing_event [OF assms(5)])
qed

lemma mark_logs_nothing:
  assumes "ReadTeamTurn tx i t d = (Inr u, d)" "e \<in> set (tf_events (team_files d i))" "te_type e = EventParticipantEvent"
    "te_turn_id e = t" "te_message_id e = tu_contribution u"
  shows "events_of i t (snd (markTurnFailureLocked tx i t state diagnostic d)) = events_of i t d"
proof (cases "tu_state u \<in> {TurnPrepared, TurnDispatching, TurnActive}")
  case False
  then show ?thesis using assms(1) by (simp add: markTurnFailureLocked_def next_step_def ret_def)
next
  case True
  have u: "tu_id u = t" "safeID t" using assms(1) by (simp_all add: ReadTeamTurn_Inr)
  then have t: "t \<noteq> ''''" by (auto simp: safeID_def)
  define E where "E = events_of i t d"
  have e: "e \<in> set E" using assms(2,4) by (simp add: E_def events_of_def)
  define k where "k = next_step team_now (\<lambda>now.
       let turn = u\<lparr>tu_state := state, tu_diagnostic := boundedDiagnostic diagnostic, tu_updated_at := now\<rparr>
       in next_step (WriteTeamTurn turn) (\<lambda>_.
          settle_turn tx i turn (\<lambda>p. p\<lparr>pt_state := failed_participant state\<rparr>) (tu_diagnostic turn)))"
  have "quiet i t E k"
    unfolding k_def Let_def
    by (intro quiet_intros quiet_settle_turn [OF e assms(3)]) (simp_all add: assms(5) u(1) t)
  moreover have "markTurnFailureLocked tx i t state diagnostic d = k d"
    using True by (auto simp: markTurnFailureLocked_def next_step_ok [where m = "ReadTeamTurn tx i t", OF assms(1)] k_def)
  ultimately show ?thesis by (simp add: quiet_def E_def)
qed

text \<open>A turn that is launched has had its event.\<close>

lemma appended_event:
  "AppendTeamEvent tx e d = (Inr u, d') \<Longrightarrow> e \<in> set (tf_events (team_files d' (te_team_id e)))"
  by (auto simp: AppendTeamEvent_def appendTeamRecordWithQuota_def next_Inr basic_Inr team_durable_Inr split_def
      team_files_def update_conv' split: if_splits)

lemma known_event:
  assumes "appendTeamEventLocked tx s eventType summary mid t d = (Inr u, d')"
  shows "\<exists>e \<in> set (tf_events (team_files d' (ts_team_id s))). te_type e = eventType \<and> te_turn_id e = t \<and> te_message_id e = mid"
proof -
  obtain es where es: "ReadTeamEvents tx (ts_team_id s) d = (Inr es, d)"
    using assms by (auto simp: appendTeamEventLocked_def next_Inr ReadTeamEvents_Inr)
  show ?thesis
  proof (cases "list_ex (\<lambda>e. te_type e = eventType \<and> te_turn_id e = t \<and> te_message_id e = mid) es")
    case True
    then show ?thesis
      using assms es by (auto simp: appendTeamEventLocked_def next_Inr ReadTeamEvents_Inr basic_Inr list_ex_iff)
  next
    case False
    then show ?thesis
      using assms es by (auto simp: appendTeamEventLocked_def next_Inr ReadTeamEvents_Inr dest!: appended_event intro: rev_bexI)
  qed
qed

lemma launched_event:
  assumes "dispatch_begin svc i t d = (Inr (Launch v), d')"
  shows "\<exists>e \<in> set (tf_events (team_files d' i)). te_type e = EventParticipantEvent \<and> te_turn_id e = t \<and> te_message_id e = tu_contribution v"
proof -
  obtain d1 where "appendTeamEventLockedFromTurn (sv_access svc) i v EventParticipantEvent ''turn dispatching'' d1 = (Inr (), d')"
    and v: "tu_id v = t"
    using assms
    by (auto simp: dispatch_begin_def Let_def next_Inr ReadTeamTurn_Inr fail_turn_def basic_Inr split: if_splits sum.splits)
      (metis sum.exhaust)
  then obtain s d2 where "ts_team_id s = i"
    "appendTeamEventLocked (sv_access svc) s EventParticipantEvent ''turn dispatching'' (tu_contribution v) t d2 = (Inr (), d')"
    by (auto simp: appendTeamEventLockedFromTurn_def next_Inr ReadTeamSnapshot_Inr)
  then show ?thesis using known_event by metis
qed

end
