(* ===== verification/Team_Starts.thy ===== *)
theory Team_Starts
  imports Team_Spec
begin

section \<open>Many calls of Start\<close>

text \<open>
  \<^verbatim>\<open>Start\<close> looks at every team there is before it creates one. The lemmas say what a
  call may do to the snapshots and to the directories, wherever it is cut off, so that a
  sequence of calls can be followed.
\<close>

definition team_dirs :: "TeamDisk \<Rightarrow> string set" where
  "team_dirs d = fst ` set (td_teams d)"

text \<open>The calls one after the other, each with the number of durable steps that succeed.\<close>

fun starts :: "TeamService \<Rightarrow> (string \<times> TeamStartRequestV1 \<times> nat) list \<Rightarrow> TeamDisk \<Rightarrow> (TeamError + TeamSessionV1 \<times> bool) list" where
  "starts svc [] d = []"
| "starts svc ((fresh, request, w) # rs) d =
     fst (Start svc fresh request (d\<lparr>td_writes := w\<rparr>)) # starts svc rs (snd (Start svc fresh request (d\<lparr>td_writes := w\<rparr>)))"

text \<open>The teams that a sequence of answers reports as new.\<close>

definition created :: "(TeamError + TeamSessionV1 \<times> bool) list \<Rightarrow> TeamSessionV1 list" where
  "created rs = concat (map (\<lambda>r. case r of Inr (team, False) \<Rightarrow> [team] | _ \<Rightarrow> []) rs)"

lemma created_simps [simp]:
  "created [] = []" "created (Inl e # rs) = created rs"
  "created (Inr (team, replayed) # rs) = (if replayed then created rs else team # created rs)"
  by (auto simp: created_def split: bool.split)

subsection \<open>Directories and snapshots stay\<close>

text \<open>A step after which every directory and every snapshot is still there.\<close>

definition retains :: "'a team_step \<Rightarrow> bool" where
  "retains m \<longleftrightarrow> (\<forall>d. team_dirs d \<subseteq> team_dirs (snd (m d))
     \<and> (\<forall>i s. tf_snapshot (team_files d i) = Some s \<longrightarrow> tf_snapshot (team_files (snd (m d)) i) = Some s))"

named_theorems retains_intros \<open>steps that keep directories and snapshots\<close>

lemma retains_next [retains_intros]: "retains m \<Longrightarrow> (\<And>x. retains (k x)) \<Longrightarrow> retains (next_step m k)"
  unfolding retains_def next_step_def
  by (simp add: split_def split: sum.split) (meson subset_trans)

lemma retains_reads: "only_reads m \<Longrightarrow> retains m"
  by (simp add: retains_def only_reads_def)

lemmas retains_basic [retains_intros] = only_reads_basic [THEN retains_reads] only_reads_store [THEN retains_reads]

lemma retains_if [retains_intros]: "retains m \<Longrightarrow> retains m' \<Longrightarrow> retains (if b then m else m')"
  by simp

lemma retains_now [retains_intros]: "retains team_now"
  by (simp add: retains_def team_now_def team_dirs_def team_files_def)

lemma update_dirs: "fst ` set (AList.update k v xs) = insert k (fst ` set xs)"
  by (metis dom_map_of_conv_image_fst update_conv' dom_fun_upd option.distinct(1))

lemma retains_durable:
  "(\<And>f s. tf_snapshot f = Some s \<Longrightarrow> tf_snapshot (change f) = Some s) \<Longrightarrow> retains (team_durable i change)"
  by (auto simp: retains_def team_durable_def team_files_update team_dirs_def update_dirs)

lemma retains_writes [retains_intros]: "retains (InitTeam i)" "retains (WriteTeamParticipant p i)"
  unfolding InitTeam_def WriteTeamParticipant_def
  by (intro retains_intros retains_durable; simp)+

lemma retains_EnsureTeamSnapshot [retains_intros]: "retains (EnsureTeamSnapshot v)"
proof -
  have "retains (next_step (team_get i tf_snapshot) (\<lambda>existing. case existing of
      Some w \<Rightarrow> if w \<noteq> v then fail e else ret ()
    | None \<Rightarrow> team_durable i (\<lambda>f. f\<lparr>tf_snapshot := Some v\<rparr>)))" for i e
    by (auto simp: retains_def next_step_def team_get_def ret_def fail_def team_durable_def team_files_update team_dirs_def
        update_dirs split: option.split)
  then show ?thesis unfolding EnsureTeamSnapshot_def
    by (intro retains_next [OF retains_basic(3)])
qed

lemma retains_AppendTeamEvent [retains_intros]: "retains (AppendTeamEvent tx e)"
  unfolding AppendTeamEvent_def appendTeamRecordWithQuota_def split_def
  by (intro retains_intros retains_durable | simp add: retains_basic retains_durable)+

lemma write_participants_steps: "steady (write_participants i ps)" "retains (write_participants i ps)"
  by (induction ps) (auto intro: steady_intros retains_intros)

lemma steady_InitTeam: "steady (InitTeam i)"
  unfolding InitTeam_def by (intro steady_intros steady_durable) simp_all

lemma repair_steps: "steady (repairPreparedTeamLocked tx s)" "retains (repairPreparedTeamLocked tx s)"
  unfolding repairPreparedTeamLocked_def Let_def
  by (intro steady_next retains_next write_participants_steps steady_InitTeam retains_writes retains_basic steady_reads;
      auto split: list.split intro: steady_intros retains_intros)+

lemma retains_create_team: "retains (create_team svc fresh n project digest ps catalogHash)"
  unfolding create_team_def Let_def
  by (intro retains_intros repair_steps)

subsection \<open>One call\<close>

lemma only_reads_find_request: "only_reads (find_request tx c ids)"
  by (induction ids) (auto intro!: reading_intros)

lemma find_request_None:
  "find_request tx c ids d = (Inr None, d') \<Longrightarrow>
     \<forall>i \<in> set ids. \<exists>s. tf_snapshot (team_files d i) = Some s \<and> ts_client_request_id s \<noteq> c"
  by (induction ids arbitrary: d')
    (auto simp: next_Inr ReadTeamSnapshot_Inr basic_Inr split: if_splits)

lemma normalizeStart_request:
  "normalizeStart svc request project = Inr (n, ps, digest) \<Longrightarrow> sr_client_request_id n = sr_client_request_id request"
  by (auto simp: normalizeStart_def Let_def split: sum.splits if_splits)

text \<open>What a call does once its request is in order.\<close>

definition find_or_create ::
  "TeamService \<Rightarrow> string \<Rightarrow> TeamStartRequestV1 \<Rightarrow> TeamStartRequestV1 \<Rightarrow> string \<Rightarrow> ParticipantV1 list \<Rightarrow> string \<Rightarrow>
     TeamSessionV1 option \<Rightarrow> (TeamSessionV1 \<times> bool) team_step" where
  "find_or_create svc fresh request n project ps digest found = (case found of
     Some existing \<Rightarrow>
       if ts_request_hash existing \<noteq> tx_sha (sv_access svc) (json_start_request n) then fail ErrConflict
       else next_step (repairPreparedTeamLocked (sv_access svc) existing) (\<lambda>_. ret (existing, True))
   | None \<Rightarrow> next_step (create_team svc fresh n project (tx_sha (sv_access svc) (json_start_request n)) ps digest)
       (\<lambda>snapshot. ret (snapshot, False)))"

lemma Start_search:
  obtains e where "Start svc fresh request d = (Inl e, d)"
  | n project ps digest where "normalizeStart svc request project = Inr (n, ps, digest)"
    "Start svc fresh request d = next_step (find_request (sv_access svc) (sr_client_request_id request)
       (sort_strings (filter safeID (map fst (td_teams d))))) (find_or_create svc fresh request n project ps digest) d"
proof -
  note unfold = Start_def next_step_def check_def wrap_err_def fail_def Let_def ListTeamIDs_def find_or_create_def [abs_def]
  have "(\<exists>e. Start svc fresh request d = (Inl e, d)) \<or> (\<exists>n project ps digest.
      normalizeStart svc request project = Inr (n, ps, digest)
    \<and> Start svc fresh request d = next_step (find_request (sv_access svc) (sr_client_request_id request)
       (sort_strings (filter safeID (map fst (td_teams d))))) (find_or_create svc fresh request n project ps digest) d)"
  proof (cases "ValidateStartRequest_tc request")
    case valid: (Inr u)
    then show ?thesis
    proof (cases "tx_project (sv_access svc) (sr_project request)")
      case project: (Some project)
      then show ?thesis
      proof (cases "normalizeStart svc request project")
        case (Inr r)
        obtain n ps digest where normal: "normalizeStart svc request project = Inr (n, ps, digest)"
          using Inr by (cases r) auto
        have "fst (Start svc fresh request d) = Inl ErrCapabilityUnavailable \<and> snd (Start svc fresh request d) = d
          \<or> Start svc fresh request d = next_step (find_request (sv_access svc) (sr_client_request_id request)
            (sort_strings (filter safeID (map fst (td_teams d))))) (find_or_create svc fresh request n project ps digest) d"
          using valid project normal by (simp add: unfold)
        then show ?thesis using normal by (metis prod.collapse)
      qed (use valid project in \<open>auto simp: unfold\<close>)
    qed (auto simp: unfold)
  qed (auto simp: unfold)
  then show thesis using that by blast
qed

text \<open>A call creates a team, or it leaves every core alone and reports no new team.\<close>

lemma Start_cases:
  obtains (leaves) "\<And>j. core j (snd (Start svc fresh request d)) = core j d" "\<And>team. fst (Start svc fresh request d) \<noteq> Inr (team, False)"
    "team_dirs d \<subseteq> team_dirs (snd (Start svc fresh request d))"
  | (creates) n project digest ps catalogHash where "sr_client_request_id n = sr_client_request_id request"
    "\<And>j. j \<in> team_dirs d \<Longrightarrow> safeID j \<Longrightarrow> \<exists>s. tf_snapshot (team_files d j) = Some s \<and> ts_client_request_id s \<noteq> sr_client_request_id request"
    "Start svc fresh request d = next_step (create_team svc fresh n project digest ps catalogHash) (\<lambda>s. ret (s, False)) d"
proof (cases rule: Start_search [of svc fresh request d])
  case (1 e)
  then show thesis by (intro leaves) auto
next
  case (2 n project ps digest)
  define ids where "ids = sort_strings (filter safeID (map fst (td_teams d)))"
  obtain found where find: "find_request (sv_access svc) (sr_client_request_id request) ids d = (found, d)"
    by (metis only_reads_def only_reads_find_request prod.collapse)
  note step = 2(2) [folded ids_def, unfolded next_step_def [of "find_request _ _ _"] find, simplified]
  show thesis
  proof (cases found)
    case (Inl e)
    then show thesis using step by (intro leaves) auto
  next
    case found: (Inr existing)
    show thesis
    proof (cases existing)
      case None
      have "\<exists>s. tf_snapshot (team_files d j) = Some s \<and> ts_client_request_id s \<noteq> sr_client_request_id request"
        if "j \<in> team_dirs d" "safeID j" for j
        using find_request_None [of "sv_access svc" "sr_client_request_id request" ids d d] find found None that
        by (auto simp: ids_def team_dirs_def)
      then show thesis
        using step found None normalizeStart_request [OF 2(1)] by (intro creates) (auto simp: find_or_create_def)
    next
      case (Some s)
      define m where "m = find_or_create svc fresh request n project ps digest (Some s)"
      have m: "steady m" "retains m"
        unfolding m_def find_or_create_def option.case by (intro steady_intros retains_intros repair_steps)+
      have "fst (m d) \<noteq> Inr (team, False)" for team
        by (auto simp: m_def find_or_create_def next_step_def ret_def fail_def split: prod.split sum.split)
      then show thesis
        using step found Some m by (intro leaves) (auto simp: m_def steady_def retains_def)
    qed
  qed
qed

subsection \<open>Sequences of calls\<close>

definition claimed :: "TeamDisk \<Rightarrow> string \<Rightarrow> bool" where
  "claimed d c \<longleftrightarrow> (\<exists>i \<in> team_dirs d. safeID i \<and> (\<exists>s. tf_snapshot (team_files d i) = Some s \<and> ts_client_request_id s = c))"

definition orphan :: "TeamDisk \<Rightarrow> string \<Rightarrow> bool" where
  "orphan d i \<longleftrightarrow> i \<in> team_dirs d \<and> safeID i \<and> tf_snapshot (team_files d i) = None"

lemma core_files: "core i d = core i d' \<Longrightarrow> tf_snapshot (team_files d i) = tf_snapshot (team_files d' i)"
  by (simp add: core_def Let_def)

lemma writes_dirs [simp]: "team_dirs (d\<lparr>td_writes := w\<rparr>) = team_dirs d" "team_files (d\<lparr>td_writes := w\<rparr>) i = team_files d i"
  by (simp_all add: team_dirs_def team_files_def)

lemma claimed_writes [simp]: "claimed (d\<lparr>td_writes := w\<rparr>) c = claimed d c" "orphan (d\<lparr>td_writes := w\<rparr>) i = orphan d i"
  by (simp_all add: claimed_def orphan_def)

lemma Start_claimed:
  assumes "claimed d c"
  shows "claimed (snd (Start svc fresh request d)) c" "sr_client_request_id request = c \<Longrightarrow> fst (Start svc fresh request d) \<noteq> Inr (team, False)"
proof -
  obtain i s where i: "i \<in> team_dirs d" "safeID i" "tf_snapshot (team_files d i) = Some s" "ts_client_request_id s = c"
    using assms by (auto simp: claimed_def)
  have "claimed (snd (Start svc fresh request d)) c
    \<and> (sr_client_request_id request = c \<longrightarrow> fst (Start svc fresh request d) \<noteq> Inr (team, False))"
  proof (cases rule: Start_cases [of svc fresh request d])
    case leaves
    then show ?thesis using i core_files [OF leaves(1) [of i]] by (auto simp: claimed_def)
  next
    case (creates n project digest ps catalogHash)
    have "retains (next_step (create_team svc fresh n project digest ps catalogHash) (\<lambda>s. ret (s, False)))"
      by (intro retains_intros retains_create_team)
    then have "i \<in> team_dirs (snd (Start svc fresh request d))" "tf_snapshot (team_files (snd (Start svc fresh request d)) i) = Some s"
      unfolding creates(3) retains_def using i by blast+
    then show ?thesis using creates(2) [OF i(1,2)] i by (auto simp: claimed_def)
  qed
  then show "claimed (snd (Start svc fresh request d)) c" "sr_client_request_id request = c \<Longrightarrow> fst (Start svc fresh request d) \<noteq> Inr (team, False)"
    by auto
qed

lemma Start_created:
  assumes "Start svc fresh request d = (Inr (team, False), d')"
  shows "ts_client_request_id team = sr_client_request_id request" "claimed d' (ts_client_request_id team)"
proof -
  obtain n project digest ps catalogHash where n: "sr_client_request_id n = sr_client_request_id request"
    and new: "create_team svc fresh n project digest ps catalogHash d = (Inr team, d')"
  proof (cases rule: Start_cases [of svc fresh request d])
    case leaves
    then show thesis using assms leaves(2) [of team] by simp
  next
    case (creates n project digest ps catalogHash)
    then have "next_step (create_team svc fresh n project digest ps catalogHash) (\<lambda>s. ret (s, False)) d = (Inr (team, False), d')"
      using assms by simp
    then have "create_team svc fresh n project digest ps catalogHash d = (Inr team, d')" by (simp add: next_Inr basic_Inr)
    with creates(1) show thesis by (rule that)
  qed
  obtain d1 d2 d3 where init: "InitTeam fresh d1 = (Inr (), d2)" and ensure: "EnsureTeamSnapshot team d2 = (Inr (), d3)"
    and repair: "repairPreparedTeamLocked (sv_access svc) team d3 = (Inr (), d')"
    and team: "ts_team_id team = fresh" "ts_client_request_id team = sr_client_request_id n"
    using new by (auto simp: create_team_def Let_def next_Inr basic_Inr split: if_splits)
  have "safeID fresh" "fresh \<in> team_dirs d2"
    using init by (auto simp: InitTeam_def next_Inr basic_Inr team_durable_def team_dirs_def update_dirs split: if_splits)
  moreover have "tf_snapshot (team_files d3 fresh) = Some team"
    using ensure team(1)
    by (auto simp: EnsureTeamSnapshot_def next_Inr basic_Inr team_durable_def split: option.splits if_splits)
      (simp add: team_files_def update_conv')
  moreover have "team_dirs d2 \<subseteq> team_dirs d3" "team_dirs d3 \<subseteq> team_dirs d'"
    "\<And>s. tf_snapshot (team_files d3 fresh) = Some s \<Longrightarrow> tf_snapshot (team_files d' fresh) = Some s"
    using retains_EnsureTeamSnapshot [of team] repair_steps(2) [of "sv_access svc" team] ensure repair
    unfolding retains_def by (metis snd_conv)+
  ultimately show "claimed d' (ts_client_request_id team)" by (auto simp: claimed_def)
  show "ts_client_request_id team = sr_client_request_id request" using n team(2) by simp
qed

lemma starts_created:
  "distinct (map ts_client_request_id (created (starts svc calls d)))
     \<and> (\<forall>team \<in> set (created (starts svc calls d)). \<not> claimed d (ts_client_request_id team))"
proof (induction svc calls d rule: starts.induct)
  case (1 svc d)
  then show ?case by simp
next
  case (2 svc fresh request w rs d)
  obtain r d' where r: "Start svc fresh request (d\<lparr>td_writes := w\<rparr>) = (r, d')" by fastforce
  have kept: "claimed d c \<Longrightarrow> claimed d' c" for c
    using Start_claimed(1) [of "d\<lparr>td_writes := w\<rparr>" c svc fresh request] r by simp
  show ?case
  proof (cases "\<exists>team. r = Inr (team, False)")
    case True
    then obtain team where team: "r = Inr (team, False)" by blast
    with r have new: "Start svc fresh request (d\<lparr>td_writes := w\<rparr>) = (Inr (team, False), d')" by simp
    have "claimed d' (ts_client_request_id team)" by (rule Start_created(2) [OF new])
    moreover have "\<not> claimed d (ts_client_request_id team)"
      using Start_claimed(2) [OF _ Start_created(1) [OF new, symmetric], of "d\<lparr>td_writes := w\<rparr>" svc fresh team] new
      by (metis claimed_writes(1) fst_conv)
    moreover have split: "created (starts svc ((fresh, request, w) # rs) d) = team # created (starts svc rs d')"
      by (simp add: r team)
    moreover have "distinct (map ts_client_request_id (created (starts svc rs d')))"
      "\<And>t. t \<in> set (created (starts svc rs d')) \<Longrightarrow> \<not> claimed d' (ts_client_request_id t)"
      using 2 r by simp_all
    ultimately show ?thesis unfolding split using kept by (auto simp del: starts.simps)
  next
    case False
    then have "created (r # rs') = created rs'" for rs' by (cases r) auto
    then have "created (starts svc ((fresh, request, w) # rs) d) = created (starts svc rs d')" by (simp add: r)
    moreover have "distinct (map ts_client_request_id (created (starts svc rs d')))"
      "\<forall>t \<in> set (created (starts svc rs d')). \<not> claimed d' (ts_client_request_id t)"
      using 2 r by simp_all
    ultimately show ?thesis using kept by (simp del: starts.simps) blast
  qed
qed

lemma Start_orphan:
  assumes "orphan d i"
  shows "orphan (snd (Start svc fresh request d)) i \<and> fst (Start svc fresh request d) \<noteq> Inr (team, False)"
proof (cases rule: Start_cases [of svc fresh request d])
  case leaves
  then show ?thesis using assms core_files [OF leaves(1) [of i]] by (auto simp: orphan_def)
next
  case creates
  have False using creates(2) [of i] assms by (auto simp: orphan_def)
  then show ?thesis ..
qed

lemma starts_orphan: "orphan d i \<Longrightarrow> created (starts svc calls d) = []"
proof (induction svc calls d rule: starts.induct)
  case (1 svc d)
  then show ?case by simp
next
  case (2 svc fresh request w rs d)
  obtain r d' where r: "Start svc fresh request (d\<lparr>td_writes := w\<rparr>) = (r, d')" by fastforce
  then have "orphan d' i" "r \<noteq> Inr (team, False)" for team
    using Start_orphan [of "d\<lparr>td_writes := w\<rparr>" i svc fresh request] 2(2) by auto
  then show ?case using 2(1) r by (cases r) auto
qed

lemma create_team_interrupted:
  assumes "safeID fresh" "fresh \<notin> team_dirs d" "participantCost svc ps catalogHash \<le> sr_cost_grant n" "td_writes d = 1"
  shows "orphan (snd (create_team svc fresh n project digest ps catalogHash d)) fresh"
proof -
  define d1 where "d1 = d\<lparr>td_ticks := td_ticks d + 1\<rparr>"
  define d2 where "d2 = d1\<lparr>td_teams := AList.update fresh (team_files d1 fresh) (td_teams d1), td_writes := 0\<rparr>"
  have "map_of (td_teams d) fresh = None" using assms(2) by (simp add: team_dirs_def map_of_eq_None_iff)
  then have none: "team_files d1 fresh = no_files" by (simp add: team_files_def d1_def)
  have files: "tf_snapshot (team_files d2 fresh) = None" "fresh \<in> team_dirs d2" "td_writes d2 = 0"
    by (simp_all add: d2_def none) (simp_all add: team_files_def update_conv' no_files_def team_dirs_def update_dirs)
  have init: "InitTeam fresh d1 = (Inr (), d2)"
    using assms(1,4) by (simp add: InitTeam_def validateID_store_def next_step_def ret_def team_durable_def d1_def d2_def)
  have stop: "snd (EnsureTeamSnapshot v d2) = d2 \<and> fst (EnsureTeamSnapshot v d2) \<noteq> Inr ()" if "ts_team_id v = fresh" for v
    using files that by (auto simp: EnsureTeamSnapshot_def next_step_def check_def wrap_err_def team_get_def team_durable_def split: sum.split)
  have "\<exists>v. ts_team_id v = fresh \<and> create_team svc fresh n project digest ps catalogHash d = next_step (EnsureTeamSnapshot v) (\<lambda>_.
      next_step (repairPreparedTeamLocked (sv_access svc) v) (\<lambda>_. ret v)) d2"
    using assms(3) init by (force simp: create_team_def next_step_def team_now_def Let_def d1_def)
  then obtain v where "ts_team_id v = fresh" "create_team svc fresh n project digest ps catalogHash d = next_step (EnsureTeamSnapshot v) (\<lambda>_.
      next_step (repairPreparedTeamLocked (sv_access svc) v) (\<lambda>_. ret v)) d2" by blast
  then have "snd (create_team svc fresh n project digest ps catalogHash d) = d2"
    using stop [of v] by (cases "EnsureTeamSnapshot v d2"; cases "fst (EnsureTeamSnapshot v d2)") (auto simp: next_step_def)
  then show ?thesis using files assms(1) by (simp add: orphan_def)
qed

end
