(* ===== verification/Team_Samples.thy ===== *)
theory Team_Samples
  imports Team_Settlement Team_Events Team_Starts
begin

section \<open>Small teams\<close>

text \<open>
  A panel of two participants on which the properties of the Team service are tried, and
  the bound on the size of its files that reading them needs.
\<close>

subsection \<open>Small files\<close>

text \<open>
  A file is read if it is small enough. The indentation adds to every character at most a
  line feed and two spaces for every level, and there are at most as many levels as
  brackets are opened.
\<close>

definition plain_char :: "char \<Rightarrow> bool" where
  "plain_char c \<longleftrightarrow> 32 \<le> byte c \<and> byte c < 127 \<and> byte c \<notin> {34, 38, 60, 62, 91, 92, 123}"

lemma json_string_plain: "list_all plain_char s \<Longrightarrow> json_string s = CHR 0x22 # s @ [CHR 0x22]"
proof -
  have "concat (map json_rune (runes s)) = s" if "list_all plain_char s"
    using that
  proof (induction s)
    case Nil
    then show ?case by simp
  next
    case (Cons c s)
    then have "decode_rune (map byte (c # s)) = (byte c, 1)" by (simp add: plain_char_def)
    then have "runes (c # s) = (byte c, [c]) # runes s" by (subst runes.simps) simp
    with Cons show ?case by (simp add: json_rune_def plain_char_def)
  qed
  then show "list_all plain_char s \<Longrightarrow> json_string s = CHR 0x22 # s @ [CHR 0x22]" by (simp add: json_string_def)
qed

definition opens :: "string \<Rightarrow> nat" where
  "opens s = length (filter (\<lambda>c. c = CHR ''{'' \<or> c = CHR ''['') s)"

lemma opens_simps [simp]:
  "opens [] = 0" "opens (s @ t) = opens s + opens t"
  "opens (c # s) = (if c = CHR ''{'' \<or> c = CHR ''['' then opens s + 1 else opens s)"
  by (simp_all add: opens_def)

lemma opens_plain: "list_all plain_char s \<Longrightarrow> opens s = 0"
  by (induction s) (auto simp: plain_char_def byte_def)

lemma json_newline_length: "length (json_newline d) = 2 * d + 1"
  by (simp add: json_newline_def)

lemma json_indent_length:
  "depth + of_bool opened + opens s \<le> B \<Longrightarrow> 4 * B + 4 \<le> K \<Longrightarrow> length (json_indent depth opened quoted escaped s) \<le> length s * K"
proof (induction s arbitrary: depth opened quoted escaped)
  case Nil
  then show ?case by simp
next
  case (Cons c cs)
  have rec: "length (json_indent d b q e cs) + k \<le> length (c # cs) * K" if "d + of_bool b + opens cs \<le> B" "k \<le> K" for d b q e k
    using Cons.IH [OF that(1) Cons.prems(2), of q e] that(2) by simp
  define d where "d = (if opened \<and> c \<noteq> CHR ''}'' \<and> c \<noteq> CHR '']'' then depth + 1 else depth)"
  define pre where "pre = (if opened \<and> c \<noteq> CHR ''}'' \<and> c \<noteq> CHR '']'' then json_newline d else [])"
  have d: "d + opens (c # cs) \<le> B" "length pre \<le> 2 * B + 1" "d \<le> B"
    using Cons.prems(1) by (auto simp: d_def pre_def json_newline_length)
  have new: "json_indent depth opened quoted escaped (c # cs) =
     (if quoted then c # json_indent depth opened (escaped \<or> c \<noteq> CHR 0x22) (\<not> escaped \<and> c = CHR 0x5C) cs
      else if json_space c then json_indent depth opened False False cs
      else pre @ (if c = CHR ''{'' \<or> c = CHR ''['' then c # json_indent d True False False cs
              else if c = CHR '','' then c # json_newline d @ json_indent d False False False cs
              else if c = CHR '':'' then c # CHR 0x20 # json_indent d False False False cs
              else if c = CHR ''}'' \<or> c = CHR '']''
              then (if opened then c # json_indent d False False False cs
                    else json_newline (d - 1) @ c # json_indent (d - 1) False False False cs)
              else c # json_indent d False (c = CHR 0x22) False cs))"
    by (simp add: d_def pre_def Let_def)
  note rec' = rec [of depth opened 1 "escaped \<or> c \<noteq> CHR 0x22" "\<not> escaped \<and> c = CHR 0x5C"]
    rec [of depth opened 0 False False] rec [of d True "length pre + 1" False False]
    rec [of d False "length pre + 2" False False] rec [of d False "length pre + 2 + 2 * d" False False]
    rec [of "d - 1" False "length pre + 2 + 2 * (d - 1)" False False] rec [of d False "length pre + 1" False False]
    rec [of d False "length pre + 1" "c = CHR 0x22" False]
  have o: "opens cs \<le> opens (c # cs)" "c = CHR ''{'' \<or> c = CHR ''['' \<Longrightarrow> Suc (opens cs) \<le> opens (c # cs)" by auto
  have prem: "depth + of_bool opened + opens cs \<le> B" using Cons.prems(1) o(1) by linarith
  show ?case
  proof (cases "quoted \<or> json_space c")
    case True
    then show ?thesis unfolding new using rec'(1,2) prem Cons.prems(2) by (cases quoted) simp_all
  next
    case False
    show ?thesis
    proof (cases "c = CHR ''{'' \<or> c = CHR ''[''")
      case True
      then show ?thesis unfolding new using False rec'(3) d o(2) Cons.prems(2) by (simp add: json_newline_length)
    next
      case brace: False
      have "d + opens cs \<le> B" "d - 1 + opens cs \<le> B" using d(1) o(1) by linarith+
      then show ?thesis unfolding new
        using False brace rec'(4-) d(2,3) Cons.prems(2) by (simp add: json_newline_length)
    qed
  qed
qed

lemma json_file_length: "4 * opens s + 4 \<le> K \<Longrightarrow> length (json_file s) \<le> length s * K + 1"
  using json_indent_length [of 0 False s "opens s" K False False] by (simp add: json_file_def)

subsection \<open>A panel of two participants\<close>

definition zeros :: string where
  "zeros = replicate 64 (CHR ''0'')"

definition panel_access :: TeamAccess where
  "panel_access = \<lparr>tx_sha = (\<lambda>s. zeros), tx_format = (\<lambda>t. ''t''), tx_hash = (\<lambda>c. zeros), tx_project = Some,
     tx_decode = (\<lambda>s. Inl ''not JSON'')\<rparr>"

definition panel_catalog :: CapabilityCatalogV1 where
  "panel_catalog = \<lparr>cat_schema_version = '''', cat_policy_version = '''', cat_models = []\<rparr>"

definition panel_service :: TeamService where
  "panel_service = \<lparr>sv_access = panel_access, sv_catalog = panel_catalog, sv_catalogs = [(zeros, panel_catalog)],
     sv_drivers = [''d''], sv_sessions = []\<rparr>"

definition panel_participant :: "string \<Rightarrow> string \<Rightarrow> ParticipantV1" where
  "panel_participant i state = \<lparr>pt_id = i, pt_label = i, pt_role = i, pt_model_id = i, pt_driver = ''d'', pt_target = ''x'',
     pt_state = state, pt_current_turn = ''turn-'' @ i @ ''-1''\<rparr>"

definition panel_turn :: "string \<Rightarrow> string \<Rightarrow> ParticipantTurnV1" where
  "panel_turn i state = \<lparr>tu_schema_version = TeamSchemaVersion, tu_team_id = ''t'', tu_participant_id = i,
     tu_id = ''turn-'' @ i @ ''-1'', tu_number = 1, tu_state = state, tu_driver = ''d'', tu_target = ''x'', tu_model_id = i,
     tu_usage = \<lparr>tus_target = ''x'', tus_catalog_hash = zeros, tus_cost = 1, tus_cumulative = 1, tus_estimate = None\<rparr>,
     tu_handle = '''', tu_contribution = '''', tu_diagnostic = '''', tu_created_at = 0, tu_updated_at = 0, tu_completed_at = None\<rparr>"

definition panel_session :: "string \<Rightarrow> string \<Rightarrow> TeamSessionV1" where
  "panel_session a b = \<lparr>ts_schema_version = TeamSchemaVersion, ts_team_id = ''t'', ts_client_request_id = ''q'',
     ts_request_hash = zeros, ts_project = ''p'', ts_mode = ModePanel, ts_topic = ''w'', ts_instructions = '''',
     ts_catalog_hash = zeros, ts_participants = [panel_participant ''a'' a, panel_participant ''b'' b],
     ts_state = LifecycleRunning, ts_state_version = 2, ts_cost_grant = 9, ts_cost_used = 2, ts_close_reason = '''',
     ts_created_at = 0, ts_updated_at = 0\<rparr>"

definition panel_files :: "string \<Rightarrow> string \<Rightarrow> string \<Rightarrow> string \<Rightarrow> TeamFiles" where
  "panel_files a b x y = no_files\<lparr>tf_snapshot := Some (panel_session a b),
     tf_turns := [(''turn-a-1'', panel_turn ''a'' x), (''turn-b-1'', panel_turn ''b'' y)]\<rparr>"

definition panel_disk :: "string \<Rightarrow> string \<Rightarrow> string \<Rightarrow> string \<Rightarrow> nat \<Rightarrow> TeamDisk" where
  "panel_disk a b x y w = \<lparr>td_teams = [(''t'', panel_files a b x y)], td_writes = w, td_clock = (\<lambda>_. 0), td_ticks = 0\<rparr>"

lemma zeros: "list_all plain_char zeros" "length zeros = 64" "validHash zeros"
  by (simp_all add: zeros_def plain_char_def byte_def list_all_iff) code_simp

lemma show_demo: "show_nat 1 = ''1''" "show_int 1 = ''1''" "show_nat 2 = ''2''" "show_int 2 = ''2''" "show_int 9 = ''9''"
  by code_simp+

lemmas small_simps = json_object_def json_array_def json_string_plain omit_empty_def omit_raw_def zeros(1,2) opens_plain show_demo

lemma plain_lit:
  "list_all plain_char [] = True" "list_all plain_char (c # s) = (plain_char c \<and> list_all plain_char s)"
  "plain_char (Char b0 b1 b2 b3 b4 b5 b6 b7) = (let n = byte (Char b0 b1 b2 b3 b4 b5 b6 b7) in 32 \<le> n \<and> n < 127 \<and> n \<notin> {34, 38, 60, 62, 91, 92, 123})"
  by (simp_all add: plain_char_def Let_def)

lemma panel_turn_small:
  assumes "list_all plain_char i" "length i \<le> 8" "list_all plain_char state" "length state \<le> 16"
  shows "length (json_turn (\<lambda>t. ''t'') (panel_turn i state)) \<le> 1000" "opens (json_turn (\<lambda>t. ''t'') (panel_turn i state)) \<le> 2"
  using assms by (simp_all add: json_turn_def json_usage_tc_def panel_turn_def small_simps plain_char_def byte_def)

lemma panel_session_small:
  assumes "list_all plain_char a" "length a \<le> 16" "list_all plain_char b" "length b \<le> 16"
  shows "length (json_session (\<lambda>t. ''t'') (panel_session a b)) \<le> 1500" "opens (json_session (\<lambda>t. ''t'') (panel_session a b)) \<le> 4"
  using assms
  by (simp_all add: json_session_def json_participant_def panel_session_def panel_participant_def small_simps plain_char_def byte_def)

lemma read_session:
  assumes "tf_snapshot (team_files d ''t'') = Some (panel_session a b)" "ValidateTeamSession (panel_session a b) = Inr ()"
    "list_all plain_char a" "length a \<le> 16" "list_all plain_char b" "length b \<le> 16"
  shows "ReadTeamSnapshot panel_access ''t'' d = (Inr (panel_session a b), d)"
proof -
  have "length (json_file (json_session (\<lambda>t. ''t'') (panel_session a b))) \<le> length (json_session (\<lambda>t. ''t'') (panel_session a b)) * 20 + 1"
    using panel_session_small(2) [OF assms(3-6)] by (intro json_file_length) simp
  also have "\<dots> \<le> MaxHandoffBytes" using panel_session_small(1) [OF assms(3-6)] by simp
  finally have "length (json_file (json_session (\<lambda>t. ''t'') (panel_session a b))) \<le> MaxHandoffBytes" .
  moreover have "safeID ''t''" by code_simp
  moreover have "ts_team_id (panel_session a b) = ''t''" by (simp add: panel_session_def)
  ultimately show ?thesis
    using assms(1,2) by (simp add: ReadTeamSnapshot_Inr panel_access_def)
qed

lemma read_turn:
  assumes "map_of (tf_turns (team_files d ''t'')) (''turn-'' @ i @ ''-1'') = Some (panel_turn i state)" "i = ''a'' \<or> i = ''b''"
    "ValidateParticipantTurn (panel_turn i state) = Inr ()" "list_all plain_char state" "length state \<le> 16"
  shows "ReadTeamTurn panel_access ''t'' (''turn-'' @ i @ ''-1'') d = (Inr (panel_turn i state), d)"
proof -
  have i: "list_all plain_char i" "length i \<le> 8" using assms(2) by (auto simp: plain_char_def byte_def)
  have "length (json_file (json_turn (\<lambda>t. ''t'') (panel_turn i state))) \<le> length (json_turn (\<lambda>t. ''t'') (panel_turn i state)) * 12 + 1"
    using panel_turn_small(2) [OF i assms(4,5)] by (intro json_file_length) simp
  also have "\<dots> \<le> MaxHandoffBytes" using panel_turn_small(1) [OF i assms(4,5)] by simp
  finally have "length (json_file (json_turn (\<lambda>t. ''t'') (panel_turn i state))) \<le> MaxHandoffBytes" .
  moreover have "safeID ''t''" "safeID ''turn-a-1''" "safeID ''turn-b-1''" by code_simp+
  ultimately show ?thesis
    using assms(1-3) by (auto simp: ReadTeamTurn_Inr panel_access_def panel_turn_def)
qed

lemma panel_turn_valid: "validTurnState state \<Longrightarrow> i = ''a'' \<or> i = ''b'' \<Longrightarrow> ValidateParticipantTurn (panel_turn i state) = Inr ()"
proof -
  assume state: "validTurnState state" and i: "i = ''a'' \<or> i = ''b''"
  have ids: "each_ok (\<lambda>(name, field). validateID_tc name field)
      [(''teamId'', ''t''), (''participantId'', i), (''turnId'', ''turn-'' @ i @ ''-1''), (''driver'', ''d''), (''target'', ''x''), (''modelId'', i)] = Inr ()"
    using i by (elim disjE; hypsubst; code_simp)
  have usage: "ValidateUsage \<lparr>tus_target = ''x'', tus_catalog_hash = zeros, tus_cost = 1, tus_cumulative = 1, tus_estimate = None\<rparr> = Inr ()"
  proof -
    have "validateID_tc ''usage target'' ''x'' = Inr ()" by code_simp
    then show ?thesis by (simp add: ValidateUsage_def zeros(3))
  qed
  show ?thesis
    unfolding ValidateParticipantTurn_iff using state ids usage by (simp add: panel_turn_def del: each_ok.simps)
qed

lemma panel_participant_valid:
  "validParticipantState state \<Longrightarrow> i = ''a'' \<or> i = ''b'' \<Longrightarrow> ValidateParticipant (panel_participant i state) = Inr ()"
proof -
  assume state: "validParticipantState state" and i: "i = ''a'' \<or> i = ''b''"
  have "ValidateParticipant (panel_participant ''a'' ParticipantRunning) = Inr ()" "ValidateParticipant (panel_participant ''b'' ParticipantRunning) = Inr ()"
    by code_simp+
  moreover have "panel_participant i state = (panel_participant i ParticipantRunning)\<lparr>pt_state := state\<rparr>"
    by (simp add: panel_participant_def)
  ultimately show ?thesis using participant_state_valid [OF _ state] i by auto
qed

lemma panel_session_valid:
  assumes "validParticipantState a" "validParticipantState b"
  shows "ValidateTeamSession (panel_session a b) = Inr ()"
proof -
  have "validateID_tc ''teamId'' ''t'' = Inr ()" "validateID_tc ''clientRequestId'' ''q'' = Inr ()" by code_simp+
  moreover have "check_participants [] [] [panel_participant ''a'' a, panel_participant ''b'' b] = Inr ()"
    using panel_participant_valid [OF assms(1), of "''a''"] panel_participant_valid [OF assms(2), of "''b''"]
    by simp (simp add: panel_participant_def)
  ultimately show ?thesis
    unfolding ValidateTeamSession_iff
    by (simp add: panel_session_def zeros(3) validateBounded_def validateMode_def validLifecycle_def)
qed

lemma panel_states:
  "validParticipantState ParticipantRunning" "validParticipantState ParticipantFailed"
  "validTurnState TurnPrepared" "validTurnState TurnActive" "validTurnState TurnFailed" "validTurnState TurnDispatching"
  by (simp_all add: validParticipantState_def validTurnState_def)

lemma panel_disk_simps [simp]:
  "team_files (panel_disk a b x y w) ''t'' = panel_files a b x y" "(panel_disk a b x y w)\<lparr>td_writes := w'\<rparr> = panel_disk a b x y w'"
  "td_writes (panel_disk a b x y w) = w" "tf_snapshot (panel_files a b x y) = Some (panel_session a b)"
  "tf_turns (panel_files a b x y) = [(''turn-a-1'', panel_turn ''a'' x), (''turn-b-1'', panel_turn ''b'' y)]"
  "tf_events (panel_files a b x y) = []"
  by (simp_all add: panel_disk_def panel_files_def team_files_def no_files_def)

subsection \<open>A dispatch of the panel\<close>

lemma panel_ids: "sort_strings (filter safeID [''turn-a-1'', ''turn-b-1'']) = [''turn-a-1'', ''turn-b-1'']" "safeID ''t''"
  by code_simp+

text \<open>Both turns are listed, the first is taken up, and its driver may be asked.\<close>

lemma panel_round:
  "dispatch_round panel_service ''t'' (panel_disk ParticipantRunning ParticipantRunning TurnPrepared TurnPrepared w) =
     (Inr [''turn-a-1'', ''turn-b-1''], (panel_disk ParticipantRunning ParticipantRunning TurnPrepared TurnPrepared w)\<lparr>td_ticks := 1\<rparr>)"
proof -
  let ?d = "panel_disk ParticipantRunning ParticipantRunning TurnPrepared TurnPrepared w"
  let ?d1 = "?d\<lparr>td_ticks := 1\<rparr>"
  have files: "team_files (?d\<lparr>td_ticks := n\<rparr>) ''t'' = panel_files ParticipantRunning ParticipantRunning TurnPrepared TurnPrepared" for n
    by (simp add: team_files_def panel_disk_def)
  have snapshot: "ReadTeamSnapshot panel_access ''t'' ?d = (Inr (panel_session ParticipantRunning ParticipantRunning), ?d)"
    by (rule read_session) (simp_all add: panel_session_valid panel_states plain_char_def byte_def)
  have a: "ReadTeamTurn panel_access ''t'' ''turn-a-1'' ?d1 = (Inr (panel_turn ''a'' TurnPrepared), ?d1)"
    using read_turn [of ?d1 "''a''" TurnPrepared] by (simp add: files panel_turn_valid panel_states plain_char_def byte_def)
  have b: "ReadTeamTurn panel_access ''t'' ''turn-b-1'' ?d1 = (Inr (panel_turn ''b'' TurnPrepared), ?d1)"
    using read_turn [of ?d1 "''b''" TurnPrepared] by (simp add: files panel_turn_valid panel_states plain_char_def byte_def)
  have now: "team_now ?d = (Inr 0, ?d1)" by (simp add: team_now_def panel_disk_def)
  have "prepare_turns panel_access panel_catalog 0 (panel_session ParticipantRunning ParticipantRunning) 0
      (ts_participants (panel_session ParticipantRunning ParticipantRunning)) ?d1 =
      (Inr (ts_participants (panel_session ParticipantRunning ParticipantRunning), False), ?d1)"
    using a b by (simp add: panel_session_def panel_participant_def next_step_def ret_def)
  then have "prepareInitialTurnsLocked panel_service ''t'' ?d = (Inr (panel_session ParticipantRunning ParticipantRunning), ?d1)"
    using snapshot now
    by (simp add: prepareInitialTurnsLocked_def next_step_def panel_service_def ret_def)
      (simp add: panel_session_def)
  moreover have "ListTeamTurnIDs ''t'' ?d1 = (Inr [''turn-a-1'', ''turn-b-1''], ?d1)"
    using panel_ids by (simp add: ListTeamTurnIDs_def validateID_store_def next_step_def ret_def team_get_def files)
  ultimately show ?thesis by (simp add: dispatch_round_def next_step_def)
qed

lemma panel_begin:
  assumes files: "team_files d ''t'' = panel_files ParticipantRunning ParticipantRunning TurnPrepared TurnPrepared"
    and d: "td_writes d = 2" "td_clock d = (\<lambda>_. 0)"
  obtains d' where "dispatch_begin panel_service ''t'' ''turn-a-1'' d = (Inr (Launch (panel_turn ''a'' TurnDispatching)), d')"
    "tf_snapshot (team_files d' ''t'') = Some (panel_session ParticipantRunning ParticipantRunning)"
    "map_of (tf_turns (team_files d' ''t'')) ''turn-a-1'' = Some (panel_turn ''a'' TurnDispatching)"
proof -
  let ?session = "panel_session ParticipantRunning ParticipantRunning"
  let ?turn = "panel_turn ''a'' TurnDispatching"
  let ?event = "\<lparr>te_schema_version = TeamSchemaVersion, te_team_id = ''t'', te_sequence = 1, te_type = EventParticipantEvent,
     te_state_version = 2, te_message_id = [], te_turn_id = ''turn-a-1'', te_summary = ''turn dispatching'', te_created_at = 0\<rparr>"
  define d1 where "d1 = d\<lparr>td_ticks := td_ticks d + 1\<rparr>"
  define d2 where "d2 = d1\<lparr>td_teams := AList.update ''t'' ((team_files d ''t'')\<lparr>tf_turns :=
     AList.update ''turn-a-1'' ?turn (tf_turns (team_files d ''t''))\<rparr>) (td_teams d1), td_writes := 1\<rparr>"
  define d3 where "d3 = d2\<lparr>td_ticks := td_ticks d2 + 1\<rparr>"
  define d4 where "d4 = d3\<lparr>td_teams := AList.update ''t'' ((team_files d3 ''t'')\<lparr>tf_events := [?event]\<rparr>) (td_teams d3), td_writes := 0\<rparr>"
  have f2: "team_files d2 ''t'' = (team_files d ''t'')\<lparr>tf_turns := AList.update ''turn-a-1'' ?turn (tf_turns (team_files d ''t''))\<rparr>"
    by (simp add: d2_def team_files_def update_conv')
  have f3: "team_files d3 ''t'' = team_files d2 ''t''" by (simp add: d3_def team_files_def)
  have f4: "team_files d4 ''t'' = (team_files d2 ''t'')\<lparr>tf_events := [?event]\<rparr>"
    by (simp add: d4_def team_files_def update_conv') (simp add: f3 [unfolded team_files_def])
  have read: "ReadTeamTurn panel_access ''t'' ''turn-a-1'' d = (Inr (panel_turn ''a'' TurnPrepared), d)"
    using read_turn [of d "''a''" TurnPrepared] by (simp add: files panel_turn_valid panel_states plain_char_def byte_def)
  have snapshot: "ReadTeamSnapshot panel_access ''t'' d2 = (Inr ?session, d2)"
    by (rule read_session) (simp_all add: f2 files panel_session_valid panel_states plain_char_def byte_def)
  have now: "team_now d = (Inr 0, d1)" "team_now d2 = (Inr 0, d3)"
    using d by (simp_all add: team_now_def d1_def d2_def d3_def)
  have dispatching: "(panel_turn ''a'' TurnPrepared)\<lparr>tu_state := TurnDispatching, tu_updated_at := 0\<rparr> = ?turn"
    by (simp add: panel_turn_def)
  have written: "WriteTeamTurn ?turn d1 = (Inr (), d2)"
    using d files panel_turn_valid [OF panel_states(6), of "''a''"]
    by (simp add: WriteTeamTurn_def next_Inr basic_Inr team_durable_Inr d1_def d2_def)
      (simp add: panel_turn_def team_files_def)
  have "ValidateEvent ?event = Inr ()" by code_simp
  then have append: "AppendTeamEvent panel_access ?event d3 = (Inr (), d4)"
    using files by (simp add: AppendTeamEvent_def appendTeamRecordWithQuota_def next_Inr basic_Inr team_durable_Inr f3 f2 d4_def)
      (simp add: d3_def d2_def)
  have "ReadTeamEvents panel_access ''t'' d2 = (Inr [], d2)"
    using panel_ids(2) files by (simp add: ReadTeamEvents_Inr f2)
  then have "appendTeamEventLocked panel_access ?session EventParticipantEvent ''turn dispatching'' [] ''turn-a-1'' d2 = (Inr (), d4)"
    using now(2) append
    by (simp add: appendTeamEventLocked_def next_step_def panel_session_def boundedDiagnostic_def)
  then have "appendTeamEventLockedFromTurn panel_access ''t'' ?turn EventParticipantEvent ''turn dispatching'' d2 = (Inr (), d4)"
    using snapshot by (simp add: appendTeamEventLockedFromTurn_def next_step_def) (simp add: panel_turn_def)
  then have "dispatch_begin panel_service ''t'' ''turn-a-1'' d = (Inr (Launch ?turn), d4)"
    using read now(1) written dispatching
    by (simp add: dispatch_begin_def Let_def next_step_def panel_service_def ret_def) (simp add: panel_turn_def)
  then show thesis by (rule that) (simp_all add: f4 f2 files)
qed

lemma panel_launch:
  assumes "tf_snapshot (team_files d ''t'') = Some (panel_session ParticipantRunning ParticipantRunning)"
  obtains request where "launch_request panel_access ''t'' (panel_turn ''a'' TurnDispatching) d = (Inr request, d)"
proof -
  have snapshot: "ReadTeamSnapshot panel_access ''t'' d = (Inr (panel_session ParticipantRunning ParticipantRunning), d)"
    by (rule read_session) (simp_all add: assms panel_session_valid panel_states plain_char_def byte_def)
  let ?prompt = "''w'' @ [CHR 0x0A, CHR 0x0A, CHR 0x0A, CHR 0x0A] @ ''Role: a''"
  have prompt: "turnPrompt panel_access ''t'' ''a'' d = (Inr ?prompt, d)"
    using snapshot by (simp add: turnPrompt_def next_step_def attempt_def ret_def)
      (simp add: panel_session_def panel_participant_def)
  have "ValidateStartRequest_xd \<lparr>xr_protocol_version = ProtocolVersion_xd,
      xr_identity = \<lparr>xi_team_id = ''t'', xi_participant_id = ''a'', xi_turn_id = ''turn-a-1''\<rparr>, xr_workspace = ''p'',
      xr_target = ''x'', xr_model_id = ''a'', xr_prompt = ?prompt, xr_sandbox = SandboxReadOnly, xr_max_bytes = int MaxMessageBytes\<rparr> = Inr ()"
  proof -
    have "trim_space ''t'' = ''t''" "trim_space ''a'' = ''a''" "trim_space ''turn-a-1'' = ''turn-a-1''"
      "trim_space ''p'' = ''p''" "trim_space ''x'' = ''x''" "trim_space ?prompt = ?prompt"
      by code_simp+
    then show ?thesis by (simp add: ValidateStartRequest_xd_def ValidateIdentity_xd_def)
  qed
  then show thesis
    using that prompt snapshot
    by (simp add: launch_request_def next_step_def check_def wrap_err_def ret_def panel_turn_def panel_session_def)
qed

end
