(* ===== verification/Team_Properties.thy ===== *)
theory Team_Properties
  imports Team_Samples
begin

section \<open>Properties of the Team service\<close>

text \<open>
  What the panel service promises: a request makes one team, a turn is launched once, every
  participant is heard once; and the places where a stop at the wrong moment leaves a team,
  or all of them, for ever as they are.
\<close>

subsection \<open>Turns\<close>

text \<open>
  C36. A turn is launched at most once. However often a panel is dispatched, cancelled,
  observed and settled, whatever the drivers answer, wherever a part fails or the process
  stops and is started again, no driver is asked twice to run the same turn.
\<close>

theorem turn_launched_at_most_once:
  assumes "panel_mode (core i d)" and reach: "panel_reach svc i requests (panel_start d) s"
  shows "distinct (ps_launches s)"
proof -
  have "launched_once i (panel_start d)"
    using assms(1) by (simp add: launched_once_def panel_start_def)
  with reach have "launched_once i s"
    by (induction rule: rtranclp_induct) (auto intro: panel_step_launched_once)
  then show ?thesis by (simp add: launched_once_def)
qed

theorem turn_launched_at_most_once_witness:
  "\<exists>s. panel_reach panel_service ''t'' {} (panel_start (panel_disk ParticipantRunning ParticipantRunning TurnPrepared TurnPrepared 9)) s
     \<and> ps_launches s = [''turn-a-1''] \<and> distinct (ps_launches s)"
proof -
  let ?d = "panel_disk ParticipantRunning ParticipantRunning TurnPrepared TurnPrepared 9"
  let ?turn = "panel_turn ''a'' TurnDispatching"
  define d1 where "d1 = ?d\<lparr>td_ticks := 1\<rparr>"
  have "dispatch_round panel_service ''t'' (?d\<lparr>td_writes := 9\<rparr>) = (Inr [''turn-a-1'', ''turn-b-1''], d1)"
    using panel_round [of 9] by (simp add: d1_def)
  from step_round [OF this, of "{}" "[]" "[]"]
  have "panel_step panel_service ''t'' {} (panel_start ?d)
      \<lparr>ps_disk = d1, ps_running = [Listed ''turn-a-1'', Listed ''turn-b-1''], ps_launches = []\<rparr>"
    by (simp add: panel_start_def spawned_def)
  moreover obtain d2 where starting: "dispatch_begin panel_service ''t'' ''turn-a-1'' (d1\<lparr>td_writes := 2\<rparr>) = (Inr (Launch ?turn), d2)"
      and snapshot: "tf_snapshot (team_files d2 ''t'') = Some (panel_session ParticipantRunning ParticipantRunning)"
    by (rule panel_begin [of "d1\<lparr>td_writes := 2\<rparr>"]) (simp_all add: d1_def panel_disk_def team_files_def)
  from step_begin [OF starting, of "{}" "[]" "[Listed ''turn-b-1'']" "[]"]
  have "panel_step panel_service ''t'' {} \<lparr>ps_disk = d1, ps_running = [Listed ''turn-a-1'', Listed ''turn-b-1''], ps_launches = []\<rparr>
      \<lparr>ps_disk = d2, ps_running = [Deciding ?turn, Listed ''turn-b-1''], ps_launches = []\<rparr>"
    by (simp add: spawned_def next_goroutines_def)
  moreover obtain request where "launch_request (sv_access panel_service) ''t'' ?turn d2 = (Inr request, d2)"
    using panel_launch [OF snapshot] by (auto simp: panel_service_def)
  from step_launch [OF this, of "{}" "[]" "[Listed ''turn-b-1'']" "[]" "StartFailed ''busy''"]
  have "panel_step panel_service ''t'' {} \<lparr>ps_disk = d2, ps_running = [Deciding ?turn, Listed ''turn-b-1''], ps_launches = []\<rparr>
      \<lparr>ps_disk = d2, ps_running = [Answered ?turn (StartFailed ''busy''), Listed ''turn-b-1''], ps_launches = [''turn-a-1'']\<rparr>"
    by (simp add: panel_turn_def)
  ultimately have reach: "panel_reach panel_service ''t'' {} (panel_start ?d)
      \<lparr>ps_disk = d2, ps_running = [Answered ?turn (StartFailed ''busy''), Listed ''turn-b-1''], ps_launches = [''turn-a-1'']\<rparr>"
    by (meson converse_rtranclp_into_rtranclp rtranclp.rtrancl_refl)
  have "panel_mode (core ''t'' ?d)" by (simp add: panel_mode_def core_def Let_def panel_session_def)
  from turn_launched_at_most_once [OF this reach] reach show ?thesis by force
qed

text \<open>
  C37. Every participant is heard at most once and none is lost. From a new panel, however it
  is dispatched, cancelled, cut off and started again, no turn has two contributions and they
  are numbered without gaps; a turn and a participant that have responded have their
  contribution in the log; and the panel is closed only when no participant is pending or
  running.
\<close>

theorem panel_contributions:
  assumes "new_panel (core i d)" and "panel_reach svc i requests (panel_start d) s"
  shows "let files = team_files (ps_disk s) i; messages = tf_messages files in
      distinct (map tm_turn_id messages) \<and> map tm_sequence messages = [1..<length messages + 1]
    \<and> (\<forall>t u. map_of (tf_turns files) t = Some u \<and> tu_state u = TurnResponded \<longrightarrow> t \<in> tm_turn_id ` set messages)
    \<and> (\<forall>team. tf_snapshot files = Some team \<longrightarrow>
         (\<forall>p \<in> set (ts_participants team). pt_state p = ParticipantResponded \<longrightarrow> pt_current_turn p \<in> tm_turn_id ` set messages)
       \<and> (ts_state team = LifecycleClosed \<longrightarrow> \<not> list_ex unsettled (ts_participants team)))"
proof -
  have "contributions_ok (core i (ps_disk s))"
    using specs_contributions [OF panel_reach_refines [OF assms(2)]] new_panel_ok [OF assms(1)]
    by (simp add: panel_start_def)
  then show ?thesis
    unfolding contributions_ok_def answered_def core_def Let_def by (auto simp del: upt_Suc)
qed

definition fresh_session :: TeamSessionV1 where
  "fresh_session = (panel_session ParticipantPending ParticipantPending)\<lparr>ts_state := LifecycleCreated, ts_state_version := 1,
     ts_participants := map (\<lambda>i. (panel_participant i ParticipantPending)\<lparr>pt_current_turn := ''''\<rparr>) [''a'', ''b'']\<rparr>"

definition fresh_disk :: TeamDisk where
  "fresh_disk = \<lparr>td_teams = [(''t'', no_files\<lparr>tf_snapshot := Some fresh_session\<rparr>)], td_writes = 9, td_clock = (\<lambda>_. 0), td_ticks = 0\<rparr>"

theorem panel_contributions_witness:
  "let files = team_files (snd (dispatch_round panel_service ''t'' fresh_disk)) ''t''; messages = tf_messages files in
     distinct (map tm_turn_id messages) \<and> map tm_sequence messages = [1..<length messages + 1]"
proof -
  have "new_panel (core ''t'' fresh_disk)"
    by (simp add: new_panel_def core_def Let_def fresh_disk_def team_files_def no_files_def fresh_session_def panel_session_def
        panel_participant_def)
  moreover obtain r d where round: "dispatch_round panel_service ''t'' fresh_disk = (r, d)" by fastforce
  then have "dispatch_round panel_service ''t'' (fresh_disk\<lparr>td_writes := 9\<rparr>) = (r, d)" by (simp add: fresh_disk_def)
  from step_round [OF this, of "{}" "[]" "[]"]
  have "panel_reach panel_service ''t'' {} (panel_start fresh_disk)
      \<lparr>ps_disk = d, ps_running = spawned (map Listed) r, ps_launches = []\<rparr>"
    by (simp add: panel_start_def r_into_rtranclp)
  ultimately show ?thesis
    using panel_contributions by (fastforce simp: Let_def round simp del: upt_Suc)
qed

text \<open>
  C40. The end of the last turn of a panel is three durable steps, and only together they close
  it. If the turn fails and the process stops after one or two of them, the turn is over and
  the panel is still running: later dispatches find no turn to run, so without a cancellation
  its snapshot stays as it is and no driver is asked for it again, for ever. With all three
  steps the panel is closed as settled.
\<close>

theorem interrupted_settlement_never_closes:
  assumes turn: "ReadTeamTurn tx i t d = (Inr u, d)" "tu_state u \<in> {TurnPrepared, TurnDispatching, TurnActive}"
    and team: "ReadTeamSnapshot tx i d = (Inr team, d)" "ts_mode team = ModePanel"
    and last: "\<exists>p \<in> set (ts_participants team). pt_id p = tu_participant_id u"
      "\<forall>p \<in> set (ts_participants team). pt_current_turn p \<noteq> '''' \<and> (pt_id p \<noteq> tu_participant_id u \<longrightarrow> \<not> unsettled p)"
      "\<forall>t' u'. t' \<noteq> t \<and> map_of (tf_turns (team_files d i)) t' = Some u' \<longrightarrow> turn_ended (tu_state u')"
    and state: "state \<in> {TurnFailed, TurnIndeterminate}"
    and mark: "markTurnFailureLocked tx i t state diagnostic d = (r, d')"
  shows "(td_writes d \<in> {1, 2} \<and> panel_reach svc i {} (panel_start d') s \<longrightarrow>
        tf_snapshot (team_files (ps_disk s) i) = Some team \<and> ps_launches s = [])
    \<and> (td_writes d \<ge> 3 \<longrightarrow> (\<exists>closed. tf_snapshot (team_files d' i) = Some closed
        \<and> ts_state closed = LifecycleClosed \<and> ts_close_reason closed = ClosePanelSettled))"
proof (intro conjI impI)
  assume few: "td_writes d \<in> {1, 2} \<and> panel_reach svc i {} (panel_start d') s"
  then have writes: "td_writes d \<noteq> 0" "td_writes d \<le> 2" by auto
  obtain v d1 where settle: "markTurnFailureLocked tx i t state diagnostic d =
      settle_turn tx i v (\<lambda>p. p\<lparr>pt_state := failed_participant state\<rparr>) (tu_diagnostic v) d1"
    and v: "tu_state v = state" "tu_participant_id v = tu_participant_id u" "tf_snapshot (team_files d1 i) = tf_snapshot (team_files d i)"
      "core i d1 = (core i d)\<lparr>pc_turns := (pc_turns (core i d))(t \<mapsto> v)\<rparr>" "td_writes d1 = td_writes d - 1"
    by (rule mark_writes_turn [OF turn state writes(1)])
  have snapshot: "tf_snapshot (team_files d i) = Some team" using team(1) by (simp add: ReadTeamSnapshot_Inr)
  have "core i (snd (settle_turn tx i v (\<lambda>p. p\<lparr>pt_state := failed_participant state\<rparr>) (tu_diagnostic v) d1)) = core i d1"
    by (rule settle_starved [of d1 i team]) (use v snapshot last(1) writes(2) in simp_all)
  then have core: "core i d' = (core i d)\<lparr>pc_turns := (pc_turns (core i d))(t \<mapsto> v)\<rparr>"
    using settle mark v(4) by (metis snd_conv)
  have "idle (core i d')"
    unfolding idle_def core
    using last(2,3) state v(1) snapshot by (auto simp: core_def Let_def turn_ended_def split: if_splits)
  from panel_reach_idle [OF conjunct2 [OF few] this]
  have "core i (ps_disk s) = core i d'" "only_listed s" by simp_all
  then show "tf_snapshot (team_files (ps_disk s) i) = Some team" "ps_launches s = []"
    using core snapshot by (auto simp: core_def Let_def only_listed_def)
next
  assume enough: "td_writes d \<ge> 3"
  then have "td_writes d \<noteq> 0" by simp
  obtain v d1 where settle: "markTurnFailureLocked tx i t state diagnostic d =
      settle_turn tx i v (\<lambda>p. p\<lparr>pt_state := failed_participant state\<rparr>) (tu_diagnostic v) d1"
    and v: "tu_participant_id v = tu_participant_id u" "tf_snapshot (team_files d1 i) = tf_snapshot (team_files d i)"
      "td_writes d1 = td_writes d - 1"
    by (rule mark_writes_turn [OF turn state \<open>td_writes d \<noteq> 0\<close>])
  have "ReadTeamSnapshot tx i d1 = (Inr team, d1)" using team(1) v(2) by (simp add: ReadTeamSnapshot_Inr)
  note completes = settle_completes [OF this team(2), of "\<lambda>p. p\<lparr>pt_state := failed_participant state\<rparr>" v "tu_diagnostic v"]
  have "snd (settle_turn tx i v (\<lambda>p. p\<lparr>pt_state := failed_participant state\<rparr>) (tu_diagnostic v) d1) = d'"
    using settle mark by (metis snd_conv)
  moreover have "2 \<le> td_writes d1" using enough v(3) by simp
  ultimately
  obtain now where closed: "pc_snapshot (core i d') = Some (let ps = change_where (\<lambda>p. pt_id p = tu_participant_id v)
        (\<lambda>p. p\<lparr>pt_state := failed_participant state\<rparr>) (ts_participants team) in
      fst (settleTerminalRound (team\<lparr>ts_participants := ps, ts_state_version := ts_state_version team + 1, ts_updated_at := now\<rparr>)
        (\<not> list_ex unsettled ps)))"
    using completes participant_state_valid [OF _ failed_participant_valid] by auto
  have "\<not> list_ex unsettled (change_where (\<lambda>p. pt_id p = tu_participant_id v)
      (\<lambda>p. p\<lparr>pt_state := failed_participant state\<rparr>) (ts_participants team))"
    using last(2) v(1) by (auto simp: list_ex_iff change_where_def unsettled_def failed_participant_def)
  with closed team(2) show "\<exists>closed. tf_snapshot (team_files d' i) = Some closed
        \<and> ts_state closed = LifecycleClosed \<and> ts_close_reason closed = ClosePanelSettled"
    by (simp add: core_def Let_def settleTerminalRound_def)
qed

text \<open>The first participant has failed and the turn of the second is running.\<close>

definition last_turn_disk :: "nat \<Rightarrow> TeamDisk" where
  "last_turn_disk = panel_disk ParticipantFailed ParticipantRunning TurnFailed TurnActive"

theorem interrupted_settlement_never_closes_witness:
  "tf_snapshot (team_files (snd (markTurnFailureLocked panel_access ''t'' ''turn-b-1'' TurnFailed ''lost'' (last_turn_disk 1))) ''t'')
      = Some (panel_session ParticipantFailed ParticipantRunning)
   \<and> (\<exists>closed. tf_snapshot (team_files (snd (markTurnFailureLocked panel_access ''t'' ''turn-b-1'' TurnFailed ''lost'' (last_turn_disk 3))) ''t'')
      = Some closed \<and> ts_state closed = LifecycleClosed)"
proof -
  let ?team = "panel_session ParticipantFailed ParticipantRunning"
  have turn: "ReadTeamTurn panel_access ''t'' ''turn-b-1'' (last_turn_disk w) = (Inr (panel_turn ''b'' TurnActive), last_turn_disk w)" for w
    using read_turn [of "last_turn_disk w" "''b''" TurnActive]
    by (simp add: last_turn_disk_def panel_turn_valid panel_states plain_char_def byte_def)
  have team: "ReadTeamSnapshot panel_access ''t'' (last_turn_disk w) = (Inr ?team, last_turn_disk w)" for w
    by (rule read_session) (simp_all add: last_turn_disk_def panel_session_valid panel_states plain_char_def byte_def)
  have facts: "tu_state (panel_turn ''b'' TurnActive) \<in> {TurnPrepared, TurnDispatching, TurnActive}" "ts_mode ?team = ModePanel"
    "\<exists>p \<in> set (ts_participants ?team). pt_id p = tu_participant_id (panel_turn ''b'' TurnActive)"
    "\<forall>p \<in> set (ts_participants ?team). pt_current_turn p \<noteq> [] \<and> (pt_id p \<noteq> tu_participant_id (panel_turn ''b'' TurnActive) \<longrightarrow> \<not> unsettled p)"
    by (simp_all add: panel_session_def panel_turn_def panel_participant_def unsettled_def)
  have ended: "\<forall>t' u'. t' \<noteq> ''turn-b-1'' \<and> map_of (tf_turns (team_files (last_turn_disk w) ''t'')) t' = Some u' \<longrightarrow> turn_ended (tu_state u')" for w
    by (simp add: last_turn_disk_def panel_turn_def turn_ended_def)
  note applied = interrupted_settlement_never_closes [OF turn facts(1) team facts(2-4) ended, of TurnFailed "''lost''" _ _ _ panel_service]
  have writes: "td_writes (last_turn_disk w) = w" for w by (simp add: last_turn_disk_def)
  obtain r d where stopped: "markTurnFailureLocked panel_access ''t'' ''turn-b-1'' TurnFailed ''lost'' (last_turn_disk 1) = (r, d)"
    by fastforce
  obtain r3 d3 where all: "markTurnFailureLocked panel_access ''t'' ''turn-b-1'' TurnFailed ''lost'' (last_turn_disk 3) = (r3, d3)"
    by fastforce
  have "tf_snapshot (team_files d ''t'') = Some ?team"
    using applied [OF _ stopped, of "panel_start d"] by (simp add: writes) (simp add: panel_start_def)
  moreover have "\<exists>closed. tf_snapshot (team_files d3 ''t'') = Some closed \<and> ts_state closed = LifecycleClosed"
    using applied [OF _ all, of "panel_start d3"] by (auto simp: writes)
  ultimately show ?thesis unfolding stopped all by simp
qed

subsection \<open>Starting teams\<close>

text \<open>
  C38. A request makes at most one team. Whatever calls of Start are made one after the other,
  each cut off after any number of durable steps, and whatever IDs are drawn, the teams that
  they report as new have different client request IDs, and none of these is the ID of a team
  that was there before.
\<close>

theorem one_team_per_request:
  "distinct (map ts_client_request_id (created (starts svc calls d)))
     \<and> ts_client_request_id ` set (created (starts svc calls d)) \<inter> {c. claimed d c} = {}"
  using starts_created [of svc calls d] by blast

text \<open>
  C39. A start that stops between the directory of its team and the snapshot leaves a team
  that cannot be read, and every later Start looks at it first: no call, with any request and
  however often it is tried, ever creates a team again.
\<close>

theorem interrupted_start_blocks_new_teams:
  assumes "safeID fresh" "fresh \<notin> team_dirs d" "participantCost svc ps catalogHash \<le> sr_cost_grant n"
    and "td_writes d = 1" and "create_team svc fresh n project digest ps catalogHash d = (r, d')"
  shows "created (starts svc calls d') = []"
  using create_team_interrupted [OF assms(1-4), of project digest] assms(5) by (intro starts_orphan) simp

definition panel_request :: TeamStartRequestV1 where
  "panel_request = \<lparr>sr_schema_version = TeamSchemaVersion, sr_client_request_id = ''r'', sr_project = ''p'', sr_mode = ModePanel,
     sr_topic = ''w'', sr_instructions = [], sr_participants = [], sr_cost_grant = 1\<rparr>"

theorem interrupted_start_blocks_new_teams_witness:
  "created (starts panel_service [(''v'', panel_request, 9), (''x'', panel_request, 9)]
      (snd (create_team panel_service ''u'' panel_request ''p'' zeros [] zeros
        (panel_disk ParticipantRunning ParticipantRunning TurnPrepared TurnPrepared 1)))) = []"
proof -
  let ?d = "panel_disk ParticipantRunning ParticipantRunning TurnPrepared TurnPrepared 1"
  obtain r d' where d': "create_team panel_service ''u'' panel_request ''p'' zeros [] zeros ?d = (r, d')" by fastforce
  have "safeID ''u''" by code_simp
  moreover have "''u'' \<notin> team_dirs ?d" by (simp add: team_dirs_def panel_disk_def)
  moreover have "participantCost panel_service [] zeros \<le> sr_cost_grant panel_request"
    by (simp add: participantCost_def panel_service_def panel_catalog_def panel_request_def)
  ultimately show ?thesis
    using interrupted_start_blocks_new_teams [OF _ _ _ _ d', of "[(''v'', panel_request, 9), (''x'', panel_request, 9)]"] d' by simp
qed

subsection \<open>Events\<close>

text \<open>
  The failure of a launched turn is not in the event log: the event that announced the launch
  has the same type, turn and message, so the one with the diagnostic is taken for a
  repetition and dropped.
\<close>

theorem launched_failure_not_logged:
  assumes "dispatch_begin svc i t d0 = (Inr (Launch v), d1)" "set (tf_events (team_files d1 i)) \<subseteq> set (tf_events (team_files d i))"
    and "ReadTeamTurn (sv_access svc) i t d = (Inr u, d)" "tu_contribution u = tu_contribution v"
  shows "events_of i t (snd (markTurnFailureLocked (sv_access svc) i t state diagnostic d)) = events_of i t d"
proof -
  obtain e where "e \<in> set (tf_events (team_files d i))" "te_type e = EventParticipantEvent" "te_turn_id e = t"
    "te_message_id e = tu_contribution u"
    using launched_event [OF assms(1)] assms(2,4) by (metis subsetD)
  then show ?thesis by (rule mark_logs_nothing [OF assms(3)])
qed

end
