(* ===== verification/Spec2Isabelle.thy ===== *)
theory Spec2Isabelle
  imports Routing_Properties Workflow_Properties Contract_Properties Context_Properties Run_Properties Run_Action_Properties Run_Context_Properties Context_Delivery Memory_Properties Team_Properties
begin

text \<open>
  The workflow engine of Fishyume, the Go module below src/wf-engine. Paths below are
  relative to src/wf-engine/internal.

  \<^bold>\<open>The program.\<close> A workflow is a graph of nodes, each a task for a coding agent or an
  approval. The engine parses and validates a document (package workflow), starts a run of
  it (package run) and drives the run: it decides which nodes may start, resolves for each
  Attempt a model within a budget (package routing), compiles the context the agent gets
  from instructions, answers, results of other nodes and long-term Memory (package
  contextcompiler), hands the Attempt to a driver through two contracts (packages backend and
  agent, joined by driver/scheduleradapter), and records everything in files (package store),
  from which a run can be resumed, cancelled or acted upon after a crash at any point. Beside
  the runs there are teams (package team): a panel of two to four agents is asked about one
  topic, each in one turn through the port of package explorationdriver, and closed when every
  turn has ended.

  \<^bold>\<open>How the theories follow the code.\<close> A definition has the name of the Go function or
  type it models where Isabelle allows it; definitions with underscores are loops and parts
  of a function, named in the comments. The conventions are in Prelude: Go strings are lists
  of bytes, compared byte-wise; a Go map is an association list whose order stands for the
  iteration order, so that what is proved holds for every order; a function with an error
  result returns a sum, the error on the left; \<^verbatim>\<open>sort.Slice\<close> is an
  insertion sort by the given comparison. Integers are unbounded where a check bounds them and
  wrapped at their width where the code can overflow them.

  \<^item> Text: Json\_Text (UTF-8, decimal numbers, the encoder of encoding/json), Json\_Valid (its
    scanner as a state machine), Json\_Decode (decoding and canonical encoding), Json\_Emit and
    Json\_Suffix (what the encoder writes is accepted, a cut suffix of an object is not),
    Json\_Indent (the indented form of files).
  \<^item> Routing: Routing\_Contract (routing/contract.go), Routing\_Resolver (resolver.go,
    defaults.go, product\_policy.go), Routing\_Catalog (catalog.go, catalog\_registry.go,
    execution\_profile.go), Routing\_Accounting (accounting.go).
  \<^item> Workflows: Workflow\_Model and Workflow\_Graph (workflow/model.go), Workflow\_Template
    (template.go and the conditions of validate.go), Workflow\_Validate (validate.go, parse.go).
  \<^item> Contracts of an Attempt: Agent\_Contract (agent/contract.go), Backend\_Contract
    (backend, driver/scheduleradapter).
  \<^item> Context: Context\_Contract (contextcompiler/contract\_v2.go), Context\_Sources
    (source\_registry\_v2.go and the Memory records), Context\_Compiler (compiler\_v2.go), Context\_Adapter
    (adapter\_v2.go), Run\_Context (run/context\_assembly.go), with the lemmas of
    Context\_Allocation and Context\_Delivery.
  \<^item> Steps on files that can fail or be stopped, with their weakest preconditions: Steps, used by
    the runs and the teams.
  \<^item> Runs: Run\_Lifecycle (run/lifecycle.go and its compatibility files), Run\_Scheduler
    (scheduler.go, aggregation.go), Run\_Routing (routing.go), Run\_Store (store/json\_store.go
    for one run and the persistence of service.go), Run\_Actions (actions and intents of
    service.go), Run\_Controller (parallel\_launch.go, reconcile.go and the commits of
    service.go), Run\_Cancellation (cancellation.go), with the lemmas of Run\_Planning,
    Run\_Recovery, Run\_Decisions, Run\_Soundness and Run\_Commits.
  \<^item> Memory: Memory\_Catalog and Memory\_Operations (store/memory\_catalog.go), with the lemmas of
    Memory\_Facts, Memory\_Mutation, Memory\_Laws, Memory\_Requests, Memory\_History and
    Memory\_Listing.
  \<^item> Teams: Exploration\_Contract (explorationdriver/contract.go), Team\_Contract
    (teamcontract/contract.go), Team\_Store (store/team\_store.go), Team\_Panel (starting a team,
    events and the end of a turn in team/service.go), Team\_Dispatch (the turns of a panel, and
    its cancellation in team/public.go), with the lemmas of Team\_Spec (an abstract panel that
    every operation refines), Team\_Runs, Team\_Settlement, Team\_Events and Team\_Starts, and the
    concrete panel of Team\_Samples.

  \<^bold>\<open>State.\<close> The files of a run are one record (\<open>RunFiles\<close>) of what they decode to, the
  Memory catalogs a map from the hash of a project to its catalog. A durable step (a file
  replaced, an event appended) happens as a whole or not at all. A run is stopped at any point
  by a budget of steps that still succeed (\<open>rf_writes\<close>), a Memory operation by a
  \<open>StoreFault\<close>; the theorems about crashes quantify over all of them. Handlers that hold the
  lock of the service are single steps, and concurrency is their arbitrary sequence: the
  commits of controller and cancellation form the step relation of Run\_Control\_Properties.
  The teams are one record (\<open>TeamDisk\<close>) of the directories of all teams with a budget of durable
  steps (\<open>td_writes\<close>) of the same kind. A turn of a panel is a goroutine cut where it leaves the
  mutex to wait for its driver; \<open>panel_step\<close> (Team\_Runs) lets any goroutine, dispatch or
  cancellation of a panel go on, be cut off, or die with the process.

  \<^bold>\<open>Interfaces.\<close> \<open>go_less\<close> and \<open>go_total_less\<close> (Prelude) are the contract of a
  comparison given to \<^verbatim>\<open>sort.Slice\<close>, interpreted on every comparison the code sorts by;
  \<open>catalog_provider\<close> (Routing\_Catalog) is what the run service relies on in
  \<^verbatim>\<open>routing.CatalogProvider\<close>, interpreted on the registry;
  \<open>backend_registry\<close> (Backend\_Contract) is the contract of the registry of back ends;
  \<open>memory_mutation\<close> (Memory\_Laws) is the contract between \<^verbatim>\<open>mutateMemory\<close> and the
  change it runs, interpreted on create, supersede, delete and consume (Memory\_Requests).
  Parameters of the model, never definitions, are what is not in the repository:
  SHA-256, \<^verbatim>\<open>time.Parse\<close> and the clock, the file system, the drivers, the conversion of
  decimals to 64-bit floats. What is assumed of them stands in the theorems.
\<close>

text \<open>
  \<^bold>\<open>What the theorems show.\<close> The properties are numbered C1 to C40 in the theories whose
  names end in Properties, and in Context\_Delivery.

  \<^item> Routing\_Properties: the resolver picks the best fitting model and succeeds exactly when one
    fits and the fallbacks are distinct, never beyond the granted budget; reservations add up
    and stay within the budget; a decision can be reserved in the registry it came from. A
    further theorem shows that the compiled-in Team catalog is refused with fallback.
  \<^item> Workflow\_Properties: \<open>Validate\<close> returns the least topological order, for every order of
    the node map; cycles and missing dependencies are what fails; for a validated condition or
    template the only possible errors are the listed ones, each naming the result field or
    input of an ancestor that is not there. Normalisation is idempotent; what it and a reload lose,
    and a path the check admits, are stated as they are.
  \<^item> Context\_Properties: the compiler puts every source in the envelope or in the omissions,
    keeps each budget, fails only for the reasons listed, does not depend on the order of
    the sources, and shares a budget fairly. Run\_Context\_Properties and Context\_Delivery show two
    ways in which an admissible workflow cannot be launched.
  \<^item> Contract\_Properties: where the contracts of drivers and of the scheduler agree, and the two
    places where they do not.
  \<^item> Run\_Properties: \<open>PlanSchedule\<close> refines a verdict for each node (Run\_Planning) and fails
    exactly when a limit is out of range or a node has no verdict; it starts only enabled nodes,
    within its capacity, puts no node into two lists, and never stalls; aggregation keeps snapshots valid and
    concludes a run as specified.
  \<^item> Run\_Action\_Properties: an approval or a rejection takes effect exactly once, after any number
    of crashes; a durable plan without raw answers is completed by a later handling; the replay
    of an answer is not possible.
  \<^item> Run\_Control\_Properties: after any sequence of commits of controller and cancellation, each
    stopped anywhere, the run can be loaded, provided no fallback is pending; what happens
    otherwise, and after a launch that was interrupted, is stated as well.
  \<^item> Memory\_Properties: a Memory mutation takes effect once and is then replayed; a record only
    moves forward in its life; a listing by pages is complete; no accepted mutation leaves
    a catalog that does not validate.
  \<^item> Team\_Properties: a turn of a panel is launched at most once and contributes at most once, none
    of what was said is lost, and a request makes at most one team, wherever the process stops;
    and two stops after which a panel, or every later start, is stuck.

  \<^bold>\<open>Bounds and fuel.\<close> Loops of the code are structural recursions or functions with a measure;
  none is cut short. The budget of durable steps is the exception by design: the seven steps of
  an approval and the steps of a planned action are counted, and the theorems say that a
  handling with that many completes. The listing of Memory has fuel for one page more than
  there are records, and ends within it. A receipt survives 4095 later mutations of its catalog,
  the bound the code keeps.

  \<^bold>\<open>Not modelled.\<close>
  \<^item> Operating-system primitives: file locks, leases, process probes, atomic replacement
    (store/lease.go and platform files), the processes and pipes of the Codex drivers
    (driver), the socket and JSON-RPC servers (controlplane, rpc), the command (cmd).
    Their contracts enter as atomic steps, faults and parameters.
  \<^item> Goroutines, heartbeats and polling: a controller is the sequence of its commits.
  \<^item> Decoding of files into snapshots (reflection of encoding/json, YAML): files are what
    they decode to, except where the bytes matter (raw answers, results, numbers).
  \<^item> In modelled packages: starting a run and recovering all runs (run/service.go), the path
    for one node at a time that the batches replaced, the compiler of version 1, the
    evaluation corpus, the loading of routing catalogs from files; of the teams the session mode
    with its follow-ups, the service of handoffs, the views and their pages, the loop of Recover,
    and contexts that are cancelled.
  \<^item> Further packages: application (requests and their journal over the run service),
    routingconfig, sessiondriver, execution; and the TypeScript clients (src/wf, src/fishyume-web). They use the
    components above and are the next to model.
\<close>

end
